(* ===== verification/Prelude.thy ===== *)
theory Prelude
  imports Main "HOL-Library.Monad_Syntax" "HOL-Library.AList" "HOL-Library.Char_ord"
    "HOL-Library.List_Lexorder"
begin

text \<open>
  Shared vocabulary of the development: the result type that models \<^verbatim>\<open>anyhow::Result\<close>,
  the error values of every component, Rust's checked and saturating \<^verbatim>\<open>u64\<close> arithmetic, the
  iterator combinators the code uses (\<^verbatim>\<open>try_fold\<close>, \<^verbatim>\<open>collect\<close> into a
  result, checked indexing), ordered maps, and the generic lemmas on them that the component
  theories rely on through the collections \<open>result_simps\<close> and \<open>checked_simps\<close>.
\<close>

named_theorems result_simps \<open>inversion of successful result computations\<close>
named_theorems checked_simps \<open>inversion of checked arithmetic\<close>

section \<open>Errors\<close>

text \<open>
  One constructor per \<^verbatim>\<open>bail!\<close>, \<^verbatim>\<open>context\<close> or panic site (sites with the
  same message share one), grouped by the function that raises them. Errors of third-party
  calls, which the code only forwards with \<^verbatim>\<open>?\<close>, are the constructors of
  \<open>lib_error\<close> (Bitcoin libraries) and \<open>ext_error\<close> (everything else).
\<close>

datatype lib_error =
    DescriptorError | AddressError | KeyParseError | PsbtCreateError | PsbtUpdateError
  | SighashError | PsbtParseError | FinalizeError | ExtractError | TxidParseError

datatype ext_error =
    JsonError | KeyDerivationError | MnemonicError | EncryptError | DecryptError | PgpError
  | WalletError | BackendError | Utf8Error | Base64Error | ClockError

datatype tx_error =
    InputPrevoutMismatch | PsbtPartition | NoLiveControllers | RevocationScript
  | RevocationOverflow | RevocationFeeOverflow | RevocationCannotPay | RevocationDust
  | VsizePartition | VsizeNoRole | NotTaproot | NoControlBlock | LeafMissing

datatype sign_error =
    SignIndexOutOfRange | SignKeyNotInInput | SignKeyNotAuthorized | NotTaprootSighash
  | VerifyIndexOutOfRange | MissingSignature | NonDefaultSignature | InvalidSignature
  | MustUseDefaultSighash

datatype package_error =
    UnsupportedPackage | WorkspaceNotEmpty | PackageSetMismatch | UnsafePsbtPath

datatype propose_error =
    NoVaultUtxos | BatchDirNotEmpty | PhoneKeyMismatch | InputOutsideVault
  | InputOutsideController | InputTotalOverflow | EmergencyDust | EmergencyOverflow
  | EmergencyReserveOverflow | MonthlyDust | RolloverRequirementOverflow
  | CannotPayRollover | CannotFundEmergency | DustRemainder

datatype chain_error =
    StepExceedsU8 | ChainSourceMissing | ChainOutputMissing | ConnectorMissing
  | ChainCannotFund | DustChainOutput | ChainNotExhausted | EmergencyConnectorMissing
  | ChainValueOverflow | EmergencyUnfunded | StagingDust | RemainderCannotFund
  | VaultChangeDust | DelayNotRepresentable | OutputSumOverflow | IndexExceedsUsize

datatype rollover_error =
    NotApproved | ManifestOrNetwork | PolicyMismatch | FeeRateMismatch | AllowanceCount
  | ControllerMismatch | RolloverMismatch | InputPartition | RoleWitnessMissing
  | RoleScriptMismatch | RoleSumOverflow | RolloverTotalOverflow | RolloverOutputsExceed
  | RolloverAmountMismatch | RolloverFeeRate | RolloverIndexes

datatype allowance_error =
    RolloverAllowanceOutput | RolloverRemainder | ConnectorVoutRange | ConnectorOutput
  | AllowanceMetadata | AllowanceAuthorization | AllowanceExceeds | AllowanceNextHop
  | AllowanceDiscontinuous | FinalAllowance | AllowanceFeeRate

datatype emergency_error =
    EmergencyDisabledPresent | EmergencyMissing | EmergencyMetadata
  | TriggerConnectorMetadata | TriggerPolicy | WithdrawalConnectorMetadata
  | TriggerFeeRate | WithdrawalPolicy | WithdrawalFeeRate

datatype child_error =
    ChildSpends | ChildWitnessMissing | ChildConnectorPolicy | ChildInputOverflow
  | ChildOutputsExceed | ChildFeeMismatch | InvalidBatchSignature | InputCannotFinalize
  | RolloverControllerFinalize

datatype storage_error =
    ReadFailed | WriteFailed | CreateDirFailed | RemoveFailed | RenameFailed
  | AlreadyInitialized | UnsupportedNetwork | NetworkMismatch | PublicMetadataMismatch
  | OutsideBase

datatype device_error =
    UnsupportedKeyNetwork | KeyIndexTooLarge | BlobVersion | BlobPurpose
  | HwwAlreadyInitialized | PhoneAlreadyInitialized | PhoneOtherNetwork | HwwKeyMismatch
  | DecryptedBackupMismatch | LegacyBackupInvalid

datatype sweep_error =
    NothingMature | NoUtxosToSweep | SweepNeedsBothSignatures | SweepNotApproved
  | SweepUnsupported | SweepPolicyMismatch | SweepTxMismatch | SweepWitnessMissing
  | SweepOutsideVault | SweepOverflow | SweepOutputsExceed | SweepFeeMismatch | CannotPaySweep

datatype social_error =
    PayloadPhoneMismatch | PayloadMismatch | PayloadMnemonicMismatch | InvalidSymmetricKey
  | FriendExists | NoFriendWrapper | NoEncryptionSubkey | EmptyFriendName | FriendListForged
  | UnsupportedBackup | PayloadInvalid | FriendKeyInvalid

datatype rotate_error =
    RotationUnsupported | RotationVaultMismatch | RotationNetwork | RotationKeyMismatch
  | RotationDestination | RotationPolicyDisabled | RotationPolicyMissing | RenewalDiffers
  | RotationNoOutput | RenewalRolloverMissing | RenewalNotChained | PendingInvalid
  | PendingNotVanity | RotationBackupMissing | RotationApprovalMissing | RotationAddresses
  | VanityRotationNetwork | VanityAddressChanged | HotSweepDestination | ControllerChangeAddress

datatype sent_transaction =
    \<comment> \<open>what a message about a broadcast says was sent\<close>
    RolloverSent | EmergencySent | RevocationSent | AuthorizationSent | SoftLimitSent | CooperativeSweepSent
  | HotSweepSent | ControllerRevocationSent

datatype hot_error =
    NotPolicyBackup | BackupRolloverMismatch | EpochSuperseded | UnexpectedTxid sent_transaction
  | EmergencyDisabled | DynamicCancellation | ActionMetadataMismatch | StepMissing
  | DecryptedTxidMismatch | ControllerStateMismatch | ScheduleController | ScheduleVersion
  | PhoneKeyExists | PhonePackageMismatch | BackendNetwork | SoftLimitTooHigh
  | HotOutputMissing | BdkNotFinalized | ZeroPayment | BroadcastFailed sent_transaction | ArchiveFailed
  | ScheduleFailed | LimitsFailed

datatype backend_error =
    NoServers | NoServerReachable | ServerUrl | ServerGenesis | WrongGenesis | ElectrumNetwork
  | ScanNetwork | QueryFailed | ScanIncomplete | CoreNetwork | SubmitFailed

datatype vanity_error =
    VanityNetwork | NoWorkers | HwwFirst | HwwMetadata | SameNetwork | NoVanityMatch
  | VanityNotReproduced | SuffixLength | NotBech32

datatype recovery_error = Sweep sweep_error | Soc social_error

datatype wallet_error = Hot hot_error | Rotate rotate_error | Vanity vanity_error | Backend backend_error

datatype command_error =
    MainnetLocked | VaultIsRegtest | UnsupportedVaultNetwork | UnsupportedCoreNetwork | YesRequired | ApprovalDeclined
  | NowOnMainnet | TimestampInvalid | ApprovalsMissing | NodeOnMainnet | PhoneRecoveryTxid
  | HwwRecoveryTxid | EmergencyAccessTxid | RevocationTxid | NoConnectors
  | SameKeyPaths | EmergencyMetadataMissing

datatype error =
    Lib lib_error | Ext ext_error | Tx tx_error | Sign sign_error | Pkg package_error
  | Propose propose_error | Chain chain_error | Roll rollover_error | Allow allowance_error
  | Emerg emergency_error | Child child_error | Sto storage_error | Dev device_error
  | Recov recovery_error | Wal wallet_error | Cmd command_error
  | Panic \<comment> \<open>an indexing or \<^verbatim>\<open>unwrap\<close> that would abort the process\<close>

type_synonym 'a result = "error + 'a"

section \<open>Result combinators\<close>

definition bind_result :: "'e + 'a \<Rightarrow> ('a \<Rightarrow> 'e + 'b) \<Rightarrow> 'e + 'b" where
  \<comment> \<open>the \<^verbatim>\<open>?\<close> operator\<close>
  "bind_result m f = (case m of Inl e \<Rightarrow> Inl e | Inr x \<Rightarrow> f x)"

definition ok_or :: "'a option \<Rightarrow> 'e \<Rightarrow> 'e + 'a" where
  \<comment> \<open>\<^verbatim>\<open>Option::context\<close>\<close>
  "ok_or m e = (case m of None \<Rightarrow> Inl e | Some x \<Rightarrow> Inr x)"

definition map_err :: "'a result \<Rightarrow> error \<Rightarrow> 'a result" where
  \<comment> \<open>\<^verbatim>\<open>Result::context\<close>: the outermost message of the error is replaced\<close>
  "map_err m e = (case m of Inl _ \<Rightarrow> Inl e | Inr x \<Rightarrow> Inr x)"

definition is_ok :: "'e + 'a \<Rightarrow> bool" where
  "is_ok m = (case m of Inl _ \<Rightarrow> False | Inr _ \<Rightarrow> True)"

fun try_fold :: "('s \<Rightarrow> 'a \<Rightarrow> 'e + 's) \<Rightarrow> 's \<Rightarrow> 'a list \<Rightarrow> 'e + 's" where
  "try_fold f s [] = Inr s"
| "try_fold f s (x # xs) = bind_result (f s x) (\<lambda>s'. try_fold f s' xs)"

fun try_map :: "('a \<Rightarrow> 'e + 'b) \<Rightarrow> 'a list \<Rightarrow> 'e + 'b list" where
  "try_map f [] = Inr []"
| "try_map f (x # xs) =
     bind_result (f x) (\<lambda>y. bind_result (try_map f xs) (\<lambda>ys. Inr (y # ys)))"

definition index :: "'a list \<Rightarrow> nat \<Rightarrow> 'a result" where
  \<comment> \<open>\<^verbatim>\<open>xs[i]\<close>: out of range is a panic\<close>
  "index xs i = (if i < length xs then Inr (xs ! i) else Inl Panic)"

fun try_any :: "('a \<Rightarrow> 'e + bool) \<Rightarrow> 'a list \<Rightarrow> 'e + bool" where
  \<comment> \<open>\<^verbatim>\<open>iter().any(..)\<close> with a body that may panic: it stops at the first hit\<close>
  "try_any f [] = Inr False"
| "try_any f (x # xs) = bind_result (f x) (\<lambda>b. if b then Inr True else try_any f xs)"

definition or_else :: "'e + bool \<Rightarrow> 'e + bool \<Rightarrow> 'e + bool" where
  \<comment> \<open>the short-circuit \<^verbatim>\<open>||\<close>\<close>
  "or_else a b = bind_result a (\<lambda>x. if x then Inr True else b)"

definition get :: "'a list \<Rightarrow> nat \<Rightarrow> 'a option" where
  \<comment> \<open>\<^verbatim>\<open>slice::get\<close>\<close>
  "get xs i = (if i < length xs then Some (xs ! i) else None)"

lemma bind_result_simps [simp]:
  "bind_result (Inl e) f = Inl e"
  "bind_result (Inr x) f = f x"
  by (simp_all add: bind_result_def)

lemma bind_result_Inr_iff [simp, result_simps]:
  "bind_result m f = Inr y \<longleftrightarrow> (\<exists>x. m = Inr x \<and> f x = Inr y)"
  by (simp add: bind_result_def split: sum.splits)

lemma bind_result_Inl_iff:
  "bind_result m f = Inl e \<longleftrightarrow> m = Inl e \<or> (\<exists>x. m = Inr x \<and> f x = Inl e)"
  by (simp add: bind_result_def split: sum.splits)

lemma if_Inl_eq_Inr [simp, result_simps]:
  "(if c then Inl e else m) = Inr y \<longleftrightarrow> \<not> c \<and> m = Inr y"
  by simp

lemma ok_or_simps [simp]:
  "ok_or None e = Inl e"
  "ok_or (Some x) e = Inr x"
  by (simp_all add: ok_or_def)

lemma ok_or_Inr_iff [simp, result_simps]: "ok_or m e = Inr x \<longleftrightarrow> m = Some x"
  by (simp add: ok_or_def split: option.splits)

lemma ok_or_Inl_iff: "ok_or m e = Inl e' \<longleftrightarrow> m = None \<and> e' = e"
  by (auto simp: ok_or_def split: option.splits)

lemma map_err_Inr_iff [simp, result_simps]: "map_err m e = Inr x \<longleftrightarrow> m = Inr x"
  by (simp add: map_err_def split: sum.splits)

lemma map_err_simps [simp]:
  "map_err (Inl e') e = Inl e"
  "map_err (Inr x) e = Inr x"
  by (simp_all add: map_err_def)

lemma index_Inr_iff [simp, result_simps]: "index xs i = Inr x \<longleftrightarrow> i < length xs \<and> xs ! i = x"
  by (auto simp: index_def)

lemma index_in_range: "i < length xs \<Longrightarrow> index xs i = Inr (xs ! i)"
  by (simp add: index_def)

lemma get_Some_iff [simp]: "get xs i = Some x \<longleftrightarrow> i < length xs \<and> xs ! i = x"
  by (auto simp: get_def)

lemma try_fold_append:
  "try_fold f s (xs @ ys) = bind_result (try_fold f s xs) (\<lambda>s'. try_fold f s' ys)"
proof (induction xs arbitrary: s)
  case Nil
  then show ?case by simp
next
  case (Cons x xs)
  then show ?case by (cases "f s x") simp_all
qed

lemma try_map_Inr_iff:
  "try_map f xs = Inr ys \<longleftrightarrow> length ys = length xs \<and> (\<forall>i < length xs. f (xs ! i) = Inr (ys ! i))"
proof (induction xs arbitrary: ys)
  case Nil
  then show ?case by auto
next
  case (Cons x xs)
  show ?case
  proof (cases ys)
    case Nil
    then show ?thesis by auto
  next
    case (Cons y ys')
    with Cons.IH show ?thesis
      by (auto simp: All_less_Suc2)
  qed
qed

lemma try_any_False_iff: "try_any f xs = Inr False \<longleftrightarrow> (\<forall>x \<in> set xs. f x = Inr False)"
  by (induction xs) auto

lemma try_any_total:
  "(\<And>x. x \<in> set xs \<Longrightarrow> f x = Inr (g x)) \<Longrightarrow> try_any f xs = Inr (\<exists>x \<in> set xs. g x)"
  by (induction xs) auto

lemma or_else_False_iff [simp]: "or_else a b = Inr False \<longleftrightarrow> a = Inr False \<and> b = Inr False"
  by (auto simp: or_else_def)

lemma or_else_simps [simp]:
  "or_else (Inr True) b = Inr True"
  "or_else (Inr False) b = b"
  "or_else (Inl e) b = Inl e"
  by (simp_all add: or_else_def)

lemma try_map_Inr_in: "try_map f xs = Inr ys \<Longrightarrow> x \<in> set xs \<Longrightarrow> \<exists>y \<in> set ys. f x = Inr y"
  by (induction xs arbitrary: ys) auto

text \<open>Lists of a known length, by their elements.\<close>

lemma length_eq_1: "length xs = 1 \<longleftrightarrow> (\<exists>a. xs = [a])"
  by (auto simp: length_Suc_conv)

lemma length_eq_2: "length xs = 2 \<longleftrightarrow> (\<exists>a b. xs = [a, b])"
  by (auto simp: length_Suc_conv numeral_2_eq_2)

lemma length_eq_3: "length xs = 3 \<longleftrightarrow> (\<exists>a b c. xs = [a, b, c])"
  by (auto simp: length_Suc_conv numeral_3_eq_3)

lemma case_list3 [simp]:
  "(case xs of [a, b, c] \<Rightarrow> P a b c | _ \<Rightarrow> False) \<longleftrightarrow> (\<exists>a b c. xs = [a, b, c] \<and> P a b c)"
  by (auto split: list.splits)

section \<open>Checked and saturating 64-bit arithmetic\<close>

text \<open>
  Satoshi amounts are \<^verbatim>\<open>u64\<close> values, modelled as \<open>nat\<close> with the bound of the
  type written out in every operation that can leave it.
\<close>

definition u64_bound :: nat where
  "u64_bound = 18446744073709551616"

lemma u64_bound_power: "u64_bound = 2 ^ 64"
  by (simp add: u64_bound_def)

definition checked_add :: "nat \<Rightarrow> nat \<Rightarrow> nat option" where
  "checked_add a b = (if a + b < u64_bound then Some (a + b) else None)"

definition checked_sub :: "nat \<Rightarrow> nat \<Rightarrow> nat option" where
  "checked_sub a b = (if b \<le> a then Some (a - b) else None)"

definition checked_mul :: "nat \<Rightarrow> nat \<Rightarrow> nat option" where
  "checked_mul a b = (if a * b < u64_bound then Some (a * b) else None)"

definition saturating_add :: "nat \<Rightarrow> nat \<Rightarrow> nat" where
  "saturating_add a b = (if a + b < u64_bound then a + b else u64_bound - 1)"

definition saturating_sub :: "nat \<Rightarrow> nat \<Rightarrow> nat" where
  "saturating_sub a b = (if b \<le> a then a - b else 0)"

lemma checked_add_Some_iff [simp, checked_simps]:
  "checked_add a b = Some c \<longleftrightarrow> a + b < u64_bound \<and> c = a + b"
  by (auto simp: checked_add_def)

lemma checked_sub_Some_iff [simp, checked_simps]:
  "checked_sub a b = Some c \<longleftrightarrow> b \<le> a \<and> c = a - b"
  by (auto simp: checked_sub_def)

lemma checked_mul_Some_iff [simp, checked_simps]:
  "checked_mul a b = Some c \<longleftrightarrow> a * b < u64_bound \<and> c = a * b"
  by (auto simp: checked_mul_def)

lemma bind_Some_iff [simp, checked_simps]:
  "Option.bind m f = Some y \<longleftrightarrow> (\<exists>x. m = Some x \<and> f x = Some y)"
  by (cases m) auto

text \<open>A checked running sum is the plain sum, and fails exactly when that sum overflows.\<close>

definition checked_sum_by :: "'e \<Rightarrow> ('a \<Rightarrow> nat) \<Rightarrow> 'a list \<Rightarrow> 'e + nat" where
  "checked_sum_by e v xs = try_fold (\<lambda>s x. ok_or (checked_add s (v x)) e) 0 xs"

lemma try_fold_checked_sum:
  "s < u64_bound \<Longrightarrow>
   try_fold (\<lambda>s x. ok_or (checked_add s (v x)) e) s xs =
     (if s + sum_list (map v xs) < u64_bound then Inr (s + sum_list (map v xs)) else Inl e)"
  by (induction xs arbitrary: s) (auto simp: checked_add_def add.assoc)

lemma checked_sum_by_eq:
  "checked_sum_by e v xs =
     (if sum_list (map v xs) < u64_bound then Inr (sum_list (map v xs)) else Inl e)"
  using try_fold_checked_sum [of 0 v e xs] by (simp add: checked_sum_by_def u64_bound_def)

lemma checked_sum_by_Inr_iff [simp, result_simps]:
  "checked_sum_by e v xs = Inr s \<longleftrightarrow> sum_list (map v xs) < u64_bound \<and> s = sum_list (map v xs)"
  by (auto simp: checked_sum_by_eq)

lemma not_isl_obtain: "\<not> isl r \<Longrightarrow> \<exists>x. r = Inr x"
  by (cases r) simp_all

lemma case_Inr_obtain: "(case r of Inl _ \<Rightarrow> False | Inr x \<Rightarrow> P x) \<Longrightarrow> \<exists>x. r = Inr x \<and> P x"
  by (cases r) simp_all

section \<open>Text\<close>

text \<open>Decimal \<^verbatim>\<open>Display\<close> of unsigned integers, and substring tests on byte lists.\<close>

definition digit_char :: "nat \<Rightarrow> char" where
  "digit_char d = char_of (48 + d)"

fun show_nat :: "nat \<Rightarrow> string" where
  "show_nat n = (if n < 10 then [digit_char n] else show_nat (n div 10) @ [digit_char (n mod 10)])"

declare show_nat.simps [simp del]

definition show_nat2 :: "nat \<Rightarrow> string" where
  \<comment> \<open>the format \<^verbatim>\<open>{:02}\<close>\<close>
  "show_nat2 n = (if n < 10 then CHR ''0'' # show_nat n else show_nat n)"

definition starts_with :: "'a list \<Rightarrow> 'a list \<Rightarrow> bool" where
  "starts_with s p = (take (length p) s = p)"

fun contains_window :: "'a list \<Rightarrow> 'a list \<Rightarrow> bool" where
  \<comment> \<open>\<^verbatim>\<open>xs.windows(w.len()).any(|window| window == w)\<close> for a nonempty \<open>w\<close>\<close>
  "contains_window w [] = False"
| "contains_window w (x # xs) = (starts_with (x # xs) w \<or> contains_window w xs)"

lemma contains_window_iff: "w \<noteq> [] \<Longrightarrow> contains_window w xs \<longleftrightarrow> (\<exists>a b. xs = a @ w @ b)"
proof (induction w xs rule: contains_window.induct)
  case (1 w)
  then show ?case by simp
next
  case (2 w x xs)
  have "starts_with (x # xs) w \<longleftrightarrow> (\<exists>b. x # xs = w @ b)"
    unfolding starts_with_def by (metis append_eq_conv_conj append_take_drop_id)
  moreover have "(\<exists>a b. x # xs = a @ w @ b) \<longleftrightarrow>
      (\<exists>b. x # xs = w @ b) \<or> (\<exists>a b. xs = a @ w @ b)"
    by (metis Cons_eq_append_conv append_Cons append_Nil)
  ultimately show ?case using 2 by simp
qed

section \<open>Ordered maps\<close>

text \<open>
  A \<^verbatim>\<open>BTreeMap\<close> is its association list in strictly ascending key order, so iteration
  visits the keys as Rust does.
\<close>

fun btree_insert :: "'k::linorder \<Rightarrow> 'v \<Rightarrow> ('k \<times> 'v) list \<Rightarrow> ('k \<times> 'v) list" where
  "btree_insert k v [] = [(k, v)]"
| "btree_insert k v ((k', v') # m) =
     (if k < k' then (k, v) # (k', v') # m
      else if k = k' then (k, v) # m
      else (k', v') # btree_insert k v m)"

definition btree_ok :: "('k::linorder \<times> 'v) list \<Rightarrow> bool" where
  "btree_ok m = sorted_wrt (<) (map fst m)"

lemma set_fst_btree_insert: "fst ` set (btree_insert k v m) = insert k (fst ` set m)"
  by (induction k v m rule: btree_insert.induct) auto

lemma btree_ok_insert: "btree_ok m \<Longrightarrow> btree_ok (btree_insert k v m)"
proof (induction k v m rule: btree_insert.induct)
  case (1 k v)
  then show ?case by (simp add: btree_ok_def)
next
  case (2 k v k' v' m)
  then show ?case
    using set_fst_btree_insert [of k v m] by (fastforce simp: btree_ok_def)
qed

lemma map_of_btree_insert: "map_of (btree_insert k v m) = (map_of m)(k \<mapsto> v)"
  by (induction k v m rule: btree_insert.induct) auto

lemma btree_ok_distinct: "btree_ok m \<Longrightarrow> distinct (map fst m)"
  by (simp add: btree_ok_def strict_sorted_iff)

text \<open>Two ordered maps with the same lookups are the same list.\<close>

lemma map_fst_map_of_eq:
  "distinct (map fst m) \<Longrightarrow> map fst m = map fst m' \<Longrightarrow> map_of m = map_of m' \<Longrightarrow> m = m'"
proof (rule nth_equalityI)
  assume d: "distinct (map fst m)" and k: "map fst m = map fst m'" and l: "map_of m = map_of m'"
  show len: "length m = length m'" using k by (metis length_map)
  fix i assume i: "i < length m"
  have fst: "fst (m ! i) = fst (m' ! i)" using i len k by (metis nth_map)
  have "map_of m (fst (m ! i)) = Some (snd (m ! i))"
    using d i by simp
  moreover have "map_of m' (fst (m' ! i)) = Some (snd (m' ! i))"
    using d k i len by (metis map_of_is_SomeI nth_mem surjective_pairing)
  ultimately show "m ! i = m' ! i"
    using l fst by (simp add: prod_eq_iff)
qed

lemma btree_eqI:
  assumes "btree_ok m" and "btree_ok m'" and "map_of m = map_of m'"
  shows "m = m'"
proof -
  have keys: "set (map fst m) = set (map fst m')"
    using assms(3) dom_map_of_conv_image_fst [of m] dom_map_of_conv_image_fst [of m'] by simp
  have "map fst m = map fst m'"
    using assms(1,2) keys strict_sorted_equal [of "map fst m" "map fst m'"]
    by (simp add: btree_ok_def)
  then show ?thesis
    using assms(1,3) btree_ok_distinct map_fst_map_of_eq by blast
qed

end
