(* ===== verification/Bitcoin_Lib.thy ===== *)
theory Bitcoin_Lib
  imports Prelude "HOL-Library.Word"
begin

text \<open>
  The data of the Bitcoin libraries that the code builds and inspects field by field
  (transactions, outpoints, PSBTs, addresses), and the functions of those libraries that it only
  calls. The libraries (\<^verbatim>\<open>rust-bitcoin\<close>, \<^verbatim>\<open>rust-miniscript\<close>,
  \<^verbatim>\<open>secp256k1\<close>) are not part of the repository: every function of theirs is a
  field of the record \<open>lib\<close>, which is an argument of each definition that needs one. What
  the code relies on is stated as predicates on that record (\<open>lib_psbt_laws\<close> and so on)
  which are hypotheses of the theorems that need them.

  Representation: 256-bit values (transaction ids, x-only keys, tap hashes, messages, secret
  keys, signatures) are numbers; scripts and witness items are byte lists; amounts, indexes and
  sequence numbers are \<open>nat\<close>.
\<close>

section \<open>Data\<close>

type_synonym txid = nat
type_synonym xonly = nat
type_synonym leaf_hash = nat
type_synonym keypair = nat
type_synonym message = nat
type_synonym schnorr_sig = nat
type_synonym sequence = nat
type_synonym bytes = "8 word list"
type_synonym script = bytes
type_synonym descriptor = string \<comment> \<open>a parsed descriptor, by its canonical text\<close>

datatype network = Bitcoin | Testnet | Signet | Regtest

datatype outpoint = OutPoint (op_txid: txid) (op_vout: nat)

definition outpoint_null :: outpoint where
  "outpoint_null = OutPoint 0 4294967295"

record txout =
  txo_value :: nat
  script_pubkey :: script

record txin =
  previous_output :: outpoint
  script_sig :: script
  tx_sequence :: sequence
  tx_witness :: "bytes list"

record transaction =
  tx_version :: int
  tx_lock_time :: nat
  tx_input :: "txin list"
  tx_output :: "txout list"

record address =
  addr_text :: string \<comment> \<open>\<^verbatim>\<open>to_string\<close>\<close>
  addr_script :: script \<comment> \<open>\<^verbatim>\<open>script_pubkey\<close>\<close>

datatype tap_sighash_type = SighashDefault | SighashOther nat

record tap_signature =
  sig_value :: schnorr_sig
  sig_type :: tap_sighash_type

record psbt_input =
  witness_utxo :: "txout option"
  sighash_type :: "tap_sighash_type option"
  tap_key_origins :: "(xonly \<times> leaf_hash list) list"
  tap_script_sigs :: "((xonly \<times> leaf_hash) \<times> tap_signature) list"
  input_rest :: nat \<comment> \<open>the fields the code never looks at\<close>

record psbt =
  unsigned_tx :: transaction
  psbt_inputs :: "psbt_input list"
  psbt_rest :: nat

datatype sighash_msg = TapSighash message | EcdsaSighash

text \<open>Script assembly through \<^verbatim>\<open>script::Builder\<close>, one item per pushed element.\<close>

datatype opcode = OP_CHECKSIG | OP_CHECKSIGADD | OP_CSV | OP_NUMEQUAL | OP_VERIFY

datatype script_item = PushXOnlyKey xonly | PushInt nat | PushOpcode opcode

text \<open>Constants of \<^verbatim>\<open>rust-bitcoin\<close> used by name.\<close>

abbreviation (input) version_two :: int where "version_two \<equiv> 2"
abbreviation (input) lock_time_zero :: nat where "lock_time_zero \<equiv> 0"
abbreviation (input) sequence_max :: sequence where "sequence_max \<equiv> 4294967295"
abbreviation (input) sequence_rbf :: sequence where "sequence_rbf \<equiv> 4294967293"

section \<open>Library functions\<close>

record lib =
  compute_txid :: "transaction \<Rightarrow> txid"
  txid_to_string :: "txid \<Rightarrow> string"
  txid_from_str :: "string \<Rightarrow> txid option"
  vsize :: "transaction \<Rightarrow> nat"
  minimal_non_dust :: "script \<Rightarrow> nat"
  script_encode :: "script_item list \<Rightarrow> script"
  from_seconds_ceil :: "nat \<Rightarrow> sequence option"
  xonly_to_string :: "xonly \<Rightarrow> string"
  xonly_from_str :: "string \<Rightarrow> xonly option"
  address_from_str :: "string \<Rightarrow> network \<Rightarrow> address option"
  descriptor_from_str :: "string \<Rightarrow> descriptor option"
  descriptor_to_string :: "descriptor \<Rightarrow> string"
  descriptor_address :: "descriptor \<Rightarrow> network \<Rightarrow> address option"
  descriptor_definite :: "descriptor \<Rightarrow> descriptor option"
  descriptor_leaves :: "descriptor \<Rightarrow> (nat \<times> script) list option option"
  descriptor_control_block :: "descriptor \<Rightarrow> script \<Rightarrow> bytes option"
  tapleaf_hash_of :: "script \<Rightarrow> leaf_hash"
  tapnode_join :: "leaf_hash \<Rightarrow> leaf_hash \<Rightarrow> leaf_hash"
  tap_tweak :: "xonly \<Rightarrow> leaf_hash \<Rightarrow> xonly"
  p2tr_tweaked :: "xonly \<Rightarrow> network \<Rightarrow> address"
  from_unsigned_tx :: "transaction \<Rightarrow> psbt option"
  update_input :: "psbt \<Rightarrow> nat \<Rightarrow> descriptor \<Rightarrow> psbt option"
  psbt_sighash :: "psbt \<Rightarrow> nat \<Rightarrow> leaf_hash \<Rightarrow> sighash_msg option"
  keypair_xonly :: "keypair \<Rightarrow> xonly"
  sign_schnorr :: "message \<Rightarrow> keypair \<Rightarrow> schnorr_sig"
  verify_schnorr :: "schnorr_sig \<Rightarrow> message \<Rightarrow> xonly \<Rightarrow> bool"
  finalize_all :: "psbt \<Rightarrow> psbt option"
  finalize_input :: "psbt \<Rightarrow> nat \<Rightarrow> psbt option"
  extract_tx :: "psbt \<Rightarrow> transaction option"

text \<open>
  \<open>descriptor_leaves d\<close> is \<open>None\<close> where deriving the descriptor fails, \<open>Some None\<close> for a
  descriptor that is not Taproot, and otherwise the depths and scripts of
  \<^verbatim>\<open>iter_scripts\<close> in order.
\<close>

section \<open>What the code relies on\<close>

text \<open>
  \<^verbatim>\<open>Psbt::from_unsigned_tx\<close> accepts a transaction whose inputs carry no script
  signature and no witness, keeps it, and adds one input record per input without any signature;
  \<^verbatim>\<open>update_input_with_descriptor\<close> only adds spending metadata to the one input.
\<close>

definition unsigned :: "transaction \<Rightarrow> bool" where
  "unsigned tx = (\<forall>i \<in> set (tx_input tx). script_sig i = [] \<and> tx_witness i = [])"

definition same_psbt_data :: "psbt_input \<Rightarrow> psbt_input \<Rightarrow> bool" where
  "same_psbt_data a b = (witness_utxo a = witness_utxo b \<and> sighash_type a = sighash_type b
     \<and> tap_script_sigs a = tap_script_sigs b)"

definition lib_psbt_laws :: "lib \<Rightarrow> bool" where
  "lib_psbt_laws L \<longleftrightarrow>
     (\<forall>tx p. from_unsigned_tx L tx = Some p \<longrightarrow>
        unsigned_tx p = tx \<and> length (psbt_inputs p) = length (tx_input tx)
        \<and> (\<forall>i \<in> set (psbt_inputs p). tap_script_sigs i = []))
   \<and> (\<forall>tx. unsigned tx \<longrightarrow> from_unsigned_tx L tx \<noteq> None)
   \<and> (\<forall>p i d q. update_input L p i d = Some q \<longrightarrow>
        unsigned_tx q = unsigned_tx p \<and> length (psbt_inputs q) = length (psbt_inputs p)
        \<and> (\<forall>j < length (psbt_inputs p). same_psbt_data (psbt_inputs q ! j) (psbt_inputs p ! j))
        \<and> (\<forall>j < length (psbt_inputs p). j \<noteq> i \<longrightarrow> psbt_inputs q ! j = psbt_inputs p ! j))"

text \<open>
  Schnorr signatures verify against the message and key they were made for, and the BIP341
  message of an input depends on the transaction and the previous outputs but not on signatures
  already collected.
\<close>

definition clear_sigs :: "psbt \<Rightarrow> psbt" where
  "clear_sigs p = p\<lparr>psbt_inputs := map (\<lambda>i. i\<lparr>tap_script_sigs := []\<rparr>) (psbt_inputs p)\<rparr>"

definition lib_sign_laws :: "lib \<Rightarrow> bool" where
  "lib_sign_laws L \<longleftrightarrow>
     (\<forall>m k. verify_schnorr L (sign_schnorr L m k) m (keypair_xonly L k))
   \<and> (\<forall>p q i h. clear_sigs p = clear_sigs q \<longrightarrow> psbt_sighash L p i h = psbt_sighash L q i h)"

text \<open>
  The virtual size of a transaction is a function of its shape: the number of inputs, the
  lengths of their script signatures and witness items, and the lengths of the output scripts.
\<close>

definition tx_shape :: "transaction \<Rightarrow> (nat \<times> nat list) list \<times> nat list" where
  "tx_shape tx =
     (map (\<lambda>i. (length (script_sig i), map length (tx_witness i))) (tx_input tx),
      map (\<lambda>out. length (script_pubkey out)) (tx_output tx))"

definition lib_size_laws :: "lib \<Rightarrow> bool" where
  "lib_size_laws L \<longleftrightarrow> (\<forall>t u. tx_shape t = tx_shape u \<longrightarrow> vsize L t = vsize L u)"

section \<open>Total order on outpoints\<close>

text \<open>\<^verbatim>\<open>OutPoint\<close> derives its order: transaction id first, then output index.\<close>

instantiation outpoint :: linorder
begin

definition less_eq_outpoint :: "outpoint \<Rightarrow> outpoint \<Rightarrow> bool" where
  "less_eq_outpoint a b \<longleftrightarrow>
     op_txid a < op_txid b \<or> op_txid a = op_txid b \<and> op_vout a \<le> op_vout b"

definition less_outpoint :: "outpoint \<Rightarrow> outpoint \<Rightarrow> bool" where
  "less_outpoint a b \<longleftrightarrow>
     op_txid a < op_txid b \<or> op_txid a = op_txid b \<and> op_vout a < op_vout b"

instance
proof
  fix x y z :: outpoint
  show "x < y \<longleftrightarrow> x \<le> y \<and> \<not> y \<le> x"
    by (auto simp: less_eq_outpoint_def less_outpoint_def)
  show "x \<le> x" by (simp add: less_eq_outpoint_def)
  show "x \<le> y \<Longrightarrow> y \<le> z \<Longrightarrow> x \<le> z" by (auto simp: less_eq_outpoint_def)
  show "x \<le> y \<Longrightarrow> y \<le> x \<Longrightarrow> x = y" by (cases x; cases y) (auto simp: less_eq_outpoint_def)
  show "x \<le> y \<or> y \<le> x" by (auto simp: less_eq_outpoint_def)
qed

end

lemma vsize_shape: "lib_size_laws L \<Longrightarrow> tx_shape t = tx_shape u \<Longrightarrow> vsize L t = vsize L u"
  unfolding lib_size_laws_def by blast

lemma clear_sigs_unsigned_tx: "clear_sigs p = clear_sigs q \<Longrightarrow> unsigned_tx p = unsigned_tx q"
  by (cases p; cases q) (simp add: clear_sigs_def)

end
