(* ===== verification/Cold_Signer.thy ===== *)
theory Cold_Signer
  imports Bitcoin_Lib
begin

text \<open>
  \<^verbatim>\<open>cold-signer/src/benchmark.rs\<close>: the allocation-free annual signing workload a hardware
  wallet runs. It builds the fifteen transactions of a year (rollover, twelve allowances, emergency
  trigger and withdrawal) over made-up outpoints and computes the BIP341 script-path message of every
  vault input. SHA-256 is the argument \<open>H\<close> (the trait \<^verbatim>\<open>Sha256\<close>), which maps the list of parts
  to the digest of their concatenation. \<^verbatim>\<open>u8\<close> counters are natural numbers with the wrap of
  the release profile written out; a visitor is a state transformer that may fail.
\<close>

unbundle bit_operations_syntax

section \<open>Constants\<close>

definition VAULT_BALANCE_SATS :: nat where "VAULT_BALANCE_SATS = 210000000"
definition MONTHLY_ALLOWANCE_SATS :: nat where "MONTHLY_ALLOWANCE_SATS = 10000000"
definition EMERGENCY_ACCESS_SATS :: nat where "EMERGENCY_ACCESS_SATS = 50000000"
definition SIGNER_CONNECTOR_SATS :: nat where "SIGNER_CONNECTOR_SATS = 1000"
definition MONTHLY_STEPS :: nat where "MONTHLY_STEPS = 12"
definition TRANSACTION_COUNT :: nat where "TRANSACTION_COUNT = 15"
definition MAX_ROLLOVER_INPUTS :: nat where "MAX_ROLLOVER_INPUTS = 12"
definition MAX_SIGNATURE_JOBS :: nat where "MAX_SIGNATURE_JOBS = MAX_ROLLOVER_INPUTS + 14"
definition MONTHLY_DELAY_SEQUENCE :: nat where "MONTHLY_DELAY_SEQUENCE = 4194304 + 5063" \<comment> \<open>bit 22 and the delay\<close>
definition EMERGENCY_DELAY_SEQUENCE :: nat where "EMERGENCY_DELAY_SEQUENCE = 4194304 + 1182"
definition SIGNER_PHONE_RECOVERY_BLOCKS :: nat where "SIGNER_PHONE_RECOVERY_BLOCKS = 61200"
definition SIGNER_HWW_RECOVERY_BLOCKS :: nat where "SIGNER_HWW_RECOVERY_BLOCKS = 65535"
definition U32_MAX :: nat where "U32_MAX = 4294967295"
definition CONNECTOR_SEQUENCE :: nat where "CONNECTOR_SEQUENCE = 4294967293"

definition MAX_SERIALIZED_TX_SIZE :: nat where "MAX_SERIALIZED_TX_SIZE = 768"
definition MAX_HASH_COMPONENT_SIZE :: nat where "MAX_HASH_COMPONENT_SIZE = 512"
definition P2TR_SCRIPT_LEN :: nat where "P2TR_SCRIPT_LEN = 34"
definition COOPERATIVE_SCRIPT_LEN :: nat where "COOPERATIVE_SCRIPT_LEN = 70"
definition COOPERATIVE_CONTROL_BLOCK_LEN :: nat where "COOPERATIVE_CONTROL_BLOCK_LEN = 65"
definition CONTROLLER_SCRIPT_LEN :: nat where "CONTROLLER_SCRIPT_LEN = 34"
definition CONTROLLER_CONTROL_BLOCK_LEN :: nat where "CONTROLLER_CONTROL_BLOCK_LEN = 65"

lemmas signer_constants =
  VAULT_BALANCE_SATS_def MONTHLY_ALLOWANCE_SATS_def EMERGENCY_ACCESS_SATS_def SIGNER_CONNECTOR_SATS_def
  MONTHLY_STEPS_def TRANSACTION_COUNT_def MAX_ROLLOVER_INPUTS_def MAX_SIGNATURE_JOBS_def
  MONTHLY_DELAY_SEQUENCE_def EMERGENCY_DELAY_SEQUENCE_def SIGNER_PHONE_RECOVERY_BLOCKS_def
  SIGNER_HWW_RECOVERY_BLOCKS_def U32_MAX_def CONNECTOR_SEQUENCE_def MAX_SERIALIZED_TX_SIZE_def
  MAX_HASH_COMPONENT_SIZE_def P2TR_SCRIPT_LEN_def COOPERATIVE_SCRIPT_LEN_def
  COOPERATIVE_CONTROL_BLOCK_LEN_def CONTROLLER_SCRIPT_LEN_def CONTROLLER_CONTROL_BLOCK_LEN_def

definition FIXED_SIGNING_DIGEST :: bytes where
  "FIXED_SIGNING_DIGEST =
     [0x56, 0xE2, 0xDD, 0x75, 0xAD, 0x8F, 0xC8, 0xC9, 0xF8, 0xF5, 0x8C, 0x2A, 0xDF, 0x74, 0x5F, 0xD3,
      0xF4, 0x66, 0x69, 0xAB, 0x38, 0x1C, 0x53, 0x00, 0xA7, 0x1E, 0xB6, 0xA7, 0xA2, 0xAC, 0xB5, 0x25]"

definition BIP341_NUMS_XONLY :: bytes where
  "BIP341_NUMS_XONLY =
     [0x50, 0x92, 0x9B, 0x74, 0xC1, 0xA0, 0x49, 0x54, 0xB7, 0x8B, 0x4B, 0x60, 0x35, 0xE9, 0x7A, 0x5E,
      0x07, 0x8A, 0x5A, 0x0F, 0x28, 0xEC, 0x96, 0xD5, 0x47, 0xBF, 0xEE, 0x9A, 0xCE, 0x80, 0x3A, 0xC0]"

definition SECP256K1_FIELD_PRIME :: bytes where
  "SECP256K1_FIELD_PRIME =
     [0xFF, 0xFF, 0xFF, 0xFF, 0xFF, 0xFF, 0xFF, 0xFF, 0xFF, 0xFF, 0xFF, 0xFF, 0xFF, 0xFF, 0xFF, 0xFF,
      0xFF, 0xFF, 0xFF, 0xFF, 0xFF, 0xFF, 0xFF, 0xFF, 0xFF, 0xFF, 0xFF, 0xFE, 0xFF, 0xFF, 0xFC, 0x2F]"

definition TAPLEAF_TAG_HASH :: bytes where
  "TAPLEAF_TAG_HASH =
     [0xAE, 0xEA, 0x8F, 0xDC, 0x42, 0x08, 0x98, 0x31, 0x05, 0x73, 0x4B, 0x58, 0x08, 0x1D, 0x1E, 0x26,
      0x38, 0xD3, 0x5F, 0x1C, 0xB5, 0x40, 0x08, 0xD4, 0xD3, 0x57, 0xCA, 0x03, 0xBE, 0x78, 0xE9, 0xEE]"

definition TAPBRANCH_TAG_HASH :: bytes where
  "TAPBRANCH_TAG_HASH =
     [0x19, 0x41, 0xA1, 0xF2, 0xE5, 0x6E, 0xB9, 0x5F, 0xA2, 0xA9, 0xF1, 0x94, 0xBE, 0x5C, 0x01, 0xF7,
      0x21, 0x6F, 0x33, 0xED, 0x82, 0xB0, 0x91, 0x46, 0x34, 0x90, 0xD0, 0x5B, 0xF5, 0x16, 0xA0, 0x15]"

definition TAPTWEAK_TAG_HASH :: bytes where
  "TAPTWEAK_TAG_HASH =
     [0xE8, 0x0F, 0xE1, 0x63, 0x9C, 0x9C, 0xA0, 0x50, 0xE3, 0xAF, 0x1B, 0x39, 0xC1, 0x43, 0xC6, 0x3E,
      0x42, 0x9C, 0xBC, 0xEB, 0x15, 0xD9, 0x40, 0xFB, 0xB5, 0xC5, 0xA1, 0xF4, 0xAF, 0x57, 0xC5, 0xE9]"

definition TAPSIGHASH_TAG_HASH :: bytes where
  "TAPSIGHASH_TAG_HASH =
     [0xF4, 0x0A, 0x48, 0xDF, 0x4B, 0x2A, 0x70, 0xC8, 0xB4, 0x92, 0x4B, 0xF2, 0x65, 0x46, 0x61, 0xED,
      0x3D, 0x95, 0xFD, 0x66, 0xA3, 0x13, 0xEB, 0x87, 0x23, 0x75, 0x97, 0xC6, 0x28, 0xE4, 0xA0, 0x31]"

section \<open>Errors\<close>

datatype graph_error = InvalidRolloverInputCount | InvalidPublicKey | SerializationOverflow | InsufficientValue

datatype 'e visit_error = GraphError graph_error | Callback 'e

definition graph_err :: "graph_error + 'a \<Rightarrow> 'e visit_error + 'a" where
  \<comment> \<open>the \<^verbatim>\<open>From\<close> conversion that \<^verbatim>\<open>?\<close> applies\<close>
  "graph_err m = map_sum GraphError id m"

definition u8_inc :: "nat \<Rightarrow> nat" where "u8_inc n = (n + 1) mod 256"

section \<open>Public keys\<close>

definition borrow_step :: "bytes \<times> int \<Rightarrow> nat \<Rightarrow> bytes \<times> int" where
  "borrow_step s i = (case s of (public_key, borrow) \<Rightarrow>
     let v = uint (SECP256K1_FIELD_PRIME ! i) - uint (public_key ! (33 + i)) - borrow in
     if v < 0 then (public_key[33 + i := word_of_int (v + 256)], 1)
     else (public_key[33 + i := word_of_int v], 0))"

definition normalize_bip340_public_key :: "bytes \<Rightarrow> graph_error + bytes" where
  "normalize_bip340_public_key public_key =
     (if public_key ! 0 \<noteq> 4 then Inl InvalidPublicKey
      else if public_key ! 64 AND 1 = 1
      then (case foldl borrow_step (public_key, 0) (rev [0..<32]) of (pk, borrow) \<Rightarrow>
              if borrow \<noteq> 0 then Inl InvalidPublicKey else Inr pk)
      else Inr public_key)"

section \<open>Writing bytes\<close>

fun le_bytes :: "nat \<Rightarrow> nat \<Rightarrow> bytes" where
  \<comment> \<open>\<^verbatim>\<open>to_le_bytes\<close> of an integer of that many bytes\<close>
  "le_bytes 0 n = []"
| "le_bytes (Suc k) n = of_nat (n mod 256) # le_bytes k (n div 256)"

record byte_writer =
  bw_bytes :: bytes
  bw_len :: nat

definition writer_new :: "nat \<Rightarrow> byte_writer" where
  "writer_new n = \<lparr>bw_bytes = replicate n 0, bw_len = 0\<rparr>"

definition writer_extend :: "byte_writer \<Rightarrow> bytes \<Rightarrow> graph_error + byte_writer" where
  "writer_extend w vs =
     bind_result (ok_or (checked_add (bw_len w) (length vs)) SerializationOverflow) (\<lambda>e.
     if length (bw_bytes w) < e then Inl SerializationOverflow
     else Inr \<lparr>bw_bytes = take (bw_len w) (bw_bytes w) @ vs @ drop e (bw_bytes w), bw_len = e\<rparr>)"

definition writer_push :: "byte_writer \<Rightarrow> 8 word \<Rightarrow> graph_error + byte_writer" where
  "writer_push w v = writer_extend w [v]"

definition writer_clear :: "byte_writer \<Rightarrow> byte_writer" where
  "writer_clear w = w\<lparr>bw_len := 0\<rparr>"

definition as_slice :: "byte_writer \<Rightarrow> bytes" where
  "as_slice w = take (bw_len w) (bw_bytes w)"

section \<open>Scripts and hashes\<close>

type_synonym sha = "bytes list \<Rightarrow> bytes"

definition signer_cooperative_script :: "bytes \<Rightarrow> bytes \<Rightarrow> bytes" where
  "signer_cooperative_script phone hww = [32] @ phone @ [0xAC, 32] @ hww @ [0xBA, 0x52, 0x9C]"

definition single_signature_script :: "bytes \<Rightarrow> bytes" where
  "single_signature_script key = [32] @ key @ [0xAC]"

definition signer_recovery_script :: "bytes \<Rightarrow> nat \<Rightarrow> bytes" where
  "signer_recovery_script key delay =
     [3, of_nat (delay mod 256), of_nat (delay div 256 mod 256), 0, 0xB2, 0x69, 32] @ key @ [0xAC]"

definition p2tr_script :: "bytes \<Rightarrow> bytes" where
  "p2tr_script output_key = [0x51, 32] @ output_key"

definition tagged_hash :: "sha \<Rightarrow> bytes \<Rightarrow> bytes list \<Rightarrow> bytes" where
  "tagged_hash H tag parts = H (tag # tag # parts)"

definition tapleaf_hash :: "sha \<Rightarrow> bytes \<Rightarrow> bytes" where
  "tapleaf_hash H script = tagged_hash H TAPLEAF_TAG_HASH [[0xC0], [of_nat (length script mod 256)], script]"

definition tapbranch_hash :: "sha \<Rightarrow> bytes \<Rightarrow> bytes \<Rightarrow> bytes" where
  \<comment> \<open>the lexicographically smaller child first\<close>
  "tapbranch_hash H left right =
     tagged_hash H TAPBRANCH_TAG_HASH (if map unat right < map unat left then [right, left] else [left, right])"

definition transcript_hash :: "sha \<Rightarrow> bytes \<Rightarrow> bytes \<Rightarrow> bytes \<Rightarrow> bytes" where
  "transcript_hash H previous sighash signature = H [previous, sighash, signature]"

record policy_commitment =
  pc_cooperative_script :: bytes
  pc_cooperative_leaf_hash :: bytes
  pc_merkle_root :: bytes
  pc_output_key_tweak :: bytes

record controller_commitment =
  cc_merkle_root :: bytes
  cc_output_key_tweak :: bytes

definition controller_commitment_new :: "sha \<Rightarrow> bytes \<Rightarrow> bytes \<Rightarrow> controller_commitment" where
  "controller_commitment_new H phone hww =
     (let phone_leaf = tapleaf_hash H (single_signature_script phone);
          hww_leaf = tapleaf_hash H (single_signature_script hww);
          merkle_root = tapbranch_hash H phone_leaf hww_leaf in
      \<lparr>cc_merkle_root = merkle_root,
       cc_output_key_tweak = tagged_hash H TAPTWEAK_TAG_HASH [BIP341_NUMS_XONLY, merkle_root]\<rparr>)"

definition policy_commitment_new :: "sha \<Rightarrow> bytes \<Rightarrow> bytes \<Rightarrow> policy_commitment" where
  "policy_commitment_new H phone hww =
     (let script = signer_cooperative_script phone hww;
          leaf = tapleaf_hash H script;
          phone_recovery = tapleaf_hash H (signer_recovery_script phone SIGNER_PHONE_RECOVERY_BLOCKS);
          hww_recovery = tapleaf_hash H (signer_recovery_script hww SIGNER_HWW_RECOVERY_BLOCKS);
          recoveries = tapbranch_hash H phone_recovery hww_recovery;
          merkle_root = tapbranch_hash H leaf recoveries in
      \<lparr>pc_cooperative_script = script, pc_cooperative_leaf_hash = leaf, pc_merkle_root = merkle_root,
       pc_output_key_tweak = tagged_hash H TAPTWEAK_TAG_HASH [BIP341_NUMS_XONLY, merkle_root]\<rparr>)"

section \<open>Transactions\<close>

record bench_input =
  bi_previous_txid :: bytes
  bi_previous_vout :: nat
  bi_amount_sats :: nat
  bi_sequence :: nat
  bi_controller :: bool

record bench_output =
  bo_amount_sats :: nat
  bo_script_pubkey :: bytes

definition bench_input_default :: bench_input where
  "bench_input_default =
     \<lparr>bi_previous_txid = replicate 32 0, bi_previous_vout = 0, bi_amount_sats = 0, bi_sequence = 0,
      bi_controller = False\<rparr>"

definition bench_output_default :: bench_output where
  "bench_output_default = \<lparr>bo_amount_sats = 0, bo_script_pubkey = replicate P2TR_SCRIPT_LEN 0\<rparr>"

record benchmark_transaction =
  bt_inputs :: "bench_input list"
  bt_input_count :: nat
  bt_outputs :: "bench_output list"
  bt_output_count :: nat

definition bt_new :: "bench_input list \<Rightarrow> bench_output list \<Rightarrow> graph_error + benchmark_transaction" where
  "bt_new inputs outputs =
     (if inputs = [] \<or> MAX_ROLLOVER_INPUTS < length inputs \<or> outputs = [] \<or> 4 < length outputs
      then Inl SerializationOverflow
      else Inr \<lparr>bt_inputs = inputs @ drop (length inputs) (replicate MAX_ROLLOVER_INPUTS bench_input_default),
                bt_input_count = length inputs,
                bt_outputs = outputs @ drop (length outputs) (replicate 4 bench_output_default),
                bt_output_count = length outputs\<rparr>)"

definition bench_inputs :: "benchmark_transaction \<Rightarrow> bench_input list" where
  "bench_inputs t = take (bt_input_count t) (bt_inputs t)"

definition bench_outputs :: "benchmark_transaction \<Rightarrow> bench_output list" where
  "bench_outputs t = take (bt_output_count t) (bt_outputs t)"

definition serialize_outputs :: "bench_output list \<Rightarrow> byte_writer \<Rightarrow> graph_error + byte_writer" where
  "serialize_outputs outputs w = try_fold (\<lambda>w output.
     bind_result (writer_extend w (le_bytes 8 (bo_amount_sats output))) (\<lambda>w.
     bind_result (writer_push w (of_nat P2TR_SCRIPT_LEN)) (\<lambda>w.
     writer_extend w (bo_script_pubkey output)))) w outputs"

definition serialize :: "benchmark_transaction \<Rightarrow> graph_error + byte_writer" where
  "serialize t =
     bind_result (writer_extend (writer_new MAX_SERIALIZED_TX_SIZE) (le_bytes 4 2)) (\<lambda>w.
     bind_result (writer_push w (of_nat (bt_input_count t))) (\<lambda>w.
     bind_result (try_fold (\<lambda>w input.
         bind_result (writer_extend w (bi_previous_txid input)) (\<lambda>w.
         bind_result (writer_extend w (le_bytes 4 (bi_previous_vout input))) (\<lambda>w.
         bind_result (writer_push w 0) (\<lambda>w.
         writer_extend w (le_bytes 4 (bi_sequence input)))))) w (bench_inputs t)) (\<lambda>w.
     bind_result (writer_push w (of_nat (bt_output_count t))) (\<lambda>w.
     bind_result (serialize_outputs (bench_outputs t) w) (\<lambda>w.
     writer_extend w (le_bytes 4 0))))))"

definition bench_txid :: "sha \<Rightarrow> benchmark_transaction \<Rightarrow> graph_error + bytes" where
  "bench_txid H t = bind_result (serialize t) (\<lambda>w. Inr (H [H [as_slice w]]))"

record signature_job =
  sj_signature_index :: nat
  sj_transaction_index :: nat
  sj_input_index :: nat
  sj_sighash :: bytes

record sighash_context =
  sx_vault_script_pubkey :: bytes
  sx_controller_script_pubkey :: bytes
  sx_cooperative_leaf_hash :: bytes

definition write_prevouts :: "bench_input list \<Rightarrow> byte_writer \<Rightarrow> graph_error + byte_writer" where
  "write_prevouts inputs w = try_fold (\<lambda>w input.
     bind_result (writer_extend w (bi_previous_txid input)) (\<lambda>w.
     writer_extend w (le_bytes 4 (bi_previous_vout input)))) w inputs"

definition write_amounts :: "bench_input list \<Rightarrow> byte_writer \<Rightarrow> graph_error + byte_writer" where
  "write_amounts inputs w = try_fold (\<lambda>w input. writer_extend w (le_bytes 8 (bi_amount_sats input))) w inputs"

definition write_script_pubkeys ::
  "sighash_context \<Rightarrow> bench_input list \<Rightarrow> byte_writer \<Rightarrow> graph_error + byte_writer" where
  "write_script_pubkeys context inputs w = try_fold (\<lambda>w input.
     bind_result (writer_push w (of_nat P2TR_SCRIPT_LEN)) (\<lambda>w.
     writer_extend w (if bi_controller input then sx_controller_script_pubkey context
               else sx_vault_script_pubkey context))) w inputs"

definition write_sequences :: "bench_input list \<Rightarrow> byte_writer \<Rightarrow> graph_error + byte_writer" where
  "write_sequences inputs w = try_fold (\<lambda>w input. writer_extend w (le_bytes 4 (bi_sequence input))) w inputs"

definition sighash_message ::
  "bytes list \<Rightarrow> nat \<Rightarrow> sighash_context \<Rightarrow> graph_error + bytes" where
  \<comment> \<open>\<open>hashes\<close>: prevouts, amounts, scripts, sequences, outputs\<close>
  "sighash_message hashes input_index context =
     bind_result (writer_push (writer_new 256) 0) (\<lambda>w.
     bind_result (writer_push w 0) (\<lambda>w.
     bind_result (writer_extend w (le_bytes 4 2)) (\<lambda>w.
     bind_result (writer_extend w (le_bytes 4 0)) (\<lambda>w.
     bind_result (try_fold writer_extend w hashes) (\<lambda>w.
     bind_result (writer_push w 2) (\<lambda>w.
     bind_result (writer_extend w (le_bytes 4 input_index)) (\<lambda>w.
     bind_result (writer_extend w (sx_cooperative_leaf_hash context)) (\<lambda>w.
     bind_result (writer_push w 0) (\<lambda>w.
     bind_result (writer_extend w (le_bytes 4 U32_MAX)) (\<lambda>w. Inr (as_slice w)))))))))))"

definition hash_components ::
  "sha \<Rightarrow> benchmark_transaction \<Rightarrow> sighash_context \<Rightarrow> graph_error + bytes list" where
  \<comment> \<open>one writer, cleared between the five components\<close>
  "hash_components H t context =
     bind_result (write_prevouts (bench_inputs t) (writer_new MAX_HASH_COMPONENT_SIZE)) (\<lambda>c1.
     bind_result (write_amounts (bench_inputs t) (writer_clear c1)) (\<lambda>c2.
     bind_result (write_script_pubkeys context (bench_inputs t) (writer_clear c2)) (\<lambda>c3.
     bind_result (write_sequences (bench_inputs t) (writer_clear c3)) (\<lambda>c4.
     bind_result (serialize_outputs (bench_outputs t) (writer_clear c4)) (\<lambda>c5.
     Inr (map (\<lambda>c. H [as_slice c]) [c1, c2, c3, c4, c5]))))))"

definition visit_input ::
  "sha \<Rightarrow> benchmark_transaction \<Rightarrow> nat \<Rightarrow> sighash_context \<Rightarrow> bytes list \<Rightarrow> ('s \<Rightarrow> signature_job \<Rightarrow> 'e + 's) \<Rightarrow>
   nat \<times> 's \<Rightarrow> nat \<Rightarrow> 'e visit_error + nat \<times> 's" where
  "visit_input H t transaction_index context hashes callback ns input_index = (case ns of (next_index, s) \<Rightarrow>
     if bi_controller (bt_inputs t ! input_index) then Inr (next_index, s) else
     bind_result (graph_err (sighash_message hashes input_index context)) (\<lambda>message.
     let sighash = tagged_hash H TAPSIGHASH_TAG_HASH [message] in
     bind_result (map_sum Callback id (callback s
       \<lparr>sj_signature_index = next_index, sj_transaction_index = transaction_index,
        sj_input_index = input_index, sj_sighash = sighash\<rparr>)) (\<lambda>s'.
     Inr (u8_inc next_index, s'))))"

definition for_each_sighash ::
  "sha \<Rightarrow> benchmark_transaction \<Rightarrow> nat \<Rightarrow> nat \<Rightarrow> sighash_context \<Rightarrow> ('s \<Rightarrow> signature_job \<Rightarrow> 'e + 's) \<Rightarrow> 's \<Rightarrow>
   'e visit_error + nat \<times> 's" where
  "for_each_sighash H t transaction_index first_signature_index context callback s =
     bind_result (graph_err (hash_components H t context)) (\<lambda>hashes.
     try_fold (visit_input H t transaction_index context hashes callback) (first_signature_index, s)
       [0..<bt_input_count t])"

definition policy_vsize :: "nat \<Rightarrow> nat \<Rightarrow> nat \<Rightarrow> nat" where
  "policy_vsize vault_input_count controller_input_count output_count =
     (let input_count = (vault_input_count + controller_input_count) mod 256;
          base_size = 4 + 1 + input_count * 41 + 1 + output_count * (8 + 1 + P2TR_SCRIPT_LEN) + 4;
          vault_witness = 1 + 2 * (1 + 64) + 1 + COOPERATIVE_SCRIPT_LEN + 1 + COOPERATIVE_CONTROL_BLOCK_LEN;
          controller_witness = 1 + (1 + 64) + 1 + CONTROLLER_SCRIPT_LEN + 1 + CONTROLLER_CONTROL_BLOCK_LEN;
          witness_size = 2 + vault_input_count * vault_witness + controller_input_count * controller_witness in
      (base_size * 4 + witness_size + 3) div 4)"

section \<open>The workload\<close>

record workload_summary =
  ws_rollover_inputs :: nat
  ws_transactions :: nat
  ws_signature_jobs :: nat

record benchmark_config =
  bf_rollover_inputs :: "bench_input list"
  bf_rollover_input_count :: nat
  bf_monthly_hot_scripts :: "bytes list"
  bf_emergency_hot_script :: bytes
  bf_vault_script_pubkey :: bytes
  bf_controller_script_pubkey :: bytes
  bf_cooperative_leaf_hash :: bytes

definition ascii :: "string \<Rightarrow> bytes" where
  "ascii s = map of_char s"

definition fake_input :: "sha \<Rightarrow> nat \<Rightarrow> nat \<Rightarrow> bench_input" where
  "fake_input H count i =
     \<lparr>bi_previous_txid = H [ascii ''Anzen benchmark fake UTXO v1'', [of_nat i]], bi_previous_vout = 0,
      bi_amount_sats = VAULT_BALANCE_SATS div count + (if i = 0 then 1 else 0) * (VAULT_BALANCE_SATS mod count),
      bi_sequence = U32_MAX, bi_controller = False\<rparr>"

definition deterministic :: "sha \<Rightarrow> nat \<Rightarrow> bytes \<Rightarrow> bytes \<Rightarrow> bytes \<Rightarrow> graph_error + benchmark_config" where
  "deterministic H rollover_input_count vault_output_key controller_output_key cooperative_leaf_hash =
     (if rollover_input_count = 0 \<or> MAX_ROLLOVER_INPUTS < rollover_input_count
      then Inl InvalidRolloverInputCount
      else Inr \<lparr>bf_rollover_inputs = map (\<lambda>i. if i < rollover_input_count then fake_input H rollover_input_count i
                                            else bench_input_default) [0..<MAX_ROLLOVER_INPUTS],
        bf_rollover_input_count = rollover_input_count,
        bf_monthly_hot_scripts =
          map (\<lambda>i. p2tr_script (H [ascii ''Anzen benchmark monthly hot output v1'', [of_nat i]])) [0..<MONTHLY_STEPS],
        bf_emergency_hot_script = p2tr_script (H [ascii ''Anzen benchmark emergency hot output v1'']),
        bf_vault_script_pubkey = p2tr_script vault_output_key,
        bf_controller_script_pubkey = p2tr_script controller_output_key,
        bf_cooperative_leaf_hash = cooperative_leaf_hash\<rparr>)"

definition signer_summary :: "benchmark_config \<Rightarrow> workload_summary" where
  "signer_summary c = \<lparr>ws_rollover_inputs = bf_rollover_input_count c, ws_transactions = TRANSACTION_COUNT,
     ws_signature_jobs = (bf_rollover_input_count c + 14) mod 256\<rparr>"

definition vault_output :: "benchmark_config \<Rightarrow> nat \<Rightarrow> bench_output" where
  "vault_output c v = \<lparr>bo_amount_sats = v, bo_script_pubkey = bf_vault_script_pubkey c\<rparr>"

definition connector_output :: "benchmark_config \<Rightarrow> bench_output" where
  "connector_output c = \<lparr>bo_amount_sats = SIGNER_CONNECTOR_SATS, bo_script_pubkey = bf_controller_script_pubkey c\<rparr>"

definition vault_spend :: "bytes \<Rightarrow> nat \<Rightarrow> nat \<Rightarrow> nat \<Rightarrow> bench_input" where
  "vault_spend txid vout amount sequence = \<lparr>bi_previous_txid = txid, bi_previous_vout = vout,
     bi_amount_sats = amount, bi_sequence = sequence, bi_controller = False\<rparr>"

definition connector_spend :: "bytes \<Rightarrow> nat \<Rightarrow> bench_input" where
  "connector_spend txid vout = \<lparr>bi_previous_txid = txid, bi_previous_vout = vout,
     bi_amount_sats = SIGNER_CONNECTOR_SATS, bi_sequence = CONNECTOR_SEQUENCE, bi_controller = True\<rparr>"

definition signer_allowance_value :: "graph_error + nat" where
  "signer_allowance_value = ok_or
     (Option.bind (checked_mul MONTHLY_ALLOWANCE_SATS MONTHLY_STEPS) (\<lambda>v.
      Option.bind (checked_add v (policy_vsize 1 1 3 * (MONTHLY_STEPS - 1))) (\<lambda>v.
      Option.bind (checked_add v (policy_vsize 1 1 1)) (\<lambda>v.
      checked_sub v SIGNER_CONNECTOR_SATS)))) InsufficientValue"

definition rollover_remainder :: "benchmark_config \<Rightarrow> nat \<Rightarrow> graph_error + nat" where
  "rollover_remainder c allowance_value = ok_or
     (Option.bind (checked_sub VAULT_BALANCE_SATS allowance_value) (\<lambda>v.
      Option.bind (checked_sub v (policy_vsize (bf_rollover_input_count c) 0 4)) (\<lambda>v.
      checked_sub v (SIGNER_CONNECTOR_SATS * 2)))) InsufficientValue"

definition next_chain_amount :: "bool \<Rightarrow> nat \<Rightarrow> nat \<Rightarrow> graph_error + nat" where
  "next_chain_amount has_next amount authorization_fee = ok_or
     (Option.bind (checked_add amount SIGNER_CONNECTOR_SATS) (\<lambda>v.
      Option.bind (if has_next then checked_sub v SIGNER_CONNECTOR_SATS else Some v) (\<lambda>v.
      Option.bind (checked_sub v MONTHLY_ALLOWANCE_SATS) (\<lambda>v.
      checked_sub v authorization_fee)))) InsufficientValue"

definition authorization_transaction ::
  "benchmark_config \<Rightarrow> bool \<Rightarrow> nat \<Rightarrow> bench_input \<Rightarrow> bench_input \<Rightarrow> nat \<Rightarrow> graph_error + benchmark_transaction" where
  "authorization_transaction c has_next i chain_input connector_input next_chain_value =
     (let hot_output = \<lparr>bo_amount_sats = MONTHLY_ALLOWANCE_SATS, bo_script_pubkey = bf_monthly_hot_scripts c ! i\<rparr> in
      if has_next
      then bt_new [chain_input, connector_input] [hot_output, vault_output c next_chain_value, connector_output c]
      else if next_chain_value \<noteq> 0 then Inl InsufficientValue
      else bt_new [chain_input, connector_input] [hot_output])"

definition walk_allowance ::
  "sha \<Rightarrow> benchmark_config \<Rightarrow> ('s \<Rightarrow> benchmark_transaction \<Rightarrow> 'e visit_error + 's) \<Rightarrow>
   bench_input \<times> bench_input \<times> 's \<Rightarrow> nat \<Rightarrow> 'e visit_error + bench_input \<times> bench_input \<times> 's" where
  "walk_allowance H c callback cs i = (case cs of (chain_input, connector_input, s) \<Rightarrow>
     let has_next = (i + 1 < MONTHLY_STEPS);
         authorization_fee = (if has_next then policy_vsize 1 1 3 else policy_vsize 1 1 1) in
     bind_result (graph_err (next_chain_amount has_next (bi_amount_sats chain_input) authorization_fee)) (\<lambda>next_chain_value.
     bind_result (graph_err (authorization_transaction c has_next i chain_input connector_input next_chain_value))
       (\<lambda>authorization.
     bind_result (callback s authorization) (\<lambda>s'.
     bind_result (graph_err (bench_txid H authorization)) (\<lambda>txid.
     if has_next
     then Inr (vault_spend txid 1 next_chain_value MONTHLY_DELAY_SEQUENCE, connector_spend txid 2, s')
     else Inr (chain_input, connector_input, s'))))))"

definition walk_emergency ::
  "sha \<Rightarrow> benchmark_config \<Rightarrow> ('s \<Rightarrow> benchmark_transaction \<Rightarrow> 'e visit_error + 's) \<Rightarrow> bytes \<Rightarrow> nat \<Rightarrow> 's \<Rightarrow>
   'e visit_error + 's" where
  "walk_emergency H c callback rollover_txid remainder s =
     bind_result (graph_err (ok_or
       (Option.bind (checked_add EMERGENCY_ACCESS_SATS (policy_vsize 1 1 1)) (\<lambda>v.
        checked_sub v SIGNER_CONNECTOR_SATS)) InsufficientValue)) (\<lambda>staging_value.
     bind_result (graph_err (ok_or
       (Option.bind (checked_sub remainder staging_value) (\<lambda>v. checked_sub v (policy_vsize 1 1 3)))
       InsufficientValue)) (\<lambda>vault_change.
     bind_result (graph_err (bt_new
       [vault_spend rollover_txid 1 remainder U32_MAX, connector_spend rollover_txid 3]
       [vault_output c staging_value, vault_output c vault_change, connector_output c])) (\<lambda>trigger.
     bind_result (callback s trigger) (\<lambda>s.
     bind_result (graph_err (bench_txid H trigger)) (\<lambda>trigger_txid.
     bind_result (graph_err (bt_new
       [vault_spend trigger_txid 0 staging_value EMERGENCY_DELAY_SEQUENCE, connector_spend trigger_txid 2]
       [\<lparr>bo_amount_sats = EMERGENCY_ACCESS_SATS, bo_script_pubkey = bf_emergency_hot_script c\<rparr>])) (\<lambda>withdrawal.
     callback s withdrawal))))))"

definition walk_transactions ::
  "sha \<Rightarrow> benchmark_config \<Rightarrow> ('s \<Rightarrow> benchmark_transaction \<Rightarrow> 'e visit_error + 's) \<Rightarrow> 's \<Rightarrow> 'e visit_error + 's" where
  "walk_transactions H c callback s =
     bind_result (graph_err signer_allowance_value) (\<lambda>allowance_value.
     bind_result (graph_err (rollover_remainder c allowance_value)) (\<lambda>remainder.
     bind_result (graph_err (bt_new (take (bf_rollover_input_count c) (bf_rollover_inputs c))
       [vault_output c allowance_value, vault_output c remainder, connector_output c, connector_output c])) (\<lambda>rollover.
     bind_result (callback s rollover) (\<lambda>s.
     bind_result (graph_err (bench_txid H rollover)) (\<lambda>rollover_txid.
     bind_result (try_fold (walk_allowance H c callback)
         (vault_spend rollover_txid 0 allowance_value MONTHLY_DELAY_SEQUENCE, connector_spend rollover_txid 2, s)
         [0..<MONTHLY_STEPS]) (\<lambda>(_, _, s).
     walk_emergency H c callback rollover_txid remainder s))))))"

definition visit_transaction ::
  "sha \<Rightarrow> sighash_context \<Rightarrow> ('s \<Rightarrow> signature_job \<Rightarrow> 'e + 's) \<Rightarrow> nat \<times> nat \<times> 's \<Rightarrow> benchmark_transaction \<Rightarrow>
   'e visit_error + nat \<times> nat \<times> 's" where
  "visit_transaction H context callback nts t = (case nts of (next_signature, transaction_index, s) \<Rightarrow>
     bind_result (for_each_sighash H t transaction_index next_signature context callback s) (\<lambda>(next_signature', s').
     Inr (next_signature', u8_inc transaction_index, s')))"

definition config_context :: "benchmark_config \<Rightarrow> sighash_context" where
  "config_context c = \<lparr>sx_vault_script_pubkey = bf_vault_script_pubkey c,
     sx_controller_script_pubkey = bf_controller_script_pubkey c,
     sx_cooperative_leaf_hash = bf_cooperative_leaf_hash c\<rparr>"

definition for_each_signature_job ::
  "sha \<Rightarrow> benchmark_config \<Rightarrow> ('s \<Rightarrow> signature_job \<Rightarrow> 'e + 's) \<Rightarrow> 's \<Rightarrow> 'e visit_error + workload_summary \<times> 's" where
  "for_each_signature_job H c callback s =
     bind_result (walk_transactions H c (visit_transaction H (config_context c) callback) (0, 0, s)) (\<lambda>(_, _, s').
     Inr (signer_summary c, s'))"

end
