(* ===== verification/Signer_Graph.thy ===== *)
theory Signer_Graph
  imports Cold_Signer
begin

text \<open>
  What the cold signer's workload computes. Its bounded writers never overflow and write the BIP144
  and BIP341 encodings (\<open>tx_bytes\<close>, \<open>message_bytes\<close>); the walk visits the fifteen transactions of
  the reference graph \<open>year_graph\<close>, which conserve value up to the stated fees and spend one another's
  outputs; and the signature jobs are numbered without gaps.
\<close>

section \<open>Writers\<close>

definition written :: "nat \<Rightarrow> bytes \<Rightarrow> byte_writer \<Rightarrow> bool" where
  "written n x w \<longleftrightarrow> n < u64_bound \<and> length (bw_bytes w) = n \<and> bw_len w = length x \<and> length x \<le> n \<and> as_slice w = x"

definition appends :: "(byte_writer \<Rightarrow> graph_error + byte_writer) \<Rightarrow> bytes \<Rightarrow> bool" where
  "appends f v \<longleftrightarrow> (\<forall>n x w. written n x w \<longrightarrow> length x + length v \<le> n \<longrightarrow> (\<exists>w'. f w = Inr w' \<and> written n (x @ v) w'))"

lemma appendsI:
  "(\<And>n x w. written n x w \<Longrightarrow> length x + length v \<le> n \<Longrightarrow> \<exists>w'. f w = Inr w' \<and> written n (x @ v) w') \<Longrightarrow> appends f v"
  by (simp add: appends_def)

lemma appendsE:
  assumes "appends f v" and "written n x w" and "length x + length v \<le> n"
  obtains w' where "f w = Inr w'" and "written n (x @ v) w'"
  using assms unfolding appends_def by blast

lemma written_new [simp]: "n < u64_bound \<Longrightarrow> written n [] (writer_new n)"
  by (simp add: written_def writer_new_def as_slice_def)

lemma written_clear: "written n x w \<Longrightarrow> written n [] (writer_clear w)"
  by (simp add: written_def writer_clear_def as_slice_def)

lemma writer_extend_cases:
  assumes "written n x w"
  shows "writer_extend w v = (if length x + length v \<le> n
    then Inr \<lparr>bw_bytes = x @ v @ drop (length x + length v) (bw_bytes w), bw_len = length x + length v\<rparr>
    else Inl SerializationOverflow)"
  using assms by (auto simp: writer_extend_def written_def as_slice_def checked_add_def)

lemma appends_extend: "appends (\<lambda>w. writer_extend w v) v"
proof (rule appendsI)
  fix n x w assume w: "written n x w" and "length x + length v \<le> n"
  then have "writer_extend w v =
      Inr \<lparr>bw_bytes = x @ v @ drop (length x + length v) (bw_bytes w), bw_len = length x + length v\<rparr>"
    by (simp add: writer_extend_cases [OF w])
  then show "\<exists>w'. writer_extend w v = Inr w' \<and> written n (x @ v) w'"
    using w \<open>length x + length v \<le> n\<close> by (simp add: written_def as_slice_def)
qed

lemma appends_push: "appends (\<lambda>w. writer_push w b) [b]"
  using appends_extend [of "[b]"] by (simp add: writer_push_def)

lemma appends_bind:
  assumes "appends f v" and "appends g u"
  shows "appends (\<lambda>w. bind_result (f w) g) (v @ u)"
proof (rule appendsI)
  fix n x w assume w: "written n x w" and l: "length x + length (v @ u) \<le> n"
  obtain w' where 1: "f w = Inr w'" "written n (x @ v) w'" using appendsE [OF assms(1) w] l by auto
  obtain w'' where "g w' = Inr w''" "written n ((x @ v) @ u) w''" using appendsE [OF assms(2) 1(2)] l by auto
  then show "\<exists>w'. bind_result (f w) g = Inr w' \<and> written n (x @ v @ u) w'" using 1 by simp
qed

lemma appends_fold:
  assumes "\<And>a. a \<in> set as \<Longrightarrow> appends (\<lambda>w. f w a) (g a)"
  shows "appends (\<lambda>w. try_fold f w as) (concat (map g as))"
  using assms
proof (induction as)
  case Nil
  show ?case by (rule appendsI) simp
next
  case (Cons a as)
  have "appends (\<lambda>w. bind_result (f w a) (\<lambda>w. try_fold f w as)) (g a @ concat (map g as))"
    by (rule appends_bind) (use Cons in auto)
  then show ?case by simp
qed

lemma appends_run:
  assumes "appends f v" and "written n [] w" and "length v \<le> n"
  shows "\<exists>w'. f w = Inr w' \<and> written n v w'"
  using assms unfolding appends_def by fastforce

lemmas appends_intros = appends_bind appends_extend appends_push appends_fold

lemma bind_result_assoc: "bind_result (bind_result m f) g = bind_result m (\<lambda>x. bind_result (f x) g)"
  by (simp add: bind_result_def split: sum.splits)

section \<open>Encodings\<close>

definition input_bytes :: "bench_input \<Rightarrow> bytes" where
  "input_bytes i = bi_previous_txid i @ le_bytes 4 (bi_previous_vout i) @ [0] @ le_bytes 4 (bi_sequence i)"

definition output_bytes :: "bench_output \<Rightarrow> bytes" where
  "output_bytes out = le_bytes 8 (bo_amount_sats out) @ [of_nat P2TR_SCRIPT_LEN] @ bo_script_pubkey out"

definition tx_bytes :: "bench_input list \<Rightarrow> bench_output list \<Rightarrow> bytes" where
  "tx_bytes ins outs = le_bytes 4 2 @ [of_nat (length ins)] @ concat (map input_bytes ins)
     @ [of_nat (length outs)] @ concat (map output_bytes outs) @ le_bytes 4 0"

definition component_bytes :: "sighash_context \<Rightarrow> bench_input list \<Rightarrow> bench_output list \<Rightarrow> bytes list" where
  "component_bytes context ins outs =
     [concat (map (\<lambda>i. bi_previous_txid i @ le_bytes 4 (bi_previous_vout i)) ins),
      concat (map (\<lambda>i. le_bytes 8 (bi_amount_sats i)) ins),
      concat (map (\<lambda>i. [of_nat P2TR_SCRIPT_LEN] @ (if bi_controller i then sx_controller_script_pubkey context
                         else sx_vault_script_pubkey context)) ins),
      concat (map (\<lambda>i. le_bytes 4 (bi_sequence i)) ins),
      concat (map output_bytes outs)]"

definition message_bytes :: "sha \<Rightarrow> sighash_context \<Rightarrow> bench_input list \<Rightarrow> bench_output list \<Rightarrow> nat \<Rightarrow> bytes" where
  \<comment> \<open>the message of BIP341 for a script path: epoch, sighash type, version, lock time, the hashes of all
    inputs and outputs, spend type, input index, and the BIP342 extension\<close>
  "message_bytes H context ins outs i =
     [0, 0] @ le_bytes 4 2 @ le_bytes 4 0 @ concat (map (\<lambda>b. H [b]) (component_bytes context ins outs))
     @ [2] @ le_bytes 4 i @ sx_cooperative_leaf_hash context @ [0] @ le_bytes 4 U32_MAX"

lemma length_le_bytes [simp]: "length (le_bytes k n) = k"
  by (induction k n rule: le_bytes.induct) simp_all

lemma length_concat_const: "(\<And>a. a \<in> set as \<Longrightarrow> length (f a) = k) \<Longrightarrow> length (concat (map f as)) = k * length as"
  by (induction as) simp_all

definition digest_ok :: "sha \<Rightarrow> bool" where
  "digest_ok H \<longleftrightarrow> (\<forall>parts. length (H parts) = 32)"

definition inputs_ok :: "bench_input list \<Rightarrow> bool" where
  "inputs_ok ins \<longleftrightarrow> ins \<noteq> [] \<and> length ins \<le> 12 \<and> (\<forall>i \<in> set ins. length (bi_previous_txid i) = 32)"

definition outputs_ok :: "bench_output list \<Rightarrow> bool" where
  "outputs_ok outs \<longleftrightarrow> outs \<noteq> [] \<and> length outs \<le> 4 \<and> (\<forall>out \<in> set outs. length (bo_script_pubkey out) = 34)"

definition context_ok :: "sighash_context \<Rightarrow> bool" where
  "context_ok x \<longleftrightarrow> length (sx_vault_script_pubkey x) = 34 \<and> length (sx_controller_script_pubkey x) = 34
     \<and> length (sx_cooperative_leaf_hash x) = 32"

lemma length_input_bytes: "length (bi_previous_txid i) = 32 \<Longrightarrow> length (input_bytes i) = 41"
  by (simp add: input_bytes_def)

lemma length_output_bytes: "length (bo_script_pubkey out) = 34 \<Longrightarrow> length (output_bytes out) = 43"
  by (simp add: output_bytes_def)

lemma length_outputs: "outputs_ok outs \<Longrightarrow> length (concat (map output_bytes outs)) = 43 * length outs"
  by (rule length_concat_const) (simp add: outputs_ok_def length_output_bytes)

lemma length_tx_bytes:
  assumes "inputs_ok ins" and "outputs_ok outs"
  shows "length (tx_bytes ins outs) = 10 + 41 * length ins + 43 * length outs"
proof -
  have "length (concat (map input_bytes ins)) = 41 * length ins"
    by (rule length_concat_const) (use assms in \<open>simp add: inputs_ok_def length_input_bytes\<close>)
  then show ?thesis using length_outputs [OF assms(2)] by (simp add: tx_bytes_def)
qed

section \<open>Transactions\<close>

definition bt_of :: "bench_input list \<times> bench_output list \<Rightarrow> benchmark_transaction" where
  "bt_of io = (case io of (ins, outs) \<Rightarrow>
     \<lparr>bt_inputs = ins @ drop (length ins) (replicate MAX_ROLLOVER_INPUTS bench_input_default),
      bt_input_count = length ins,
      bt_outputs = outs @ drop (length outs) (replicate 4 bench_output_default), bt_output_count = length outs\<rparr>)"

lemma bt_new_ok: "inputs_ok ins \<Longrightarrow> outputs_ok outs \<Longrightarrow> bt_new ins outs = Inr (bt_of (ins, outs))"
  by (auto simp: bt_new_def bt_of_def inputs_ok_def outputs_ok_def MAX_ROLLOVER_INPUTS_def)

lemma bt_of_simps [simp]:
  "bench_inputs (bt_of (ins, outs)) = ins" "bench_outputs (bt_of (ins, outs)) = outs"
  "bt_input_count (bt_of (ins, outs)) = length ins" "bt_output_count (bt_of (ins, outs)) = length outs"
  "i < length ins \<Longrightarrow> bt_inputs (bt_of (ins, outs)) ! i = ins ! i"
  by (simp_all add: bt_of_def bench_inputs_def bench_outputs_def nth_append)

lemma appends_outputs: "appends (serialize_outputs outs) (concat (map output_bytes outs))"
  unfolding serialize_outputs_def output_bytes_def by (intro appends_intros)

lemma written_length: "written n x w \<Longrightarrow> as_slice w = x"
  by (simp add: written_def)

lemma serialize_bt_of:
  assumes "inputs_ok ins" and "outputs_ok outs"
  shows "\<exists>w. serialize (bt_of (ins, outs)) = Inr w \<and> as_slice w = tx_bytes ins outs"
proof -
  let ?f = "\<lambda>w. bind_result (writer_extend w (le_bytes 4 2)) (\<lambda>w.
     bind_result (writer_push w (of_nat (length ins))) (\<lambda>w.
     bind_result (try_fold (\<lambda>w input.
         bind_result (writer_extend w (bi_previous_txid input)) (\<lambda>w.
         bind_result (writer_extend w (le_bytes 4 (bi_previous_vout input))) (\<lambda>w.
         bind_result (writer_push w 0) (\<lambda>w.
         writer_extend w (le_bytes 4 (bi_sequence input)))))) w ins) (\<lambda>w.
     bind_result (writer_push w (of_nat (length outs))) (\<lambda>w.
     bind_result (serialize_outputs outs w) (\<lambda>w. writer_extend w (le_bytes 4 0))))))"
  have "appends ?f (tx_bytes ins outs)"
    unfolding tx_bytes_def input_bytes_def by (intro appends_intros appends_outputs)
  moreover have "length (tx_bytes ins outs) \<le> MAX_SERIALIZED_TX_SIZE"
    using assms by (simp add: length_tx_bytes MAX_SERIALIZED_TX_SIZE_def) (simp add: inputs_ok_def outputs_ok_def)
  moreover have "written MAX_SERIALIZED_TX_SIZE [] (writer_new MAX_SERIALIZED_TX_SIZE)"
    by (simp add: MAX_SERIALIZED_TX_SIZE_def u64_bound_def)
  ultimately obtain w where "?f (writer_new MAX_SERIALIZED_TX_SIZE) = Inr w"
      and "written MAX_SERIALIZED_TX_SIZE (tx_bytes ins outs) w"
    using appends_run by blast
  moreover have "serialize (bt_of (ins, outs)) = ?f (writer_new MAX_SERIALIZED_TX_SIZE)"
    by (simp only: serialize_def bt_of_simps)
  ultimately show ?thesis using written_length by (metis (no_types))
qed

definition graph_txid :: "sha \<Rightarrow> bench_input list \<times> bench_output list \<Rightarrow> bytes" where
  "graph_txid H io = H [H [tx_bytes (fst io) (snd io)]]"

lemma bench_txid_bt_of:
  "inputs_ok ins \<Longrightarrow> outputs_ok outs \<Longrightarrow> bench_txid H (bt_of (ins, outs)) = Inr (graph_txid H (ins, outs))"
  using serialize_bt_of [of ins outs] by (auto simp: bench_txid_def graph_txid_def)

section \<open>Signature messages\<close>

lemma components_fit:
  assumes "inputs_ok ins" and "outputs_ok outs" and "context_ok context" and "b \<in> set (component_bytes context ins outs)"
  shows "length b \<le> MAX_HASH_COMPONENT_SIZE"
proof -
  have 1: "length (concat (map (\<lambda>i. bi_previous_txid i @ le_bytes 4 (bi_previous_vout i)) ins)) = 36 * length ins"
    and 2: "length (concat (map (\<lambda>i. le_bytes 8 (bi_amount_sats i)) ins)) = 8 * length ins"
    and 3: "length (concat (map (\<lambda>i. [of_nat P2TR_SCRIPT_LEN] @ (if bi_controller i then sx_controller_script_pubkey context
                         else sx_vault_script_pubkey context)) ins)) = 35 * length ins"
    and 4: "length (concat (map (\<lambda>i. le_bytes 4 (bi_sequence i)) ins)) = 4 * length ins"
    using assms by (auto intro!: length_concat_const simp: inputs_ok_def context_ok_def)
  have "length ins \<le> 12" "length outs \<le> 4" using assms by (simp_all add: inputs_ok_def outputs_ok_def)
  then show ?thesis
    using assms(4) 1 2 3 4 length_outputs [OF assms(2)]
    by (auto simp only: component_bytes_def set_simps MAX_HASH_COMPONENT_SIZE_def)
qed

lemma component_written:
  assumes "appends f b" and "written MAX_HASH_COMPONENT_SIZE x w" and "length b \<le> MAX_HASH_COMPONENT_SIZE"
  shows "\<exists>w'. f (writer_clear w) = Inr w' \<and> written MAX_HASH_COMPONENT_SIZE b w'"
  using appends_run [OF assms(1) written_clear [OF assms(2)] assms(3)] .

lemma appends_components:
  "appends (write_prevouts ins) (concat (map (\<lambda>i. bi_previous_txid i @ le_bytes 4 (bi_previous_vout i)) ins))"
  "appends (write_amounts ins) (concat (map (\<lambda>i. le_bytes 8 (bi_amount_sats i)) ins))"
  "appends (write_script_pubkeys context ins)
     (concat (map (\<lambda>i. [of_nat P2TR_SCRIPT_LEN] @ (if bi_controller i then sx_controller_script_pubkey context
                         else sx_vault_script_pubkey context)) ins))"
  "appends (write_sequences ins) (concat (map (\<lambda>i. le_bytes 4 (bi_sequence i)) ins))"
  unfolding write_prevouts_def write_amounts_def write_script_pubkeys_def write_sequences_def
  by (intro appends_intros)+

lemma hash_components_bt_of:
  assumes "inputs_ok ins" and "outputs_ok outs" and "context_ok context"
  shows "hash_components H (bt_of (ins, outs)) context = Inr (map (\<lambda>b. H [b]) (component_bytes context ins outs))"
proof -
  let ?n = MAX_HASH_COMPONENT_SIZE
  obtain b1 b2 b3 b4 b5 where b: "component_bytes context ins outs = [b1, b2, b3, b4, b5]"
    by (simp add: component_bytes_def)
  have "appends (write_prevouts ins) b1" "appends (write_amounts ins) b2"
    "appends (write_script_pubkeys context ins) b3" "appends (write_sequences ins) b4"
    "appends (serialize_outputs outs) b5"
    using appends_components(1,2,4) [where ins = ins] appends_components(3) [of "context" ins]
      appends_outputs [of outs] b unfolding component_bytes_def list.inject by blast+
  note aps = this
  have fit: "length b1 \<le> ?n" "length b2 \<le> ?n" "length b3 \<le> ?n" "length b4 \<le> ?n" "length b5 \<le> ?n"
    using components_fit [OF assms] unfolding b by (simp_all only: set_simps insert_iff simp_thms)
  have n: "written ?n [] (writer_new ?n)" by (simp add: MAX_HASH_COMPONENT_SIZE_def u64_bound_def)
  obtain c1 where c1: "write_prevouts ins (writer_new ?n) = Inr c1" "written ?n b1 c1"
    using appends_run [OF aps(1) n fit(1)] by blast
  obtain c2 where c2: "write_amounts ins (writer_clear c1) = Inr c2" "written ?n b2 c2"
    using component_written [OF aps(2) c1(2) fit(2)] by blast
  obtain c3 where c3: "write_script_pubkeys context ins (writer_clear c2) = Inr c3" "written ?n b3 c3"
    using component_written [OF aps(3) c2(2) fit(3)] by blast
  obtain c4 where c4: "write_sequences ins (writer_clear c3) = Inr c4" "written ?n b4 c4"
    using component_written [OF aps(4) c3(2) fit(4)] by blast
  obtain c5 where c5: "serialize_outputs outs (writer_clear c4) = Inr c5" "written ?n b5 c5"
    using component_written [OF aps(5) c4(2) fit(5)] by blast
  have "hash_components H (bt_of (ins, outs)) context = Inr (map (\<lambda>c. H [as_slice c]) [c1, c2, c3, c4, c5])"
    by (simp only: hash_components_def bt_of_simps c1(1) c2(1) c3(1) c4(1) c5(1) bind_result_simps)
  then show ?thesis
    by (simp add: b written_length [OF c1(2)] written_length [OF c2(2)] written_length [OF c3(2)]
        written_length [OF c4(2)] written_length [OF c5(2)])
qed

lemma sighash_message_bytes:
  assumes "digest_ok H" and "context_ok context"
  shows "sighash_message (map (\<lambda>b. H [b]) (component_bytes context ins outs)) i context
    = Inr (message_bytes H context ins outs i)"
proof -
  let ?hashes = "map (\<lambda>b. H [b]) (component_bytes context ins outs)"
  let ?f = "\<lambda>w. bind_result (writer_push w 0) (\<lambda>w. bind_result (writer_push w 0) (\<lambda>w.
     bind_result (writer_extend w (le_bytes 4 2)) (\<lambda>w. bind_result (writer_extend w (le_bytes 4 0)) (\<lambda>w.
     bind_result (try_fold writer_extend w ?hashes) (\<lambda>w. bind_result (writer_push w 2) (\<lambda>w.
     bind_result (writer_extend w (le_bytes 4 i)) (\<lambda>w.
     bind_result (writer_extend w (sx_cooperative_leaf_hash context)) (\<lambda>w.
     bind_result (writer_push w 0) (\<lambda>w. writer_extend w (le_bytes 4 U32_MAX))))))))))"
  let ?m = "[0] @ [0] @ le_bytes 4 2 @ le_bytes 4 0 @ concat (map (\<lambda>h. h) ?hashes) @ [2] @ le_bytes 4 i
     @ sx_cooperative_leaf_hash context @ [0] @ le_bytes 4 U32_MAX"
  have m: "?m = message_bytes H context ins outs i" by (simp add: message_bytes_def)
  have "appends ?f ?m" by (intro appends_intros)
  moreover have "length ?m \<le> 256"
    using assms by (simp add: digest_ok_def context_ok_def component_bytes_def)
  moreover have "written 256 [] (writer_new 256)" by (simp add: u64_bound_def)
  ultimately obtain w where "?f (writer_new 256) = Inr w" and "written 256 ?m w"
    using appends_run by blast
  moreover have "sighash_message ?hashes i context = bind_result (?f (writer_new 256)) (\<lambda>w. Inr (as_slice w))"
    by (simp only: sighash_message_def bind_result_assoc)
  ultimately show ?thesis using m written_length by (simp only: bind_result_simps)
qed

definition graph_sighash ::
  "sha \<Rightarrow> sighash_context \<Rightarrow> bench_input list \<times> bench_output list \<Rightarrow> nat \<Rightarrow> bytes" where
  "graph_sighash H context io i =
     tagged_hash H TAPSIGHASH_TAG_HASH [message_bytes H context (fst io) (snd io) i]"

definition vault_indexes :: "bench_input list \<Rightarrow> nat list" where
  "vault_indexes ins = filter (\<lambda>i. \<not> bi_controller (ins ! i)) [0..<length ins]"

fun number_jobs :: "(nat \<Rightarrow> bytes) \<Rightarrow> nat \<Rightarrow> nat \<Rightarrow> nat list \<Rightarrow> signature_job list" where
  "number_jobs sighash ti si [] = []"
| "number_jobs sighash ti si (i # is) =
     \<lparr>sj_signature_index = si, sj_transaction_index = ti, sj_input_index = i, sj_sighash = sighash i\<rparr>
       # number_jobs sighash ti (Suc si) is"

definition transaction_jobs ::
  "sha \<Rightarrow> sighash_context \<Rightarrow> nat \<Rightarrow> nat \<Rightarrow> bench_input list \<times> bench_output list \<Rightarrow> signature_job list" where
  "transaction_jobs H context ti si io = number_jobs (graph_sighash H context io) ti si (vault_indexes (fst io))"

lemma visit_inputs:
  assumes "inputs_ok ins" and "outputs_ok outs" and "context_ok context" and "digest_ok H"
    and "\<forall>i \<in> set is. i < length ins" and "si + length (filter (\<lambda>i. \<not> bi_controller (ins ! i)) is) < 256"
  shows "try_fold (visit_input H (bt_of (ins, outs)) ti context (map (\<lambda>b. H [b]) (component_bytes context ins outs))
            callback) (si, s) is
    = map_sum Callback (\<lambda>s. (si + length (filter (\<lambda>i. \<not> bi_controller (ins ! i)) is), s))
        (try_fold callback s (number_jobs (graph_sighash H context (ins, outs)) ti si
           (filter (\<lambda>i. \<not> bi_controller (ins ! i)) is)))"
  using assms(5,6)
proof (induction "is" arbitrary: si s)
  case Nil
  then show ?case by simp
next
  case (Cons i "is")
  show ?case
  proof (cases "bi_controller (ins ! i)")
    case True
    then show ?thesis using Cons by (simp add: visit_input_def)
  next
    case False
    let ?job = "\<lparr>sj_signature_index = si, sj_transaction_index = ti, sj_input_index = i,
      sj_sighash = graph_sighash H context (ins, outs) i\<rparr>"
    have "u8_inc si = Suc si" using Cons.prems False by (simp add: u8_inc_def)
    then show ?thesis
      using Cons False sighash_message_bytes [OF assms(4,3)]
      by (cases "callback s ?job") (simp_all add: visit_input_def graph_err_def graph_sighash_def)
  qed
qed

text \<open>One transaction: the callback sees exactly the BIP341 jobs of its vault inputs, in order.\<close>

lemma for_each_sighash_jobs:
  assumes "inputs_ok ins" and "outputs_ok outs" and "context_ok context" and "digest_ok H"
    and "si + length (vault_indexes ins) < 256"
  shows "for_each_sighash H (bt_of (ins, outs)) ti si context callback s
    = map_sum Callback (\<lambda>s. (si + length (vault_indexes ins), s))
        (try_fold callback s (transaction_jobs H context ti si (ins, outs)))"
  using visit_inputs [OF assms(1-4), of "[0..<length ins]" si ti callback s] assms(5)
  by (simp add: for_each_sighash_def hash_components_bt_of [OF assms(1-3)] graph_err_def vault_indexes_def
      transaction_jobs_def)

section \<open>The reference graph\<close>

text \<open>
  A year as a list of transactions, each given by its inputs and outputs: the rollover, the twelve
  allowances down a chain of vault outputs, and the emergency pair.
\<close>

definition authorization_fee_of :: "nat \<Rightarrow> nat" where
  "authorization_fee_of i = (if i + 1 < MONTHLY_STEPS then policy_vsize 1 1 3 else policy_vsize 1 1 1)"

definition chain_amount :: "nat \<Rightarrow> nat" where
  \<comment> \<open>what the vault output that allowance \<open>i\<close> spends holds\<close>
  "chain_amount i = sum_list (map (\<lambda>k. MONTHLY_ALLOWANCE_SATS + authorization_fee_of k) [i..<MONTHLY_STEPS])
     - SIGNER_CONNECTOR_SATS"

definition remainder_amount :: "benchmark_config \<Rightarrow> nat" where
  "remainder_amount c = VAULT_BALANCE_SATS - chain_amount 0 - policy_vsize (bf_rollover_input_count c) 0 4
     - 2 * SIGNER_CONNECTOR_SATS"

definition staging_amount :: nat where
  "staging_amount = EMERGENCY_ACCESS_SATS + policy_vsize 1 1 1 - SIGNER_CONNECTOR_SATS"

definition rollover_io :: "benchmark_config \<Rightarrow> bench_input list \<times> bench_output list" where
  "rollover_io c = (take (bf_rollover_input_count c) (bf_rollover_inputs c),
     [vault_output c (chain_amount 0), vault_output c (remainder_amount c), connector_output c, connector_output c])"

definition authorization_outputs :: "benchmark_config \<Rightarrow> nat \<Rightarrow> bench_output list" where
  "authorization_outputs c i =
     \<lparr>bo_amount_sats = MONTHLY_ALLOWANCE_SATS, bo_script_pubkey = bf_monthly_hot_scripts c ! i\<rparr>
       # (if i + 1 < MONTHLY_STEPS then [vault_output c (chain_amount (Suc i)), connector_output c] else [])"

fun authorization_io :: "sha \<Rightarrow> benchmark_config \<Rightarrow> nat \<Rightarrow> bench_input list \<times> bench_output list" where
  "authorization_io H c 0 = (let txid = graph_txid H (rollover_io c) in
     ([vault_spend txid 0 (chain_amount 0) MONTHLY_DELAY_SEQUENCE, connector_spend txid 2], authorization_outputs c 0))"
| "authorization_io H c (Suc i) = (let txid = graph_txid H (authorization_io H c i) in
     ([vault_spend txid 1 (chain_amount (Suc i)) MONTHLY_DELAY_SEQUENCE, connector_spend txid 2],
      authorization_outputs c (Suc i)))"

definition trigger_io :: "sha \<Rightarrow> benchmark_config \<Rightarrow> bench_input list \<times> bench_output list" where
  "trigger_io H c = (let txid = graph_txid H (rollover_io c) in
     ([vault_spend txid 1 (remainder_amount c) U32_MAX, connector_spend txid 3],
      [vault_output c staging_amount,
       vault_output c (remainder_amount c - staging_amount - policy_vsize 1 1 3), connector_output c]))"

definition withdrawal_io :: "sha \<Rightarrow> benchmark_config \<Rightarrow> bench_input list \<times> bench_output list" where
  "withdrawal_io H c = (let txid = graph_txid H (trigger_io H c) in
     ([vault_spend txid 0 staging_amount EMERGENCY_DELAY_SEQUENCE, connector_spend txid 2],
      [\<lparr>bo_amount_sats = EMERGENCY_ACCESS_SATS, bo_script_pubkey = bf_emergency_hot_script c\<rparr>]))"

definition year_graph :: "sha \<Rightarrow> benchmark_config \<Rightarrow> (bench_input list \<times> bench_output list) list" where
  "year_graph H c = rollover_io c # map (authorization_io H c) [0..<MONTHLY_STEPS] @ [trigger_io H c, withdrawal_io H c]"

definition config_ok :: "benchmark_config \<Rightarrow> bool" where
  "config_ok c \<longleftrightarrow> inputs_ok (take (bf_rollover_input_count c) (bf_rollover_inputs c))
     \<and> bf_rollover_input_count c \<le> length (bf_rollover_inputs c)
     \<and> (\<forall>i \<in> set (take (bf_rollover_input_count c) (bf_rollover_inputs c)). \<not> bi_controller i)
     \<and> sum_list (map bi_amount_sats (take (bf_rollover_input_count c) (bf_rollover_inputs c))) = VAULT_BALANCE_SATS
     \<and> length (bf_monthly_hot_scripts c) = MONTHLY_STEPS \<and> (\<forall>s \<in> set (bf_monthly_hot_scripts c). length s = 34)
     \<and> length (bf_emergency_hot_script c) = 34 \<and> length (bf_vault_script_pubkey c) = 34
     \<and> length (bf_controller_script_pubkey c) = 34 \<and> length (bf_cooperative_leaf_hash c) = 32"

lemma policy_vsize_values:
  "policy_vsize 1 1 3 = 331" "policy_vsize (Suc 0) (Suc 0) 3 = 331"
  "policy_vsize (Suc 0) (Suc 0) (Suc (Suc (Suc 0))) = 331"
  "policy_vsize 1 1 1 = 245" "policy_vsize (Suc 0) (Suc 0) (Suc 0) = 245"
  by (simp_all add: policy_vsize_def signer_constants)

lemma policy_vsize_rollover: "n \<le> 12 \<Longrightarrow> policy_vsize n 0 4 \<le> 1500"
  by (simp add: policy_vsize_def signer_constants)

lemma chain_amount_last: "chain_amount 11 = 9999245"
  by (simp add: chain_amount_def authorization_fee_of_def signer_constants policy_vsize_values)

lemma chain_amount_sum:
  assumes "i < 12"
  shows "chain_amount i + SIGNER_CONNECTOR_SATS
    = sum_list (map (\<lambda>k. MONTHLY_ALLOWANCE_SATS + authorization_fee_of k) [i..<MONTHLY_STEPS])"
proof -
  have "[i..<MONTHLY_STEPS] = i # [Suc i..<MONTHLY_STEPS]"
    using assms by (simp add: MONTHLY_STEPS_def upt_conv_Cons)
  then show ?thesis by (simp add: chain_amount_def signer_constants)
qed

lemma chain_amount_step:
  assumes "i < 11"
  shows "chain_amount i = chain_amount (Suc i) + MONTHLY_ALLOWANCE_SATS + 331"
proof -
  have "[i..<MONTHLY_STEPS] = i # [Suc i..<MONTHLY_STEPS]"
    using assms by (simp add: MONTHLY_STEPS_def upt_conv_Cons)
  then have "chain_amount i + SIGNER_CONNECTOR_SATS
      = MONTHLY_ALLOWANCE_SATS + authorization_fee_of i + (chain_amount (Suc i) + SIGNER_CONNECTOR_SATS)"
    using chain_amount_sum [of i] chain_amount_sum [of "Suc i"] assms by simp
  then show ?thesis
    using assms by (simp add: authorization_fee_of_def signer_constants policy_vsize_values)
qed

lemma chain_amount_first: "chain_amount 0 = 120002886"
  by (simp add: chain_amount_def authorization_fee_of_def signer_constants policy_vsize_values upt_rec)

lemma chain_amount_bound: "i < 12 \<Longrightarrow> chain_amount i \<le> 120002886"
proof (induction i)
  case 0
  show ?case by (simp add: chain_amount_first)
next
  case (Suc i)
  then show ?case using chain_amount_step [of i] by simp
qed

section \<open>The walk\<close>

lemma digest_length: "digest_ok H \<Longrightarrow> length (graph_txid H io) = 32"
  by (simp add: digest_ok_def graph_txid_def)

lemma pair_inputs_ok: "length txid = 32 \<Longrightarrow> inputs_ok [vault_spend txid v a q, connector_spend txid u]"
  by (simp add: inputs_ok_def vault_spend_def connector_spend_def)

lemma rollover_io_ok:
  assumes "config_ok c"
  shows "inputs_ok (fst (rollover_io c))" and "outputs_ok (snd (rollover_io c))"
  using assms by (simp_all add: config_ok_def rollover_io_def outputs_ok_def vault_output_def connector_output_def)

lemma authorization_outputs_ok:
  assumes "config_ok c" and "i < MONTHLY_STEPS"
  shows "outputs_ok (authorization_outputs c i)"
  using assms by (auto simp: config_ok_def authorization_outputs_def outputs_ok_def vault_output_def connector_output_def)

lemma authorization_io_ok:
  assumes "digest_ok H" and "config_ok c" and "i < MONTHLY_STEPS"
  shows "inputs_ok (fst (authorization_io H c i))" and "outputs_ok (snd (authorization_io H c i))"
  using authorization_outputs_ok [OF assms(2,3)] digest_length [OF assms(1)]
  by (cases i; simp add: Let_def pair_inputs_ok)+

lemma emergency_io_ok:
  assumes "digest_ok H" and "config_ok c"
  shows "inputs_ok (fst (trigger_io H c))" and "outputs_ok (snd (trigger_io H c))"
    and "inputs_ok (fst (withdrawal_io H c))" and "outputs_ok (snd (withdrawal_io H c))"
  using assms digest_length [OF assms(1)]
  by (simp_all add: trigger_io_def withdrawal_io_def Let_def pair_inputs_ok outputs_ok_def config_ok_def
      vault_output_def connector_output_def)

lemma year_graph_ok:
  assumes "digest_ok H" and "config_ok c" and "io \<in> set (year_graph H c)"
  shows "inputs_ok (fst io) \<and> outputs_ok (snd io)"
  using assms(3) rollover_io_ok [OF assms(2)] authorization_io_ok [OF assms(1,2)] emergency_io_ok [OF assms(1,2)]
  by (auto simp: year_graph_def)

lemma bt_new_io: "inputs_ok (fst io) \<Longrightarrow> outputs_ok (snd io) \<Longrightarrow> bt_new (fst io) (snd io) = Inr (bt_of io)"
  using bt_new_ok [of "fst io" "snd io"] by simp

lemma bench_txid_io:
  "inputs_ok (fst io) \<Longrightarrow> outputs_ok (snd io) \<Longrightarrow> bench_txid H (bt_of io) = Inr (graph_txid H io)"
  using bench_txid_bt_of [of "fst io" "snd io" H] by simp

lemma amount_authorization_io: "bi_amount_sats (hd (fst (authorization_io H c i))) = chain_amount i"
  by (cases i) (simp_all add: Let_def vault_spend_def)

lemma snd_authorization_io: "snd (authorization_io H c i) = authorization_outputs c i"
  by (cases i) (simp_all add: Let_def)

lemma next_chain_amount_graph:
  assumes "i < MONTHLY_STEPS"
  shows "next_chain_amount (i + 1 < MONTHLY_STEPS) (chain_amount i) (authorization_fee_of i)
    = Inr (if i + 1 < MONTHLY_STEPS then chain_amount (Suc i) else 0)"
proof (cases "i + 1 < MONTHLY_STEPS")
  case True
  then have "i < 11" by (simp add: MONTHLY_STEPS_def)
  from chain_amount_step [OF this] chain_amount_bound [of i] this show ?thesis
    using True by (simp add: next_chain_amount_def authorization_fee_of_def policy_vsize_values checked_add_def
        checked_sub_def SIGNER_CONNECTOR_SATS_def MONTHLY_ALLOWANCE_SATS_def u64_bound_def)
next
  case False
  then have "i = 11" using assms by (simp add: MONTHLY_STEPS_def)
  then show ?thesis
    by (simp add: next_chain_amount_def authorization_fee_of_def policy_vsize_values checked_add_def chain_amount_last
        checked_sub_def signer_constants u64_bound_def)
qed

lemma authorization_transaction_graph:
  assumes "digest_ok H" and "config_ok c" and "i < MONTHLY_STEPS"
    and "fst (authorization_io H c i) = [chain_input, connector_input]"
  shows "authorization_transaction c (i + 1 < MONTHLY_STEPS) i chain_input connector_input
      (if i + 1 < MONTHLY_STEPS then chain_amount (Suc i) else 0) = Inr (bt_of (authorization_io H c i))"
proof -
  have "authorization_transaction c (i + 1 < MONTHLY_STEPS) i chain_input connector_input
      (if i + 1 < MONTHLY_STEPS then chain_amount (Suc i) else 0)
    = bt_new (fst (authorization_io H c i)) (snd (authorization_io H c i))"
    by (simp add: authorization_transaction_def assms(4) snd_authorization_io authorization_outputs_def)
  then show ?thesis using bt_new_io authorization_io_ok [OF assms(1-3)] by simp
qed

lemma walk_allowances:
  assumes "digest_ok H" and "config_ok c" and "i \<le> MONTHLY_STEPS"
    and "i < MONTHLY_STEPS \<Longrightarrow> fst (authorization_io H c i) = [chain_input, connector_input]"
  shows "bind_result (try_fold (walk_allowance H c callback) (chain_input, connector_input, s) [i..<MONTHLY_STEPS])
      (\<lambda>(_, _, s). K s)
    = bind_result (try_fold callback s (map (\<lambda>i. bt_of (authorization_io H c i)) [i..<MONTHLY_STEPS])) K"
  using assms(3,4)
proof (induction "MONTHLY_STEPS - i" arbitrary: i chain_input connector_input s)
  case 0
  then show ?case by simp
next
  case (Suc d)
  then have i: "i < MONTHLY_STEPS" by simp
  note io = authorization_io_ok [OF assms(1,2) i]
  have upt: "[i..<MONTHLY_STEPS] = i # [Suc i..<MONTHLY_STEPS]" using i by (simp add: upt_conv_Cons)
  have ins: "fst (authorization_io H c i) = [chain_input, connector_input]" using Suc.prems i by blast
  have amount: "bi_amount_sats chain_input = chain_amount i"
    using ins amount_authorization_io [of H c i] by simp
  have fee: "(if i + 1 < MONTHLY_STEPS then policy_vsize 1 1 3 else policy_vsize 1 1 1) = authorization_fee_of i"
    by (simp add: authorization_fee_of_def)
  let ?more = "i + 1 < MONTHLY_STEPS"
  let ?txid = "graph_txid H (authorization_io H c i)"
  let ?chain = "if ?more then vault_spend ?txid 1 (chain_amount (Suc i)) MONTHLY_DELAY_SEQUENCE else chain_input"
  let ?conn = "if ?more then connector_spend ?txid 2 else connector_input"
  have step: "walk_allowance H c callback (chain_input, connector_input, s) i
      = bind_result (callback s (bt_of (authorization_io H c i))) (\<lambda>s'. Inr (?chain, ?conn, s'))"
    unfolding walk_allowance_def prod.case Let_def fee amount next_chain_amount_graph [OF i]
    by (simp add: graph_err_def authorization_transaction_graph [OF assms(1,2) i ins, simplified]
        bench_txid_io [OF io])
  have rest: "bind_result (try_fold (walk_allowance H c callback) (?chain, ?conn, s') [Suc i..<MONTHLY_STEPS])
      (\<lambda>(_, _, s). K s)
    = bind_result (try_fold callback s' (map (\<lambda>i. bt_of (authorization_io H c i)) [Suc i..<MONTHLY_STEPS])) K" for s'
    using Suc by (intro Suc.hyps) (auto simp: Let_def)
  show ?case
    unfolding upt using rest by (simp add: step bind_result_assoc)
qed

lemma rollover_amounts:
  assumes "config_ok c"
  shows "signer_allowance_value = Inr (chain_amount 0)"
    and "rollover_remainder c (chain_amount 0) = Inr (remainder_amount c)"
    and "chain_amount 0 + remainder_amount c + 2 * SIGNER_CONNECTOR_SATS
       + policy_vsize (bf_rollover_input_count c) 0 4 = VAULT_BALANCE_SATS"
    and "89000000 \<le> remainder_amount c"
proof -
  have "bf_rollover_input_count c \<le> 12"
    using assms by (auto simp: config_ok_def inputs_ok_def)
  then have fee: "policy_vsize (bf_rollover_input_count c) 0 4 \<le> 1500" by (rule policy_vsize_rollover)
  show "signer_allowance_value = Inr (chain_amount 0)"
    by (simp add: signer_allowance_value_def chain_amount_first checked_mul_def checked_add_def checked_sub_def
        signer_constants policy_vsize_values u64_bound_def)
  show "rollover_remainder c (chain_amount 0) = Inr (remainder_amount c)"
    and "chain_amount 0 + remainder_amount c + 2 * SIGNER_CONNECTOR_SATS
       + policy_vsize (bf_rollover_input_count c) 0 4 = VAULT_BALANCE_SATS"
    and "89000000 \<le> remainder_amount c"
    using fee by (simp_all add: rollover_remainder_def remainder_amount_def chain_amount_first checked_sub_def
        VAULT_BALANCE_SATS_def SIGNER_CONNECTOR_SATS_def)
qed

lemma walk_emergency_graph:
  assumes "digest_ok H" and "config_ok c"
  shows "walk_emergency H c callback (graph_txid H (rollover_io c)) (remainder_amount c) s
    = try_fold callback s [bt_of (trigger_io H c), bt_of (withdrawal_io H c)]"
proof -
  note io = emergency_io_ok [OF assms]
  have staging: "ok_or (Option.bind (checked_add EMERGENCY_ACCESS_SATS (policy_vsize 1 1 1)) (\<lambda>v.
        checked_sub v SIGNER_CONNECTOR_SATS)) InsufficientValue = Inr staging_amount"
    by (simp add: staging_amount_def checked_add_def checked_sub_def signer_constants policy_vsize_values u64_bound_def)
  have change: "ok_or (Option.bind (checked_sub (remainder_amount c) staging_amount) (\<lambda>v. checked_sub v (policy_vsize 1 1 3)))
       InsufficientValue = Inr (remainder_amount c - staging_amount - policy_vsize 1 1 3)"
    using rollover_amounts(4) [OF assms(2)]
    by (simp add: staging_amount_def checked_sub_def signer_constants policy_vsize_values)
  have t: "bt_new [vault_spend (graph_txid H (rollover_io c)) 1 (remainder_amount c) U32_MAX,
        connector_spend (graph_txid H (rollover_io c)) 3]
      [vault_output c staging_amount, vault_output c (remainder_amount c - staging_amount - policy_vsize 1 1 3),
       connector_output c] = Inr (bt_of (trigger_io H c))"
    using bt_new_io [OF io(1,2)] by (simp add: trigger_io_def Let_def)
  have w: "bt_new [vault_spend (graph_txid H (trigger_io H c)) 0 staging_amount EMERGENCY_DELAY_SEQUENCE,
        connector_spend (graph_txid H (trigger_io H c)) 2]
      [\<lparr>bo_amount_sats = EMERGENCY_ACCESS_SATS, bo_script_pubkey = bf_emergency_hot_script c\<rparr>]
    = Inr (bt_of (withdrawal_io H c))"
    using bt_new_io [OF io(3,4)] by (simp add: withdrawal_io_def Let_def)
  have bind_Inr: "bind_result m Inr = m" for m :: "'e visit_error + 's"
    by (cases m) simp_all
  show ?thesis
    unfolding walk_emergency_def staging
    by (simp add: graph_err_def change t w bench_txid_io [OF io(1,2)] bind_Inr del: One_nat_def diff_diff_left)
qed

text \<open>The walk hands its visitor the transactions of the reference graph, one after the other.\<close>

lemma walk_transactions_graph:
  assumes "digest_ok H" and "config_ok c"
  shows "walk_transactions H c callback s = try_fold callback s (map bt_of (year_graph H c))"
proof -
  note io = rollover_io_ok [OF assms(2)]
  have r: "bt_new (take (bf_rollover_input_count c) (bf_rollover_inputs c))
       [vault_output c (chain_amount 0), vault_output c (remainder_amount c), connector_output c, connector_output c]
     = Inr (bt_of (rollover_io c))"
    using bt_new_io [OF io] by (simp add: rollover_io_def)
  let ?txid = "graph_txid H (rollover_io c)"
  have "walk_transactions H c callback s = bind_result (callback s (bt_of (rollover_io c))) (\<lambda>s.
     bind_result (try_fold (walk_allowance H c callback)
         (vault_spend ?txid 0 (chain_amount 0) MONTHLY_DELAY_SEQUENCE, connector_spend ?txid 2, s)
         [0..<MONTHLY_STEPS]) (\<lambda>(_, _, s). walk_emergency H c callback ?txid (remainder_amount c) s))"
    by (simp add: walk_transactions_def graph_err_def rollover_amounts(1,2) [OF assms(2)] r bench_txid_io [OF io])
  also have "\<dots> = bind_result (callback s (bt_of (rollover_io c))) (\<lambda>s.
     bind_result (try_fold callback s (map (\<lambda>i. bt_of (authorization_io H c i)) [0..<MONTHLY_STEPS]))
       (\<lambda>s. try_fold callback s [bt_of (trigger_io H c), bt_of (withdrawal_io H c)]))"
    by (subst walk_allowances [OF assms])
      (simp_all add: Let_def ext [OF walk_emergency_graph [OF assms]] MONTHLY_STEPS_def)
  also have "\<dots> = try_fold callback s (map bt_of (year_graph H c))"
    by (simp only: year_graph_def list.map map_append try_fold.simps try_fold_append map_map comp_def)
  finally show ?thesis .
qed

section \<open>Signature jobs\<close>

definition vault_count :: "bench_input list \<times> bench_output list \<Rightarrow> nat" where
  "vault_count io = length (vault_indexes (fst io))"

fun graph_jobs ::
  "sha \<Rightarrow> sighash_context \<Rightarrow> nat \<Rightarrow> nat \<Rightarrow> (bench_input list \<times> bench_output list) list \<Rightarrow> signature_job list" where
  "graph_jobs H context ti si [] = []"
| "graph_jobs H context ti si (io # ios) =
     transaction_jobs H context ti si io @ graph_jobs H context (Suc ti) (si + vault_count io) ios"

lemma visit_transactions:
  assumes "digest_ok H" and "context_ok context"
    and "\<forall>io \<in> set ios. inputs_ok (fst io) \<and> outputs_ok (snd io)"
    and "si + sum_list (map vault_count ios) < 256" and "ti + length ios < 256"
  shows "try_fold (visit_transaction H context callback) (si, ti, s) (map bt_of ios)
    = map_sum Callback (\<lambda>s. (si + sum_list (map vault_count ios), ti + length ios, s))
        (try_fold callback s (graph_jobs H context ti si ios))"
  using assms(3-5)
proof (induction ios arbitrary: si ti s)
  case Nil
  then show ?case by simp
next
  case (Cons io ios)
  obtain ins outs where io: "io = (ins, outs)" by (cases io)
  have sighash: "for_each_sighash H (bt_of io) ti si context callback s
      = map_sum Callback (\<lambda>s. (si + vault_count io, s)) (try_fold callback s (transaction_jobs H context ti si io))"
    using for_each_sighash_jobs [of ins outs "context" H si ti callback s] assms(1,2) Cons.prems io
    by (simp add: vault_count_def)
  have inc: "u8_inc ti = Suc ti" using Cons.prems by (simp add: u8_inc_def)
  show ?case
    using Cons
    by (cases "try_fold callback s (transaction_jobs H context ti si io)")
      (simp_all add: visit_transaction_def sighash inc try_fold_append add.assoc)
qed

lemma number_jobs_indexes:
  "map sj_signature_index (number_jobs f ti si is) = [si..<si + length is]"
  "map sj_input_index (number_jobs f ti si is) = is"
  "j \<in> set (number_jobs f ti si is) \<Longrightarrow> sj_transaction_index j = ti \<and> sj_sighash j = f (sj_input_index j)"
  by (induction f ti si "is" rule: number_jobs.induct) (auto simp: upt_conv_Cons simp del: upt_Suc)

lemma graph_jobs_indexes:
  "map sj_signature_index (graph_jobs H x ti si ios) = [si..<si + sum_list (map vault_count ios)]"
proof (induction ios arbitrary: ti si)
  case Nil
  then show ?case by simp
next
  case (Cons io ios)
  have "[si..<si + sum_list (map vault_count (io # ios))]
      = [si..<si + vault_count io] @ [si + vault_count io..<si + vault_count io + sum_list (map vault_count ios)]"
    using upt_add_eq_append [of si "si + vault_count io" "sum_list (map vault_count ios)"] by (simp add: add.assoc)
  moreover have "map sj_signature_index (transaction_jobs H x ti si io) = [si..<si + vault_count io]"
    by (simp add: transaction_jobs_def number_jobs_indexes vault_count_def)
  ultimately show ?case using Cons.IH by (simp only: graph_jobs.simps map_append)
qed

lemma graph_jobs_in:
  assumes "j \<in> set (graph_jobs H x ti si ios)"
  shows "\<exists>k < length ios. sj_transaction_index j = ti + k \<and> sj_input_index j \<in> set (vault_indexes (fst (ios ! k)))
    \<and> sj_sighash j = graph_sighash H x (ios ! k) (sj_input_index j)"
  using assms
proof (induction ios arbitrary: ti si)
  case Nil
  then show ?case by simp
next
  case (Cons io ios)
  show ?case
  proof (cases "j \<in> set (transaction_jobs H x ti si io)")
    case True
    then have j: "sj_transaction_index j = ti \<and> sj_sighash j = graph_sighash H x io (sj_input_index j)"
      using number_jobs_indexes(3) unfolding transaction_jobs_def by blast
    have "sj_input_index j \<in> set (map sj_input_index (transaction_jobs H x ti si io))" using True by simp
    then have "sj_input_index j \<in> set (vault_indexes (fst io))"
      unfolding transaction_jobs_def number_jobs_indexes by simp
    then show ?thesis using j by (intro exI [of _ 0]) simp
  next
    case False
    then have "j \<in> set (graph_jobs H x (Suc ti) (si + vault_count io) ios)" using Cons.prems by simp
    from Cons.IH [OF this] obtain k where "k < length ios" "sj_transaction_index j = Suc ti + k"
        "sj_input_index j \<in> set (vault_indexes (fst (ios ! k)))"
        "sj_sighash j = graph_sighash H x (ios ! k) (sj_input_index j)" by blast
    then show ?thesis by (intro exI [of _ "Suc k"]) simp
  qed
qed

lemma vault_count_pair [simp]: "vault_count ([vault_spend t v a q, connector_spend t' u], outs) = 1"
  by (simp add: vault_count_def vault_indexes_def vault_spend_def connector_spend_def upt_rec)

lemma vault_count_authorization [simp]: "vault_count (authorization_io H c i) = 1"
  by (cases i) (simp_all add: Let_def)

lemma vault_count_rollover:
  assumes "config_ok c"
  shows "vault_count (rollover_io c) = bf_rollover_input_count c"
proof -
  let ?ins = "take (bf_rollover_input_count c) (bf_rollover_inputs c)"
  have len: "length ?ins = bf_rollover_input_count c" using assms by (simp add: config_ok_def)
  have "\<not> bi_controller i" if "i \<in> set ?ins" for i using assms that by (simp add: config_ok_def)
  then have "\<forall>i \<in> set [0..<length ?ins]. \<not> bi_controller (?ins ! i)"
    using nth_mem [of _ ?ins] by (metis atLeastLessThan_iff set_upt)
  then have "filter (\<lambda>i. \<not> bi_controller (?ins ! i)) [0..<length ?ins] = [0..<length ?ins]"
    by (rule filter_True)
  then show ?thesis
    unfolding vault_count_def vault_indexes_def rollover_io_def fst_conv using len by simp
qed

lemma year_graph_vault_count:
  assumes "config_ok c"
  shows "sum_list (map vault_count (year_graph H c)) = bf_rollover_input_count c + 14"
  by (simp add: year_graph_def vault_count_rollover [OF assms] trigger_io_def withdrawal_io_def Let_def comp_def
      sum_list_triv MONTHLY_STEPS_def)

lemma length_year_graph [simp]: "length (year_graph H c) = 15"
  by (simp add: year_graph_def MONTHLY_STEPS_def)

lemma config_context_ok: "config_ok c \<Longrightarrow> context_ok (config_context c)"
  by (simp add: config_ok_def context_ok_def config_context_def)

lemma config_ok_count: "config_ok c \<Longrightarrow> 1 \<le> bf_rollover_input_count c \<and> bf_rollover_input_count c \<le> 12"
  unfolding config_ok_def inputs_ok_def by (cases "bf_rollover_input_count c") auto

lemma for_each_signature_job_graph:
  assumes "digest_ok H" and "config_ok c"
  shows "for_each_signature_job H c callback s
    = map_sum Callback (\<lambda>s. (signer_summary c, s))
        (try_fold callback s (graph_jobs H (config_context c) 0 0 (year_graph H c)))"
proof -
  have "try_fold (visit_transaction H (config_context c) callback) (0, 0, s) (map bt_of (year_graph H c))
    = map_sum Callback (\<lambda>s. (0 + sum_list (map vault_count (year_graph H c)), 0 + length (year_graph H c), s))
        (try_fold callback s (graph_jobs H (config_context c) 0 0 (year_graph H c)))"
    using config_ok_count [OF assms(2)] year_graph_ok [OF assms]
    by (intro visit_transactions [OF assms(1) config_context_ok [OF assms(2)]])
      (auto simp: year_graph_vault_count [OF assms(2)])
  then show ?thesis
    unfolding for_each_signature_job_def walk_transactions_graph [OF assms]
    by (cases "try_fold callback s (graph_jobs H (config_context c) 0 0 (year_graph H c))") simp_all
qed

section \<open>Value and links\<close>

definition amount_in :: "bench_input list \<times> bench_output list \<Rightarrow> nat" where
  "amount_in io = sum_list (map bi_amount_sats (fst io))"

definition amount_out :: "bench_input list \<times> bench_output list \<Rightarrow> nat" where
  "amount_out io = sum_list (map bo_amount_sats (snd io))"

definition graph_fee :: "bench_input list \<times> bench_output list \<Rightarrow> nat" where
  "graph_fee io = policy_vsize (vault_count io) (length (fst io) - vault_count io) (length (snd io))"

lemmas io_defs = amount_in_def amount_out_def graph_fee_def

lemmas spend_simps = vault_spend_def connector_spend_def vault_output_def connector_output_def

lemma authorization_conserves:
  assumes "i < MONTHLY_STEPS"
  shows "amount_in (authorization_io H c i) = amount_out (authorization_io H c i) + graph_fee (authorization_io H c i)"
proof -
  have ins: "amount_in (authorization_io H c i) = chain_amount i + SIGNER_CONNECTOR_SATS"
      "length (fst (authorization_io H c i)) = 2"
    by (cases i; simp add: amount_in_def Let_def spend_simps)+
  show ?thesis
  proof (cases "i + 1 < MONTHLY_STEPS")
    case True
    then have "i < 11" by (simp add: MONTHLY_STEPS_def)
    from chain_amount_step [OF this] show ?thesis
      using True ins by (simp add: amount_out_def graph_fee_def snd_authorization_io authorization_outputs_def
          spend_simps policy_vsize_values)
  next
    case False
    then have "i = 11" using assms by (simp add: MONTHLY_STEPS_def)
    then show ?thesis
      using ins False by (simp add: amount_out_def graph_fee_def snd_authorization_io authorization_outputs_def
          policy_vsize_values chain_amount_last signer_constants)
  qed
qed

lemma year_graph_conserves:
  assumes "config_ok c" and "io \<in> set (year_graph H c)"
  shows "amount_in io = amount_out io + graph_fee io"
proof -
  have "amount_in (rollover_io c) = amount_out (rollover_io c) + graph_fee (rollover_io c)"
  proof -
    have "length (fst (rollover_io c)) = bf_rollover_input_count c"
      using assms(1) by (simp add: rollover_io_def config_ok_def)
    moreover have "amount_in (rollover_io c) = VAULT_BALANCE_SATS"
      using assms(1) by (simp add: amount_in_def rollover_io_def config_ok_def)
    moreover have "length (snd (rollover_io c)) = 4"
      and "amount_out (rollover_io c) = chain_amount 0 + remainder_amount c + 2 * SIGNER_CONNECTOR_SATS"
      by (simp_all add: rollover_io_def amount_out_def spend_simps)
    ultimately show ?thesis
      using rollover_amounts(3) [OF assms(1)] vault_count_rollover [OF assms(1)] by (simp add: graph_fee_def)
  qed
  moreover have "amount_in (trigger_io H c) = amount_out (trigger_io H c) + graph_fee (trigger_io H c)"
    using rollover_amounts(4) [OF assms(1)]
    by (simp add: io_defs trigger_io_def Let_def policy_vsize_values staging_amount_def signer_constants)
      (simp add: spend_simps signer_constants)
  moreover have "amount_in (withdrawal_io H c) = amount_out (withdrawal_io H c) + graph_fee (withdrawal_io H c)"
    by (simp add: io_defs withdrawal_io_def Let_def policy_vsize_values staging_amount_def signer_constants)
      (simp add: spend_simps signer_constants)
  ultimately show ?thesis
    using assms(2) authorization_conserves by (auto simp: year_graph_def)
qed

definition funded_by :: "sha \<Rightarrow> benchmark_config \<Rightarrow> bench_input list \<times> bench_output list \<Rightarrow> bench_input \<Rightarrow> bool" where
  \<comment> \<open>the input names an output of that transaction, with its amount and its script\<close>
  "funded_by H c io i \<longleftrightarrow> bi_previous_txid i = graph_txid H io \<and> bi_previous_vout i < length (snd io)
     \<and> snd io ! bi_previous_vout i = \<lparr>bo_amount_sats = bi_amount_sats i,
          bo_script_pubkey = (if bi_controller i then bf_controller_script_pubkey c else bf_vault_script_pubkey c)\<rparr>"

lemma year_graph_nth:
  "year_graph H c ! 0 = rollover_io c"
  "i < MONTHLY_STEPS \<Longrightarrow> year_graph H c ! Suc i = authorization_io H c i"
  "year_graph H c ! 13 = trigger_io H c" "year_graph H c ! 14 = withdrawal_io H c"
  by (simp_all add: year_graph_def nth_append MONTHLY_STEPS_def nth_Cons')

lemma authorization_funded:
  assumes "i < MONTHLY_STEPS" and "inp \<in> set (fst (authorization_io H c i))"
  shows "funded_by H c (year_graph H c ! i) inp"
proof (cases i)
  case 0
  then show ?thesis
    using assms(2) by (auto simp: Let_def funded_by_def year_graph_nth rollover_io_def spend_simps)
next
  case (Suc j)
  then have "j + 1 < MONTHLY_STEPS" using assms(1) by simp
  then show ?thesis
    using assms Suc
    by (auto simp: Let_def funded_by_def year_graph_nth snd_authorization_io authorization_outputs_def spend_simps)
qed

lemma year_graph_funded:
  assumes "0 < k" and "k < 15" and "inp \<in> set (fst (year_graph H c ! k))"
  shows "\<exists>j < k. funded_by H c (year_graph H c ! j) inp"
proof -
  have "k = Suc (k - 1) \<and> k - 1 < MONTHLY_STEPS \<or> k = 13 \<or> k = 14"
    using assms(1,2) unfolding MONTHLY_STEPS_def by linarith
  then consider i where "k = Suc i" "i < MONTHLY_STEPS" | "k = 13" | "k = 14" by blast
  then show ?thesis
  proof cases
    case 1
    then have "funded_by H c (year_graph H c ! i) inp"
      using authorization_funded [of i inp H c] assms(3) by (simp add: year_graph_nth)
    then show ?thesis using 1 by blast
  next
    case 2
    have "funded_by H c (year_graph H c ! 0) inp"
      using assms(3) by (auto simp: 2 year_graph_nth trigger_io_def rollover_io_def Let_def funded_by_def spend_simps)
    then show ?thesis using 2 by (intro exI [of _ 0]) simp
  next
    case 3
    have "funded_by H c (year_graph H c ! 13) inp"
      using assms(3) by (auto simp: 3 year_graph_nth withdrawal_io_def trigger_io_def Let_def funded_by_def spend_simps)
    then show ?thesis using 3 by (intro exI [of _ 13]) simp
  qed
qed

section \<open>Fees\<close>

text \<open>The formula of \<^verbatim>\<open>policy_vsize\<close> is the BIP141 virtual size of the signed transaction, witnesses included.\<close>

definition witness_bytes :: "bytes list \<Rightarrow> bytes" where
  "witness_bytes items = of_nat (length items) # concat (map (\<lambda>b. of_nat (length b) # b) items)"

definition witness_shape :: "bench_input \<Rightarrow> nat list" where
  \<comment> \<open>two signatures, leaf and control block for a vault input, one signature for a controller input\<close>
  "witness_shape i = (if bi_controller i then [64, CONTROLLER_SCRIPT_LEN, CONTROLLER_CONTROL_BLOCK_LEN]
     else [64, 64, COOPERATIVE_SCRIPT_LEN, COOPERATIVE_CONTROL_BLOCK_LEN])"

definition virtual_size :: "bench_input list \<times> bench_output list \<Rightarrow> bytes list list \<Rightarrow> nat" where
  "virtual_size io witnesses =
     (4 * length (tx_bytes (fst io) (snd io)) + 2 + length (concat (map witness_bytes witnesses)) + 3) div 4"

lemma length_witness_bytes: "length (witness_bytes items) = 1 + length items + sum_list (map length items)"
  unfolding witness_bytes_def by (induction items) simp_all

lemma witnesses_length:
  assumes "list_all2 (\<lambda>i ws. map length ws = witness_shape i) ins witnesses"
  shows "length (concat (map witness_bytes witnesses))
    = 268 * length (filter (\<lambda>i. \<not> bi_controller i) ins) + 167 * length (filter bi_controller ins)"
  using assms
proof (induction rule: list_all2_induct)
  case Nil
  then show ?case by simp
next
  case (Cons i ins ws witnesses)
  then have "length ws = length (witness_shape i)" "sum_list (map length ws) = sum_list (witness_shape i)"
    by (metis length_map, simp)
  then have "length (witness_bytes ws) = (if bi_controller i then 167 else 268)"
    by (simp add: length_witness_bytes witness_shape_def signer_constants)
  then show ?case using Cons by simp
qed

lemma vault_count_filter: "vault_count io = length (filter (\<lambda>i. \<not> bi_controller i) (fst io))"
proof -
  have "map ((!) (fst io)) (vault_indexes (fst io)) = filter (\<lambda>i. \<not> bi_controller i) (fst io)"
    unfolding vault_indexes_def by (metis (no_types, lifting) filter_cong filter_map comp_def map_nth)
  then show ?thesis unfolding vault_count_def by (metis length_map)
qed

lemma graph_fee_virtual_size:
  assumes "inputs_ok (fst io)" and "outputs_ok (snd io)"
    and "list_all2 (\<lambda>i ws. map length ws = witness_shape i) (fst io) witnesses"
  shows "graph_fee io = virtual_size io witnesses"
proof -
  define a where "a = vault_count io"
  define b where "b = length (filter bi_controller (fst io))"
  define d where "d = length (snd io)"
  have len: "length (fst io) = a + b"
    using sum_length_filter_compl [of bi_controller "fst io"] by (simp add: vault_count_filter a_def b_def)
  then have "a + b \<le> 12" using assms(1) by (simp add: inputs_ok_def)
  then have m: "(a + b) mod 256 = a + b" by simp
  have tx: "length (tx_bytes (fst io) (snd io)) = 10 + 41 * (a + b) + 43 * d"
    using length_tx_bytes [OF assms(1,2)] len by (simp add: d_def)
  have w: "length (concat (map witness_bytes witnesses)) = 268 * a + 167 * b"
    using witnesses_length [OF assms(3)] by (simp add: a_def b_def vault_count_filter)
  have "graph_fee io = policy_vsize a b d"
    using len by (simp add: graph_fee_def a_def [symmetric] d_def)
  also have "\<dots> = (4 * (10 + 41 * (a + b) + 43 * d) + 2 + (268 * a + 167 * b) + 3) div 4"
    unfolding policy_vsize_def Let_def m by (simp add: signer_constants algebra_simps)
  finally show ?thesis unfolding virtual_size_def tx w .
qed

section \<open>The deterministic configuration\<close>

lemma p2tr_length [simp]: "length (p2tr_script k) = Suc (Suc (length k))"
  by (simp add: p2tr_script_def)

lemma deterministic_amounts:
  assumes "0 < n" and "n \<le> k"
  shows "sum_list (map (\<lambda>i. v div n + (if i = 0 then 1 else 0) * (v mod n)) [0..<n]) = (v :: nat)"
proof -
  have "[0..<n] = 0 # [1..<n]" using assms(1) by (simp add: upt_conv_Cons)
  moreover have "sum_list (map (\<lambda>i. v div n + (if i = 0 then 1 else 0) * (v mod n)) [1..<n])
      = sum_list (map (\<lambda>i. v div n) [1..<n])"
    by (rule arg_cong [where f = sum_list], rule map_cong) auto
  ultimately have "sum_list (map (\<lambda>i. v div n + (if i = 0 then 1 else 0) * (v mod n)) [0..<n])
      = v div n + v mod n + (n - 1) * (v div n)" by (simp add: sum_list_triv)
  also have "\<dots> = v div n * n + v mod n" using assms(1) by (cases n) simp_all
  finally show ?thesis by simp
qed

lemma deterministic_ok:
  assumes "digest_ok H" and "length vk = 32" and "length ck = 32" and "length leaf = 32"
    and "deterministic H n vk ck leaf = Inr c"
  shows "config_ok c" and "bf_rollover_input_count c = n" and "1 \<le> n \<and> n \<le> 12"
proof -
  have n: "0 < n" "n \<le> 12" using assms(5) by (auto simp: deterministic_def MAX_ROLLOVER_INPUTS_def split: if_splits)
  let ?inputs = "map (\<lambda>i. if i < n then fake_input H n i else bench_input_default) [0..<MAX_ROLLOVER_INPUTS]"
  have c: "c = \<lparr>bf_rollover_inputs = ?inputs, bf_rollover_input_count = n,
        bf_monthly_hot_scripts =
          map (\<lambda>i. p2tr_script (H [ascii ''Anzen benchmark monthly hot output v1'', [of_nat i]])) [0..<MONTHLY_STEPS],
        bf_emergency_hot_script = p2tr_script (H [ascii ''Anzen benchmark emergency hot output v1'']),
        bf_vault_script_pubkey = p2tr_script vk, bf_controller_script_pubkey = p2tr_script ck,
        bf_cooperative_leaf_hash = leaf\<rparr>"
    using assms(5) by (simp add: deterministic_def split: if_splits)
  have t: "take n ?inputs = map (fake_input H n) [0..<n]"
    using n by (auto simp: take_map MAX_ROLLOVER_INPUTS_def intro!: map_cong)
  have h: "length (H x) = 32" for x using assms(1) by (simp add: digest_ok_def)
  have s: "sum_list (map (bi_amount_sats \<circ> fake_input H n) [0..<n]) = VAULT_BALANCE_SATS"
    using deterministic_amounts [OF n(1) order_refl, of VAULT_BALANCE_SATS] by (simp add: fake_input_def comp_def)
  have "bf_rollover_inputs c = ?inputs" "bf_rollover_input_count c = n" by (simp_all add: c)
  note ins = this t
  show "bf_rollover_input_count c = n" by (rule ins(2))
  show "1 \<le> n \<and> n \<le> 12" using n by simp
  have "inputs_ok (map (fake_input H n) [0..<n])"
    using n h by (auto simp: inputs_ok_def fake_input_def)
  then show "config_ok c"
    unfolding config_ok_def ins(1,2) t
    using n assms(2-4) h s by (auto simp: c fake_input_def MAX_ROLLOVER_INPUTS_def)
qed

lemma deterministic_count:
  "deterministic H n vk ck leaf = Inr c \<Longrightarrow> bf_rollover_input_count c = n \<and> 1 \<le> n \<and> n \<le> 12"
  by (auto simp: deterministic_def MAX_ROLLOVER_INPUTS_def split: if_splits)

lemma deterministic_total: "1 \<le> n \<Longrightarrow> n \<le> 12 \<Longrightarrow> \<exists>c. deterministic H n vk ck leaf = Inr c"
  by (simp add: deterministic_def MAX_ROLLOVER_INPUTS_def)

end
