(* ===== verification/Signer_Keys.thy ===== *)
theory Signer_Keys
  imports Cold_Signer
begin

text \<open>
  \<^verbatim>\<open>normalize_bip340_public_key\<close> as arithmetic: the byte loop subtracts in base 256, so a point with an
  odd y becomes its negation, and one with an even y is left alone.
\<close>

fun be_value :: "bytes \<Rightarrow> int" where
  "be_value [] = 0"
| "be_value (b # bs) = uint b * 256 ^ length bs + be_value bs"

lemma uint_byte: "0 \<le> uint (b :: 8 word)" "uint (b :: 8 word) < 256"
  using uint_bounded [of b] by simp_all

lemma be_value_bounds: "0 \<le> be_value bs \<and> be_value bs < 256 ^ length bs"
proof (induction bs)
  case Nil
  show ?case by simp
next
  case (Cons b bs)
  have "uint b \<le> 255" using uint_byte [of b] by simp
  then have "uint b * 256 ^ length bs \<le> 255 * (256 :: int) ^ length bs" by (intro mult_right_mono) simp_all
  moreover have "0 \<le> uint b * 256 ^ length bs" by simp
  ultimately show ?case using Cons unfolding be_value.simps length_Cons power_Suc by linarith
qed

lemma odd_uint_byte: "odd (uint (b :: 8 word)) \<longleftrightarrow> b AND 1 = 1"
proof -
  have "b AND 1 = 1 \<longleftrightarrow> odd b" by (simp add: and_one_eq odd_iff_mod_2_eq_one)
  also have "\<dots> \<longleftrightarrow> odd (uint b)" by transfer (simp add: even_take_bit_eq)
  finally show ?thesis by simp
qed

lemma be_value_even: "bs \<noteq> [] \<Longrightarrow> even (be_value bs) \<longleftrightarrow> even (uint (last bs))"
proof (induction bs)
  case Nil
  then show ?case by simp
next
  case (Cons b bs)
  then show ?case by (cases bs) simp_all
qed


lemma field_prime_length [simp]: "length SECP256K1_FIELD_PRIME = 32"
  by (simp add: SECP256K1_FIELD_PRIME_def)

definition field_prime :: int where
  "field_prime = be_value SECP256K1_FIELD_PRIME"

lemma field_prime_value: "field_prime = 2 ^ 256 - 4294968273"
  unfolding field_prime_def SECP256K1_FIELD_PRIME_def by simp

lemma word_of_int_byte: "0 \<le> v \<Longrightarrow> v < 256 \<Longrightarrow> uint (word_of_int v :: 8 word) = v"
  by (simp add: uint_word_of_int)

text \<open>The loop is a subtraction in base 256: after \<open>k\<close> bytes the low \<open>k\<close> digits and the borrow are right.\<close>

lemma borrow_invariant:
  assumes "length pk = 65" and "k \<le> 32"
  shows "case foldl borrow_step (pk, 0) (rev [32 - k..<32]) of (pk', borrow) \<Rightarrow>
     length pk' = 65 \<and> borrow \<in> {0, 1} \<and> take (65 - k) pk' = take (65 - k) pk
     \<and> be_value (drop (65 - k) pk')
         = be_value (drop (32 - k) SECP256K1_FIELD_PRIME) - be_value (drop (65 - k) pk) + borrow * 256 ^ k"
  using assms(2)
proof (induction k)
  case 0
  show ?case using assms(1) by simp
next
  case (Suc k)
  define i where "i = 31 - k"
  have i: "32 - Suc k = i" "32 - k = Suc i" "65 - Suc k = 33 + i" "65 - k = Suc (33 + i)" "i < 32"
    using Suc.prems by (auto simp: i_def)
  have upt: "rev [32 - Suc k..<32] = rev [32 - k..<32] @ [i]"
    using i by (simp add: upt_conv_Cons)
  obtain pk' borrow where st: "foldl borrow_step (pk, 0) (rev [32 - k..<32]) = (pk', borrow)" by fastforce
  have IH: "length pk' = 65" "borrow \<in> {0, 1}" "take (Suc (33 + i)) pk' = take (Suc (33 + i)) pk"
      "be_value (drop (Suc (33 + i)) pk')
         = be_value (drop (Suc i) SECP256K1_FIELD_PRIME) - be_value (drop (Suc (33 + i)) pk) + borrow * 256 ^ k"
    using Suc.IH Suc.prems st i by simp_all
  have at: "pk' ! (33 + i) = pk ! (33 + i)" using IH(3) by (metis lessI nth_take)
  have before: "take (33 + i) pk' = take (33 + i) pk"
    using arg_cong [OF IH(3), of "take (33 + i)"] by simp
  define v where "v = uint (SECP256K1_FIELD_PRIME ! i) - uint (pk' ! (33 + i)) - borrow"
  define d :: "8 word" where "d = (if v < 0 then word_of_int (v + 256) else word_of_int v)"
  define c :: int where "c = (if v < 0 then 1 else 0)"
  have step: "borrow_step (pk', borrow) i = (pk'[33 + i := d], c)"
    by (simp add: borrow_step_def Let_def v_def d_def c_def)
  have "0 \<le> uint (SECP256K1_FIELD_PRIME ! i)" "uint (SECP256K1_FIELD_PRIME ! i) < 256"
      "0 \<le> uint (pk' ! (33 + i))" "uint (pk' ! (33 + i)) < 256"
    by (rule uint_byte)+
  moreover have "0 \<le> borrow" "borrow \<le> 1" using IH(2) by auto
  ultimately have "-256 \<le> v" "v < 256" unfolding v_def by linarith+
  then have "v < 0 \<Longrightarrow> uint (word_of_int (v + 256) :: 8 word) = v + 256"
      and "\<not> v < 0 \<Longrightarrow> uint (word_of_int v :: 8 word) = v"
    by (auto intro!: word_of_int_byte simp del: of_int_add)
  then have d: "uint d = v + 256 * c" unfolding d_def c_def by (cases "v < 0") simp_all
  have v: "v = uint (SECP256K1_FIELD_PRIME ! i) - uint (pk ! (33 + i)) - borrow" by (simp only: v_def at)
  have dp: "drop i SECP256K1_FIELD_PRIME = SECP256K1_FIELD_PRIME ! i # drop (Suc i) SECP256K1_FIELD_PRIME"
    using i(5) by (simp add: Cons_nth_drop_Suc)
  have dk: "drop (33 + i) pk = pk ! (33 + i) # drop (Suc (33 + i)) pk"
    by (rule Cons_nth_drop_Suc [symmetric]) (use i(5) assms(1) in simp)
  have dk': "drop (33 + i) (pk'[33 + i := d]) = d # drop (Suc (33 + i)) pk'"
    using Cons_nth_drop_Suc [of "33 + i" "pk'[33 + i := d]"] i(5) IH(1) by simp
  have len: "length (drop (Suc i) SECP256K1_FIELD_PRIME) = k" "length (drop (Suc (33 + i)) pk) = k"
      "length (drop (Suc (33 + i)) pk') = k"
    using i assms(1) IH(1) Suc.prems by (simp_all add: i_def)
  have "be_value (d # drop (Suc (33 + i)) pk') = be_value (SECP256K1_FIELD_PRIME ! i # drop (Suc i) SECP256K1_FIELD_PRIME)
      - be_value (pk ! (33 + i) # drop (Suc (33 + i)) pk) + c * 256 ^ Suc k"
    using IH(4) by (simp only: be_value.simps len d) (simp add: v algebra_simps)
  then have "be_value (drop (65 - Suc k) (pk'[33 + i := d])) = be_value (drop (32 - Suc k) SECP256K1_FIELD_PRIME)
      - be_value (drop (65 - Suc k) pk) + c * 256 ^ Suc k"
    unfolding i dp dk dk' .
  moreover have "foldl borrow_step (pk, 0) (rev [32 - Suc k..<32]) = (pk'[33 + i := d], c)"
    unfolding upt foldl_append st by (simp add: step)
  moreover have "take (65 - Suc k) (pk'[33 + i := d]) = take (65 - Suc k) pk"
    unfolding i using before by simp
  ultimately show ?case using IH(1) by (simp add: c_def)
qed


lemma normalize_odd:
  assumes "length pk = 65" and "pk ! 0 = 4" and "pk ! 64 AND 1 = 1"
  shows "be_value (drop 33 pk) \<le> field_prime \<Longrightarrow> \<exists>pk'. normalize_bip340_public_key pk = Inr pk' \<and> length pk' = 65
      \<and> take 33 pk' = take 33 pk \<and> be_value (drop 33 pk') = field_prime - be_value (drop 33 pk)"
    and "field_prime < be_value (drop 33 pk) \<Longrightarrow> normalize_bip340_public_key pk = Inl InvalidPublicKey"
proof -
  obtain pk' borrow where st: "foldl borrow_step (pk, 0) (rev [0..<32]) = (pk', borrow)" by fastforce
  have inv: "length pk' = 65" "borrow \<in> {0, 1}" "take 33 pk' = take 33 pk"
      "be_value (drop 33 pk') = field_prime - be_value (drop 33 pk) + borrow * 256 ^ 32"
    using borrow_invariant [OF assms(1), of 32] unfolding st by (simp_all add: st field_prime_def)
  have b: "0 \<le> be_value (drop 33 pk')" "be_value (drop 33 pk') < 256 ^ 32"
      "0 \<le> be_value (drop 33 pk)" "be_value (drop 33 pk) < 256 ^ 32"
    using be_value_bounds [of "drop 33 pk'"] be_value_bounds [of "drop 33 pk"] inv(1) assms(1) by simp_all
  have p: "0 < field_prime" "field_prime < 256 ^ 32" unfolding field_prime_value by simp_all
  have run: "normalize_bip340_public_key pk = (if borrow \<noteq> 0 then Inl InvalidPublicKey else Inr pk')"
    unfolding normalize_bip340_public_key_def st using assms(2,3) by simp
  show "\<exists>pk'. normalize_bip340_public_key pk = Inr pk' \<and> length pk' = 65 \<and> take 33 pk' = take 33 pk
      \<and> be_value (drop 33 pk') = field_prime - be_value (drop 33 pk)" if "be_value (drop 33 pk) \<le> field_prime"
  proof -
    have "borrow = 0" using inv(2,4) b that by auto
    then show ?thesis using run inv by auto
  qed
  show "normalize_bip340_public_key pk = Inl InvalidPublicKey" if "field_prime < be_value (drop 33 pk)"
  proof -
    have "borrow \<noteq> 0" using inv(4) b that by auto
    then show ?thesis using run by simp
  qed
qed

text \<open>A normalised key has the same x, an even y, and is the point or its negation.\<close>

lemma normalize_cases:
  assumes "length pk = 65" and "normalize_bip340_public_key pk = Inr pk'"
  shows "pk ! 0 = 4 \<and> length pk' = 65 \<and> take 33 pk' = take 33 pk \<and> even (be_value (drop 33 pk'))
    \<and> be_value (drop 33 pk') = (if even (be_value (drop 33 pk)) then be_value (drop 33 pk)
                                else field_prime - be_value (drop 33 pk))"
proof -
  have par: "even (be_value (drop 33 x)) \<longleftrightarrow> x ! 64 AND 1 \<noteq> 1" if "length x = 65" for x :: bytes
  proof -
    have "drop 33 x \<noteq> []" "last (drop 33 x) = x ! 64" using that by (auto simp: last_conv_nth)
    then show ?thesis using be_value_even [of "drop 33 x"] odd_uint_byte [of "x ! 64"] by metis
  qed
  have four: "pk ! 0 = 4" using assms(2) by (auto simp: normalize_bip340_public_key_def split: if_splits)
  show ?thesis
  proof (cases "pk ! 64 AND 1 = 1")
    case True
    show ?thesis
    proof (cases "be_value (drop 33 pk) \<le> field_prime")
      case le: True
      from normalize_odd(1) [OF assms(1) four True le] assms(2)
      have "length pk' = 65" "take 33 pk' = take 33 pk" "be_value (drop 33 pk') = field_prime - be_value (drop 33 pk)"
        by auto
      moreover have "odd field_prime" by (simp add: field_prime_value)
      ultimately show ?thesis using par [OF assms(1)] True four by simp
    next
      case False
      then show ?thesis using normalize_odd(2) [OF assms(1) four True] assms(2) by simp
    qed
  next
    case False
    then have "pk' = pk" using assms(2) four by (simp add: normalize_bip340_public_key_def)
    then show ?thesis using par [OF assms(1)] False four assms(1) by simp
  qed
qed

end
