(* ===== verification/Ledger_App.thy ===== *)
theory Ledger_App
  imports Signer_Graph Signer_Keys
begin

text \<open>
  \<^verbatim>\<open>ledger-app/src/main.rs\<close> and \<^verbatim>\<open>ledger-app/src/benchmark.rs\<close>: the Ledger application that runs the
  cold signer's workload. The cryptography of the device (BOLOS) is the record \<open>bolos\<close>, the host, the
  user and the transport are the record \<open>surroundings\<close>; both may depend on everything that happened
  before, the list of \<open>ledger_event\<close>s, which is the state of the model. A handler either returns to
  the home screen, waits for a command that never comes, or ends the application by a panic.
\<close>

section \<open>Instructions\<close>

definition BENCHMARK_CLA :: nat where "BENCHMARK_CLA = 0xE0"
definition PREPARE_INS :: nat where "PREPARE_INS = 0x20"
definition KEY_DERIVATION_INS :: nat where "KEY_DERIVATION_INS = 0x21"
definition GRAPH_INS :: nat where "GRAPH_INS = 0x22"
definition SIGNING_INS :: nat where "SIGNING_INS = 0x23"
definition COMPLETE_INS :: nat where "COMPLETE_INS = 0x24"
definition BENCHMARK_VERSION :: nat where "BENCHMARK_VERSION = 3"

lemmas instruction_codes = BENCHMARK_CLA_def PREPARE_INS_def KEY_DERIVATION_INS_def GRAPH_INS_def SIGNING_INS_def
  COMPLETE_INS_def

datatype benchmark_instruction = Prepare nat | KeyDerivation | Graph | Signing | Complete

datatype status = StatusOk | BadCla | BadIns | BadP1P2 | BadLen | UserCancelled | StatusCode nat

record apdu_header =
  ah_cla :: nat
  ah_ins :: nat
  ah_p1 :: nat
  ah_p2 :: nat

record apdu_command =
  ac_header :: apdu_header
  ac_data :: bytes

definition decode_instruction :: "apdu_header \<Rightarrow> status + benchmark_instruction" where
  "decode_instruction h =
     (if ah_cla h \<noteq> BENCHMARK_CLA then Inl BadCla
      else if ah_ins h = PREPARE_INS \<and> (ah_p1 h = 1 \<or> ah_p1 h = 2 \<or> ah_p1 h = 12) \<and> ah_p2 h = 0
      then Inr (Prepare (ah_p1 h))
      else if ah_ins h = KEY_DERIVATION_INS \<and> ah_p1 h = 0 \<and> ah_p2 h = 0 then Inr KeyDerivation
      else if ah_ins h = GRAPH_INS \<and> ah_p1 h = 0 \<and> ah_p2 h = 0 then Inr Graph
      else if ah_ins h = SIGNING_INS \<and> ah_p1 h = 0 \<and> ah_p2 h = 0 then Inr Signing
      else if ah_ins h = COMPLETE_INS \<and> ah_p1 h = 0 \<and> ah_p2 h = 0 then Inr Complete
      else if ah_ins h \<in> {PREPARE_INS, KEY_DERIVATION_INS, GRAPH_INS, SIGNING_INS, COMPLETE_INS} then Inl BadP1P2
      else Inl BadIns)"

section \<open>The device\<close>

datatype benchmark_error = BenchGraph graph_error | Crypto | SignatureCreation | PublicKeyMismatch | SignatureCountMismatch

definition benchmark_failure_reply :: "benchmark_error \<Rightarrow> status" where
  "benchmark_failure_reply e = StatusCode (case e of BenchGraph _ \<Rightarrow> 0x6F10 | Crypto \<Rightarrow> 0x6F11
     | SignatureCreation \<Rightarrow> 0x6F13 | PublicKeyMismatch \<Rightarrow> 0x6F15 | SignatureCountMismatch \<Rightarrow> 0x6F16)"

datatype ledger_event =
    Replied bytes status
  | Reviewed bool \<comment> \<open>the policy was shown, and whether it was approved\<close>
  | Derived \<comment> \<open>the benchmark key was derived again\<close>
  | GraphBuilt
  | Signed bytes \<comment> \<open>the signing primitive was called on this digest\<close>
  | Completed nat "nat option" \<comment> \<open>the final screen: signatures, and the total of the timings\<close>
  | Notice string

record 'k bolos =
  lg_sha :: sha
  lg_derive :: "nat list \<Rightarrow> 'k"
  lg_public_key :: "ledger_event list \<Rightarrow> 'k \<Rightarrow> bytes option"
  lg_scalar_mult :: "bytes \<Rightarrow> bytes \<Rightarrow> nat \<times> bytes" \<comment> \<open>error code and the point in place\<close>
  lg_add_point :: "bytes \<Rightarrow> bytes \<Rightarrow> nat \<times> bytes"
  lg_schnorr_sign :: "ledger_event list \<Rightarrow> 'k \<Rightarrow> bytes \<Rightarrow> nat \<times> bytes \<times> nat" \<comment> \<open>code, signature, length\<close>

record surroundings =
  sr_next_command :: "ledger_event list \<Rightarrow> apdu_command option" \<comment> \<open>none: the host stays silent\<close>
  sr_approve :: "ledger_event list \<Rightarrow> bool"
  sr_delivered :: "ledger_event list \<Rightarrow> bool" \<comment> \<open>whether a reply could be sent\<close>

definition bolos_ok :: "'k bolos \<Rightarrow> bool" where
  \<comment> \<open>the buffer sizes of the interface, which the code's array types fix\<close>
  "bolos_ok D \<longleftrightarrow> digest_ok (lg_sha D)
     \<and> (\<forall>log k pk. lg_public_key D log k = Some pk \<longrightarrow> length pk = 65)
     \<and> (\<forall>p s. length (snd (lg_scalar_mult D p s)) = 65) \<and> (\<forall>p q. length (snd (lg_add_point D p q)) = 65)
     \<and> (\<forall>log k m. length (fst (snd (lg_schnorr_sign D log k m))) = 64)"

section \<open>The benchmark context\<close>

definition CX_OK :: nat where "CX_OK = 0"

definition BENCHMARK_PATH :: "nat list" where
  \<comment> \<open>\<^verbatim>\<open>m/86'/1'/100'/0/2147483647\<close>\<close>
  "BENCHMARK_PATH = [0x80000000 + 86, 0x80000000 + 1, 0x80000000 + 100, 0, 2147483647]"

definition FIXED_PHONE_XONLY_PUBLIC_KEY :: bytes where
  "FIXED_PHONE_XONLY_PUBLIC_KEY =
     [0x79, 0xBE, 0x66, 0x7E, 0xF9, 0xDC, 0xBB, 0xAC, 0x55, 0xA0, 0x62, 0x95, 0xCE, 0x87, 0x0B, 0x07,
      0x02, 0x9B, 0xFC, 0xDB, 0x2D, 0xCE, 0x28, 0xD9, 0x59, 0xF2, 0x81, 0x5B, 0x16, 0xF8, 0x17, 0x98]"

definition SECP256K1_GENERATOR :: bytes where
  "SECP256K1_GENERATOR =
     [0x04, 0x79, 0xBE, 0x66, 0x7E, 0xF9, 0xDC, 0xBB, 0xAC, 0x55, 0xA0, 0x62, 0x95, 0xCE, 0x87, 0x0B,
      0x07, 0x02, 0x9B, 0xFC, 0xDB, 0x2D, 0xCE, 0x28, 0xD9, 0x59, 0xF2, 0x81, 0x5B, 0x16, 0xF8, 0x17,
      0x98, 0x48, 0x3A, 0xDA, 0x77, 0x26, 0xA3, 0xC4, 0x65, 0x5D, 0xA4, 0xFB, 0xFC, 0x0E, 0x11, 0x08,
      0xA8, 0xFD, 0x17, 0xB4, 0x48, 0xA6, 0x85, 0x54, 0x19, 0x9C, 0x47, 0xD0, 0x8F, 0xFB, 0x10, 0xD4,
      0xB8]"

definition BIP341_NUMS_POINT :: bytes where
  "BIP341_NUMS_POINT =
     [0x04, 0x50, 0x92, 0x9B, 0x74, 0xC1, 0xA0, 0x49, 0x54, 0xB7, 0x8B, 0x4B, 0x60, 0x35, 0xE9, 0x7A,
      0x5E, 0x07, 0x8A, 0x5A, 0x0F, 0x28, 0xEC, 0x96, 0xD5, 0x47, 0xBF, 0xEE, 0x9A, 0xCE, 0x80, 0x3A,
      0xC0, 0x31, 0xD3, 0xC6, 0x86, 0x39, 0x73, 0x92, 0x6E, 0x04, 0x9E, 0x63, 0x7C, 0xB1, 0xB5, 0xF4,
      0x0A, 0x36, 0xDA, 0xC2, 0x8A, 0xF1, 0x76, 0x69, 0x68, 0xC3, 0x0C, 0x23, 0x13, 0xF3, 0xA3, 0x89,
      0x04]"

record 'k benchmark_context =
  bx_config :: benchmark_config
  bx_summary :: workload_summary
  bx_hww_private_key :: 'k
  bx_hww_public_key :: bytes

definition cx_ok :: "nat \<Rightarrow> benchmark_error + unit" where
  "cx_ok e = (if e = CX_OK then Inr () else Inl Crypto)"

definition graph_result :: "graph_error + 'a \<Rightarrow> benchmark_error + 'a" where
  "graph_result m = map_sum BenchGraph id m"

definition visit_result :: "benchmark_error visit_error + 'a \<Rightarrow> benchmark_error + 'a" where
  "visit_result m = (case m of Inr x \<Rightarrow> Inr x | Inl (GraphError e) \<Rightarrow> Inl (BenchGraph e) | Inl (Callback e) \<Rightarrow> Inl e)"

definition xonly_of :: "bytes \<Rightarrow> benchmark_error + bytes" where
  "xonly_of public_key = (if public_key ! 0 \<noteq> 4 then Inl Crypto else Inr (take 32 (drop 1 public_key)))"

definition derive_benchmark_key :: "'k bolos \<Rightarrow> ledger_event list \<Rightarrow> benchmark_error + 'k \<times> bytes" where
  "derive_benchmark_key D log =
     (let private_key = lg_derive D BENCHMARK_PATH in
      bind_result (ok_or (lg_public_key D log private_key) Crypto) (\<lambda>public_key.
      bind_result (graph_result (normalize_bip340_public_key public_key)) (\<lambda>normalized.
      Inr (private_key, normalized))))"

definition taproot_output_key :: "'k bolos \<Rightarrow> bytes \<Rightarrow> benchmark_error + bytes" where
  "taproot_output_key D tweak =
     (let (e, tweak_point) = lg_scalar_mult D SECP256K1_GENERATOR tweak in
      bind_result (cx_ok e) (\<lambda>_.
      let (e, output_point) = lg_add_point D BIP341_NUMS_POINT tweak_point in
      bind_result (cx_ok e) (\<lambda>_. xonly_of output_point)))"

definition ledger_prepare :: "'k bolos \<Rightarrow> nat \<Rightarrow> ledger_event list \<Rightarrow> benchmark_error + 'k benchmark_context" where
  "ledger_prepare D rollover_inputs log =
     bind_result (derive_benchmark_key D log) (\<lambda>(hww_private_key, hww_public_key).
     bind_result (xonly_of hww_public_key) (\<lambda>hww_xonly.
     let policy = policy_commitment_new (lg_sha D) FIXED_PHONE_XONLY_PUBLIC_KEY hww_xonly in
     bind_result (taproot_output_key D (pc_output_key_tweak policy)) (\<lambda>vault_output_key.
     let controller = controller_commitment_new (lg_sha D) FIXED_PHONE_XONLY_PUBLIC_KEY hww_xonly in
     bind_result (taproot_output_key D (cc_output_key_tweak controller)) (\<lambda>controller_output_key.
     bind_result (graph_result (deterministic (lg_sha D) rollover_inputs vault_output_key controller_output_key
        (pc_cooperative_leaf_hash policy))) (\<lambda>config.
     Inr \<lparr>bx_config = config, bx_summary = signer_summary config, bx_hww_private_key = hww_private_key,
          bx_hww_public_key = hww_public_key\<rparr>)))))"

definition benchmark_key_derivation ::
  "'k bolos \<Rightarrow> 'k benchmark_context \<Rightarrow> ledger_event list \<Rightarrow> benchmark_error + bytes" where
  "benchmark_key_derivation D x log =
     bind_result (derive_benchmark_key D log) (\<lambda>(_, hww_public_key).
     if hww_public_key \<noteq> bx_hww_public_key x then Inl PublicKeyMismatch else xonly_of hww_public_key)"

definition benchmark_graph :: "'k bolos \<Rightarrow> 'k benchmark_context \<Rightarrow> benchmark_error + bytes" where
  "benchmark_graph D x =
     bind_result (visit_result (for_each_signature_job (lg_sha D) (bx_config x)
       (\<lambda>(last_sighash, generated) job. Inr (sj_sighash job, u8_inc generated)) (replicate 32 0, 0)))
       (\<lambda>(_, last_sighash, generated).
     if generated \<noteq> ws_signature_jobs (bx_summary x) then Inl SignatureCountMismatch else Inr last_sighash)"

definition schnorr_sign_raw :: "'k bolos \<Rightarrow> ledger_event list \<Rightarrow> 'k \<Rightarrow> bytes \<Rightarrow> benchmark_error + bytes" where
  "schnorr_sign_raw D log private_key message =
     (let (e, signature, signature_len) = lg_schnorr_sign D log private_key message in
      bind_result (cx_ok e) (\<lambda>_. if signature_len \<noteq> 64 then Inl Crypto else Inr signature))"

fun sign_digests ::
  "'k bolos \<Rightarrow> 'k benchmark_context \<Rightarrow> nat \<Rightarrow> bytes \<Rightarrow> ledger_event list \<Rightarrow> (benchmark_error + bytes) \<times> ledger_event list"
where
  "sign_digests D x 0 last_signature log = (Inr last_signature, log)"
| "sign_digests D x (Suc n) last_signature log =
     (case schnorr_sign_raw D log (bx_hww_private_key x) FIXED_SIGNING_DIGEST of
        Inl _ \<Rightarrow> (Inl SignatureCreation, log @ [Signed FIXED_SIGNING_DIGEST])
      | Inr signature \<Rightarrow> sign_digests D x n signature (log @ [Signed FIXED_SIGNING_DIGEST]))"

definition benchmark_fixed_digest_signing ::
  "'k bolos \<Rightarrow> 'k benchmark_context \<Rightarrow> ledger_event list \<Rightarrow> (benchmark_error + bytes) \<times> ledger_event list" where
  "benchmark_fixed_digest_signing D x log =
     (case sign_digests D x (ws_signature_jobs (bx_summary x)) (replicate 64 0) log of
        (r, log') \<Rightarrow> (map_sum id (take 32) r, log'))"

section \<open>Commands\<close>

datatype outcome = Returned | Waiting | Exited

definition reply :: "bytes \<Rightarrow> status \<Rightarrow> ledger_event list \<Rightarrow> ledger_event list" where
  "reply response s log = log @ [Replied response s]"

definition workload_response :: "workload_summary \<Rightarrow> bytes \<Rightarrow> bytes" where
  "workload_response s trailing =
     [of_nat BENCHMARK_VERSION, of_nat (ws_rollover_inputs s), of_nat (ws_transactions s),
      of_nat (ws_signature_jobs s)] @ trailing"

definition review_benchmark_policy :: "surroundings \<Rightarrow> ledger_event list \<Rightarrow> bool \<times> ledger_event list" where
  "review_benchmark_policy S log = (let b = sr_approve S log in (b, log @ [Reviewed b]))"

definition next_expected_command ::
  "surroundings \<Rightarrow> benchmark_instruction \<Rightarrow> ledger_event list \<Rightarrow> (outcome + apdu_command) \<times> ledger_event list" where
  "next_expected_command S expected log = (case sr_next_command S log of
       None \<Rightarrow> (Inl Waiting, log)
     | Some command \<Rightarrow> (case decode_instruction (ac_header command) of
           Inr instruction \<Rightarrow> if instruction = expected then (Inr command, log) else (Inl Returned, reply [] BadIns log)
         | Inl e \<Rightarrow> (Inl Returned, reply [] e log)))"

definition ledger_phase ::
  "surroundings \<Rightarrow> benchmark_instruction \<Rightarrow> workload_summary \<Rightarrow>
   (ledger_event list \<Rightarrow> (benchmark_error + bytes) \<times> ledger_event list) \<Rightarrow>
   (ledger_event list \<Rightarrow> outcome \<times> ledger_event list) \<Rightarrow> ledger_event list \<Rightarrow> outcome \<times> ledger_event list" where
  \<comment> \<open>wait for one instruction, run its work, answer with the workload response, and go on if it was sent\<close>
  "ledger_phase S expected summary work continue log =
     (case next_expected_command S expected log of
        (Inl out, log) \<Rightarrow> (out, log)
      | (Inr command, log) \<Rightarrow>
          if ac_data command \<noteq> [] then (Returned, reply [] BadLen log) else
          (case work log of
             (Inl e, log) \<Rightarrow> (Returned, reply [] (benchmark_failure_reply e) log)
           | (Inr trailing, log) \<Rightarrow>
               let log = reply (workload_response summary trailing) StatusOk log in
               if sr_delivered S log then continue log else (Returned, log)))"

fun be_nat :: "bytes \<Rightarrow> nat" where
  \<comment> \<open>\<^verbatim>\<open>u32::from_be_bytes\<close>\<close>
  "be_nat [] = 0"
| "be_nat (b # bs) = unat b * 256 ^ length bs + be_nat bs"

definition saturating_u32 :: "nat \<Rightarrow> nat \<Rightarrow> nat" where
  "saturating_u32 a b = min (a + b) U32_MAX"

definition total_ms :: "bytes \<Rightarrow> nat" where
  "total_ms encoded_timings =
     saturating_u32 (saturating_u32 (be_nat (take 4 encoded_timings)) (be_nat (take 4 (drop 4 encoded_timings))))
       (be_nat (take 4 (drop 8 encoded_timings)))"

definition ledger_complete ::
  "surroundings \<Rightarrow> workload_summary \<Rightarrow> ledger_event list \<Rightarrow> outcome \<times> ledger_event list" where
  "ledger_complete S summary log =
     (case next_expected_command S Complete log of
        (Inl out, log) \<Rightarrow> (out, log)
      | (Inr command, log) \<Rightarrow>
          if length (ac_data command) \<noteq> 12 then (Returned, reply [] BadLen log) else
          let log = reply [of_nat BENCHMARK_VERSION] StatusOk log in
          if \<not> sr_delivered S log then (Returned, log)
          else (Returned, log @ [Completed (ws_signature_jobs summary) (Some (total_ms (ac_data command)))]))"

definition run_session :: "'k bolos \<Rightarrow> surroundings \<Rightarrow> 'k benchmark_context \<Rightarrow> ledger_event list \<Rightarrow> outcome \<times> ledger_event list" where
  \<comment> \<open>after the approved \<^verbatim>\<open>Prepare\<close>: derivation, graph, signing, completion\<close>
  "run_session D S x =
     (let summary = bx_summary x in
      ledger_phase S KeyDerivation summary (\<lambda>log. (benchmark_key_derivation D x log, log @ [Derived]))
     (ledger_phase S Graph summary (\<lambda>log. (benchmark_graph D x, log @ [GraphBuilt]))
     (ledger_phase S Signing summary (benchmark_fixed_digest_signing D x)
     (ledger_complete S summary))))"

definition handle_host_command ::
  "'k bolos \<Rightarrow> surroundings \<Rightarrow> apdu_command \<Rightarrow> ledger_event list \<Rightarrow> outcome \<times> ledger_event list" where
  "handle_host_command D S command log =
     (if ac_data command \<noteq> [] then (Returned, reply [] BadLen log) else
      case decode_instruction (ac_header command) of
        Inl e \<Rightarrow> (Returned, reply [] e log)
      | Inr (Prepare rollover_inputs) \<Rightarrow>
          (case ledger_prepare D rollover_inputs log of
             Inl e \<Rightarrow> (Returned, reply [] (benchmark_failure_reply e) log)
           | Inr x \<Rightarrow>
               (case review_benchmark_policy S log of (approved, log) \<Rightarrow>
                  if \<not> approved then (Returned, reply [] UserCancelled log) else
                  case xonly_of (bx_hww_public_key x) of
                    Inl _ \<Rightarrow> (Exited, log) \<comment> \<open>\<^verbatim>\<open>expect\<close>: the panic handler ends the application\<close>
                  | Inr public_key \<Rightarrow>
                      let log = reply (workload_response (bx_summary x) public_key) StatusOk log in
                      if sr_delivered S log then run_session D S x log else (Returned, log)))
      | Inr _ \<Rightarrow> (Returned, reply [] BadIns log))"

definition local_run_error :: "benchmark_error \<Rightarrow> string" where
  "local_run_error e = (case e of SignatureCreation \<Rightarrow> ''Hardware signing failed''
     | PublicKeyMismatch \<Rightarrow> ''Derived benchmark key changed'' | SignatureCountMismatch \<Rightarrow> ''Signature count check failed''
     | BenchGraph _ \<Rightarrow> ''Transaction graph failed'' | Crypto \<Rightarrow> ''Ledger cryptography failed'')"

definition run_local_benchmark :: "'k bolos \<Rightarrow> surroundings \<Rightarrow> ledger_event list \<Rightarrow> ledger_event list" where
  "run_local_benchmark D S log =
     (case ledger_prepare D 12 log of
        Inl _ \<Rightarrow> log @ [Notice ''Benchmark preparation failed'']
      | Inr x \<Rightarrow> (case review_benchmark_policy S log of (approved, log) \<Rightarrow>
          if \<not> approved then log @ [Notice ''Benchmark cancelled''] else
          case (benchmark_key_derivation D x log, log @ [Derived]) of
            (Inl e, log) \<Rightarrow> log @ [Notice (local_run_error e)]
          | (Inr _, log) \<Rightarrow> (case (benchmark_graph D x, log @ [GraphBuilt]) of
              (Inl e, log) \<Rightarrow> log @ [Notice (local_run_error e)]
            | (Inr _, log) \<Rightarrow> (case benchmark_fixed_digest_signing D x log of
                (Inl e, log) \<Rightarrow> log @ [Notice (local_run_error e)]
              | (Inr _, log) \<Rightarrow> log @ [Completed (ws_signature_jobs (bx_summary x)) None]))))"

section \<open>The home screen\<close>

datatype home_event = StartLocal | Apdu apdu_command | ApduError | OtherEvent

fun home_step :: "'k bolos \<Rightarrow> surroundings \<Rightarrow> home_event \<Rightarrow> ledger_event list \<Rightarrow> outcome \<times> ledger_event list" where
  "home_step D S StartLocal log = (Returned, run_local_benchmark D S log)"
| "home_step D S (Apdu command) log = handle_host_command D S command log"
| "home_step D S ApduError log = (Returned, reply [] BadLen log)"
| "home_step D S OtherEvent log = (Returned, log)"

inductive ledger_run :: "'k bolos \<Rightarrow> surroundings \<Rightarrow> outcome \<times> ledger_event list \<Rightarrow> bool"
  for D :: "'k bolos" and S :: surroundings
where
  start: "ledger_run D S (Returned, [])"
| home: "ledger_run D S (Returned, log) \<Longrightarrow> ledger_run D S (home_step D S e log)"

inductive_cases ledger_runE: "ledger_run D S s"

end
