(* ===== verification/Ledger_Safety.thy ===== *)
theory Ledger_Safety
  imports Ledger_App
begin

text \<open>
  What the Ledger application may do with its key. A home step appends to the history a prefix
  without signatures, a block of calls of the signing primitive on the fixed digest, and a suffix
  without signatures; a nonempty block comes only after an approved review, a derivation and a graph
  of the same session. Invariants of every run follow by rule induction. The second half shows that a
  prepared context is well formed and that its graph phase cannot fail.
\<close>

section \<open>Contexts\<close>

lemma xonly_of_Inr: "xonly_of pk = Inr x \<longleftrightarrow> pk ! 0 = 4 \<and> x = take 32 (drop 1 pk)"
  by (auto simp: xonly_of_def)

lemma graph_result_Inr [simp]: "graph_result m = Inr x \<longleftrightarrow> m = Inr x"
  by (cases m) (simp_all add: graph_result_def)

lemma ledger_prepare_Inr:
  assumes "ledger_prepare D n log = Inr x"
  obtains hww vk ck where
    "taproot_output_key D (pc_output_key_tweak (policy_commitment_new (lg_sha D) FIXED_PHONE_XONLY_PUBLIC_KEY hww)) = Inr vk"
    and "taproot_output_key D (cc_output_key_tweak (controller_commitment_new (lg_sha D) FIXED_PHONE_XONLY_PUBLIC_KEY hww)) = Inr ck"
    and "deterministic (lg_sha D) n vk ck
      (pc_cooperative_leaf_hash (policy_commitment_new (lg_sha D) FIXED_PHONE_XONLY_PUBLIC_KEY hww)) = Inr (bx_config x)"
    and "bx_summary x = signer_summary (bx_config x)" and "xonly_of (bx_hww_public_key x) = Inr hww"
  using assms by (auto simp: ledger_prepare_def Let_def)

lemma ledger_prepare_summary:
  assumes "ledger_prepare D n log = Inr x"
  shows "bx_summary x = signer_summary (bx_config x)" and "bf_rollover_input_count (bx_config x) = n"
    and "1 \<le> n \<and> n \<le> 12" and "bx_hww_public_key x ! 0 = 4"
proof -
  obtain hww vk ck leaf where d: "deterministic (lg_sha D) n vk ck leaf = Inr (bx_config x)"
      and s: "bx_summary x = signer_summary (bx_config x)" and h: "xonly_of (bx_hww_public_key x) = Inr hww"
    using ledger_prepare_Inr [OF assms] by metis
  show "bx_summary x = signer_summary (bx_config x)" by (rule s)
  show "bx_hww_public_key x ! 0 = 4" using h by (simp add: xonly_of_Inr)
  show "1 \<le> n \<and> n \<le> 12" and "bf_rollover_input_count (bx_config x) = n"
    using deterministic_count [OF d] by simp_all
qed

lemma ledger_prepare_jobs:
  "ledger_prepare D n log = Inr x \<Longrightarrow> ws_signature_jobs (bx_summary x) = n + 14"
  using ledger_prepare_summary [of D n log x] by (simp add: signer_summary_def)

lemma taproot_output_key_length:
  assumes "bolos_ok D" and "taproot_output_key D tweak = Inr k"
  shows "length k = 32"
proof -
  obtain e p where m: "lg_scalar_mult D SECP256K1_GENERATOR tweak = (e, p)" by fastforce
  obtain e' q where a: "lg_add_point D BIP341_NUMS_POINT p = (e', q)" by fastforce
  have "length q = 65" using assms(1) a unfolding bolos_ok_def by (metis snd_conv)
  then show ?thesis using assms(2) m a by (auto simp: taproot_output_key_def cx_ok_def xonly_of_Inr split: if_splits)
qed

lemma tapleaf_length: "digest_ok H \<Longrightarrow> length (tapleaf_hash H s) = 32"
  by (simp add: digest_ok_def tapleaf_hash_def tagged_hash_def)

lemma ledger_prepare_config:
  assumes "bolos_ok D" and "ledger_prepare D n log = Inr x"
  shows "config_ok (bx_config x)"
proof -
  have H: "digest_ok (lg_sha D)" using assms(1) by (simp add: bolos_ok_def)
  obtain hww vk ck where
      k: "taproot_output_key D (pc_output_key_tweak (policy_commitment_new (lg_sha D) FIXED_PHONE_XONLY_PUBLIC_KEY hww)) = Inr vk"
      "taproot_output_key D (cc_output_key_tweak (controller_commitment_new (lg_sha D) FIXED_PHONE_XONLY_PUBLIC_KEY hww)) = Inr ck"
      and d: "deterministic (lg_sha D) n vk ck
        (pc_cooperative_leaf_hash (policy_commitment_new (lg_sha D) FIXED_PHONE_XONLY_PUBLIC_KEY hww)) = Inr (bx_config x)"
    using ledger_prepare_Inr [OF assms(2)] by metis
  have "length vk = 32" "length ck = 32" using taproot_output_key_length [OF assms(1)] k by blast+
  moreover have "length (pc_cooperative_leaf_hash (policy_commitment_new (lg_sha D) FIXED_PHONE_XONLY_PUBLIC_KEY hww)) = 32"
    using tapleaf_length [OF H] by (simp add: policy_commitment_new_def Let_def)
  ultimately show ?thesis using deterministic_ok(1) [OF H _ _ _ d] by blast
qed

lemma visit_jobs:
  "g + length jobs < 256 \<Longrightarrow>
   try_fold (\<lambda>(last_sighash, generated) job. Inr (sj_sighash job, u8_inc generated)) (prev, g) jobs
     = Inr (if jobs = [] then prev else sj_sighash (last jobs), g + length jobs)"
  by (induction jobs arbitrary: prev g) (auto simp: u8_inc_def)

lemma graph_jobs_length:
  "config_ok c \<Longrightarrow> length (graph_jobs H (config_context c) 0 0 (year_graph H c)) = bf_rollover_input_count c + 14"
proof -
  assume c: "config_ok c"
  have "length (map sj_signature_index (graph_jobs H (config_context c) 0 0 (year_graph H c)))
      = bf_rollover_input_count c + 14"
    unfolding graph_jobs_indexes year_graph_vault_count [OF c] by simp
  then show ?thesis by simp
qed

text \<open>The graph phase of a prepared context always succeeds, with the digest of the last job.\<close>

lemma benchmark_graph_total:
  assumes "bolos_ok D" and "ledger_prepare D n log = Inr x"
  shows "benchmark_graph D x = Inr (sj_sighash (last
    (graph_jobs (lg_sha D) (config_context (bx_config x)) 0 0 (year_graph (lg_sha D) (bx_config x)))))"
proof -
  let ?jobs = "graph_jobs (lg_sha D) (config_context (bx_config x)) 0 0 (year_graph (lg_sha D) (bx_config x))"
  have c: "config_ok (bx_config x)" by (rule ledger_prepare_config [OF assms])
  have H: "digest_ok (lg_sha D)" using assms(1) by (simp add: bolos_ok_def)
  have len: "length ?jobs = n + 14" "n \<le> 12"
    using graph_jobs_length [OF c] ledger_prepare_summary [OF assms(2)] by simp_all
  then have "?jobs \<noteq> []" by auto
  then have "try_fold (\<lambda>(last_sighash, generated) job. Inr (sj_sighash job, u8_inc generated)) (replicate 32 0, 0) ?jobs
      = (Inr (sj_sighash (last ?jobs), n + 14) :: benchmark_error + _)"
    using visit_jobs [of 0 ?jobs "replicate 32 0"] len by simp
  then have "for_each_signature_job (lg_sha D) (bx_config x)
       (\<lambda>(last_sighash, generated) job. Inr (sj_sighash job, u8_inc generated)) (replicate 32 0, 0)
     = (Inr (signer_summary (bx_config x), sj_sighash (last ?jobs), n + 14) :: benchmark_error visit_error + _)"
    unfolding for_each_signature_job_graph [OF H c] by simp
  then show ?thesis
    by (simp add: benchmark_graph_def visit_result_def ledger_prepare_jobs [OF assms(2)])
qed

section \<open>Histories\<close>

definition signature_free :: "ledger_event list \<Rightarrow> bool" where
  "signature_free es \<longleftrightarrow> (\<forall>d. Signed d \<notin> set es)"

definition steps_of :: "ledger_event list \<Rightarrow> ledger_event list" where
  \<comment> \<open>a history without the replies\<close>
  "steps_of es = filter (\<lambda>e. \<forall>r s. e \<noteq> Replied r s) es"

definition signing_session :: "ledger_event list \<Rightarrow> bool" where
  "signing_session new \<longleftrightarrow> (\<exists>before k after. new = before @ replicate k (Signed FIXED_SIGNING_DIGEST) @ after
     \<and> signature_free before \<and> signature_free after \<and> (\<forall>b. Reviewed b \<notin> set after) \<and> k \<le> MAX_SIGNATURE_JOBS
     \<and> (0 < k \<longrightarrow> steps_of before = [Reviewed True, Derived, GraphBuilt])
     \<and> (\<forall>n t. Completed n t \<in> set new \<longrightarrow> n = k \<and> 15 \<le> k))"

lemma steps_of_simps [simp]:
  "steps_of [] = []" "steps_of (es @ es') = steps_of es @ steps_of es'"
  "steps_of (Replied r s # es) = steps_of es" "steps_of (Reviewed b # es) = Reviewed b # steps_of es"
  "steps_of (Derived # es) = Derived # steps_of es" "steps_of (GraphBuilt # es) = GraphBuilt # steps_of es"
  by (simp_all add: steps_of_def)

lemma signature_free_simps [simp]:
  "signature_free []" "signature_free (es @ es') \<longleftrightarrow> signature_free es \<and> signature_free es'"
  "signature_free (e # es) \<longleftrightarrow> (\<forall>d. e \<noteq> Signed d) \<and> signature_free es"
  by (auto simp: signature_free_def)

lemma quiet_session:
  assumes "signature_free new" and "\<forall>n t. Completed n t \<notin> set new"
  shows "signing_session new"
  unfolding signing_session_def
  by (rule exI [of _ new], rule exI [of _ 0], rule exI [of _ "[]"]) (use assms in simp)

lemma sign_digests_log:
  "\<exists>k \<le> n. snd (sign_digests D x n sig log) = log @ replicate k (Signed FIXED_SIGNING_DIGEST)
     \<and> (\<forall>r. fst (sign_digests D x n sig log) = Inr r \<longrightarrow> k = n)"
proof (induction n arbitrary: sig log)
  case 0
  then show ?case by simp
next
  case (Suc n)
  show ?case
  proof (cases "schnorr_sign_raw D log (bx_hww_private_key x) FIXED_SIGNING_DIGEST")
    case (Inl e)
    then show ?thesis by (intro exI [of _ 1]) simp
  next
    case (Inr s)
    obtain k where "k \<le> n" "snd (sign_digests D x n s (log @ [Signed FIXED_SIGNING_DIGEST]))
        = (log @ [Signed FIXED_SIGNING_DIGEST]) @ replicate k (Signed FIXED_SIGNING_DIGEST)"
        "\<forall>r. fst (sign_digests D x n s (log @ [Signed FIXED_SIGNING_DIGEST])) = Inr r \<longrightarrow> k = n"
      using Suc.IH [of s "log @ [Signed FIXED_SIGNING_DIGEST]"] by blast
    then show ?thesis using Inr by (intro exI [of _ "Suc k"]) simp
  qed
qed

lemma fixed_digest_signing_log:
  assumes "benchmark_fixed_digest_signing D x log = (r, log')"
  obtains k where "k \<le> ws_signature_jobs (bx_summary x)"
    and "log' = log @ replicate k (Signed FIXED_SIGNING_DIGEST)"
    and "\<And>s. r = Inr s \<Longrightarrow> k = ws_signature_jobs (bx_summary x)"
proof -
  let ?n = "ws_signature_jobs (bx_summary x)"
  obtain r0 log0 where run: "sign_digests D x ?n (replicate 64 0) log = (r0, log0)" by fastforce
  then have r: "r = map_sum id (take 32) r0" "log' = log0"
    using assms by (simp_all add: benchmark_fixed_digest_signing_def)
  obtain k where k: "k \<le> ?n" "log0 = log @ replicate k (Signed FIXED_SIGNING_DIGEST)" "\<forall>r. r0 = Inr r \<longrightarrow> k = ?n"
    using sign_digests_log [of ?n D x "replicate 64 0" log] run by auto
  show thesis
    by (rule that [OF k(1)]) (use k r in \<open>auto simp: map_sum_def split: sum.splits\<close>)
qed

lemma next_expected_command_log:
  assumes "next_expected_command S i log = (r, log')"
  shows "log' = log \<or> (\<exists>s. log' = log @ [Replied [] s])" and "\<And>c. r = Inr c \<Longrightarrow> log' = log"
  using assms by (auto simp: next_expected_command_def reply_def split: option.splits sum.splits if_splits)

lemma ledger_phase_cases:
  assumes "ledger_phase S i summary work continue log = (out, log')"
  obtains (idle) es where "log' = log @ es" and "signature_free es" and "\<forall>n t. Completed n t \<notin> set es" and "\<forall>b. Reviewed b \<notin> set es"
  | (failed) e w s where "work log = (Inl e, w)" and "log' = w @ [Replied [] s]"
  | (unsent) v w s where "work log = (Inr v, w)" and "log' = w @ [Replied s StatusOk]"
  | (continued) v w s where "work log = (Inr v, w)" and "continue (w @ [Replied s StatusOk]) = (out, log')"
proof -
  obtain r log1 where n: "next_expected_command S i log = (r, log1)" by fastforce
  note nl = next_expected_command_log [OF n]
  show thesis
  proof (cases r)
    case (Inl o')
    then have "log' = log1" using assms n by (simp add: ledger_phase_def)
    then show ?thesis using nl(1) idle by fastforce
  next
    case (Inr c)
    then have l: "log1 = log" using nl(2) by blast
    show ?thesis
    proof (cases "ac_data c = []")
      case False
      then have "log' = log @ [Replied [] BadLen]" using assms n Inr l by (simp add: ledger_phase_def reply_def)
      then show ?thesis using idle [of "[Replied [] BadLen]"] by simp
    next
      case True
      obtain v w where w: "work log = (v, w)" by fastforce
      show ?thesis
      proof (cases v)
        case (Inl e)
        then have "log' = w @ [Replied [] (benchmark_failure_reply e)]"
          using assms n Inr l True w by (simp add: ledger_phase_def reply_def)
        then show ?thesis using failed w Inl by blast
      next
        case (Inr v')
        let ?r = "Replied (workload_response summary v') StatusOk"
        have "(if sr_delivered S (w @ [?r]) then continue (w @ [?r]) else (Returned, w @ [?r])) = (out, log')"
          using assms n \<open>r = Inr c\<close> l True w Inr by (simp add: ledger_phase_def reply_def Let_def)
        then show ?thesis using unsent [OF w [unfolded Inr]] continued [OF w [unfolded Inr]] by (auto split: if_splits)
      qed
    qed
  qed
qed

lemma ledger_complete_log:
  assumes "ledger_complete S summary log = (out, log')"
  shows "\<exists>es. log' = log @ es \<and> signature_free es \<and> (\<forall>b. Reviewed b \<notin> set es)
    \<and> (\<forall>n t. Completed n t \<in> set es \<longrightarrow> n = ws_signature_jobs summary)"
proof -
  obtain r log1 where n: "next_expected_command S Complete log = (r, log1)" by fastforce
  show ?thesis
    using assms n next_expected_command_log [OF n]
    by (cases r) (auto simp: ledger_complete_def reply_def Let_def split: if_splits)
qed

lemma signing_sessionI:
  assumes "signature_free before" and "signature_free after" and "\<forall>b. Reviewed b \<notin> set after" and "k \<le> MAX_SIGNATURE_JOBS"
    and "steps_of before = [Reviewed True, Derived, GraphBuilt]"
    and "\<forall>n t. Completed n t \<notin> set before" and "\<forall>n t. Completed n t \<in> set after \<longrightarrow> n = k \<and> 15 \<le> k"
  shows "signing_session (before @ replicate k (Signed FIXED_SIGNING_DIGEST) @ after)"
  unfolding signing_session_def
  by (intro exI [of _ before] exI [of _ k] exI [of _ after]) (use assms in auto)

lemma run_session_log:
  assumes "run_session D S x log = (out, log')" and "bx_summary x = signer_summary (bx_config x)"
    and "1 \<le> bf_rollover_input_count (bx_config x)" and "bf_rollover_input_count (bx_config x) \<le> 12"
    and "log = log0 @ [Reviewed True, Replied r0 StatusOk]"
  shows "\<exists>new. log' = log0 @ new \<and> signing_session new"
proof -
  let ?n = "ws_signature_jobs (bx_summary x)"
  have n: "?n \<le> MAX_SIGNATURE_JOBS" "15 \<le> ?n"
    using assms(2-4) by (simp_all add: signer_summary_def MAX_SIGNATURE_JOBS_def MAX_ROLLOVER_INPUTS_def)
  note quiet = quiet_session
  show ?thesis
    using assms(1) unfolding run_session_def Let_def
  proof (cases rule: ledger_phase_cases)
    case (idle es)
    then show ?thesis
      using assms(5) by (intro exI [of _ "[Reviewed True, Replied r0 StatusOk] @ es"]) (auto intro!: quiet)
  next
    case (failed e w s)
    then show ?thesis
      using assms(5) by (intro exI [of _ "[Reviewed True, Replied r0 StatusOk, Derived, Replied [] s]"])
        (auto intro!: quiet)
  next
    case (unsent v w s)
    then show ?thesis
      using assms(5) by (intro exI [of _ "[Reviewed True, Replied r0 StatusOk, Derived, Replied s StatusOk]"])
        (auto intro!: quiet)
  next
    case 1: (continued v w r1)
    let ?b = "[Reviewed True, Replied r0 StatusOk, Derived, Replied r1 StatusOk]"
    have w1: "w @ [Replied r1 StatusOk] = log0 @ ?b" using 1(1) assms(5) by auto
    from 1(2) [unfolded w1] show ?thesis
    proof (cases rule: ledger_phase_cases)
      case (idle es)
      then show ?thesis by (intro exI [of _ "?b @ es"]) (auto intro!: quiet)
    next
      case (failed e w s)
      then show ?thesis by (intro exI [of _ "?b @ [GraphBuilt, Replied [] s]"]) (auto intro!: quiet)
    next
      case (unsent v w s)
      then show ?thesis by (intro exI [of _ "?b @ [GraphBuilt, Replied s StatusOk]"]) (auto intro!: quiet)
    next
      case 2: (continued v w r2)
      let ?c = "?b @ [GraphBuilt, Replied r2 StatusOk]"
      have w2: "w @ [Replied r2 StatusOk] = log0 @ ?c" using 2(1) by auto
      have c: "signature_free ?c" "steps_of ?c = [Reviewed True, Derived, GraphBuilt]" "\<forall>n t. Completed n t \<notin> set ?c"
        by simp_all
      from 2(2) [unfolded w2] show ?thesis
      proof (cases rule: ledger_phase_cases)
        case (idle es)
        then show ?thesis by (intro exI [of _ "?c @ es"]) (auto intro!: quiet)
      next
        case (failed e w s)
        then obtain k where "k \<le> ?n" "w = (log0 @ ?c) @ replicate k (Signed FIXED_SIGNING_DIGEST)"
          using fixed_digest_signing_log by metis
        then show ?thesis
          using failed(2) n c signing_sessionI [of ?c "[Replied [] s]" k]
          by (intro exI [of _ "?c @ replicate k (Signed FIXED_SIGNING_DIGEST) @ [Replied [] s]"]) auto
      next
        case (unsent v w s)
        then obtain k where "k \<le> ?n" "w = (log0 @ ?c) @ replicate k (Signed FIXED_SIGNING_DIGEST)"
          using fixed_digest_signing_log by metis
        then show ?thesis
          using unsent(2) n c signing_sessionI [of ?c "[Replied s StatusOk]" k]
          by (intro exI [of _ "?c @ replicate k (Signed FIXED_SIGNING_DIGEST) @ [Replied s StatusOk]"]) auto
      next
        case 3: (continued v w s)
        then have w: "w = (log0 @ ?c) @ replicate ?n (Signed FIXED_SIGNING_DIGEST)"
          using fixed_digest_signing_log by metis
        obtain es where es: "log' = (w @ [Replied s StatusOk]) @ es" "signature_free es" "\<forall>b. Reviewed b \<notin> set es"
            "\<forall>n t. Completed n t \<in> set es \<longrightarrow> n = ?n"
          using ledger_complete_log [OF 3(2)] by blast
        have "signing_session (?c @ replicate ?n (Signed FIXED_SIGNING_DIGEST) @ Replied s StatusOk # es)"
          by (rule signing_sessionI) (use es n c in auto)
        then show ?thesis using es(1) w by auto
      qed
    qed
  qed
qed

lemma handle_host_command_session:
  assumes "handle_host_command D S command log = (out, log')"
  shows "\<exists>new. log' = log @ new \<and> signing_session new"
proof -
  have q: "\<exists>new. log @ es = log @ new \<and> signing_session new"
    if "signature_free es" and "\<forall>n t. Completed n t \<notin> set es" for es
    using quiet_session [OF that] by blast
  show ?thesis
  proof (cases "ac_data command = [] \<and> (\<exists>n. decode_instruction (ac_header command) = Inr (Prepare n))")
    case False
    then have "\<exists>s. log' = log @ [Replied [] s]"
      using assms by (auto simp: handle_host_command_def reply_def split: if_splits sum.splits benchmark_instruction.splits)
    then show ?thesis using q by force
  next
    case True
    then obtain n where n: "decode_instruction (ac_header command) = Inr (Prepare n)" by blast
    show ?thesis
    proof (cases "ledger_prepare D n log")
      case (Inl e)
      then have "log' = log @ [Replied [] (benchmark_failure_reply e)]"
        using assms n True by (simp add: handle_host_command_def reply_def)
      then show ?thesis using q by simp
    next
      case (Inr x)
      note x = ledger_prepare_summary [OF Inr]
      have public: "xonly_of (bx_hww_public_key x) = Inr (take 32 (drop 1 (bx_hww_public_key x)))"
        using x(4) by (simp add: xonly_of_def)
      let ?r = "workload_response (bx_summary x) (take 32 (drop 1 (bx_hww_public_key x)))"
      let ?log = "log @ [Reviewed True, Replied ?r StatusOk]"
      consider "log' = log @ [Reviewed False, Replied [] UserCancelled]" | "log' = ?log" | "run_session D S x ?log = (out, log')"
        using assms n True Inr public
        by (auto simp: handle_host_command_def review_benchmark_policy_def reply_def Let_def split: if_splits)
      then show ?thesis
      proof cases
        case 1 then show ?thesis using q by simp
      next
        case 2 then show ?thesis using q by simp
      next
        case 3 then show ?thesis using run_session_log [OF 3 x(1)] x(2,3) by blast
      qed
    qed
  qed
qed

lemma run_local_benchmark_session: "\<exists>new. run_local_benchmark D S log = log @ new \<and> signing_session new"
proof (cases "ledger_prepare D 12 log")
  case (Inl e)
  then show ?thesis
    by (intro exI [of _ "[Notice ''Benchmark preparation failed'']"]) (auto simp: run_local_benchmark_def intro!: quiet_session)
next
  case (Inr x)
  note x = ledger_prepare_summary [OF Inr]
  let ?n = "ws_signature_jobs (bx_summary x)"
  have n: "?n \<le> MAX_SIGNATURE_JOBS" "15 \<le> ?n"
    using x by (simp_all add: signer_summary_def MAX_SIGNATURE_JOBS_def MAX_ROLLOVER_INPUTS_def)
  let ?l1 = "log @ [Reviewed True]" and ?l2 = "log @ [Reviewed True, Derived]"
  let ?l3 = "log @ [Reviewed True, Derived, GraphBuilt]"
  obtain r log' where sign: "benchmark_fixed_digest_signing D x ?l3 = (r, log')" by fastforce
  obtain k where k: "k \<le> ?n" "log' = ?l3 @ replicate k (Signed FIXED_SIGNING_DIGEST)" "\<And>s. r = Inr s \<Longrightarrow> k = ?n"
    using fixed_digest_signing_log [OF sign] by blast
  have session: "signing_session ([Reviewed True, Derived, GraphBuilt] @ replicate k (Signed FIXED_SIGNING_DIGEST) @ after)"
    if "signature_free after" "\<forall>b. Reviewed b \<notin> set after" "\<forall>n t. Completed n t \<in> set after \<longrightarrow> n = k \<and> 15 \<le> k" for after
    by (rule signing_sessionI) (use that k n in auto)
  consider "\<not> sr_approve S log" | e where "sr_approve S log" "benchmark_key_derivation D x ?l1 = Inl e"
    | e p where "sr_approve S log" "benchmark_key_derivation D x ?l1 = Inr p" "benchmark_graph D x = Inl e"
    | p g e where "sr_approve S log" "benchmark_key_derivation D x ?l1 = Inr p" "benchmark_graph D x = Inr g" "r = Inl e"
    | p g s where "sr_approve S log" "benchmark_key_derivation D x ?l1 = Inr p" "benchmark_graph D x = Inr g" "r = Inr s"
    by (metis sum.exhaust)
  then show ?thesis
  proof cases
    case 1
    then show ?thesis using Inr
      by (intro exI [of _ "[Reviewed False, Notice ''Benchmark cancelled'']"])
        (auto simp: run_local_benchmark_def review_benchmark_policy_def intro!: quiet_session)
  next
    case 2
    then show ?thesis using Inr
      by (intro exI [of _ "[Reviewed True, Derived, Notice (local_run_error e)]"])
        (auto simp: run_local_benchmark_def review_benchmark_policy_def intro!: quiet_session)
  next
    case 3
    then show ?thesis using Inr
      by (intro exI [of _ "[Reviewed True, Derived, GraphBuilt, Notice (local_run_error e)]"])
        (auto simp: run_local_benchmark_def review_benchmark_policy_def intro!: quiet_session)
  next
    case 4
    then show ?thesis using Inr sign k(2) session [of "[Notice (local_run_error e)]"]
      by (intro exI [of _ "[Reviewed True, Derived, GraphBuilt] @ replicate k (Signed FIXED_SIGNING_DIGEST)
            @ [Notice (local_run_error e)]"])
        (simp add: run_local_benchmark_def review_benchmark_policy_def)
  next
    case 5
    then show ?thesis using Inr sign k session [of "[Completed ?n None]"] n(2)
      by (intro exI [of _ "[Reviewed True, Derived, GraphBuilt] @ replicate k (Signed FIXED_SIGNING_DIGEST)
            @ [Completed ?n None]"])
        (simp add: run_local_benchmark_def review_benchmark_policy_def)
  qed
qed

lemma home_step_session:
  assumes "home_step D S e log = (out, log')"
  shows "\<exists>new. log' = log @ new \<and> signing_session new"
proof (cases e)
  case StartLocal
  then show ?thesis using assms run_local_benchmark_session [of D S log] by auto
next
  case (Apdu c)
  then show ?thesis using assms handle_host_command_session by simp
next
  case ApduError
  then have "log' = log @ [Replied [] BadLen]" using assms by (simp add: reply_def)
  then show ?thesis using quiet_session [of "[Replied [] BadLen]"] by simp
next
  case OtherEvent
  then have "log' = log @ []" using assms by simp
  then show ?thesis using quiet_session [of "[]"] unfolding append_Nil2 by (metis append_Nil2 signature_free_simps(1) empty_iff list.set(1))
qed

section \<open>Runs\<close>

definition approved_at :: "ledger_event list \<Rightarrow> bool" where
  \<comment> \<open>the last review in this history was approved\<close>
  "approved_at log \<longleftrightarrow> (\<exists>a b. log = a @ Reviewed True # b \<and> (\<forall>r. Reviewed r \<notin> set b))"

definition is_signature :: "ledger_event \<Rightarrow> bool" where
  "is_signature e = (case e of Signed _ \<Rightarrow> True | _ \<Rightarrow> False)"

lemma filter_signature_free: "signature_free es \<Longrightarrow> filter is_signature es = []"
  by (induction es) (auto simp: is_signature_def split: ledger_event.splits)

lemma approved_steps:
  assumes "steps_of before = [Reviewed True, Derived, GraphBuilt]"
  shows "approved_at (log @ before @ replicate j (Signed d))" and "count_list before (Reviewed True) = 1"
    and "Derived \<in> set before" and "GraphBuilt \<in> set before"
proof -
  have f: "filter (\<lambda>e. \<forall>r s. e \<noteq> Replied r s) before = [Reviewed True, Derived, GraphBuilt]"
    using assms by (simp add: steps_of_def)
  then obtain a b where ab: "before = a @ Reviewed True # b" "filter (\<lambda>e. \<forall>r s. e \<noteq> Replied r s) b = [Derived, GraphBuilt]"
    using iffD1 [OF filter_eq_Cons_iff f] by (elim exE conjE) (rule that, assumption, rule sym)
  have "Reviewed r \<notin> set b" for r
  proof
    assume "Reviewed r \<in> set b"
    then have "Reviewed r \<in> set (filter (\<lambda>e. \<forall>r s. e \<noteq> Replied r s) b)" by simp
    then show False using ab(2) by simp
  qed
  then show "approved_at (log @ before @ replicate j (Signed d))"
    unfolding approved_at_def ab(1)
    by (intro exI [of _ "log @ a"] exI [of _ "b @ replicate j (Signed d)"]) auto
  have count: "count_list xs (Reviewed True) = count_list (filter (\<lambda>e. \<forall>r s. e \<noteq> Replied r s) xs) (Reviewed True)" for xs
    by (induction xs) auto
  show "count_list before (Reviewed True) = 1" unfolding count [of before] f by simp
  have "set [Reviewed True, Derived, GraphBuilt] \<subseteq> set before" using f by (metis filter_is_subset)
  then show "Derived \<in> set before" and "GraphBuilt \<in> set before" by simp_all
qed

lemma signing_session_prefix:
  assumes "signing_session new" and "new = pre @ Signed d # post"
  shows "d = FIXED_SIGNING_DIGEST \<and> approved_at (log @ pre) \<and> Derived \<in> set pre \<and> GraphBuilt \<in> set pre"
proof -
  obtain before k after where s: "new = before @ replicate k (Signed FIXED_SIGNING_DIGEST) @ after"
      "signature_free before" "signature_free after" "0 < k \<longrightarrow> steps_of before = [Reviewed True, Derived, GraphBuilt]"
    using assms(1) unfolding signing_session_def by blast
  have i: "length pre < length new" "new ! length pre = Signed d" using assms(2) by auto
  have ge: "length before \<le> length pre"
  proof (rule ccontr)
    assume "\<not> length before \<le> length pre"
    then have "before ! length pre = Signed d" "length pre < length before" using i s(1) by (auto simp: nth_append)
    then show False using s(2) nth_mem unfolding signature_free_def by metis
  qed
  have lt: "length pre < length before + k"
  proof (rule ccontr)
    assume "\<not> length pre < length before + k"
    moreover have "new = (before @ replicate k (Signed FIXED_SIGNING_DIGEST)) @ after" using s(1) by simp
    ultimately have "after ! (length pre - (length before + k)) = Signed d" "length pre - (length before + k) < length after"
      using i ge nth_append [of "before @ replicate k (Signed FIXED_SIGNING_DIGEST)" after "length pre"] by auto
    then show False using s(3) nth_mem unfolding signature_free_def by metis
  qed
  define j where "j = length pre - length before"
  have "pre = take (length pre) new" using assms(2) by simp
  then have pre: "pre = before @ replicate j (Signed FIXED_SIGNING_DIGEST)"
    using ge lt s(1) by (simp add: j_def min_absorb1)
  have "length pre - length before < k" using ge lt by linarith
  then have "d = FIXED_SIGNING_DIGEST" using i(2) ge s(1) by (simp add: nth_append)
  moreover have "0 < k" using lt ge by linarith
  ultimately show ?thesis using approved_steps [of before] s(4) pre by auto
qed

lemma signing_session_count:
  assumes "signing_session new"
  shows "length (filter is_signature new) \<le> MAX_SIGNATURE_JOBS * count_list new (Reviewed True)"
proof -
  obtain before k after where s: "new = before @ replicate k (Signed FIXED_SIGNING_DIGEST) @ after"
      "signature_free before" "signature_free after" "0 < k \<longrightarrow> steps_of before = [Reviewed True, Derived, GraphBuilt]"
      "k \<le> MAX_SIGNATURE_JOBS"
    using assms unfolding signing_session_def by blast
  have "length (filter is_signature new) = k"
    using s(1-3) by (simp add: filter_signature_free is_signature_def)
  moreover have "0 < k \<Longrightarrow> 1 \<le> count_list new (Reviewed True)"
    using s(1,4) approved_steps(2) [of before] by simp
  moreover have "k \<le> MAX_SIGNATURE_JOBS * count_list new (Reviewed True)" if "0 < k"
  proof -
    have "k * 1 \<le> MAX_SIGNATURE_JOBS * count_list new (Reviewed True)"
      using s(5) \<open>0 < k \<Longrightarrow> 1 \<le> count_list new (Reviewed True)\<close> [OF that] by (rule mult_le_mono)
    then show ?thesis by simp
  qed
  ultimately show ?thesis by (cases "k = 0") auto
qed

lemma ledger_run_approved:
  assumes "ledger_run D S s" and "snd s = pre @ Signed d # post"
  shows "d = FIXED_SIGNING_DIGEST \<and> approved_at pre \<and> Derived \<in> set pre \<and> GraphBuilt \<in> set pre"
  using assms
proof (induction arbitrary: pre post rule: ledger_run.induct)
  case start
  then show ?case by simp
next
  case (home log e)
  obtain new where new: "snd (home_step D S e log) = log @ new" "signing_session new"
    using home_step_session [of D S e log] by (metis prod.collapse)
  consider us where "log = pre @ Signed d # us" | us where "pre = log @ us" "new = us @ Signed d # post"
  proof -
    obtain us where "log = pre @ us \<and> us @ new = Signed d # post \<or> log @ us = pre \<and> new = us @ Signed d # post"
      using home.prems new(1) append_eq_append_conv2 [of log new pre "Signed d # post"] by auto
    then show thesis using that by (cases us) auto
  qed
  then show ?case
  proof cases
    case 1
    then show ?thesis using home.IH by simp
  next
    case 2
    then show ?thesis using signing_session_prefix [OF new(2) 2(2), of log] by auto
  qed
qed

lemma ledger_run_count:
  assumes "ledger_run D S s"
  shows "length (filter is_signature (snd s)) \<le> MAX_SIGNATURE_JOBS * count_list (snd s) (Reviewed True)"
  using assms
proof (induction rule: ledger_run.induct)
  case start
  then show ?case by simp
next
  case (home log e)
  obtain new where new: "snd (home_step D S e log) = log @ new" "signing_session new"
    using home_step_session [of D S e log] by (metis prod.collapse)
  then show ?case using home signing_session_count [OF new(2)] by (simp add: distrib_left)
qed

end
