(* ===== verification/Signer_Properties.thy ===== *)
theory Signer_Properties
  imports Ledger_Safety
begin

text \<open>
  The properties of the cold signer and of the Ledger application, over the definitions of
  \<open>Cold_Signer\<close> and \<open>Ledger_App\<close>: what the annual workload contains, which messages it asks to sign,
  and when the device signs. The witnesses run a device whose primitives answer with constants.
\<close>

section \<open>A device with constant primitives\<close>

definition flat_sha :: sha where
  "flat_sha parts = replicate 32 0"

definition flat_point :: bytes where
  "flat_point = 4 # replicate 64 0"

definition flat_bolos :: "unit bolos" where
  "flat_bolos = \<lparr>lg_sha = flat_sha, lg_derive = (\<lambda>_. ()), lg_public_key = (\<lambda>_ _. Some flat_point),
     lg_scalar_mult = (\<lambda>_ _. (CX_OK, flat_point)), lg_add_point = (\<lambda>_ _. (CX_OK, flat_point)),
     lg_schnorr_sign = (\<lambda>_ _ _. (CX_OK, replicate 64 7, 64))\<rparr>"

definition flat_surroundings :: surroundings where
  \<comment> \<open>a user who approves, and a silent host\<close>
  "flat_surroundings = \<lparr>sr_next_command = (\<lambda>_. None), sr_approve = (\<lambda>_. True), sr_delivered = (\<lambda>_. True)\<rparr>"

lemma flat_digest_ok: "digest_ok flat_sha"
  by (simp add: digest_ok_def flat_sha_def)

lemma flat_bolos_ok: "bolos_ok flat_bolos"
  by (simp add: bolos_ok_def flat_bolos_def flat_digest_ok flat_point_def)

lemma flat_deterministic: "\<exists>c. deterministic flat_sha 2 (replicate 32 1) (replicate 32 2) (replicate 32 3) = Inr c"
  using deterministic_total [of 2] by simp

lemma flat_xonly [simp]: "xonly_of flat_point = Inr (replicate 32 0)"
  by (simp add: xonly_of_def flat_point_def numeral_eq_Suc)

lemma flat_normalize [simp]: "normalize_bip340_public_key flat_point = Inr flat_point"
  by (simp add: normalize_bip340_public_key_def flat_point_def numeral_eq_Suc)

lemma flat_taproot [simp]: "taproot_output_key flat_bolos tweak = Inr (replicate 32 0)"
  by (simp add: taproot_output_key_def flat_bolos_def cx_ok_def)

lemma flat_derive [simp]: "derive_benchmark_key flat_bolos log = Inr ((), flat_point)"
  by (simp add: derive_benchmark_key_def flat_bolos_def graph_result_def)

lemma flat_prepare:
  assumes "1 \<le> n" and "n \<le> 12"
  shows "\<exists>x. ledger_prepare flat_bolos n log = Inr x \<and> bx_hww_public_key x = flat_point"
proof -
  let ?H = "lg_sha flat_bolos"
  let ?leaf = "pc_cooperative_leaf_hash (policy_commitment_new ?H FIXED_PHONE_XONLY_PUBLIC_KEY (replicate 32 0))"
  obtain c where "deterministic ?H n (replicate 32 0) (replicate 32 0) ?leaf = Inr c"
    using deterministic_total [OF assms] by blast
  then show ?thesis by (simp add: ledger_prepare_def Let_def graph_result_def)
qed

section \<open>The annual workload\<close>

lemma try_fold_collect: "try_fold (\<lambda>acc t. Inr (acc @ [t])) acc ts = Inr (acc @ ts)"
  by (induction ts arbitrary: acc) simp_all

definition annual_transactions :: "sha \<Rightarrow> benchmark_config \<Rightarrow> unit visit_error + benchmark_transaction list" where
  \<comment> \<open>the transactions \<^verbatim>\<open>walk_transactions\<close> hands to its callback, in order\<close>
  "annual_transactions H c = walk_transactions H c (\<lambda>acc t. Inr (acc @ [t])) []"

lemma annual_transactions_graph:
  "digest_ok H \<Longrightarrow> config_ok c \<Longrightarrow> annual_transactions H c = Inr (map bt_of (year_graph H c))"
  by (simp add: annual_transactions_def walk_transactions_graph try_fold_collect)

definition spends_output_of :: "sha \<Rightarrow> benchmark_config \<Rightarrow> benchmark_transaction \<Rightarrow> bench_input \<Rightarrow> bool" where
  \<comment> \<open>the input names an output of that transaction by its identifier, with the output's amount, and the
    output has the script the input is taken to spend\<close>
  "spends_output_of H c t i \<longleftrightarrow> bench_txid H t = Inr (bi_previous_txid i) \<and> bi_previous_vout i < length (bench_outputs t)
     \<and> bo_amount_sats (bench_outputs t ! bi_previous_vout i) = bi_amount_sats i
     \<and> bo_script_pubkey (bench_outputs t ! bi_previous_vout i)
         = (if bi_controller i then bf_controller_script_pubkey c else bf_vault_script_pubkey c)"

lemma funded_spends:
  assumes "inputs_ok (fst io)" and "outputs_ok (snd io)" and "funded_by H c io i"
  shows "spends_output_of H c (bt_of io) i"
  using assms bench_txid_bt_of [of "fst io" "snd io" H] unfolding spends_output_of_def funded_by_def
  by (cases io) (auto simp: bt_of_simps)

definition fee_of :: "benchmark_transaction \<Rightarrow> nat" where
  "fee_of t = policy_vsize (length (filter (\<lambda>i. \<not> bi_controller i) (bench_inputs t)))
     (length (filter bi_controller (bench_inputs t))) (length (bench_outputs t))"

lemma fee_of_bt: "fee_of (bt_of io) = graph_fee io"
proof -
  have "length (fst io) = vault_count io + length (filter bi_controller (fst io))"
    using sum_length_filter_compl [of bi_controller "fst io"] by (simp add: vault_count_filter)
  then show ?thesis by (cases io) (simp add: fee_of_def graph_fee_def vault_count_filter)
qed

lemma deterministic_config:
  "digest_ok H \<Longrightarrow> length vk = 32 \<Longrightarrow> length ck = 32 \<Longrightarrow> length leaf = 32 \<Longrightarrow> deterministic H n vk ck leaf = Inr c \<Longrightarrow>
   config_ok c"
  using deterministic_ok(1) by blast

text \<open>
  C4. The annual graph of the cold signer. From any accepted configuration the walk hands its
  callback exactly fifteen transactions; in each the inputs carry the outputs and the fee at one
  satoshi per virtual byte, and every input after the first transaction spends an existing output of
  an earlier one, named by the identifier computed from that transaction's serialisation, with its
  amount and script.
\<close>

theorem annual_graph_is_funded:
  assumes "digest_ok H" and "length vk = 32" and "length ck = 32" and "length leaf = 32"
    and "deterministic H n vk ck leaf = Inr c"
  shows "\<exists>ts. annual_transactions H c = Inr ts \<and> length ts = 15
    \<and> (\<forall>t \<in> set ts. sum_list (map bi_amount_sats (bench_inputs t))
        = sum_list (map bo_amount_sats (bench_outputs t)) + fee_of t)
    \<and> sum_list (map bi_amount_sats (bench_inputs (ts ! 0))) = VAULT_BALANCE_SATS
    \<and> (\<forall>k i. 0 < k \<longrightarrow> k < 15 \<longrightarrow> i \<in> set (bench_inputs (ts ! k)) \<longrightarrow> (\<exists>j < k. spends_output_of H c (ts ! j) i))"
proof -
  note c = deterministic_config [OF assms]
  let ?g = "year_graph H c"
  have ok: "inputs_ok (fst io) \<and> outputs_ok (snd io)" if "io \<in> set ?g" for io
    using year_graph_ok [OF assms(1) c] that by blast
  have io: "bench_inputs (bt_of io) = fst io" "bench_outputs (bt_of io) = snd io" for io by (cases io; simp)+
  have "\<exists>j < k. spends_output_of H c (map bt_of ?g ! j) i"
    if k: "0 < k" "k < 15" and i: "i \<in> set (bench_inputs (map bt_of ?g ! k))" for k i
  proof -
    have "i \<in> set (fst (?g ! k))" using i k by (simp add: io)
    from year_graph_funded [OF k this] obtain j where "j < k" "funded_by H c (?g ! j) i" by blast
    moreover have "?g ! j \<in> set ?g" using \<open>j < k\<close> k by simp
    ultimately show ?thesis using ok [of "?g ! j"] funded_spends [of "?g ! j" H c i] k by (intro exI [of _ j]) simp
  qed
  moreover have "sum_list (map bi_amount_sats (bench_inputs (map bt_of ?g ! 0))) = VAULT_BALANCE_SATS"
    using c year_graph_nth(1) [of H c] by (simp add: io rollover_io_def config_ok_def)
  moreover have "\<forall>t \<in> set (map bt_of ?g). sum_list (map bi_amount_sats (bench_inputs t))
      = sum_list (map bo_amount_sats (bench_outputs t)) + fee_of t"
    using year_graph_conserves [OF c] by (auto simp: io fee_of_bt amount_in_def amount_out_def)
  ultimately show ?thesis using annual_transactions_graph [OF assms(1) c] by auto
qed

theorem annual_graph_is_funded_witness:
  "\<exists>c ts. deterministic flat_sha 2 (replicate 32 1) (replicate 32 2) (replicate 32 3) = Inr c
    \<and> annual_transactions flat_sha c = Inr ts \<and> length ts = 15"
proof -
  obtain c where c: "deterministic flat_sha 2 (replicate 32 1) (replicate 32 2) (replicate 32 3) = Inr c"
    using flat_deterministic by blast
  have "length (replicate 32 (1 :: 8 word)) = 32" "length (replicate 32 (2 :: 8 word)) = 32"
    "length (replicate 32 (3 :: 8 word)) = 32" by simp_all
  from annual_graph_is_funded [OF flat_digest_ok this c] show ?thesis using c by blast
qed

text \<open>
  C5. The signature jobs of the annual workload. Whatever the visitor does, \<^verbatim>\<open>for_each_signature_job\<close> offers
  it the same jobs, numbered without a gap from zero to the count of the summary, and fails only if
  the visitor does. Each job is for a vault input of the transaction it names, and its digest is the
  BIP341 script-path message of that input, built in the reference \<open>message_bytes\<close> from the transaction
  alone: the reused hash buffer leaves no trace.
\<close>

theorem signature_jobs_reference:
  assumes "digest_ok H" and "length vk = 32" and "length ck = 32" and "length leaf = 32"
    and "deterministic H n vk ck leaf = Inr c"
  shows "\<exists>ts jobs. annual_transactions H c = Inr ts
    \<and> map sj_signature_index jobs = [0..<n + 14] \<and> ws_signature_jobs (signer_summary c) = n + 14
    \<and> (\<forall>callback s. for_each_signature_job H c callback s
        = map_sum Callback (\<lambda>s. (signer_summary c, s)) (try_fold callback s jobs))
    \<and> (\<forall>j \<in> set jobs. \<exists>t. sj_transaction_index j < length ts \<and> t = ts ! sj_transaction_index j
        \<and> sj_input_index j < length (bench_inputs t) \<and> \<not> bi_controller (bench_inputs t ! sj_input_index j)
        \<and> sj_sighash j = tagged_hash H TAPSIGHASH_TAG_HASH
            [message_bytes H (config_context c) (bench_inputs t) (bench_outputs t) (sj_input_index j)])"
proof -
  note c = deterministic_config [OF assms]
  let ?g = "year_graph H c"
  let ?jobs = "graph_jobs H (config_context c) 0 0 ?g"
  have n: "bf_rollover_input_count c = n" "n \<le> 12" using deterministic_count [OF assms(5)] by simp_all
  have io: "bench_inputs (bt_of io) = fst io" "bench_outputs (bt_of io) = snd io" for io by (cases io; simp)+
  have jobs: "\<exists>t. sj_transaction_index j < length (map bt_of ?g) \<and> t = map bt_of ?g ! sj_transaction_index j
        \<and> sj_input_index j < length (bench_inputs t) \<and> \<not> bi_controller (bench_inputs t ! sj_input_index j)
        \<and> sj_sighash j = tagged_hash H TAPSIGHASH_TAG_HASH
            [message_bytes H (config_context c) (bench_inputs t) (bench_outputs t) (sj_input_index j)]"
    if j: "j \<in> set ?jobs" for j
  proof -
    obtain k where "k < 15" "sj_transaction_index j = k" "sj_input_index j \<in> set (vault_indexes (fst (?g ! k)))"
      "sj_sighash j = graph_sighash H (config_context c) (?g ! k) (sj_input_index j)"
      using graph_jobs_in [OF j] by auto
    then show ?thesis by (intro exI [of _ "bt_of (?g ! k)"]) (simp add: io vault_indexes_def graph_sighash_def)
  qed
  have "map sj_signature_index ?jobs = [0..<n + 14]"
    using graph_jobs_indexes [of H "config_context c" 0 0 ?g] n by (simp add: year_graph_vault_count [OF c])
  moreover have "ws_signature_jobs (signer_summary c) = n + 14" using n by (simp add: signer_summary_def)
  moreover note annual_transactions_graph [OF assms(1) c]
  moreover have "\<forall>callback s. for_each_signature_job H c callback s
      = map_sum Callback (\<lambda>s. (signer_summary c, s)) (try_fold callback s ?jobs)"
    using for_each_signature_job_graph [OF assms(1) c] by blast
  moreover note ballI [OF jobs]
  ultimately show ?thesis by (intro exI conjI) assumption+
qed

theorem signature_jobs_reference_witness:
  "\<exists>c ts (jobs :: signature_job list). deterministic flat_sha 2 (replicate 32 1) (replicate 32 2) (replicate 32 3) = Inr c
    \<and> annual_transactions flat_sha c = Inr ts \<and> map sj_signature_index jobs = [0..<16]
    \<and> for_each_signature_job flat_sha c (\<lambda>k j. Inr (k + 1)) (0 :: nat)
        = (Inr (signer_summary c, 16) :: unit visit_error + _)"
proof -
  obtain c where c: "deterministic flat_sha 2 (replicate 32 1) (replicate 32 2) (replicate 32 3) = Inr c"
    using flat_deterministic by blast
  have "length (replicate 32 (1 :: 8 word)) = 32" "length (replicate 32 (2 :: 8 word)) = 32"
    "length (replicate 32 (3 :: 8 word)) = 32" by simp_all
  note this = signature_jobs_reference [OF flat_digest_ok this c]
  then obtain ts and jobs :: "signature_job list" where ts: "annual_transactions flat_sha c = Inr ts"
    and i: "map sj_signature_index jobs = [0..<2 + 14]"
    and f: "\<forall>callback s. for_each_signature_job flat_sha c (callback :: nat \<Rightarrow> signature_job \<Rightarrow> unit + nat) s
      = map_sum Callback (\<lambda>s. (signer_summary c, s)) (try_fold callback s jobs)"
    by (elim exE conjE) (rule that)
  have "try_fold (\<lambda>k j. Inr (k + 1)) 0 jobs = (Inr (0 + length jobs) :: unit + nat)"
  proof -
    have "try_fold (\<lambda>k j. Inr (k + 1)) a js = (Inr (a + length js) :: unit + nat)" for a and js :: "signature_job list"
      by (induction js arbitrary: a) simp_all
    then show ?thesis .
  qed
  moreover have "length jobs = 16" using arg_cong [OF i, of length] by simp
  ultimately have "for_each_signature_job flat_sha c (\<lambda>k j. Inr (k + 1)) (0 :: nat)
        = (Inr (signer_summary c, 16) :: unit visit_error + _)" using f by simp
  moreover have "map sj_signature_index jobs = [0..<16]" using i by simp
  ultimately show ?thesis using c ts by (intro exI conjI) assumption+
qed

text \<open>
  C6. \<^verbatim>\<open>policy_vsize\<close>, the fee of every transaction of the workload, is the virtual size of the signed
  transaction: the BIP141 weight of what \<^verbatim>\<open>serialize\<close> writes, the segwit marker and flag, and witnesses
  of the shape each input's leaf needs (two signatures, script and control block for a vault input,
  one for a controller input), divided by four and rounded up.
\<close>

theorem policy_vsize_is_virtual_size:
  assumes "inputs_ok ins" and "outputs_ok outs" and "bt_new ins outs = Inr t" and "serialize t = Inr w"
    and "list_all2 (\<lambda>i ws. map length ws = witness_shape i) ins witnesses"
  shows "fee_of t = (4 * length (as_slice w) + 2 + length (concat (map witness_bytes witnesses)) + 3) div 4"
proof -
  have t: "t = bt_of (ins, outs)" using assms(3) bt_new_ok [OF assms(1,2)] by simp
  then have "as_slice w = tx_bytes ins outs" using assms(4) serialize_bt_of [OF assms(1,2)] by simp
  then show ?thesis
    using graph_fee_virtual_size [of "(ins, outs)" witnesses] assms(1,2,5) by (simp add: t fee_of_bt virtual_size_def)
qed

definition sample_input :: bench_input where
  "sample_input = vault_spend (replicate 32 5) 0 1000 U32_MAX"

definition sample_output :: bench_output where
  "sample_output = \<lparr>bo_amount_sats = 800, bo_script_pubkey = p2tr_script (replicate 32 6)\<rparr>"

definition sample_witness :: "bytes list" where
  "sample_witness = [replicate 64 0, replicate 64 0, replicate 70 0, replicate 65 0]"

theorem policy_vsize_is_virtual_size_witness:
  "\<exists>t w. bt_new [sample_input] [sample_output] = Inr t \<and> serialize t = Inr w
    \<and> fee_of t = (4 * length (as_slice w) + 2 + length (concat (map witness_bytes [sample_witness])) + 3) div 4"
proof -
  have ok: "inputs_ok [sample_input]" "outputs_ok [sample_output]"
    by (simp_all add: inputs_ok_def outputs_ok_def sample_input_def sample_output_def vault_spend_def p2tr_script_def)
  obtain t where t: "bt_new [sample_input] [sample_output] = Inr t" using bt_new_ok [OF ok] by simp
  obtain w where w: "serialize t = Inr w" using t bt_new_ok [OF ok] serialize_bt_of [OF ok] by auto
  have "list_all2 (\<lambda>i ws. map length ws = witness_shape i) [sample_input] [sample_witness]"
    by (simp add: sample_input_def sample_witness_def witness_shape_def vault_spend_def signer_constants)
  from policy_vsize_is_virtual_size [OF ok t w this] show ?thesis using t w by blast
qed

text \<open>
  C7. \<^verbatim>\<open>normalize_bip340_public_key\<close> accepts only an uncompressed point, keeps its x coordinate, and returns
  the even one of y and p - y: the byte-wise loop with its borrow is subtraction from the field prime.
\<close>

theorem normalized_key_is_even:
  assumes "length pk = 65" and "normalize_bip340_public_key pk = Inr pk'"
  shows "pk ! 0 = 4 \<and> length pk' = 65 \<and> take 33 pk' = take 33 pk \<and> even (be_value (drop 33 pk'))
    \<and> be_value (drop 33 pk') = (if even (be_value (drop 33 pk)) then be_value (drop 33 pk)
                                else field_prime - be_value (drop 33 pk))"
  using normalize_cases [OF assms] .

theorem normalized_key_is_even_witness:
  "\<exists>pk'. normalize_bip340_public_key (4 # replicate 63 0 @ [9]) = Inr pk' \<and> even (be_value (drop 33 pk'))
    \<and> be_value (drop 33 pk') = field_prime - 9"
proof -
  let ?pk = "4 # replicate 63 0 @ [9] :: bytes"
  have "\<not> isl (normalize_bip340_public_key ?pk)" by code_simp
  then obtain pk' where n: "normalize_bip340_public_key ?pk = Inr pk'"
    by (cases "normalize_bip340_public_key ?pk") simp_all
  have "length ?pk = 65" by simp
  from normalized_key_is_even [OF this n] have e: "even (be_value (drop 33 pk'))"
    and v: "be_value (drop 33 pk')
      = (if even (be_value (drop 33 ?pk)) then be_value (drop 33 ?pk) else field_prime - be_value (drop 33 ?pk))"
    by blast+
  have "be_value (drop 33 ?pk) = 9" by code_simp
  then show ?thesis using n e v by simp
qed

section \<open>The Ledger application\<close>

text \<open>
  C8. Whatever commands the host sends and whatever the user does, from the start of the application
  every call of the signing primitive is on the fixed benchmark digest, never on a digest of the
  transaction graph or of the host, and comes after a review the user approved that no later review
  revoked, a second derivation of the key, and a build of the graph.
\<close>

theorem device_signs_only_approved:
  assumes "ledger_run D S s" and "snd s = pre @ Signed d # post"
  shows "d = FIXED_SIGNING_DIGEST \<and> approved_at pre \<and> Derived \<in> set pre \<and> GraphBuilt \<in> set pre"
  using ledger_run_approved [OF assms] .

text \<open>
  C9. The number of signatures a device ever makes is bounded by twenty-six for each approval it was
  given, for any host.
\<close>

theorem signatures_bounded_by_approvals:
  assumes "ledger_run D S s"
  shows "length (filter is_signature (snd s)) \<le> 26 * count_list (snd s) (Reviewed True)"
  using ledger_run_count [OF assms] by (simp add: MAX_SIGNATURE_JOBS_def MAX_ROLLOVER_INPUTS_def)

definition flat_local_run :: "outcome \<times> ledger_event list" where
  "flat_local_run = home_step flat_bolos flat_surroundings StartLocal []"

lemma flat_local_run_reached: "ledger_run flat_bolos flat_surroundings flat_local_run"
  unfolding flat_local_run_def by (rule ledger_run.home [OF ledger_run.start])

lemma flat_signing:
  "sign_digests flat_bolos x n sig log
     = (Inr (if n = 0 then sig else replicate 64 7), log @ replicate n (Signed FIXED_SIGNING_DIGEST))"
  by (induction n arbitrary: sig log)
    (simp_all add: schnorr_sign_raw_def flat_bolos_def cx_ok_def replicate_append_same [symmetric])

lemma flat_graph: "ledger_prepare flat_bolos n log = Inr x \<Longrightarrow> \<exists>d. benchmark_graph flat_bolos x = Inr d"
  using benchmark_graph_total [OF flat_bolos_ok] by blast

lemma flat_local_run_log:
  "snd flat_local_run = [Reviewed True, Derived, GraphBuilt] @ replicate 26 (Signed FIXED_SIGNING_DIGEST)
     @ [Completed 26 None]"
proof -
  obtain x where x: "ledger_prepare flat_bolos 12 [] = Inr x" "bx_hww_public_key x = flat_point"
    using flat_prepare [of 12 "[]"] by auto
  obtain d where d: "benchmark_graph flat_bolos x = Inr d" using flat_graph [OF x(1)] by blast
  have "ws_signature_jobs (bx_summary x) = 26" using ledger_prepare_jobs [OF x(1)] by simp
  then show ?thesis
    by (simp add: flat_local_run_def run_local_benchmark_def x d review_benchmark_policy_def flat_surroundings_def
        benchmark_key_derivation_def benchmark_fixed_digest_signing_def flat_signing)
qed

theorem device_signs_only_approved_witness:
  "snd flat_local_run = [Reviewed True, Derived, GraphBuilt] @ Signed FIXED_SIGNING_DIGEST
      # (replicate 25 (Signed FIXED_SIGNING_DIGEST) @ [Completed 26 None])
   \<and> approved_at [Reviewed True, Derived, GraphBuilt]"
proof -
  have "snd flat_local_run = [Reviewed True, Derived, GraphBuilt] @ Signed FIXED_SIGNING_DIGEST
      # (replicate 25 (Signed FIXED_SIGNING_DIGEST) @ [Completed 26 None])"
    unfolding flat_local_run_log by (simp add: numeral_eq_Suc)
  then show ?thesis using device_signs_only_approved [OF flat_local_run_reached] by blast
qed

theorem signatures_bounded_by_approvals_witness:
  "length (filter is_signature (snd flat_local_run)) = 26
   \<and> length (filter is_signature (snd flat_local_run)) \<le> 26 * count_list (snd flat_local_run) (Reviewed True)"
  using signatures_bounded_by_approvals [OF flat_local_run_reached]
  by (simp add: flat_local_run_log is_signature_def)

text \<open>
  C10. The graph phase of the device never fails: for any context \<^verbatim>\<open>prepare\<close> returns, whatever keys the
  device derived, no buffer overflows, no value goes below zero, the count is the one announced, and
  the answer is the digest of the last signature job.
\<close>

theorem graph_phase_total:
  assumes "bolos_ok D" and "ledger_prepare D n log = Inr x"
  shows "\<exists>jobs j. (for_each_signature_job (lg_sha D) (bx_config x) (\<lambda>js j. Inr (js @ [j])) []
        = (Inr (bx_summary x, jobs @ [j]) :: unit visit_error + _))
    \<and> length (jobs @ [j]) = ws_signature_jobs (bx_summary x) \<and> benchmark_graph D x = Inr (sj_sighash j)"
proof -
  let ?H = "lg_sha D"
  let ?jobs = "graph_jobs ?H (config_context (bx_config x)) 0 0 (year_graph ?H (bx_config x))"
  have dig: "digest_ok ?H" using assms(1) by (simp add: bolos_ok_def)
  note c = ledger_prepare_config [OF assms] and summary = ledger_prepare_summary [OF assms(2)]
  have len: "length ?jobs = ws_signature_jobs (bx_summary x)" "?jobs \<noteq> []"
    using graph_jobs_length [OF c, of ?H] summary ledger_prepare_jobs [OF assms(2)] by auto
  then have "butlast ?jobs @ [last ?jobs] = ?jobs" by simp
  moreover have "for_each_signature_job ?H (bx_config x) (\<lambda>js j. Inr (js @ [j])) []
      = (Inr (bx_summary x, ?jobs) :: unit visit_error + _)"
    by (simp add: for_each_signature_job_graph [OF dig c] try_fold_collect summary(1))
  ultimately show ?thesis using benchmark_graph_total [OF assms] len(1)
    by (intro exI [of _ "butlast ?jobs"] exI [of _ "last ?jobs"]) simp
qed

theorem graph_phase_total_witness:
  "\<exists>x d. ledger_prepare flat_bolos 12 [] = Inr x \<and> benchmark_graph flat_bolos x = Inr d"
proof -
  obtain x where x: "ledger_prepare flat_bolos 12 [] = Inr x" using flat_prepare [of 12 "[]"] by auto
  show ?thesis using graph_phase_total [OF flat_bolos_ok x] x by blast
qed

section \<open>A cooperating host\<close>

definition ok_reply :: "ledger_event \<Rightarrow> bool" where
  "ok_reply e = (case e of Replied _ s \<Rightarrow> s = StatusOk | _ \<Rightarrow> False)"

definition is_review :: "ledger_event \<Rightarrow> bool" where
  "is_review e = (case e of Reviewed _ \<Rightarrow> True | _ \<Rightarrow> False)"

definition phases_done :: "ledger_event list \<Rightarrow> nat" where
  \<comment> \<open>the answers since the last review\<close>
  "phases_done log = length (filter ok_reply (takeWhile (\<lambda>e. \<not> is_review e) (rev log)))"

definition request :: "nat \<Rightarrow> nat \<Rightarrow> bytes \<Rightarrow> apdu_command" where
  "request ins p1 data = \<lparr>ac_header = \<lparr>ah_cla = BENCHMARK_CLA, ah_ins = ins, ah_p1 = p1, ah_p2 = 0\<rparr>, ac_data = data\<rparr>"

definition phase_request :: "bytes \<Rightarrow> nat \<Rightarrow> apdu_command" where
  "phase_request timings k = (if k \<le> 1 then request KEY_DERIVATION_INS 0 [] else if k = 2 then request GRAPH_INS 0 []
     else if k = 3 then request SIGNING_INS 0 [] else request COMPLETE_INS 0 timings)"

definition helpful_host :: "bytes \<Rightarrow> surroundings" where
  \<comment> \<open>asks for the phases in their order, and the user approves\<close>
  "helpful_host timings = \<lparr>sr_next_command = (\<lambda>log. Some (phase_request timings (phases_done log))),
     sr_approve = (\<lambda>_. True), sr_delivered = (\<lambda>_. True)\<rparr>"

definition device_works :: "'k bolos \<Rightarrow> bool" where
  \<comment> \<open>every primitive succeeds, and the derived key does not change\<close>
  "device_works D \<longleftrightarrow> bolos_ok D
     \<and> (\<exists>pk pk'. (\<forall>log. lg_public_key D log (lg_derive D BENCHMARK_PATH) = Some pk) \<and> normalize_bip340_public_key pk = Inr pk')
     \<and> (\<forall>s. fst (lg_scalar_mult D SECP256K1_GENERATOR s) = CX_OK)
     \<and> (\<forall>q. fst (lg_add_point D BIP341_NUMS_POINT q) = CX_OK \<and> snd (lg_add_point D BIP341_NUMS_POINT q) ! 0 = 4)
     \<and> (\<forall>log k m. fst (lg_schnorr_sign D log k m) = CX_OK \<and> snd (snd (lg_schnorr_sign D log k m)) = 64)"

lemma normalize_prefix: "normalize_bip340_public_key pk = Inr pk' \<Longrightarrow> length pk = 65 \<Longrightarrow> pk' ! 0 = 4"
  using normalize_cases [of pk pk'] nth_take [of 0 33 pk] nth_take [of 0 33 pk'] by simp

lemma works_derive:
  assumes "device_works D"
  shows "\<exists>pk. pk ! 0 = 4 \<and> (\<forall>log. derive_benchmark_key D log = Inr (lg_derive D BENCHMARK_PATH, pk))"
proof -
  obtain pk pk' where k: "\<And>log. lg_public_key D log (lg_derive D BENCHMARK_PATH) = Some pk"
      and n: "normalize_bip340_public_key pk = Inr pk'"
    using assms by (auto simp: device_works_def)
  have "length pk = 65" using assms k by (metis bolos_ok_def device_works_def)
  then have "pk' ! 0 = 4" using normalize_prefix [OF n] by simp
  moreover have "derive_benchmark_key D log = Inr (lg_derive D BENCHMARK_PATH, pk')" for log
    by (simp add: derive_benchmark_key_def k n graph_result_def)
  ultimately show ?thesis by blast
qed

lemma works_taproot: "device_works D \<Longrightarrow> \<exists>k. taproot_output_key D tweak = Inr k"
  by (auto simp: device_works_def taproot_output_key_def cx_ok_def xonly_of_def case_prod_beta Let_def)

lemma works_prepare:
  assumes "device_works D" and "1 \<le> n" and "n \<le> 12"
  shows "\<exists>x key. ledger_prepare D n log = Inr x \<and> xonly_of (bx_hww_public_key x) = Inr key
    \<and> (\<forall>log. benchmark_key_derivation D x log = Inr key)"
proof -
  obtain pk where pk: "pk ! 0 = 4" "\<And>log. derive_benchmark_key D log = Inr (lg_derive D BENCHMARK_PATH, pk)"
    using works_derive [OF assms(1)] by blast
  then obtain key where key: "xonly_of pk = Inr key" by (simp add: xonly_of_def)
  let ?policy = "policy_commitment_new (lg_sha D) FIXED_PHONE_XONLY_PUBLIC_KEY key"
  let ?controller = "controller_commitment_new (lg_sha D) FIXED_PHONE_XONLY_PUBLIC_KEY key"
  obtain vk where vk: "taproot_output_key D (pc_output_key_tweak ?policy) = Inr vk"
    using works_taproot [OF assms(1)] by blast
  obtain ck where ck: "taproot_output_key D (cc_output_key_tweak ?controller) = Inr ck"
    using works_taproot [OF assms(1)] by blast
  obtain c where "deterministic (lg_sha D) n vk ck (pc_cooperative_leaf_hash ?policy) = Inr c"
    using deterministic_total [OF assms(2,3)] by blast
  then show ?thesis
    by (simp add: ledger_prepare_def pk key vk ck Let_def graph_result_def benchmark_key_derivation_def)
qed

lemma works_signing:
  assumes "device_works D"
  shows "\<exists>sig'. sign_digests D x n sig log = (Inr sig', log @ replicate n (Signed FIXED_SIGNING_DIGEST))"
proof (induction n arbitrary: sig log)
  case 0
  then show ?case by simp
next
  case (Suc n)
  have "schnorr_sign_raw D log (bx_hww_private_key x) FIXED_SIGNING_DIGEST
      = Inr (fst (snd (lg_schnorr_sign D log (bx_hww_private_key x) FIXED_SIGNING_DIGEST)))"
    using assms by (simp add: device_works_def schnorr_sign_raw_def cx_ok_def case_prod_beta Let_def)
  then show ?case
    using Suc.IH [of _ "log @ [Signed FIXED_SIGNING_DIGEST]"] by (simp add: replicate_append_same)
qed

lemma phases_done_append [simp]:
  "phases_done (log @ [Replied r s]) = (if s = StatusOk then Suc (phases_done log) else phases_done log)"
  "phases_done (log @ [Derived]) = phases_done log" "phases_done (log @ [GraphBuilt]) = phases_done log"
  "phases_done (log @ [Reviewed b]) = 0" "phases_done (log @ replicate k (Signed d)) = phases_done log"
proof -
  have "filter ok_reply (takeWhile (\<lambda>e. \<not> is_review e) (replicate k (Signed d) @ es))
      = filter ok_reply (takeWhile (\<lambda>e. \<not> is_review e) es)" for es
    by (induction k) (simp_all add: ok_reply_def is_review_def)
  then show "phases_done (log @ replicate k (Signed d)) = phases_done log" by (simp add: phases_done_def)
qed (simp_all add: phases_done_def ok_reply_def is_review_def)

lemma request_decode:
  "decode_instruction (ac_header (request KEY_DERIVATION_INS 0 d)) = Inr KeyDerivation"
  "decode_instruction (ac_header (request GRAPH_INS 0 d)) = Inr Graph"
  "decode_instruction (ac_header (request SIGNING_INS 0 d)) = Inr Signing"
  "decode_instruction (ac_header (request COMPLETE_INS 0 d)) = Inr Complete"
  "n \<in> {1, 2, 12} \<Longrightarrow> decode_instruction (ac_header (request PREPARE_INS n d)) = Inr (Prepare n)"
  by (auto simp: request_def decode_instruction_def instruction_codes)

lemma helpful_phase:
  assumes "phases_done log = k" and "1 \<le> k" and "k \<le> 3" and "expected = [KeyDerivation, Graph, Signing] ! (k - 1)"
    and "work log = (Inr trailing, log')"
  shows "ledger_phase (helpful_host timings) expected summary work continue log
    = continue (log' @ [Replied (workload_response summary trailing) StatusOk])"
proof -
  have "k = 1 \<or> k = 2 \<or> k = 3" using assms(2,3) by linarith
  then show ?thesis
    using assms(1,4,5) by (auto simp: ledger_phase_def next_expected_command_def helpful_host_def phase_request_def
        request_decode reply_def request_def [THEN arg_cong, of ac_data])
qed

text \<open>
  C11. A session completes. With a device whose primitives succeed, a user who approves and a host that
  asks for the phases in order, the handler of a well-formed \<^verbatim>\<open>Prepare\<close> returns after exactly this
  history: one review, the four answers each carrying the summary, the key derivation and the graph,
  the announced number of signatures, and the final screen with that number and the saturated total of
  the host's timings. The key it answers twice is the same.
\<close>

theorem session_completes:
  assumes "device_works D" and "n \<in> {1, 2, 12}" and "length timings = 12"
  shows "\<exists>summary key sighash sig.
    summary = \<lparr>ws_rollover_inputs = n, ws_transactions = 15, ws_signature_jobs = n + 14\<rparr>
    \<and> handle_host_command D (helpful_host timings) (request PREPARE_INS n []) log
      = (Returned, log
          @ [Reviewed True, Replied (workload_response summary key) StatusOk,
             Derived, Replied (workload_response summary key) StatusOk,
             GraphBuilt, Replied (workload_response summary sighash) StatusOk]
          @ replicate (n + 14) (Signed FIXED_SIGNING_DIGEST)
          @ [Replied (workload_response summary sig) StatusOk, Replied [3] StatusOk,
             Completed (n + 14) (Some (total_ms timings))])"
proof -
  have n: "1 \<le> n" "n \<le> 12" using assms(2) by auto
  obtain x key where x: "ledger_prepare D n log = Inr x" and key: "xonly_of (bx_hww_public_key x) = Inr key"
      and derive: "\<And>log. benchmark_key_derivation D x log = Inr key"
    using works_prepare [OF assms(1) n] by blast
  have "bolos_ok D" using assms(1) by (simp add: device_works_def)
  then obtain sighash where graph: "benchmark_graph D x = Inr sighash" using benchmark_graph_total x by blast
  let ?s = "bx_summary x"
  have jobs: "ws_signature_jobs ?s = n + 14" using ledger_prepare_jobs [OF x] .
  have s: "?s = \<lparr>ws_rollover_inputs = n, ws_transactions = 15, ws_signature_jobs = n + 14\<rparr>"
    using ledger_prepare_summary(1,2) [OF x] n by (simp add: signer_summary_def TRANSACTION_COUNT_def)
  let ?r = "\<lambda>v. Replied (workload_response ?s v) StatusOk"
  let ?l1 = "(log @ [Reviewed True]) @ [?r key]"
  let ?l2 = "(?l1 @ [Derived]) @ [?r key]"
  let ?l3 = "(?l2 @ [GraphBuilt]) @ [?r sighash]"
  obtain sig' where sign: "sign_digests D x (n + 14) (replicate 64 0) ?l3
      = (Inr sig', ?l3 @ replicate (n + 14) (Signed FIXED_SIGNING_DIGEST))"
    using works_signing [OF assms(1)] by blast
  let ?l4 = "(?l3 @ replicate (n + 14) (Signed FIXED_SIGNING_DIGEST)) @ [?r (take 32 sig')]"
  have p: "phases_done ?l1 = 1" "phases_done ?l2 = 2" "phases_done ?l3 = 3" "phases_done ?l4 = 4"
    by (simp_all only: phases_done_append if_True) simp_all
  let ?H = "helpful_host timings"
  have "run_session D ?H x ?l1 = ledger_complete ?H ?s ?l4"
  proof -
    let ?c3 = "ledger_complete ?H ?s"
    let ?c2 = "ledger_phase ?H Signing ?s (benchmark_fixed_digest_signing D x) ?c3"
    let ?c1 = "ledger_phase ?H Graph ?s (\<lambda>log. (benchmark_graph D x, log @ [GraphBuilt])) ?c2"
    have "run_session D ?H x ?l1 = ?c1 ?l2"
      unfolding run_session_def Let_def by (rule helpful_phase [OF p(1)]) (simp_all add: derive)
    also have "\<dots> = ?c2 ?l3" by (rule helpful_phase [OF p(2)]) (simp_all add: graph)
    also have "\<dots> = ?c3 ?l4"
      by (rule helpful_phase [OF p(3)]) (simp_all only: benchmark_fixed_digest_signing_def jobs sign case_prod_conv map_sum.simps, simp_all)
    finally show ?thesis .
  qed
  moreover have "ledger_complete ?H ?s ?l4 = (Returned, ?l4 @ [Replied [3] StatusOk, Completed (n + 14) (Some (total_ms timings))])"
    using p(4) assms(3) by (simp add: ledger_complete_def next_expected_command_def helpful_host_def phase_request_def
        request_decode reply_def jobs BENCHMARK_VERSION_def request_def [THEN arg_cong, of ac_data] del: append_assoc)
  moreover have "handle_host_command D ?H (request PREPARE_INS n []) log = run_session D ?H x ?l1"
    using request_decode(5) [OF assms(2)] x key
    by (simp add: handle_host_command_def review_benchmark_policy_def helpful_host_def reply_def
        request_def [THEN arg_cong, of ac_data])
  ultimately show ?thesis using s by (intro exI [of _ ?s] exI [of _ key] exI [of _ sighash] exI [of _ "take 32 sig'"]) simp
qed

theorem session_completes_witness:
  "device_works flat_bolos \<and> (\<exists>ls. handle_host_command flat_bolos (helpful_host (replicate 12 0)) (request PREPARE_INS 2 []) []
      = (Returned, ls @ [Completed 16 (Some (total_ms (replicate 12 0)))]))"
proof -
  have works: "device_works flat_bolos"
    unfolding device_works_def
    using flat_normalize flat_bolos_ok by (auto simp: flat_bolos_def) (simp_all add: flat_point_def)
  have "(2 :: nat) \<in> {1, 2, 12}" "length (replicate 12 (0 :: 8 word)) = 12" by simp_all
  from session_completes [OF works this, of "[]"] obtain ls where
    "handle_host_command flat_bolos (helpful_host (replicate 12 0)) (request PREPARE_INS 2 []) []
      = (Returned, ls @ [Completed (2 + 14) (Some (total_ms (replicate 12 0)))])"
    by (elim exE conjE) (metis (no_types) append_assoc append_Cons append_Nil)
  then show ?thesis using works by auto
qed

end
