(* ===== verification/Core_Types.thy ===== *)
theory Core_Types
  imports Bitcoin_Lib
begin

text \<open>
  The protocol constants of \<^verbatim>\<open>src/core/mod.rs\<close> and the plain data of
  \<^verbatim>\<open>src/core/types.rs\<close>, with the bounds their comments state.
\<close>

definition PHONE_RECOVERY_BLOCKS :: nat where "PHONE_RECOVERY_BLOCKS = 61200"
definition HWW_RECOVERY_BLOCKS :: nat where "HWW_RECOVERY_BLOCKS = 65535"
definition MONTHS_PER_ROLLOVER :: nat where "MONTHS_PER_ROLLOVER = 12"
definition DEFAULT_MONTHLY_LIMIT_SATS :: nat where "DEFAULT_MONTHLY_LIMIT_SATS = 10000000"
definition DEFAULT_FEE_RATE_SAT_VB :: nat where "DEFAULT_FEE_RATE_SAT_VB = 1"
definition CONNECTOR_VALUE_SATS :: nat where "CONNECTOR_VALUE_SATS = 1000"
definition MONTHLY_ALLOWANCE_DELAY_SECONDS :: nat where
  "MONTHLY_ALLOWANCE_DELAY_SECONDS = 5063 * 512"
definition EMERGENCY_ACCESS_DELAY_SECONDS :: nat where
  "EMERGENCY_ACCESS_DELAY_SECONDS = 1182 * 512"

record vault_utxo =
  utxo_outpoint :: outpoint
  utxo_txout :: txout
  confirmation_height :: nat

abbreviation utxo_value :: "vault_utxo \<Rightarrow> nat" where
  "utxo_value u \<equiv> txo_value (utxo_txout u)"

abbreviation utxo_script :: "vault_utxo \<Rightarrow> script" where
  "utxo_script u \<equiv> script_pubkey (utxo_txout u)"

lemmas constants_simps =
  PHONE_RECOVERY_BLOCKS_def HWW_RECOVERY_BLOCKS_def MONTHS_PER_ROLLOVER_def
  DEFAULT_FEE_RATE_SAT_VB_def CONNECTOR_VALUE_SATS_def
  MONTHLY_ALLOWANCE_DELAY_SECONDS_def EMERGENCY_ACCESS_DELAY_SECONDS_def

lemma fee_rate_one [simp]: "n * DEFAULT_FEE_RATE_SAT_VB = n"
  by (simp add: DEFAULT_FEE_RATE_SAT_VB_def)

text \<open>The comments on the two delays: the least multiple of 512 seconds that covers the period.\<close>

lemma least_512_multiple:
  assumes "(512::nat) dvd d" and "m \<le> d" and "d < m + 512"
  shows "d = (LEAST s. 512 dvd s \<and> m \<le> s)"
proof -
  have "(LEAST s. 512 dvd s \<and> m \<le> s) = d"
  proof (rule Least_equality)
    show "512 dvd d \<and> m \<le> d" using assms by simp
    fix y assume y: "512 dvd y \<and> m \<le> y"
    obtain i j where "d = 512 * i" and "y = 512 * j"
      using assms(1) y by (auto elim!: dvdE)
    with assms y show "d \<le> y" by simp
  qed
  then show ?thesis by simp
qed

end
