(* ===== verification/World.thy ===== *)
theory World
  imports Core_Types
begin

text \<open>
  The outside world of the program: a file system, the addresses the hot wallet hands out, the
  results of I/O, and the transactions a chain backend accepted. A computation with effects is a
  function from a world to a result and the world it leaves; \<open>bindM\<close> is \<^verbatim>\<open>?\<close> for
  such computations, so an error keeps every effect performed before it.

  Paths are Rust's path components. Files have contents of a type \<open>'b\<close>, a parameter of the
  development, because encoding is done by libraries; \<^verbatim>\<open>..\<close> is resolved lexically, and
  symbolic links and permissions are not represented. Every operation that changes the file
  system consumes one entry of \<open>faults\<close>, which decides whether it succeeds, fails without
  having changed the target, or fails after it did (a failed directory sync).
\<close>

section \<open>Paths\<close>

datatype path_component = RootDir | CurDir | ParentDir | Normal string

type_synonym path = "path_component list"

fun split_slash :: "string \<Rightarrow> string list" where
  "split_slash [] = [[]]"
| "split_slash (c # cs) =
     (if c = CHR ''/'' then [] # split_slash cs
      else case split_slash cs of [] \<Rightarrow> [[c]] | w # ws \<Rightarrow> (c # w) # ws)"

definition part_component :: "string \<Rightarrow> path_component" where
  "part_component w = (if w = ''.'' then CurDir else if w = ''..'' then ParentDir else Normal w)"

definition components :: "string \<Rightarrow> path" where
  \<comment> \<open>\<^verbatim>\<open>Path::new(s).components()\<close>: empty parts vanish, \<^verbatim>\<open>.\<close> only counts at the start\<close>
  "components s =
     (let parts = map part_component (filter (\<lambda>w. w \<noteq> []) (split_slash s))
      in if s \<noteq> [] \<and> hd s = CHR ''/'' then RootDir # filter (\<lambda>c. c \<noteq> CurDir) parts
         else case parts of [] \<Rightarrow> [] | c # cs \<Rightarrow> c # filter (\<lambda>c. c \<noteq> CurDir) cs)"

definition is_absolute :: "path \<Rightarrow> bool" where
  "is_absolute p = (p \<noteq> [] \<and> hd p = RootDir)"

definition join :: "path \<Rightarrow> path \<Rightarrow> path" where
  \<comment> \<open>\<^verbatim>\<open>Path::join\<close>: an absolute argument replaces the base\<close>
  "join base rel =
     (if is_absolute rel then rel else if base = [] then rel else base @ filter (\<lambda>c. c \<noteq> CurDir) rel)"

definition join_str :: "path \<Rightarrow> string \<Rightarrow> path" where
  "join_str base s = join base (components s)"

definition resolve_step :: "path \<Rightarrow> path_component \<Rightarrow> path" where
  "resolve_step done c = (case c of
       RootDir \<Rightarrow> [RootDir] | CurDir \<Rightarrow> done | Normal n \<Rightarrow> done @ [Normal n]
     | ParentDir \<Rightarrow> (if done = [] \<or> last done = ParentDir then done @ [ParentDir]
                    else if last done = RootDir then done else butlast done))"

definition resolve :: "path \<Rightarrow> path" where
  "resolve p = foldl resolve_step [] p"

definition is_normal :: "path_component \<Rightarrow> bool" where
  "is_normal c = (case c of Normal _ \<Rightarrow> True | _ \<Rightarrow> False)"

section \<open>State\<close>

datatype fault = Succeeds | FailsBefore | FailsAfter

record 'b world =
  files :: "(path \<times> 'b) list"
  dirs :: "path list"
  faults :: "fault list"
  hot_supply :: "address result list"
  change_supply :: "address result list"
  sync_discovered :: bool
  accepted :: "transaction list"

type_synonym ('b, 'a) io = "'b world \<Rightarrow> 'a result \<times> 'b world"

definition returnM :: "'a \<Rightarrow> ('b, 'a) io" where
  "returnM x = (\<lambda>w. (Inr x, w))"

definition failM :: "error \<Rightarrow> ('b, 'a) io" where
  "failM e = (\<lambda>w. (Inl e, w))"

definition liftM :: "'a result \<Rightarrow> ('b, 'a) io" where
  "liftM r = (\<lambda>w. (r, w))"

definition readM :: "('b world \<Rightarrow> 'a result) \<Rightarrow> ('b, 'a) io" where
  "readM f = (\<lambda>w. (f w, w))"

definition bindM :: "('b, 'a) io \<Rightarrow> ('a \<Rightarrow> ('b, 'c) io) \<Rightarrow> ('b, 'c) io" where
  "bindM m f = (\<lambda>w. case m w of (Inl e, w') \<Rightarrow> (Inl e, w') | (Inr x, w') \<Rightarrow> f x w')"

definition contextM :: "error \<Rightarrow> ('b, 'a) io \<Rightarrow> ('b, 'a) io" where
  "contextM e m = (\<lambda>w. case m w of (r, w') \<Rightarrow> (map_err r e, w'))"

fun forM :: "'a list \<Rightarrow> ('a \<Rightarrow> ('b, unit) io) \<Rightarrow> ('b, unit) io" where
  "forM [] f = returnM ()"
| "forM (x # xs) f = bindM (f x) (\<lambda>_. forM xs f)"

section \<open>Operations\<close>

definition file_at :: "'b world \<Rightarrow> path \<Rightarrow> 'b option" where
  "file_at w p = map_of (files w) (resolve p)"

definition path_exists :: "'b world \<Rightarrow> path \<Rightarrow> bool" where
  "path_exists w p = (file_at w p \<noteq> None \<or> resolve p \<in> set (dirs w))"

definition is_under :: "path \<Rightarrow> path \<Rightarrow> bool" where
  "is_under p q = (length (resolve p) < length q \<and> take (length (resolve p)) q = resolve p)"

definition dir_nonempty :: "'b world \<Rightarrow> path \<Rightarrow> bool" where
  \<comment> \<open>\<^verbatim>\<open>path.read_dir()?.next().is_some()\<close>\<close>
  "dir_nonempty w p = (\<exists>q \<in> set (map fst (files w)) \<union> set (dirs w). is_under p q)"

definition read_file :: "path \<Rightarrow> 'b world \<Rightarrow> 'b result" where
  "read_file p w = ok_or (file_at w p) (Sto ReadFailed)"

definition next_fault :: "'b world \<Rightarrow> fault \<times> 'b world" where
  "next_fault w = (case faults w of [] \<Rightarrow> (Succeeds, w) | f # fs \<Rightarrow> (f, w\<lparr>faults := fs\<rparr>))"

definition faulty :: "error \<Rightarrow> ('b world \<Rightarrow> 'b world) \<Rightarrow> ('b, unit) io" where
  "faulty e change w = (case next_fault w of
       (Succeeds, w') \<Rightarrow> (Inr (), change w')
     | (FailsBefore, w') \<Rightarrow> (Inl e, w')
     | (FailsAfter, w') \<Rightarrow> (Inl e, change w'))"

definition ancestors :: "path \<Rightarrow> path list" where
  "ancestors p = map (\<lambda>n. take n p) [1..<Suc (length p)]"

definition create_dir_all :: "path \<Rightarrow> ('b, unit) io" where
  "create_dir_all p w =
     (if \<exists>q \<in> set (ancestors (resolve p)). map_of (files w) q \<noteq> None
      then (Inl (Sto CreateDirFailed), w)
      else faulty (Sto CreateDirFailed)
             (\<lambda>w. w\<lparr>dirs := List.union (dirs w) (ancestors (resolve p))\<rparr>) w)"

definition put_file :: "path \<Rightarrow> 'b \<Rightarrow> ('b, unit) io" where
  \<comment> \<open>a temporary file renamed over the target, which fails on a directory\<close>
  "put_file p b w =
     (if resolve p \<in> set (dirs w) then (Inl (Sto WriteFailed), w)
      else faulty (Sto WriteFailed) (\<lambda>w. w\<lparr>files := AList.update (resolve p) b (files w)\<rparr>) w)"

definition remove_file :: "path \<Rightarrow> ('b, unit) io" where
  "remove_file p w =
     (if file_at w p = None then (Inl (Sto RemoveFailed), w)
      else faulty (Sto RemoveFailed) (\<lambda>w. w\<lparr>files := AList.delete (resolve p) (files w)\<rparr>) w)"

definition remove_dir_all :: "path \<Rightarrow> ('b, unit) io" where
  "remove_dir_all p w =
     (if resolve p \<notin> set (dirs w) then (Inl (Sto RemoveFailed), w)
      else faulty (Sto RemoveFailed) (\<lambda>w. w
        \<lparr>files := filter (\<lambda>(q, _). \<not> is_under p q) (files w),
         dirs := filter (\<lambda>q. q \<noteq> resolve p \<and> \<not> is_under p q) (dirs w)\<rparr>) w)"

definition rename_key :: "path \<Rightarrow> path \<Rightarrow> path \<Rightarrow> path" where
  "rename_key p q k =
     (if k = resolve p \<or> is_under p k then resolve q @ drop (length (resolve p)) k else k)"

definition rename :: "path \<Rightarrow> path \<Rightarrow> ('b, unit) io" where
  "rename p q w =
     (if \<not> path_exists w p then (Inl (Sto RenameFailed), w)
      else faulty (Sto RenameFailed) (\<lambda>w. w
        \<lparr>files := map (\<lambda>(k, b). (rename_key p q k, b)) (filter (\<lambda>(k, _). k \<noteq> resolve q) (files w)),
         dirs := map (rename_key p q) (dirs w)\<rparr>) w)"

definition next_receive_address :: "('b, address) io" where
  "next_receive_address w = (case hot_supply w of
       [] \<Rightarrow> (Inl (Ext WalletError), w)
     | r # rs \<Rightarrow> (r, w\<lparr>hot_supply := rs\<rparr>))"

definition next_change_address :: "('b, address) io" where
  "next_change_address w = (case change_supply w of
       [] \<Rightarrow> (Inl (Ext WalletError), w)
     | r # rs \<Rightarrow> (r, w\<lparr>change_supply := rs\<rparr>))"

section \<open>Inversion of effectful computations\<close>

named_theorems io_simps \<open>running and inverting effectful computations\<close>

lemma bindM_Inr_iff [simp, io_simps]:
  "bindM m f w = (Inr y, w') \<longleftrightarrow> (\<exists>x w1. m w = (Inr x, w1) \<and> f x w1 = (Inr y, w'))"
  by (auto simp: bindM_def split: prod.splits sum.splits)

lemma bindM_Inl_iff:
  "bindM m f w = (Inl e, w') \<longleftrightarrow>
     m w = (Inl e, w') \<or> (\<exists>x w1. m w = (Inr x, w1) \<and> f x w1 = (Inl e, w'))"
  by (auto simp: bindM_def split: prod.splits sum.splits)

lemma run_simps [simp, io_simps]:
  "returnM x w = (Inr x, w)"
  "failM e w = (Inl e, w)"
  "liftM r w = (r, w)"
  "readM f w = (f w, w)"
  by (simp_all add: returnM_def failM_def liftM_def readM_def)

lemma bindM_simps [simp]:
  "bindM (returnM x) f = f x"
  "bindM (failM e) f = failM e"
  "bindM (liftM (Inr x)) f = f x"
  "bindM (liftM (Inl e)) f = failM e"
  by (simp_all add: bindM_def returnM_def failM_def liftM_def fun_eq_iff)

lemma bindM_step:
  "m w = (Inr x, w1) \<Longrightarrow> bindM m f w = f x w1"
  "m w = (Inl e, w1) \<Longrightarrow> bindM m f w = (Inl e, w1)"
  by (simp_all add: bindM_def)

lemma if_failM_eq [simp, io_simps]:
  "(if c then failM e else m) w = (Inr y, w') \<longleftrightarrow> \<not> c \<and> m w = (Inr y, w')"
  by simp

lemma if_failM_E:
  assumes "(if c then failM e else m) w = (Inr y, w')"
  obtains "\<not> c" and "m w = (Inr y, w')"
  using assms by simp

lemma bindM_liftE:
  assumes "bindM (liftM r) f w = (Inr y, w')"
  obtains x where "r = Inr x" and "f x w = (Inr y, w')"
  using assms by auto

lemma bindM_readE:
  assumes "bindM (readM g) f w = (Inr y, w')"
  obtains x where "g w = Inr x" and "f x w = (Inr y, w')"
  using assms by auto

lemma bindM_E:
  assumes "bindM m f w = (Inr y, w')"
  obtains x w1 where "m w = (Inr x, w1)" and "f x w1 = (Inr y, w')"
  using assms by auto

lemma case_prod_runE:
  assumes "(case p of (x, z) \<Rightarrow> f x z) w = r"
  obtains x z where "p = (x, z)" and "f x z w = r"
  using assms by (cases p) simp

lemma contextM_Inr_iff [simp, io_simps]: "contextM e m w = (Inr x, w') \<longleftrightarrow> m w = (Inr x, w')"
  by (auto simp: contextM_def split: prod.splits)

lemma contextM_snd [simp]: "snd (contextM e m w) = snd (m w)"
  by (simp add: contextM_def split: prod.splits)

lemma snd_bindM:
  "snd (bindM m f w) =
     (case fst (m w) of Inl e \<Rightarrow> snd (m w) | Inr x \<Rightarrow> snd (f x (snd (m w))))"
  by (simp add: bindM_def split: prod.splits sum.splits)

section \<open>Frames\<close>

text \<open>
  \<open>touches K w w'\<close> says that \<open>w'\<close> differs from \<open>w\<close> at most in the files whose resolved
  path is in \<open>K\<close>, in directories, in the consumed I/O outcomes and in the supply of addresses;
  in particular no transaction was handed to the network.
\<close>

definition touches :: "path set \<Rightarrow> 'b world \<Rightarrow> 'b world \<Rightarrow> bool" where
  "touches K w w' \<longleftrightarrow> accepted w' = accepted w
     \<and> (\<forall>k. k \<notin> K \<longrightarrow> map_of (files w') k = map_of (files w) k)"

lemma touches_refl [simp]: "touches K w w"
  by (simp add: touches_def)

lemma touches_trans [trans]: "touches K w w1 \<Longrightarrow> touches K w1 w2 \<Longrightarrow> touches K w w2"
  by (simp add: touches_def)

lemma touches_mono: "touches K w w' \<Longrightarrow> K \<subseteq> K' \<Longrightarrow> touches K' w w'"
  by (auto simp: touches_def)

lemma touches_file_at: "touches K w w' \<Longrightarrow> resolve p \<notin> K \<Longrightarrow> file_at w' p = file_at w p"
  by (simp add: touches_def file_at_def)

text \<open>
  \<open>effect_frame\<close> is what every statement of the form ``a run relates the world before to the world
  after by \<open>R\<close>'' needs: a preorder passes through \<open>bindM\<close>, \<open>forM\<close> and the trivial computations,
  failures included.
\<close>

locale effect_frame =
  fixes R :: "'b world \<Rightarrow> 'b world \<Rightarrow> bool"
  assumes frame_refl: "R w w" and frame_trans: "R w w1 \<Longrightarrow> R w1 w2 \<Longrightarrow> R w w2"
begin

lemma frame_bindM:
  assumes "R w (snd (m w))" and "\<And>x w1. m w = (Inr x, w1) \<Longrightarrow> R w1 (snd (f x w1))"
  shows "R w (snd (bindM m f w))"
proof (cases "m w")
  case (Pair r w1)
  then show ?thesis using assms by (cases r) (auto simp: bindM_def intro: frame_trans)
qed

lemma frame_pure: "R w (snd (returnM x w))" "R w (snd (failM e w))" "R w (snd (liftM r w))" "R w (snd (readM g w))"
  by (simp_all add: frame_refl)

lemma frame_contextM: "R w (snd (m w)) \<Longrightarrow> R w (snd (contextM e m w))"
  by simp

lemma frame_forM: "(\<And>x w. x \<in> set xs \<Longrightarrow> R w (snd (f x w))) \<Longrightarrow> R w (snd (forM xs f w))"
  by (induction xs arbitrary: w) (auto intro: frame_bindM frame_refl)

end

interpretation touches_frame: effect_frame "touches K" for K
  by unfold_locales (auto intro: touches_trans)

lemmas touches_bindM = touches_frame.frame_bindM
lemmas touches_forM = touches_frame.frame_forM

lemma next_fault_frame:
  "next_fault w = (f, w') \<Longrightarrow> files w' = files w \<and> dirs w' = dirs w \<and> accepted w' = accepted w
    \<and> hot_supply w' = hot_supply w"
  by (auto simp: next_fault_def split: list.splits)

lemma faulty_cases:
  "faulty e change w = (r, w') \<Longrightarrow>
    (\<exists>f w1. next_fault w = (f, w1) \<and> (r = Inr () \<and> w' = change w1 \<or> r = Inl e \<and> (w' = w1 \<or> w' = change w1)))"
  by (auto simp: faulty_def split: prod.splits fault.splits)

lemma touches_faulty:
  assumes "\<And>w1. touches K w1 (change w1)"
  shows "touches K w (snd (faulty e change w))"
proof -
  obtain f w1 where n: "next_fault w = (f, w1)" by (cases "next_fault w")
  have "touches K w w1" using next_fault_frame [OF n] by (simp add: touches_def)
  then show ?thesis
    using assms [of w1] n by (cases f) (auto simp: faulty_def intro: touches_trans)
qed

lemma touches_create_dir_all [simp]: "touches K w (snd (create_dir_all p w))"
  by (auto simp: create_dir_all_def touches_def intro!: touches_faulty [unfolded touches_def])

lemma touches_put_file: "resolve p \<in> K \<Longrightarrow> touches K w (snd (put_file p b w))"
  by (auto simp: put_file_def intro!: touches_faulty) (auto simp: touches_def update_conv)

lemma touches_next_receive_address [simp]: "touches K w (snd (next_receive_address w))"
  by (auto simp: next_receive_address_def touches_def split: list.splits)

lemma create_dir_all_files:
  "create_dir_all p w = (r, w') \<Longrightarrow> files w' = files w \<and> accepted w' = accepted w \<and> hot_supply w' = hot_supply w"
  by (auto simp: create_dir_all_def dest!: faulty_cases next_fault_frame split: if_splits)

lemma put_file_Inr:
  assumes "put_file p b w = (Inr (), w')"
  shows "file_at w' q = (if resolve q = resolve p then Some b else file_at w q)"
    and "dirs w' = dirs w"
proof -
  obtain f w1 where "next_fault w = (f, w1)"
    and "w' = w1\<lparr>files := AList.update (resolve p) b (files w1)\<rparr>"
    using assms by (auto simp: put_file_def dest!: faulty_cases split: if_splits)
  then show "file_at w' q = (if resolve q = resolve p then Some b else file_at w q)"
    and "dirs w' = dirs w"
    using next_fault_frame by (fastforce simp: file_at_def update_conv)+
qed

text \<open>A write that reports an error leaves every file either as it was or completely replaced.\<close>

lemma put_file_atomic:
  assumes "put_file p b w = (r, w')"
  shows "file_at w' p = file_at w p \<or> file_at w' p = Some b"
  using assms
  by (auto simp: put_file_def file_at_def update_conv dest!: faulty_cases next_fault_frame split: if_splits)

lemma put_file_supply: "put_file p b w = (r, w') \<Longrightarrow> hot_supply w' = hot_supply w"
  by (auto simp: put_file_def dest!: faulty_cases next_fault_frame split: if_splits)

section \<open>Paths below a directory\<close>

lemma foldl_resolve_normal:
  "\<forall>c \<in> set ns. is_normal c \<Longrightarrow> foldl resolve_step p ns = p @ ns"
  by (induction ns arbitrary: p) (auto simp: resolve_step_def is_normal_def split: path_component.splits)

lemma resolve_append_normal: "\<forall>c \<in> set ns. is_normal c \<Longrightarrow> resolve (p @ ns) = resolve p @ ns"
  by (simp add: resolve_def foldl_resolve_normal)

definition safe_relative :: "string \<Rightarrow> bool" where
  "safe_relative s \<longleftrightarrow> \<not> is_absolute (components s) \<and> (\<forall>c \<in> set (components s). is_normal c)"

lemma resolve_join_safe:
  assumes "safe_relative s"
  shows "resolve (join_str base s) = resolve base @ components s"
proof -
  have n: "\<forall>c \<in> set (components s). is_normal c" using assms by (simp add: safe_relative_def)
  then have "filter (\<lambda>c. c \<noteq> CurDir) (components s) = components s"
    by (auto simp: is_normal_def intro!: filter_True)
  then show ?thesis
    using assms n resolve_append_normal [OF n]
    by (auto simp: join_str_def join_def safe_relative_def resolve_def foldl_resolve_normal)
qed

section \<open>Resolved paths\<close>

definition resolved :: "path \<Rightarrow> bool" where
  "resolved p \<longleftrightarrow> (\<exists>pre ns. p = pre @ ns \<and> (\<forall>c \<in> set ns. is_normal c)
     \<and> (pre = [RootDir] \<or> (\<exists>n. pre = replicate n ParentDir)))"

lemma resolve_parents: "resolve_step (replicate n ParentDir) ParentDir = replicate (Suc n) ParentDir"
  by (cases n) (simp_all add: resolve_step_def flip: replicate_append_same)

lemma resolved_step: "resolved d \<Longrightarrow> resolved (resolve_step d c)"
proof -
  assume "resolved d"
  then obtain pre ns where d: "d = pre @ ns" "\<forall>c \<in> set ns. is_normal c" "pre = [RootDir] \<or> (\<exists>n. pre = replicate n ParentDir)"
    unfolding resolved_def by blast
  show ?thesis
  proof (cases c)
    case RootDir
    then show ?thesis unfolding resolved_def by (intro exI [of _ "[RootDir]"] exI [of _ "[]"]) (simp add: resolve_step_def)
  next
    case CurDir
    then show ?thesis using \<open>resolved d\<close> by (simp add: resolve_step_def)
  next
    case (Normal n)
    then show ?thesis using d unfolding resolved_def
      by (intro exI [of _ pre] exI [of _ "ns @ [Normal n]"]) (simp add: resolve_step_def is_normal_def)
  next
    case ParentDir
    show ?thesis
    proof (cases "ns = []")
      case True
      from d(3) show ?thesis
      proof
        assume "pre = [RootDir]"
        then show ?thesis using \<open>resolved d\<close> d(1) True ParentDir by (simp add: resolve_step_def)
      next
        assume "\<exists>n. pre = replicate n ParentDir"
        then obtain n where "resolve_step d c = replicate (Suc n) ParentDir"
          using d(1) True ParentDir resolve_parents by auto
        then show ?thesis unfolding resolved_def by (metis append_Nil2 empty_iff list.set(1))
      qed
    next
      case False
      then have "resolve_step d c = pre @ butlast ns"
        using d(1,2) ParentDir by (auto simp: resolve_step_def is_normal_def butlast_append dest!: bspec [OF _ last_in_set])
      then show ?thesis using d(2,3) in_set_butlastD unfolding resolved_def by metis
    qed
  qed
qed

lemma resolved_resolve: "resolved (resolve p)"
proof -
  have "resolved d \<Longrightarrow> resolved (foldl resolve_step d p)" for d
    by (induction p arbitrary: d) (auto intro: resolved_step)
  moreover have "resolved []" unfolding resolved_def by (intro exI [of _ "[]"]) simp
  ultimately show ?thesis unfolding resolve_def by blast
qed

lemma resolved_fixed: "resolved d \<Longrightarrow> resolve d = d"
proof -
  assume "resolved d"
  then obtain pre ns where p: "d = pre @ ns" "\<forall>c \<in> set ns. is_normal c"
    and pre: "pre = [RootDir] \<or> (\<exists>n. pre = replicate n ParentDir)"
    unfolding resolved_def by blast
  have "foldl resolve_step [] (replicate n ParentDir) = replicate n ParentDir" for n
  proof (induction n)
    case (Suc n)
    have "foldl resolve_step [] (replicate n ParentDir @ [ParentDir]) = resolve_step (replicate n ParentDir) ParentDir"
      using Suc by simp
    then show ?case by (simp only: resolve_parents replicate_append_same replicate_Suc)
  qed simp
  then have "resolve pre = pre" using pre by (auto simp: resolve_def resolve_step_def)
  then show ?thesis using resolve_append_normal [OF p(2), of pre] p(1) by simp
qed

lemma resolve_resolve [simp]: "resolve (resolve p) = resolve p"
  by (rule resolved_fixed [OF resolved_resolve])

lemma resolved_butlast: "resolved d \<Longrightarrow> resolved (butlast d)"
proof -
  assume "resolved d"
  then obtain pre ns where d: "d = pre @ ns" "\<forall>c \<in> set ns. is_normal c"
    and pre: "pre = [RootDir] \<or> (\<exists>n. pre = replicate n ParentDir)"
    unfolding resolved_def by blast
  show ?thesis
  proof (cases "ns = []")
    case True
    have "butlast pre = replicate 0 ParentDir \<or> (\<exists>n. butlast pre = replicate n ParentDir)"
      using pre by (auto simp: butlast_conv_take)
    then obtain n where "butlast d = replicate n ParentDir" using d(1) True by auto
    then show ?thesis unfolding resolved_def by (intro exI [of _ "replicate n ParentDir"] exI [of _ "[]"]) auto
  next
    case False
    then have "butlast d = pre @ butlast ns" using d(1) by (simp add: butlast_append)
    then show ?thesis using d(2) pre in_set_butlastD unfolding resolved_def by metis
  qed
qed

lemma resolve_butlast [simp]: "resolve (butlast (resolve p)) = butlast (resolve p)"
  by (rule resolved_fixed [OF resolved_butlast [OF resolved_resolve]])

end
