(* ===== verification/Keys.thy ===== *)
theory Keys
  imports Core_Types
begin

text \<open>
  \<^verbatim>\<open>src/core/keys.rs\<close>: the keys of a device, derived from its mnemonic. BIP39, BIP32 and
  secp256k1 are library functions (record \<open>key_lib\<close>); a mnemonic is its words, extended
  private keys, seeds and key pairs are numbers, and the entropy that \<^verbatim>\<open>OsRng\<close> draws is
  an argument. Key pairs are those of the record \<open>lib\<close>, which gives their x-only public key.
\<close>

record key_lib =
  mnemonic_from_entropy :: "nat \<Rightarrow> string option"
  mnemonic_parse :: "string \<Rightarrow> string option"
  mnemonic_to_seed :: "string \<Rightarrow> nat"
  xpriv_new_master :: "network \<Rightarrow> nat \<Rightarrow> nat option"
  derivation_path_from_str :: "string \<Rightarrow> nat list option"
  derive_priv :: "nat \<Rightarrow> nat list \<Rightarrow> nat option"
  child_from_normal_idx :: "nat \<Rightarrow> nat option"
  keypair_from_xpriv :: "nat \<Rightarrow> keypair"
  xpub_to_string :: "nat \<Rightarrow> string" \<comment> \<open>of the extended public key of a private one\<close>
  xpriv_to_string :: "nat \<Rightarrow> string"
  fingerprint_to_string :: "nat \<Rightarrow> string"

record device_keys =
  dk_network :: network
  dk_mnemonic :: string
  vault_key_index :: nat
  dk_seed :: nat
  master_xpriv :: nat
  vault_xpriv :: nat
  vault_keypair :: keypair
  vault_pubkey :: xonly

definition coin_type :: "network \<Rightarrow> nat result" where
  "coin_type network = (case network of Bitcoin \<Rightarrow> Inr 0 | Regtest \<Rightarrow> Inr 1
     | _ \<Rightarrow> Inl (Dev UnsupportedKeyNetwork))"

definition derive_vault_key_from_parent ::
  "lib \<Rightarrow> key_lib \<Rightarrow> nat \<Rightarrow> nat \<Rightarrow> (nat \<times> keypair \<times> xonly) result" where
  "derive_vault_key_from_parent L K parent i =
     bind_result (ok_or (child_from_normal_idx K i) (Dev KeyIndexTooLarge)) (\<lambda>child.
     bind_result (ok_or (derive_priv K parent [child]) (Ext KeyDerivationError)) (\<lambda>xpriv.
     let keypair = keypair_from_xpriv K xpriv in Inr (xpriv, keypair, keypair_xonly L keypair)))"

definition vault_parent_path :: "nat \<Rightarrow> string" where
  "vault_parent_path coin = ''m/86'' @ [CHR 39, CHR ''/''] @ show_nat coin @ [CHR 39] @ ''/100''
     @ [CHR 39] @ ''/0''"

definition account_path :: "nat \<Rightarrow> string" where
  "account_path coin = ''m/86'' @ [CHR 39, CHR ''/''] @ show_nat coin @ [CHR 39] @ ''/0'' @ [CHR 39]"

definition from_mnemonic :: "lib \<Rightarrow> key_lib \<Rightarrow> string \<Rightarrow> network \<Rightarrow> nat \<Rightarrow> device_keys result" where
  "from_mnemonic L K mnemonic network i =
     bind_result (coin_type network) (\<lambda>coin.
     let seed = mnemonic_to_seed K mnemonic in
     bind_result (ok_or (xpriv_new_master K network seed) (Ext KeyDerivationError)) (\<lambda>master.
     bind_result (ok_or (derivation_path_from_str K (vault_parent_path coin)) (Ext KeyDerivationError)) (\<lambda>path.
     bind_result (ok_or (derive_priv K master path) (Ext KeyDerivationError)) (\<lambda>parent.
     bind_result (derive_vault_key_from_parent L K parent i) (\<lambda>(xpriv, keypair, pubkey).
     Inr \<lparr>dk_network = network, dk_mnemonic = mnemonic, vault_key_index = i, dk_seed = seed,
          master_xpriv = master, vault_xpriv = xpriv, vault_keypair = keypair,
          vault_pubkey = pubkey\<rparr>)))))"

definition generate_for_network_at_index ::
  "lib \<Rightarrow> key_lib \<Rightarrow> nat \<Rightarrow> network \<Rightarrow> nat \<Rightarrow> device_keys result" where
  "generate_for_network_at_index L K entropy network i =
     bind_result (ok_or (mnemonic_from_entropy K entropy) (Ext MnemonicError)) (\<lambda>mnemonic.
     from_mnemonic L K mnemonic network i)"

definition generate_for_network :: "lib \<Rightarrow> key_lib \<Rightarrow> nat \<Rightarrow> network \<Rightarrow> device_keys result" where
  "generate_for_network L K entropy network = generate_for_network_at_index L K entropy network 0"

definition generate :: "lib \<Rightarrow> key_lib \<Rightarrow> nat \<Rightarrow> device_keys result" where
  "generate L K entropy = generate_for_network L K entropy Regtest"

definition parse_for_network_at_index ::
  "lib \<Rightarrow> key_lib \<Rightarrow> string \<Rightarrow> network \<Rightarrow> nat \<Rightarrow> device_keys result" where
  "parse_for_network_at_index L K words network i =
     bind_result (ok_or (mnemonic_parse K words) (Ext MnemonicError)) (\<lambda>mnemonic.
     from_mnemonic L K mnemonic network i)"

definition parse_for_network :: "lib \<Rightarrow> key_lib \<Rightarrow> string \<Rightarrow> network \<Rightarrow> device_keys result" where
  "parse_for_network L K words network = parse_for_network_at_index L K words network 0"

definition parse_device :: "lib \<Rightarrow> key_lib \<Rightarrow> string \<Rightarrow> device_keys result" where
  "parse_device L K words = parse_for_network L K words Regtest"

definition account_xpriv :: "key_lib \<Rightarrow> device_keys \<Rightarrow> (nat \<times> nat) result" where
  "account_xpriv K d =
     bind_result (coin_type (dk_network d)) (\<lambda>coin.
     bind_result (ok_or (derivation_path_from_str K (account_path coin)) (Ext KeyDerivationError)) (\<lambda>path.
     bind_result (ok_or (derive_priv K (master_xpriv d) path) (Ext KeyDerivationError)) (\<lambda>account.
     Inr (coin, account))))"

definition hot_descriptor_text :: "key_lib \<Rightarrow> device_keys \<Rightarrow> nat \<Rightarrow> string \<Rightarrow> string \<Rightarrow> string" where
  "hot_descriptor_text K d coin key branch =
     ''tr(['' @ fingerprint_to_string K (master_xpriv d) @ ''/86'' @ [CHR 39, CHR ''/'']
     @ show_nat coin @ [CHR 39] @ ''/0'' @ [CHR 39] @ '']'' @ key @ branch"

definition hot_descriptors :: "key_lib \<Rightarrow> device_keys \<Rightarrow> (string \<times> string) result" where
  "hot_descriptors K d =
     bind_result (account_xpriv K d) (\<lambda>(coin, account).
     Inr (hot_descriptor_text K d coin (xpub_to_string K account) ''/0/*)'',
          hot_descriptor_text K d coin (xpub_to_string K account) ''/1/*)''))"

definition hot_private_descriptors :: "key_lib \<Rightarrow> device_keys \<Rightarrow> (string \<times> string) result" where
  "hot_private_descriptors K d =
     bind_result (account_xpriv K d) (\<lambda>(coin, account).
     Inr (hot_descriptor_text K d coin (xpriv_to_string K account) ''/0/*)'',
          hot_descriptor_text K d coin (xpriv_to_string K account) ''/1/*)''))"

definition vault_parent_xpriv :: "key_lib \<Rightarrow> device_keys \<Rightarrow> nat result" where
  "vault_parent_xpriv K d =
     bind_result (coin_type (dk_network d)) (\<lambda>coin.
     bind_result (ok_or (derivation_path_from_str K (vault_parent_path coin)) (Ext KeyDerivationError)) (\<lambda>path.
     ok_or (derive_priv K (master_xpriv d) path) (Ext KeyDerivationError)))"

definition with_vault_key_index :: "lib \<Rightarrow> key_lib \<Rightarrow> device_keys \<Rightarrow> nat \<Rightarrow> device_keys result" where
  "with_vault_key_index L K d i =
     bind_result (vault_parent_xpriv K d) (\<lambda>parent.
     bind_result (derive_vault_key_from_parent L K parent i) (\<lambda>(xpriv, keypair, pubkey).
     Inr (d\<lparr>vault_key_index := i, vault_xpriv := xpriv, vault_keypair := keypair,
            vault_pubkey := pubkey\<rparr>)))"

section \<open>Consistency of the derivations\<close>

text \<open>What holds of every \<^verbatim>\<open>DeviceKeys\<close> value: its key is the one its mnemonic and index give.\<close>

definition device_ok :: "lib \<Rightarrow> key_lib \<Rightarrow> device_keys \<Rightarrow> bool" where
  "device_ok L K d \<longleftrightarrow> from_mnemonic L K (dk_mnemonic d) (dk_network d) (vault_key_index d) = Inr d"

lemma from_mnemonic_fields:
  assumes "from_mnemonic L K m n i = Inr d"
  shows "dk_mnemonic d = m \<and> dk_network d = n \<and> vault_key_index d = i
    \<and> vault_pubkey d = keypair_xonly L (vault_keypair d)"
  using assms by (auto simp: from_mnemonic_def derive_vault_key_from_parent_def Let_def)

lemma from_mnemonic_ok: "from_mnemonic L K m n i = Inr d \<Longrightarrow> device_ok L K d"
  using from_mnemonic_fields by (fastforce simp: device_ok_def)

lemma parse_ok: "parse_for_network_at_index L K words n i = Inr d \<Longrightarrow> device_ok L K d"
  by (auto simp: parse_for_network_at_index_def intro: from_mnemonic_ok)

lemma generate_ok: "generate_for_network_at_index L K e n i = Inr d \<Longrightarrow> device_ok L K d"
  by (auto simp: generate_for_network_at_index_def intro: from_mnemonic_ok)

lemma with_vault_key_index_eq:
  assumes "device_ok L K d"
  shows "with_vault_key_index L K d i = from_mnemonic L K (dk_mnemonic d) (dk_network d) i"
proof -
  obtain coin path parent where c: "coin_type (dk_network d) = Inr coin"
    and m: "xpriv_new_master K (dk_network d) (mnemonic_to_seed K (dk_mnemonic d)) = Some (master_xpriv d)"
    and s: "dk_seed d = mnemonic_to_seed K (dk_mnemonic d)"
    and p: "derivation_path_from_str K (vault_parent_path coin) = Some path"
    and x: "derive_priv K (master_xpriv d) path = Some parent"
    using assms unfolding device_ok_def from_mnemonic_def Let_def
    by (cases d) auto
  show ?thesis
    by (cases "derive_vault_key_from_parent L K parent i"; cases d)
      (use c m s p x in \<open>auto simp: with_vault_key_index_def vault_parent_xpriv_def from_mnemonic_def Let_def\<close>)
qed

end
