(* ===== verification/Policy.thy ===== *)
theory Policy
  imports Core_Types
begin

text \<open>
  \<^verbatim>\<open>src/core/policy.rs\<close>: the vault and controller policies, their descriptor texts, the
  selection of a script leaf for a spending path, and the fast address template used while
  grinding vanity keys. Descriptor parsing, script encoding and Taproot hashing are library
  functions of the record \<open>lib\<close>.
\<close>

section \<open>Definitions\<close>

definition BIP341_NUMS_KEY :: string where
  "BIP341_NUMS_KEY = ''50929b74c1a04954b78b4b6035e97a5e078a5a0f28ec96d547bfee9ace803ac0''"

datatype spend_path = Cooperative | PhoneRecovery | HwwRecovery

datatype controller_path = ControllerPhone | ControllerHww

record vault_policy =
  vp_descriptor :: descriptor
  vp_address :: address

record controller_policy =
  cp_descriptor :: descriptor
  cp_address :: address
  cp_phone :: xonly
  cp_hww :: xonly

record 'p policy_leaf =
  leaf_path :: 'p
  leaf_depth :: nat
  leaf_script :: script
  leaf_hash_value :: leaf_hash
  leaf_control_block :: bytes

type_synonym vault_leaf = "spend_path policy_leaf"
type_synonym controller_leaf = "controller_path policy_leaf"

record vault_address_template =
  vat_internal_key :: xonly
  vat_hww_pubkey :: xonly
  vat_hww_recovery_node :: leaf_hash

definition cooperative_script :: "lib \<Rightarrow> xonly \<Rightarrow> xonly \<Rightarrow> script" where
  "cooperative_script L phone hww = script_encode L
     [PushXOnlyKey phone, PushOpcode OP_CHECKSIG, PushXOnlyKey hww, PushOpcode OP_CHECKSIGADD,
      PushInt 2, PushOpcode OP_NUMEQUAL]"

definition recovery_script :: "lib \<Rightarrow> xonly \<Rightarrow> nat \<Rightarrow> script" where
  "recovery_script L key delay = script_encode L
     [PushInt delay, PushOpcode OP_CSV, PushOpcode OP_VERIFY, PushXOnlyKey key,
      PushOpcode OP_CHECKSIG]"

definition vat_new :: "lib \<Rightarrow> xonly \<Rightarrow> vault_address_template result" where
  "vat_new L hww_pubkey =
     bind_result (ok_or (xonly_from_str L BIP341_NUMS_KEY) (Lib KeyParseError)) (\<lambda>internal_key.
     Inr \<lparr>vat_internal_key = internal_key, vat_hww_pubkey = hww_pubkey,
          vat_hww_recovery_node =
            tapleaf_hash_of L (recovery_script L hww_pubkey HWW_RECOVERY_BLOCKS)\<rparr>)"

definition vat_output_key :: "lib \<Rightarrow> vault_address_template \<Rightarrow> xonly \<Rightarrow> xonly" where
  "vat_output_key L t phone_pubkey =
     (let cooperative_node =
            tapleaf_hash_of L (cooperative_script L phone_pubkey (vat_hww_pubkey t));
          phone_recovery_node =
            tapleaf_hash_of L (recovery_script L phone_pubkey PHONE_RECOVERY_BLOCKS);
          recovery_node = tapnode_join L phone_recovery_node (vat_hww_recovery_node t);
          merkle_root = tapnode_join L cooperative_node recovery_node
      in tap_tweak L (vat_internal_key t) merkle_root)"

definition vat_address :: "lib \<Rightarrow> vault_address_template \<Rightarrow> xonly \<Rightarrow> network \<Rightarrow> address" where
  "vat_address L t phone_pubkey network = p2tr_tweaked L (vat_output_key L t phone_pubkey) network"

definition vault_descriptor_text :: "lib \<Rightarrow> xonly \<Rightarrow> xonly \<Rightarrow> string" where
  "vault_descriptor_text L phone hww =
     (let p = xonly_to_string L phone; h = xonly_to_string L hww
      in ''tr('' @ BIP341_NUMS_KEY @ '',{multi_a(2,'' @ p @ '','' @ h @ ''),{and_v(v:older(''
         @ show_nat PHONE_RECOVERY_BLOCKS @ ''),pk('' @ p @ '')),and_v(v:older(''
         @ show_nat HWW_RECOVERY_BLOCKS @ ''),pk('' @ h @ ''))}})'')"

definition vault_from_descriptor :: "lib \<Rightarrow> string \<Rightarrow> network \<Rightarrow> vault_policy result" where
  "vault_from_descriptor L descriptor_text network =
     bind_result (ok_or (descriptor_from_str L descriptor_text) (Lib DescriptorError)) (\<lambda>descriptor.
     bind_result (ok_or (descriptor_address L descriptor network) (Lib DescriptorError)) (\<lambda>address.
     Inr \<lparr>vp_descriptor = descriptor, vp_address = address\<rparr>))"

definition vault_new :: "lib \<Rightarrow> xonly \<Rightarrow> xonly \<Rightarrow> network \<Rightarrow> vault_policy result" where
  "vault_new L phone hww network =
     (let descriptor_text = vault_descriptor_text L phone hww in
      bind_result (ok_or (descriptor_from_str L descriptor_text) (Lib DescriptorError)) (\<lambda>descriptor.
      bind_result (ok_or (descriptor_address L descriptor network) (Lib DescriptorError)) (\<lambda>address.
      Inr \<lparr>vp_descriptor = descriptor, vp_address = address\<rparr>)))"

definition vault_definite_descriptor :: "lib \<Rightarrow> vault_policy \<Rightarrow> descriptor result" where
  "vault_definite_descriptor L p = ok_or (descriptor_definite L (vp_descriptor p)) (Lib DescriptorError)"

definition target_depth :: "spend_path \<Rightarrow> nat" where
  "target_depth path = (case path of Cooperative \<Rightarrow> 1 | PhoneRecovery \<Rightarrow> 2 | HwwRecovery \<Rightarrow> 2)"

definition target_delay :: "spend_path \<Rightarrow> nat option" where
  "target_delay path = (case path of Cooperative \<Rightarrow> None
     | PhoneRecovery \<Rightarrow> Some PHONE_RECOVERY_BLOCKS | HwwRecovery \<Rightarrow> Some HWW_RECOVERY_BLOCKS)"

fun find_vault_leaf :: "lib \<Rightarrow> descriptor \<Rightarrow> spend_path \<Rightarrow> (nat \<times> script) list \<Rightarrow> vault_leaf result" where
  "find_vault_leaf L d path [] = Inl (Tx LeafMissing)"
| "find_vault_leaf L d path ((depth, script) # rest) =
     (if depth \<noteq> target_depth path then find_vault_leaf L d path rest
      else if (case target_delay path of None \<Rightarrow> False
               | Some delay \<Rightarrow> \<not> contains_window (script_encode L [PushInt delay]) script)
           then find_vault_leaf L d path rest
      else bind_result (ok_or (descriptor_control_block L d script) (Tx NoControlBlock)) (\<lambda>cb.
           Inr \<lparr>leaf_path = path, leaf_depth = depth, leaf_script = script,
                leaf_hash_value = tapleaf_hash_of L script, leaf_control_block = cb\<rparr>))"

definition taproot_leaves :: "lib \<Rightarrow> descriptor \<Rightarrow> (nat \<times> script) list result" where
  "taproot_leaves L d =
     bind_result (ok_or (descriptor_leaves L d) (Lib DescriptorError)) (\<lambda>tr.
     ok_or tr (Tx NotTaproot))"

definition vault_leaf :: "lib \<Rightarrow> vault_policy \<Rightarrow> spend_path \<Rightarrow> vault_leaf result" where
  "vault_leaf L p path =
     bind_result (taproot_leaves L (vp_descriptor p)) (find_vault_leaf L (vp_descriptor p) path)"

definition vault_descriptor_string :: "lib \<Rightarrow> vault_policy \<Rightarrow> string" where
  "vault_descriptor_string L p = descriptor_to_string L (vp_descriptor p)"

definition controller_descriptor_text :: "lib \<Rightarrow> xonly \<Rightarrow> xonly \<Rightarrow> string" where
  "controller_descriptor_text L phone hww =
     ''tr('' @ BIP341_NUMS_KEY @ '',{pk('' @ xonly_to_string L phone @ ''),pk(''
     @ xonly_to_string L hww @ '')})''"

definition controller_new :: "lib \<Rightarrow> xonly \<Rightarrow> xonly \<Rightarrow> network \<Rightarrow> controller_policy result" where
  "controller_new L phone hww network =
     bind_result (ok_or (descriptor_from_str L (controller_descriptor_text L phone hww))
                  (Lib DescriptorError)) (\<lambda>descriptor.
     bind_result (ok_or (descriptor_address L descriptor network) (Lib DescriptorError)) (\<lambda>address.
     Inr \<lparr>cp_descriptor = descriptor, cp_address = address, cp_phone = phone, cp_hww = hww\<rparr>))"

definition controller_definite_descriptor :: "lib \<Rightarrow> controller_policy \<Rightarrow> descriptor result" where
  "controller_definite_descriptor L p =
     ok_or (descriptor_definite L (cp_descriptor p)) (Lib DescriptorError)"

definition single_key_script :: "lib \<Rightarrow> xonly \<Rightarrow> script" where
  "single_key_script L key = script_encode L [PushXOnlyKey key, PushOpcode OP_CHECKSIG]"

fun find_controller_leaf ::
  "lib \<Rightarrow> descriptor \<Rightarrow> controller_path \<Rightarrow> script \<Rightarrow> (nat \<times> script) list \<Rightarrow> controller_leaf result"
where
  "find_controller_leaf L d path target [] = Inl (Tx LeafMissing)"
| "find_controller_leaf L d path target ((depth, script) # rest) =
     (if script \<noteq> target then find_controller_leaf L d path target rest
      else bind_result (ok_or (descriptor_control_block L d script) (Tx NoControlBlock)) (\<lambda>cb.
           Inr \<lparr>leaf_path = path, leaf_depth = depth, leaf_script = script,
                leaf_hash_value = tapleaf_hash_of L script, leaf_control_block = cb\<rparr>))"

definition controller_leaf :: "lib \<Rightarrow> controller_policy \<Rightarrow> controller_path \<Rightarrow> controller_leaf result" where
  "controller_leaf L p path =
     (let key = (case path of ControllerPhone \<Rightarrow> cp_phone p | ControllerHww \<Rightarrow> cp_hww p)
      in bind_result (taproot_leaves L (cp_descriptor p))
           (find_controller_leaf L (cp_descriptor p) path (single_key_script L key)))"

definition controller_descriptor_string :: "lib \<Rightarrow> controller_policy \<Rightarrow> string" where
  "controller_descriptor_string L p = descriptor_to_string L (cp_descriptor p)"

section \<open>What the libraries do with the descriptor texts\<close>

text \<open>
  A descriptor \<^verbatim>\<open>tr(K,{A,{B,C}})\<close> has the leaves of its tree in order, each at its
  depth, compiled to the script of its miniscript, and its address is the Taproot output of the
  internal key tweaked with the root of that tree (BIP341, BIP386). The three policies of the
  vault text are \<^verbatim>\<open>multi_a(2,phone,hww)\<close> and the two \<^verbatim>\<open>and_v(v:older(n),pk(k))\<close>.
\<close>

definition lib_vault_descriptor :: "lib \<Rightarrow> xonly \<Rightarrow> xonly \<Rightarrow> descriptor \<Rightarrow> bool" where
  "lib_vault_descriptor L phone hww d \<longleftrightarrow>
     descriptor_from_str L (vault_descriptor_text L phone hww) = Some d
   \<and> descriptor_leaves L d = Some (Some
       [(1, cooperative_script L phone hww),
        (2, recovery_script L phone PHONE_RECOVERY_BLOCKS),
        (2, recovery_script L hww HWW_RECOVERY_BLOCKS)])
   \<and> (\<forall>s \<in> {cooperative_script L phone hww, recovery_script L phone PHONE_RECOVERY_BLOCKS,
             recovery_script L hww HWW_RECOVERY_BLOCKS}. descriptor_control_block L d s \<noteq> None)"

text \<open>Script assembly is item by item, as \<^verbatim>\<open>script::Builder\<close> documents.\<close>

definition lib_script_concat :: "lib \<Rightarrow> bool" where
  "lib_script_concat L \<longleftrightarrow>
     (\<forall>xs ys. script_encode L (xs @ ys) = script_encode L xs @ script_encode L ys)
   \<and> (\<forall>n. script_encode L [PushInt n] \<noteq> [])"

section \<open>Leaf selection\<close>

lemma recovery_script_window:
  assumes "lib_script_concat L"
  shows "contains_window (script_encode L [PushInt delay]) (recovery_script L key delay)"
proof -
  have "recovery_script L key delay = [] @ script_encode L [PushInt delay] @
      script_encode L [PushOpcode OP_CSV, PushOpcode OP_VERIFY, PushXOnlyKey key, PushOpcode OP_CHECKSIG]"
    using assms unfolding recovery_script_def lib_script_concat_def
    by (metis append_Cons append_Nil)
  moreover have "script_encode L [PushInt delay] \<noteq> []"
    using assms by (simp add: lib_script_concat_def)
  ultimately show ?thesis by (metis contains_window_iff)
qed

lemma vault_leaf_script_hash:
  assumes "vault_leaf L p path = Inr leaf"
  shows "leaf_hash_value leaf = tapleaf_hash_of L (leaf_script leaf) \<and> leaf_path leaf = path
    \<and> leaf_depth leaf = target_depth path"
proof -
  have "find_vault_leaf L d path xs = Inr leaf \<Longrightarrow>
      leaf_hash_value leaf = tapleaf_hash_of L (leaf_script leaf) \<and> leaf_path leaf = path
      \<and> leaf_depth leaf = target_depth path" for d xs
    by (induction L d path xs rule: find_vault_leaf.induct) (auto split: if_splits)
  with assms show ?thesis by (auto simp: vault_leaf_def)
qed

lemma controller_leaf_key:
  assumes "controller_leaf L p path = Inr leaf"
  shows "leaf_script leaf = single_key_script L (case path of ControllerPhone \<Rightarrow> cp_phone p | ControllerHww \<Rightarrow> cp_hww p)
    \<and> leaf_hash_value leaf = tapleaf_hash_of L (leaf_script leaf) \<and> leaf_path leaf = path"
proof -
  have "find_controller_leaf L d path t xs = Inr leaf \<Longrightarrow>
      leaf_script leaf = t \<and> leaf_hash_value leaf = tapleaf_hash_of L (leaf_script leaf)
      \<and> leaf_path leaf = path" for d t xs
    by (induction L d path t xs rule: find_controller_leaf.induct) (auto split: if_splits)
  with assms show ?thesis by (auto simp: controller_leaf_def Let_def)
qed

end
