(* ===== verification/Storage.thy ===== *)
theory Storage
  imports World Keys Policy
begin

text \<open>
  \<^verbatim>\<open>src/core/storage.rs\<close>: the configuration and device files, vault initialization, and
  the private-file writer everything else persists through. JSON encoding is a library function,
  one \<open>codec\<close> per stored type. The contract of a persistent store, that a successful write is
  read back, that other paths are untouched and that a failed write never leaves anything but the
  old or the new contents, is the locale \<open>store\<close>.
\<close>

section \<open>Data\<close>

definition CONFIG_FILE :: string where "CONFIG_FILE = ''anzen.json''"
definition LEGACY_CONFIG_FILE :: string where "LEGACY_CONFIG_FILE = ''vault.json''"
definition PHONE_DEVICE_FILE :: string where "PHONE_DEVICE_FILE = ''phone/device.json''"
definition HWW_DEVICE_FILE :: string where "HWW_DEVICE_FILE = ''hww/device.json''"
definition HWW_PUBLIC_FILE :: string where "HWW_PUBLIC_FILE = ''hww/public.json''"
definition PHONE_BACKUP_FILE :: string where "PHONE_BACKUP_FILE = ''cloud/phone-seed-backup.json''"

record vault_config =
  vc_version :: nat
  vc_network :: string
  phone_vault_pubkey :: string
  hww_vault_pubkey :: string
  phone_hot_external_descriptor :: string
  phone_hot_internal_descriptor :: string
  vc_vault_descriptor :: string
  vc_vault_address :: string
  phone_recovery_blocks :: nat
  hww_recovery_blocks :: nat
  vc_monthly_limit_sats :: nat
  vc_emergency_access_limit_sats :: nat

record device_file =
  df_kind :: string
  df_network :: string
  df_mnemonic :: string
  df_vault_key_index :: nat

record public_device_file =
  pdf_version :: nat
  pdf_kind :: string
  pdf_network :: string
  pdf_vault_pubkey :: string

record initialized_device =
  id_mnemonic :: string
  id_vault_pubkey :: string
  id_vault_key_index :: nat

record ('b, 'a) codec =
  to_json :: "'a \<Rightarrow> 'b option"
  from_json :: "'b \<Rightarrow> 'a option"

definition codec_ok :: "('b, 'a) codec \<Rightarrow> bool" where
  "codec_ok C \<longleftrightarrow> (\<forall>x b. to_json C x = Some b \<longrightarrow> from_json C b = Some x)"

record 'b storage_codecs =
  config_codec :: "('b, vault_config) codec"
  device_codec :: "('b, device_file) codec"
  public_device_codec :: "('b, public_device_file) codec"

section \<open>Networks\<close>

definition network_name :: "network \<Rightarrow> string" where
  "network_name n = (case n of Bitcoin \<Rightarrow> ''mainnet'' | Regtest \<Rightarrow> ''regtest'' | _ \<Rightarrow> ''unsupported'')"

definition parse_network_name :: "string \<Rightarrow> network result" where
  "parse_network_name name =
     (if name = ''mainnet'' \<or> name = ''bitcoin'' then Inr Bitcoin
      else if name = ''regtest'' then Inr Regtest
      else Inl (Sto UnsupportedNetwork))"

definition validate_supported_network :: "network \<Rightarrow> unit result" where
  "validate_supported_network n =
     (case n of Bitcoin \<Rightarrow> Inr () | Regtest \<Rightarrow> Inr () | _ \<Rightarrow> Inl (Sto UnsupportedNetwork))"

definition default_network_name :: string where
  "default_network_name = ''regtest''"

definition config_network :: "vault_config \<Rightarrow> network result" where
  "config_network config = parse_network_name (vc_network config)"

definition device_network :: "device_file \<Rightarrow> network result" where
  "device_network f = parse_network_name (df_network f)"

definition public_device_network :: "public_device_file \<Rightarrow> network result" where
  "public_device_network f = parse_network_name (pdf_network f)"

definition parsed_vault_pubkey :: "lib \<Rightarrow> public_device_file \<Rightarrow> xonly result" where
  "parsed_vault_pubkey L f = ok_or (xonly_from_str L (pdf_vault_pubkey f)) (Lib KeyParseError)"

section \<open>Files\<close>

definition write_private :: "path \<Rightarrow> 'b \<Rightarrow> ('b, unit) io" where
  "write_private p b =
     bindM (create_dir_all (butlast (resolve p))) (\<lambda>_. put_file p b)"

definition write_json :: "('b, 'a) codec \<Rightarrow> path \<Rightarrow> 'a \<Rightarrow> ('b, unit) io" where
  "write_json C p x = bindM (liftM (ok_or (to_json C x) (Ext JsonError))) (write_private p)"

definition read_json :: "('b, 'a) codec \<Rightarrow> path \<Rightarrow> 'b world \<Rightarrow> 'a result" where
  "read_json C p w =
     bind_result (read_file p w) (\<lambda>b. ok_or (from_json C b) (Ext JsonError))"

definition config_path :: "path \<Rightarrow> 'b world \<Rightarrow> path" where
  "config_path data_dir w =
     (let current = join_str data_dir CONFIG_FILE; legacy = join_str data_dir LEGACY_CONFIG_FILE
      in if path_exists w current then current
         else if path_exists w legacy then legacy else current)"

definition load_config :: "('b, 'z) storage_codecs_scheme \<Rightarrow> path \<Rightarrow> 'b world \<Rightarrow> vault_config result" where
  "load_config C data_dir w = read_json (config_codec C) (config_path data_dir w) w"

definition config_exists :: "path \<Rightarrow> 'b world \<Rightarrow> bool" where
  "config_exists data_dir w \<longleftrightarrow> path_exists w (join_str data_dir CONFIG_FILE)
     \<or> path_exists w (join_str data_dir LEGACY_CONFIG_FILE)"

definition set_policy_limits ::
  "('b, 'z) storage_codecs_scheme \<Rightarrow> path \<Rightarrow> nat \<Rightarrow> nat \<Rightarrow> ('b, vault_config) io" where
  "set_policy_limits C data_dir monthly emergency =
     bindM (readM (load_config C data_dir)) (\<lambda>config.
     let config' = config\<lparr>vc_monthly_limit_sats := monthly, vc_emergency_access_limit_sats := emergency\<rparr> in
     bindM (readM (\<lambda>w. Inr (config_path data_dir w))) (\<lambda>p.
     bindM (write_json (config_codec C) p config') (\<lambda>_.
     returnM config')))"

definition set_monthly_limit ::
  "('b, 'z) storage_codecs_scheme \<Rightarrow> path \<Rightarrow> nat \<Rightarrow> ('b, vault_config) io" where
  "set_monthly_limit C data_dir monthly =
     bindM (readM (load_config C data_dir)) (\<lambda>config.
     set_policy_limits C data_dir monthly (vc_emergency_access_limit_sats config))"

definition load_device :: "('b, 'z) storage_codecs_scheme \<Rightarrow> path \<Rightarrow> string \<Rightarrow> 'b world \<Rightarrow> device_file result" where
  "load_device C data_dir relative_path w = read_json (device_codec C) (join_str data_dir relative_path) w"

definition load_public_device ::
  "('b, 'z) storage_codecs_scheme \<Rightarrow> path \<Rightarrow> string \<Rightarrow> 'b world \<Rightarrow> public_device_file result" where
  "load_public_device C data_dir relative_path w =
     read_json (public_device_codec C) (join_str data_dir relative_path) w"

definition load_device_keys ::
  "lib \<Rightarrow> key_lib \<Rightarrow> ('b, 'z) storage_codecs_scheme \<Rightarrow> path \<Rightarrow> string \<Rightarrow> 'b world \<Rightarrow> device_keys result" where
  "load_device_keys L K C data_dir relative_path w =
     bind_result (load_device C data_dir relative_path w) (\<lambda>file.
     bind_result (device_network file) (\<lambda>network.
     parse_for_network_at_index L K (df_mnemonic file) network (df_vault_key_index file)))"

definition hot_db_path :: "path \<Rightarrow> path" where
  "hot_db_path data_dir = join_str data_dir ''phone/hot-wallet.sqlite''"

lemma load_device_keys_ok:
  "load_device_keys L K C data_dir relative_path w = Inr d \<Longrightarrow>
   device_ok L K d \<and> vault_pubkey d = keypair_xonly L (vault_keypair d)"
  using parse_ok from_mnemonic_fields by (fastforce simp: load_device_keys_def device_ok_def)

section \<open>Vault initialization\<close>

definition check_public_hww ::
  "lib \<Rightarrow> ('b, 'z) storage_codecs_scheme \<Rightarrow> path \<Rightarrow> network \<Rightarrow> device_keys \<Rightarrow> 'b world \<Rightarrow> unit result" where
  "check_public_hww L C data_dir network hww w =
     (if path_exists w (join_str data_dir HWW_PUBLIC_FILE)
      then bind_result (load_public_device C data_dir HWW_PUBLIC_FILE w) (\<lambda>public_hww.
           bind_result (public_device_network public_hww) (\<lambda>n.
           if n \<noteq> network then Inl (Sto PublicMetadataMismatch)
           else bind_result (parsed_vault_pubkey L public_hww) (\<lambda>key.
                if key \<noteq> vault_pubkey hww then Inl (Sto PublicMetadataMismatch) else Inr ())))
      else Inr ())"

definition initial_config ::
  "lib \<Rightarrow> key_lib \<Rightarrow> network \<Rightarrow> device_keys \<Rightarrow> device_keys \<Rightarrow> vault_config result" where
  "initial_config L K network phone hww =
     bind_result (vault_new L (vault_pubkey phone) (vault_pubkey hww) network) (\<lambda>policy.
     bind_result (hot_descriptors K phone) (\<lambda>(hot_external, hot_internal).
     Inr \<lparr>vc_version = 1, vc_network = network_name network,
          phone_vault_pubkey = xonly_to_string L (vault_pubkey phone),
          hww_vault_pubkey = xonly_to_string L (vault_pubkey hww),
          phone_hot_external_descriptor = hot_external,
          phone_hot_internal_descriptor = hot_internal,
          vc_vault_descriptor = vault_descriptor_string L policy,
          vc_vault_address = addr_text (vp_address policy),
          phone_recovery_blocks = PHONE_RECOVERY_BLOCKS,
          hww_recovery_blocks = HWW_RECOVERY_BLOCKS,
          vc_monthly_limit_sats = 0, vc_emergency_access_limit_sats = 0\<rparr>))"

definition initialize_vault_for_network ::
  "lib \<Rightarrow> key_lib \<Rightarrow> ('b, 'z) storage_codecs_scheme \<Rightarrow> path \<Rightarrow> network \<Rightarrow> ('b, vault_config) io" where
  "initialize_vault_for_network L K C data_dir network =
     bindM (liftM (validate_supported_network network)) (\<lambda>_.
     bindM (readM (\<lambda>w. if config_exists data_dir w then Inl (Sto AlreadyInitialized) else Inr ())) (\<lambda>_.
     bindM (readM (load_device C data_dir PHONE_DEVICE_FILE)) (\<lambda>phone_file.
     bindM (readM (load_device C data_dir HWW_DEVICE_FILE)) (\<lambda>hww_file.
     bindM (liftM (device_network phone_file)) (\<lambda>phone_network.
     if phone_network \<noteq> network then failM (Sto NetworkMismatch) else
     bindM (liftM (device_network hww_file)) (\<lambda>hww_network.
     if hww_network \<noteq> network then failM (Sto NetworkMismatch) else
     bindM (liftM (parse_for_network_at_index L K (df_mnemonic phone_file) network
                     (df_vault_key_index phone_file))) (\<lambda>phone.
     bindM (liftM (parse_for_network_at_index L K (df_mnemonic hww_file) network
                     (df_vault_key_index hww_file))) (\<lambda>hww.
     bindM (readM (check_public_hww L C data_dir network hww)) (\<lambda>_.
     bindM (liftM (initial_config L K network phone hww)) (\<lambda>config.
     bindM (write_json (config_codec C) (join_str data_dir CONFIG_FILE) config) (\<lambda>_.
     returnM config)))))))))))"

definition initialize_vault ::
  "lib \<Rightarrow> key_lib \<Rightarrow> ('b, 'z) storage_codecs_scheme \<Rightarrow> path \<Rightarrow> ('b, vault_config) io" where
  "initialize_vault L K C data_dir = initialize_vault_for_network L K C data_dir Regtest"

section \<open>Stores\<close>

lemma write_private_Inr:
  assumes "write_private p b w = (Inr (), w')"
  shows "file_at w' q = (if resolve q = resolve p then Some b else file_at w q)"
  using assms by (auto simp: write_private_def file_at_def dest!: create_dir_all_files put_file_Inr(1) [where q = q])

lemma write_private_atomic:
  assumes "write_private p b w = (r, w')"
  shows "file_at w' p = file_at w p \<or> file_at w' p = Some b"
proof (cases "create_dir_all (butlast (resolve p)) w")
  case (Pair r1 w1)
  then have same: "file_at w1 p = file_at w p"
    using create_dir_all_files by (fastforce simp: file_at_def)
  show ?thesis
  proof (cases r1)
    case (Inl e)
    then show ?thesis using assms Pair same by (simp add: write_private_def bindM_def)
  next
    case (Inr u)
    then show ?thesis
      using assms Pair same put_file_atomic [of p b w1 r w'] by (simp add: write_private_def bindM_def)
  qed
qed

lemma touches_write_private: "resolve p \<in> K \<Longrightarrow> touches K w (snd (write_private p b w))"
  by (auto simp: write_private_def intro!: touches_bindM touches_put_file)

lemma touches_write_json: "resolve p \<in> K \<Longrightarrow> touches K w (snd (write_json C p x w))"
  by (auto simp: write_json_def intro!: touches_bindM touches_write_private)

lemma write_private_frame:
  "write_private p b w = (r, w') \<Longrightarrow> resolve q \<noteq> resolve p \<Longrightarrow> file_at w' q = file_at w q"
  using touches_write_private [of p "{resolve p}" w b] touches_file_at [of "{resolve p}" w w' q] by simp

lemma write_private_supply: "write_private p b w = (r, w') \<Longrightarrow> hot_supply w' = hot_supply w"
  by (auto simp: write_private_def bindM_def dest!: create_dir_all_files put_file_supply
      split: prod.splits sum.splits)

locale store =
  fixes lawful :: "'c \<Rightarrow> bool"
    and put :: "'c \<Rightarrow> path \<Rightarrow> 'a \<Rightarrow> ('b, unit) io"
    and fetch :: "'c \<Rightarrow> path \<Rightarrow> 'b world \<Rightarrow> 'a result"
  assumes fetch_put: "lawful c \<Longrightarrow> put c p x w = (Inr (), w') \<Longrightarrow> fetch c p w' = Inr x"
    and fetch_other: "put c p x w = (r, w') \<Longrightarrow> resolve q \<noteq> resolve p \<Longrightarrow> fetch c q w' = fetch c q w"
    and put_atomic: "lawful c \<Longrightarrow> put c p x w = (r, w') \<Longrightarrow>
      fetch c p w' = fetch c p w \<or> fetch c p w' = Inr x"
begin

lemma fetch_after_forM_other:
  "forM xs (\<lambda>(p, x). put c p x) w = (r, w') \<Longrightarrow> resolve q \<notin> (\<lambda>(p, _). resolve p) ` set xs \<Longrightarrow>
   fetch c q w' = fetch c q w"
proof (induction xs arbitrary: w)
  case Nil
  then show ?case by simp
next
  case (Cons a xs)
  obtain p x where a: "a = (p, x)" by (cases a)
  obtain r1 w1 where p: "put c p x w = (r1, w1)" by (cases "put c p x w")
  have "fetch c q w1 = fetch c q w"
    using fetch_other [OF p] Cons.prems(2) a by auto
  then show ?case
    using Cons p a by (cases r1) (auto simp: bindM_def)
qed

lemma fetch_after_forM:
  "lawful c \<Longrightarrow> forM xs (\<lambda>(p, x). put c p x) w = (Inr (), w') \<Longrightarrow>
   distinct (map (\<lambda>(p, _). resolve p) xs) \<Longrightarrow> (p, x) \<in> set xs \<Longrightarrow> fetch c p w' = Inr x"
proof (induction xs arbitrary: w)
  case Nil
  then show ?case by simp
next
  case (Cons a xs)
  obtain p' x' where a: "a = (p', x')" by (cases a)
  obtain w1 where p: "put c p' x' w = (Inr (), w1)"
    and rest: "forM xs (\<lambda>(p, x). put c p x) w1 = (Inr (), w')"
    using Cons.prems(2) a by auto
  show ?case
  proof (cases "(p, x) \<in> set xs")
    case True
    then show ?thesis using Cons.IH [OF Cons.prems(1) rest] Cons.prems(3) by simp
  next
    case False
    then have px: "p = p'" "x = x'" using Cons.prems(4) a by auto
    have "resolve p' \<notin> (\<lambda>(p, _). resolve p) ` set xs" using Cons.prems(3) a by simp
    then show ?thesis
      using fetch_after_forM_other [OF rest] fetch_put [OF Cons.prems(1) p] px by simp
  qed
qed

end

interpretation json: store codec_ok write_json read_json
proof
  fix c :: "('a, 'b) codec" and p x and w w' :: "'a world" and r q
  show "read_json c p w' = Inr x" if "codec_ok c" "write_json c p x w = (Inr (), w')"
    using that write_private_Inr [of p _ w w' p]
    by (auto simp: write_json_def read_json_def codec_ok_def read_file_def)
  show "read_json c q w' = read_json c q w"
    if "write_json c p x w = (r, w')" "resolve q \<noteq> resolve p"
  proof -
    have "touches {resolve p} w w'"
      using touches_write_json [of p "{resolve p}" w c x] that(1) by simp
    then have "file_at w' q = file_at w q"
      using that(2) touches_file_at by blast
    then show ?thesis by (simp add: read_json_def read_file_def)
  qed
  show "read_json c p w' = read_json c p w \<or> read_json c p w' = Inr x"
    if "codec_ok c" "write_json c p x w = (r, w')"
  proof (cases "to_json c x")
    case None
    then show ?thesis using that by (simp add: write_json_def bindM_def)
  next
    case (Some b)
    then have "write_private p b w = (r, w')" using that(2) by (simp add: write_json_def)
    then show ?thesis
      using write_private_atomic [of p b w r w'] that(1) Some
      by (auto simp: read_json_def read_file_def codec_ok_def)
  qed
qed

section \<open>Networks\<close>

lemma parse_network_name_of:
  "validate_supported_network n = Inr () \<Longrightarrow> parse_network_name (network_name n) = Inr n"
  by (cases n) (auto simp: validate_supported_network_def parse_network_name_def network_name_def)

lemma parse_network_name_supported:
  "parse_network_name s = Inr n \<Longrightarrow> validate_supported_network n = Inr ()"
  by (auto simp: validate_supported_network_def parse_network_name_def split: if_splits)

end
