(* ===== verification/Transactions.thy ===== *)
theory Transactions
  imports Policy
begin

text \<open>
  \<^verbatim>\<open>src/core/transactions.rs\<close>: building PSBTs for the vault, the controller and mixed
  policy transactions, signing and verifying script-path inputs, size estimation, and the
  controller revocation transaction.

  A function that takes \<^verbatim>\<open>&mut Psbt\<close> returns the updated PSBT; on an error its callers
  drop the PSBT, so the error value carries none. Sets of indexes are the sets of the index lists.
\<close>

section \<open>Building PSBTs\<close>

definition set_input :: "psbt \<Rightarrow> nat \<Rightarrow> psbt_input \<Rightarrow> psbt" where
  "set_input p i inp = p\<lparr>psbt_inputs := (psbt_inputs p)[i := inp]\<rparr>"

fun fill_inputs :: "lib \<Rightarrow> (nat \<Rightarrow> descriptor) \<Rightarrow> nat \<Rightarrow> txout list \<Rightarrow> psbt \<Rightarrow> psbt result" where
  "fill_inputs L role i [] p = Inr p"
| "fill_inputs L role i (prevout # rest) p =
     bind_result (index (psbt_inputs p) i) (\<lambda>inp.
     bind_result (ok_or (update_input L
         (set_input p i (inp\<lparr>witness_utxo := Some prevout, sighash_type := Some SighashDefault\<rparr>))
         i (role i)) (Lib PsbtUpdateError)) (\<lambda>p'.
     fill_inputs L role (Suc i) rest p'))"

definition create_vault_psbt :: "lib \<Rightarrow> transaction \<Rightarrow> txout list \<Rightarrow> vault_policy \<Rightarrow> psbt result" where
  "create_vault_psbt L transaction prevouts policy =
     (if length (tx_input transaction) \<noteq> length prevouts then Inl (Tx InputPrevoutMismatch)
      else bind_result (ok_or (from_unsigned_tx L transaction) (Lib PsbtCreateError)) (\<lambda>psbt.
           bind_result (vault_definite_descriptor L policy) (\<lambda>descriptor.
           fill_inputs L (\<lambda>_. descriptor) 0 prevouts psbt)))"

definition create_policy_psbt ::
  "lib \<Rightarrow> transaction \<Rightarrow> txout list \<Rightarrow> nat list \<Rightarrow> nat list \<Rightarrow> vault_policy \<Rightarrow> controller_policy \<Rightarrow> psbt result"
where
  "create_policy_psbt L transaction prevouts vault_input_indexes controller_input_indexes vault controller =
     (if length (tx_input transaction) \<noteq> length prevouts then Inl (Tx InputPrevoutMismatch)
      else
       let vault_indexes = set vault_input_indexes; controller_indexes = set controller_input_indexes;
           n = length (tx_input transaction) in
       if card vault_indexes \<noteq> length vault_input_indexes
          \<or> card controller_indexes \<noteq> length controller_input_indexes
          \<or> vault_indexes \<inter> controller_indexes \<noteq> {}
          \<or> card vault_indexes + card controller_indexes \<noteq> n
          \<or> (\<exists>i \<in> vault_indexes \<union> controller_indexes. n \<le> i)
       then Inl (Tx PsbtPartition)
       else bind_result (ok_or (from_unsigned_tx L transaction) (Lib PsbtCreateError)) (\<lambda>psbt.
            bind_result (vault_definite_descriptor L vault) (\<lambda>vault_descriptor.
            bind_result (controller_definite_descriptor L controller) (\<lambda>controller_descriptor.
            fill_inputs L (\<lambda>i. if i \<in> vault_indexes then vault_descriptor else controller_descriptor)
              0 prevouts psbt))))"

definition create_controller_psbt :: "lib \<Rightarrow> transaction \<Rightarrow> txout list \<Rightarrow> controller_policy \<Rightarrow> psbt result" where
  "create_controller_psbt L transaction prevouts controller =
     (if length (tx_input transaction) \<noteq> length prevouts then Inl (Tx InputPrevoutMismatch)
      else bind_result (ok_or (from_unsigned_tx L transaction) (Lib PsbtCreateError)) (\<lambda>psbt.
           bind_result (controller_definite_descriptor L controller) (\<lambda>descriptor.
           fill_inputs L (\<lambda>_. descriptor) 0 prevouts psbt)))"

section \<open>Size estimation\<close>

definition zero_signature :: bytes where
  "zero_signature = replicate 64 0"

definition signature_count :: "spend_path \<Rightarrow> nat" where
  "signature_count path = (case path of Cooperative \<Rightarrow> 2 | PhoneRecovery \<Rightarrow> 1 | HwwRecovery \<Rightarrow> 1)"

definition leaf_witness :: "nat \<Rightarrow> 'p policy_leaf \<Rightarrow> bytes list" where
  "leaf_witness n leaf = replicate n zero_signature @ [leaf_script leaf, leaf_control_block leaf]"

definition estimate_vault_vsize :: "lib \<Rightarrow> transaction \<Rightarrow> vault_policy \<Rightarrow> spend_path \<Rightarrow> nat result" where
  "estimate_vault_vsize L transaction policy path =
     bind_result (vault_leaf L policy path) (\<lambda>leaf.
     Inr (vsize L (transaction\<lparr>tx_input :=
       map (\<lambda>inp. inp\<lparr>tx_witness := leaf_witness (signature_count path) leaf\<rparr>) (tx_input transaction)\<rparr>)))"

fun estimate_roles ::
  "vault_leaf \<Rightarrow> controller_leaf \<Rightarrow> nat \<Rightarrow> nat set \<Rightarrow> nat set \<Rightarrow> nat \<Rightarrow> txin list \<Rightarrow> txin list result"
where
  "estimate_roles vl cl n vs cs i [] = Inr []"
| "estimate_roles vl cl n vs cs i (inp # rest) =
     (if i \<in> vs then bind_result (estimate_roles vl cl n vs cs (Suc i) rest)
                       (\<lambda>r. Inr (inp\<lparr>tx_witness := leaf_witness n vl\<rparr> # r))
      else if i \<in> cs then bind_result (estimate_roles vl cl n vs cs (Suc i) rest)
                       (\<lambda>r. Inr (inp\<lparr>tx_witness := leaf_witness 1 cl\<rparr> # r))
      else Inl (Tx VsizeNoRole))"

definition estimate_policy_vsize ::
  "lib \<Rightarrow> transaction \<Rightarrow> vault_policy \<Rightarrow> spend_path \<Rightarrow> nat list \<Rightarrow> controller_policy \<Rightarrow> controller_path
   \<Rightarrow> nat list \<Rightarrow> nat result"
where
  "estimate_policy_vsize L transaction vault vault_path vault_input_indexes
      controller controller_path controller_input_indexes =
     bind_result (vault_leaf L vault vault_path) (\<lambda>vl.
     bind_result (controller_leaf L controller controller_path) (\<lambda>cl.
       let vs = set vault_input_indexes; cs = set controller_input_indexes in
       if vs \<inter> cs \<noteq> {} \<or> card vs + card cs \<noteq> length (tx_input transaction)
       then Inl (Tx VsizePartition)
       else bind_result (estimate_roles vl cl (signature_count vault_path) vs cs 0 (tx_input transaction))
              (\<lambda>inputs. Inr (vsize L (transaction\<lparr>tx_input := inputs\<rparr>)))))"

definition estimate_controller_vsize :: "lib \<Rightarrow> transaction \<Rightarrow> controller_policy \<Rightarrow> controller_path \<Rightarrow> nat result" where
  "estimate_controller_vsize L transaction controller path =
     bind_result (controller_leaf L controller path) (\<lambda>leaf.
     Inr (vsize L (transaction\<lparr>tx_input :=
       map (\<lambda>inp. inp\<lparr>tx_witness := leaf_witness 1 leaf\<rparr>) (tx_input transaction)\<rparr>)))"

definition witness_for_path :: "lib \<Rightarrow> vault_policy \<Rightarrow> spend_path \<Rightarrow> bytes list \<Rightarrow> bytes list result" where
  "witness_for_path L policy path signatures_in_script_order =
     bind_result (vault_leaf L policy path) (\<lambda>leaf.
     Inr (rev signatures_in_script_order @ [leaf_script leaf, leaf_control_block leaf]))"

section \<open>Controller revocation\<close>

definition plain_input :: "outpoint \<Rightarrow> sequence \<Rightarrow> txin" where
  "plain_input outp s =
     \<lparr>previous_output = outp, script_sig = [], tx_sequence = s, tx_witness = []\<rparr>"

definition revocation_transaction :: "vault_utxo list \<Rightarrow> script \<Rightarrow> nat \<Rightarrow> transaction" where
  "revocation_transaction controller_utxos destination amount =
     \<lparr>tx_version = version_two, tx_lock_time = lock_time_zero,
      tx_input = map (\<lambda>u. plain_input (utxo_outpoint u) sequence_rbf) controller_utxos,
      tx_output = [\<lparr>txo_value = amount, script_pubkey = destination\<rparr>]\<rparr>"

definition build_controller_revocation_psbt ::
  "lib \<Rightarrow> vault_utxo list \<Rightarrow> script \<Rightarrow> nat \<Rightarrow> controller_policy \<Rightarrow> (psbt \<times> nat) result"
where
  "build_controller_revocation_psbt L controller_utxos destination fee_rate_sat_vb controller =
     (if controller_utxos = [] then Inl (Tx NoLiveControllers)
      else if \<exists>u \<in> set controller_utxos. utxo_script u \<noteq> addr_script (cp_address controller)
      then Inl (Tx RevocationScript)
      else
       bind_result (checked_sum_by (Tx RevocationOverflow) utxo_value controller_utxos) (\<lambda>total_input.
       bind_result (estimate_controller_vsize L (revocation_transaction controller_utxos destination 1)
                      controller ControllerPhone) (\<lambda>size.
       bind_result (ok_or (checked_mul size fee_rate_sat_vb) (Tx RevocationFeeOverflow)) (\<lambda>fee_sats.
       bind_result (ok_or (checked_sub total_input fee_sats) (Tx RevocationCannotPay)) (\<lambda>change_sats.
       if change_sats < minimal_non_dust L destination then Inl (Tx RevocationDust)
       else bind_result (create_controller_psbt L
              (revocation_transaction controller_utxos destination change_sats)
              (map utxo_txout controller_utxos) controller) (\<lambda>psbt.
            Inr (psbt, fee_sats)))))))"

section \<open>Signing and verification\<close>

fun validate_sighash_types :: "psbt_input list \<Rightarrow> unit result" where
  "validate_sighash_types [] = Inr ()"
| "validate_sighash_types (inp # rest) =
     (case sighash_type inp of None \<Rightarrow> validate_sighash_types rest
      | Some t \<Rightarrow> if t \<noteq> SighashDefault then Inl (Sign MustUseDefaultSighash)
                 else validate_sighash_types rest)"

definition validate_default_sighashes :: "psbt \<Rightarrow> unit result" where
  "validate_default_sighashes psbt = validate_sighash_types (psbt_inputs psbt)"

definition tap_message :: "lib \<Rightarrow> psbt \<Rightarrow> nat \<Rightarrow> leaf_hash \<Rightarrow> message result" where
  "tap_message L psbt i h =
     bind_result (ok_or (psbt_sighash L psbt i h) (Lib SighashError)) (\<lambda>m.
     case m of TapSighash s \<Rightarrow> Inr s | EcdsaSighash \<Rightarrow> Inl (Sign NotTaprootSighash))"

definition insert_sig :: "psbt \<Rightarrow> nat \<Rightarrow> xonly \<times> leaf_hash \<Rightarrow> tap_signature \<Rightarrow> psbt" where
  "insert_sig psbt i key sig =
     (let inp = psbt_inputs psbt ! i
      in set_input psbt i (inp\<lparr>tap_script_sigs := AList.update key sig (tap_script_sigs inp)\<rparr>))"

fun sign_leaf_inputs :: "lib \<Rightarrow> leaf_hash \<Rightarrow> keypair \<Rightarrow> nat list \<Rightarrow> psbt \<Rightarrow> psbt result" where
  "sign_leaf_inputs L h keypair [] psbt = Inr psbt"
| "sign_leaf_inputs L h keypair (i # is) psbt =
     (if length (psbt_inputs psbt) \<le> i then Inl (Sign SignIndexOutOfRange)
      else bind_result (ok_or (map_of (tap_key_origins (psbt_inputs psbt ! i)) (keypair_xonly L keypair))
                          (Sign SignKeyNotInInput)) (\<lambda>origins.
       if h \<notin> set origins then Inl (Sign SignKeyNotAuthorized)
       else bind_result (tap_message L psbt i h) (\<lambda>m.
            sign_leaf_inputs L h keypair is
              (insert_sig psbt i (keypair_xonly L keypair, h)
                 \<lparr>sig_value = sign_schnorr L m keypair, sig_type = SighashDefault\<rparr>))))"

definition sign_vault_psbt_inputs ::
  "lib \<Rightarrow> psbt \<Rightarrow> vault_policy \<Rightarrow> spend_path \<Rightarrow> keypair \<Rightarrow> nat list \<Rightarrow> psbt result" where
  "sign_vault_psbt_inputs L psbt policy path keypair input_indexes =
     bind_result (validate_default_sighashes psbt) (\<lambda>_.
     bind_result (vault_leaf L policy path) (\<lambda>leaf.
     sign_leaf_inputs L (leaf_hash_value leaf) keypair input_indexes psbt))"

definition sign_vault_psbt :: "lib \<Rightarrow> psbt \<Rightarrow> vault_policy \<Rightarrow> spend_path \<Rightarrow> keypair \<Rightarrow> psbt result" where
  "sign_vault_psbt L psbt policy path keypair =
     sign_vault_psbt_inputs L psbt policy path keypair [0..<length (psbt_inputs psbt)]"

definition sign_controller_psbt_inputs ::
  "lib \<Rightarrow> psbt \<Rightarrow> controller_policy \<Rightarrow> controller_path \<Rightarrow> keypair \<Rightarrow> nat list \<Rightarrow> psbt result" where
  "sign_controller_psbt_inputs L psbt policy path keypair input_indexes =
     bind_result (validate_default_sighashes psbt) (\<lambda>_.
     bind_result (controller_leaf L policy path) (\<lambda>leaf.
     sign_leaf_inputs L (leaf_hash_value leaf) keypair input_indexes psbt))"

fun verify_leaf_inputs :: "lib \<Rightarrow> leaf_hash \<Rightarrow> xonly \<Rightarrow> nat list \<Rightarrow> psbt \<Rightarrow> unit result" where
  "verify_leaf_inputs L h pubkey [] psbt = Inr ()"
| "verify_leaf_inputs L h pubkey (i # is) psbt =
     (if length (psbt_inputs psbt) \<le> i then Inl (Sign VerifyIndexOutOfRange)
      else bind_result (ok_or (map_of (tap_script_sigs (psbt_inputs psbt ! i)) (pubkey, h))
                          (Sign MissingSignature)) (\<lambda>sig.
       if sig_type sig \<noteq> SighashDefault then Inl (Sign NonDefaultSignature)
       else bind_result (tap_message L psbt i h) (\<lambda>m.
            if \<not> verify_schnorr L (sig_value sig) m pubkey then Inl (Sign InvalidSignature)
            else verify_leaf_inputs L h pubkey is psbt)))"

definition verify_vault_psbt_signatures ::
  "lib \<Rightarrow> psbt \<Rightarrow> vault_policy \<Rightarrow> spend_path \<Rightarrow> xonly \<Rightarrow> nat list \<Rightarrow> unit result" where
  "verify_vault_psbt_signatures L psbt policy path signing_pubkey input_indexes =
     bind_result (validate_default_sighashes psbt) (\<lambda>_.
     bind_result (vault_leaf L policy path) (\<lambda>leaf.
     verify_leaf_inputs L (leaf_hash_value leaf) signing_pubkey input_indexes psbt))"

definition verify_vault_psbt_signature ::
  "lib \<Rightarrow> psbt \<Rightarrow> vault_policy \<Rightarrow> spend_path \<Rightarrow> xonly \<Rightarrow> unit result" where
  "verify_vault_psbt_signature L psbt policy path signing_pubkey =
     verify_vault_psbt_signatures L psbt policy path signing_pubkey [0..<length (psbt_inputs psbt)]"

definition verify_controller_psbt_signatures ::
  "lib \<Rightarrow> psbt \<Rightarrow> controller_policy \<Rightarrow> controller_path \<Rightarrow> xonly \<Rightarrow> nat list \<Rightarrow> unit result" where
  "verify_controller_psbt_signatures L psbt policy path signing_pubkey input_indexes =
     bind_result (validate_default_sighashes psbt) (\<lambda>_.
     bind_result (controller_leaf L policy path) (\<lambda>leaf.
     verify_leaf_inputs L (leaf_hash_value leaf) signing_pubkey input_indexes psbt))"

definition finalize_vault_psbt :: "lib \<Rightarrow> psbt \<Rightarrow> transaction result" where
  "finalize_vault_psbt L psbt =
     bind_result (validate_default_sighashes psbt) (\<lambda>_.
     bind_result (ok_or (finalize_all L psbt) (Lib FinalizeError)) (\<lambda>finalized.
     ok_or (extract_tx L finalized) (Lib ExtractError)))"

definition signed_vsize :: "lib \<Rightarrow> transaction \<Rightarrow> nat" where
  "signed_vsize L transaction = vsize L transaction"

definition keypair_pubkey :: "lib \<Rightarrow> keypair \<Rightarrow> xonly" where
  "keypair_pubkey L keypair = keypair_xonly L keypair"

section \<open>PSBT construction keeps the transaction\<close>

lemma set_input_simps [simp]:
  "unsigned_tx (set_input p i x) = unsigned_tx p"
  "psbt_inputs (set_input p i x) = (psbt_inputs p)[i := x]"
  by (simp_all add: set_input_def)

definition psbt_describes :: "psbt \<Rightarrow> transaction \<Rightarrow> txout list \<Rightarrow> bool" where
  "psbt_describes p tx prevouts \<longleftrightarrow>
     unsigned_tx p = tx \<and> length (psbt_inputs p) = length prevouts
   \<and> length (tx_input tx) = length prevouts
   \<and> (\<forall>i < length prevouts. witness_utxo (psbt_inputs p ! i) = Some (prevouts ! i)
        \<and> sighash_type (psbt_inputs p ! i) = Some SighashDefault
        \<and> tap_script_sigs (psbt_inputs p ! i) = [])"

lemma update_input_frame:
  assumes "lib_psbt_laws L" and "update_input L p i d = Some q"
  shows "unsigned_tx q = unsigned_tx p" and "length (psbt_inputs q) = length (psbt_inputs p)"
    and "j < length (psbt_inputs p) \<Longrightarrow> same_psbt_data (psbt_inputs q ! j) (psbt_inputs p ! j)"
    and "j < length (psbt_inputs p) \<Longrightarrow> j \<noteq> i \<Longrightarrow> psbt_inputs q ! j = psbt_inputs p ! j"
  using assms unfolding lib_psbt_laws_def by blast+

lemma fill_inputs_describes:
  assumes "lib_psbt_laws L" and "fill_inputs L role i prevouts p = Inr q"
    and "length (psbt_inputs p) = i + length prevouts"
    and "\<forall>j < length (psbt_inputs p). tap_script_sigs (psbt_inputs p ! j) = []"
  shows "unsigned_tx q = unsigned_tx p \<and> length (psbt_inputs q) = length (psbt_inputs p)
    \<and> (\<forall>j < i. psbt_inputs q ! j = psbt_inputs p ! j)
    \<and> (\<forall>j < length prevouts. witness_utxo (psbt_inputs q ! (i + j)) = Some (prevouts ! j)
        \<and> sighash_type (psbt_inputs q ! (i + j)) = Some SighashDefault
        \<and> tap_script_sigs (psbt_inputs q ! (i + j)) = [])"
  using assms(2-)
proof (induction prevouts arbitrary: i p)
  case Nil
  then show ?case by simp
next
  case (Cons prevout rest)
  let ?x = "(psbt_inputs p ! i)\<lparr>witness_utxo := Some prevout, sighash_type := Some SighashDefault\<rparr>"
  obtain p' where upd: "update_input L (set_input p i ?x) i (role i) = Some p'"
    and fill: "fill_inputs L role (Suc i) rest p' = Inr q"
    using Cons.prems by auto
  note frame = update_input_frame [OF assms(1) upd]
  have same: "same_psbt_data (psbt_inputs p' ! j) (((psbt_inputs p)[i := ?x]) ! j)"
    if "j < length (psbt_inputs p)" for j
    using frame(3) that by simp
  have sigs: "\<forall>j < length (psbt_inputs p'). tap_script_sigs (psbt_inputs p' ! j) = []"
    using same Cons.prems frame(2)
    by (auto simp: same_psbt_data_def nth_list_update split: if_splits)
  have ih: "unsigned_tx q = unsigned_tx p' \<and> length (psbt_inputs q) = length (psbt_inputs p')
      \<and> (\<forall>j < Suc i. psbt_inputs q ! j = psbt_inputs p' ! j)
      \<and> (\<forall>j < length rest. witness_utxo (psbt_inputs q ! (Suc i + j)) = Some (rest ! j)
          \<and> sighash_type (psbt_inputs q ! (Suc i + j)) = Some SighashDefault
          \<and> tap_script_sigs (psbt_inputs q ! (Suc i + j)) = [])"
    using Cons.IH [OF fill _ sigs] Cons.prems(2) frame(2) by simp
  have at_i: "witness_utxo (psbt_inputs p' ! i) = Some prevout
      \<and> sighash_type (psbt_inputs p' ! i) = Some SighashDefault"
    using same [of i] Cons.prems(2) by (simp add: same_psbt_data_def)
  have at_j: "witness_utxo (psbt_inputs q ! (i + j)) = Some ((prevout # rest) ! j)
      \<and> sighash_type (psbt_inputs q ! (i + j)) = Some SighashDefault
      \<and> tap_script_sigs (psbt_inputs q ! (i + j)) = []" if "j < length (prevout # rest)" for j
  proof (cases j)
    case 0
    then show ?thesis using ih at_i sigs frame(2) Cons.prems(2) by simp
  next
    case (Suc k)
    then show ?thesis using ih that by simp
  qed
  have "\<forall>j < i. psbt_inputs p' ! j = psbt_inputs p ! j"
    using frame(4) Cons.prems(2) by simp
  then show ?case using ih at_j frame(1,2) by simp
qed

lemma fresh_psbt_describes:
  assumes "lib_psbt_laws L" and "from_unsigned_tx L tx = Some p0"
    and "length (tx_input tx) = length prevouts" and "fill_inputs L role 0 prevouts p0 = Inr p"
  shows "psbt_describes p tx prevouts"
proof -
  have "unsigned_tx p0 = tx \<and> length (psbt_inputs p0) = length (tx_input tx)
      \<and> (\<forall>i \<in> set (psbt_inputs p0). tap_script_sigs i = [])"
    using assms(1,2) unfolding lib_psbt_laws_def by blast
  then show ?thesis
    using fill_inputs_describes [OF assms(1,4)] assms(3)
    by (simp add: psbt_describes_def all_set_conv_all_nth)
qed

lemma create_vault_psbt_describes:
  "lib_psbt_laws L \<Longrightarrow> create_vault_psbt L tx prevouts policy = Inr p \<Longrightarrow> psbt_describes p tx prevouts"
  by (auto simp: create_vault_psbt_def split: if_splits intro: fresh_psbt_describes)

lemma create_controller_psbt_describes:
  "lib_psbt_laws L \<Longrightarrow> create_controller_psbt L tx prevouts policy = Inr p \<Longrightarrow>
   psbt_describes p tx prevouts"
  by (auto simp: create_controller_psbt_def split: if_splits intro: fresh_psbt_describes)

lemma create_policy_psbt_describes:
  "lib_psbt_laws L \<Longrightarrow> create_policy_psbt L tx prevouts vs cs vault controller = Inr p \<Longrightarrow>
   psbt_describes p tx prevouts"
  by (auto simp: create_policy_psbt_def Let_def split: if_splits intro: fresh_psbt_describes)

lemma validate_sighash_types_eq:
  "validate_sighash_types is =
     (if \<forall>t \<in> set (map sighash_type is). t = None \<or> t = Some SighashDefault then Inr ()
      else Inl (Sign MustUseDefaultSighash))"
  by (induction "is" rule: validate_sighash_types.induct) (auto split: option.splits)

lemma validate_sighash_types_iff:
  "validate_sighash_types is = Inr () \<longleftrightarrow>
     (\<forall>i \<in> set is. sighash_type i = None \<or> sighash_type i = Some SighashDefault)"
  by (simp add: validate_sighash_types_eq)

lemma describes_default_sighashes:
  "psbt_describes p tx prevouts \<Longrightarrow> validate_default_sighashes p = Inr ()"
  by (auto simp: validate_default_sighashes_def validate_sighash_types_iff psbt_describes_def
      in_set_conv_nth)

section \<open>Signatures\<close>

text \<open>
  \<open>valid_sig\<close> is what a verifier needs of one input. Verification of a list of inputs is
  exactly that of each of them, and signing adds valid signatures without touching anything else
  and without invalidating any signature already there.
\<close>

definition valid_sig :: "lib \<Rightarrow> psbt \<Rightarrow> xonly \<Rightarrow> leaf_hash \<Rightarrow> nat \<Rightarrow> bool" where
  "valid_sig L p pubkey h i \<longleftrightarrow> i < length (psbt_inputs p) \<and>
     (\<exists>sig m. map_of (tap_script_sigs (psbt_inputs p ! i)) (pubkey, h) = Some sig
        \<and> sig_type sig = SighashDefault \<and> tap_message L p i h = Inr m
        \<and> verify_schnorr L (sig_value sig) m pubkey)"

definition extends_sigs :: "lib \<Rightarrow> psbt \<Rightarrow> psbt \<Rightarrow> bool" where
  "extends_sigs L p q \<longleftrightarrow> clear_sigs q = clear_sigs p
     \<and> (\<forall>pubkey h i. valid_sig L p pubkey h i \<longrightarrow> valid_sig L q pubkey h i)"

lemma extends_sigs_refl: "extends_sigs L p p"
  by (simp add: extends_sigs_def)

lemma extends_sigs_trans: "extends_sigs L p q \<Longrightarrow> extends_sigs L q r \<Longrightarrow> extends_sigs L p r"
  by (simp add: extends_sigs_def)

lemma verify_leaf_inputs_iff:
  "verify_leaf_inputs L h pubkey is p = Inr () \<longleftrightarrow> (\<forall>i \<in> set is. valid_sig L p pubkey h i)"
  by (induction L h pubkey "is" p rule: verify_leaf_inputs.induct) (auto simp: valid_sig_def)

lemma clear_sigs_inputs:
  assumes "clear_sigs q = clear_sigs p"
  shows "length (psbt_inputs q) = length (psbt_inputs p)"
    and "i < length (psbt_inputs p) \<Longrightarrow>
      (psbt_inputs q ! i)\<lparr>tap_script_sigs := []\<rparr> = (psbt_inputs p ! i)\<lparr>tap_script_sigs := []\<rparr>"
proof -
  have eq: "map (\<lambda>i. i\<lparr>tap_script_sigs := []\<rparr>) (psbt_inputs q)
      = map (\<lambda>i. i\<lparr>tap_script_sigs := []\<rparr>) (psbt_inputs p)"
    using assms by (cases p; cases q) (simp add: clear_sigs_def)
  then show len: "length (psbt_inputs q) = length (psbt_inputs p)"
    by (metis length_map)
  show "(psbt_inputs q ! i)\<lparr>tap_script_sigs := []\<rparr> = (psbt_inputs p ! i)\<lparr>tap_script_sigs := []\<rparr>"
    if "i < length (psbt_inputs p)"
    using eq len that by (metis nth_map)
qed

lemma clear_sigs_fields:
  assumes "clear_sigs q = clear_sigs p" and "i < length (psbt_inputs p)"
  shows "witness_utxo (psbt_inputs q ! i) = witness_utxo (psbt_inputs p ! i)"
    and "sighash_type (psbt_inputs q ! i) = sighash_type (psbt_inputs p ! i)"
    and "tap_key_origins (psbt_inputs q ! i) = tap_key_origins (psbt_inputs p ! i)"
  using clear_sigs_inputs(2) [OF assms]
  by (cases "psbt_inputs q ! i"; cases "psbt_inputs p ! i"; simp)+

lemma clear_sigs_default_sighashes:
  "clear_sigs q = clear_sigs p \<Longrightarrow> validate_default_sighashes q = validate_default_sighashes p"
proof -
  assume eq: "clear_sigs q = clear_sigs p"
  have "map sighash_type (psbt_inputs q) = map sighash_type (psbt_inputs p)"
    by (rule nth_equalityI) (simp_all add: clear_sigs_inputs(1) [OF eq] clear_sigs_fields(2) [OF eq])
  then show ?thesis
    unfolding validate_default_sighashes_def validate_sighash_types_eq by presburger
qed

lemma insert_sig_inputs [simp]:
  "psbt_inputs (insert_sig p i key sig) =
     (psbt_inputs p)[i := (psbt_inputs p ! i)\<lparr>tap_script_sigs :=
        AList.update key sig (tap_script_sigs (psbt_inputs p ! i))\<rparr>]"
  by (simp add: insert_sig_def Let_def)

lemma clear_sigs_insert_sig [simp]: "clear_sigs (insert_sig p i key sig) = clear_sigs p"
proof (cases "i < length (psbt_inputs p)")
  case True
  then show ?thesis
    by (simp add: clear_sigs_def insert_sig_def Let_def set_input_def map_update list_update_same_conv)
next
  case False
  then show ?thesis by (simp add: insert_sig_def Let_def set_input_def list_update_beyond)
qed

lemma tap_message_clear:
  "lib_sign_laws L \<Longrightarrow> clear_sigs q = clear_sigs p \<Longrightarrow> tap_message L q i h = tap_message L p i h"
proof -
  assume "lib_sign_laws L" and "clear_sigs q = clear_sigs p"
  then have "psbt_sighash L q i h = psbt_sighash L p i h"
    unfolding lib_sign_laws_def by blast
  then show ?thesis by (simp add: tap_message_def)
qed

lemma valid_sig_insert:
  assumes "lib_sign_laws L" and "i < length (psbt_inputs p)" and "tap_message L p i h = Inr m"
    and q_def: "q = insert_sig p i (keypair_xonly L k, h)
      \<lparr>sig_value = sign_schnorr L m k, sig_type = SighashDefault\<rparr>"
  shows "valid_sig L q (keypair_xonly L k) h i" and "extends_sigs L p q"
proof -
  have msg: "tap_message L q j g = tap_message L p j g" for j g
    by (rule tap_message_clear [OF assms(1)]) (simp add: q_def)
  have ok: "verify_schnorr L (sign_schnorr L m k) m (keypair_xonly L k)"
    using assms(1) unfolding lib_sign_laws_def by blast
  show mine: "valid_sig L q (keypair_xonly L k) h i"
    using assms(2,3) ok msg by (simp add: valid_sig_def q_def update_conv)
  have "valid_sig L q pk g j" if "valid_sig L p pk g j" for pk g j
  proof (cases "j = i \<and> (pk, g) = (keypair_xonly L k, h)")
    case True
    then show ?thesis using mine by simp
  next
    case False
    then show ?thesis
      using that msg assms(2)
      by (auto simp: valid_sig_def q_def update_conv nth_list_update)
  qed
  then show "extends_sigs L p q" by (simp add: extends_sigs_def q_def)
qed

lemma sign_leaf_inputs_clear:
  "sign_leaf_inputs L h k is p = Inr q \<Longrightarrow> clear_sigs q = clear_sigs p"
  by (induction L h k "is" p rule: sign_leaf_inputs.induct) (auto split: if_splits)

lemma sign_leaf_inputs_sound:
  assumes "lib_sign_laws L" and "sign_leaf_inputs L h k is p = Inr q"
  shows "extends_sigs L p q \<and> (\<forall>i \<in> set is. valid_sig L q (keypair_xonly L k) h i)"
  using assms(2)
proof (induction "is" arbitrary: p)
  case Nil
  then show ?case by (simp add: extends_sigs_refl)
next
  case (Cons i js)
  obtain m where i: "i < length (psbt_inputs p)" and m: "tap_message L p i h = Inr m"
    and rest: "sign_leaf_inputs L h k js (insert_sig p i (keypair_xonly L k, h)
        \<lparr>sig_value = sign_schnorr L m k, sig_type = SighashDefault\<rparr>) = Inr q"
    using Cons.prems by (auto split: if_splits)
  note step = valid_sig_insert [OF assms(1) i m refl, of k]
  have "extends_sigs L p q"
    using Cons.IH [OF rest] step(2) extends_sigs_trans by blast
  moreover have "valid_sig L q (keypair_xonly L k) h i"
    using Cons.IH [OF rest] step(1) by (simp add: extends_sigs_def)
  ultimately show ?case using Cons.IH [OF rest] by simp
qed

definition signable :: "lib \<Rightarrow> psbt \<Rightarrow> xonly \<Rightarrow> leaf_hash \<Rightarrow> nat \<Rightarrow> bool" where
  "signable L p pubkey h i \<longleftrightarrow> i < length (psbt_inputs p)
     \<and> (\<exists>origins. map_of (tap_key_origins (psbt_inputs p ! i)) pubkey = Some origins \<and> h \<in> set origins)
     \<and> (\<exists>m. tap_message L p i h = Inr m)"

lemma signable_clear:
  "lib_sign_laws L \<Longrightarrow> clear_sigs q = clear_sigs p \<Longrightarrow> signable L q pubkey h i = signable L p pubkey h i"
  using tap_message_clear [of L q p i h] clear_sigs_inputs(1) [of q p] clear_sigs_fields(3) [of q p i]
  by (cases "i < length (psbt_inputs p)") (simp_all add: signable_def)

lemma sign_leaf_inputs_total:
  assumes "lib_sign_laws L" and "\<forall>i \<in> set is. signable L p (keypair_xonly L k) h i"
  shows "\<exists>q. sign_leaf_inputs L h k is p = Inr q"
  using assms(2)
proof (induction "is" arbitrary: p)
  case Nil
  then show ?case by simp
next
  case (Cons i js)
  obtain origins m where i: "i < length (psbt_inputs p)"
    and "map_of (tap_key_origins (psbt_inputs p ! i)) (keypair_xonly L k) = Some origins"
    and "h \<in> set origins" and "tap_message L p i h = Inr m"
    using Cons.prems by (auto simp: signable_def)
  moreover have "\<forall>j \<in> set js. signable L (insert_sig p i (keypair_xonly L k, h)
      \<lparr>sig_value = sign_schnorr L m k, sig_type = SighashDefault\<rparr>) (keypair_xonly L k) h j"
    using Cons.prems signable_clear [OF assms(1) clear_sigs_insert_sig] by simp
  ultimately show ?case using Cons.IH by simp
qed

text \<open>
  The contract of a script-path signer that the wallets build on, stated once for the vault and
  the controller policies.
\<close>

locale leaf_signer =
  fixes sign :: "lib \<Rightarrow> psbt \<Rightarrow> 'pol \<Rightarrow> 'path \<Rightarrow> keypair \<Rightarrow> nat list \<Rightarrow> psbt result"
    and verify :: "lib \<Rightarrow> psbt \<Rightarrow> 'pol \<Rightarrow> 'path \<Rightarrow> xonly \<Rightarrow> nat list \<Rightarrow> unit result"
  assumes sign_extends:
      "lib_sign_laws L \<Longrightarrow> sign L p pol path k is = Inr q \<Longrightarrow> extends_sigs L p q"
    and sign_verifies:
      "lib_sign_laws L \<Longrightarrow> sign L p pol path k is = Inr q \<Longrightarrow>
       verify L q pol path (keypair_xonly L k) is = Inr ()"
    and verify_extends:
      "extends_sigs L p q \<Longrightarrow> verify L p pol path pubkey is = Inr () \<Longrightarrow>
       verify L q pol path pubkey is = Inr ()"
    and sign_default_only:
      "validate_default_sighashes p = Inl e \<Longrightarrow> sign L p pol path k is = Inl e"
begin

lemma both_signed:
  assumes "lib_sign_laws L"
    and "sign L p pol path k is = Inr q" and "sign L q pol path' k' js = Inr r"
  shows "verify L r pol path (keypair_xonly L k) is = Inr ()
    \<and> verify L r pol path' (keypair_xonly L k') js = Inr ()
    \<and> unsigned_tx r = unsigned_tx p"
proof -
  have pq: "extends_sigs L p q" and qr: "extends_sigs L q r"
    using sign_extends assms by blast+
  have "verify L r pol path (keypair_xonly L k) is = Inr ()"
    using sign_verifies verify_extends qr assms by blast
  moreover have "unsigned_tx r = unsigned_tx p"
    using extends_sigs_trans [OF pq qr] by (simp add: extends_sigs_def clear_sigs_unsigned_tx [of r p])
  ultimately show ?thesis using sign_verifies assms(1,3) by blast
qed

lemma sign_keeps_tx: "lib_sign_laws L \<Longrightarrow> sign L p pol path k is = Inr q \<Longrightarrow> unsigned_tx q = unsigned_tx p"
  using sign_extends [of L p pol path k "is" q] clear_sigs_unsigned_tx [of q p]
  by (simp add: extends_sigs_def)

end

interpretation vault_signer: leaf_signer sign_vault_psbt_inputs verify_vault_psbt_signatures
proof
  fix L p pol path k "is" q pubkey e
  show "extends_sigs L p q"
    if "lib_sign_laws L" "sign_vault_psbt_inputs L p pol path k is = Inr q"
    using that sign_leaf_inputs_sound by (auto simp: sign_vault_psbt_inputs_def)
  show "verify_vault_psbt_signatures L q pol path (keypair_xonly L k) is = Inr ()"
    if laws: "lib_sign_laws L" and signed: "sign_vault_psbt_inputs L p pol path k is = Inr q"
  proof -
    obtain leaf where "validate_default_sighashes p = Inr ()" and leaf: "vault_leaf L pol path = Inr leaf"
      and sign: "sign_leaf_inputs L (leaf_hash_value leaf) k is p = Inr q"
      using signed by (auto simp: sign_vault_psbt_inputs_def)
    then have "validate_default_sighashes q = Inr ()"
      using clear_sigs_default_sighashes [OF sign_leaf_inputs_clear [OF sign]] by simp
    then show ?thesis
      using leaf sign_leaf_inputs_sound [OF laws sign]
      by (simp add: verify_vault_psbt_signatures_def verify_leaf_inputs_iff)
  qed
  show "verify_vault_psbt_signatures L q pol path pubkey is = Inr ()"
    if "extends_sigs L p q" "verify_vault_psbt_signatures L p pol path pubkey is = Inr ()"
    using that clear_sigs_default_sighashes [of q p]
    by (auto simp: verify_vault_psbt_signatures_def verify_leaf_inputs_iff extends_sigs_def)
  show "sign_vault_psbt_inputs L p pol path k is = Inl e"
    if "validate_default_sighashes p = Inl e"
    using that by (simp add: sign_vault_psbt_inputs_def)
qed

interpretation controller_signer: leaf_signer sign_controller_psbt_inputs verify_controller_psbt_signatures
proof
  fix L p pol path k "is" q pubkey e
  show "extends_sigs L p q"
    if "lib_sign_laws L" "sign_controller_psbt_inputs L p pol path k is = Inr q"
    using that sign_leaf_inputs_sound by (auto simp: sign_controller_psbt_inputs_def)
  show "verify_controller_psbt_signatures L q pol path (keypair_xonly L k) is = Inr ()"
    if laws: "lib_sign_laws L" and signed: "sign_controller_psbt_inputs L p pol path k is = Inr q"
  proof -
    obtain leaf where "validate_default_sighashes p = Inr ()" and leaf: "controller_leaf L pol path = Inr leaf"
      and sign: "sign_leaf_inputs L (leaf_hash_value leaf) k is p = Inr q"
      using signed by (auto simp: sign_controller_psbt_inputs_def)
    then have "validate_default_sighashes q = Inr ()"
      using clear_sigs_default_sighashes [OF sign_leaf_inputs_clear [OF sign]] by simp
    then show ?thesis
      using leaf sign_leaf_inputs_sound [OF laws sign]
      by (simp add: verify_controller_psbt_signatures_def verify_leaf_inputs_iff)
  qed
  show "verify_controller_psbt_signatures L q pol path pubkey is = Inr ()"
    if "extends_sigs L p q" "verify_controller_psbt_signatures L p pol path pubkey is = Inr ()"
    using that clear_sigs_default_sighashes [of q p]
    by (auto simp: verify_controller_psbt_signatures_def verify_leaf_inputs_iff extends_sigs_def)
  show "sign_controller_psbt_inputs L p pol path k is = Inl e"
    if "validate_default_sighashes p = Inl e"
    using that by (simp add: sign_controller_psbt_inputs_def)
qed

end
