(* ===== verification/Ceremony_Templates.thy ===== *)
theory Ceremony_Templates
  imports Storage Transactions
begin

text \<open>
  The data of \<^verbatim>\<open>src/core/ceremony.rs\<close> and its pure parts: transaction templates, the
  fees they pay, the value of the allowance chain, and the input sums. A ceremony prepares one
  rollover transaction, a chain of monthly allowance transactions that starts at an output of
  it, and optionally an emergency trigger and withdrawal that start at another.
\<close>

section \<open>Data\<close>

record policy_limits =
  pl_monthly_limit_sats :: nat
  pl_emergency_access_limit_sats :: nat

record batch_transaction =
  psbt_file :: string
  unsigned_txid :: string
  fee_sats :: nat
  vault_input_indexes :: "nat list"
  controller_input_indexes :: "nat list"

record connector_state =
  cs_outpoint :: outpoint
  cs_value_sats :: nat

record allowance_step =
  al_step :: nat
  al_delay_seconds :: nat
  al_delay_sequence :: nat
  chain_value_sats :: nat
  al_hot_address :: string
  connector :: connector_state
  next_connector :: "connector_state option"
  authorization :: batch_transaction

record emergency_access_policy =
  amount_sats :: nat
  em_delay_seconds :: nat
  em_delay_sequence :: nat
  em_hot_address :: string
  staging_vout :: nat
  staging_value_sats :: nat
  vault_change_vout :: nat
  vault_change_value_sats :: nat
  trigger_connector :: connector_state
  withdrawal_connector :: connector_state
  trigger :: batch_transaction
  withdrawal :: batch_transaction

record batch_manifest =
  bm_version :: nat
  created_at :: int
  bm_network :: string
  bm_vault_descriptor :: string
  bm_vault_address :: string
  bm_controller_descriptor :: string
  bm_controller_address :: string
  bm_connector_value_sats :: nat
  monthly_limit_sats :: nat
  emergency_access_limit_sats :: nat
  fee_rate_sat_vb :: nat
  total_input_sats :: nat
  vault_input_sats :: nat
  controller_input_sats :: nat
  allowance_count :: nat
  rollover :: batch_transaction
  allowance_vout :: "nat option"
  allowance_value_sats :: nat
  remainder_vout :: nat
  remainder_value_sats :: nat
  monthly_connector_vout :: "nat option"
  emergency_connector_vout :: "nat option"
  allowances :: "allowance_step list"
  emergency_access :: "emergency_access_policy option"
  phone_approved :: bool
  hww_approved :: bool

definition manifest_transactions :: "batch_manifest \<Rightarrow> batch_transaction list" where
  "manifest_transactions m =
     rollover m # map authorization (allowances m)
     @ (case emergency_access m of None \<Rightarrow> [] | Some e \<Rightarrow> [trigger e, withdrawal e])"

section \<open>Sums and delays\<close>

definition vault_input :: "outpoint \<Rightarrow> sequence \<Rightarrow> txin" where
  "vault_input outp s =
     \<lparr>previous_output = outp, script_sig = [], tx_sequence = s, tx_witness = []\<rparr>"

definition checked_input_sum :: "vault_utxo list \<Rightarrow> nat result" where
  "checked_input_sum utxos = checked_sum_by (Propose InputTotalOverflow) utxo_value utxos"

definition output_sum :: "transaction \<Rightarrow> nat result" where
  "output_sum tx = checked_sum_by (Chain OutputSumOverflow) txo_value (tx_output tx)"

definition emergency_delay_sequence :: "lib \<Rightarrow> sequence result" where
  "emergency_delay_sequence L =
     ok_or (from_seconds_ceil L EMERGENCY_ACCESS_DELAY_SECONDS) (Chain DelayNotRepresentable)"

definition monthly_delay_sequence :: "lib \<Rightarrow> sequence result" where
  "monthly_delay_sequence L =
     ok_or (from_seconds_ceil L MONTHLY_ALLOWANCE_DELAY_SECONDS) (Chain DelayNotRepresentable)"

definition allowance_chain_value :: "nat \<Rightarrow> nat \<Rightarrow> nat \<Rightarrow> nat \<Rightarrow> nat result" where
  "allowance_chain_value count monthly_limit continuing_fee final_fee =
     (if count = 0 then Inr 0
      else bind_result (ok_or (checked_mul monthly_limit count) (Chain ChainValueOverflow)) (\<lambda>total.
           bind_result (ok_or (checked_mul continuing_fee (count - 1)) (Chain ChainValueOverflow)) (\<lambda>continuing_fees.
           ok_or (Option.bind (checked_add total continuing_fees) (\<lambda>v.
                  Option.bind (checked_add v final_fee) (\<lambda>v.
                  checked_sub v CONNECTOR_VALUE_SATS))) (Chain ChainValueOverflow))))"

definition transaction_indexes :: "nat list \<Rightarrow> nat list result" where
  \<comment> \<open>\<^verbatim>\<open>usize::try_from\<close> of a \<^verbatim>\<open>u32\<close> succeeds on 32- and 64-bit targets\<close>
  "transaction_indexes indexes = try_map (\<lambda>i. if i < 2 ^ 32 then Inr i else Inl (Chain IndexExceedsUsize)) indexes"

definition ceremony_controller_policy :: "lib \<Rightarrow> vault_config \<Rightarrow> controller_policy result" where
  "ceremony_controller_policy L config =
     bind_result (ok_or (xonly_from_str L (phone_vault_pubkey config)) (Lib KeyParseError)) (\<lambda>phone.
     bind_result (ok_or (xonly_from_str L (hww_vault_pubkey config)) (Lib KeyParseError)) (\<lambda>hww.
     bind_result (config_network config) (\<lambda>network.
     controller_new L phone hww network)))"

section \<open>Templates and their fees\<close>

definition rollover_template ::
  "txin list \<Rightarrow> nat option \<Rightarrow> nat \<Rightarrow> script \<Rightarrow> script \<Rightarrow> bool \<Rightarrow> bool \<Rightarrow> transaction" where
  "rollover_template inputs allowance_value remainder_value vault_script controller_script
      monthly_connector emergency_connector =
     \<lparr>tx_version = version_two, tx_lock_time = lock_time_zero, tx_input = inputs,
      tx_output =
        (case allowance_value of None \<Rightarrow> []
         | Some v \<Rightarrow> [\<lparr>txo_value = v, script_pubkey = vault_script\<rparr>])
        @ [\<lparr>txo_value = remainder_value, script_pubkey = vault_script\<rparr>]
        @ replicate (of_bool monthly_connector + of_bool emergency_connector)
            \<lparr>txo_value = CONNECTOR_VALUE_SATS, script_pubkey = controller_script\<rparr>\<rparr>"

definition authorization_template ::
  "outpoint \<Rightarrow> outpoint \<Rightarrow> nat \<Rightarrow> sequence \<Rightarrow> script \<Rightarrow> (nat \<times> script) option \<Rightarrow> script \<Rightarrow> transaction" where
  "authorization_template vault_outpoint connector_outpoint monthly_limit delay_sequence hot_script
      next_chain controller_script =
     \<lparr>tx_version = version_two, tx_lock_time = lock_time_zero,
      tx_input = [vault_input vault_outpoint delay_sequence, vault_input connector_outpoint sequence_rbf],
      tx_output = \<lparr>txo_value = monthly_limit, script_pubkey = hot_script\<rparr> #
        (case next_chain of None \<Rightarrow> []
         | Some (v, s) \<Rightarrow> [\<lparr>txo_value = v, script_pubkey = s\<rparr>,
             \<lparr>txo_value = CONNECTOR_VALUE_SATS, script_pubkey = controller_script\<rparr>])\<rparr>"

definition emergency_trigger_template ::
  "outpoint \<Rightarrow> outpoint \<Rightarrow> nat \<Rightarrow> nat \<Rightarrow> script \<Rightarrow> script \<Rightarrow> transaction" where
  "emergency_trigger_template vault_outpoint connector_outpoint staging change vault_script controller_script =
     \<lparr>tx_version = version_two, tx_lock_time = lock_time_zero,
      tx_input = [vault_input vault_outpoint sequence_max, vault_input connector_outpoint sequence_rbf],
      tx_output = [\<lparr>txo_value = staging, script_pubkey = vault_script\<rparr>,
        \<lparr>txo_value = change, script_pubkey = vault_script\<rparr>,
        \<lparr>txo_value = CONNECTOR_VALUE_SATS, script_pubkey = controller_script\<rparr>]\<rparr>"

definition emergency_withdrawal_template ::
  "outpoint \<Rightarrow> outpoint \<Rightarrow> nat \<Rightarrow> sequence \<Rightarrow> script \<Rightarrow> transaction" where
  "emergency_withdrawal_template vault_outpoint connector_outpoint amount delay_sequence hot_script =
     \<lparr>tx_version = version_two, tx_lock_time = lock_time_zero,
      tx_input = [vault_input vault_outpoint delay_sequence, vault_input connector_outpoint sequence_rbf],
      tx_output = [\<lparr>txo_value = amount, script_pubkey = hot_script\<rparr>]\<rparr>"

definition policy_fee ::
  "lib \<Rightarrow> transaction \<Rightarrow> vault_policy \<Rightarrow> controller_policy \<Rightarrow> nat list \<Rightarrow> nat list \<Rightarrow> nat result" where
  \<comment> \<open>\<^verbatim>\<open>estimate_policy_vsize(...)? * DEFAULT_FEE_RATE_SAT_VB\<close> on the cooperative and phone paths\<close>
  "policy_fee L tx policy controller vault_indexes controller_indexes =
     bind_result (estimate_policy_vsize L tx policy Cooperative vault_indexes controller ControllerPhone
        controller_indexes) (\<lambda>size. Inr (size * DEFAULT_FEE_RATE_SAT_VB))"

definition authorization_fee ::
  "lib \<Rightarrow> vault_policy \<Rightarrow> controller_policy \<Rightarrow> outpoint \<Rightarrow> nat \<Rightarrow> sequence \<Rightarrow> script \<Rightarrow> bool \<Rightarrow> nat result" where
  "authorization_fee L policy controller outp monthly_limit delay_sequence hot_script has_next =
     policy_fee L (authorization_template outp outpoint_null monthly_limit delay_sequence hot_script
        (if has_next then Some (1, addr_script (vp_address policy)) else None)
        (addr_script (cp_address controller))) policy controller [0] [1]"

definition emergency_trigger_fee ::
  "lib \<Rightarrow> vault_policy \<Rightarrow> controller_policy \<Rightarrow> outpoint \<Rightarrow> nat \<Rightarrow> nat \<Rightarrow> script \<Rightarrow> nat result" where
  "emergency_trigger_fee L policy controller outp staging change vault_script =
     policy_fee L (emergency_trigger_template outp outpoint_null staging change vault_script
        (addr_script (cp_address controller))) policy controller [0] [1]"

definition emergency_withdrawal_fee ::
  "lib \<Rightarrow> vault_policy \<Rightarrow> controller_policy \<Rightarrow> outpoint \<Rightarrow> nat \<Rightarrow> sequence \<Rightarrow> script \<Rightarrow> nat result" where
  "emergency_withdrawal_fee L policy controller outp amount delay_sequence hot_script =
     policy_fee L (emergency_withdrawal_template outp outpoint_null amount delay_sequence hot_script)
       policy controller [0] [1]"

section \<open>Fees depend only on the shape of a transaction\<close>

lemma estimate_roles_eq:
  "estimate_roles vl cl n vs cs i inps = Inr r \<Longrightarrow>
   map (\<lambda>x. (script_sig x)) inps = map (\<lambda>x. (script_sig x)) inps' \<Longrightarrow>
   \<exists>r'. estimate_roles vl cl n vs cs i inps' = Inr r'
     \<and> map (\<lambda>x. (length (script_sig x), map length (tx_witness x))) r'
       = map (\<lambda>x. (length (script_sig x), map length (tx_witness x))) r"
proof (induction inps arbitrary: i r inps')
  case Nil
  then show ?case by simp
next
  case (Cons x xs)
  obtain y ys where y: "inps' = y # ys" and xy: "script_sig y = script_sig x"
    and tl: "map (\<lambda>x. (script_sig x)) xs = map (\<lambda>x. (script_sig x)) ys"
    using Cons.prems(2) by (cases inps') auto
  obtain rest where rest: "estimate_roles vl cl n vs cs (Suc i) xs = Inr rest"
    using Cons.prems(1) by (auto split: if_splits)
  from Cons.IH [OF rest tl] Cons.prems(1) rest y xy show ?case
    by (auto split: if_splits)
qed

lemma policy_fee_shape:
  assumes "lib_size_laws L"
    and "map script_sig (tx_input t) = map script_sig (tx_input u)"
    and "map (\<lambda>out. length (script_pubkey out)) (tx_output t) = map (\<lambda>out. length (script_pubkey out)) (tx_output u)"
    and "policy_fee L t policy controller vs cs = Inr fee"
  shows "policy_fee L u policy controller vs cs = Inr fee"
proof -
  obtain vl cl r where l: "vault_leaf L policy Cooperative = Inr vl"
    "controller_leaf L controller ControllerPhone = Inr cl"
    and part: "set vs \<inter> set cs = {}" "card (set vs) + card (set cs) = length (tx_input t)"
    and r: "estimate_roles vl cl (signature_count Cooperative) (set vs) (set cs) 0 (tx_input t) = Inr r"
    and fee: "fee = vsize L (t\<lparr>tx_input := r\<rparr>) * DEFAULT_FEE_RATE_SAT_VB"
    using assms(4) by (auto simp: policy_fee_def estimate_policy_vsize_def Let_def split: if_splits)
  obtain r' where r': "estimate_roles vl cl (signature_count Cooperative) (set vs) (set cs) 0 (tx_input u) = Inr r'"
    and eq: "map (\<lambda>x. (length (script_sig x), map length (tx_witness x))) r'
       = map (\<lambda>x. (length (script_sig x), map length (tx_witness x))) r"
    using estimate_roles_eq [OF r assms(2)] by blast
  have "vsize L (u\<lparr>tx_input := r'\<rparr>) = vsize L (t\<lparr>tx_input := r\<rparr>)"
    by (rule vsize_shape [OF assms(1)]) (simp add: tx_shape_def eq assms(3))
  moreover have "length (tx_input u) = length (tx_input t)"
    using assms(2) by (metis length_map)
  ultimately show ?thesis
    using l part r' fee by (simp add: policy_fee_def estimate_policy_vsize_def Let_def)
qed

section \<open>The allowance chain\<close>

lemma allowance_chain_value_Inr:
  assumes "allowance_chain_value count m c f = Inr v" and "0 < count"
  shows "v + CONNECTOR_VALUE_SATS = count * m + (count - 1) * c + f"
  using assms by (auto simp: allowance_chain_value_def mult.commute)

text \<open>
  One link of the chain pays a month and the continuing fee and leaves the value of the shorter
  chain; the last link, with its connector, pays the last month and the final fee exactly.
\<close>

lemma allowance_chain_step:
  assumes "allowance_chain_value (Suc (Suc n)) m c f = Inr v"
    and "allowance_chain_value (Suc n) m c f = Inr v'"
  shows "v = m + c + v'"
  using allowance_chain_value_Inr [OF assms(1)] allowance_chain_value_Inr [OF assms(2)] by simp

lemma allowance_chain_last:
  "allowance_chain_value (Suc 0) m c f = Inr v \<Longrightarrow> v + CONNECTOR_VALUE_SATS = m + f"
  using allowance_chain_value_Inr [of "Suc 0" m c f v] by simp

lemma allowance_chain_shorter:
  assumes "allowance_chain_value (Suc (Suc n)) m c f = Inr v" and "CONNECTOR_VALUE_SATS \<le> m + f"
  shows "\<exists>v'. allowance_chain_value (Suc n) m c f = Inr v'"
  using assms by (auto simp: allowance_chain_value_def algebra_simps)

end
