(* ===== verification/Chain_Source.thy ===== *)
theory Chain_Source
  imports Ceremony_Templates World "HOL-Library.Product_Lexorder"
begin

text \<open>
  \<^verbatim>\<open>src/core/chain.rs\<close>: the two chain backends, Electrum and Bitcoin Core RPC. What the servers
  answer is a parameter (\<open>electrum_client\<close>, \<open>core_client\<close>); an answer to a broadcast may depend on
  what the network already holds, and says separately whether the node took the transaction, so a
  lost reply is an error reply to a transaction that was taken. Both backends implement the trait
  \<^verbatim>\<open>Blockchain\<close>, here the record \<open>blockchain\<close>.
\<close>

section \<open>Servers\<close>

record electrum_utxo =
  eu_tx_hash :: txid
  eu_tx_pos :: nat
  eu_value :: nat
  eu_height :: nat

record electrum_client =
  ec_genesis :: "nat option" \<comment> \<open>the hash of block header 0\<close>
  ec_tip :: "(nat \<times> nat) option" \<comment> \<open>\<^verbatim>\<open>block_headers_subscribe\<close>: height and header hash\<close>
  ec_header_times :: "nat list \<Rightarrow> nat list option"
  ec_list_unspent :: "script \<Rightarrow> electrum_utxo list option"
  ec_submit :: "transaction list \<Rightarrow> transaction \<Rightarrow> bool \<times> txid option"
  ec_transaction_get :: "transaction list \<Rightarrow> txid \<Rightarrow> transaction option"

record core_utxo =
  cu_txid :: txid
  cu_vout :: nat
  cu_amount :: nat
  cu_script :: script
  cu_height :: nat

record core_info =
  ci_chain :: network
  ci_blocks :: nat
  ci_median_time :: nat
  ci_best_block_hash :: nat

datatype core_reply = CoreTxid txid | CoreRpcError int | CoreOtherError

record core_client =
  cc_info :: "core_info option"
  cc_scan :: "string \<Rightarrow> (bool option \<times> core_utxo list) option" \<comment> \<open>\<^verbatim>\<open>scantxoutset\<close> of a descriptor\<close>
  cc_submit :: "transaction list \<Rightarrow> transaction \<Rightarrow> bool \<times> core_reply"

section \<open>The trait\<close>

record chain_tip =
  ct_network :: network
  ct_height :: nat
  ct_median_time :: nat
  ct_best_block_hash :: nat

record blockchain =
  bc_network :: network
  bc_description :: string
  bc_chain_tip :: "chain_tip result"
  bc_scan_vault :: "vault_config \<Rightarrow> vault_utxo list result"
  bc_scan_connectors :: "vault_config \<Rightarrow> vault_utxo list result"
  bc_broadcast :: "transaction list \<Rightarrow> transaction \<Rightarrow> bool \<times> txid result"

definition broadcast :: "blockchain \<Rightarrow> transaction \<Rightarrow> ('b, txid) io" where
  "broadcast B tx w = (case bc_broadcast B (accepted w) tx of (taken, r) \<Rightarrow>
     (r, if taken then w\<lparr>accepted := accepted w @ [tx]\<rparr> else w))"

section \<open>Electrum\<close>

definition MAINNET_ELECTRUM_SERVERS :: "string list" where
  "MAINNET_ELECTRUM_SERVERS =
     [''ssl://bitcoin.lu.ke:50002'', ''ssl://electrum.blockstream.info:50002'',
      ''ssl://electrum.bullbitcoin.com:50002'', ''ssl://electrum.cakewallet.com:50002'']"

definition REGTEST_ELECTRUM_SERVERS :: "string list" where
  "REGTEST_ELECTRUM_SERVERS = [''tcp://127.0.0.1:50001'']"

record electrum_backend =
  eb_client :: electrum_client
  eb_server :: string
  eb_network :: network

definition electrum_attempt ::
  "(string \<Rightarrow> electrum_client option) \<Rightarrow> nat \<Rightarrow> network \<Rightarrow> string \<Rightarrow> electrum_backend result" where
  "electrum_attempt dial expected_genesis network server =
     bind_result (ok_or (dial server) (Wal (Backend ServerUrl))) (\<lambda>client.
     bind_result (ok_or (ec_genesis client) (Wal (Backend ServerGenesis))) (\<lambda>genesis.
     if genesis \<noteq> expected_genesis then Inl (Wal (Backend WrongGenesis))
     else Inr \<lparr>eb_client = client, eb_server = server, eb_network = network\<rparr>))"

fun electrum_first ::
  "(string \<Rightarrow> electrum_client option) \<Rightarrow> nat \<Rightarrow> network \<Rightarrow> string list \<Rightarrow> electrum_backend result" where
  "electrum_first dial g network [] = Inl (Wal (Backend NoServerReachable))"
| "electrum_first dial g network (server # rest) = (case electrum_attempt dial g network server of
       Inr backend \<Rightarrow> Inr backend | Inl _ \<Rightarrow> electrum_first dial g network rest)"

definition electrum_connect ::
  "(string \<Rightarrow> electrum_client option) \<Rightarrow> (network \<Rightarrow> nat) \<Rightarrow> network \<Rightarrow> string list \<Rightarrow> electrum_backend result" where
  "electrum_connect dial genesis_hash network servers =
     (if servers = [] then Inl (Wal (Backend NoServers))
      else electrum_first dial (genesis_hash network) network servers)"

definition electrum_connect_default ::
  "(string \<Rightarrow> electrum_client option) \<Rightarrow> (network \<Rightarrow> nat) \<Rightarrow> network \<Rightarrow> electrum_backend result" where
  "electrum_connect_default dial genesis_hash network = (case network of
       Bitcoin \<Rightarrow> electrum_connect dial genesis_hash network MAINNET_ELECTRUM_SERVERS
     | Regtest \<Rightarrow> electrum_connect dial genesis_hash network REGTEST_ELECTRUM_SERVERS
     | _ \<Rightarrow> Inl (Wal (Backend ElectrumNetwork)))"

definition electrum_chain_tip :: "electrum_backend \<Rightarrow> chain_tip result" where
  "electrum_chain_tip b =
     bind_result (ok_or (ec_tip (eb_client b)) (Wal (Backend QueryFailed))) (\<lambda>(height, hash).
     let heights = map (\<lambda>h. h mod 2 ^ 32) [height - 10..<Suc height] in
     bind_result (ok_or (ec_header_times (eb_client b) heights) (Wal (Backend QueryFailed))) (\<lambda>times.
     bind_result (index (sort times) (length times div 2)) (\<lambda>median_time.
     Inr \<lparr>ct_network = eb_network b, ct_height = height, ct_median_time = median_time,
          ct_best_block_hash = hash\<rparr>)))"

definition utxo_key :: "vault_utxo \<Rightarrow> nat \<times> outpoint" where
  "utxo_key u = (confirmation_height u, utxo_outpoint u)"

definition electrum_scan_script :: "electrum_backend \<Rightarrow> script \<Rightarrow> vault_utxo list result" where
  "electrum_scan_script b s =
     bind_result (ok_or (ec_list_unspent (eb_client b) s) (Wal (Backend QueryFailed))) (\<lambda>us.
     Inr (sort_key utxo_key (map (\<lambda>u.
       \<lparr>utxo_outpoint = OutPoint (eu_tx_hash u) (eu_tx_pos u mod 2 ^ 32),
        utxo_txout = \<lparr>txo_value = eu_value u, script_pubkey = s\<rparr>,
        confirmation_height = eu_height u\<rparr>) (filter (\<lambda>u. 0 < eu_height u) us))))"

definition electrum_scan_vault :: "lib \<Rightarrow> electrum_backend \<Rightarrow> vault_config \<Rightarrow> vault_utxo list result" where
  "electrum_scan_vault L b config =
     bind_result (config_network config) (\<lambda>network.
     if network \<noteq> eb_network b then Inl (Wal (Backend ScanNetwork))
     else bind_result (ok_or (address_from_str L (vc_vault_address config) (eb_network b)) (Lib AddressError)) (\<lambda>address.
          electrum_scan_script b (addr_script address)))"

definition electrum_scan_connectors :: "lib \<Rightarrow> electrum_backend \<Rightarrow> vault_config \<Rightarrow> vault_utxo list result" where
  "electrum_scan_connectors L b config =
     bind_result (config_network config) (\<lambda>network.
     if network \<noteq> eb_network b then Inl (Wal (Backend ScanNetwork))
     else bind_result (ceremony_controller_policy L config) (\<lambda>controller.
          electrum_scan_script b (addr_script (cp_address controller))))"

definition electrum_broadcast ::
  "lib \<Rightarrow> electrum_client \<Rightarrow> transaction list \<Rightarrow> transaction \<Rightarrow> bool \<times> txid result" where
  "electrum_broadcast L c pool tx =
     (let (taken, reply) = ec_submit c pool tx; pool' = (if taken then pool @ [tx] else pool);
          expected = compute_txid L tx in
      (taken, case reply of
         Some txid \<Rightarrow> Inr txid
       | None \<Rightarrow> (case ec_transaction_get c pool' expected of
             Some known \<Rightarrow> if compute_txid L known = expected then Inr expected
                          else Inl (Wal (Backend SubmitFailed))
           | None \<Rightarrow> Inl (Wal (Backend SubmitFailed)))))"

definition electrum_blockchain :: "lib \<Rightarrow> electrum_backend \<Rightarrow> blockchain" where
  "electrum_blockchain L b =
     \<lparr>bc_network = eb_network b, bc_description = ''Electrum ('' @ eb_server b @ '')'',
      bc_chain_tip = electrum_chain_tip b, bc_scan_vault = electrum_scan_vault L b,
      bc_scan_connectors = electrum_scan_connectors L b,
      bc_broadcast = electrum_broadcast L (eb_client b)\<rparr>"

section \<open>Bitcoin Core\<close>

record core_backend =
  cb_client :: core_client
  cb_network :: network

definition core_chain_info :: "core_backend \<Rightarrow> core_info result" where
  "core_chain_info b =
     bind_result (ok_or (cc_info (cb_client b)) (Wal (Backend QueryFailed))) (\<lambda>info.
     if ci_chain info \<noteq> cb_network b then Inl (Wal (Backend CoreNetwork)) else Inr info)"

definition core_connect :: "core_client \<Rightarrow> network \<Rightarrow> core_backend result" where
  "core_connect client expected_network =
     (let rpc = \<lparr>cb_client = client, cb_network = expected_network\<rparr> in
      bind_result (core_chain_info rpc) (\<lambda>_. Inr rpc))"

definition core_chain_tip :: "core_backend \<Rightarrow> chain_tip result" where
  "core_chain_tip b =
     bind_result (core_chain_info b) (\<lambda>info.
     Inr \<lparr>ct_network = ci_chain info, ct_height = ci_blocks info, ct_median_time = ci_median_time info,
          ct_best_block_hash = ci_best_block_hash info\<rparr>)"

definition core_scan_address :: "core_backend \<Rightarrow> string \<Rightarrow> vault_utxo list result" where
  "core_scan_address b address =
     bind_result (ok_or (cc_scan (cb_client b) (''addr('' @ address @ '')'')) (Wal (Backend QueryFailed))) (\<lambda>(success, us).
     if success \<noteq> Some True then Inl (Wal (Backend ScanIncomplete))
     else Inr (sort_key utxo_key (map (\<lambda>u.
       \<lparr>utxo_outpoint = OutPoint (cu_txid u) (cu_vout u),
        utxo_txout = \<lparr>txo_value = cu_amount u, script_pubkey = cu_script u\<rparr>,
        confirmation_height = cu_height u\<rparr>) us)))"

definition core_scan_vault :: "core_backend \<Rightarrow> vault_config \<Rightarrow> vault_utxo list result" where
  "core_scan_vault b config =
     bind_result (config_network config) (\<lambda>network.
     if network \<noteq> cb_network b then Inl (Wal (Backend ScanNetwork))
     else core_scan_address b (vc_vault_address config))"

definition core_scan_connectors :: "lib \<Rightarrow> core_backend \<Rightarrow> vault_config \<Rightarrow> vault_utxo list result" where
  "core_scan_connectors L b config =
     bind_result (config_network config) (\<lambda>network.
     if network \<noteq> cb_network b then Inl (Wal (Backend ScanNetwork))
     else bind_result (ceremony_controller_policy L config) (\<lambda>controller.
          core_scan_address b (addr_text (cp_address controller))))"

definition core_broadcast ::
  "lib \<Rightarrow> core_client \<Rightarrow> transaction list \<Rightarrow> transaction \<Rightarrow> bool \<times> txid result" where
  "core_broadcast L c pool tx =
     (let (taken, reply) = cc_submit c pool tx in
      (taken, case reply of
         CoreTxid txid \<Rightarrow> Inr txid
       | CoreRpcError code \<Rightarrow>
           if code = -27 then Inr (compute_txid L tx) else Inl (Wal (Backend SubmitFailed))
       | CoreOtherError \<Rightarrow> Inl (Wal (Backend SubmitFailed))))"

definition core_vault_balance :: "core_backend \<Rightarrow> vault_config \<Rightarrow> nat result" where
  \<comment> \<open>\<^verbatim>\<open>Iterator::sum\<close> on \<^verbatim>\<open>u64\<close>: the release profile wraps\<close>
  "core_vault_balance b config =
     bind_result (core_scan_vault b config) (\<lambda>us. Inr (sum_list (map utxo_value us) mod u64_bound))"

definition core_blockchain :: "lib \<Rightarrow> core_backend \<Rightarrow> blockchain" where
  "core_blockchain L b =
     \<lparr>bc_network = cb_network b, bc_description = ''Bitcoin Core RPC'',
      bc_chain_tip = core_chain_tip b, bc_scan_vault = core_scan_vault b,
      bc_scan_connectors = core_scan_connectors L b,
      bc_broadcast = core_broadcast L (cb_client b)\<rparr>"

section \<open>Broadcasting again\<close>

text \<open>
  Activation is retried after a crash, so a transaction the network already holds may be broadcast
  again. What the two servers document about that differs. An Electrum server returns the transaction
  when it is asked for it. Bitcoin Core returns the id of a transaction of its pool, and error -27
  for a confirmed one as long as the chain still has an unspent output of it; once all of them are
  spent the answer is an error like any other (-25, the inputs are missing). Outputs that begin
  with \<^verbatim>\<open>OP_RETURN\<close> or are longer than 10000 bytes are never in the set of unspent outputs.
\<close>

definition spendable :: "txout \<Rightarrow> bool" where
  "spendable out \<longleftrightarrow> length (script_pubkey out) \<le> 10000 \<and> \<not> (script_pubkey out \<noteq> [] \<and> hd (script_pubkey out) = 106)"

definition has_unspent_output :: "lib \<Rightarrow> transaction list \<Rightarrow> transaction \<Rightarrow> bool" where
  \<comment> \<open>no transaction the network holds spends it\<close>
  "has_unspent_output L pool tx \<longleftrightarrow> (\<exists>n < length (tx_output tx). spendable (tx_output tx ! n)
     \<and> (\<forall>t \<in> set pool. OutPoint (compute_txid L tx) n \<notin> previous_output ` set (tx_input t)))"

definition electrum_documented :: "lib \<Rightarrow> electrum_client \<Rightarrow> bool" where
  "electrum_documented L c \<longleftrightarrow> (\<forall>pool tx. tx \<in> set pool \<longrightarrow>
     (\<forall>txid. snd (ec_submit c pool tx) = Some txid \<longrightarrow> txid = compute_txid L tx)
   \<and> (\<exists>known. ec_transaction_get c pool (compute_txid L tx) = Some known
        \<and> compute_txid L known = compute_txid L tx))"

definition core_documented :: "lib \<Rightarrow> core_client \<Rightarrow> bool" where
  "core_documented L c \<longleftrightarrow> (\<forall>pool tx. tx \<in> set pool \<longrightarrow> has_unspent_output L pool tx \<longrightarrow>
     snd (cc_submit c pool tx) \<in> {CoreTxid (compute_txid L tx), CoreRpcError (- 27)})"

lemma electrum_broadcast_known:
  assumes "electrum_documented L c" and "tx \<in> set pool"
  shows "snd (electrum_broadcast L c pool tx) = Inr (compute_txid L tx)"
proof -
  obtain taken reply where s: "ec_submit c pool tx = (taken, reply)" by (cases "ec_submit c pool tx")
  have "tx \<in> set (if taken then pool @ [tx] else pool)" using assms(2) by simp
  then obtain known where "ec_transaction_get c (if taken then pool @ [tx] else pool) (compute_txid L tx) = Some known"
    and "compute_txid L known = compute_txid L tx"
    using assms(1) unfolding electrum_documented_def by blast
  moreover have "\<forall>txid. reply = Some txid \<longrightarrow> txid = compute_txid L tx"
    using assms s unfolding electrum_documented_def by force
  ultimately show ?thesis using s by (cases reply) (simp_all add: electrum_broadcast_def Let_def)
qed

lemma core_broadcast_known:
  assumes "core_documented L c" and "tx \<in> set pool" and "has_unspent_output L pool tx"
  shows "snd (core_broadcast L c pool tx) = Inr (compute_txid L tx)"
  using assms unfolding core_documented_def
  by (fastforce simp: core_broadcast_def Let_def split: prod.splits)

lemma taken_accepted:
  assumes "broadcast B tx w = (r, w')" and "w' \<noteq> w"
  shows "tx \<in> set (accepted w')"
  using assms by (auto simp: broadcast_def split: prod.splits if_splits)

lemma fst_broadcast: "fst (broadcast B tx w) = snd (bc_broadcast B (accepted w) tx)"
  by (simp add: broadcast_def split: prod.splits)

section \<open>Scans and connections\<close>

lemma electrum_scan_script_Inr:
  assumes "electrum_scan_script b s = Inr us"
  shows "sorted (map utxo_key us)"
    and "u \<in> set us \<Longrightarrow> utxo_script u = s \<and> 0 < confirmation_height u"
  using assms by (auto simp: electrum_scan_script_def)

lemma electrum_first_Inr:
  "electrum_first dial g network servers = Inr b \<Longrightarrow>
   eb_server b \<in> set servers \<and> eb_network b = network \<and> dial (eb_server b) = Some (eb_client b)
   \<and> ec_genesis (eb_client b) = Some g"
  by (induction servers) (auto simp: electrum_attempt_def split: sum.splits if_splits)

lemma electrum_first_reaches:
  "s \<in> set servers \<Longrightarrow> dial s = Some c \<Longrightarrow> ec_genesis c = Some g \<Longrightarrow>
   \<exists>b. electrum_first dial g network servers = Inr b"
  by (induction servers) (auto simp: electrum_attempt_def split: sum.splits)

lemma sorted_median:
  fixes xs :: "'a::linorder list"
  assumes "xs \<noteq> []" and "m = sort xs ! (length xs div 2)"
  shows "length (filter (\<lambda>x. x < m) xs) \<le> length xs div 2"
    and "length (filter (\<lambda>x. m < x) xs) \<le> length xs div 2"
proof -
  let ?s = "sort xs" and ?h = "length xs div 2"
  have len: "?h < length ?s" using assms(1) by simp
  have perm: "length (filter P xs) = length (filter P ?s)" for P
    by (metis filter_sort length_sort)
  have "{i. i < length ?s \<and> ?s ! i < m} \<subseteq> {..<?h}"
  proof
    fix i assume "i \<in> {i. i < length ?s \<and> ?s ! i < m}"
    then have "i < length ?s" "?s ! i < ?s ! ?h" using assms(2) by auto
    then show "i \<in> {..<?h}" using sorted_nth_mono [OF sorted_sort, of ?h i xs] by (force simp: not_less)
  qed
  from card_mono [OF _ this] show "length (filter (\<lambda>x. x < m) xs) \<le> ?h"
    unfolding perm by (simp add: length_filter_conv_card)
  have "{i. i < length ?s \<and> m < ?s ! i} \<subseteq> {Suc ?h..<length ?s}"
  proof
    fix i assume "i \<in> {i. i < length ?s \<and> m < ?s ! i}"
    then have "i < length ?s" "?s ! ?h < ?s ! i" using assms(2) by auto
    then show "i \<in> {Suc ?h..<length ?s}" using sorted_nth_mono [OF sorted_sort, of i ?h xs] len
      by (force simp: not_less)
  qed
  from card_mono [OF _ this] show "length (filter (\<lambda>x. m < x) xs) \<le> ?h"
    unfolding perm by (simp add: length_filter_conv_card)
qed

end
