(* ===== verification/Hot_Db.thy ===== *)
theory Hot_Db
  imports Chain_Source Storage
begin

text \<open>
  \<^verbatim>\<open>src/hot_wallet/wallet.rs\<close>: the phone's ordinary wallet, a BDK wallet in an SQLite file. BDK is
  a library (record \<open>bdk_lib\<close>): what a database of a pair of descriptors contains, which addresses a
  descriptor reveals in turn, and what building and signing a requested transaction gives. The state
  of the open database is part of the world: the addresses it will still reveal (\<open>hot_supply\<close>,
  \<open>change_supply\<close>) and the row of \<^verbatim>\<open>anzen_sync_state\<close> (\<open>sync_discovered\<close>). The side files of
  SQLite are not represented.
\<close>

definition RECOVERY_STOP_GAP :: nat where "RECOVERY_STOP_GAP = 100"

record tx_request =
  tr_utxos :: "outpoint list"
  tr_manual_only :: bool
  tr_drain_wallet :: bool
  tr_fee_rate :: nat
  tr_drain_to :: "script option"
  tr_recipients :: "(script \<times> nat) list"

record 'b bdk_lib =
  bdk_new_db :: "string \<Rightarrow> string \<Rightarrow> network \<Rightarrow> 'b"
  bdk_load_db :: "'b \<Rightarrow> string \<Rightarrow> string \<Rightarrow> network \<Rightarrow> bool" \<comment> \<open>descriptors and network match\<close>
  bdk_receive :: "string \<Rightarrow> address result list"
  bdk_change :: "string \<Rightarrow> address result list"
  bdk_has_utxo :: "'b world \<Rightarrow> outpoint \<Rightarrow> bool"
  bdk_balance :: "'b world \<Rightarrow> nat \<times> nat" \<comment> \<open>total and immature\<close>
  bdk_finish :: "'b world \<Rightarrow> tx_request \<Rightarrow> psbt option"
  bdk_sign :: "psbt \<Rightarrow> (bool \<times> psbt) option"
  bdk_extract :: "psbt \<Rightarrow> transaction option"
  bdk_fee :: "'b world \<Rightarrow> transaction \<Rightarrow> nat option"
  bdk_persist :: "'b world \<Rightarrow> bool"
  bdk_full_scan :: "'b world \<Rightarrow> nat \<Rightarrow> bool"
  bdk_sync :: "'b world \<Rightarrow> bool"
  bdk_emit :: "'b world \<Rightarrow> bool" \<comment> \<open>blocks and mempool of Bitcoin Core applied\<close>

definition persist :: "('b, 'z) bdk_lib_scheme \<Rightarrow> ('b, unit) io" where
  "persist W = readM (\<lambda>w. if bdk_persist W w then Inr () else Inl (Ext WalletError))"

section \<open>Opening\<close>

definition open_or_create_with_keys ::
  "key_lib \<Rightarrow> ('b, 'z) bdk_lib_scheme \<Rightarrow> path \<Rightarrow> device_keys \<Rightarrow> ('b, unit) io" where
  "open_or_create_with_keys K W p keys =
     bindM (liftM (hot_private_descriptors K keys)) (\<lambda>(external, internal).
     bindM (readM (\<lambda>w. Inr (file_at w p))) (\<lambda>db.
     case db of
       Some content \<Rightarrow>
         if bdk_load_db W content external internal (dk_network keys) then returnM () else failM (Ext WalletError)
     | None \<Rightarrow>
         bindM (put_file p (bdk_new_db W external internal (dk_network keys))) (\<lambda>_ w.
           (Inr (), w\<lparr>hot_supply := bdk_receive W external, change_supply := bdk_change W internal,
                      sync_discovered := False\<rparr>))))"

definition open_or_create ::
  "lib \<Rightarrow> key_lib \<Rightarrow> ('b, 'z) storage_codecs_scheme \<Rightarrow> ('b, 'y) bdk_lib_scheme \<Rightarrow> path \<Rightarrow> ('b, unit) io" where
  "open_or_create L K C W data_dir =
     bindM (readM (load_device_keys L K C data_dir PHONE_DEVICE_FILE)) (\<lambda>keys.
     bindM (create_dir_all (butlast (hot_db_path data_dir))) (\<lambda>_.
     open_or_create_with_keys K W (hot_db_path data_dir) keys))"

definition ephemeral ::
  "key_lib \<Rightarrow> ('b, 'z) bdk_lib_scheme \<Rightarrow> device_keys \<Rightarrow> (address result list \<times> address result list) result" where
  \<comment> \<open>an in-memory database: its receive and change addresses from the start\<close>
  "ephemeral K W keys =
     bind_result (hot_private_descriptors K keys) (\<lambda>(external, internal).
     Inr (bdk_receive W external, bdk_change W internal))"

definition with_addresses ::
  "address result list \<times> address result list \<Rightarrow> ('b, 'a) io \<Rightarrow> ('b, 'a \<times> address result list \<times> address result list) io" where
  \<comment> \<open>a computation that draws from an ephemeral wallet, which it returns advanced\<close>
  "with_addresses s m w = (case m (w\<lparr>hot_supply := fst s, change_supply := snd s\<rparr>) of
     (r, w') \<Rightarrow> (map_sum id (\<lambda>x. (x, hot_supply w', change_supply w')) r,
                w'\<lparr>hot_supply := hot_supply w, change_supply := change_supply w\<rparr>))"

section \<open>Synchronising\<close>

definition sync_core :: "('b, 'z) bdk_lib_scheme \<Rightarrow> ('b, unit) io" where
  "sync_core W =
     bindM (readM (\<lambda>w. if bdk_emit W w then Inr () else Inl (Ext BackendError))) (\<lambda>_. persist W)"

definition sync_electrum :: "('b, 'z) bdk_lib_scheme \<Rightarrow> ('b, unit) io" where
  "sync_electrum W =
     bindM (readM (\<lambda>w. Inr (sync_discovered w))) (\<lambda>discovered.
     bindM (if discovered then returnM ()
            else bindM (readM (\<lambda>w. if bdk_full_scan W w RECOVERY_STOP_GAP then Inr () else Inl (Ext BackendError)))
                   (\<lambda>_. persist W)) (\<lambda>_.
     bindM (readM (\<lambda>w. if bdk_sync W w then Inr () else Inl (Ext BackendError))) (\<lambda>_.
     bindM (persist W) (\<lambda>_.
     if discovered then returnM ()
     else faulty (Ext WalletError) (\<lambda>w. w\<lparr>sync_discovered := True\<rparr>)))))"

definition request_full_scan :: "('b, unit) io" where
  "request_full_scan = faulty (Ext WalletError) (\<lambda>w. w\<lparr>sync_discovered := False\<rparr>)"

section \<open>Transactions\<close>

definition finish_and_sign :: "('b, 'z) bdk_lib_scheme \<Rightarrow> tx_request \<Rightarrow> ('b, transaction) io" where
  "finish_and_sign W request =
     bindM (readM (\<lambda>w. ok_or (bdk_finish W w request) (Ext WalletError))) (\<lambda>psbt.
     bindM (liftM (ok_or (bdk_sign W psbt) (Ext WalletError))) (\<lambda>(finalized, psbt').
     if \<not> finalized then failM (Wal (Hot BdkNotFinalized))
     else liftM (ok_or (bdk_extract W psbt') (Ext WalletError))))"

definition soft_limit_request :: "outpoint \<Rightarrow> script \<Rightarrow> script \<Rightarrow> nat \<Rightarrow> nat \<Rightarrow> tx_request" where
  "soft_limit_request authorization_outpoint change_script vault_script requested_cold_return soft_limit_sats =
     (let r = \<lparr>tr_utxos = [authorization_outpoint], tr_manual_only = True, tr_drain_wallet = False,
               tr_fee_rate = 1, tr_drain_to = Some change_script, tr_recipients = []\<rparr> in
      if soft_limit_sats = 0 then r\<lparr>tr_drain_to := Some vault_script\<rparr>
      else r\<lparr>tr_recipients := [(vault_script, requested_cold_return)]\<rparr>)"

definition build_soft_limit_return ::
  "('b, 'z) bdk_lib_scheme \<Rightarrow> outpoint \<Rightarrow> nat \<Rightarrow> nat \<Rightarrow> script \<Rightarrow> ('b, transaction option) io" where
  "build_soft_limit_return W authorization_outpoint limit soft vault_script =
     (if limit < soft then failM (Wal (Hot SoftLimitTooHigh)) else
      bindM (readM (\<lambda>w. if bdk_has_utxo W w authorization_outpoint then Inr ()
                        else Inl (Wal (Hot HotOutputMissing)))) (\<lambda>_.
      if soft = limit then returnM None else
      bindM next_change_address (\<lambda>change.
      bindM (finish_and_sign W (soft_limit_request authorization_outpoint (addr_script change) vault_script
               (limit - soft) soft)) (\<lambda>tx.
      bindM (persist W) (\<lambda>_. returnM (Some tx))))))"

definition build_payment ::
  "('b, 'z) bdk_lib_scheme \<Rightarrow> script \<Rightarrow> nat \<Rightarrow> ('b, transaction \<times> nat) io" where
  "build_payment W destination amount =
     (if amount = 0 then failM (Wal (Hot ZeroPayment)) else
      bindM (finish_and_sign W \<lparr>tr_utxos = [], tr_manual_only = False, tr_drain_wallet = False,
               tr_fee_rate = 1, tr_drain_to = None, tr_recipients = [(destination, amount)]\<rparr>) (\<lambda>tx.
      bindM (readM (\<lambda>w. ok_or (bdk_fee W w tx) (Ext WalletError))) (\<lambda>fee.
      bindM (persist W) (\<lambda>_. returnM (tx, fee)))))"

definition build_sweep :: "('b, 'z) bdk_lib_scheme \<Rightarrow> script \<Rightarrow> ('b, transaction option) io" where
  "build_sweep W destination =
     bindM (readM (\<lambda>w. Inr (bdk_balance W w))) (\<lambda>(total, immature).
     if total = immature then returnM None else
     bindM (finish_and_sign W \<lparr>tr_utxos = [], tr_manual_only = False, tr_drain_wallet = True,
              tr_fee_rate = 1, tr_drain_to = Some destination, tr_recipients = []\<rparr>) (\<lambda>tx.
     bindM (persist W) (\<lambda>_. returnM (Some tx))))"

section \<open>Discovery\<close>

text \<open>The marker that skips the full scan is set only by a sync that completed one.\<close>

lemma sync_electrum_marks:
  assumes "sync_electrum W w = (r, w')" and "sync_discovered w'"
  shows "sync_discovered w \<or> (bdk_full_scan W w RECOVERY_STOP_GAP \<and> bdk_persist W w \<and> bdk_sync W w)"
  using assms by (auto simp: sync_electrum_def persist_def bindM_def split: if_splits)

lemma sync_electrum_completes:
  assumes "sync_electrum W w = (Inr (), w')"
  shows "sync_discovered w'" and "bdk_sync W w" and "\<not> sync_discovered w \<Longrightarrow> bdk_full_scan W w RECOVERY_STOP_GAP"
  using assms
  by (auto simp: sync_electrum_def persist_def faulty_def next_fault_def split: if_splits list.splits fault.splits)

lemma request_full_scan_unmarks: "request_full_scan w = (Inr (), w') \<Longrightarrow> \<not> sync_discovered w'"
  by (auto simp: request_full_scan_def faulty_def next_fault_def split: list.splits fault.splits)

end
