(* ===== verification/Ceremony_Validate.thy ===== *)
theory Ceremony_Validate
  imports Ceremony_Templates
begin

text \<open>
  The checks of \<^verbatim>\<open>src/core/ceremony.rs\<close> that both devices run before they sign or fund a
  ceremony: \<^verbatim>\<open>validate_batch\<close> with its parts and \<^verbatim>\<open>validate_approved_batch\<close>. They
  only read files. Indexing that an earlier check protects in another statement goes through
  \<open>index\<close>, which makes the panic of an out-of-range index a result; within one condition the
  preceding disjuncts protect it.
\<close>

record 'b ceremony_codecs = "'b storage_codecs" +
  manifest_codec :: "('b, batch_manifest) codec"
  psbt_to_text :: "psbt \<Rightarrow> 'b"
  psbt_from_text :: "'b \<Rightarrow> psbt option"
  with_newline :: "'b \<Rightarrow> 'b"
  utf8_trim :: "'b \<Rightarrow> 'b option" \<comment> \<open>\<^verbatim>\<open>String::from_utf8\<close> and \<^verbatim>\<open>trim\<close>\<close>

definition psbt_text_ok :: "('b, 'z) ceremony_codecs_scheme \<Rightarrow> bool" where
  "psbt_text_ok C \<longleftrightarrow>
     (\<forall>p. psbt_from_text C (psbt_to_text C p) = Some p)
   \<and> (\<forall>p. utf8_trim C (with_newline C (psbt_to_text C p)) = Some (psbt_to_text C p))
   \<and> (\<forall>b t. utf8_trim C b = Some t \<longrightarrow> utf8_trim C (with_newline C t) = Some t)"

definition write_psbt :: "('b, 'z) ceremony_codecs_scheme \<Rightarrow> path \<Rightarrow> psbt \<Rightarrow> ('b, unit) io" where
  "write_psbt C p psbt = write_private p (with_newline C (psbt_to_text C psbt))"

definition read_psbt :: "('b, 'z) ceremony_codecs_scheme \<Rightarrow> path \<Rightarrow> 'b world \<Rightarrow> psbt result" where
  "read_psbt C p w =
     bind_result (read_file p w) (\<lambda>b.
     bind_result (ok_or (utf8_trim C b) (Sto ReadFailed)) (\<lambda>text.
     ok_or (psbt_from_text C text) (Lib PsbtParseError)))"

definition load_manifest :: "('b, 'z) ceremony_codecs_scheme \<Rightarrow> path \<Rightarrow> 'b world \<Rightarrow> batch_manifest result" where
  "load_manifest C batch_dir w = read_json (manifest_codec C) (join_str batch_dir ''manifest.json'') w"

section \<open>Shared checks\<close>

definition validate_input_partition :: "nat \<Rightarrow> nat list \<Rightarrow> nat list \<Rightarrow> unit result" where
  "validate_input_partition input_count vault_indexes controller_indexes =
     (let vault = set vault_indexes; controller = set controller_indexes in
      if card vault \<noteq> length vault_indexes \<or> card controller \<noteq> length controller_indexes
         \<or> vault \<inter> controller \<noteq> {} \<or> card vault + card controller \<noteq> input_count
         \<or> (\<exists>i \<in> vault \<union> controller. input_count \<le> i)
      then Inl (Roll InputPartition) else Inr ())"

definition role_prevout :: "script \<Rightarrow> psbt_input \<Rightarrow> txout result" where
  "role_prevout expected_script inp =
     bind_result (ok_or (witness_utxo inp) (Roll RoleWitnessMissing)) (\<lambda>prevout.
     if script_pubkey prevout \<noteq> expected_script then Inl (Roll RoleScriptMismatch) else Inr prevout)"

definition role_sum_step :: "psbt \<Rightarrow> script \<Rightarrow> nat \<Rightarrow> nat \<Rightarrow> nat result" where
  "role_sum_step psbt expected_script acc i =
     bind_result (index (psbt_inputs psbt) i) (\<lambda>inp.
     bind_result (role_prevout expected_script inp) (\<lambda>prevout.
     ok_or (checked_add acc (txo_value prevout)) (Roll RoleSumOverflow)))"

definition psbt_role_input_sum :: "psbt \<Rightarrow> nat list \<Rightarrow> script \<Rightarrow> nat result" where
  "psbt_role_input_sum psbt indexes expected_script =
     try_fold (role_sum_step psbt expected_script) 0 indexes"

definition validate_connector_output :: "txout \<Rightarrow> script \<Rightarrow> unit result" where
  "validate_connector_output output controller_script =
     (if script_pubkey output \<noteq> controller_script \<or> txo_value output \<noteq> CONNECTOR_VALUE_SATS
      then Inl (Allow ConnectorOutput) else Inr ())"

definition validate_connector_child ::
  "lib \<Rightarrow> psbt \<Rightarrow> txout \<Rightarrow> outpoint \<Rightarrow> outpoint \<Rightarrow> script \<Rightarrow> batch_transaction \<Rightarrow> unit result" where
  "validate_connector_child L psbt vault_prevout vault_outpoint connector_outpoint controller_script manifest_tx =
     (let tx = unsigned_tx psbt in
      if vault_input_indexes manifest_tx \<noteq> [0] \<or> controller_input_indexes manifest_tx \<noteq> [1]
         \<or> txid_to_string L (compute_txid L tx) \<noteq> unsigned_txid manifest_tx
         \<or> length (tx_input tx) \<noteq> 2 \<or> length (psbt_inputs psbt) \<noteq> 2
         \<or> previous_output (tx_input tx ! 0) \<noteq> vault_outpoint
         \<or> witness_utxo (psbt_inputs psbt ! 0) \<noteq> Some vault_prevout
         \<or> previous_output (tx_input tx ! 1) \<noteq> connector_outpoint
         \<or> tap_script_sigs (psbt_inputs psbt ! 1) \<noteq> []
      then Inl (Child ChildSpends)
      else
       bind_result (ok_or (witness_utxo (psbt_inputs psbt ! 1)) (Child ChildWitnessMissing)) (\<lambda>connector_prevout.
       if script_pubkey connector_prevout \<noteq> controller_script
          \<or> txo_value connector_prevout \<noteq> CONNECTOR_VALUE_SATS
       then Inl (Child ChildConnectorPolicy)
       else
        bind_result (ok_or (checked_add (txo_value vault_prevout) CONNECTOR_VALUE_SATS)
                       (Child ChildInputOverflow)) (\<lambda>input.
        bind_result (output_sum tx) (\<lambda>outputs.
        bind_result (ok_or (checked_sub input outputs) (Child ChildOutputsExceed)) (\<lambda>fee.
        if fee \<noteq> fee_sats manifest_tx then Inl (Child ChildFeeMismatch) else Inr ())))))"

section \<open>The allowance chain\<close>

type_synonym chain_state = "outpoint option \<times> txout option \<times> connector_state option"

definition allowance_metadata_ok ::
  "allowance_step \<Rightarrow> nat \<Rightarrow> sequence \<Rightarrow> txout \<Rightarrow> connector_state \<Rightarrow> bool" where
  "allowance_metadata_ok a step expected_delay source_prevout source_connector \<longleftrightarrow>
     al_step a = step \<and> al_delay_seconds a = MONTHLY_ALLOWANCE_DELAY_SECONDS
   \<and> al_delay_sequence a = expected_delay \<and> chain_value_sats a = txo_value source_prevout
   \<and> connector a = source_connector"

definition validate_next_hop ::
  "lib \<Rightarrow> nat \<Rightarrow> script \<Rightarrow> script \<Rightarrow> txout \<Rightarrow> allowance_step \<Rightarrow> transaction \<Rightarrow> chain_state result" where
  "validate_next_hop L limit vault_script controller_script source_prevout a tx =
     bind_result (ok_or (Option.bind (checked_sub (txo_value source_prevout) limit) (\<lambda>v.
                    checked_sub v (fee_sats (authorization a)))) (Allow AllowanceExceeds)) (\<lambda>next_value.
     if script_pubkey (tx_output tx ! 1) \<noteq> vault_script \<or> txo_value (tx_output tx ! 1) \<noteq> next_value
        \<or> next_value < minimal_non_dust L vault_script
     then Inl (Allow AllowanceNextHop)
     else
      bind_result (validate_connector_output (tx_output tx ! 2) controller_script) (\<lambda>_.
      let expected_next_connector =
            \<lparr>cs_outpoint = OutPoint (compute_txid L tx) 2, cs_value_sats = CONNECTOR_VALUE_SATS\<rparr> in
      if next_connector a \<noteq> Some expected_next_connector then Inl (Allow AllowanceDiscontinuous)
      else Inr (Some (OutPoint (compute_txid L tx) 1), Some (tx_output tx ! 1),
                Some expected_next_connector)))"

definition validate_allowance_step ::
  "lib \<Rightarrow> ('b, 'z) ceremony_codecs_scheme \<Rightarrow> vault_config \<Rightarrow> batch_manifest \<Rightarrow> path \<Rightarrow> vault_policy \<Rightarrow>
   controller_policy \<Rightarrow> sequence \<Rightarrow> 'b world \<Rightarrow> nat \<Rightarrow> allowance_step \<Rightarrow> chain_state \<Rightarrow> chain_state result"
where
  "validate_allowance_step L C config manifest batch_dir policy controller expected_delay w i a state =
     (let vault_script = addr_script (vp_address policy);
          controller_script = addr_script (cp_address controller);
          (vault_outpoint, vault_prevout, conn) = state;
          has_next = i + 1 < allowance_count manifest in
      bind_result (if i + 1 < 256 then Inr (i + 1) else Inl (Chain StepExceedsU8)) (\<lambda>step.
      bind_result (ok_or vault_outpoint (Chain ChainSourceMissing)) (\<lambda>source_outpoint.
      bind_result (ok_or vault_prevout (Chain ChainOutputMissing)) (\<lambda>source_prevout.
      bind_result (ok_or conn (Chain ConnectorMissing)) (\<lambda>source_connector.
      if \<not> allowance_metadata_ok a step expected_delay source_prevout source_connector
      then Inl (Allow AllowanceMetadata)
      else
       bind_result (config_network config) (\<lambda>network.
       bind_result (ok_or (address_from_str L (al_hot_address a) network) (Lib AddressError)) (\<lambda>hot.
       bind_result (read_psbt C (join_str batch_dir (psbt_file (authorization a))) w) (\<lambda>psbt.
       bind_result (validate_connector_child L psbt source_prevout source_outpoint
                      (cs_outpoint source_connector) controller_script (authorization a)) (\<lambda>_.
       let tx = unsigned_tx psbt in
       if tx_version tx \<noteq> version_two \<or> tx_lock_time tx \<noteq> lock_time_zero
          \<or> tx_sequence (tx_input tx ! 0) \<noteq> expected_delay
          \<or> tx_sequence (tx_input tx ! 1) \<noteq> sequence_rbf
          \<or> length (tx_output tx) \<noteq> (if has_next then 3 else 1)
          \<or> script_pubkey (tx_output tx ! 0) \<noteq> addr_script hot
          \<or> txo_value (tx_output tx ! 0) \<noteq> monthly_limit_sats manifest
       then Inl (Allow AllowanceAuthorization)
       else
        bind_result
          (if has_next
           then validate_next_hop L (monthly_limit_sats manifest) vault_script controller_script
                  source_prevout a tx
           else if checked_add (txo_value source_prevout) CONNECTOR_VALUE_SATS
                   \<noteq> checked_add (monthly_limit_sats manifest) (fee_sats (authorization a))
                   \<or> next_connector a \<noteq> None
           then Inl (Allow FinalAllowance)
           else Inr (Some source_outpoint, None, None)) (\<lambda>state'.
        bind_result (policy_fee L tx policy controller [0] [1]) (\<lambda>expected_fee.
        if fee_sats (authorization a) \<noteq> expected_fee then Inl (Allow AllowanceFeeRate)
        else Inr state')))))))))))"

fun validate_allowance_steps ::
  "lib \<Rightarrow> ('b, 'z) ceremony_codecs_scheme \<Rightarrow> vault_config \<Rightarrow> batch_manifest \<Rightarrow> path \<Rightarrow> vault_policy \<Rightarrow>
   controller_policy \<Rightarrow> sequence \<Rightarrow> 'b world \<Rightarrow> nat \<Rightarrow> allowance_step list \<Rightarrow> chain_state \<Rightarrow> unit result"
where
  "validate_allowance_steps L C config manifest batch_dir policy controller delay w i [] state = Inr ()"
| "validate_allowance_steps L C config manifest batch_dir policy controller delay w i (a # rest) state =
     bind_result (validate_allowance_step L C config manifest batch_dir policy controller delay w i a state)
       (validate_allowance_steps L C config manifest batch_dir policy controller delay w (Suc i) rest)"

definition validate_allowances ::
  "lib \<Rightarrow> ('b, 'z) ceremony_codecs_scheme \<Rightarrow> vault_config \<Rightarrow> batch_manifest \<Rightarrow> path \<Rightarrow> vault_policy \<Rightarrow>
   controller_policy \<Rightarrow> psbt \<Rightarrow> 'b world \<Rightarrow> unit result" where
  "validate_allowances L C config manifest batch_dir policy controller rollover_psbt w =
     (let tx = unsigned_tx rollover_psbt; txid = compute_txid L tx;
          conn = map_option (\<lambda>vout. \<lparr>cs_outpoint = OutPoint txid vout, cs_value_sats = CONNECTOR_VALUE_SATS\<rparr>)
                   (monthly_connector_vout manifest) in
      bind_result
        (if 0 < allowance_count manifest
         then bind_result (ok_or (allowance_vout manifest) Panic) (\<lambda>vout.
              bind_result (index (tx_output tx) 0) (\<lambda>output.
              Inr (Some (OutPoint txid vout), Some output)))
         else Inr (None, None)) (\<lambda>(vault_outpoint, vault_prevout).
      bind_result (monthly_delay_sequence L) (\<lambda>expected_delay.
      validate_allowance_steps L C config manifest batch_dir policy controller expected_delay w 0
        (allowances manifest) (vault_outpoint, vault_prevout, conn))))"

section \<open>Emergency access\<close>

definition emergency_metadata_ok :: "emergency_access_policy \<Rightarrow> nat \<Rightarrow> sequence \<Rightarrow> bool" where
  "emergency_metadata_ok e limit expected_delay \<longleftrightarrow>
     amount_sats e = limit \<and> em_delay_seconds e = EMERGENCY_ACCESS_DELAY_SECONDS
   \<and> em_delay_sequence e = expected_delay \<and> staging_vout e = 0 \<and> vault_change_vout e = 1"

definition trigger_tx_ok :: "lib \<Rightarrow> emergency_access_policy \<Rightarrow> script \<Rightarrow> transaction \<Rightarrow> bool" where
  "trigger_tx_ok L e vault_script tx \<longleftrightarrow>
     tx_version tx = version_two \<and> tx_lock_time tx = lock_time_zero
   \<and> tx_sequence (tx_input tx ! 0) = sequence_max \<and> tx_sequence (tx_input tx ! 1) = sequence_rbf
   \<and> length (tx_output tx) = 3
   \<and> script_pubkey (tx_output tx ! 0) = vault_script \<and> txo_value (tx_output tx ! 0) = staging_value_sats e
   \<and> script_pubkey (tx_output tx ! 1) = vault_script \<and> txo_value (tx_output tx ! 1) = vault_change_value_sats e
   \<and> minimal_non_dust L vault_script \<le> vault_change_value_sats e"

definition withdrawal_tx_ok :: "emergency_access_policy \<Rightarrow> nat \<Rightarrow> sequence \<Rightarrow> script \<Rightarrow> transaction \<Rightarrow> bool" where
  "withdrawal_tx_ok e limit expected_delay hot_script tx \<longleftrightarrow>
     tx_version tx = version_two \<and> tx_lock_time tx = lock_time_zero
   \<and> tx_sequence (tx_input tx ! 0) = expected_delay \<and> tx_sequence (tx_input tx ! 1) = sequence_rbf
   \<and> length (tx_output tx) = 1
   \<and> script_pubkey (tx_output tx ! 0) = hot_script \<and> txo_value (tx_output tx ! 0) = limit
   \<and> checked_add (staging_value_sats e) CONNECTOR_VALUE_SATS = checked_add limit (fee_sats (withdrawal e))"

definition validate_trigger ::
  "lib \<Rightarrow> ('b, 'z) ceremony_codecs_scheme \<Rightarrow> batch_manifest \<Rightarrow> emergency_access_policy \<Rightarrow> path \<Rightarrow>
   vault_policy \<Rightarrow> controller_policy \<Rightarrow> transaction \<Rightarrow> 'b world \<Rightarrow> transaction result" where
  "validate_trigger L C manifest e batch_dir policy controller rollover_tx w =
     (let vault_script = addr_script (vp_address policy);
          controller_script = addr_script (cp_address controller);
          rollover_txid = compute_txid L rollover_tx in
      bind_result (index (tx_output rollover_tx) (remainder_vout manifest)) (\<lambda>source_prevout.
      bind_result (ok_or (emergency_connector_vout manifest) (Chain EmergencyConnectorMissing)) (\<lambda>vout.
      let expected_connector =
            \<lparr>cs_outpoint = OutPoint rollover_txid vout, cs_value_sats = CONNECTOR_VALUE_SATS\<rparr> in
      if trigger_connector e \<noteq> expected_connector then Inl (Emerg TriggerConnectorMetadata)
      else
       bind_result (read_psbt C (join_str batch_dir (psbt_file (trigger e))) w) (\<lambda>psbt.
       bind_result (validate_connector_child L psbt source_prevout
                      (OutPoint rollover_txid (remainder_vout manifest))
                      (cs_outpoint expected_connector) controller_script (trigger e)) (\<lambda>_.
       let tx = unsigned_tx psbt in
       if \<not> trigger_tx_ok L e vault_script tx then Inl (Emerg TriggerPolicy)
       else
        bind_result (validate_connector_output (tx_output tx ! 2) controller_script) (\<lambda>_.
        if withdrawal_connector e \<noteq>
             \<lparr>cs_outpoint = OutPoint (compute_txid L tx) 2, cs_value_sats = CONNECTOR_VALUE_SATS\<rparr>
        then Inl (Emerg WithdrawalConnectorMetadata)
        else
         bind_result (policy_fee L tx policy controller [0] [1]) (\<lambda>fee.
         if fee_sats (trigger e) \<noteq> fee then Inl (Emerg TriggerFeeRate) else Inr tx)))))))"

definition validate_withdrawal ::
  "lib \<Rightarrow> ('b, 'z) ceremony_codecs_scheme \<Rightarrow> batch_manifest \<Rightarrow> emergency_access_policy \<Rightarrow> path \<Rightarrow>
   vault_policy \<Rightarrow> controller_policy \<Rightarrow> sequence \<Rightarrow> script \<Rightarrow> transaction \<Rightarrow> 'b world \<Rightarrow> unit result" where
  "validate_withdrawal L C manifest e batch_dir policy controller expected_delay hot_script trigger_tx w =
     bind_result (index (tx_output trigger_tx) (staging_vout e)) (\<lambda>staging_prevout.
     bind_result (read_psbt C (join_str batch_dir (psbt_file (withdrawal e))) w) (\<lambda>psbt.
     bind_result (validate_connector_child L psbt staging_prevout
                    (OutPoint (compute_txid L trigger_tx) (staging_vout e))
                    (cs_outpoint (withdrawal_connector e)) (addr_script (cp_address controller))
                    (withdrawal e)) (\<lambda>_.
     let tx = unsigned_tx psbt in
     if \<not> withdrawal_tx_ok e (emergency_access_limit_sats manifest) expected_delay hot_script tx
     then Inl (Emerg WithdrawalPolicy)
     else
      bind_result (policy_fee L tx policy controller [0] [1]) (\<lambda>fee.
      if fee_sats (withdrawal e) \<noteq> fee then Inl (Emerg WithdrawalFeeRate) else Inr ()))))"

definition validate_connector_emergency ::
  "lib \<Rightarrow> ('b, 'z) ceremony_codecs_scheme \<Rightarrow> vault_config \<Rightarrow> batch_manifest \<Rightarrow> path \<Rightarrow> vault_policy \<Rightarrow>
   controller_policy \<Rightarrow> psbt \<Rightarrow> 'b world \<Rightarrow> unit result" where
  "validate_connector_emergency L C config manifest batch_dir policy controller rollover_psbt w =
     (case emergency_access manifest of
        None \<Rightarrow> if emergency_access_limit_sats manifest = 0 then Inr () else Inl (Emerg EmergencyMissing)
      | Some e \<Rightarrow>
         if emergency_access_limit_sats manifest = 0 then Inl (Emerg EmergencyDisabledPresent)
         else
          bind_result (emergency_delay_sequence L) (\<lambda>expected_delay.
          if \<not> emergency_metadata_ok e (emergency_access_limit_sats manifest) expected_delay
          then Inl (Emerg EmergencyMetadata)
          else
           bind_result (config_network config) (\<lambda>network.
           bind_result (ok_or (address_from_str L (em_hot_address e) network) (Lib AddressError)) (\<lambda>hot.
           bind_result (validate_trigger L C manifest e batch_dir policy controller
                          (unsigned_tx rollover_psbt) w) (\<lambda>trigger_tx.
           validate_withdrawal L C manifest e batch_dir policy controller expected_delay
             (addr_script hot) trigger_tx w)))))"

section \<open>The whole batch\<close>

definition validate_manifest_header :: "vault_config \<Rightarrow> batch_manifest \<Rightarrow> unit result" where
  "validate_manifest_header config m =
     (if bm_vault_descriptor m \<noteq> vc_vault_descriptor config \<or> bm_vault_address m \<noteq> vc_vault_address config
      then Inl (Roll PolicyMismatch)
      else if fee_rate_sat_vb m \<noteq> DEFAULT_FEE_RATE_SAT_VB then Inl (Roll FeeRateMismatch)
      else if (monthly_limit_sats m = 0 \<and> allowance_count m \<noteq> 0)
              \<or> MONTHS_PER_ROLLOVER < allowance_count m \<or> length (allowances m) \<noteq> allowance_count m
      then Inl (Roll AllowanceCount)
      else Inr ())"

definition expected_output_count :: "batch_manifest \<Rightarrow> nat" where
  "expected_output_count m =
     of_bool (0 < allowance_count m) + 1 + of_bool (0 < allowance_count m)
     + of_bool (0 < emergency_access_limit_sats m)"

definition rollover_mismatch :: "lib \<Rightarrow> batch_manifest \<Rightarrow> psbt \<Rightarrow> nat list \<Rightarrow> nat list \<Rightarrow> bool result" where
  "rollover_mismatch L m rollover_psbt vault_indexes controller_indexes =
     (let tx = unsigned_tx rollover_psbt in
      or_else (Inr (txid_to_string L (compute_txid L tx) \<noteq> unsigned_txid (rollover m)
          \<or> tx_version tx \<noteq> version_two \<or> tx_lock_time tx \<noteq> lock_time_zero
          \<or> tx_input tx = [] \<or> length (tx_input tx) \<noteq> length (psbt_inputs rollover_psbt)
          \<or> length (tx_output tx) \<noteq> expected_output_count m))
      (or_else
        (try_any (\<lambda>i. bind_result (index (tx_input tx) i) (\<lambda>inp. Inr (tx_sequence inp \<noteq> sequence_max)))
           vault_indexes)
        (try_any (\<lambda>i. bind_result (index (tx_input tx) i) (\<lambda>inp. Inr (tx_sequence inp \<noteq> sequence_rbf)))
           controller_indexes)))"

definition validate_rollover_amounts ::
  "lib \<Rightarrow> batch_manifest \<Rightarrow> psbt \<Rightarrow> nat list \<Rightarrow> nat list \<Rightarrow> vault_policy \<Rightarrow> controller_policy \<Rightarrow> unit result" where
  "validate_rollover_amounts L m rollover_psbt vault_indexes controller_indexes policy controller =
     bind_result (psbt_role_input_sum rollover_psbt vault_indexes (addr_script (vp_address policy))) (\<lambda>vault_sum.
     bind_result (psbt_role_input_sum rollover_psbt controller_indexes
                    (addr_script (cp_address controller))) (\<lambda>controller_sum.
     bind_result (ok_or (checked_add vault_sum controller_sum) (Roll RolloverTotalOverflow)) (\<lambda>total.
     bind_result (output_sum (unsigned_tx rollover_psbt)) (\<lambda>outputs.
     bind_result (ok_or (checked_sub total outputs) (Roll RolloverOutputsExceed)) (\<lambda>fee.
     if vault_sum \<noteq> vault_input_sats m \<or> controller_sum \<noteq> controller_input_sats m
        \<or> total \<noteq> total_input_sats m \<or> fee \<noteq> fee_sats (rollover m)
     then Inl (Roll RolloverAmountMismatch)
     else
      bind_result (policy_fee L (unsigned_tx rollover_psbt) policy controller vault_indexes
                     controller_indexes) (\<lambda>expected_fee.
      if fee_sats (rollover m) \<noteq> expected_fee then Inl (Roll RolloverFeeRate) else Inr ()))))))"

definition rollover_indexes_ok :: "batch_manifest \<Rightarrow> bool" where
  "rollover_indexes_ok m \<longleftrightarrow>
     (let has_allowances = 0 < allowance_count m; expected_remainder_vout = of_bool has_allowances in
      allowance_vout m = (if has_allowances then Some 0 else None)
    \<and> remainder_vout m = expected_remainder_vout
    \<and> monthly_connector_vout m = (if has_allowances then Some (expected_remainder_vout + 1) else None)
    \<and> emergency_connector_vout m =
        (if 0 < emergency_access_limit_sats m
         then Some (expected_remainder_vout + 1 + of_bool has_allowances) else None)
    \<and> (has_allowances \<or> allowance_value_sats m = 0))"

definition validate_connector_vout :: "transaction \<Rightarrow> script \<Rightarrow> nat option \<Rightarrow> unit result" where
  "validate_connector_vout tx controller_script vout = (case vout of None \<Rightarrow> Inr ()
     | Some v \<Rightarrow> bind_result (ok_or (get (tx_output tx) v) (Allow ConnectorVoutRange)) (\<lambda>output.
                validate_connector_output output controller_script))"

definition validate_rollover_outputs ::
  "lib \<Rightarrow> batch_manifest \<Rightarrow> transaction \<Rightarrow> script \<Rightarrow> script \<Rightarrow> unit result" where
  "validate_rollover_outputs L m tx vault_script controller_script =
     (if \<not> rollover_indexes_ok m then Inl (Roll RolloverIndexes)
      else
       bind_result
         (if 0 < allowance_count m
          then bind_result (index (tx_output tx) 0) (\<lambda>output.
               if script_pubkey output \<noteq> vault_script \<or> txo_value output \<noteq> allowance_value_sats m
               then Inl (Allow RolloverAllowanceOutput) else Inr ())
          else Inr ()) (\<lambda>_.
       bind_result (index (tx_output tx) (remainder_vout m)) (\<lambda>remainder.
       if script_pubkey remainder \<noteq> vault_script \<or> txo_value remainder \<noteq> remainder_value_sats m
          \<or> txo_value remainder < minimal_non_dust L vault_script
       then Inl (Allow RolloverRemainder)
       else
        bind_result (validate_connector_vout tx controller_script (monthly_connector_vout m)) (\<lambda>_.
        validate_connector_vout tx controller_script (emergency_connector_vout m)))))"

definition validate_manifest_sighashes ::
  "('b, 'z) ceremony_codecs_scheme \<Rightarrow> batch_manifest \<Rightarrow> path \<Rightarrow> 'b world \<Rightarrow> unit result" where
  "validate_manifest_sighashes C m batch_dir w =
     try_fold (\<lambda>_ t. bind_result (read_psbt C (join_str batch_dir (psbt_file t)) w) validate_default_sighashes)
       () (manifest_transactions m)"

definition validate_batch ::
  "lib \<Rightarrow> ('b, 'z) ceremony_codecs_scheme \<Rightarrow> vault_config \<Rightarrow> batch_manifest \<Rightarrow> path \<Rightarrow> 'b world \<Rightarrow>
   vault_policy result" where
  "validate_batch L C config m batch_dir w =
     (if bm_version m \<noteq> 5 \<or> bm_network m \<noteq> vc_network config then Inl (Roll ManifestOrNetwork)
      else
       bind_result (validate_manifest_sighashes C m batch_dir w) (\<lambda>_.
       bind_result (validate_manifest_header config m) (\<lambda>_.
       bind_result (config_network config) (\<lambda>network.
       bind_result (vault_from_descriptor L (vc_vault_descriptor config) network) (\<lambda>policy.
       bind_result (ceremony_controller_policy L config) (\<lambda>controller.
       if bm_controller_descriptor m \<noteq> controller_descriptor_string L controller
          \<or> bm_controller_address m \<noteq> addr_text (cp_address controller)
          \<or> bm_connector_value_sats m \<noteq> CONNECTOR_VALUE_SATS
       then Inl (Roll ControllerMismatch)
       else
        bind_result (read_psbt C (join_str batch_dir (psbt_file (rollover m))) w) (\<lambda>rollover_psbt.
        bind_result (transaction_indexes (vault_input_indexes (rollover m))) (\<lambda>vault_indexes.
        bind_result (transaction_indexes (controller_input_indexes (rollover m))) (\<lambda>controller_indexes.
        bind_result (validate_input_partition (length (tx_input (unsigned_tx rollover_psbt)))
                       vault_indexes controller_indexes) (\<lambda>_.
        bind_result (rollover_mismatch L m rollover_psbt vault_indexes controller_indexes) (\<lambda>bad.
        if bad then Inl (Roll RolloverMismatch)
        else
         bind_result (validate_rollover_amounts L m rollover_psbt vault_indexes controller_indexes
                        policy controller) (\<lambda>_.
         bind_result (validate_rollover_outputs L m (unsigned_tx rollover_psbt)
                        (addr_script (vp_address policy)) (addr_script (cp_address controller))) (\<lambda>_.
         bind_result (validate_allowances L C config m batch_dir policy controller rollover_psbt w) (\<lambda>_.
         bind_result (validate_connector_emergency L C config m batch_dir policy controller
                        rollover_psbt w) (\<lambda>_.
         Inr policy)))))))))))))))"

fun finalize_inputs :: "lib \<Rightarrow> error \<Rightarrow> nat list \<Rightarrow> psbt \<Rightarrow> psbt result" where
  "finalize_inputs L e [] psbt = Inr psbt"
| "finalize_inputs L e (i # is) psbt =
     bind_result (ok_or (finalize_input L psbt i) e) (finalize_inputs L e is)"

definition check_approved_transaction ::
  "lib \<Rightarrow> ('b, 'z) ceremony_codecs_scheme \<Rightarrow> batch_manifest \<Rightarrow> path \<Rightarrow> vault_policy \<Rightarrow> xonly \<Rightarrow> xonly \<Rightarrow>
   'b world \<Rightarrow> batch_transaction \<Rightarrow> unit result" where
  "check_approved_transaction L C m batch_dir policy phone_pubkey hww_pubkey w t =
     bind_result (read_psbt C (join_str batch_dir (psbt_file t)) w) (\<lambda>psbt.
     bind_result (transaction_indexes (vault_input_indexes t)) (\<lambda>indexes.
     bind_result (map_err (verify_vault_psbt_signatures L psbt policy Cooperative phone_pubkey indexes)
                    (Child InvalidBatchSignature)) (\<lambda>_.
     bind_result (map_err (verify_vault_psbt_signatures L psbt policy Cooperative hww_pubkey indexes)
                    (Child InvalidBatchSignature)) (\<lambda>_.
     bind_result (finalize_inputs L (Child InputCannotFinalize) indexes psbt) (\<lambda>psbt'.
     if psbt_file t = psbt_file (rollover m)
     then bind_result (transaction_indexes (controller_input_indexes t)) (\<lambda>cs.
          bind_result (finalize_inputs L (Child RolloverControllerFinalize) cs psbt') (\<lambda>_. Inr ()))
     else Inr ())))))"

definition validate_approved_batch ::
  "lib \<Rightarrow> ('b, 'z) ceremony_codecs_scheme \<Rightarrow> vault_config \<Rightarrow> batch_manifest \<Rightarrow> path \<Rightarrow> 'b world \<Rightarrow>
   vault_policy result" where
  "validate_approved_batch L C config m batch_dir w =
     (if \<not> phone_approved m \<or> \<not> hww_approved m then Inl (Roll NotApproved)
      else
       bind_result (validate_batch L C config m batch_dir w) (\<lambda>policy.
       bind_result (ok_or (xonly_from_str L (phone_vault_pubkey config)) (Lib KeyParseError)) (\<lambda>phone_pubkey.
       bind_result (ok_or (xonly_from_str L (hww_vault_pubkey config)) (Lib KeyParseError)) (\<lambda>hww_pubkey.
       bind_result (try_fold (\<lambda>_ t. check_approved_transaction L C m batch_dir policy phone_pubkey hww_pubkey w t)
                      () (manifest_transactions m)) (\<lambda>_.
       Inr policy)))))"

section \<open>The PSBT store\<close>

interpretation psbts: store psbt_text_ok write_psbt read_psbt
proof
  fix c :: "('a, 'b) ceremony_codecs_scheme" and p x and w w' :: "'a world" and r q
  show "read_psbt c p w' = Inr x" if "psbt_text_ok c" "write_psbt c p x w = (Inr (), w')"
    using that write_private_Inr [of p _ w w' p]
    by (auto simp: write_psbt_def read_psbt_def psbt_text_ok_def read_file_def)
  show "read_psbt c q w' = read_psbt c q w"
    if "write_psbt c p x w = (r, w')" "resolve q \<noteq> resolve p"
    using write_private_frame [of p _ w r w' q] that
    by (auto simp: write_psbt_def read_psbt_def read_file_def)
  show "read_psbt c p w' = read_psbt c p w \<or> read_psbt c p w' = Inr x"
    if "psbt_text_ok c" "write_psbt c p x w = (r, w')"
    using write_private_atomic [of p "with_newline c (psbt_to_text c x)" w r w'] that
    by (auto simp: write_psbt_def read_psbt_def psbt_text_ok_def read_file_def)
qed

end
