(* ===== verification/Ceremony_Spec.thy ===== *)
theory Ceremony_Spec
  imports Ceremony_Validate
begin

text \<open>
  What a ceremony promises, independently of files, manifests and the order of checks: a
  \<open>plan\<close> is a rollover transaction, a chain of allowance transactions and optionally an
  emergency pair, and \<open>plan_ok\<close> says which outputs each spends, what each pays to whom and at
  which relative delay. The soundness lemma shows that every batch \<^verbatim>\<open>validate_batch\<close>
  accepts describes such a plan, and the consequences of \<open>plan_ok\<close> are what the devices rely on.
\<close>

section \<open>Plans\<close>

abbreviation pays :: "nat \<Rightarrow> script \<Rightarrow> txout" where
  "pays v s \<equiv> \<lparr>txo_value = v, script_pubkey = s\<rparr>"

abbreviation vault_script_of :: "vault_policy \<Rightarrow> script" where
  "vault_script_of policy \<equiv> addr_script (vp_address policy)"

abbreviation controller_script_of :: "controller_policy \<Rightarrow> script" where
  "controller_script_of controller \<equiv> addr_script (cp_address controller)"

definition out_value :: "transaction \<Rightarrow> nat" where
  "out_value tx = sum_list (map txo_value (tx_output tx))"

definition spends_pair ::
  "lib \<Rightarrow> vault_policy \<Rightarrow> controller_policy \<Rightarrow> transaction \<Rightarrow> outpoint \<Rightarrow> nat \<Rightarrow> outpoint \<Rightarrow> sequence \<Rightarrow> bool" where
  "spends_pair L policy controller tx vault_op vault_value connector_op delay \<longleftrightarrow>
     tx_version tx = version_two \<and> tx_lock_time tx = lock_time_zero
   \<and> map (\<lambda>i. (previous_output i, tx_sequence i)) (tx_input tx) =
       [(vault_op, delay), (connector_op, sequence_rbf)]
   \<and> out_value tx \<le> vault_value + CONNECTOR_VALUE_SATS
   \<and> policy_fee L tx policy controller [0] [1] = Inr (vault_value + CONNECTOR_VALUE_SATS - out_value tx)"

fun chain_plan ::
  "lib \<Rightarrow> vault_policy \<Rightarrow> controller_policy \<Rightarrow> nat \<Rightarrow> sequence \<Rightarrow> outpoint \<Rightarrow> nat \<Rightarrow> outpoint
   \<Rightarrow> (script \<times> transaction) list \<Rightarrow> bool"
where
  "chain_plan L policy controller limit delay vault_op vault_value connector_op [] = True"
| "chain_plan L policy controller limit delay vault_op vault_value connector_op ((hot, tx) # rest) \<longleftrightarrow>
     spends_pair L policy controller tx vault_op vault_value connector_op delay
   \<and> (if rest = [] then tx_output tx = [pays limit hot]
      else (case tx_output tx of [allowance, hop, conn] \<Rightarrow>
                allowance = pays limit hot \<and> script_pubkey hop = vault_script_of policy
              \<and> conn = pays CONNECTOR_VALUE_SATS (controller_script_of controller)
              \<and> minimal_non_dust L (vault_script_of policy) \<le> txo_value hop
              \<and> chain_plan L policy controller limit delay (OutPoint (compute_txid L tx) 1)
                  (txo_value hop) (OutPoint (compute_txid L tx) 2) rest
            | _ \<Rightarrow> False))"

record emergency_plan =
  ep_trigger :: transaction
  ep_withdrawal :: transaction
  ep_hot :: script

definition emergency_plan_ok ::
  "lib \<Rightarrow> vault_policy \<Rightarrow> controller_policy \<Rightarrow> nat \<Rightarrow> sequence \<Rightarrow> outpoint \<Rightarrow> nat \<Rightarrow> outpoint
   \<Rightarrow> emergency_plan \<Rightarrow> bool" where
  "emergency_plan_ok L policy controller limit delay vault_op vault_value connector_op ep \<longleftrightarrow>
     (let t = ep_trigger ep; w = ep_withdrawal ep in
      spends_pair L policy controller t vault_op vault_value connector_op sequence_max
    \<and> (case tx_output t of [staging, change, conn] \<Rightarrow>
           script_pubkey staging = vault_script_of policy \<and> script_pubkey change = vault_script_of policy
         \<and> conn = pays CONNECTOR_VALUE_SATS (controller_script_of controller)
         \<and> minimal_non_dust L (vault_script_of policy) \<le> txo_value change
         \<and> spends_pair L policy controller w (OutPoint (compute_txid L t) 0) (txo_value staging)
             (OutPoint (compute_txid L t) 2) delay
       | _ \<Rightarrow> False)
    \<and> tx_output w = [pays limit (ep_hot ep)])"

record plan =
  plan_rollover :: transaction
  plan_vault_inputs :: "nat list"
  plan_controller_inputs :: "nat list"
  plan_input_value :: nat
  plan_allowance_value :: nat
  plan_remainder :: nat
  plan_allowances :: "(script \<times> transaction) list"
  plan_emergency :: "emergency_plan option"

definition plan_transactions :: "plan \<Rightarrow> transaction list" where
  "plan_transactions p = plan_rollover p # map snd (plan_allowances p)
     @ (case plan_emergency p of None \<Rightarrow> [] | Some e \<Rightarrow> [ep_trigger e, ep_withdrawal e])"

definition rollover_outputs :: "vault_policy \<Rightarrow> controller_policy \<Rightarrow> plan \<Rightarrow> txout list" where
  "rollover_outputs policy controller p =
     (if plan_allowances p = [] then [] else [pays (plan_allowance_value p) (vault_script_of policy)])
     @ [pays (plan_remainder p) (vault_script_of policy)]
     @ (if plan_allowances p = [] then []
        else [pays CONNECTOR_VALUE_SATS (controller_script_of controller)])
     @ (if plan_emergency p = None then []
        else [pays CONNECTOR_VALUE_SATS (controller_script_of controller)])"

definition plan_ok ::
  "lib \<Rightarrow> vault_policy \<Rightarrow> controller_policy \<Rightarrow> nat \<Rightarrow> nat \<Rightarrow> plan \<Rightarrow> bool" where
  "plan_ok L policy controller limit emergency_limit p \<longleftrightarrow>
     (let tx = plan_rollover p; txid = compute_txid L tx; n = length (plan_allowances p);
          k = (of_bool (0 < n) :: nat) in
      n \<le> MONTHS_PER_ROLLOVER \<and> (limit = 0 \<longrightarrow> n = 0)
    \<and> tx_output tx = rollover_outputs policy controller p
    \<and> minimal_non_dust L (vault_script_of policy) \<le> plan_remainder p
    \<and> out_value tx \<le> plan_input_value p
    \<and> policy_fee L tx policy controller (plan_vault_inputs p) (plan_controller_inputs p)
        = Inr (plan_input_value p - out_value tx)
    \<and> (\<exists>delay. monthly_delay_sequence L = Inr delay
        \<and> chain_plan L policy controller limit delay (OutPoint txid 0) (plan_allowance_value p)
            (OutPoint txid 2) (plan_allowances p))
    \<and> (case plan_emergency p of None \<Rightarrow> emergency_limit = 0
       | Some e \<Rightarrow> 0 < emergency_limit \<and> (\<exists>delay. emergency_delay_sequence L = Inr delay
           \<and> emergency_plan_ok L policy controller emergency_limit delay (OutPoint txid k)
               (plan_remainder p) (OutPoint txid (2 * k + 1)) e)))"

section \<open>What a plan promises\<close>

text \<open>
  \<open>released\<close> is what a transaction pays to any script other than the vault's and the
  controller's.
\<close>

definition released :: "vault_policy \<Rightarrow> controller_policy \<Rightarrow> transaction \<Rightarrow> nat" where
  "released policy controller tx =
     sum_list (map txo_value (filter (\<lambda>out. script_pubkey out \<noteq> vault_script_of policy
       \<and> script_pubkey out \<noteq> controller_script_of controller) (tx_output tx)))"

lemma chain_plan_released:
  "chain_plan L policy controller limit delay vo v co steps \<Longrightarrow>
   sum_list (map (released policy controller) (map snd steps)) \<le> length steps * limit"
proof (induction L policy controller limit delay vo v co steps rule: chain_plan.induct)
  case (1 L policy controller limit delay vo v co)
  then show ?case by simp
next
  case (2 L policy controller limit delay vo v co hot tx rest)
  have "released policy controller tx \<le> limit"
    using 2 by (auto simp: released_def split: if_splits)
  moreover have "sum_list (map (released policy controller) (map snd rest)) \<le> length rest * limit"
    using 2 by (cases "rest = []") auto
  ultimately show ?case by simp
qed

lemma plan_released:
  assumes "plan_ok L policy controller limit emergency_limit p"
  shows "sum_list (map (released policy controller) (plan_transactions p))
    \<le> length (plan_allowances p) * limit + emergency_limit"
proof -
  have "released policy controller (plan_rollover p) = 0"
    using assms by (simp add: plan_ok_def Let_def released_def rollover_outputs_def)
  moreover have "sum_list (map (released policy controller) (map snd (plan_allowances p)))
      \<le> length (plan_allowances p) * limit"
    using assms chain_plan_released by (auto simp: plan_ok_def Let_def)
  moreover have "sum_list (map (released policy controller)
      (case plan_emergency p of None \<Rightarrow> [] | Some e \<Rightarrow> [ep_trigger e, ep_withdrawal e])) \<le> emergency_limit"
    using assms
    by (auto simp: plan_ok_def Let_def released_def emergency_plan_ok_def split: option.splits)
  ultimately show ?thesis by (simp add: plan_transactions_def)
qed

definition fee_of :: "lib \<Rightarrow> vault_policy \<Rightarrow> controller_policy \<Rightarrow> transaction \<Rightarrow> nat" where
  "fee_of L policy controller tx =
     (case policy_fee L tx policy controller [0] [1] of Inl _ \<Rightarrow> 0 | Inr fee \<Rightarrow> fee)"

lemma spends_pair_value:
  "spends_pair L policy controller tx vo v co delay \<Longrightarrow>
   v + CONNECTOR_VALUE_SATS = out_value tx + fee_of L policy controller tx"
  by (auto simp: spends_pair_def fee_of_def)

lemma chain_plan_value:
  "chain_plan L policy controller limit delay vo v co steps \<Longrightarrow> steps \<noteq> [] \<Longrightarrow>
   v + CONNECTOR_VALUE_SATS =
     length steps * limit + sum_list (map (fee_of L policy controller) (map snd steps))"
proof (induction L policy controller limit delay vo v co steps rule: chain_plan.induct)
  case (1 L policy controller limit delay vo v co)
  then show ?case by simp
next
  case (2 L policy controller limit delay vo v co hot tx rest)
  have pair: "v + CONNECTOR_VALUE_SATS = out_value tx + fee_of L policy controller tx"
    using 2(2) by (auto dest: spends_pair_value)
  show ?case
  proof (cases "rest = []")
    case True
    then show ?thesis using 2 pair by (simp add: out_value_def)
  next
    case False
    then obtain hop where out: "tx_output tx = [pays limit hot, hop,
        pays CONNECTOR_VALUE_SATS (controller_script_of controller)]"
      and tail: "chain_plan L policy controller limit delay (OutPoint (compute_txid L tx) 1)
        (txo_value hop) (OutPoint (compute_txid L tx) 2) rest"
      using 2(2) by auto
    have "txo_value hop + CONNECTOR_VALUE_SATS =
        length rest * limit + sum_list (map (fee_of L policy controller) (map snd rest))"
      using 2(1) [OF False out refl refl refl tail False] .
    then show ?thesis using pair out by (simp add: out_value_def)
  qed
qed

section \<open>Soundness of validation\<close>

lemma validate_connector_child_Inr:
  assumes "validate_connector_child L psbt pv vo co cs t = Inr ()"
  shows "map previous_output (tx_input (unsigned_tx psbt)) = [vo, co]"
    and "out_value (unsigned_tx psbt) + fee_sats t = txo_value pv + CONNECTOR_VALUE_SATS"
    and "txo_value pv + CONNECTOR_VALUE_SATS < u64_bound"
    and "tap_script_sigs (psbt_inputs psbt ! 1) = []"
    and "length (psbt_inputs psbt) = 2 \<and> witness_utxo (psbt_inputs psbt ! 0) = Some pv"
  using assms
  by (auto simp: validate_connector_child_def Let_def length_eq_2 output_sum_def out_value_def
      split: if_splits)

lemma validate_next_hop_Inr:
  assumes "validate_next_hop L limit vs cs pv a tx = Inr st" and "length (tx_output tx) = 3"
  shows "\<exists>x hop. tx_output tx = [x, hop, pays CONNECTOR_VALUE_SATS cs] \<and> script_pubkey hop = vs
    \<and> minimal_non_dust L vs \<le> txo_value hop
    \<and> st = (Some (OutPoint (compute_txid L tx) 1), Some hop,
            Some \<lparr>cs_outpoint = OutPoint (compute_txid L tx) 2, cs_value_sats = CONNECTOR_VALUE_SATS\<rparr>)"
  using assms
  by (auto simp: validate_next_hop_def validate_connector_output_def Let_def length_eq_3 split: if_splits)

lemma validate_allowance_step_Inr:
  assumes "validate_allowance_step L C config m dir policy controller delay w i a
      (Some vo, Some pv, Some conn) = Inr st"
  shows "\<exists>psbt network hot. read_psbt C (join_str dir (psbt_file (authorization a))) w = Inr psbt
    \<and> config_network config = Inr network \<and> address_from_str L (al_hot_address a) network = Some hot
    \<and> spends_pair L policy controller (unsigned_tx psbt) vo (txo_value pv) (cs_outpoint conn) delay
    \<and> (if i + 1 < allowance_count m
       then \<exists>hop. tx_output (unsigned_tx psbt) =
              [pays (monthly_limit_sats m) (addr_script hot), hop,
               pays CONNECTOR_VALUE_SATS (controller_script_of controller)]
            \<and> script_pubkey hop = vault_script_of policy
            \<and> minimal_non_dust L (vault_script_of policy) \<le> txo_value hop
            \<and> st = (Some (OutPoint (compute_txid L (unsigned_tx psbt)) 1), Some hop,
                Some \<lparr>cs_outpoint = OutPoint (compute_txid L (unsigned_tx psbt)) 2,
                      cs_value_sats = CONNECTOR_VALUE_SATS\<rparr>)
       else tx_output (unsigned_tx psbt) = [pays (monthly_limit_sats m) (addr_script hot)])"
proof -
  obtain network hot psbt where net: "config_network config = Inr network"
    and addr: "address_from_str L (al_hot_address a) network = Some hot"
    and psbt: "read_psbt C (join_str dir (psbt_file (authorization a))) w = Inr psbt"
    and child: "validate_connector_child L psbt pv vo (cs_outpoint conn)
      (controller_script_of controller) (authorization a) = Inr ()"
    and shape: "tx_version (unsigned_tx psbt) = version_two" "tx_lock_time (unsigned_tx psbt) = lock_time_zero"
      "tx_sequence (tx_input (unsigned_tx psbt) ! 0) = delay"
      "tx_sequence (tx_input (unsigned_tx psbt) ! 1) = sequence_rbf"
      "length (tx_output (unsigned_tx psbt)) = (if i + 1 < allowance_count m then 3 else 1)"
      "script_pubkey (tx_output (unsigned_tx psbt) ! 0) = addr_script hot"
      "txo_value (tx_output (unsigned_tx psbt) ! 0) = monthly_limit_sats m"
    and hop: "i + 1 < allowance_count m \<Longrightarrow> validate_next_hop L (monthly_limit_sats m)
      (vault_script_of policy) (controller_script_of controller) pv a (unsigned_tx psbt) = Inr st"
    and fee: "policy_fee L (unsigned_tx psbt) policy controller [0] [1] = Inr (fee_sats (authorization a))"
    using assms by (auto simp: validate_allowance_step_def Let_def split: if_splits)
  note c = validate_connector_child_Inr [OF child]
  obtain x y where inp: "tx_input (unsigned_tx psbt) = [x, y]"
    using c(1) by (auto simp: map_eq_Cons_conv)
  have "spends_pair L policy controller (unsigned_tx psbt) vo (txo_value pv) (cs_outpoint conn) delay"
    using c(1,2) shape fee inp unfolding spends_pair_def by auto
  moreover have "\<exists>z. tx_output (unsigned_tx psbt) = [z]" if "\<not> i + 1 < allowance_count m"
    using shape(5) that by (simp add: length_eq_1 [unfolded One_nat_def])
  moreover have "z = pays (monthly_limit_sats m) (addr_script hot)"
    if "tx_output (unsigned_tx psbt) ! 0 = z" for z
    using shape(6,7) that by (cases z) simp
  ultimately show ?thesis
    using psbt net addr validate_next_hop_Inr [OF hop] shape(5)
    by (intro exI [of _ psbt] exI [of _ network] exI [of _ hot]) (auto split: if_splits)
qed

definition describes_step ::
  "lib \<Rightarrow> ('b, 'z) ceremony_codecs_scheme \<Rightarrow> vault_config \<Rightarrow> path \<Rightarrow> 'b world \<Rightarrow> allowance_step
   \<Rightarrow> script \<times> transaction \<Rightarrow> bool" where
  "describes_step L C config dir w a s \<longleftrightarrow>
     (\<exists>psbt network hot. read_psbt C (join_str dir (psbt_file (authorization a))) w = Inr psbt
        \<and> unsigned_tx psbt = snd s \<and> config_network config = Inr network
        \<and> address_from_str L (al_hot_address a) network = Some hot \<and> addr_script hot = fst s)"

lemma validate_allowance_steps_sound:
  assumes "validate_allowance_steps L C config m dir policy controller delay w i as
      (Some vo, Some pv, Some conn) = Inr ()"
    and "i + length as = allowance_count m"
  shows "\<exists>steps. list_all2 (describes_step L C config dir w) as steps
    \<and> chain_plan L policy controller (monthly_limit_sats m) delay vo (txo_value pv) (cs_outpoint conn) steps"
  using assms
proof (induction as arbitrary: i vo pv conn)
  case Nil
  show ?case by (rule exI [of _ "[]"]) simp
next
  case (Cons a as)
  obtain st where step: "validate_allowance_step L C config m dir policy controller delay w i a
      (Some vo, Some pv, Some conn) = Inr st"
    and rest: "validate_allowance_steps L C config m dir policy controller delay w (Suc i) as st = Inr ()"
    using Cons.prems(1) by auto
  from validate_allowance_step_Inr [OF step] obtain psbt network hot where
    psbt: "read_psbt C (join_str dir (psbt_file (authorization a))) w = Inr psbt"
      "config_network config = Inr network" "address_from_str L (al_hot_address a) network = Some hot"
    and pair: "spends_pair L policy controller (unsigned_tx psbt) vo (txo_value pv) (cs_outpoint conn) delay"
    and out: "if i + 1 < allowance_count m
       then \<exists>hop. tx_output (unsigned_tx psbt) =
              [pays (monthly_limit_sats m) (addr_script hot), hop,
               pays CONNECTOR_VALUE_SATS (controller_script_of controller)]
            \<and> script_pubkey hop = vault_script_of policy
            \<and> minimal_non_dust L (vault_script_of policy) \<le> txo_value hop
            \<and> st = (Some (OutPoint (compute_txid L (unsigned_tx psbt)) 1), Some hop,
                Some \<lparr>cs_outpoint = OutPoint (compute_txid L (unsigned_tx psbt)) 2,
                      cs_value_sats = CONNECTOR_VALUE_SATS\<rparr>)
       else tx_output (unsigned_tx psbt) = [pays (monthly_limit_sats m) (addr_script hot)]"
    by blast
  have d: "describes_step L C config dir w a (addr_script hot, unsigned_tx psbt)"
    using psbt by (auto simp: describes_step_def)
  show ?case
  proof (cases "as = []")
    case True
    then have "tx_output (unsigned_tx psbt) = [pays (monthly_limit_sats m) (addr_script hot)]"
      using out Cons.prems(2) by simp
    with True d pair show ?thesis
      by (intro exI [of _ "[(addr_script hot, unsigned_tx psbt)]"]) simp
  next
    case False
    then have "i + 1 < allowance_count m" using Cons.prems(2) by (cases as) auto
    then obtain hop where hop: "tx_output (unsigned_tx psbt) =
              [pays (monthly_limit_sats m) (addr_script hot), hop,
               pays CONNECTOR_VALUE_SATS (controller_script_of controller)]"
      "script_pubkey hop = vault_script_of policy" "minimal_non_dust L (vault_script_of policy) \<le> txo_value hop"
      and st: "st = (Some (OutPoint (compute_txid L (unsigned_tx psbt)) 1), Some hop,
                Some \<lparr>cs_outpoint = OutPoint (compute_txid L (unsigned_tx psbt)) 2,
                      cs_value_sats = CONNECTOR_VALUE_SATS\<rparr>)"
      using out by auto
    obtain steps where steps: "list_all2 (describes_step L C config dir w) as steps"
      "chain_plan L policy controller (monthly_limit_sats m) delay
        (OutPoint (compute_txid L (unsigned_tx psbt)) 1) (txo_value hop)
        (OutPoint (compute_txid L (unsigned_tx psbt)) 2) steps"
      using Cons.IH [OF rest [unfolded st]] Cons.prems(2) by auto
    then have "steps \<noteq> []" using False by auto
    then show ?thesis
      using d pair hop steps by (intro exI [of _ "(addr_script hot, unsigned_tx psbt) # steps"]) simp
  qed
qed

lemma validate_trigger_Inr:
  assumes "validate_trigger L C m e dir policy controller rtx w = Inr tx"
  shows "\<exists>psbt vout source staging change. read_psbt C (join_str dir (psbt_file (trigger e))) w = Inr psbt
    \<and> unsigned_tx psbt = tx \<and> emergency_connector_vout m = Some vout
    \<and> remainder_vout m < length (tx_output rtx) \<and> tx_output rtx ! remainder_vout m = source
    \<and> spends_pair L policy controller tx (OutPoint (compute_txid L rtx) (remainder_vout m)) (txo_value source)
        (OutPoint (compute_txid L rtx) vout) sequence_max
    \<and> tx_output tx = [staging, change, pays CONNECTOR_VALUE_SATS (controller_script_of controller)]
    \<and> script_pubkey staging = vault_script_of policy \<and> script_pubkey change = vault_script_of policy
    \<and> minimal_non_dust L (vault_script_of policy) \<le> txo_value change
    \<and> withdrawal_connector e = \<lparr>cs_outpoint = OutPoint (compute_txid L tx) 2, cs_value_sats = CONNECTOR_VALUE_SATS\<rparr>"
proof -
  obtain source vout psbt where src: "remainder_vout m < length (tx_output rtx)"
      "tx_output rtx ! remainder_vout m = source"
    and vout: "emergency_connector_vout m = Some vout"
    and psbt: "read_psbt C (join_str dir (psbt_file (trigger e))) w = Inr psbt" "unsigned_tx psbt = tx"
    and child: "validate_connector_child L psbt source (OutPoint (compute_txid L rtx) (remainder_vout m))
      (OutPoint (compute_txid L rtx) vout) (controller_script_of controller) (trigger e) = Inr ()"
    and ok: "trigger_tx_ok L e (vault_script_of policy) tx"
    and conn: "validate_connector_output (tx_output tx ! 2) (controller_script_of controller) = Inr ()"
    and wc: "withdrawal_connector e =
      \<lparr>cs_outpoint = OutPoint (compute_txid L tx) 2, cs_value_sats = CONNECTOR_VALUE_SATS\<rparr>"
    and fee: "policy_fee L tx policy controller [0] [1] = Inr (fee_sats (trigger e))"
    using assms by (auto simp: validate_trigger_def Let_def split: if_splits)
  note c = validate_connector_child_Inr [OF child, unfolded psbt(2)]
  obtain x y where inp: "tx_input tx = [x, y]" using c(1) by (auto simp: map_eq_Cons_conv)
  obtain s ch k where out: "tx_output tx = [s, ch, k]"
    using ok by (auto simp: trigger_tx_ok_def length_eq_3)
  have "spends_pair L policy controller tx (OutPoint (compute_txid L rtx) (remainder_vout m)) (txo_value source)
      (OutPoint (compute_txid L rtx) vout) sequence_max"
    using c(1,2) ok fee inp by (auto simp: spends_pair_def trigger_tx_ok_def)
  moreover have "k = pays CONNECTOR_VALUE_SATS (controller_script_of controller)"
    using conn out by (cases k) (auto simp: validate_connector_output_def split: if_splits)
  ultimately show ?thesis
    using src vout psbt wc out ok
    by (intro exI [of _ psbt] exI [of _ vout] exI [of _ source] exI [of _ s] exI [of _ ch])
      (auto simp: trigger_tx_ok_def)
qed

lemma validate_withdrawal_Inr:
  assumes "validate_withdrawal L C m e dir policy controller delay hot ttx w = Inr ()"
    and "staging_vout e = 0"
  shows "\<exists>psbt. read_psbt C (join_str dir (psbt_file (withdrawal e))) w = Inr psbt
    \<and> spends_pair L policy controller (unsigned_tx psbt) (OutPoint (compute_txid L ttx) 0)
        (txo_value (tx_output ttx ! 0)) (cs_outpoint (withdrawal_connector e)) delay
    \<and> tx_output (unsigned_tx psbt) = [pays (emergency_access_limit_sats m) hot]"
proof -
  obtain psbt where psbt: "read_psbt C (join_str dir (psbt_file (withdrawal e))) w = Inr psbt"
    and child: "validate_connector_child L psbt (tx_output ttx ! 0) (OutPoint (compute_txid L ttx) 0)
      (cs_outpoint (withdrawal_connector e)) (controller_script_of controller) (withdrawal e) = Inr ()"
    and ok: "withdrawal_tx_ok e (emergency_access_limit_sats m) delay hot (unsigned_tx psbt)"
    and fee: "policy_fee L (unsigned_tx psbt) policy controller [0] [1] = Inr (fee_sats (withdrawal e))"
    using assms by (auto simp: validate_withdrawal_def Let_def split: if_splits)
  note c = validate_connector_child_Inr [OF child]
  obtain x y where inp: "tx_input (unsigned_tx psbt) = [x, y]" using c(1) by (auto simp: map_eq_Cons_conv)
  obtain z where out: "tx_output (unsigned_tx psbt) = [z]"
    using ok by (auto simp: withdrawal_tx_ok_def length_Suc_conv)
  have "spends_pair L policy controller (unsigned_tx psbt) (OutPoint (compute_txid L ttx) 0)
      (txo_value (tx_output ttx ! 0)) (cs_outpoint (withdrawal_connector e)) delay"
    using c(1,2) ok fee inp by (auto simp: spends_pair_def withdrawal_tx_ok_def)
  then show ?thesis
    using psbt out ok by (cases z) (auto simp: withdrawal_tx_ok_def)
qed

lemma eq_pays_iff: "x = pays v s \<longleftrightarrow> txo_value x = v \<and> script_pubkey x = s"
  by (cases x) auto

lemma validate_connector_output_Inr:
  "validate_connector_output out cs = Inr () \<longleftrightarrow> out = pays CONNECTOR_VALUE_SATS cs"
  by (auto simp: validate_connector_output_def eq_pays_iff)

lemma validate_rollover_outputs_Inr:
  assumes "validate_rollover_outputs L m tx vs cs = Inr ()"
    and "length (tx_output tx) = expected_output_count m"
  shows "rollover_indexes_ok m \<and> minimal_non_dust L vs \<le> remainder_value_sats m \<and>
    tx_output tx = (if 0 < allowance_count m then [pays (allowance_value_sats m) vs] else [])
      @ [pays (remainder_value_sats m) vs]
      @ (if 0 < allowance_count m then [pays CONNECTOR_VALUE_SATS cs] else [])
      @ (if 0 < emergency_access_limit_sats m then [pays CONNECTOR_VALUE_SATS cs] else [])"
proof -
  have idx: "rollover_indexes_ok m" and rem: "remainder_vout m < length (tx_output tx)"
    and r: "tx_output tx ! remainder_vout m = pays (remainder_value_sats m) vs"
    and dust: "minimal_non_dust L vs \<le> remainder_value_sats m"
    and a: "0 < allowance_count m \<Longrightarrow> tx_output tx ! 0 = pays (allowance_value_sats m) vs"
    and mc: "\<And>v. monthly_connector_vout m = Some v \<Longrightarrow> tx_output tx ! v = pays CONNECTOR_VALUE_SATS cs"
    and ec: "\<And>v. emergency_connector_vout m = Some v \<Longrightarrow> tx_output tx ! v = pays CONNECTOR_VALUE_SATS cs"
    using assms(1)
    by (auto simp: validate_rollover_outputs_def validate_connector_vout_def eq_pays_iff
        validate_connector_output_Inr split: if_splits option.splits)
  show ?thesis
    using idx dust r a mc ec assms(2)
    by (cases "0 < allowance_count m"; cases "0 < emergency_access_limit_sats m")
      (auto simp: rollover_indexes_ok_def expected_output_count_def Let_def length_Suc_conv
        numeral_2_eq_2 numeral_3_eq_3)
qed

lemma psbt_role_sum_total:
  "try_fold (role_sum_step psbt s) acc is = Inr v \<Longrightarrow>
   (\<forall>i \<in> set is. i < length (psbt_inputs psbt) \<and>
      (\<exists>out. witness_utxo (psbt_inputs psbt ! i) = Some out \<and> script_pubkey out = s))
   \<and> v = acc + sum_list (map (\<lambda>i. txo_value (the (witness_utxo (psbt_inputs psbt ! i)))) is)"
proof (induction "is" arbitrary: acc)
  case Nil
  then show ?case by simp
next
  case (Cons i js)
  obtain acc' where step: "role_sum_step psbt s acc i = Inr acc'"
    and rest: "try_fold (role_sum_step psbt s) acc' js = Inr v"
    using Cons.prems by auto
  have "i < length (psbt_inputs psbt) \<and> (\<exists>out. witness_utxo (psbt_inputs psbt ! i) = Some out
      \<and> script_pubkey out = s \<and> acc' = acc + txo_value out)"
    using step by (auto simp: role_sum_step_def role_prevout_def split: if_splits)
  with Cons.IH [OF rest] show ?case by auto
qed

lemma transaction_indexes_Inr: "transaction_indexes is = Inr js \<Longrightarrow> js = is"
  unfolding transaction_indexes_def
  by (induction "is" arbitrary: js) (auto split: if_splits)

definition reads_tx ::
  "('b, 'z) ceremony_codecs_scheme \<Rightarrow> path \<Rightarrow> 'b world \<Rightarrow> batch_transaction \<Rightarrow> transaction \<Rightarrow> bool" where
  "reads_tx C dir w t tx \<longleftrightarrow> (\<exists>psbt. read_psbt C (join_str dir (psbt_file t)) w = Inr psbt \<and> unsigned_tx psbt = tx)"

text \<open>
  \<open>batch_describes\<close>: the files of a batch directory hold exactly the transactions of the plan,
  in the order of the manifest, and the policies are the configured ones.
\<close>

definition batch_describes ::
  "lib \<Rightarrow> ('b, 'z) ceremony_codecs_scheme \<Rightarrow> vault_config \<Rightarrow> batch_manifest \<Rightarrow> path \<Rightarrow> 'b world \<Rightarrow>
   vault_policy \<Rightarrow> controller_policy \<Rightarrow> plan \<Rightarrow> bool" where
  "batch_describes L C config m dir w policy controller p \<longleftrightarrow>
     (\<exists>network. config_network config = Inr network
        \<and> vault_from_descriptor L (vc_vault_descriptor config) network = Inr policy)
   \<and> ceremony_controller_policy L config = Inr controller
   \<and> list_all2 (reads_tx C dir w) (manifest_transactions m) (plan_transactions p)
   \<and> plan_vault_inputs p = vault_input_indexes (rollover m)
   \<and> plan_controller_inputs p = controller_input_indexes (rollover m)
   \<and> plan_input_value p = total_input_sats m \<and> plan_allowance_value p = allowance_value_sats m
   \<and> plan_remainder p = remainder_value_sats m
   \<and> length (plan_allowances p) = allowance_count m"

lemma list_all2_describes_reads:
  "list_all2 (describes_step L C config dir w) as steps \<Longrightarrow>
   list_all2 (reads_tx C dir w) (map authorization as) (map snd steps)"
  by (induction rule: list_all2_induct) (auto simp: describes_step_def reads_tx_def)

lemma validate_allowances_sound:
  assumes "validate_allowances L C config m dir policy controller psbt w = Inr ()"
    and "rollover_indexes_ok m" and "length (allowances m) = allowance_count m"
  shows "\<exists>steps delay. list_all2 (describes_step L C config dir w) (allowances m) steps
    \<and> monthly_delay_sequence L = Inr delay
    \<and> chain_plan L policy controller (monthly_limit_sats m) delay
        (OutPoint (compute_txid L (unsigned_tx psbt)) 0) (txo_value (tx_output (unsigned_tx psbt) ! 0))
        (OutPoint (compute_txid L (unsigned_tx psbt)) 2) steps"
proof (cases "0 < allowance_count m")
  case True
  obtain delay where d: "monthly_delay_sequence L = Inr delay"
    and steps: "validate_allowance_steps L C config m dir policy controller delay w 0 (allowances m)
      (Some (OutPoint (compute_txid L (unsigned_tx psbt)) 0), Some (tx_output (unsigned_tx psbt) ! 0),
       Some \<lparr>cs_outpoint = OutPoint (compute_txid L (unsigned_tx psbt)) 2,
             cs_value_sats = CONNECTOR_VALUE_SATS\<rparr>) = Inr ()"
    using assms True
    by (auto simp: validate_allowances_def rollover_indexes_ok_def Let_def numeral_2_eq_2)
  show ?thesis
    using validate_allowance_steps_sound [OF steps] assms(3) d by auto
next
  case False
  then show ?thesis
    using assms by (intro exI [of _ "[]"]) (auto simp: validate_allowances_def Let_def)
qed

lemma validate_emergency_sound:
  assumes "validate_connector_emergency L C config m dir policy controller psbt w = Inr ()"
    and "emergency_access m = Some e"
  shows "\<exists>ep delay vout. 0 < emergency_access_limit_sats m \<and> emergency_delay_sequence L = Inr delay
    \<and> emergency_connector_vout m = Some vout
    \<and> remainder_vout m < length (tx_output (unsigned_tx psbt))
    \<and> list_all2 (reads_tx C dir w) [trigger e, withdrawal e] [ep_trigger ep, ep_withdrawal ep]
    \<and> emergency_plan_ok L policy controller (emergency_access_limit_sats m) delay
        (OutPoint (compute_txid L (unsigned_tx psbt)) (remainder_vout m))
        (txo_value (tx_output (unsigned_tx psbt) ! remainder_vout m))
        (OutPoint (compute_txid L (unsigned_tx psbt)) vout) ep"
proof -
  obtain delay ttx and hot :: address where lim: "0 < emergency_access_limit_sats m"
    and d: "emergency_delay_sequence L = Inr delay"
    and meta: "emergency_metadata_ok e (emergency_access_limit_sats m) delay"
    and t: "validate_trigger L C m e dir policy controller (unsigned_tx psbt) w = Inr ttx"
    and wd: "validate_withdrawal L C m e dir policy controller delay (addr_script hot) ttx w = Inr ()"
    using assms by (auto simp: validate_connector_emergency_def split: if_splits)
  have "staging_vout e = 0" using meta by (simp add: emergency_metadata_ok_def)
  then obtain wp where wp: "read_psbt C (join_str dir (psbt_file (withdrawal e))) w = Inr wp"
    "spends_pair L policy controller (unsigned_tx wp) (OutPoint (compute_txid L ttx) 0)
      (txo_value (tx_output ttx ! 0)) (cs_outpoint (withdrawal_connector e)) delay"
    "tx_output (unsigned_tx wp) = [pays (emergency_access_limit_sats m) (addr_script hot)]"
    using validate_withdrawal_Inr [OF wd] by blast
  from validate_trigger_Inr [OF t] wp lim d show ?thesis
    by (intro exI [of _ "\<lparr>ep_trigger = ttx, ep_withdrawal = unsigned_tx wp, ep_hot = addr_script hot\<rparr>"])
      (auto simp: emergency_plan_ok_def Let_def reads_tx_def)
qed

lemma validate_emergency_plan:
  assumes "validate_connector_emergency L C config m dir policy controller psbt w = Inr ()"
    and "rollover_indexes_ok m"
    and "tx_output (unsigned_tx psbt) =
      (if 0 < allowance_count m then [pays (allowance_value_sats m) (vault_script_of policy)] else [])
      @ [pays (remainder_value_sats m) (vault_script_of policy)] @ rest"
  obtains ep where "list_all2 (reads_tx C dir w)
      (case emergency_access m of None \<Rightarrow> [] | Some e \<Rightarrow> [trigger e, withdrawal e])
      (case ep of None \<Rightarrow> [] | Some e \<Rightarrow> [ep_trigger e, ep_withdrawal e])"
    and "(ep = None) = (emergency_access_limit_sats m = 0)"
    and "\<And>x. ep = Some x \<Longrightarrow> \<exists>delay. emergency_delay_sequence L = Inr delay
        \<and> emergency_plan_ok L policy controller (emergency_access_limit_sats m) delay
          (OutPoint (compute_txid L (unsigned_tx psbt)) (of_bool (0 < allowance_count m)))
          (remainder_value_sats m)
          (OutPoint (compute_txid L (unsigned_tx psbt)) (2 * of_bool (0 < allowance_count m) + 1)) x"
proof (cases "emergency_access m")
  case None
  then show ?thesis
    using assms(1) that [of None]
    by (auto simp: validate_connector_emergency_def split: if_splits)
next
  case (Some e)
  obtain ep delay vout where lim: "0 < emergency_access_limit_sats m"
    and d: "emergency_delay_sequence L = Inr delay" and vout: "emergency_connector_vout m = Some vout"
    and reads: "list_all2 (reads_tx C dir w) [trigger e, withdrawal e] [ep_trigger ep, ep_withdrawal ep]"
    and ok: "emergency_plan_ok L policy controller (emergency_access_limit_sats m) delay
        (OutPoint (compute_txid L (unsigned_tx psbt)) (remainder_vout m))
        (txo_value (tx_output (unsigned_tx psbt) ! remainder_vout m))
        (OutPoint (compute_txid L (unsigned_tx psbt)) vout) ep"
    using validate_emergency_sound [OF assms(1) Some] by blast
  have "remainder_vout m = of_bool (0 < allowance_count m)"
    "vout = 2 * of_bool (0 < allowance_count m) + 1"
    using assms(2) vout by (auto simp: rollover_indexes_ok_def Let_def split: if_splits)
  moreover have "txo_value (tx_output (unsigned_tx psbt) ! remainder_vout m) = remainder_value_sats m"
    using assms(2,3) by (auto simp: rollover_indexes_ok_def Let_def)
  ultimately show ?thesis
    using Some lim d reads ok that [of "Some ep"] by auto
qed

lemma rollover_mismatch_False:
  "rollover_mismatch L m psbt vs cs = Inr False \<Longrightarrow>
   length (tx_output (unsigned_tx psbt)) = expected_output_count m
   \<and> length (tx_input (unsigned_tx psbt)) = length (psbt_inputs psbt)
   \<and> tx_version (unsigned_tx psbt) = version_two \<and> tx_lock_time (unsigned_tx psbt) = lock_time_zero"
  by (auto simp: rollover_mismatch_def Let_def)

lemma validate_rollover_amounts_Inr:
  assumes "validate_rollover_amounts L m psbt vs cs policy controller = Inr ()"
  shows "out_value (unsigned_tx psbt) \<le> total_input_sats m
    \<and> policy_fee L (unsigned_tx psbt) policy controller vs cs
        = Inr (total_input_sats m - out_value (unsigned_tx psbt))"
  using assms
  by (auto simp: validate_rollover_amounts_def output_sum_def out_value_def split: if_splits)

theorem validate_batch_plan:
  assumes "validate_batch L C config m dir w = Inr policy"
  shows "\<exists>controller p. batch_describes L C config m dir w policy controller p
    \<and> plan_ok L policy controller (monthly_limit_sats m) (emergency_access_limit_sats m) p"
proof -
  obtain network controller psbt vs cs where
    cfg: "config_network config = Inr network"
      "vault_from_descriptor L (vc_vault_descriptor config) network = Inr policy"
      "ceremony_controller_policy L config = Inr controller"
    and header: "validate_manifest_header config m = Inr ()"
    and psbt: "read_psbt C (join_str dir (psbt_file (rollover m))) w = Inr psbt"
    and idx: "transaction_indexes (vault_input_indexes (rollover m)) = Inr vs"
      "transaction_indexes (controller_input_indexes (rollover m)) = Inr cs"
    and mism: "rollover_mismatch L m psbt vs cs = Inr False"
    and am: "validate_rollover_amounts L m psbt vs cs policy controller = Inr ()"
    and outs: "validate_rollover_outputs L m (unsigned_tx psbt) (vault_script_of policy)
      (controller_script_of controller) = Inr ()"
    and al: "validate_allowances L C config m dir policy controller psbt w = Inr ()"
    and em: "validate_connector_emergency L C config m dir policy controller psbt w = Inr ()"
    using assms by (auto simp: validate_batch_def split: if_splits)
  let ?tx = "unsigned_tx psbt" and ?n = "allowance_count m" and ?E = "emergency_access_limit_sats m"
  have eqs: "vs = vault_input_indexes (rollover m)" "cs = controller_input_indexes (rollover m)"
    using idx transaction_indexes_Inr by blast+
  have cnt: "length (allowances m) = ?n" "?n \<le> MONTHS_PER_ROLLOVER" "monthly_limit_sats m = 0 \<longrightarrow> ?n = 0"
    using header by (auto simp: validate_manifest_header_def split: if_splits)
  have o: "rollover_indexes_ok m" "minimal_non_dust L (vault_script_of policy) \<le> remainder_value_sats m"
    and out: "tx_output ?tx = (if 0 < ?n then [pays (allowance_value_sats m) (vault_script_of policy)] else [])
      @ [pays (remainder_value_sats m) (vault_script_of policy)]
      @ (if 0 < ?n then [pays CONNECTOR_VALUE_SATS (controller_script_of controller)] else [])
      @ (if 0 < ?E then [pays CONNECTOR_VALUE_SATS (controller_script_of controller)] else [])"
    using validate_rollover_outputs_Inr [OF outs] rollover_mismatch_False [OF mism] by blast+
  obtain steps delay where steps: "list_all2 (describes_step L C config dir w) (allowances m) steps"
    "monthly_delay_sequence L = Inr delay"
    "chain_plan L policy controller (monthly_limit_sats m) delay (OutPoint (compute_txid L ?tx) 0)
      (txo_value (tx_output ?tx ! 0)) (OutPoint (compute_txid L ?tx) 2) steps"
    using validate_allowances_sound [OF al o(1) cnt(1)] by blast
  have len: "length steps = ?n" using steps(1) cnt(1) list_all2_lengthD by metis
  have chain: "chain_plan L policy controller (monthly_limit_sats m) delay (OutPoint (compute_txid L ?tx) 0)
      (allowance_value_sats m) (OutPoint (compute_txid L ?tx) 2) steps"
    using steps(3) out len by (cases steps) auto
  obtain e where ep: "list_all2 (reads_tx C dir w)
      (case emergency_access m of None \<Rightarrow> [] | Some e \<Rightarrow> [trigger e, withdrawal e])
      (case e of None \<Rightarrow> [] | Some e \<Rightarrow> [ep_trigger e, ep_withdrawal e])"
    and none: "(e = None) = (?E = 0)"
    and eok: "\<And>x. e = Some x \<Longrightarrow> \<exists>delay. emergency_delay_sequence L = Inr delay
        \<and> emergency_plan_ok L policy controller ?E delay (OutPoint (compute_txid L ?tx) (of_bool (0 < ?n)))
          (remainder_value_sats m) (OutPoint (compute_txid L ?tx) (2 * of_bool (0 < ?n) + 1)) x"
    by (rule validate_emergency_plan [OF em o(1) out], rule that)
  let ?p = "\<lparr>plan_rollover = ?tx, plan_vault_inputs = vs, plan_controller_inputs = cs,
    plan_input_value = total_input_sats m, plan_allowance_value = allowance_value_sats m,
    plan_remainder = remainder_value_sats m, plan_allowances = steps, plan_emergency = e\<rparr>"
  have "batch_describes L C config m dir w policy controller ?p"
    using cfg psbt eqs len ep list_all2_describes_reads [OF steps(1)]
    by (auto simp: batch_describes_def plan_transactions_def manifest_transactions_def reads_tx_def
        intro: list_all2_appendI)
  moreover have "tx_output ?tx = rollover_outputs policy controller ?p"
    using out len none by (auto simp: rollover_outputs_def)
  then have "plan_ok L policy controller (monthly_limit_sats m) ?E ?p"
    unfolding plan_ok_def Let_def
    using cnt len o(2) validate_rollover_amounts_Inr [OF am] steps(2) chain none eok
    by (cases e) simp_all
  ultimately show ?thesis by blast
qed

end
