(* ===== verification/Ceremony_Build.thy ===== *)
theory Ceremony_Build
  imports Ceremony_Spec
begin

text \<open>
  The phone's side of a ceremony in \<^verbatim>\<open>src/core/ceremony.rs\<close>: choosing how many monthly
  allowances the balance funds, building and signing the rollover, the allowance chain and the
  emergency pair, and writing them with their manifest into the batch directory. The policy
  package that carries a batch between the devices is here too.
\<close>

section \<open>Amounts\<close>

definition emergency_staging_value ::
  "lib \<Rightarrow> vault_policy \<Rightarrow> controller_policy \<Rightarrow> nat \<Rightarrow> sequence \<Rightarrow> address option \<Rightarrow> nat result" where
  "emergency_staging_value L policy controller limit delay hot = (case hot of
       None \<Rightarrow> Inr 0
     | Some a \<Rightarrow>
        if limit < minimal_non_dust L (addr_script a) then Inl (Propose EmergencyDust)
        else bind_result (emergency_withdrawal_fee L policy controller outpoint_null limit delay (addr_script a)) (\<lambda>fee.
             ok_or (Option.bind (checked_add limit fee) (\<lambda>v. checked_sub v CONNECTOR_VALUE_SATS))
               (Propose EmergencyOverflow)))"

definition minimum_remainder_value ::
  "lib \<Rightarrow> vault_policy \<Rightarrow> controller_policy \<Rightarrow> nat \<Rightarrow> nat \<Rightarrow> nat result" where
  "minimum_remainder_value L policy controller emergency_limit staging =
     (let vault_script = vault_script_of policy; dust = minimal_non_dust L vault_script in
      if emergency_limit = 0 then Inr dust
      else bind_result (emergency_trigger_fee L policy controller outpoint_null staging dust vault_script) (\<lambda>fee.
           ok_or (Option.bind (checked_add staging fee) (\<lambda>v. checked_add v dust))
             (Propose EmergencyReserveOverflow)))"

definition authorization_fees ::
  "lib \<Rightarrow> vault_policy \<Rightarrow> controller_policy \<Rightarrow> nat \<Rightarrow> sequence \<Rightarrow> (nat \<times> nat) result" where
  "authorization_fees L policy controller limit delay =
     (let vault_script = vault_script_of policy in
      if limit = 0 then Inr (0, 0)
      else if limit < minimal_non_dust L vault_script then Inl (Propose MonthlyDust)
      else bind_result (authorization_fee L policy controller outpoint_null limit delay vault_script True) (\<lambda>c.
           bind_result (authorization_fee L policy controller outpoint_null limit delay vault_script False) (\<lambda>f.
           Inr (c, f))))"

record rollover_inputs =
  ri_template :: "txin list"
  ri_vault_indexes :: "nat list"
  ri_controller_indexes :: "nat list"
  ri_total :: nat

fun select_rollover ::
  "lib \<Rightarrow> vault_policy \<Rightarrow> controller_policy \<Rightarrow> rollover_inputs \<Rightarrow> nat \<Rightarrow> nat \<Rightarrow> nat \<Rightarrow> nat \<Rightarrow> nat \<Rightarrow> nat list
   \<Rightarrow> (nat \<times> nat \<times> nat \<times> nat) option result" where
  "select_rollover L policy controller ri limit emergency_limit continuing_fee final_fee minimum_remainder [] = Inr None"
| "select_rollover L policy controller ri limit emergency_limit continuing_fee final_fee minimum_remainder (count # counts) =
     bind_result (allowance_chain_value count limit continuing_fee final_fee) (\<lambda>allowance_value.
     bind_result (policy_fee L (rollover_template (ri_template ri) (Some allowance_value) 1
         (vault_script_of policy) (controller_script_of controller) True (0 < emergency_limit))
         policy controller (ri_vault_indexes ri) (ri_controller_indexes ri)) (\<lambda>fee.
     let connectors = CONNECTOR_VALUE_SATS * (1 + of_bool (0 < emergency_limit)) in
     bind_result (ok_or (Option.bind (checked_add fee allowance_value) (\<lambda>v.
         Option.bind (checked_add v minimum_remainder) (\<lambda>v. checked_add v connectors)))
         (Propose RolloverRequirementOverflow)) (\<lambda>required.
     if required \<le> ri_total ri
     then Inr (Some (count, allowance_value, fee, ri_total ri - fee - allowance_value - connectors))
     else select_rollover L policy controller ri limit emergency_limit continuing_fee final_fee
            minimum_remainder counts)))"

definition choose_rollover ::
  "lib \<Rightarrow> vault_policy \<Rightarrow> controller_policy \<Rightarrow> rollover_inputs \<Rightarrow> nat \<Rightarrow> nat \<Rightarrow> nat \<times> nat \<Rightarrow> nat
   \<Rightarrow> (nat \<times> nat \<times> nat \<times> nat) result" where
  "choose_rollover L policy controller ri limit emergency_limit fees minimum_remainder =
     bind_result (if 0 < limit
        then select_rollover L policy controller ri limit emergency_limit (fst fees) (snd fees)
               minimum_remainder (rev [1..<Suc MONTHS_PER_ROLLOVER])
        else Inr None) (\<lambda>selected.
     bind_result (case selected of Some choice \<Rightarrow> Inr choice
       | None \<Rightarrow>
          bind_result (policy_fee L (rollover_template (ri_template ri) None 1 (vault_script_of policy)
              (controller_script_of controller) False (0 < emergency_limit))
              policy controller (ri_vault_indexes ri) (ri_controller_indexes ri)) (\<lambda>fee.
          bind_result (ok_or (Option.bind (checked_sub (ri_total ri) fee) (\<lambda>v.
              checked_sub v (CONNECTOR_VALUE_SATS * of_bool (0 < emergency_limit))))
              (Propose CannotPayRollover)) (\<lambda>remainder.
          Inr (0, 0, fee, remainder)))) (\<lambda>(count, allowance_value, fee, remainder).
     if remainder < minimum_remainder
     then Inl (Propose (if 0 < emergency_limit then CannotFundEmergency else DustRemainder))
     else Inr (count, allowance_value, fee, remainder)))"

section \<open>The allowance chain\<close>

definition next_chain_value :: "nat \<Rightarrow> nat \<Rightarrow> nat \<Rightarrow> bool \<Rightarrow> nat option" where
  "next_chain_value source limit fee has_next =
     Option.bind (checked_add source CONNECTOR_VALUE_SATS) (\<lambda>v.
     Option.bind (if has_next then checked_sub v CONNECTOR_VALUE_SATS else Some v) (\<lambda>v.
     Option.bind (checked_sub v limit) (\<lambda>v. checked_sub v fee)))"

definition authorization_file :: "nat \<Rightarrow> string" where
  "authorization_file step = ''allowances/'' @ show_nat2 step @ ''/authorization.psbt''"

definition build_allowance_step ::
  "lib \<Rightarrow> ('b, 'z) ceremony_codecs_scheme \<Rightarrow> vault_policy \<Rightarrow> controller_policy \<Rightarrow> nat \<Rightarrow> sequence \<Rightarrow> nat \<Rightarrow>
   path \<Rightarrow> device_keys \<Rightarrow> nat \<Rightarrow> chain_state \<Rightarrow> ('b, allowance_step \<times> chain_state) io" where
  "build_allowance_step L C policy controller limit delay count batch_dir phone i state =
     (let (chain_outpoint, chain_txout, connector_state) = state; has_next = i + 1 < count;
          vault_script = vault_script_of policy; controller_script = controller_script_of controller in
      bindM (liftM (if i + 1 < 256 then Inr (i + 1) else Inl (Chain StepExceedsU8))) (\<lambda>step.
      bindM next_receive_address (\<lambda>hot_address.
      bindM (liftM (ok_or chain_outpoint (Chain ChainSourceMissing))) (\<lambda>source_outpoint.
      bindM (liftM (ok_or chain_txout (Chain ChainOutputMissing))) (\<lambda>source_txout.
      bindM (liftM (ok_or connector_state (Chain ConnectorMissing))) (\<lambda>source_connector.
      bindM (liftM (authorization_fee L policy controller source_outpoint limit delay
                      (addr_script hot_address) has_next)) (\<lambda>fee.
      bindM (liftM (ok_or (next_chain_value (txo_value source_txout) limit fee has_next)
                      (Chain ChainCannotFund))) (\<lambda>next_value.
      if has_next \<and> next_value < minimal_non_dust L vault_script then failM (Chain DustChainOutput)
      else if \<not> has_next \<and> next_value \<noteq> 0 then failM (Chain ChainNotExhausted)
      else
       let tx = authorization_template source_outpoint (cs_outpoint source_connector) limit delay
                  (addr_script hot_address) (if has_next then Some (next_value, vault_script) else None)
                  controller_script;
           txid = compute_txid L tx;
           next_conn = (if has_next then Some \<lparr>cs_outpoint = OutPoint txid 2,
                          cs_value_sats = CONNECTOR_VALUE_SATS\<rparr> else None) in
       bindM (liftM (create_policy_psbt L tx [source_txout, pays CONNECTOR_VALUE_SATS controller_script]
                       [0] [1] policy controller)) (\<lambda>psbt.
       bindM (liftM (sign_vault_psbt_inputs L psbt policy Cooperative (vault_keypair phone) [0])) (\<lambda>signed.
       bindM (write_psbt C (join_str batch_dir (authorization_file step)) signed) (\<lambda>_.
       returnM (\<lparr>al_step = step, al_delay_seconds = MONTHLY_ALLOWANCE_DELAY_SECONDS,
                 al_delay_sequence = delay, chain_value_sats = txo_value source_txout,
                 al_hot_address = addr_text hot_address, connector = source_connector,
                 next_connector = next_conn,
                 authorization = \<lparr>psbt_file = authorization_file step,
                   unsigned_txid = txid_to_string L txid, fee_sats = fee,
                   vault_input_indexes = [0], controller_input_indexes = [1]\<rparr>\<rparr>,
               if has_next then (Some (OutPoint txid 1), Some (tx_output tx ! 1), next_conn)
               else (None, None, None)))))))))))))"

fun build_allowances ::
  "lib \<Rightarrow> ('b, 'z) ceremony_codecs_scheme \<Rightarrow> vault_policy \<Rightarrow> controller_policy \<Rightarrow> nat \<Rightarrow> sequence \<Rightarrow> nat \<Rightarrow>
   path \<Rightarrow> device_keys \<Rightarrow> nat list \<Rightarrow> chain_state \<Rightarrow> ('b, allowance_step list) io" where
  "build_allowances L C policy controller limit delay count batch_dir phone [] state = returnM []"
| "build_allowances L C policy controller limit delay count batch_dir phone (i # is) state =
     bindM (build_allowance_step L C policy controller limit delay count batch_dir phone i state) (\<lambda>(a, state').
     bindM (build_allowances L C policy controller limit delay count batch_dir phone is state') (\<lambda>as.
     returnM (a # as)))"

section \<open>Emergency access\<close>

definition emergency_amounts ::
  "lib \<Rightarrow> vault_policy \<Rightarrow> controller_policy \<Rightarrow> outpoint \<Rightarrow> nat \<Rightarrow> nat \<Rightarrow> sequence \<Rightarrow> script
   \<Rightarrow> (nat \<times> nat \<times> nat \<times> nat) result" where
  \<comment> \<open>the withdrawal fee, the staging value, the trigger fee and the vault change\<close>
  "emergency_amounts L policy controller source_outpoint source amount delay hot_script =
     (let vault_script = vault_script_of policy; dust = minimal_non_dust L vault_script in
      bind_result (emergency_withdrawal_fee L policy controller outpoint_null amount delay hot_script) (\<lambda>wfee.
      bind_result (ok_or (Option.bind (checked_add amount wfee) (\<lambda>v. checked_sub v CONNECTOR_VALUE_SATS))
                     (Chain EmergencyUnfunded)) (\<lambda>staging.
      if staging < dust then Inl (Chain StagingDust)
      else
       bind_result (emergency_trigger_fee L policy controller source_outpoint staging dust vault_script) (\<lambda>tfee.
       bind_result (ok_or (Option.bind (checked_sub source staging) (\<lambda>v. checked_sub v tfee))
                      (Chain RemainderCannotFund)) (\<lambda>change.
       if change < dust then Inl (Chain VaultChangeDust) else Inr (wfee, staging, tfee, change))))))"

definition build_emergency_access ::
  "lib \<Rightarrow> ('b, 'z) ceremony_codecs_scheme \<Rightarrow> vault_policy \<Rightarrow> controller_policy \<Rightarrow> outpoint \<Rightarrow> txout \<Rightarrow>
   connector_state \<Rightarrow> nat \<Rightarrow> sequence \<Rightarrow> address \<Rightarrow> path \<Rightarrow> device_keys \<Rightarrow> ('b, emergency_access_policy) io" where
  "build_emergency_access L C policy controller source_outpoint source_txout trigger_conn amount delay
      hot_address batch_dir phone =
     (let vault_script = vault_script_of policy; controller_script = controller_script_of controller;
          connector_prevout = pays CONNECTOR_VALUE_SATS controller_script in
      bindM (liftM (emergency_amounts L policy controller source_outpoint (txo_value source_txout) amount
                      delay (addr_script hot_address))) (\<lambda>(wfee, staging, tfee, change).
      let trigger_tx = emergency_trigger_template source_outpoint (cs_outpoint trigger_conn) staging change
                         vault_script controller_script in
      bindM (liftM (create_policy_psbt L trigger_tx [source_txout, connector_prevout] [0] [1]
                      policy controller)) (\<lambda>trigger_psbt.
      bindM (liftM (sign_vault_psbt_inputs L trigger_psbt policy Cooperative (vault_keypair phone) [0])) (\<lambda>trigger_signed.
      let trigger_txid = compute_txid L trigger_tx;
          withdrawal_conn = \<lparr>cs_outpoint = OutPoint trigger_txid 2, cs_value_sats = CONNECTOR_VALUE_SATS\<rparr>;
          withdrawal_tx = emergency_withdrawal_template (OutPoint trigger_txid 0)
                            (cs_outpoint withdrawal_conn) amount delay (addr_script hot_address) in
      bindM (liftM (create_policy_psbt L withdrawal_tx [tx_output trigger_tx ! 0, connector_prevout] [0] [1]
                      policy controller)) (\<lambda>withdrawal_psbt.
      bindM (liftM (sign_vault_psbt_inputs L withdrawal_psbt policy Cooperative (vault_keypair phone) [0])) (\<lambda>withdrawal_signed.
      bindM (write_psbt C (join_str batch_dir ''emergency/trigger.psbt'') trigger_signed) (\<lambda>_.
      bindM (write_psbt C (join_str batch_dir ''emergency/withdrawal.psbt'') withdrawal_signed) (\<lambda>_.
      returnM \<lparr>amount_sats = amount, em_delay_seconds = EMERGENCY_ACCESS_DELAY_SECONDS,
        em_delay_sequence = delay, em_hot_address = addr_text hot_address,
        staging_vout = 0, staging_value_sats = staging, vault_change_vout = 1,
        vault_change_value_sats = change, trigger_connector = trigger_conn,
        withdrawal_connector = withdrawal_conn,
        trigger = \<lparr>psbt_file = ''emergency/trigger.psbt'', unsigned_txid = txid_to_string L trigger_txid,
          fee_sats = tfee, vault_input_indexes = [0], controller_input_indexes = [1]\<rparr>,
        withdrawal = \<lparr>psbt_file = ''emergency/withdrawal.psbt'',
          unsigned_txid = txid_to_string L (compute_txid L withdrawal_tx),
          fee_sats = wfee, vault_input_indexes = [0], controller_input_indexes = [1]\<rparr>\<rparr>))))))))"

section \<open>The proposal\<close>

definition require_empty_dir :: "error \<Rightarrow> path \<Rightarrow> 'b world \<Rightarrow> unit result" where
  \<comment> \<open>\<^verbatim>\<open>if dir.exists() && dir.read_dir()?.next().is_some() { bail! }\<close>\<close>
  "require_empty_dir e p w =
     (if file_at w p \<noteq> None then Inl (Sto ReadFailed)
      else if path_exists w p \<and> dir_nonempty w p then Inl e else Inr ())"

definition proposal_inputs :: "vault_utxo list \<Rightarrow> vault_utxo list \<Rightarrow> (nat \<times> nat \<times> rollover_inputs) result" where
  "proposal_inputs vault_utxos controller_utxos =
     bind_result (checked_input_sum vault_utxos) (\<lambda>vault_sum.
     bind_result (checked_input_sum controller_utxos) (\<lambda>controller_sum.
     bind_result (ok_or (checked_add vault_sum controller_sum) (Propose InputTotalOverflow)) (\<lambda>total_sum.
     Inr (vault_sum, controller_sum,
       \<lparr>ri_template = map (\<lambda>u. vault_input (utxo_outpoint u) sequence_max) vault_utxos
          @ map (\<lambda>u. vault_input (utxo_outpoint u) sequence_rbf) controller_utxos,
        ri_vault_indexes = [0..<length vault_utxos],
        ri_controller_indexes = [length vault_utxos..<length vault_utxos + length controller_utxos],
        ri_total = total_sum\<rparr>))))"

definition proposal_policies ::
  "lib \<Rightarrow> vault_config \<Rightarrow> vault_utxo list \<Rightarrow> vault_utxo list \<Rightarrow> device_keys
   \<Rightarrow> (vault_policy \<times> controller_policy) result" where
  "proposal_policies L config vault_utxos controller_utxos phone =
     (if xonly_to_string L (vault_pubkey phone) \<noteq> phone_vault_pubkey config
      then Inl (Propose PhoneKeyMismatch)
      else
       bind_result (config_network config) (\<lambda>network.
       bind_result (vault_from_descriptor L (vc_vault_descriptor config) network) (\<lambda>policy.
       bind_result (ceremony_controller_policy L config) (\<lambda>controller.
       if \<exists>u \<in> set vault_utxos. utxo_script u \<noteq> vault_script_of policy
       then Inl (Propose InputOutsideVault)
       else if \<exists>u \<in> set controller_utxos. utxo_script u \<noteq> controller_script_of controller
       then Inl (Propose InputOutsideController)
       else Inr (policy, controller)))))"

definition as_u32 :: "nat \<Rightarrow> nat" where
  "as_u32 n = n mod 2 ^ 32"

definition build_rollover_psbt ::
  "lib \<Rightarrow> vault_policy \<Rightarrow> controller_policy \<Rightarrow> rollover_inputs \<Rightarrow> transaction \<Rightarrow> txout list \<Rightarrow> device_keys
   \<Rightarrow> psbt result" where
  "build_rollover_psbt L policy controller ri tx prevouts phone =
     bind_result (create_policy_psbt L tx prevouts (ri_vault_indexes ri) (ri_controller_indexes ri)
                    policy controller) (\<lambda>psbt.
     bind_result (sign_vault_psbt_inputs L psbt policy Cooperative (vault_keypair phone)
                    (ri_vault_indexes ri)) (\<lambda>psbt.
     sign_controller_psbt_inputs L psbt controller ControllerPhone (vault_keypair phone)
       (ri_controller_indexes ri)))"

definition proposal_manifest ::
  "lib \<Rightarrow> vault_config \<Rightarrow> int \<Rightarrow> policy_limits \<Rightarrow> controller_policy \<Rightarrow> nat \<Rightarrow> nat \<Rightarrow> rollover_inputs \<Rightarrow>
   nat \<times> nat \<times> nat \<times> nat \<Rightarrow> txid \<Rightarrow> allowance_step list \<Rightarrow> emergency_access_policy option \<Rightarrow> batch_manifest" where
  "proposal_manifest L config now limits controller vault_sum controller_sum ri choice rollover_txid as em =
     (let (count, allowance_value, fee, remainder) = choice;
          emergency_limit = pl_emergency_access_limit_sats limits in
      \<lparr>bm_version = 5, created_at = now, bm_network = vc_network config,
       bm_vault_descriptor = vc_vault_descriptor config, bm_vault_address = vc_vault_address config,
       bm_controller_descriptor = controller_descriptor_string L controller,
       bm_controller_address = addr_text (cp_address controller),
       bm_connector_value_sats = CONNECTOR_VALUE_SATS,
       monthly_limit_sats = pl_monthly_limit_sats limits,
       emergency_access_limit_sats = emergency_limit,
       fee_rate_sat_vb = DEFAULT_FEE_RATE_SAT_VB,
       total_input_sats = ri_total ri, vault_input_sats = vault_sum,
       controller_input_sats = controller_sum, allowance_count = count,
       rollover = \<lparr>psbt_file = ''rollover.psbt'', unsigned_txid = txid_to_string L rollover_txid,
         fee_sats = fee, vault_input_indexes = map as_u32 (ri_vault_indexes ri),
         controller_input_indexes = map as_u32 (ri_controller_indexes ri)\<rparr>,
       allowance_vout = (if 0 < count then Some 0 else None),
       allowance_value_sats = allowance_value,
       remainder_vout = of_bool (0 < count), remainder_value_sats = remainder,
       monthly_connector_vout = (if 0 < count then Some (of_bool (0 < count) + 1) else None),
       emergency_connector_vout =
         (if 0 < emergency_limit then Some (of_bool (0 < count) + 1 + of_bool (0 < count)) else None),
       allowances = as, emergency_access = em, phone_approved = True, hww_approved = False\<rparr>)"

definition choose_amounts ::
  "lib \<Rightarrow> vault_policy \<Rightarrow> controller_policy \<Rightarrow> rollover_inputs \<Rightarrow> policy_limits \<Rightarrow> address option
   \<Rightarrow> (sequence \<times> sequence \<times> nat \<times> nat \<times> nat \<times> nat) result" where
  \<comment> \<open>the two delays, then the count, allowance value, fee and remainder of the rollover\<close>
  "choose_amounts L policy controller ri limits hot =
     (let monthly = pl_monthly_limit_sats limits; emergency = pl_emergency_access_limit_sats limits in
      bind_result (emergency_delay_sequence L) (\<lambda>emergency_delay.
      bind_result (emergency_staging_value L policy controller emergency emergency_delay hot) (\<lambda>staging.
      bind_result (minimum_remainder_value L policy controller emergency staging) (\<lambda>minimum_remainder.
      bind_result (monthly_delay_sequence L) (\<lambda>monthly_delay.
      bind_result (authorization_fees L policy controller monthly monthly_delay) (\<lambda>fees.
      bind_result (choose_rollover L policy controller ri monthly emergency fees minimum_remainder) (\<lambda>choice.
      Inr (emergency_delay, monthly_delay, choice))))))))"

definition build_policy_proposal_with_connectors ::
  "lib \<Rightarrow> ('b, 'z) ceremony_codecs_scheme \<Rightarrow> vault_config \<Rightarrow> vault_utxo list \<Rightarrow> vault_utxo list \<Rightarrow> int \<Rightarrow>
   policy_limits \<Rightarrow> path \<Rightarrow> device_keys \<Rightarrow> ('b, batch_manifest) io" where
  "build_policy_proposal_with_connectors L C config vault_utxos controller_utxos now limits batch_dir phone =
     (let monthly = pl_monthly_limit_sats limits; emergency = pl_emergency_access_limit_sats limits in
      if vault_utxos = [] then failM (Propose NoVaultUtxos) else
      bindM (readM (require_empty_dir (Propose BatchDirNotEmpty) batch_dir)) (\<lambda>_.
      bindM (create_dir_all batch_dir) (\<lambda>_.
      bindM (liftM (proposal_policies L config vault_utxos controller_utxos phone)) (\<lambda>(policy, controller).
      bindM (liftM (proposal_inputs vault_utxos controller_utxos)) (\<lambda>(vault_sum, controller_sum, ri).
      bindM (if 0 < emergency then bindM next_receive_address (\<lambda>a. returnM (Some a))
             else returnM None) (\<lambda>emergency_hot.
      bindM (liftM (choose_amounts L policy controller ri limits emergency_hot))
        (\<lambda>(emergency_delay, monthly_delay, count, allowance_value, fee, remainder).
      let rollover_tx = rollover_template (ri_template ri)
            (if 0 < count then Some allowance_value else None) remainder (vault_script_of policy)
            (controller_script_of controller) (0 < count) (0 < emergency);
          rollover_txid = compute_txid L rollover_tx in
      bindM (liftM (build_rollover_psbt L policy controller ri rollover_tx
                      (map utxo_txout vault_utxos @ map utxo_txout controller_utxos) phone)) (\<lambda>rollover_psbt.
      bindM (write_psbt C (join_str batch_dir ''rollover.psbt'') rollover_psbt) (\<lambda>_.
      bindM (build_allowances L C policy controller monthly monthly_delay count batch_dir phone [0..<count]
               (if 0 < count
                then (Some (OutPoint rollover_txid 0), Some (tx_output rollover_tx ! 0),
                      Some \<lparr>cs_outpoint = OutPoint rollover_txid 2, cs_value_sats = CONNECTOR_VALUE_SATS\<rparr>)
                else (None, None, None))) (\<lambda>as.
      bindM (case emergency_hot of None \<Rightarrow> returnM None
             | Some hot_address \<Rightarrow>
                 bindM (build_emergency_access L C policy controller
                   (OutPoint rollover_txid (of_bool (0 < count))) (tx_output rollover_tx ! of_bool (0 < count))
                   \<lparr>cs_outpoint = OutPoint rollover_txid (of_bool (0 < count) + 1 + of_bool (0 < count)),
                    cs_value_sats = CONNECTOR_VALUE_SATS\<rparr>
                   emergency emergency_delay hot_address batch_dir phone) (\<lambda>e. returnM (Some e))) (\<lambda>em.
      let m = proposal_manifest L config now limits controller vault_sum controller_sum ri
                (count, allowance_value, fee, remainder) rollover_txid as em in
      bindM (write_json (manifest_codec C) (join_str batch_dir ''manifest.json'') m) (\<lambda>_.
      returnM m))))))))))))"

definition build_policy_proposal ::
  "lib \<Rightarrow> ('b, 'z) ceremony_codecs_scheme \<Rightarrow> vault_config \<Rightarrow> vault_utxo list \<Rightarrow> int \<Rightarrow> policy_limits \<Rightarrow> path \<Rightarrow>
   device_keys \<Rightarrow> ('b, batch_manifest) io" where
  "build_policy_proposal L C config utxos now limits batch_dir phone =
     build_policy_proposal_with_connectors L C config utxos [] now limits batch_dir phone"

section \<open>Packages\<close>

definition DEFAULT_BATCH_DIR :: string where "DEFAULT_BATCH_DIR = ''ceremony/active''"
definition SCHEDULE_FILE :: string where "SCHEDULE_FILE = ''phone/schedule.json''"
definition POLICY_PACKAGE_KIND :: string where "POLICY_PACKAGE_KIND = ''vault-policy''"

record 'b policy_package =
  pp_version :: nat
  pp_kind :: string
  pp_manifest :: batch_manifest
  pp_psbts :: "(string \<times> 'b) list" \<comment> \<open>a \<^verbatim>\<open>BTreeMap\<close>\<close>

definition default_batch_path :: "path \<Rightarrow> path" where
  "default_batch_path data_dir = join_str data_dir DEFAULT_BATCH_DIR"

definition collect_psbts ::
  "('b, 'z) ceremony_codecs_scheme \<Rightarrow> path \<Rightarrow> 'b world \<Rightarrow> batch_transaction list \<Rightarrow> (string \<times> 'b) list result" where
  "collect_psbts C batch_dir w ts = try_fold (\<lambda>psbts t.
     bind_result (read_file (join_str batch_dir (psbt_file t)) w) (\<lambda>b.
     bind_result (ok_or (utf8_trim C b) (Sto ReadFailed)) (\<lambda>text.
     Inr (btree_insert (psbt_file t) text psbts)))) [] ts"

definition package_from_batch ::
  "('b, 'z) ceremony_codecs_scheme \<Rightarrow> path \<Rightarrow> 'b world \<Rightarrow> 'b policy_package result" where
  "package_from_batch C batch_dir w =
     bind_result (load_manifest C batch_dir w) (\<lambda>manifest.
     bind_result (collect_psbts C batch_dir w (manifest_transactions manifest)) (\<lambda>psbts.
     Inr \<lparr>pp_version = 5, pp_kind = POLICY_PACKAGE_KIND, pp_manifest = manifest, pp_psbts = psbts\<rparr>))"

definition is_supported_policy_package :: "'b policy_package \<Rightarrow> bool" where
  "is_supported_policy_package package \<longleftrightarrow> pp_version package = 5 \<and> pp_kind package = POLICY_PACKAGE_KIND"

definition materialize_psbt ::
  "('b, 'z) ceremony_codecs_scheme \<Rightarrow> path \<Rightarrow> string \<times> 'b \<Rightarrow> ('b, unit) io" where
  "materialize_psbt C batch_dir entry =
     (if \<not> safe_relative (fst entry) then failM (Pkg UnsafePsbtPath)
      else write_private (join_str batch_dir (fst entry)) (with_newline C (snd entry)))"

definition materialize_policy_package ::
  "('b, 'z) ceremony_codecs_scheme \<Rightarrow> 'b policy_package \<Rightarrow> path \<Rightarrow> ('b, unit) io" where
  "materialize_policy_package C package batch_dir =
     (if \<not> is_supported_policy_package package then failM (Pkg UnsupportedPackage) else
      bindM (readM (require_empty_dir (Pkg WorkspaceNotEmpty) batch_dir)) (\<lambda>_.
      if set (map fst (pp_psbts package))
         \<noteq> set (map psbt_file (manifest_transactions (pp_manifest package)))
      then failM (Pkg PackageSetMismatch)
      else
       bindM (create_dir_all batch_dir) (\<lambda>_.
       bindM (write_json (manifest_codec C) (join_str batch_dir ''manifest.json'') (pp_manifest package)) (\<lambda>_.
       forM (pp_psbts package) (materialize_psbt C batch_dir)))))"

end
