(* ===== verification/Crypto.thy ===== *)
theory Crypto
  imports Core_Types
begin

text \<open>
  \<^verbatim>\<open>src/core/crypto.rs\<close>: authenticated encryption of artifacts under keys derived from a
  seed and a purpose string. HKDF and XChaCha20-Poly1305 are library functions (record
  \<open>crypto_lib\<close>). Byte strings, seeds among them, have the type \<open>'b\<close>; derived keys and nonces
  are numbers. The nonces and keys that \<^verbatim>\<open>OsRng\<close> draws are arguments.
\<close>

record 'b crypto_lib =
  hkdf_expand :: "string \<Rightarrow> 'b \<Rightarrow> string \<Rightarrow> nat option" \<comment> \<open>salt, input key, info\<close>
  aead_seal :: "nat \<Rightarrow> nat \<Rightarrow> 'b \<Rightarrow> 'b option" \<comment> \<open>key, nonce, plaintext\<close>
  aead_open :: "nat \<Rightarrow> nat \<Rightarrow> 'b \<Rightarrow> 'b option"
  seed_bytes :: "nat \<Rightarrow> 'b" \<comment> \<open>the 64 bytes of a device seed\<close>
  byte_length :: "'b \<Rightarrow> nat"

definition FORMAT_VERSION :: nat where "FORMAT_VERSION = 1"

record 'b encrypted_blob =
  blob_version :: nat
  blob_purpose :: string
  blob_nonce :: nat
  blob_ciphertext :: 'b

definition derive_key :: "('b, 'z) crypto_lib_scheme \<Rightarrow> 'b \<Rightarrow> string \<Rightarrow> nat result" where
  "derive_key K seed purpose =
     ok_or (hkdf_expand K ''renewable-bitcoin-vault/mvp/v1'' seed purpose) (Ext KeyDerivationError)"

definition encrypt ::
  "('b, 'z) crypto_lib_scheme \<Rightarrow> nat \<Rightarrow> 'b \<Rightarrow> string \<Rightarrow> 'b \<Rightarrow> 'b encrypted_blob result" where
  "encrypt K nonce seed purpose plaintext =
     bind_result (derive_key K seed purpose) (\<lambda>key.
     bind_result (ok_or (aead_seal K key nonce plaintext) (Ext EncryptError)) (\<lambda>ciphertext.
     Inr \<lparr>blob_version = FORMAT_VERSION, blob_purpose = purpose, blob_nonce = nonce,
          blob_ciphertext = ciphertext\<rparr>))"

definition decrypt ::
  "('b, 'z) crypto_lib_scheme \<Rightarrow> 'b \<Rightarrow> string \<Rightarrow> 'b encrypted_blob \<Rightarrow> 'b result" where
  "decrypt K seed expected_purpose blob =
     (if blob_version blob \<noteq> FORMAT_VERSION then Inl (Dev BlobVersion)
      else if blob_purpose blob \<noteq> expected_purpose then Inl (Dev BlobPurpose)
      else bind_result (derive_key K seed expected_purpose) (\<lambda>key.
           ok_or (aead_open K key (blob_nonce blob) (blob_ciphertext blob)) (Ext DecryptError)))"

text \<open>Opening what was sealed with the same key and nonce gives the plaintext back.\<close>

definition aead_correct :: "('b, 'z) crypto_lib_scheme \<Rightarrow> bool" where
  "aead_correct K \<longleftrightarrow> (\<forall>key nonce p c. aead_seal K key nonce p = Some c \<longrightarrow> aead_open K key nonce c = Some p)"

lemma decrypt_encrypt:
  "aead_correct K \<Longrightarrow> encrypt K nonce seed purpose p = Inr blob \<Longrightarrow> decrypt K seed purpose blob = Inr p"
  by (auto simp: encrypt_def decrypt_def aead_correct_def)

lemma encrypt_purpose: "encrypt K nonce seed purpose p = Inr blob \<Longrightarrow> blob_purpose blob = purpose"
  by (auto simp: encrypt_def)

lemma decrypt_other_purpose:
  "encrypt K nonce seed purpose p = Inr blob \<Longrightarrow> purpose' \<noteq> purpose \<Longrightarrow>
   decrypt K seed' purpose' blob = Inl (Dev BlobPurpose)"
  by (auto simp: encrypt_def decrypt_def)

end
