(* ===== verification/Social.thy ===== *)
theory Social
  imports Crypto Storage
begin

text \<open>
  \<^verbatim>\<open>src/core/social.rs\<close>: the cloud-recovery envelope. The payload is encrypted once under a
  random symmetric key; the HWW and every recovery friend receive their own encrypted copy of it,
  and the list of friends is authenticated under it. OpenPGP, base64 and JSON are library
  functions (record \<open>pgp_lib\<close>, on opaque key handles); what \<^verbatim>\<open>thread_rng\<close> and
  \<^verbatim>\<open>OsRng\<close> draw is the argument \<open>entropy\<close>.
\<close>

section \<open>Definitions\<close>

definition PAYLOAD_PURPOSE :: string where "PAYLOAD_PURPOSE = ''cloud/vault-recovery-payload/v1''"
definition HWW_KEY_PURPOSE :: string where "HWW_KEY_PURPOSE = ''cloud/vault-recovery-key/hww/v1''"
definition FRIEND_MANIFEST_PURPOSE :: string where
  "FRIEND_MANIFEST_PURPOSE = ''cloud/vault-recovery-friends/v1''"

record recovery_payload =
  rp_version :: nat
  rp_kind :: string
  rp_network :: string
  rp_phone_mnemonic :: string
  rp_phone_vault_key_index :: nat
  rp_phone_vault_pubkey :: string
  rp_vault_descriptor :: string
  rp_vault_address :: string

record 'b friend_key_wrapper =
  fk_fingerprint :: string
  public_key_armored :: 'b
  encrypted_symmetric_key :: 'b

record 'b cloud_recovery_backup =
  cb_version :: nat
  cb_kind :: string
  encrypted_payload :: "'b encrypted_blob"
  hww_encrypted_symmetric_key :: "'b encrypted_blob"
  friends :: "'b friend_key_wrapper list"
  encrypted_friend_manifest :: "'b encrypted_blob"

record 'b generated_friend_key =
  gf_fingerprint :: string
  gf_public_key_armored :: 'b
  gf_private_key_armored :: 'b

record 'b pgp_lib = "'b crypto_lib" +
  payload_codec :: "('b, recovery_payload) codec"
  friends_codec :: "('b, 'b friend_key_wrapper list) codec"
  pgp_public_from :: "'b \<Rightarrow> nat option"
  pgp_public_verify :: "nat \<Rightarrow> bool"
  pgp_subkeys :: "nat \<Rightarrow> (nat \<times> bool) list" \<comment> \<open>with \<^verbatim>\<open>is_encryption_key\<close>\<close>
  pgp_fingerprint :: "nat \<Rightarrow> string"
  pgp_public_armor :: "nat \<Rightarrow> 'b option"
  pgp_encrypt :: "nat \<Rightarrow> nat \<Rightarrow> 'b \<Rightarrow> 'b option" \<comment> \<open>randomness, subkey, data\<close>
  pgp_secret_from :: "'b \<Rightarrow> nat option"
  pgp_secret_verify :: "nat \<Rightarrow> bool"
  pgp_secret_fingerprint :: "nat \<Rightarrow> string"
  pgp_secret_armor :: "nat \<Rightarrow> 'b option"
  pgp_secret_public :: "nat \<Rightarrow> nat"
  pgp_generate :: "nat \<Rightarrow> string \<Rightarrow> nat option"
  pgp_decrypt :: "nat \<Rightarrow> 'b \<Rightarrow> 'b option" \<comment> \<open>parse, decrypt, decompress and read the message\<close>
  base64_encode :: "'b \<Rightarrow> 'b"
  base64_decode :: "'b \<Rightarrow> 'b option"
  str_trim :: "string \<Rightarrow> string"

record 'b entropy =
  en_key :: 'b
  en_payload_nonce :: nat
  en_hww_nonce :: nat
  en_manifest_nonce :: nat
  en_wrap :: nat

definition recovery_payload_new :: "lib \<Rightarrow> vault_config \<Rightarrow> device_keys \<Rightarrow> recovery_payload result" where
  "recovery_payload_new L config phone =
     (if xonly_to_string L (vault_pubkey phone) \<noteq> phone_vault_pubkey config
      then Inl (Recov (Soc PayloadPhoneMismatch))
      else Inr \<lparr>rp_version = 1, rp_kind = ''vault-recovery-payload'', rp_network = vc_network config,
        rp_phone_mnemonic = dk_mnemonic phone, rp_phone_vault_key_index = vault_key_index phone,
        rp_phone_vault_pubkey = xonly_to_string L (vault_pubkey phone),
        rp_vault_descriptor = vc_vault_descriptor config,
        rp_vault_address = vc_vault_address config\<rparr>)"

definition validate_against :: "lib \<Rightarrow> key_lib \<Rightarrow> recovery_payload \<Rightarrow> vault_config \<Rightarrow> unit result" where
  "validate_against L K p config =
     (if rp_version p \<noteq> 1 \<or> rp_kind p \<noteq> ''vault-recovery-payload'' \<or> rp_network p \<noteq> vc_network config
         \<or> rp_phone_vault_pubkey p \<noteq> phone_vault_pubkey config
         \<or> rp_vault_descriptor p \<noteq> vc_vault_descriptor config
         \<or> rp_vault_address p \<noteq> vc_vault_address config
      then Inl (Recov (Soc PayloadMismatch))
      else
       bind_result (config_network config) (\<lambda>network.
       bind_result (parse_for_network_at_index L K (rp_phone_mnemonic p) network
                      (rp_phone_vault_key_index p)) (\<lambda>phone.
       if xonly_to_string L (vault_pubkey phone) \<noteq> rp_phone_vault_pubkey p
       then Inl (Recov (Soc PayloadMnemonicMismatch)) else Inr ())))"

definition checked_public_key :: "('b, 'z) pgp_lib_scheme \<Rightarrow> 'b \<Rightarrow> nat result" where
  "checked_public_key P public_key =
     bind_result (ok_or (pgp_public_from P public_key) (Ext PgpError)) (\<lambda>public.
     if \<not> pgp_public_verify P public then Inl (Recov (Soc FriendKeyInvalid)) else Inr public)"

definition friend_fingerprint :: "('b, 'z) pgp_lib_scheme \<Rightarrow> 'b \<Rightarrow> string result" where
  "friend_fingerprint P public_key =
     bind_result (checked_public_key P public_key) (\<lambda>public.
     if \<not> (\<exists>(k, e) \<in> set (pgp_subkeys P public). e) then Inl (Recov (Soc NoEncryptionSubkey))
     else Inr (pgp_fingerprint P public))"

definition wrap_for_friend ::
  "('b, 'z) pgp_lib_scheme \<Rightarrow> nat \<Rightarrow> 'b \<Rightarrow> 'b \<Rightarrow> 'b friend_key_wrapper result" where
  "wrap_for_friend P rand public_key symmetric_key =
     bind_result (checked_public_key P public_key) (\<lambda>public.
     bind_result (ok_or (List.find snd (pgp_subkeys P public)) (Recov (Soc NoEncryptionSubkey))) (\<lambda>(subkey, _).
     bind_result (ok_or (pgp_encrypt P rand subkey symmetric_key) (Ext PgpError)) (\<lambda>encrypted.
     bind_result (ok_or (pgp_public_armor P public) (Ext PgpError)) (\<lambda>armored.
     Inr \<lparr>fk_fingerprint = pgp_fingerprint P public, public_key_armored = armored,
          encrypted_symmetric_key = base64_encode P encrypted\<rparr>))))"

fun wrap_all ::
  "('b, 'z) pgp_lib_scheme \<Rightarrow> nat \<Rightarrow> 'b \<Rightarrow> 'b list \<Rightarrow> 'b friend_key_wrapper list result" where
  "wrap_all P rand symmetric_key [] = Inr []"
| "wrap_all P rand symmetric_key (k # ks) =
     bind_result (wrap_for_friend P rand k symmetric_key) (\<lambda>f.
     bind_result (wrap_all P (Suc rand) symmetric_key ks) (\<lambda>fs. Inr (f # fs)))"

fun dedup_by_fingerprint :: "'b friend_key_wrapper list \<Rightarrow> 'b friend_key_wrapper list" where
  \<comment> \<open>\<^verbatim>\<open>dedup_by\<close> keeps the first of consecutive elements with equal fingerprints\<close>
  "dedup_by_fingerprint [] = []"
| "dedup_by_fingerprint [f] = [f]"
| "dedup_by_fingerprint (f # g # fs) =
     (if fk_fingerprint g = fk_fingerprint f then dedup_by_fingerprint (f # fs)
      else f # dedup_by_fingerprint (g # fs))"

definition encrypt_friend_manifest ::
  "('b, 'z) pgp_lib_scheme \<Rightarrow> nat \<Rightarrow> 'b \<Rightarrow> 'b friend_key_wrapper list \<Rightarrow> 'b encrypted_blob result" where
  "encrypt_friend_manifest P nonce symmetric_key fs =
     bind_result (ok_or (to_json (friends_codec P) fs) (Ext JsonError)) (\<lambda>text.
     encrypt P nonce symmetric_key FRIEND_MANIFEST_PURPOSE text)"

definition create_backup ::
  "('b, 'z) pgp_lib_scheme \<Rightarrow> 'b entropy \<Rightarrow> recovery_payload \<Rightarrow> 'b \<Rightarrow> 'b list \<Rightarrow> 'b cloud_recovery_backup result" where
  "create_backup P en payload hww_seed friend_keys =
     (let symmetric_key = en_key en in
      bind_result (ok_or (to_json (payload_codec P) payload) (Ext JsonError)) (\<lambda>payload_bytes.
      bind_result (encrypt P (en_payload_nonce en) symmetric_key PAYLOAD_PURPOSE payload_bytes) (\<lambda>epayload.
      bind_result (encrypt P (en_hww_nonce en) hww_seed HWW_KEY_PURPOSE symmetric_key) (\<lambda>ekey.
      bind_result (wrap_all P (en_wrap en) symmetric_key friend_keys) (\<lambda>fs.
      let fs' = dedup_by_fingerprint (sort_key fk_fingerprint fs) in
      bind_result (encrypt_friend_manifest P (en_manifest_nonce en) symmetric_key fs') (\<lambda>emanifest.
      Inr \<lparr>cb_version = 1, cb_kind = ''vault-cloud-recovery'', encrypted_payload = epayload,
           hww_encrypted_symmetric_key = ekey, friends = fs',
           encrypted_friend_manifest = emanifest\<rparr>))))))"

definition validate_backup :: "'b cloud_recovery_backup \<Rightarrow> unit result" where
  "validate_backup b =
     (if cb_version b \<noteq> 1 \<or> cb_kind b \<noteq> ''vault-cloud-recovery'' then Inl (Recov (Soc UnsupportedBackup))
      else Inr ())"

definition validate_friend_manifest ::
  "('b, 'z) pgp_lib_scheme \<Rightarrow> 'b cloud_recovery_backup \<Rightarrow> 'b \<Rightarrow> unit result" where
  "validate_friend_manifest P b symmetric_key =
     bind_result (decrypt P symmetric_key FRIEND_MANIFEST_PURPOSE (encrypted_friend_manifest b)) (\<lambda>authenticated.
     bind_result (ok_or (to_json (friends_codec P) (friends b)) (Ext JsonError)) (\<lambda>expected.
     if authenticated \<noteq> expected then Inl (Recov (Soc FriendListForged)) else Inr ()))"

definition decrypt_payload ::
  "('b, 'z) pgp_lib_scheme \<Rightarrow> 'b cloud_recovery_backup \<Rightarrow> 'b \<Rightarrow> recovery_payload result" where
  "decrypt_payload P b symmetric_key =
     bind_result (decrypt P symmetric_key PAYLOAD_PURPOSE (encrypted_payload b)) (\<lambda>plaintext.
     ok_or (from_json (payload_codec P) plaintext) (Recov (Soc PayloadInvalid)))"

definition decrypt_with_hww ::
  "('b, 'z) pgp_lib_scheme \<Rightarrow> 'b cloud_recovery_backup \<Rightarrow> 'b \<Rightarrow> recovery_payload result" where
  "decrypt_with_hww P b hww_seed =
     bind_result (validate_backup b) (\<lambda>_.
     bind_result (decrypt P hww_seed HWW_KEY_PURPOSE (hww_encrypted_symmetric_key b)) (\<lambda>symmetric_key.
     bind_result (validate_friend_manifest P b symmetric_key) (\<lambda>_.
     decrypt_payload P b symmetric_key)))"

definition add_friend ::
  "('b, 'z) pgp_lib_scheme \<Rightarrow> nat \<Rightarrow> nat \<Rightarrow> 'b cloud_recovery_backup \<Rightarrow> 'b \<Rightarrow> 'b
   \<Rightarrow> (string \<times> 'b cloud_recovery_backup) result" where
  "add_friend P rand nonce b hww_seed public_key =
     bind_result (validate_backup b) (\<lambda>_.
     bind_result (decrypt P hww_seed HWW_KEY_PURPOSE (hww_encrypted_symmetric_key b)) (\<lambda>symmetric_key.
     if byte_length P symmetric_key \<noteq> 32 then Inl (Recov (Soc InvalidSymmetricKey))
     else
      bind_result (validate_friend_manifest P b symmetric_key) (\<lambda>_.
      bind_result (wrap_for_friend P rand public_key symmetric_key) (\<lambda>f.
      if \<exists>g \<in> set (friends b). fk_fingerprint g = fk_fingerprint f
      then Inl (Recov (Soc FriendExists))
      else
       let fs = sort_key fk_fingerprint (friends b @ [f]) in
       bind_result (encrypt_friend_manifest P nonce symmetric_key fs) (\<lambda>emanifest.
       Inr (fk_fingerprint f, b\<lparr>friends := fs, encrypted_friend_manifest := emanifest\<rparr>))))))"

definition decrypt_with_friend ::
  "('b, 'z) pgp_lib_scheme \<Rightarrow> 'b cloud_recovery_backup \<Rightarrow> 'b \<Rightarrow> recovery_payload result" where
  "decrypt_with_friend P b private_key =
     bind_result (validate_backup b) (\<lambda>_.
     bind_result (ok_or (pgp_secret_from P private_key) (Ext PgpError)) (\<lambda>secret.
     if \<not> pgp_secret_verify P secret then Inl (Recov (Soc FriendKeyInvalid))
     else
      bind_result (ok_or (List.find (\<lambda>f. fk_fingerprint f = pgp_secret_fingerprint P secret) (friends b))
                     (Recov (Soc NoFriendWrapper))) (\<lambda>f.
      bind_result (ok_or (base64_decode P (encrypted_symmetric_key f)) (Ext Base64Error)) (\<lambda>encrypted.
      bind_result (ok_or (pgp_decrypt P secret encrypted) (Ext PgpError)) (\<lambda>symmetric_key.
      if byte_length P symmetric_key \<noteq> 32 then Inl (Recov (Soc InvalidSymmetricKey))
      else
       bind_result (validate_friend_manifest P b symmetric_key) (\<lambda>_.
       decrypt_payload P b symmetric_key))))))"

definition friend_public_keys :: "'b cloud_recovery_backup \<Rightarrow> 'b list" where
  "friend_public_keys b = map public_key_armored (friends b)"

definition generate_friend_key ::
  "('b, 'z) pgp_lib_scheme \<Rightarrow> nat \<Rightarrow> string \<Rightarrow> 'b generated_friend_key result" where
  "generate_friend_key P rand name =
     (if str_trim P name = [] then Inl (Recov (Soc EmptyFriendName))
      else
       bind_result (ok_or (pgp_generate P rand (str_trim P name)) (Ext PgpError)) (\<lambda>secret.
       bind_result (ok_or (pgp_public_armor P (pgp_secret_public P secret)) (Ext PgpError)) (\<lambda>public_armor.
       bind_result (ok_or (pgp_secret_armor P secret) (Ext PgpError)) (\<lambda>secret_armor.
       Inr \<lparr>gf_fingerprint = pgp_secret_fingerprint P secret, gf_public_key_armored = public_armor,
            gf_private_key_armored = secret_armor\<rparr>))))"

section \<open>Friend lists\<close>

lemma set_dedup_fingerprints:
  "fk_fingerprint ` set (dedup_by_fingerprint fs) = fk_fingerprint ` set fs"
  by (induction fs rule: dedup_by_fingerprint.induct) auto

lemma set_dedup_subset: "set (dedup_by_fingerprint fs) \<subseteq> set fs"
  by (induction fs rule: dedup_by_fingerprint.induct) auto

lemma dedup_sorted_distinct:
  "sorted (map fk_fingerprint fs) \<Longrightarrow>
   sorted_wrt (<) (map fk_fingerprint (dedup_by_fingerprint fs))"
proof (induction fs rule: dedup_by_fingerprint.induct)
  case (3 f g fs)
  show ?case
  proof (cases "fk_fingerprint g = fk_fingerprint f")
    case True
    then show ?thesis using 3 by simp
  next
    case False
    then have lt: "\<forall>x \<in> set (g # fs). fk_fingerprint f < fk_fingerprint x"
      using 3(3) by (auto simp: order_less_le)
    have "\<forall>x \<in> set (dedup_by_fingerprint (g # fs)). fk_fingerprint f < fk_fingerprint x"
      using lt set_dedup_subset by blast
    then show ?thesis using 3 False by simp
  qed
qed simp_all

section \<open>Recovery\<close>

definition pgp_correct :: "('b, 'z) pgp_lib_scheme \<Rightarrow> bool" where
  "pgp_correct P \<longleftrightarrow> aead_correct P \<and> codec_ok (payload_codec P)
     \<and> (\<forall>x. base64_decode P (base64_encode P x) = Some x)"

lemma validate_friend_manifest_fresh:
  assumes "aead_correct P" and "encrypt_friend_manifest P n key (friends b) = Inr (encrypted_friend_manifest b)"
  shows "validate_friend_manifest P b key = Inr ()"
  using assms by (auto simp: encrypt_friend_manifest_def validate_friend_manifest_def dest: decrypt_encrypt)

lemma create_backup_parts:
  assumes "create_backup P en payload seed ks = Inr b" and "pgp_correct P"
  shows "validate_backup b = Inr ()"
    and "decrypt P seed HWW_KEY_PURPOSE (hww_encrypted_symmetric_key b) = Inr (en_key en)"
    and "validate_friend_manifest P b (en_key en) = Inr ()"
    and "decrypt_payload P b (en_key en) = Inr payload"
proof -
  have aead: "aead_correct P" using assms(2) by (simp add: pgp_correct_def)
  obtain pb fs where pb: "to_json (payload_codec P) payload = Some pb"
    and e1: "encrypt P (en_payload_nonce en) (en_key en) PAYLOAD_PURPOSE pb = Inr (encrypted_payload b)"
    and e2: "encrypt P (en_hww_nonce en) seed HWW_KEY_PURPOSE (en_key en) = Inr (hww_encrypted_symmetric_key b)"
    and e3: "encrypt_friend_manifest P (en_manifest_nonce en) (en_key en) (friends b)
      = Inr (encrypted_friend_manifest b)"
    and v: "cb_version b = 1" "cb_kind b = ''vault-cloud-recovery''"
    using assms(1) by (auto simp: create_backup_def Let_def)
  show "validate_backup b = Inr ()" using v by (simp add: validate_backup_def)
  show "decrypt P seed HWW_KEY_PURPOSE (hww_encrypted_symmetric_key b) = Inr (en_key en)"
    using decrypt_encrypt [OF aead e2] .
  show "validate_friend_manifest P b (en_key en) = Inr ()"
    using validate_friend_manifest_fresh [OF aead e3] .
  show "decrypt_payload P b (en_key en) = Inr payload"
    using decrypt_encrypt [OF aead e1] pb assms(2)
    by (simp add: decrypt_payload_def pgp_correct_def codec_ok_def)
qed

lemma decrypt_with_hww_create:
  "pgp_correct P \<Longrightarrow> create_backup P en payload seed ks = Inr b \<Longrightarrow> decrypt_with_hww P b seed = Inr payload"
  using create_backup_parts [of P en payload seed ks b] by (simp add: decrypt_with_hww_def)

lemma decrypt_with_hww_add_friend:
  assumes "pgp_correct P" and "decrypt_with_hww P b seed = Inr payload"
    and "add_friend P rand nonce b seed public_key = Inr (fp, b')"
  shows "decrypt_with_hww P b' seed = Inr payload
    \<and> fk_fingerprint ` set (friends b') = insert fp (fk_fingerprint ` set (friends b))
    \<and> (\<forall>f \<in> set (friends b). f \<in> set (friends b'))"
proof -
  obtain key f em where key: "decrypt P seed HWW_KEY_PURPOSE (hww_encrypted_symmetric_key b) = Inr key"
    and f: "fp = fk_fingerprint f"
    and em: "encrypt_friend_manifest P nonce key (sort_key fk_fingerprint (friends b @ [f])) = Inr em"
    and b': "b' = b\<lparr>friends := sort_key fk_fingerprint (friends b @ [f]), encrypted_friend_manifest := em\<rparr>"
    using assms(3) by (auto simp: add_friend_def Let_def split: if_splits)
  have "validate_friend_manifest P b' key = Inr ()"
    using validate_friend_manifest_fresh [of P nonce key b'] em assms(1) b' by (simp add: pgp_correct_def)
  then show ?thesis
    using assms(2) key f b'
    by (auto simp: decrypt_with_hww_def validate_backup_def decrypt_payload_def split: if_splits)
qed

lemma decrypt_with_hww_forged:
  assumes "pgp_correct P" and "codec_ok (friends_codec P)"
    and "create_backup P en payload seed ks = Inr b"
    and "to_json (friends_codec P) fs = Some t" and "fs \<noteq> friends b"
  shows "decrypt_with_hww P (b\<lparr>friends := fs\<rparr>) seed = Inl (Recov (Soc FriendListForged))"
proof -
  note parts = create_backup_parts [OF assms(3,1)]
  obtain t0 where t0: "to_json (friends_codec P) (friends b) = Some t0"
    and auth: "decrypt P (en_key en) FRIEND_MANIFEST_PURPOSE (encrypted_friend_manifest b) = Inr t0"
    using parts(3) by (auto simp: validate_friend_manifest_def split: if_splits)
  have "t0 \<noteq> t" using t0 assms(2,4,5) by (metis codec_ok_def option.inject)
  then show ?thesis
    using parts(1,2) auth assms(4)
    by (simp add: decrypt_with_hww_def validate_backup_def validate_friend_manifest_def split: if_splits)
qed

end
