(* ===== verification/Recovery.thy ===== *)
theory Recovery
  imports Ceremony_Build Social
begin

text \<open>
  \<^verbatim>\<open>src/core/recovery.rs\<close>: sweeping the vault through one of its three spending paths, the
  cooperative sweep package the two devices exchange, and the validation of a phone-key rotation,
  which is a cooperative sweep into a new vault together with a renewed policy.
\<close>

section \<open>Data\<close>

definition PENDING_PHONE_ROTATION_FILE :: string where
  "PENDING_PHONE_ROTATION_FILE = ''phone/pending-rotation.json''"

datatype sweep_path = SweepCooperative | SweepPhoneRecovery | SweepHwwRecovery

definition policy_path :: "sweep_path \<Rightarrow> spend_path" where
  "policy_path p = (case p of SweepCooperative \<Rightarrow> Cooperative | SweepPhoneRecovery \<Rightarrow> PhoneRecovery
     | SweepHwwRecovery \<Rightarrow> HwwRecovery)"

definition sweep_sequence :: "sweep_path \<Rightarrow> sequence" where
  "sweep_sequence p = (case p of SweepCooperative \<Rightarrow> sequence_max
     | SweepPhoneRecovery \<Rightarrow> PHONE_RECOVERY_BLOCKS | SweepHwwRecovery \<Rightarrow> HWW_RECOVERY_BLOCKS)"

definition sweep_delay :: "sweep_path \<Rightarrow> nat option" where
  "sweep_delay p = (case p of SweepCooperative \<Rightarrow> None
     | SweepPhoneRecovery \<Rightarrow> Some PHONE_RECOVERY_BLOCKS | SweepHwwRecovery \<Rightarrow> Some HWW_RECOVERY_BLOCKS)"

record sweep_result =
  sr_txid :: txid
  sr_input_count :: nat
  sr_sent_sats :: nat
  sr_fee_sats :: nat

record phone_recovery_package =
  prp_version :: nat
  prp_kind :: string
  prp_phone_mnemonic :: string
  prp_phone_vault_key_index :: nat
  prp_phone_vault_pubkey :: string
  prp_vault_descriptor :: string
  prp_vault_address :: string

record 'b cooperative_sweep_package =
  sw_version :: nat
  sw_kind :: string
  sw_vault_descriptor :: string
  sw_destination :: string
  sw_psbt :: 'b
  sw_input_count :: nat
  sw_sent_sats :: nat
  sw_fee_sats :: nat
  sw_phone_approved :: bool
  sw_hww_approved :: bool

record 'b phone_rotation_package =
  rot_version :: nat
  rot_kind :: string
  old_vault_descriptor :: string
  new_phone_vault_pubkey :: string
  new_vault_descriptor :: string
  new_vault_address :: string
  rot_monthly_limit_sats :: nat
  rot_emergency_access_limit_sats :: nat
  rot_sweep :: "'b cooperative_sweep_package"
  renewed_policy :: "'b policy_package option"
  cloud_recovery_backup :: "'b cloud_recovery_backup option"

record sweep_plan =
  sp_policy :: vault_policy
  sp_psbt :: psbt
  sp_input_count :: nat
  sp_sent_sats :: nat
  sp_fee_sats :: nat

section \<open>Sweeps\<close>

definition mature_utxos :: "vault_utxo list \<Rightarrow> sweep_path \<Rightarrow> nat \<Rightarrow> vault_utxo list" where
  "mature_utxos utxos path tip_height = (case sweep_delay path of
       None \<Rightarrow> utxos
     | Some delay \<Rightarrow> filter (\<lambda>u. saturating_add (confirmation_height u) delay \<le> saturating_add tip_height 1) utxos)"

definition sweep_transaction :: "vault_utxo list \<Rightarrow> sweep_path \<Rightarrow> address \<Rightarrow> nat \<Rightarrow> transaction" where
  "sweep_transaction utxos path destination amount =
     \<lparr>tx_version = version_two, tx_lock_time = lock_time_zero,
      tx_input = map (\<lambda>u. \<lparr>previous_output = utxo_outpoint u, script_sig = [],
        tx_sequence = sweep_sequence path, tx_witness = []\<rparr>) utxos,
      tx_output = [\<lparr>txo_value = amount, script_pubkey = addr_script destination\<rparr>]\<rparr>"

definition build_sweep_psbt ::
  "lib \<Rightarrow> vault_policy \<Rightarrow> vault_utxo list \<Rightarrow> sweep_path \<Rightarrow> address \<Rightarrow> (psbt \<times> nat \<times> nat) result" where
  "build_sweep_psbt L policy utxos path destination =
     bind_result (checked_sum_by (Recov (Sweep SweepOverflow)) utxo_value utxos) (\<lambda>input_sats.
     bind_result (estimate_vault_vsize L (sweep_transaction utxos path destination input_sats) policy
                    (policy_path path)) (\<lambda>fee_sats.
     bind_result (ok_or (checked_sub input_sats fee_sats) (Recov (Sweep CannotPaySweep))) (\<lambda>sent_sats.
     bind_result (create_vault_psbt L (sweep_transaction utxos path destination sent_sats)
                    (map utxo_txout utxos) policy) (\<lambda>psbt.
     Inr (psbt, fee_sats, sent_sats)))))"

definition prepare_sweep ::
  "lib \<Rightarrow> vault_config \<Rightarrow> vault_utxo list \<Rightarrow> nat \<Rightarrow> sweep_path \<Rightarrow> address \<Rightarrow> sweep_plan result" where
  "prepare_sweep L config all_utxos tip_height path destination =
     bind_result (config_network config) (\<lambda>network.
     bind_result (vault_from_descriptor L (vc_vault_descriptor config) network) (\<lambda>policy.
     let utxos = mature_utxos all_utxos path tip_height in
     if utxos = []
     then Inl (Recov (Sweep (if sweep_delay path \<noteq> None \<and> all_utxos \<noteq> [] then NothingMature
                             else NoUtxosToSweep)))
     else
      bind_result (build_sweep_psbt L policy utxos path destination) (\<lambda>(psbt, fee_sats, sent_sats).
      Inr \<lparr>sp_policy = policy, sp_psbt = psbt, sp_input_count = length utxos,
           sp_sent_sats = sent_sats, sp_fee_sats = fee_sats\<rparr>)))"

definition sign_recovery_sweep ::
  "lib \<Rightarrow> sweep_plan \<Rightarrow> sweep_path \<Rightarrow> device_keys \<Rightarrow> (transaction \<times> sweep_result) result" where
  "sign_recovery_sweep L plan path signer =
     (if path = SweepCooperative then Inl (Recov (Sweep SweepNeedsBothSignatures))
      else
       bind_result (sign_vault_psbt L (sp_psbt plan) (sp_policy plan) (policy_path path)
                      (vault_keypair signer)) (\<lambda>psbt.
       bind_result (finalize_vault_psbt L psbt) (\<lambda>tx.
       Inr (tx, \<lparr>sr_txid = compute_txid L tx, sr_input_count = sp_input_count plan,
                 sr_sent_sats = sp_sent_sats plan, sr_fee_sats = sp_fee_sats plan\<rparr>))))"

definition create_cooperative_sweep ::
  "lib \<Rightarrow> ('b, 'z) ceremony_codecs_scheme \<Rightarrow> vault_config \<Rightarrow> vault_utxo list \<Rightarrow> address \<Rightarrow> device_keys \<Rightarrow>
   'b cooperative_sweep_package result" where
  "create_cooperative_sweep L C config utxos destination phone =
     bind_result (config_network config) (\<lambda>network.
     bind_result (vault_from_descriptor L (vc_vault_descriptor config) network) (\<lambda>policy.
     if utxos = [] then Inl (Recov (Sweep NoUtxosToSweep))
     else
      bind_result (build_sweep_psbt L policy utxos SweepCooperative destination) (\<lambda>(psbt, fee_sats, sent_sats).
      bind_result (sign_vault_psbt L psbt policy Cooperative (vault_keypair phone)) (\<lambda>signed.
      Inr \<lparr>sw_version = 1, sw_kind = ''cooperative-sweep'',
           sw_vault_descriptor = vc_vault_descriptor config, sw_destination = addr_text destination,
           sw_psbt = psbt_to_text C signed, sw_input_count = length utxos,
           sw_sent_sats = sent_sats, sw_fee_sats = fee_sats,
           sw_phone_approved = True, sw_hww_approved = False\<rparr>))))"

definition sweep_sum_step :: "script \<Rightarrow> nat \<Rightarrow> psbt_input \<Rightarrow> nat result" where
  "sweep_sum_step vault_script acc inp =
     bind_result (ok_or (witness_utxo inp) (Recov (Sweep SweepWitnessMissing))) (\<lambda>prevout.
     if script_pubkey prevout \<noteq> vault_script then Inl (Recov (Sweep SweepOutsideVault))
     else ok_or (checked_add acc (txo_value prevout)) (Recov (Sweep SweepOverflow)))"

definition sweep_input_sum :: "script \<Rightarrow> psbt_input list \<Rightarrow> nat result" where
  "sweep_input_sum vault_script inputs = try_fold (sweep_sum_step vault_script) 0 inputs"

definition sweep_matches :: "'b cooperative_sweep_package \<Rightarrow> psbt \<Rightarrow> script \<Rightarrow> bool" where
  "sweep_matches package psbt destination \<longleftrightarrow>
     (let tx = unsigned_tx psbt in
      length (tx_input tx) = sw_input_count package \<and> length (psbt_inputs psbt) = sw_input_count package
    \<and> tx_input tx \<noteq> [] \<and> (\<forall>i \<in> set (tx_input tx). tx_sequence i = sequence_max)
    \<and> length (tx_output tx) = 1 \<and> script_pubkey (tx_output tx ! 0) = destination
    \<and> txo_value (tx_output tx ! 0) = sw_sent_sats package)"

definition validate_cooperative_sweep ::
  "lib \<Rightarrow> ('b, 'z) ceremony_codecs_scheme \<Rightarrow> vault_config \<Rightarrow> 'b cooperative_sweep_package \<Rightarrow>
   (vault_policy \<times> psbt) result" where
  "validate_cooperative_sweep L C config package =
     (if sw_version package \<noteq> 1 \<or> sw_kind package \<noteq> ''cooperative-sweep'' \<or> \<not> sw_phone_approved package
      then Inl (Recov (Sweep SweepUnsupported))
      else if sw_vault_descriptor package \<noteq> vc_vault_descriptor config
      then Inl (Recov (Sweep SweepPolicyMismatch))
      else
       bind_result (config_network config) (\<lambda>network.
       bind_result (vault_from_descriptor L (vc_vault_descriptor config) network) (\<lambda>policy.
       bind_result (ok_or (address_from_str L (sw_destination package) network) (Lib AddressError)) (\<lambda>destination.
       bind_result (ok_or (psbt_from_text C (sw_psbt package)) (Lib PsbtParseError)) (\<lambda>psbt.
       if \<not> sweep_matches package psbt (addr_script destination)
       then Inl (Recov (Sweep SweepTxMismatch))
       else
        bind_result (sweep_input_sum (vault_script_of policy) (psbt_inputs psbt)) (\<lambda>input_sats.
        bind_result (ok_or (checked_sub input_sats (sw_sent_sats package))
                       (Recov (Sweep SweepOutputsExceed))) (\<lambda>fee_sats.
        bind_result (estimate_vault_vsize L (unsigned_tx psbt) policy Cooperative) (\<lambda>size.
        if fee_sats \<noteq> sw_fee_sats package \<or> fee_sats \<noteq> size * DEFAULT_FEE_RATE_SAT_VB
        then Inl (Recov (Sweep SweepFeeMismatch))
        else Inr (policy, psbt)))))))))"

definition finalize_cooperative_sweep ::
  "lib \<Rightarrow> ('b, 'z) ceremony_codecs_scheme \<Rightarrow> vault_config \<Rightarrow> 'b cooperative_sweep_package \<Rightarrow>
   (transaction \<times> sweep_result) result" where
  "finalize_cooperative_sweep L C config package =
     (if \<not> sw_phone_approved package \<or> \<not> sw_hww_approved package
      then Inl (Recov (Sweep SweepNotApproved))
      else
       bind_result (validate_cooperative_sweep L C config package) (\<lambda>(policy, psbt).
       bind_result (ok_or (xonly_from_str L (phone_vault_pubkey config)) (Lib KeyParseError)) (\<lambda>phone.
       bind_result (verify_vault_psbt_signature L psbt policy Cooperative phone) (\<lambda>_.
       bind_result (ok_or (xonly_from_str L (hww_vault_pubkey config)) (Lib KeyParseError)) (\<lambda>hww.
       bind_result (verify_vault_psbt_signature L psbt policy Cooperative hww) (\<lambda>_.
       bind_result (finalize_vault_psbt L psbt) (\<lambda>tx.
       Inr (tx, \<lparr>sr_txid = compute_txid L tx, sr_input_count = sw_input_count package,
                 sr_sent_sats = sw_sent_sats package, sr_fee_sats = sw_fee_sats package\<rparr>))))))))"

section \<open>Phone-key rotation\<close>

definition rotated_config ::
  "lib \<Rightarrow> key_lib \<Rightarrow> vault_config \<Rightarrow> device_keys \<Rightarrow> vault_policy \<Rightarrow> vault_config result" where
  "rotated_config L K old_config new_phone new_policy =
     bind_result (hot_descriptors K new_phone) (\<lambda>(hot_external, hot_internal).
     Inr \<lparr>vc_version = vc_version old_config, vc_network = vc_network old_config,
          phone_vault_pubkey = xonly_to_string L (vault_pubkey new_phone),
          hww_vault_pubkey = hww_vault_pubkey old_config,
          phone_hot_external_descriptor = hot_external,
          phone_hot_internal_descriptor = hot_internal,
          vc_vault_descriptor = vault_descriptor_string L new_policy,
          vc_vault_address = addr_text (vp_address new_policy),
          phone_recovery_blocks = phone_recovery_blocks old_config,
          hww_recovery_blocks = hww_recovery_blocks old_config,
          vc_monthly_limit_sats = vc_monthly_limit_sats old_config,
          vc_emergency_access_limit_sats = vc_emergency_access_limit_sats old_config\<rparr>)"

definition validate_rotation_policy_binding ::
  "lib \<Rightarrow> ('b, 'z) ceremony_codecs_scheme \<Rightarrow> vault_config \<Rightarrow> vault_config \<Rightarrow> 'b cooperative_sweep_package \<Rightarrow>
   'b policy_package \<Rightarrow> unit result" where
  "validate_rotation_policy_binding L C old_config new_config sweep renewed =
     (let m = pp_manifest renewed in
      if \<not> is_supported_policy_package renewed \<or> \<not> phone_approved m
         \<or> bm_vault_descriptor m \<noteq> vc_vault_descriptor new_config
         \<or> bm_vault_address m \<noteq> vc_vault_address new_config
         \<or> monthly_limit_sats m \<noteq> vc_monthly_limit_sats old_config
         \<or> emergency_access_limit_sats m \<noteq> vc_emergency_access_limit_sats old_config
      then Inl (Wal (Rotate RenewalDiffers))
      else
       bind_result (ok_or (psbt_from_text C (sw_psbt sweep)) (Lib PsbtParseError)) (\<lambda>sweep_psbt.
       let sweep_tx = unsigned_tx sweep_psbt in
       bind_result (ok_or (get (tx_output sweep_tx) 0) (Wal (Rotate RotationNoOutput))) (\<lambda>sweep_output.
       bind_result (ok_or (map_of (pp_psbts renewed) (psbt_file (rollover m)))
                      (Wal (Rotate RenewalRolloverMissing))) (\<lambda>rollover_text.
       bind_result (ok_or (psbt_from_text C rollover_text) (Lib PsbtParseError)) (\<lambda>rollover_psbt.
       if length (tx_input (unsigned_tx rollover_psbt)) \<noteq> 1 \<or> length (psbt_inputs rollover_psbt) \<noteq> 1
          \<or> previous_output (tx_input (unsigned_tx rollover_psbt) ! 0) \<noteq> OutPoint (compute_txid L sweep_tx) 0
          \<or> witness_utxo (psbt_inputs rollover_psbt ! 0) \<noteq> Some sweep_output
       then Inl (Wal (Rotate RenewalNotChained)) else Inr ())))))"

definition validate_phone_rotation ::
  "lib \<Rightarrow> key_lib \<Rightarrow> ('b, 'z) ceremony_codecs_scheme \<Rightarrow> path \<Rightarrow> 'b phone_rotation_package \<Rightarrow> 'b world \<Rightarrow>
   (vault_config \<times> vault_config \<times> device_keys) result" where
  "validate_phone_rotation L K C data_dir package w =
     (if rot_version package \<noteq> 1 \<or> rot_kind package \<noteq> ''phone-key-rotation''
      then Inl (Wal (Rotate RotationUnsupported))
      else
       bind_result (load_config C data_dir w) (\<lambda>old_config.
       if old_vault_descriptor package \<noteq> vc_vault_descriptor old_config
          \<or> sw_vault_descriptor (rot_sweep package) \<noteq> vc_vault_descriptor old_config
          \<or> sw_destination (rot_sweep package) \<noteq> new_vault_address package
          \<or> rot_monthly_limit_sats package \<noteq> vc_monthly_limit_sats old_config
          \<or> rot_emergency_access_limit_sats package \<noteq> vc_emergency_access_limit_sats old_config
       then Inl (Wal (Rotate RotationVaultMismatch))
       else
        bind_result (read_json (device_codec C) (join_str data_dir PENDING_PHONE_ROTATION_FILE) w) (\<lambda>pending.
        bind_result (device_network pending) (\<lambda>pending_network.
        bind_result (config_network old_config) (\<lambda>network.
        if pending_network \<noteq> network then Inl (Wal (Rotate RotationNetwork))
        else
         bind_result (parse_for_network_at_index L K (df_mnemonic pending) network
                        (df_vault_key_index pending)) (\<lambda>new_phone.
         if xonly_to_string L (vault_pubkey new_phone) \<noteq> new_phone_vault_pubkey package
         then Inl (Wal (Rotate RotationKeyMismatch))
         else
          bind_result (ok_or (xonly_from_str L (hww_vault_pubkey old_config)) (Lib KeyParseError)) (\<lambda>hww.
          bind_result (ok_or (xonly_from_str L (new_phone_vault_pubkey package)) (Lib KeyParseError)) (\<lambda>phone.
          bind_result (vault_new L phone hww network) (\<lambda>policy.
          if vault_descriptor_string L policy \<noteq> new_vault_descriptor package
             \<or> addr_text (vp_address policy) \<noteq> new_vault_address package
          then Inl (Wal (Rotate RotationDestination))
          else
           bind_result (validate_cooperative_sweep L C old_config (rot_sweep package)) (\<lambda>_.
           bind_result (rotated_config L K old_config new_phone policy) (\<lambda>new_config.
           let enabled = 0 < vc_monthly_limit_sats old_config \<or> 0 < vc_emergency_access_limit_sats old_config in
           bind_result (case renewed_policy package of
               None \<Rightarrow> if enabled then Inl (Wal (Rotate RotationPolicyMissing)) else Inr ()
             | Some renewed \<Rightarrow>
                 if \<not> enabled then Inl (Wal (Rotate RotationPolicyDisabled))
                 else validate_rotation_policy_binding L C old_config new_config (rot_sweep package) renewed) (\<lambda>_.
           Inr (old_config, new_config, new_phone)))))))))))))"

section \<open>Sweeps conserve value\<close>

lemma build_sweep_psbt_Inr:
  assumes "lib_psbt_laws L" and "build_sweep_psbt L policy utxos path destination = Inr (psbt, fee, sent)"
  shows "psbt_describes psbt (sweep_transaction utxos path destination sent) (map utxo_txout utxos)"
    and "sum_list (map utxo_value utxos) = sent + fee"
    and "sum_list (map utxo_value utxos) < u64_bound"
    and "estimate_vault_vsize L (sweep_transaction utxos path destination (sent + fee)) policy (policy_path path)
      = Inr fee"
  using assms(2) create_vault_psbt_describes [OF assms(1)] by (auto simp: build_sweep_psbt_def)

lemma estimate_vault_vsize_value:
  assumes "lib_size_laws L"
  shows "estimate_vault_vsize L (sweep_transaction utxos path destination a) policy sp
    = estimate_vault_vsize L (sweep_transaction utxos path destination b) policy sp"
proof -
  have "vsize L ((sweep_transaction utxos path destination a)\<lparr>tx_input := ins\<rparr>)
      = vsize L ((sweep_transaction utxos path destination b)\<lparr>tx_input := ins\<rparr>)" for ins
    by (rule vsize_shape [OF assms]) (simp add: tx_shape_def sweep_transaction_def)
  moreover have "tx_input (sweep_transaction utxos path destination a)
      = tx_input (sweep_transaction utxos path destination b)"
    by (simp add: sweep_transaction_def)
  ultimately show ?thesis by (simp add: estimate_vault_vsize_def)
qed

lemma sweep_sum_fold:
  assumes "acc + sum_list (map txo_value outs) < u64_bound"
    and "map witness_utxo inputs = map Some outs" and "\<forall>out \<in> set outs. script_pubkey out = s"
  shows "try_fold (sweep_sum_step s) acc inputs = Inr (acc + sum_list (map txo_value outs))"
  using assms
proof (induction inputs arbitrary: acc outs)
  case Nil
  then show ?case by simp
next
  case (Cons x xs)
  obtain y ys where outs: "outs = y # ys" "witness_utxo x = Some y" "map witness_utxo xs = map Some ys"
    using Cons.prems(2) by (cases outs) auto
  have "sweep_sum_step s acc x = Inr (acc + txo_value y)"
    using Cons.prems(1,3) outs by (simp add: sweep_sum_step_def checked_add_def)
  moreover have "try_fold (sweep_sum_step s) (acc + txo_value y) xs
      = Inr (acc + txo_value y + sum_list (map txo_value ys))"
    using Cons.IH [of "acc + txo_value y" ys] Cons.prems outs by simp
  ultimately show ?case using outs by simp
qed

lemma sweep_input_sum_describes:
  assumes "psbt_describes psbt tx outs" and "\<forall>out \<in> set outs. script_pubkey out = s"
    and "sum_list (map txo_value outs) < u64_bound"
    and "map witness_utxo inputs = map witness_utxo (psbt_inputs psbt)"
  shows "sweep_input_sum s inputs = Inr (sum_list (map txo_value outs))"
proof -
  have "map witness_utxo (psbt_inputs psbt) = map Some outs"
    using assms(1) by (auto simp: psbt_describes_def intro!: nth_equalityI)
  then show ?thesis using sweep_sum_fold [of 0 outs inputs s] assms by (simp add: sweep_input_sum_def)
qed

lemma map_witness_clear:
  "clear_sigs q = clear_sigs p \<Longrightarrow> map witness_utxo (psbt_inputs q) = map witness_utxo (psbt_inputs p)"
  using clear_sigs_inputs(1) [of q p] clear_sigs_fields(1) [of q p] by (auto intro!: nth_equalityI)

text \<open>What the phone proposes, the HWW validates.\<close>

lemma create_cooperative_sweep_validates:
  assumes "lib_psbt_laws L" and "lib_sign_laws L" and "lib_size_laws L" and "psbt_text_ok C"
    and "create_cooperative_sweep L C config utxos destination phone = Inr package"
    and "config_network config = Inr network"
    and "address_from_str L (addr_text destination) network = Some destination"
    and "vault_from_descriptor L (vc_vault_descriptor config) network = Inr policy"
    and "\<forall>u \<in> set utxos. utxo_script u = vault_script_of policy"
  shows "\<exists>psbt. validate_cooperative_sweep L C config package = Inr (policy, psbt)
    \<and> verify_vault_psbt_signature L psbt policy Cooperative (keypair_xonly L (vault_keypair phone)) = Inr ()
    \<and> unsigned_tx psbt = sweep_transaction utxos SweepCooperative destination (sw_sent_sats package)
    \<and> sum_list (map utxo_value utxos) = sw_sent_sats package + sw_fee_sats package"
proof -
  obtain psbt fee sent signed where build: "build_sweep_psbt L policy utxos SweepCooperative destination
      = Inr (psbt, fee, sent)" and ne: "utxos \<noteq> []"
    and sign: "sign_vault_psbt L psbt policy Cooperative (vault_keypair phone) = Inr signed"
    and package: "package = \<lparr>sw_version = 1, sw_kind = ''cooperative-sweep'',
           sw_vault_descriptor = vc_vault_descriptor config, sw_destination = addr_text destination,
           sw_psbt = psbt_to_text C signed, sw_input_count = length utxos,
           sw_sent_sats = sent, sw_fee_sats = fee, sw_phone_approved = True, sw_hww_approved = False\<rparr>"
    using assms(5,6,8) by (auto simp: create_cooperative_sweep_def split: if_splits)
  note b = build_sweep_psbt_Inr [OF assms(1) build]
  have ext: "extends_sigs L psbt signed"
    using vault_signer.sign_extends [OF assms(2)] sign by (auto simp: sign_vault_psbt_def)
  then have clear: "clear_sigs signed = clear_sigs psbt" by (simp add: extends_sigs_def)
  have tx: "unsigned_tx signed = sweep_transaction utxos SweepCooperative destination sent"
    using clear_sigs_unsigned_tx [OF clear] b(1) by (simp add: psbt_describes_def)
  have len: "length (psbt_inputs signed) = length utxos" "length (psbt_inputs psbt) = length utxos"
    using clear_sigs_inputs(1) [OF clear] b(1) by (simp_all add: psbt_describes_def)
  have "sweep_matches package signed (addr_script destination)"
    using tx len ne by (auto simp: sweep_matches_def package sweep_transaction_def sweep_sequence_def Let_def)
  moreover have "sweep_input_sum (vault_script_of policy) (psbt_inputs signed) = Inr (sent + fee)"
    using sweep_input_sum_describes [OF b(1) _ _ map_witness_clear [OF clear], of "vault_script_of policy"]
      assms(9) b(2,3) by (simp add: comp_def)
  moreover have "estimate_vault_vsize L (unsigned_tx signed) policy Cooperative = Inr fee"
    using b(4) estimate_vault_vsize_value [OF assms(3)] tx by (metis policy_path_def sweep_path.simps(7))
  ultimately have "validate_cooperative_sweep L C config package = Inr (policy, signed)"
    using assms(4,6,7,8) by (simp add: validate_cooperative_sweep_def package psbt_text_ok_def checked_sub_def)
  moreover have "verify_vault_psbt_signature L signed policy Cooperative (keypair_xonly L (vault_keypair phone)) = Inr ()"
    using vault_signer.sign_verifies [OF assms(2)] sign len
    by (simp add: sign_vault_psbt_def verify_vault_psbt_signature_def)
  ultimately show ?thesis using tx b(2) package by auto
qed

section \<open>Maturity\<close>

lemma saturating_add_mono: "b \<le> c \<Longrightarrow> saturating_add a b \<le> saturating_add a c"
  by (auto simp: saturating_add_def)

lemma mature_hww_phone:
  "set (mature_utxos utxos SweepHwwRecovery tip) \<subseteq> set (mature_utxos utxos SweepPhoneRecovery tip)"
proof -
  have "saturating_add h PHONE_RECOVERY_BLOCKS \<le> saturating_add h HWW_RECOVERY_BLOCKS" for h
    by (rule saturating_add_mono) (simp add: constants_simps)
  then show ?thesis by (fastforce simp: mature_utxos_def sweep_delay_def intro: order_trans)
qed

lemma mature_utxos_iff:
  assumes "sweep_delay path = Some delay" and "confirmation_height u + delay < u64_bound"
    and "tip + 1 < u64_bound"
  shows "u \<in> set (mature_utxos utxos path tip) \<longleftrightarrow> u \<in> set utxos \<and> confirmation_height u + delay \<le> tip + 1"
  using assms by (auto simp: mature_utxos_def saturating_add_def)

lemma validate_cooperative_sweep_Inr:
  assumes "validate_cooperative_sweep L C config package = Inr (policy, psbt)"
  shows "\<exists>network destination. config_network config = Inr network
    \<and> address_from_str L (sw_destination package) network = Some destination
    \<and> tx_output (unsigned_tx psbt) = [pays (sw_sent_sats package) (addr_script destination)]
    \<and> sweep_input_sum (vault_script_of policy) (psbt_inputs psbt)
        = Inr (sw_sent_sats package + sw_fee_sats package)
    \<and> length (tx_input (unsigned_tx psbt)) = sw_input_count package
    \<and> length (psbt_inputs psbt) = sw_input_count package"
  using assms
  by (auto simp: validate_cooperative_sweep_def sweep_matches_def Let_def length_Suc_conv eq_pays_iff
      split: if_splits)

lemma sweep_input_sum_all:
  "try_fold (sweep_sum_step s) acc inputs = Inr v \<Longrightarrow>
   \<forall>i \<in> set inputs. \<exists>out. witness_utxo i = Some out \<and> script_pubkey out = s"
proof (induction inputs arbitrary: acc)
  case (Cons x xs)
  then obtain acc' where "sweep_sum_step s acc x = Inr acc'"
    and rest: "try_fold (sweep_sum_step s) acc' xs = Inr v" by auto
  then have "\<exists>out. witness_utxo x = Some out \<and> script_pubkey out = s"
    by (auto simp: sweep_sum_step_def split: if_splits)
  with Cons.IH [OF rest] show ?case by simp
qed simp

end
