(* ===== verification/Cold_Wallet.thy ===== *)
theory Cold_Wallet
  imports Recovery
begin

text \<open>
  \<^verbatim>\<open>src/cold_wallet/mod.rs\<close>: the hardware wallet. It initializes its device files, keeps the
  cloud backup, and signs only what it has validated: a policy batch, a cooperative sweep, a phone
  rotation, its own recovery path, and the revocation of the live controllers.
\<close>

record 'b wallet_codecs = "'b ceremony_codecs" +
  backup_codec :: "('b, 'b cloud_recovery_backup) codec"
  blob_codec :: "('b, 'b encrypted_blob) codec"
  utf8_string :: "'b \<Rightarrow> string option"

section \<open>Device and backups\<close>

definition cold_check_phone ::
  "lib \<Rightarrow> key_lib \<Rightarrow> ('b, 'z) storage_codecs_scheme \<Rightarrow> path \<Rightarrow> network \<Rightarrow> 'b world \<Rightarrow> unit result" where
  "cold_check_phone L K C data_dir network w =
     (if path_exists w (join_str data_dir PHONE_DEVICE_FILE)
      then bind_result (load_device C data_dir PHONE_DEVICE_FILE w) (\<lambda>phone_file.
           bind_result (device_network phone_file) (\<lambda>n.
           if n \<noteq> network then Inl (Dev PhoneOtherNetwork)
           else bind_result (parse_for_network_at_index L K (df_mnemonic phone_file) network
                               (df_vault_key_index phone_file)) (\<lambda>_. Inr ())))
      else Inr ())"

definition cold_initialize ::
  "lib \<Rightarrow> key_lib \<Rightarrow> ('b, 'z) storage_codecs_scheme \<Rightarrow> nat \<Rightarrow> path \<Rightarrow> network \<Rightarrow> ('b, initialized_device) io" where
  "cold_initialize L K C seed_entropy data_dir network =
     bindM (liftM (validate_supported_network network)) (\<lambda>_.
     bindM (readM (\<lambda>w. if path_exists w (join_str data_dir HWW_DEVICE_FILE)
                       then Inl (Dev HwwAlreadyInitialized) else Inr ())) (\<lambda>_.
     bindM (readM (cold_check_phone L K C data_dir network)) (\<lambda>_.
     bindM (liftM (generate_for_network L K seed_entropy network)) (\<lambda>hww.
     bindM (write_json (public_device_codec C) (join_str data_dir HWW_PUBLIC_FILE)
       \<lparr>pdf_version = 1, pdf_kind = ''hww-public-key'', pdf_network = network_name network,
        pdf_vault_pubkey = xonly_to_string L (vault_pubkey hww)\<rparr>) (\<lambda>_.
     bindM (write_json (device_codec C) (join_str data_dir HWW_DEVICE_FILE)
       \<lparr>df_kind = ''hww'', df_network = network_name network, df_mnemonic = dk_mnemonic hww,
        df_vault_key_index = vault_key_index hww\<rparr>) (\<lambda>_.
     returnM \<lparr>id_mnemonic = dk_mnemonic hww, id_vault_pubkey = xonly_to_string L (vault_pubkey hww),
       id_vault_key_index = vault_key_index hww\<rparr>))))))"

definition load_or_migrate_cloud_backup ::
  "lib \<Rightarrow> key_lib \<Rightarrow> ('b, 'y) pgp_lib_scheme \<Rightarrow> ('b, 'z) wallet_codecs_scheme \<Rightarrow> 'b entropy \<Rightarrow> path \<Rightarrow> path \<Rightarrow>
   vault_config \<Rightarrow> device_keys \<Rightarrow> ('b, 'b cloud_recovery_backup) io" where
  "load_or_migrate_cloud_backup L K P C en data_dir backup_path config hww =
     bindM (readM (\<lambda>w. Inr (read_json (backup_codec C) backup_path w))) (\<lambda>current.
     case current of
       Inr backup \<Rightarrow> returnM backup
     | Inl _ \<Rightarrow>
        bindM (readM (\<lambda>w. map_err (read_json (blob_codec C) backup_path w) (Dev LegacyBackupInvalid))) (\<lambda>legacy.
        bindM (liftM (decrypt P (seed_bytes P (dk_seed hww)) ''phone-seed-backup'' legacy)) (\<lambda>plain.
        bindM (liftM (ok_or (utf8_string C plain) (Ext Utf8Error))) (\<lambda>words.
        bindM (liftM (config_network config)) (\<lambda>network.
        bindM (liftM (parse_for_network L K words network)) (\<lambda>phone.
        bindM (liftM (recovery_payload_new L config phone)) (\<lambda>payload.
        bindM (liftM (create_backup P en payload (seed_bytes P (dk_seed hww)) [])) (\<lambda>migrated.
        bindM (if backup_path = join_str data_dir PHONE_BACKUP_FILE
               then write_json (backup_codec C) backup_path migrated else returnM ()) (\<lambda>_.
        returnM migrated)))))))))"

definition decrypt_phone_backup ::
  "lib \<Rightarrow> key_lib \<Rightarrow> ('b, 'y) pgp_lib_scheme \<Rightarrow> ('b, 'z) wallet_codecs_scheme \<Rightarrow> 'b entropy \<Rightarrow> path \<Rightarrow> ('b, string) io" where
  "decrypt_phone_backup L K P C en data_dir =
     bindM (readM (load_config C data_dir)) (\<lambda>config.
     bindM (readM (load_device_keys L K C data_dir HWW_DEVICE_FILE)) (\<lambda>hww.
     bindM (load_or_migrate_cloud_backup L K P C en data_dir (join_str data_dir PHONE_BACKUP_FILE) config hww) (\<lambda>backup.
     bindM (liftM (decrypt_with_hww P backup (seed_bytes P (dk_seed hww)))) (\<lambda>payload.
     bindM (liftM (validate_against L K payload config)) (\<lambda>_.
     returnM (rp_phone_mnemonic payload))))))"

definition create_cloud_recovery_backup ::
  "lib \<Rightarrow> key_lib \<Rightarrow> ('b, 'y) pgp_lib_scheme \<Rightarrow> ('b, 'z) wallet_codecs_scheme \<Rightarrow> 'b entropy \<Rightarrow> path \<Rightarrow>
   vault_config \<Rightarrow> ('b, 'b cloud_recovery_backup) io" where
  "create_cloud_recovery_backup L K P C en data_dir config =
     bindM (readM (load_device_keys L K C data_dir PHONE_DEVICE_FILE)) (\<lambda>phone.
     bindM (readM (load_device_keys L K C data_dir HWW_DEVICE_FILE)) (\<lambda>hww.
     bindM (liftM (recovery_payload_new L config phone)) (\<lambda>payload.
     bindM (liftM (create_backup P en payload (seed_bytes P (dk_seed hww)) [])) (\<lambda>backup.
     bindM (write_json (backup_codec C) (join_str data_dir PHONE_BACKUP_FILE) backup) (\<lambda>_.
     returnM backup)))))"

definition add_recovery_friend ::
  "lib \<Rightarrow> key_lib \<Rightarrow> ('b, 'y) pgp_lib_scheme \<Rightarrow> ('b, 'z) wallet_codecs_scheme \<Rightarrow> 'b entropy \<Rightarrow> path \<Rightarrow> 'b \<Rightarrow>
   ('b, string) io" where
  "add_recovery_friend L K P C en data_dir public_key =
     bindM (readM (load_config C data_dir)) (\<lambda>config.
     bindM (readM (load_device_keys L K C data_dir HWW_DEVICE_FILE)) (\<lambda>hww.
     bindM (load_or_migrate_cloud_backup L K P C en data_dir (join_str data_dir PHONE_BACKUP_FILE) config hww) (\<lambda>backup.
     bindM (liftM (decrypt_with_hww P backup (seed_bytes P (dk_seed hww)))) (\<lambda>payload.
     bindM (liftM (validate_against L K payload config)) (\<lambda>_.
     bindM (liftM (add_friend P (en_wrap en) (en_manifest_nonce en) backup (seed_bytes P (dk_seed hww)) public_key))
       (\<lambda>(fingerprint, backup').
     bindM (write_json (backup_codec C) (join_str data_dir PHONE_BACKUP_FILE) backup') (\<lambda>_.
     returnM fingerprint)))))))"

definition decrypt_phone_backup_package ::
  "lib \<Rightarrow> key_lib \<Rightarrow> ('b, 'y) pgp_lib_scheme \<Rightarrow> ('b, 'z) wallet_codecs_scheme \<Rightarrow> 'b entropy \<Rightarrow> path \<Rightarrow> path \<Rightarrow>
   ('b, phone_recovery_package) io" where
  "decrypt_phone_backup_package L K P C en data_dir backup_path =
     bindM (readM (load_config C data_dir)) (\<lambda>config.
     bindM (readM (load_device_keys L K C data_dir HWW_DEVICE_FILE)) (\<lambda>hww.
     bindM (load_or_migrate_cloud_backup L K P C en data_dir backup_path config hww) (\<lambda>backup.
     bindM (liftM (decrypt_with_hww P backup (seed_bytes P (dk_seed hww)))) (\<lambda>payload.
     bindM (liftM (validate_against L K payload config)) (\<lambda>_.
     bindM (liftM (config_network config)) (\<lambda>network.
     bindM (liftM (parse_for_network_at_index L K (rp_phone_mnemonic payload) network
                     (rp_phone_vault_key_index payload))) (\<lambda>phone.
     if xonly_to_string L (vault_pubkey phone) \<noteq> phone_vault_pubkey config
     then failM (Dev DecryptedBackupMismatch)
     else returnM \<lparr>prp_version = 2, prp_kind = ''phone-recovery'',
       prp_phone_mnemonic = rp_phone_mnemonic payload,
       prp_phone_vault_key_index = vault_key_index phone,
       prp_phone_vault_pubkey = xonly_to_string L (vault_pubkey phone),
       prp_vault_descriptor = rp_vault_descriptor payload,
       prp_vault_address = rp_vault_address payload\<rparr>)))))))"

section \<open>Policy approval\<close>

definition approve_transaction ::
  "lib \<Rightarrow> ('b, 'z) ceremony_codecs_scheme \<Rightarrow> batch_manifest \<Rightarrow> path \<Rightarrow> vault_policy \<Rightarrow> controller_policy \<Rightarrow> xonly \<Rightarrow>
   device_keys \<Rightarrow> batch_transaction \<Rightarrow> ('b, unit) io" where
  "approve_transaction L C manifest batch_dir policy controller phone_pubkey hww t =
     (let p = join_str batch_dir (psbt_file t) in
      bindM (readM (read_psbt C p)) (\<lambda>psbt.
      bindM (liftM (transaction_indexes (vault_input_indexes t))) (\<lambda>vault_indexes.
      bindM (liftM (transaction_indexes (controller_input_indexes t))) (\<lambda>controller_indexes.
      bindM (liftM (verify_vault_psbt_signatures L psbt policy Cooperative phone_pubkey vault_indexes)) (\<lambda>_.
      bindM (liftM (if controller_indexes \<noteq> [] \<and> psbt_file t = psbt_file (rollover manifest)
                    then verify_controller_psbt_signatures L psbt controller ControllerPhone phone_pubkey
                           controller_indexes
                    else Inr ())) (\<lambda>_.
      bindM (liftM (sign_vault_psbt_inputs L psbt policy Cooperative (vault_keypair hww) vault_indexes)) (\<lambda>signed.
      write_psbt C p signed)))))))"

definition approve_policy_for_config ::
  "lib \<Rightarrow> key_lib \<Rightarrow> ('b, 'z) ceremony_codecs_scheme \<Rightarrow> path \<Rightarrow> vault_config \<Rightarrow> path \<Rightarrow> ('b, batch_manifest) io" where
  "approve_policy_for_config L K C data_dir config batch_dir =
     bindM (readM (load_manifest C batch_dir)) (\<lambda>manifest.
     bindM (readM (validate_batch L C config manifest batch_dir)) (\<lambda>policy.
     bindM (liftM (ok_or (xonly_from_str L (phone_vault_pubkey config)) (Lib KeyParseError))) (\<lambda>phone_pubkey.
     bindM (liftM (ok_or (xonly_from_str L (hww_vault_pubkey config)) (Lib KeyParseError))) (\<lambda>hww_pubkey.
     bindM (liftM (config_network config)) (\<lambda>network.
     bindM (liftM (controller_new L phone_pubkey hww_pubkey network)) (\<lambda>controller.
     bindM (readM (load_device_keys L K C data_dir HWW_DEVICE_FILE)) (\<lambda>hww.
     if xonly_to_string L (vault_pubkey hww) \<noteq> hww_vault_pubkey config then failM (Dev HwwKeyMismatch)
     else
      bindM (forM (manifest_transactions manifest)
               (approve_transaction L C manifest batch_dir policy controller phone_pubkey hww)) (\<lambda>_.
      let manifest' = manifest\<lparr>hww_approved := True\<rparr> in
      bindM (write_json (manifest_codec C) (join_str batch_dir ''manifest.json'') manifest') (\<lambda>_.
      returnM manifest')))))))))"

definition approve_policy ::
  "lib \<Rightarrow> key_lib \<Rightarrow> ('b, 'z) ceremony_codecs_scheme \<Rightarrow> path \<Rightarrow> path \<Rightarrow> ('b, batch_manifest) io" where
  "approve_policy L K C data_dir batch_dir =
     bindM (readM (load_config C data_dir)) (\<lambda>config.
     approve_policy_for_config L K C data_dir config batch_dir)"

section \<open>Recovery, revocation and sweeps\<close>

definition cold_recover ::
  "lib \<Rightarrow> key_lib \<Rightarrow> ('b, 'z) storage_codecs_scheme \<Rightarrow> path \<Rightarrow> vault_config \<Rightarrow> vault_utxo list \<Rightarrow> nat \<Rightarrow>
   address \<Rightarrow> 'b world \<Rightarrow> (transaction \<times> sweep_result) result" where
  "cold_recover L K C data_dir config utxos tip_height destination w =
     bind_result (prepare_sweep L config utxos tip_height SweepHwwRecovery destination) (\<lambda>plan.
     bind_result (load_device_keys L K C data_dir HWW_DEVICE_FILE w) (\<lambda>hww.
     sign_recovery_sweep L plan SweepHwwRecovery hww))"

definition cold_revoke_policy ::
  "lib \<Rightarrow> key_lib \<Rightarrow> ('b, 'z) storage_codecs_scheme \<Rightarrow> path \<Rightarrow> vault_config \<Rightarrow> vault_utxo list \<Rightarrow> address \<Rightarrow>
   'b world \<Rightarrow> transaction result" where
  "cold_revoke_policy L K C data_dir config controller_utxos destination w =
     bind_result (ok_or (xonly_from_str L (phone_vault_pubkey config)) (Lib KeyParseError)) (\<lambda>phone_pubkey.
     bind_result (load_device_keys L K C data_dir HWW_DEVICE_FILE w) (\<lambda>hww.
     if xonly_to_string L (vault_pubkey hww) \<noteq> hww_vault_pubkey config then Inl (Dev HwwKeyMismatch)
     else
      bind_result (config_network config) (\<lambda>network.
      bind_result (controller_new L phone_pubkey (vault_pubkey hww) network) (\<lambda>controller.
      bind_result (build_controller_revocation_psbt L controller_utxos (addr_script destination)
                     DEFAULT_FEE_RATE_SAT_VB controller) (\<lambda>(psbt, _).
      bind_result (sign_controller_psbt_inputs L psbt controller ControllerHww (vault_keypair hww)
                     [0..<length (psbt_inputs psbt)]) (\<lambda>signed.
      finalize_vault_psbt L signed))))))"

definition approve_cooperative_sweep_for_config ::
  "lib \<Rightarrow> key_lib \<Rightarrow> ('b, 'z) ceremony_codecs_scheme \<Rightarrow> path \<Rightarrow> vault_config \<Rightarrow> 'b cooperative_sweep_package \<Rightarrow>
   'b world \<Rightarrow> 'b cooperative_sweep_package result" where
  "approve_cooperative_sweep_for_config L K C data_dir config package w =
     bind_result (validate_cooperative_sweep L C config package) (\<lambda>(policy, psbt).
     bind_result (ok_or (xonly_from_str L (phone_vault_pubkey config)) (Lib KeyParseError)) (\<lambda>phone_pubkey.
     bind_result (verify_vault_psbt_signature L psbt policy Cooperative phone_pubkey) (\<lambda>_.
     bind_result (load_device_keys L K C data_dir HWW_DEVICE_FILE w) (\<lambda>hww.
     if xonly_to_string L (vault_pubkey hww) \<noteq> hww_vault_pubkey config then Inl (Dev HwwKeyMismatch)
     else
      bind_result (sign_vault_psbt L psbt policy Cooperative (vault_keypair hww)) (\<lambda>signed.
      Inr (package\<lparr>sw_psbt := psbt_to_text C signed, sw_hww_approved := True\<rparr>))))))"

definition approve_cooperative_sweep ::
  "lib \<Rightarrow> key_lib \<Rightarrow> ('b, 'z) ceremony_codecs_scheme \<Rightarrow> path \<Rightarrow> 'b cooperative_sweep_package \<Rightarrow>
   'b world \<Rightarrow> 'b cooperative_sweep_package result" where
  "approve_cooperative_sweep L K C data_dir package w =
     bind_result (load_config C data_dir w) (\<lambda>config.
     approve_cooperative_sweep_for_config L K C data_dir config package w)"

definition reset_workspace :: "path \<Rightarrow> ('b, unit) io" where
  "reset_workspace p =
     bindM (readM (\<lambda>w. Inr (path_exists w p))) (\<lambda>exists.
     if exists then remove_dir_all p else returnM ())"

definition approve_renewed_policy ::
  "lib \<Rightarrow> key_lib \<Rightarrow> ('b, 'z) ceremony_codecs_scheme \<Rightarrow> path \<Rightarrow> vault_config \<Rightarrow> vault_config \<Rightarrow>
   'b cooperative_sweep_package \<Rightarrow> 'b policy_package \<Rightarrow> ('b, 'b policy_package) io" where
  "approve_renewed_policy L K C data_dir old_config new_config sweep policy =
     (let workspace = join_str data_dir ''hww/rotation-policy-review'' in
      bindM (reset_workspace workspace) (\<lambda>_.
      bindM (materialize_policy_package C policy workspace) (\<lambda>_.
      bindM (liftM (validate_rotation_policy_binding L C old_config new_config sweep policy)) (\<lambda>_.
      bindM (approve_policy_for_config L K C data_dir new_config workspace) (\<lambda>_.
      bindM (readM (package_from_batch C workspace)) (\<lambda>approved.
      bindM (reset_workspace workspace) (\<lambda>_.
      returnM approved)))))))"

definition approve_phone_rotation ::
  "lib \<Rightarrow> key_lib \<Rightarrow> ('b, 'y) pgp_lib_scheme \<Rightarrow> ('b, 'z) wallet_codecs_scheme \<Rightarrow> 'b entropy \<Rightarrow> 'b entropy \<Rightarrow> path \<Rightarrow>
   'b phone_rotation_package \<Rightarrow> ('b, 'b phone_rotation_package) io" where
  "approve_phone_rotation L K P C en en' data_dir package =
     bindM (readM (validate_phone_rotation L K C data_dir package)) (\<lambda>(old_config, new_config, new_phone).
     bindM (readM (approve_cooperative_sweep_for_config L K C data_dir old_config (rot_sweep package))) (\<lambda>sweep.
     bindM (case renewed_policy package of None \<Rightarrow> returnM None
            | Some policy \<Rightarrow>
                bindM (approve_renewed_policy L K C data_dir old_config new_config sweep policy) (\<lambda>p.
                returnM (Some p))) (\<lambda>renewed.
     bindM (readM (load_device_keys L K C data_dir HWW_DEVICE_FILE)) (\<lambda>hww.
     bindM (load_or_migrate_cloud_backup L K P C en data_dir (join_str data_dir PHONE_BACKUP_FILE)
              old_config hww) (\<lambda>current_backup.
     bindM (liftM (decrypt_with_hww P current_backup (seed_bytes P (dk_seed hww)))) (\<lambda>payload.
     bindM (liftM (validate_against L K payload old_config)) (\<lambda>_.
     bindM (liftM (recovery_payload_new L new_config new_phone)) (\<lambda>new_payload.
     bindM (liftM (create_backup P en' new_payload (seed_bytes P (dk_seed hww))
                     (friend_public_keys current_backup))) (\<lambda>new_backup.
     returnM (package\<lparr>rot_sweep := sweep, renewed_policy := renewed,
                      cloud_recovery_backup := Some new_backup\<rparr>))))))))))"

section \<open>Approval signs only what was validated\<close>

lemma read_psbt_resolve: "resolve p = resolve q \<Longrightarrow> read_psbt C p w = read_psbt C q w"
  by (simp add: read_psbt_def read_file_def file_at_def)

definition psbts_extend :: "lib \<Rightarrow> ('b, 'z) ceremony_codecs_scheme \<Rightarrow> 'b world \<Rightarrow> 'b world \<Rightarrow> bool" where
  "psbts_extend L C w w' \<longleftrightarrow>
     (\<forall>p x. read_psbt C p w = Inr x \<longrightarrow> (\<exists>y. read_psbt C p w' = Inr y \<and> extends_sigs L x y))"

lemma psbts_extend_refl: "psbts_extend L C w w"
  by (auto simp: psbts_extend_def intro: extends_sigs_refl)

lemma psbts_extend_trans:
  "psbts_extend L C w1 w2 \<Longrightarrow> psbts_extend L C w2 w3 \<Longrightarrow> psbts_extend L C w1 w3"
  unfolding psbts_extend_def using extends_sigs_trans by metis

lemma psbts_extend_write:
  assumes "psbt_text_ok C" and "write_psbt C p y w = (r, w')"
    and "read_psbt C p w = Inr x" and "extends_sigs L x y"
  shows "psbts_extend L C w w'"
proof -
  have "\<exists>y. read_psbt C q w' = Inr y \<and> extends_sigs L z y" if z: "read_psbt C q w = Inr z" for q z
  proof (cases "resolve q = resolve p")
    case True
    then have "z = x" using z assms(3) read_psbt_resolve [of q p C w] by simp
    then show ?thesis
      using psbts.put_atomic [OF assms(1,2)] assms(3,4) read_psbt_resolve [OF True, of C w'] extends_sigs_refl
      by metis
  next
    case False
    then show ?thesis using psbts.fetch_other [OF assms(2)] z extends_sigs_refl by metis
  qed
  then show ?thesis by (simp add: psbts_extend_def)
qed

lemma approve_transaction_run:
  assumes "approve_transaction L C m dir policy controller phone_pubkey hww t w = (r, w')"
  shows "w' = w \<or> (\<exists>psbt vs signed. read_psbt C (join_str dir (psbt_file t)) w = Inr psbt
      \<and> vs = vault_input_indexes t
      \<and> verify_vault_psbt_signatures L psbt policy Cooperative phone_pubkey vs = Inr ()
      \<and> sign_vault_psbt_inputs L psbt policy Cooperative (vault_keypair hww) vs = Inr signed
      \<and> write_psbt C (join_str dir (psbt_file t)) signed w = (r, w'))"
  using assms
  by (auto simp: approve_transaction_def Let_def bindM_def dest: transaction_indexes_Inr
      split: sum.splits prod.splits if_splits)

lemma approve_transaction_extends:
  assumes "lib_sign_laws L" and "psbt_text_ok C"
    and "approve_transaction L C m dir policy controller phone_pubkey hww t w = (r, w')"
  shows "psbts_extend L C w w'"
  using approve_transaction_run [OF assms(3)] psbts_extend_refl
    psbts_extend_write [OF assms(2)] vault_signer.sign_extends [OF assms(1)] by metis

text \<open>\<open>both_approved\<close>: the PSBT of a manifest entry carries the cooperative signatures of both keys.\<close>

definition both_approved ::
  "lib \<Rightarrow> ('b, 'z) ceremony_codecs_scheme \<Rightarrow> path \<Rightarrow> vault_policy \<Rightarrow> xonly \<Rightarrow> xonly \<Rightarrow> 'b world \<Rightarrow>
   batch_transaction \<Rightarrow> bool" where
  "both_approved L C dir policy phone_pubkey hww_pubkey w t \<longleftrightarrow>
     (\<exists>psbt. read_psbt C (join_str dir (psbt_file t)) w = Inr psbt
        \<and> verify_vault_psbt_signatures L psbt policy Cooperative phone_pubkey (vault_input_indexes t) = Inr ()
        \<and> verify_vault_psbt_signatures L psbt policy Cooperative hww_pubkey (vault_input_indexes t) = Inr ())"

lemma both_approved_extends:
  "both_approved L C dir policy pk hk w t \<Longrightarrow> psbts_extend L C w w' \<Longrightarrow> both_approved L C dir policy pk hk w' t"
  unfolding both_approved_def psbts_extend_def using vault_signer.verify_extends by metis

lemma approve_transaction_Inr:
  assumes "lib_sign_laws L" and "psbt_text_ok C"
    and "approve_transaction L C m dir policy controller pk hww t w = (Inr (), w')"
  shows "both_approved L C dir policy pk (keypair_xonly L (vault_keypair hww)) w' t"
proof -
  obtain psbt signed where v: "verify_vault_psbt_signatures L psbt policy Cooperative pk (vault_input_indexes t) = Inr ()"
    and s: "sign_vault_psbt_inputs L psbt policy Cooperative (vault_keypair hww) (vault_input_indexes t) = Inr signed"
    and wr: "write_psbt C (join_str dir (psbt_file t)) signed w = (Inr (), w')"
    using assms(3) by (auto simp: approve_transaction_def Let_def dest: transaction_indexes_Inr)
  have "read_psbt C (join_str dir (psbt_file t)) w' = Inr signed"
    using psbts.fetch_put [OF assms(2) wr] .
  moreover have "verify_vault_psbt_signatures L signed policy Cooperative pk (vault_input_indexes t) = Inr ()"
    using vault_signer.verify_extends [OF vault_signer.sign_extends [OF assms(1) s] v] .
  ultimately show ?thesis
    using vault_signer.sign_verifies [OF assms(1) s] by (auto simp: both_approved_def)
qed

lemma approve_transactions_Inr:
  assumes "lib_sign_laws L" and "psbt_text_ok C"
    and "forM ts (approve_transaction L C m dir policy controller pk hww) w = (Inr (), w')"
  shows "psbts_extend L C w w' \<and>
    (\<forall>t \<in> set ts. both_approved L C dir policy pk (keypair_xonly L (vault_keypair hww)) w' t)"
  using assms(3)
proof (induction ts arbitrary: w)
  case Nil
  then show ?case by (simp add: psbts_extend_refl)
next
  case (Cons t ts)
  obtain w1 where step: "approve_transaction L C m dir policy controller pk hww t w = (Inr (), w1)"
    and rest: "forM ts (approve_transaction L C m dir policy controller pk hww) w1 = (Inr (), w')"
    using Cons.prems by auto
  note ih = Cons.IH [OF rest]
  have "psbts_extend L C w w1" using approve_transaction_extends [OF assms(1,2) step] .
  moreover have "both_approved L C dir policy pk (keypair_xonly L (vault_keypair hww)) w1 t"
    using approve_transaction_Inr [OF assms(1,2) step] .
  ultimately show ?case
    using ih psbts_extend_trans both_approved_extends by auto
qed

text \<open>
  A run of the approval either leaves the world as it was or follows a successful validation of
  the batch it found.
\<close>

lemma approve_policy_for_config_validated:
  assumes "approve_policy_for_config L K C data_dir config dir w = (r, w')" and "w' \<noteq> w"
  shows "\<exists>m policy. load_manifest C dir w = Inr m \<and> validate_batch L C config m dir w = Inr policy"
  using assms
  by (auto simp: approve_policy_for_config_def bindM_def split: sum.splits prod.splits if_splits)

definition batch_keys :: "path \<Rightarrow> batch_manifest \<Rightarrow> path set" where
  "batch_keys dir m = insert (resolve (join_str dir ''manifest.json''))
     ((\<lambda>t. resolve (join_str dir (psbt_file t))) ` set (manifest_transactions m))"

lemma touches_approve_transaction:
  assumes "t \<in> set (manifest_transactions m)"
  shows "touches (batch_keys dir m) w (snd (approve_transaction L C m' dir policy controller pk hww t w))"
proof (cases "approve_transaction L C m' dir policy controller pk hww t w")
  case (Pair r w')
  have "resolve (join_str dir (psbt_file t)) \<in> batch_keys dir m" using assms by (simp add: batch_keys_def)
  then have "touches (batch_keys dir m) w (snd (write_psbt C (join_str dir (psbt_file t)) x w))" for x
    unfolding write_psbt_def by (rule touches_write_private)
  then show ?thesis
    using approve_transaction_run [OF Pair] Pair by (metis snd_conv touches_refl)
qed

lemma approve_policy_for_config_touches:
  assumes "load_manifest C dir w = Inr m"
  shows "touches (batch_keys dir m) w (snd (approve_policy_for_config L K C data_dir config dir w))"
  unfolding approve_policy_for_config_def Let_def
  using assms
  by (auto intro!: touches_bindM touches_forM touches_approve_transaction touches_write_json
      simp: batch_keys_def [symmetric] split: if_splits) (simp_all add: batch_keys_def)

lemma approve_policy_for_config_Inr:
  assumes "lib_sign_laws L" and "psbt_text_ok C" and "codec_ok (manifest_codec C)"
    and "approve_policy_for_config L K C data_dir config dir w = (Inr m', w')"
    and "load_manifest C dir w = Inr m"
    and "resolve (join_str dir ''manifest.json'') \<notin>
      (\<lambda>t. resolve (join_str dir (psbt_file t))) ` set (manifest_transactions m)"
  shows "\<exists>policy hww phone_pubkey. validate_batch L C config m dir w = Inr policy
    \<and> load_manifest C dir w' = Inr (m\<lparr>hww_approved := True\<rparr>) \<and> m' = m\<lparr>hww_approved := True\<rparr>
    \<and> load_device_keys L K C data_dir HWW_DEVICE_FILE w = Inr hww
    \<and> xonly_to_string L (vault_pubkey hww) = hww_vault_pubkey config
    \<and> xonly_from_str L (phone_vault_pubkey config) = Some phone_pubkey
    \<and> (\<forall>t \<in> set (manifest_transactions m). both_approved L C dir policy phone_pubkey (vault_pubkey hww) w' t)"
proof -
  obtain policy pk hk network controller hww w1 where
    val: "validate_batch L C config m dir w = Inr policy"
    and pk: "xonly_from_str L (phone_vault_pubkey config) = Some pk"
    and hww: "load_device_keys L K C data_dir HWW_DEVICE_FILE w = Inr hww"
      "xonly_to_string L (vault_pubkey hww) = hww_vault_pubkey config"
    and all: "forM (manifest_transactions m)
      (approve_transaction L C m dir policy controller pk hww) w = (Inr (), w1)"
    and wr: "write_json (manifest_codec C) (join_str dir ''manifest.json'') (m\<lparr>hww_approved := True\<rparr>) w1 = (Inr (), w')"
    and m': "m' = m\<lparr>hww_approved := True\<rparr>"
    using assms(4,5) by (auto simp: approve_policy_for_config_def Let_def split: if_splits)
  have frame: "read_psbt C (join_str dir (psbt_file t)) w' = read_psbt C (join_str dir (psbt_file t)) w1"
    if "t \<in> set (manifest_transactions m)" for t
  proof -
    have "touches {resolve (join_str dir ''manifest.json'')} w1 w'"
      using touches_write_json [of "join_str dir ''manifest.json''"] wr by (metis insertI1 snd_conv)
    moreover have "resolve (join_str dir (psbt_file t)) \<notin> {resolve (join_str dir ''manifest.json'')}"
      using assms(6) that by force
    ultimately have "file_at w' (join_str dir (psbt_file t)) = file_at w1 (join_str dir (psbt_file t))"
      by (rule touches_file_at)
    then show ?thesis by (simp add: read_psbt_def read_file_def)
  qed
  have "\<forall>t \<in> set (manifest_transactions m). both_approved L C dir policy pk (vault_pubkey hww) w' t"
    using approve_transactions_Inr [OF assms(1,2) all] frame load_device_keys_ok [OF hww(1)]
    by (simp add: both_approved_def)
  moreover have "load_manifest C dir w' = Inr (m\<lparr>hww_approved := True\<rparr>)"
    using json.fetch_put [OF assms(3) wr] by (simp add: load_manifest_def)
  ultimately show ?thesis using val pk hww m' by blast
qed

end
