(* ===== verification/Hot_Wallet.thy ===== *)
theory Hot_Wallet
  imports Hot_Db Cold_Wallet
begin

text \<open>
  \<^verbatim>\<open>src/hot_wallet/mod.rs\<close>: the phone. It proposes policies, activates the ones the hardware wallet
  approved (staging every artifact before the rollover is broadcast, so that an interrupted
  activation can be retried), broadcasts the scheduled transactions, revokes connectors, restores
  itself from a recovery package and takes its recovery path. The chain backend is a \<open>blockchain\<close>,
  the BDK wallet the \<open>bdk_lib\<close> of \<open>Hot_Db\<close>; the nonces drawn for encryption are arguments.
\<close>

section \<open>Schedules\<close>

datatype emergency_transaction_kind = Trigger | Withdrawal | Cancellation
datatype transaction_kind = Authorization | Revocation

record 'b encrypted_transaction =
  et_version :: nat
  et_step :: nat
  et_kind :: transaction_kind
  et_txid :: string
  et_psbt :: "'b encrypted_blob"

record 'b encrypted_emergency_transaction =
  ee_version :: nat
  ee_kind :: emergency_transaction_kind
  ee_txid :: string
  ee_psbt :: "'b encrypted_blob"

record schedule_entry =
  se_step :: nat
  se_hot_address :: string
  se_authorization_file :: string
  se_authorization_txid :: string
  se_connector :: connector_state
  se_next_connector :: "connector_state option"

record emergency_access_schedule =
  es_amount_sats :: nat
  es_delay_seconds :: nat
  es_hot_address :: string
  es_trigger_file :: string
  es_trigger_txid :: string
  es_withdrawal_file :: string
  es_withdrawal_txid :: string
  es_trigger_connector :: connector_state
  es_withdrawal_connector :: connector_state

record schedule =
  sc_version :: nat
  sc_rollover_txid :: string
  sc_controller_descriptor :: string
  sc_controller_address :: string
  sc_connector_value_sats :: nat
  sc_monthly_limit_sats :: nat
  sc_monthly_delay_seconds :: nat
  sc_emergency_access_limit_sats :: nat
  sc_entries :: "schedule_entry list"
  sc_emergency_access :: "emergency_access_schedule option"

record 'b hot_codecs = "'b wallet_codecs" +
  schedule_codec :: "('b, schedule) codec"
  tx_codec :: "('b, transaction) codec"
  bool_codec :: "('b, bool) codec"
  package_codec :: "('b, 'b policy_package) codec"
  enc_tx_codec :: "('b, 'b encrypted_transaction) codec"
  enc_emergency_codec :: "('b, 'b encrypted_emergency_transaction) codec"

section \<open>Names, purposes and paths\<close>

definition transaction_kind_name :: "transaction_kind \<Rightarrow> string" where
  "transaction_kind_name kind = (case kind of Authorization \<Rightarrow> ''authorization'' | Revocation \<Rightarrow> ''revocation'')"

definition emergency_transaction_kind_name :: "emergency_transaction_kind \<Rightarrow> string" where
  "emergency_transaction_kind_name kind = (case kind of Trigger \<Rightarrow> ''trigger'' | Withdrawal \<Rightarrow> ''withdrawal''
     | Cancellation \<Rightarrow> ''cancellation'')"

definition transaction_purpose :: "nat \<Rightarrow> transaction_kind \<Rightarrow> string \<Rightarrow> string" where
  "transaction_purpose step kind txid =
     ''allowance/'' @ show_nat step @ ''/'' @ transaction_kind_name kind @ ''/'' @ txid"

definition emergency_transaction_purpose :: "emergency_transaction_kind \<Rightarrow> string \<Rightarrow> string" where
  "emergency_transaction_purpose kind txid = ''emergency/'' @ emergency_transaction_kind_name kind @ ''/'' @ txid"

definition encrypted_transaction_path :: "path \<Rightarrow> nat \<Rightarrow> transaction_kind \<Rightarrow> path" where
  "encrypted_transaction_path epoch_dir step kind =
     join_str epoch_dir (''allowance-'' @ show_nat2 step @ ''-'' @ transaction_kind_name kind @ ''.json'')"

definition emergency_transaction_path :: "lib \<Rightarrow> path \<Rightarrow> emergency_transaction_kind \<Rightarrow> txid \<Rightarrow> path" where
  "emergency_transaction_path L epoch_dir kind txid =
     join_str epoch_dir (''emergency-'' @ emergency_transaction_kind_name kind @ ''-'' @ txid_to_string L txid @ ''.json'')"

fun component_string :: "path_component \<Rightarrow> string" where
  "component_string RootDir = ''''" \<comment> \<open>the separator is added between components\<close>
| "component_string CurDir = ''.''"
| "component_string ParentDir = ''..''"
| "component_string (Normal n) = n"

fun path_string :: "path \<Rightarrow> string" where
  "path_string [] = ''''"
| "path_string [RootDir] = ''/''"
| "path_string [c] = component_string c"
| "path_string (c # cs) = component_string c @ ''/'' @ path_string cs"

definition relative_to :: "path \<Rightarrow> path \<Rightarrow> string result" where
  \<comment> \<open>\<^verbatim>\<open>strip_prefix\<close> compares components\<close>
  "relative_to base p =
     (if take (length base) p = base then Inr (path_string (drop (length base) p)) else Inl (Sto OutsideBase))"

definition epoch_path :: "lib \<Rightarrow> path \<Rightarrow> txid \<Rightarrow> path" where
  "epoch_path L data_dir txid = join_str (join_str data_dir ''phone/transactions'') (txid_to_string L txid)"

section \<open>Approved policies at rest\<close>

datatype 'b approved_policy_input = Package "'b policy_package" | Encrypted "'b encrypted_blob"

definition activation_purpose :: "string \<Rightarrow> string" where
  "activation_purpose txid = ''policy-activation-v1:'' @ txid"

definition open_approved_policy ::
  "lib \<Rightarrow> key_lib \<Rightarrow> ('b, 'y) crypto_lib_scheme \<Rightarrow> ('b, 'z) hot_codecs_scheme \<Rightarrow> path \<Rightarrow> 'b approved_policy_input \<Rightarrow>
   'b world \<Rightarrow> 'b policy_package result" where
  "open_approved_policy L K Y C data_dir input w = (case input of
       Package package \<Rightarrow> Inr package
     | Encrypted blob \<Rightarrow>
         if \<not> starts_with (blob_purpose blob) ''policy-activation-v1:'' then Inl (Wal (Hot NotPolicyBackup)) else
         bind_result (load_device_keys L K C data_dir PHONE_DEVICE_FILE w) (\<lambda>phone.
         bind_result (decrypt Y (seed_bytes Y (dk_seed phone)) (blob_purpose blob) blob) (\<lambda>plaintext.
         bind_result (ok_or (from_json (package_codec C) plaintext) (Ext JsonError)) (\<lambda>package.
         if blob_purpose blob \<noteq> activation_purpose (unsigned_txid (rollover (pp_manifest package)))
         then Inl (Wal (Hot BackupRolloverMismatch)) else Inr package))))"

section \<open>Initialization\<close>

definition ensure_phone_is_uninitialized :: "path \<Rightarrow> 'b world \<Rightarrow> unit result" where
  "ensure_phone_is_uninitialized data_dir w =
     (if path_exists w (join_str data_dir PHONE_DEVICE_FILE) then Inl (Dev PhoneAlreadyInitialized) else Inr ())"

definition persist_phone ::
  "lib \<Rightarrow> key_lib \<Rightarrow> ('b, 'z) storage_codecs_scheme \<Rightarrow> ('b, 'y) bdk_lib_scheme \<Rightarrow> path \<Rightarrow> network \<Rightarrow> device_keys \<Rightarrow>
   ('b, initialized_device) io" where
  "persist_phone L K C W data_dir network phone =
     bindM (readM (ensure_phone_is_uninitialized data_dir)) (\<lambda>_.
     bindM (write_json (device_codec C) (join_str data_dir PHONE_DEVICE_FILE)
       \<lparr>df_kind = ''phone'', df_network = network_name network, df_mnemonic = dk_mnemonic phone,
        df_vault_key_index = vault_key_index phone\<rparr>) (\<lambda>_.
     bindM (open_or_create L K C W data_dir) (\<lambda>_.
     returnM \<lparr>id_mnemonic = dk_mnemonic phone, id_vault_pubkey = xonly_to_string L (vault_pubkey phone),
       id_vault_key_index = vault_key_index phone\<rparr>)))"

definition hot_initialize ::
  "lib \<Rightarrow> key_lib \<Rightarrow> ('b, 'z) storage_codecs_scheme \<Rightarrow> ('b, 'y) bdk_lib_scheme \<Rightarrow> nat \<Rightarrow> path \<Rightarrow> network \<Rightarrow>
   ('b, initialized_device) io" where
  "hot_initialize L K C W seed_entropy data_dir network =
     bindM (liftM (validate_supported_network network)) (\<lambda>_.
     bindM (liftM (generate_for_network L K seed_entropy network)) (\<lambda>phone.
     persist_phone L K C W data_dir network phone))"

section \<open>Proposals\<close>

definition ensure_backend_network :: "blockchain \<Rightarrow> vault_config \<Rightarrow> unit result" where
  "ensure_backend_network B config =
     bind_result (config_network config) (\<lambda>expected.
     if bc_network B \<noteq> expected then Inl (Wal (Hot BackendNetwork)) else Inr ())"

definition propose_policy ::
  "lib \<Rightarrow> key_lib \<Rightarrow> ('b, 'z) ceremony_codecs_scheme \<Rightarrow> ('b, 'y) bdk_lib_scheme \<Rightarrow> blockchain \<Rightarrow> path \<Rightarrow> int \<Rightarrow> nat \<Rightarrow>
   nat \<Rightarrow> path \<Rightarrow> ('b, batch_manifest) io" where
  "propose_policy L K C W B data_dir now monthly emergency batch_dir =
     bindM (readM (load_config C data_dir)) (\<lambda>config.
     bindM (liftM (ensure_backend_network B config)) (\<lambda>_.
     bindM (liftM (bc_scan_vault B config)) (\<lambda>utxos.
     bindM (liftM (bc_scan_connectors B config)) (\<lambda>connectors.
     bindM (readM (load_device_keys L K C data_dir PHONE_DEVICE_FILE)) (\<lambda>phone.
     bindM (open_or_create L K C W data_dir) (\<lambda>_.
     build_policy_proposal_with_connectors L C config utxos connectors now
       \<lparr>pl_monthly_limit_sats = monthly, pl_emergency_access_limit_sats = emergency\<rparr> batch_dir phone))))))"

section \<open>Activation\<close>

definition load_schedule :: "('b, 'z) hot_codecs_scheme \<Rightarrow> path \<Rightarrow> 'b world \<Rightarrow> schedule result" where
  "load_schedule C data_dir w =
     bind_result (read_json (schedule_codec C) (join_str data_dir SCHEDULE_FILE) w) (\<lambda>schedule.
     if sc_version schedule \<noteq> 5 then Inl (Wal (Hot ScheduleVersion)) else Inr schedule)"

definition write_encrypted_transaction ::
  "lib \<Rightarrow> ('b, 'y) crypto_lib_scheme \<Rightarrow> ('b, 'z) hot_codecs_scheme \<Rightarrow> nat \<Rightarrow> path \<Rightarrow> 'b \<Rightarrow> nat \<Rightarrow> transaction_kind \<Rightarrow>
   psbt \<Rightarrow> ('b, unit) io" where
  "write_encrypted_transaction L Y C nonce p seed step kind psbt =
     (let txid = txid_to_string L (compute_txid L (unsigned_tx psbt)) in
      bindM (liftM (encrypt Y nonce seed (transaction_purpose step kind txid) (psbt_to_text C psbt))) (\<lambda>blob.
      write_json (enc_tx_codec C) p
        \<lparr>et_version = 3, et_step = step, et_kind = kind, et_txid = txid, et_psbt = blob\<rparr>))"

definition write_encrypted_emergency_transaction ::
  "lib \<Rightarrow> ('b, 'y) crypto_lib_scheme \<Rightarrow> ('b, 'z) hot_codecs_scheme \<Rightarrow> nat \<Rightarrow> path \<Rightarrow> 'b \<Rightarrow>
   emergency_transaction_kind \<Rightarrow> psbt \<Rightarrow> ('b, unit) io" where
  "write_encrypted_emergency_transaction L Y C nonce p seed kind psbt =
     (let txid = txid_to_string L (compute_txid L (unsigned_tx psbt)) in
      bindM (liftM (encrypt Y nonce seed (emergency_transaction_purpose kind txid) (psbt_to_text C psbt))) (\<lambda>blob.
      write_json (enc_emergency_codec C) p
        \<lparr>ee_version = 2, ee_kind = kind, ee_txid = txid, ee_psbt = blob\<rparr>))"

definition stage_allowance ::
  "lib \<Rightarrow> ('b, 'y) crypto_lib_scheme \<Rightarrow> ('b, 'z) hot_codecs_scheme \<Rightarrow> nat \<Rightarrow> path \<Rightarrow> path \<Rightarrow> path \<Rightarrow> 'b \<Rightarrow>
   allowance_step \<Rightarrow> ('b, schedule_entry) io" where
  "stage_allowance L Y C nonce data_dir batch_dir epoch_dir seed a =
     bindM (readM (read_psbt C (join_str batch_dir (psbt_file (authorization a))))) (\<lambda>psbt.
     let p = encrypted_transaction_path epoch_dir (al_step a) Authorization in
     bindM (write_encrypted_transaction L Y C nonce p seed (al_step a) Authorization psbt) (\<lambda>_.
     bindM (liftM (relative_to data_dir p)) (\<lambda>file.
     returnM \<lparr>se_step = al_step a, se_hot_address = al_hot_address a, se_authorization_file = file,
       se_authorization_txid = txid_to_string L (compute_txid L (unsigned_tx psbt)),
       se_connector = connector a, se_next_connector = next_connector a\<rparr>)))"

fun stage_allowances ::
  "lib \<Rightarrow> ('b, 'y) crypto_lib_scheme \<Rightarrow> ('b, 'z) hot_codecs_scheme \<Rightarrow> (nat \<Rightarrow> nat) \<Rightarrow> path \<Rightarrow> path \<Rightarrow> path \<Rightarrow> 'b \<Rightarrow>
   allowance_step list \<Rightarrow> ('b, schedule_entry list) io"
where
  "stage_allowances L Y C nonces data_dir batch_dir epoch_dir seed [] = returnM []"
| "stage_allowances L Y C nonces data_dir batch_dir epoch_dir seed (a # as) =
     bindM (stage_allowance L Y C (nonces (al_step a)) data_dir batch_dir epoch_dir seed a) (\<lambda>e.
     bindM (stage_allowances L Y C nonces data_dir batch_dir epoch_dir seed as) (\<lambda>es.
     returnM (e # es)))"

definition stage_emergency ::
  "lib \<Rightarrow> ('b, 'y) crypto_lib_scheme \<Rightarrow> ('b, 'z) hot_codecs_scheme \<Rightarrow> nat \<times> nat \<Rightarrow> path \<Rightarrow> path \<Rightarrow> path \<Rightarrow> 'b \<Rightarrow>
   emergency_access_policy \<Rightarrow> ('b, emergency_access_schedule) io" where
  "stage_emergency L Y C nonces data_dir batch_dir epoch_dir seed e =
     bindM (readM (read_psbt C (join_str batch_dir (psbt_file (trigger e))))) (\<lambda>tp.
     bindM (readM (read_psbt C (join_str batch_dir (psbt_file (withdrawal e))))) (\<lambda>wp.
     let ttxid = compute_txid L (unsigned_tx tp); wtxid = compute_txid L (unsigned_tx wp);
         trigger_path = emergency_transaction_path L epoch_dir Trigger ttxid;
         withdrawal_path = emergency_transaction_path L epoch_dir Withdrawal wtxid in
     bindM (write_encrypted_emergency_transaction L Y C (fst nonces) trigger_path seed Trigger tp) (\<lambda>_.
     bindM (write_encrypted_emergency_transaction L Y C (snd nonces) withdrawal_path seed Withdrawal wp) (\<lambda>_.
     bindM (liftM (relative_to data_dir trigger_path)) (\<lambda>tfile.
     bindM (liftM (relative_to data_dir withdrawal_path)) (\<lambda>wfile.
     returnM \<lparr>es_amount_sats = amount_sats e, es_delay_seconds = em_delay_seconds e,
       es_hot_address = em_hot_address e,
       es_trigger_file = tfile, es_trigger_txid = txid_to_string L ttxid,
       es_withdrawal_file = wfile, es_withdrawal_txid = txid_to_string L wtxid,
       es_trigger_connector = trigger_connector e, es_withdrawal_connector = withdrawal_connector e\<rparr>))))))"

definition manifest_schedule ::
  "lib \<Rightarrow> batch_manifest \<Rightarrow> txid \<Rightarrow> schedule_entry list \<Rightarrow> emergency_access_schedule option \<Rightarrow> schedule" where
  "manifest_schedule L m rollover_txid entries emergency =
     \<lparr>sc_version = 5, sc_rollover_txid = txid_to_string L rollover_txid,
      sc_controller_descriptor = bm_controller_descriptor m, sc_controller_address = bm_controller_address m,
      sc_connector_value_sats = bm_connector_value_sats m, sc_monthly_limit_sats = monthly_limit_sats m,
      sc_monthly_delay_seconds = MONTHLY_ALLOWANCE_DELAY_SECONDS,
      sc_emergency_access_limit_sats = emergency_access_limit_sats m,
      sc_entries = entries, sc_emergency_access = emergency\<rparr>"

definition previous_epoch :: "lib \<Rightarrow> ('b, 'z) hot_codecs_scheme \<Rightarrow> path \<Rightarrow> 'b world \<Rightarrow> txid option result" where
  "previous_epoch L C data_dir w =
     (if file_at w (join_str data_dir SCHEDULE_FILE) \<noteq> None
      then bind_result (load_schedule C data_dir w) (\<lambda>s.
           bind_result (ok_or (txid_from_str L (sc_rollover_txid s)) (Lib TxidParseError)) (\<lambda>txid.
           Inr (Some txid)))
      else Inr None)"

record activation_nonces =
  an_policy :: nat
  an_steps :: "nat \<Rightarrow> nat"
  an_emergency :: "nat \<times> nat"

definition stage_epoch ::
  "lib \<Rightarrow> ('b, 'y) crypto_lib_scheme \<Rightarrow> ('b, 'z) hot_codecs_scheme \<Rightarrow> activation_nonces \<Rightarrow> path \<Rightarrow> path \<Rightarrow> 'b \<Rightarrow>
   batch_manifest \<Rightarrow> transaction \<Rightarrow> ('b, schedule) io" where
  \<comment> \<open>everything an activation writes before the rollover is broadcast\<close>
  "stage_epoch L Y C nonces data_dir batch_dir seed m rollover_tx =
     (let txid = compute_txid L rollover_tx; epoch_dir = epoch_path L data_dir txid in
      bindM (readM (package_from_batch C batch_dir)) (\<lambda>package.
      bindM (liftM (ok_or (to_json (package_codec C) package) (Ext JsonError))) (\<lambda>bytes.
      bindM (liftM (encrypt Y (an_policy nonces) seed (activation_purpose (txid_to_string L txid)) bytes)) (\<lambda>blob.
      bindM (write_json (blob_codec C) (join_str epoch_dir ''approved-policy.json'') blob) (\<lambda>_.
      bindM (write_json (tx_codec C) (join_str epoch_dir ''rollover.json'') rollover_tx) (\<lambda>_.
      bindM (stage_allowances L Y C (an_steps nonces) data_dir batch_dir epoch_dir seed (allowances m)) (\<lambda>entries.
      bindM (case emergency_access m of None \<Rightarrow> returnM None
             | Some e \<Rightarrow> bindM (stage_emergency L Y C (an_emergency nonces) data_dir batch_dir epoch_dir seed e)
                          (\<lambda>x. returnM (Some x))) (\<lambda>emergency.
      let schedule = manifest_schedule L m txid entries emergency in
      bindM (write_json (schedule_codec C) (join_str epoch_dir ''schedule.json'') schedule) (\<lambda>_.
      returnM schedule)))))))))"

definition switch_epoch ::
  "lib \<Rightarrow> ('b, 'z) hot_codecs_scheme \<Rightarrow> path \<Rightarrow> batch_manifest \<Rightarrow> txid option \<Rightarrow> txid \<Rightarrow> schedule \<Rightarrow> ('b, schedule) io" where
  \<comment> \<open>everything an activation writes after the rollover was accepted\<close>
  "switch_epoch L C data_dir m previous txid schedule =
     bindM (case previous of
              Some prev \<Rightarrow> if prev \<noteq> txid
                then contextM (Wal (Hot ArchiveFailed))
                       (write_json (bool_codec C) (join_str (epoch_path L data_dir prev) ''activated.json'') True)
                else returnM ()
            | None \<Rightarrow> returnM ()) (\<lambda>_.
     bindM (contextM (Wal (Hot ScheduleFailed))
              (write_json (schedule_codec C) (join_str data_dir SCHEDULE_FILE) schedule)) (\<lambda>_.
     bindM (contextM (Wal (Hot LimitsFailed))
              (set_policy_limits C data_dir (monthly_limit_sats m) (emergency_access_limit_sats m))) (\<lambda>_.
     bindM (write_json (bool_codec C) (join_str (epoch_path L data_dir txid) ''activated.json'') True) (\<lambda>_.
     returnM schedule))))"

definition activate_policy ::
  "lib \<Rightarrow> key_lib \<Rightarrow> ('b, 'y) crypto_lib_scheme \<Rightarrow> ('b, 'z) hot_codecs_scheme \<Rightarrow> activation_nonces \<Rightarrow> blockchain \<Rightarrow>
   path \<Rightarrow> path \<Rightarrow> ('b, schedule) io" where
  "activate_policy L K Y C nonces B data_dir batch_dir =
     bindM (readM (load_config C data_dir)) (\<lambda>config.
     bindM (liftM (ensure_backend_network B config)) (\<lambda>_.
     bindM (readM (load_manifest C batch_dir)) (\<lambda>m.
     bindM (readM (validate_approved_batch L C config m batch_dir)) (\<lambda>_.
     bindM (readM (load_device_keys L K C data_dir PHONE_DEVICE_FILE)) (\<lambda>phone.
     bindM (readM (read_psbt C (join_str batch_dir (psbt_file (rollover m))))) (\<lambda>psbt.
     bindM (liftM (finalize_vault_psbt L psbt)) (\<lambda>rollover_tx.
     let txid = compute_txid L rollover_tx in
     bindM (readM (previous_epoch L C data_dir)) (\<lambda>previous.
     bindM (readM (\<lambda>w. if path_exists w (join_str (epoch_path L data_dir txid) ''activated.json'')
                        \<and> previous \<noteq> None \<and> previous \<noteq> Some txid
                       then Inl (Wal (Hot EpochSuperseded)) else Inr ())) (\<lambda>_.
     bindM (stage_epoch L Y C nonces data_dir batch_dir (seed_bytes Y (dk_seed phone)) m rollover_tx) (\<lambda>schedule.
     bindM (contextM (Wal (Hot (BroadcastFailed RolloverSent))) (broadcast B rollover_tx)) (\<lambda>broadcast_txid.
     if broadcast_txid \<noteq> txid then failM (Wal (Hot (UnexpectedTxid RolloverSent)))
     else switch_epoch L C data_dir m previous txid schedule)))))))))))"

section \<open>Broadcasting the schedule\<close>

definition ensure_connector_input :: "psbt \<Rightarrow> connector_state \<Rightarrow> unit result" where
  "ensure_connector_input psbt c =
     (if map_option previous_output (get (tx_input (unsigned_tx psbt)) 1) \<noteq> Some (cs_outpoint c)
         \<or> map_option txo_value (Option.bind (get (psbt_inputs psbt) 1) witness_utxo) \<noteq> Some (cs_value_sats c)
      then Inl (Wal (Hot ControllerStateMismatch)) else Inr ())"

definition validate_schedule_controller :: "lib \<Rightarrow> schedule \<Rightarrow> controller_policy \<Rightarrow> unit result" where
  "validate_schedule_controller L s controller =
     (if sc_controller_descriptor s \<noteq> controller_descriptor_string L controller
         \<or> sc_controller_address s \<noteq> addr_text (cp_address controller)
         \<or> sc_connector_value_sats s \<noteq> CONNECTOR_VALUE_SATS
      then Inl (Wal (Hot ScheduleController)) else Inr ())"

definition open_scheduled_psbt ::
  "lib \<Rightarrow> ('b, 'y) crypto_lib_scheme \<Rightarrow> ('b, 'z) hot_codecs_scheme \<Rightarrow> 'b \<Rightarrow> string \<Rightarrow> string \<Rightarrow> 'b encrypted_blob \<Rightarrow>
   psbt result" where
  "open_scheduled_psbt L Y C seed purpose txid blob =
     bind_result (decrypt Y seed purpose blob) (\<lambda>plaintext.
     bind_result (ok_or (utf8_string C plaintext) (Ext Utf8Error)) (\<lambda>_.
     bind_result (ok_or (psbt_from_text C plaintext) (Lib PsbtParseError)) (\<lambda>psbt.
     if txid_to_string L (compute_txid L (unsigned_tx psbt)) \<noteq> txid
     then Inl (Wal (Hot DecryptedTxidMismatch)) else Inr psbt)))"

definition authorize_scheduled_psbt ::
  "lib \<Rightarrow> schedule \<Rightarrow> vault_config \<Rightarrow> device_keys \<Rightarrow> connector_state \<Rightarrow> psbt \<Rightarrow> transaction result" where
  "authorize_scheduled_psbt L s config phone c psbt =
     bind_result (ensure_connector_input psbt c) (\<lambda>_.
     bind_result (ceremony_controller_policy L config) (\<lambda>controller.
     bind_result (validate_schedule_controller L s controller) (\<lambda>_.
     bind_result (sign_controller_psbt_inputs L psbt controller ControllerPhone (vault_keypair phone) [1]) (\<lambda>signed.
     finalize_vault_psbt L signed))))"

definition revoke_connector_to_phone ::
  "lib \<Rightarrow> key_lib \<Rightarrow> ('b, 'z) storage_codecs_scheme \<Rightarrow> ('b, 'y) bdk_lib_scheme \<Rightarrow> blockchain \<Rightarrow> path \<Rightarrow> vault_config \<Rightarrow>
   device_keys \<Rightarrow> connector_state \<Rightarrow> ('b, txid) io" where
  "revoke_connector_to_phone L K C W B data_dir config phone c =
     bindM (liftM (ceremony_controller_policy L config)) (\<lambda>controller.
     bindM (open_or_create L K C W data_dir) (\<lambda>_.
     bindM next_change_address (\<lambda>destination.
     let u = \<lparr>utxo_outpoint = cs_outpoint c,
              utxo_txout = \<lparr>txo_value = cs_value_sats c, script_pubkey = addr_script (cp_address controller)\<rparr>,
              confirmation_height = 0\<rparr> in
     bindM (liftM (build_controller_revocation_psbt L [u] (addr_script destination) DEFAULT_FEE_RATE_SAT_VB
                     controller)) (\<lambda>(psbt, _).
     bindM (liftM (sign_controller_psbt_inputs L psbt controller ControllerPhone (vault_keypair phone) [0])) (\<lambda>signed.
     bindM (liftM (finalize_vault_psbt L signed)) (\<lambda>tx.
     bindM (contextM (Wal (Hot (BroadcastFailed RevocationSent))) (broadcast B tx)) (\<lambda>broadcast_txid.
     if broadcast_txid \<noteq> compute_txid L tx then failM (Wal (Hot (UnexpectedTxid RevocationSent)))
     else returnM (compute_txid L tx))))))))"

definition emergency_artifact ::
  "emergency_access_schedule \<Rightarrow> emergency_transaction_kind \<Rightarrow> (string \<times> string \<times> connector_state) result" where
  "emergency_artifact e kind = (case kind of
       Trigger \<Rightarrow> Inr (es_trigger_file e, es_trigger_txid e, es_trigger_connector e)
     | Withdrawal \<Rightarrow> Inr (es_withdrawal_file e, es_withdrawal_txid e, es_withdrawal_connector e)
     | Cancellation \<Rightarrow> Inl (Wal (Hot DynamicCancellation)))"

definition broadcast_emergency_transaction ::
  "lib \<Rightarrow> ('b, 'y) crypto_lib_scheme \<Rightarrow> ('b, 'z) hot_codecs_scheme \<Rightarrow> blockchain \<Rightarrow> path \<Rightarrow> schedule \<Rightarrow> vault_config \<Rightarrow>
   device_keys \<Rightarrow> emergency_transaction_kind \<Rightarrow> ('b, txid) io" where
  "broadcast_emergency_transaction L Y C B data_dir s config phone kind =
     bindM (liftM (ok_or (sc_emergency_access s) (Wal (Hot EmergencyDisabled)))) (\<lambda>e.
     bindM (liftM (emergency_artifact e kind)) (\<lambda>(file, expected_txid, c).
     bindM (readM (read_json (enc_emergency_codec C) (join_str data_dir file))) (\<lambda>artifact.
     if ee_version artifact \<noteq> 2 \<or> ee_kind artifact \<noteq> kind \<or> ee_txid artifact \<noteq> expected_txid
     then failM (Wal (Hot ActionMetadataMismatch))
     else
      bindM (liftM (open_scheduled_psbt L Y C (seed_bytes Y (dk_seed phone))
               (emergency_transaction_purpose kind (ee_txid artifact)) (ee_txid artifact) (ee_psbt artifact))) (\<lambda>psbt.
      bindM (liftM (authorize_scheduled_psbt L s config phone c psbt)) (\<lambda>tx.
      bindM (contextM (Wal (Hot (BroadcastFailed EmergencySent))) (broadcast B tx)) (\<lambda>broadcast_txid.
      if broadcast_txid \<noteq> compute_txid L (unsigned_tx psbt) then failM (Wal (Hot (UnexpectedTxid EmergencySent)))
      else returnM (compute_txid L (unsigned_tx psbt))))))))"

definition initiate_emergency_access ::
  "lib \<Rightarrow> key_lib \<Rightarrow> ('b, 'y) crypto_lib_scheme \<Rightarrow> ('b, 'z) hot_codecs_scheme \<Rightarrow> blockchain \<Rightarrow> path \<Rightarrow> ('b, txid) io" where
  "initiate_emergency_access L K Y C B data_dir =
     bindM (readM (load_schedule C data_dir)) (\<lambda>s.
     bindM (liftM (ok_or (sc_emergency_access s) (Wal (Hot EmergencyDisabled)))) (\<lambda>_.
     bindM (readM (load_config C data_dir)) (\<lambda>config.
     bindM (liftM (ensure_backend_network B config)) (\<lambda>_.
     bindM (readM (load_device_keys L K C data_dir PHONE_DEVICE_FILE)) (\<lambda>phone.
     broadcast_emergency_transaction L Y C B data_dir s config phone Trigger)))))"

definition withdraw_emergency_access ::
  "lib \<Rightarrow> key_lib \<Rightarrow> ('b, 'y) crypto_lib_scheme \<Rightarrow> ('b, 'z) hot_codecs_scheme \<Rightarrow> blockchain \<Rightarrow> path \<Rightarrow> ('b, txid) io" where
  "withdraw_emergency_access L K Y C B data_dir =
     bindM (readM (load_schedule C data_dir)) (\<lambda>s.
     bindM (readM (load_config C data_dir)) (\<lambda>config.
     bindM (liftM (ensure_backend_network B config)) (\<lambda>_.
     bindM (readM (load_device_keys L K C data_dir PHONE_DEVICE_FILE)) (\<lambda>phone.
     broadcast_emergency_transaction L Y C B data_dir s config phone Withdrawal))))"

definition cancel_emergency_access ::
  "lib \<Rightarrow> key_lib \<Rightarrow> ('b, 'z) hot_codecs_scheme \<Rightarrow> ('b, 'y) bdk_lib_scheme \<Rightarrow> blockchain \<Rightarrow> path \<Rightarrow> ('b, txid) io" where
  "cancel_emergency_access L K C W B data_dir =
     bindM (readM (load_schedule C data_dir)) (\<lambda>s.
     bindM (readM (load_config C data_dir)) (\<lambda>config.
     bindM (liftM (ensure_backend_network B config)) (\<lambda>_.
     bindM (readM (load_device_keys L K C data_dir PHONE_DEVICE_FILE)) (\<lambda>phone.
     bindM (liftM (ok_or (sc_emergency_access s) (Wal (Hot EmergencyDisabled)))) (\<lambda>e.
     revoke_connector_to_phone L K C W B data_dir config phone (es_withdrawal_connector e))))))"

definition broadcast_monthly ::
  "lib \<Rightarrow> key_lib \<Rightarrow> ('b, 'y) crypto_lib_scheme \<Rightarrow> ('b, 'z) hot_codecs_scheme \<Rightarrow> ('b, 'x) bdk_lib_scheme \<Rightarrow> blockchain \<Rightarrow>
   path \<Rightarrow> nat \<Rightarrow> transaction_kind \<Rightarrow> ('b, txid) io" where
  "broadcast_monthly L K Y C W B data_dir step kind =
     bindM (readM (load_schedule C data_dir)) (\<lambda>s.
     bindM (liftM (ok_or (find (\<lambda>e. se_step e = step) (sc_entries s)) (Wal (Hot StepMissing)))) (\<lambda>entry.
     bindM (readM (load_config C data_dir)) (\<lambda>config.
     bindM (liftM (ensure_backend_network B config)) (\<lambda>_.
     bindM (readM (load_device_keys L K C data_dir PHONE_DEVICE_FILE)) (\<lambda>phone.
     if kind = Revocation then revoke_connector_to_phone L K C W B data_dir config phone (se_connector entry)
     else
      bindM (readM (read_json (enc_tx_codec C) (join_str data_dir (se_authorization_file entry)))) (\<lambda>artifact.
      if et_version artifact \<noteq> 3 \<or> et_step artifact \<noteq> step \<or> et_kind artifact \<noteq> kind
         \<or> et_txid artifact \<noteq> se_authorization_txid entry
      then failM (Wal (Hot ActionMetadataMismatch))
      else
       bindM (liftM (open_scheduled_psbt L Y C (seed_bytes Y (dk_seed phone))
                (transaction_purpose step kind (et_txid artifact)) (et_txid artifact) (et_psbt artifact))) (\<lambda>psbt.
       bindM (liftM (authorize_scheduled_psbt L s config phone (se_connector entry) psbt)) (\<lambda>tx.
       contextM (Wal (Hot (BroadcastFailed AuthorizationSent))) (broadcast B tx)))))))))"

definition apply_soft_limit ::
  "lib \<Rightarrow> key_lib \<Rightarrow> ('b, 'z) hot_codecs_scheme \<Rightarrow> ('b, 'x) bdk_lib_scheme \<Rightarrow> ('b, unit) io \<Rightarrow> blockchain \<Rightarrow> path \<Rightarrow> nat \<Rightarrow>
   nat \<Rightarrow> ('b, txid option) io" where
  \<comment> \<open>the fifth argument is the backend's \<^verbatim>\<open>sync_hot_wallet\<close>\<close>
  "apply_soft_limit L K C W sync B data_dir step soft =
     bindM (readM (load_schedule C data_dir)) (\<lambda>s.
     bindM (readM (load_config C data_dir)) (\<lambda>config.
     bindM (liftM (ensure_backend_network B config)) (\<lambda>_.
     bindM (liftM (ok_or (find (\<lambda>e. se_step e = step) (sc_entries s)) (Wal (Hot StepMissing)))) (\<lambda>entry.
     bindM (liftM (ok_or (txid_from_str L (se_authorization_txid entry)) (Lib TxidParseError))) (\<lambda>txid.
     bindM (open_or_create L K C W data_dir) (\<lambda>_.
     bindM sync (\<lambda>_.
     bindM (liftM (config_network config)) (\<lambda>network.
     bindM (liftM (ok_or (address_from_str L (vc_vault_address config) network) (Lib AddressError))) (\<lambda>vault.
     bindM (build_soft_limit_return W (OutPoint txid 0) (sc_monthly_limit_sats s) soft (addr_script vault)) (\<lambda>t.
     case t of None \<Rightarrow> returnM None
     | Some tx \<Rightarrow> bindM (contextM (Wal (Hot (BroadcastFailed SoftLimitSent))) (broadcast B tx)) (\<lambda>txid. returnM (Some txid))))))))))))"

section \<open>Restoring, recovering and sweeping\<close>

definition restore_phone ::
  "lib \<Rightarrow> key_lib \<Rightarrow> ('b, 'z) storage_codecs_scheme \<Rightarrow> ('b, 'y) bdk_lib_scheme \<Rightarrow> path \<Rightarrow> phone_recovery_package \<Rightarrow>
   ('b, string) io" where
  "restore_phone L K C W data_dir package =
     (if prp_version package \<noteq> 2 \<or> prp_kind package \<noteq> ''phone-recovery''
      then failM (Wal (Hot PhonePackageMismatch)) else
      bindM (readM (\<lambda>w. if path_exists w (join_str data_dir PHONE_DEVICE_FILE)
                        then Inl (Wal (Hot PhoneKeyExists)) else Inr ())) (\<lambda>_.
      bindM (readM (load_config C data_dir)) (\<lambda>config.
      bindM (liftM (config_network config)) (\<lambda>network.
      bindM (liftM (parse_for_network_at_index L K (prp_phone_mnemonic package) network
                      (prp_phone_vault_key_index package))) (\<lambda>phone.
      if xonly_to_string L (vault_pubkey phone) \<noteq> prp_phone_vault_pubkey package
         \<or> prp_phone_vault_pubkey package \<noteq> phone_vault_pubkey config
         \<or> prp_vault_descriptor package \<noteq> vc_vault_descriptor config
         \<or> prp_vault_address package \<noteq> vc_vault_address config
      then failM (Wal (Hot PhonePackageMismatch)) else
      bindM (write_json (device_codec C) (join_str data_dir PHONE_DEVICE_FILE)
        \<lparr>df_kind = ''phone'', df_network = vc_network config, df_mnemonic = prp_phone_mnemonic package,
         df_vault_key_index = prp_phone_vault_key_index package\<rparr>) (\<lambda>_.
      bindM (open_or_create L K C W data_dir) (\<lambda>_.
      bindM request_full_scan (\<lambda>_.
      returnM (prp_phone_mnemonic package)))))))))"

definition hot_recover ::
  "lib \<Rightarrow> key_lib \<Rightarrow> ('b, 'z) storage_codecs_scheme \<Rightarrow> path \<Rightarrow> vault_config \<Rightarrow> vault_utxo list \<Rightarrow> nat \<Rightarrow>
   address \<Rightarrow> 'b world \<Rightarrow> (transaction \<times> sweep_result) result" where
  "hot_recover L K C data_dir config utxos tip_height destination w =
     bind_result (prepare_sweep L config utxos tip_height SweepPhoneRecovery destination) (\<lambda>plan.
     bind_result (load_device_keys L K C data_dir PHONE_DEVICE_FILE w) (\<lambda>phone.
     sign_recovery_sweep L plan SweepPhoneRecovery phone))"

definition hot_create_cooperative_sweep ::
  "lib \<Rightarrow> key_lib \<Rightarrow> ('b, 'z) ceremony_codecs_scheme \<Rightarrow> blockchain \<Rightarrow> path \<Rightarrow> address \<Rightarrow> 'b world \<Rightarrow>
   'b cooperative_sweep_package result" where
  "hot_create_cooperative_sweep L K C B data_dir destination w =
     bind_result (load_config C data_dir w) (\<lambda>config.
     bind_result (ensure_backend_network B config) (\<lambda>_.
     bind_result (bc_scan_vault B config) (\<lambda>utxos.
     bind_result (load_device_keys L K C data_dir PHONE_DEVICE_FILE w) (\<lambda>phone.
     create_cooperative_sweep L C config utxos destination phone))))"

definition broadcast_cooperative_sweep_for_config ::
  "lib \<Rightarrow> ('b, 'z) ceremony_codecs_scheme \<Rightarrow> blockchain \<Rightarrow> vault_config \<Rightarrow> 'b cooperative_sweep_package \<Rightarrow>
   ('b, sweep_result) io" where
  "broadcast_cooperative_sweep_for_config L C B config package =
     bindM (liftM (finalize_cooperative_sweep L C config package)) (\<lambda>(tx, result).
     bindM (contextM (Wal (Hot (BroadcastFailed CooperativeSweepSent))) (broadcast B tx)) (\<lambda>txid.
     if txid \<noteq> sr_txid result then failM (Wal (Hot (UnexpectedTxid CooperativeSweepSent))) else returnM result))"

definition broadcast_cooperative_sweep ::
  "lib \<Rightarrow> ('b, 'z) ceremony_codecs_scheme \<Rightarrow> blockchain \<Rightarrow> path \<Rightarrow> 'b cooperative_sweep_package \<Rightarrow> ('b, sweep_result) io" where
  "broadcast_cooperative_sweep L C B data_dir package =
     bindM (readM (load_config C data_dir)) (\<lambda>config.
     bindM (liftM (ensure_backend_network B config)) (\<lambda>_.
     broadcast_cooperative_sweep_for_config L C B config package))"

definition validate_policy_package :: "'b policy_package \<Rightarrow> unit result" where
  "validate_policy_package package =
     (if is_supported_policy_package package then Inr () else Inl (Pkg UnsupportedPackage))"

end
