(* ===== verification/Demo_Lib.thy ===== *)
theory Demo_Lib
  imports Hot_Wallet "HOL-Library.Code_Target_Nat"
begin

text \<open>
  One concrete instance of every parameter of the development: a small executable stand-in for
  the Bitcoin, key, OpenPGP and JSON libraries, on which the hypotheses about those libraries are
  proved and on which the definitions are evaluated. It models no code of the repository; it
  shows that the hypotheses can hold together.
\<close>

section \<open>Bitcoin\<close>

definition demo_hash :: "nat list \<Rightarrow> nat" where
  "demo_hash xs = foldl (\<lambda>acc x. (31 * acc + x + 1) mod 65521) 7 xs"

definition demo_item :: "script_item \<Rightarrow> bytes" where
  "demo_item it = (case it of
       PushXOnlyKey k \<Rightarrow> [32, of_nat k]
     | PushInt n \<Rightarrow> [3, of_nat n, of_nat (n div 256), 0]
     | PushOpcode oc \<Rightarrow> [case oc of OP_CHECKSIG \<Rightarrow> 172 | OP_CHECKSIGADD \<Rightarrow> 186 | OP_CSV \<Rightarrow> 178
                          | OP_NUMEQUAL \<Rightarrow> 156 | OP_VERIFY \<Rightarrow> 105])"

definition demo_encode :: "script_item list \<Rightarrow> script" where
  "demo_encode its = concat (map demo_item its)"

definition demo_txid :: "transaction \<Rightarrow> nat" where
  "demo_txid tx = demo_hash
     (concat (map (\<lambda>i. [op_txid (previous_output i), op_vout (previous_output i), tx_sequence i]) (tx_input tx))
      @ map txo_value (tx_output tx))"

definition demo_vsize :: "transaction \<Rightarrow> nat" where
  "demo_vsize tx = 11 + sum_list (map (\<lambda>i. 41 + length (script_sig i)
       + sum_list (map length (tx_witness i)) div 4) (tx_input tx))
     + sum_list (map (\<lambda>out. 9 + length (script_pubkey out)) (tx_output tx))"

fun demo_digits :: "nat \<Rightarrow> string \<Rightarrow> nat option" where
  "demo_digits acc [] = Some acc"
| "demo_digits acc (c # cs) =
     (let d = of_char c in if 48 \<le> d \<and> d \<le> 57 then demo_digits (10 * acc + (d - 48)) cs else None)"

definition demo_leaves :: "(nat \<times> script) list" where
  "demo_leaves =
     [(1, demo_encode [PushXOnlyKey 7, PushOpcode OP_CHECKSIG, PushXOnlyKey 8, PushOpcode OP_CHECKSIGADD,
           PushInt 2, PushOpcode OP_NUMEQUAL]),
      (2, demo_encode [PushInt 61200, PushOpcode OP_CSV, PushOpcode OP_VERIFY, PushXOnlyKey 7, PushOpcode OP_CHECKSIG]),
      (2, demo_encode [PushInt 65535, PushOpcode OP_CSV, PushOpcode OP_VERIFY, PushXOnlyKey 8, PushOpcode OP_CHECKSIG]),
      (1, demo_encode [PushXOnlyKey 7, PushOpcode OP_CHECKSIG]),
      (1, demo_encode [PushXOnlyKey 8, PushOpcode OP_CHECKSIG])]"

definition demo_leaf_hash :: "script \<Rightarrow> nat" where
  "demo_leaf_hash s = demo_hash (map unat s)"

definition demo_blank_input :: psbt_input where
  "demo_blank_input = \<lparr>witness_utxo = None, sighash_type = None, tap_key_origins = [],
     tap_script_sigs = [], input_rest = 0\<rparr>"

definition demo_from_unsigned :: "transaction \<Rightarrow> psbt option" where
  "demo_from_unsigned tx = (if unsigned tx
     then Some \<lparr>unsigned_tx = tx, psbt_inputs = map (\<lambda>_. demo_blank_input) (tx_input tx), psbt_rest = 0\<rparr>
     else None)"

definition demo_origins :: "(xonly \<times> leaf_hash list) list" where
  "demo_origins = (let hs = map (\<lambda>(_, s). demo_leaf_hash s) demo_leaves in [(7, hs), (8, hs)])"

definition demo_update_input :: "psbt \<Rightarrow> nat \<Rightarrow> descriptor \<Rightarrow> psbt option" where
  "demo_update_input p i d = (if i < length (psbt_inputs p)
     then Some (p\<lparr>psbt_inputs := (psbt_inputs p)[i := (psbt_inputs p ! i)\<lparr>tap_key_origins := demo_origins\<rparr>]\<rparr>)
     else None)"

definition demo_lib :: lib where
  "demo_lib = \<lparr>
     compute_txid = demo_txid,
     txid_to_string = show_nat,
     txid_from_str = demo_digits 0,
     vsize = demo_vsize,
     minimal_non_dust = (\<lambda>_. 330),
     script_encode = demo_encode,
     from_seconds_ceil = (\<lambda>s. if (s + 511) div 512 < 65536 then Some (4194304 + (s + 511) div 512) else None),
     xonly_to_string = show_nat,
     xonly_from_str = demo_digits 0,
     address_from_str = (\<lambda>s n. Some \<lparr>addr_text = s, addr_script = [81, of_nat (length s)]\<rparr>),
     descriptor_from_str = (\<lambda>s. Some s),
     descriptor_to_string = (\<lambda>d. d),
     descriptor_address = (\<lambda>d n. Some \<lparr>addr_text = d, addr_script = [81, of_nat (length d)]\<rparr>),
     descriptor_definite = (\<lambda>d. Some d),
     descriptor_leaves = (\<lambda>d. Some (Some demo_leaves)),
     descriptor_control_block = (\<lambda>d s. Some [192, of_nat (length s)]),
     tapleaf_hash_of = demo_leaf_hash,
     tapnode_join = (\<lambda>a b. demo_hash [min a b, max a b]),
     tap_tweak = (\<lambda>k h. demo_hash [k, h]),
     p2tr_tweaked = (\<lambda>k n. \<lparr>addr_text = show_nat k, addr_script = [81, of_nat k]\<rparr>),
     from_unsigned_tx = demo_from_unsigned,
     update_input = demo_update_input,
     psbt_sighash = (\<lambda>p i h. Some (TapSighash (demo_hash [demo_txid (unsigned_tx p), i, h]))),
     keypair_xonly = (\<lambda>k. k),
     sign_schnorr = (\<lambda>m k. m + k),
     verify_schnorr = (\<lambda>s m k. s = m + k),
     finalize_all = (\<lambda>p. Some p),
     finalize_input = (\<lambda>p i. Some p),
     extract_tx = (\<lambda>p. Some (unsigned_tx p))\<rparr>"

lemma demo_psbt_laws: "lib_psbt_laws demo_lib"
  by (auto simp: lib_psbt_laws_def demo_lib_def demo_from_unsigned_def demo_update_input_def
      demo_blank_input_def same_psbt_data_def nth_list_update split: if_splits)

lemma demo_sign_laws: "lib_sign_laws demo_lib"
  unfolding lib_sign_laws_def
proof (intro conjI allI impI)
  fix p q i h assume eq: "clear_sigs p = clear_sigs q"
  show "psbt_sighash demo_lib p i h = psbt_sighash demo_lib q i h"
    by (simp add: demo_lib_def clear_sigs_unsigned_tx [OF eq])
qed (simp add: demo_lib_def)

lemma demo_size_laws: "lib_size_laws demo_lib"
  unfolding lib_size_laws_def
proof (intro conjI allI impI)
  define f where "f = (\<lambda>x :: nat \<times> nat list. 41 + fst x + sum_list (snd x) div 4)"
  have shape: "demo_vsize tx = 11 + sum_list (map f (fst (tx_shape tx))) + sum_list (map ((+) 9) (snd (tx_shape tx)))" for tx
    by (simp add: demo_vsize_def tx_shape_def f_def comp_def)
  fix t u assume eq: "tx_shape t = tx_shape u"
  show "vsize demo_lib t = vsize demo_lib u"
    by (simp add: demo_lib_def shape [of t] shape [of u] eq)
qed

section \<open>Keys\<close>

definition demo_keys :: key_lib where
  "demo_keys = \<lparr>
     mnemonic_from_entropy = (\<lambda>e. Some (show_nat e)),
     mnemonic_parse = (\<lambda>s. Some s),
     mnemonic_to_seed = (\<lambda>s. length s),
     xpriv_new_master = (\<lambda>n seed. Some seed),
     derivation_path_from_str = (\<lambda>s. Some []),
     derive_priv = (\<lambda>x path. Some (x + sum_list path)),
     child_from_normal_idx = (\<lambda>i. if i < 2147483648 then Some i else None),
     keypair_from_xpriv = (\<lambda>x. x),
     xpub_to_string = show_nat,
     xpriv_to_string = show_nat,
     fingerprint_to_string = show_nat\<rparr>"

section \<open>Files\<close>

datatype demo_content =
    DPsbt psbt | DLine demo_content | DManifest batch_manifest | DConfig vault_config
  | DDevice device_file | DPublic public_device_file | DText string | DTx transaction | DBool bool
  | DSchedule schedule | DSeed nat | DSealed nat nat demo_content
  | DBlob nat string nat demo_content
  | DPackage nat string batch_manifest "(string \<times> demo_content) list"
  | DAllowance nat nat transaction_kind string demo_content
  | DEmergency nat emergency_transaction_kind string demo_content

definition demo_blob :: "demo_content encrypted_blob \<Rightarrow> demo_content" where
  "demo_blob b = DBlob (blob_version b) (blob_purpose b) (blob_nonce b) (blob_ciphertext b)"

definition demo_unblob :: "demo_content \<Rightarrow> demo_content encrypted_blob option" where
  "demo_unblob c = (case c of DBlob v purpose n x \<Rightarrow>
       Some \<lparr>blob_version = v, blob_purpose = purpose, blob_nonce = n, blob_ciphertext = x\<rparr> | _ \<Rightarrow> None)"

lemma demo_unblob_blob [simp]: "demo_unblob (demo_blob b) = Some b"
  by (simp add: demo_blob_def demo_unblob_def)

definition demo_codecs :: "demo_content hot_codecs" where
  "demo_codecs = \<lparr>
     config_codec = \<lparr>to_json = (\<lambda>x. Some (DConfig x)), from_json = (\<lambda>b. case b of DConfig x \<Rightarrow> Some x | _ \<Rightarrow> None)\<rparr>,
     device_codec = \<lparr>to_json = (\<lambda>x. Some (DDevice x)), from_json = (\<lambda>b. case b of DDevice x \<Rightarrow> Some x | _ \<Rightarrow> None)\<rparr>,
     public_device_codec = \<lparr>to_json = (\<lambda>x. Some (DPublic x)), from_json = (\<lambda>b. case b of DPublic x \<Rightarrow> Some x | _ \<Rightarrow> None)\<rparr>,
     manifest_codec = \<lparr>to_json = (\<lambda>x. Some (DManifest x)), from_json = (\<lambda>b. case b of DManifest x \<Rightarrow> Some x | _ \<Rightarrow> None)\<rparr>,
     psbt_to_text = DPsbt,
     psbt_from_text = (\<lambda>b. case b of DPsbt p \<Rightarrow> Some p | _ \<Rightarrow> None),
     with_newline = DLine,
     utf8_trim = (\<lambda>b. case b of DLine c \<Rightarrow> Some c | c \<Rightarrow> Some c),
     backup_codec = \<lparr>to_json = (\<lambda>x. None), from_json = (\<lambda>b. None)\<rparr>,
     blob_codec = \<lparr>to_json = (\<lambda>x. Some (demo_blob x)), from_json = demo_unblob\<rparr>,
     utf8_string = (\<lambda>b. case b of DText t \<Rightarrow> Some t | _ \<Rightarrow> Some []),
     schedule_codec = \<lparr>to_json = (\<lambda>x. Some (DSchedule x)), from_json = (\<lambda>b. case b of DSchedule x \<Rightarrow> Some x | _ \<Rightarrow> None)\<rparr>,
     tx_codec = \<lparr>to_json = (\<lambda>x. Some (DTx x)), from_json = (\<lambda>b. case b of DTx x \<Rightarrow> Some x | _ \<Rightarrow> None)\<rparr>,
     bool_codec = \<lparr>to_json = (\<lambda>x. Some (DBool x)), from_json = (\<lambda>b. case b of DBool x \<Rightarrow> Some x | _ \<Rightarrow> None)\<rparr>,
     package_codec = \<lparr>to_json = (\<lambda>x. Some (DPackage (pp_version x) (pp_kind x) (pp_manifest x) (pp_psbts x))),
       from_json = (\<lambda>b. case b of DPackage v k m ps \<Rightarrow>
         Some \<lparr>pp_version = v, pp_kind = k, pp_manifest = m, pp_psbts = ps\<rparr> | _ \<Rightarrow> None)\<rparr>,
     enc_tx_codec = \<lparr>to_json = (\<lambda>x. Some (DAllowance (et_version x) (et_step x) (et_kind x) (et_txid x) (demo_blob (et_psbt x)))),
       from_json = (\<lambda>b. case b of DAllowance v s k t c \<Rightarrow> map_option (\<lambda>blob.
         \<lparr>et_version = v, et_step = s, et_kind = k, et_txid = t, et_psbt = blob\<rparr>) (demo_unblob c) | _ \<Rightarrow> None)\<rparr>,
     enc_emergency_codec = \<lparr>to_json = (\<lambda>x. Some (DEmergency (ee_version x) (ee_kind x) (ee_txid x) (demo_blob (ee_psbt x)))),
       from_json = (\<lambda>b. case b of DEmergency v k t c \<Rightarrow> map_option (\<lambda>blob.
         \<lparr>ee_version = v, ee_kind = k, ee_txid = t, ee_psbt = blob\<rparr>) (demo_unblob c) | _ \<Rightarrow> None)\<rparr>\<rparr>"

definition demo_crypto :: "demo_content crypto_lib" where
  "demo_crypto = \<lparr>
     hkdf_expand = (\<lambda>salt key info. case key of DSeed n \<Rightarrow> Some (n + length info) | _ \<Rightarrow> Some 0),
     aead_seal = (\<lambda>key nonce p. Some (DSealed key nonce p)),
     aead_open = (\<lambda>key nonce c. case c of DSealed k n p \<Rightarrow> if k = key \<and> n = nonce then Some p else None | _ \<Rightarrow> None),
     seed_bytes = DSeed,
     byte_length = (\<lambda>b. 32)\<rparr>"

lemma demo_aead: "aead_correct demo_crypto"
  by (simp add: aead_correct_def demo_crypto_def)

lemma demo_codecs_ok:
  "codec_ok (config_codec demo_codecs)" "codec_ok (device_codec demo_codecs)"
  "codec_ok (public_device_codec demo_codecs)" "codec_ok (manifest_codec demo_codecs)"
  by (auto simp: codec_ok_def demo_codecs_def)

lemma demo_psbt_text_ok: "psbt_text_ok demo_codecs"
  by (auto simp: psbt_text_ok_def demo_codecs_def)

section \<open>A vault\<close>

definition demo_config :: vault_config where
  "demo_config = \<lparr>vc_version = 1, vc_network = ''regtest'', phone_vault_pubkey = ''7'',
     hww_vault_pubkey = ''8'', phone_hot_external_descriptor = '''', phone_hot_internal_descriptor = '''',
     vc_vault_descriptor = ''vault'', vc_vault_address = ''vault'',
     phone_recovery_blocks = PHONE_RECOVERY_BLOCKS, hww_recovery_blocks = HWW_RECOVERY_BLOCKS,
     vc_monthly_limit_sats = 10000, vc_emergency_access_limit_sats = 20000\<rparr>"

definition demo_device :: "nat \<Rightarrow> device_keys" where
  "demo_device k = \<lparr>dk_network = Regtest, dk_mnemonic = replicate k CHR ''w'', vault_key_index = 0,
     dk_seed = k, master_xpriv = k, vault_xpriv = k, vault_keypair = k, vault_pubkey = k\<rparr>"

definition demo_utxo :: "nat \<Rightarrow> nat \<Rightarrow> vault_utxo" where
  "demo_utxo i v = \<lparr>utxo_outpoint = OutPoint i 0,
     utxo_txout = \<lparr>txo_value = v, script_pubkey = [81, 5]\<rparr>, confirmation_height = 100\<rparr>"

definition demo_address :: "nat \<Rightarrow> address" where
  "demo_address n = \<lparr>addr_text = replicate n CHR ''h'', addr_script = [81, of_nat n]\<rparr>"

definition demo_dir :: path where "demo_dir = [Normal ''b'']"
definition demo_data :: path where "demo_data = [Normal ''d'']"

definition demo_world :: "demo_content world" where
  "demo_world = \<lparr>files = [(resolve (join_str demo_data HWW_DEVICE_FILE),
       DDevice \<lparr>df_kind = ''hww'', df_network = ''regtest'', df_mnemonic = ''wwwwwwww'', df_vault_key_index = 0\<rparr>),
       (resolve (join_str demo_data PHONE_DEVICE_FILE),
        DDevice \<lparr>df_kind = ''phone'', df_network = ''regtest'', df_mnemonic = ''wwwwwww'', df_vault_key_index = 0\<rparr>),
       (resolve (join_str demo_data CONFIG_FILE), DConfig demo_config)],
     dirs = [], faults = [],
     hot_supply = map (\<lambda>n. Inr (demo_address (10 + n))) [0..<13],
     change_supply = map (\<lambda>n. Inr (demo_address (40 + n))) [0..<4], sync_discovered = False, accepted = []\<rparr>"

definition demo_limits :: policy_limits where
  "demo_limits = \<lparr>pl_monthly_limit_sats = 10000, pl_emergency_access_limit_sats = 0\<rparr>"

definition demo_build :: "(demo_content, batch_manifest) io" where
  "demo_build = build_policy_proposal_with_connectors demo_lib demo_codecs demo_config
     [demo_utxo 1 12000] [] 0 demo_limits demo_dir (demo_device 7)"

definition demo_approve :: "(demo_content, batch_manifest) io" where
  "demo_approve = approve_policy_for_config demo_lib demo_keys demo_codecs demo_data demo_config demo_dir"

definition demo_chain :: blockchain where
  "demo_chain = \<lparr>bc_network = Regtest, bc_description = ''demo'',
     bc_chain_tip = Inr \<lparr>ct_network = Regtest, ct_height = 200, ct_median_time = 0, ct_best_block_hash = 0\<rparr>, bc_scan_vault = (\<lambda>_. Inr []),
     bc_scan_connectors = (\<lambda>_. Inr []), bc_broadcast = (\<lambda>_ tx. (True, Inr (demo_txid tx)))\<rparr>"

definition demo_nonces :: activation_nonces where
  "demo_nonces = \<lparr>an_policy = 1, an_steps = (\<lambda>step. 2 + step), an_emergency = (20, 21)\<rparr>"

definition demo_activate :: "(demo_content, schedule) io" where
  "demo_activate = activate_policy demo_lib demo_keys demo_crypto demo_codecs demo_nonces demo_chain demo_data demo_dir"

end
