(* ===== verification/Ceremony_Complete.thy ===== *)
theory Ceremony_Complete
  imports Ceremony_Build
begin

text \<open>
  Completeness of validation: every batch that \<^verbatim>\<open>build_policy_proposal_with_connectors\<close>
  writes is accepted by \<^verbatim>\<open>validate_batch\<close>, so an honest phone is never refused. Together
  with the soundness of \<open>Ceremony_Spec\<close> this makes the builder an implementation of the plan.
\<close>

section \<open>Signing leaves other inputs alone\<close>

lemma sign_leaf_inputs_other:
  "sign_leaf_inputs L h k is p = Inr q \<Longrightarrow> j \<notin> set is \<Longrightarrow> psbt_inputs q ! j = psbt_inputs p ! j"
  by (induction L h k "is" p rule: sign_leaf_inputs.induct) (auto split: if_splits)

lemma sign_vault_other:
  "sign_vault_psbt_inputs L p policy path k is = Inr q \<Longrightarrow> j \<notin> set is \<Longrightarrow>
   psbt_inputs q ! j = psbt_inputs p ! j"
  by (auto simp: sign_vault_psbt_inputs_def intro: sign_leaf_inputs_other)

definition carries :: "psbt \<Rightarrow> transaction \<Rightarrow> txout list \<Rightarrow> bool" where
  \<comment> \<open>a PSBT for the transaction and its previous outputs, whatever it is signed with\<close>
  "carries p tx prevouts \<longleftrightarrow>
     unsigned_tx p = tx \<and> length (psbt_inputs p) = length prevouts
   \<and> length (tx_input tx) = length prevouts
   \<and> (\<forall>i < length prevouts. witness_utxo (psbt_inputs p ! i) = Some (prevouts ! i))
   \<and> validate_default_sighashes p = Inr ()"

lemma describes_carries: "psbt_describes p tx prevouts \<Longrightarrow> carries p tx prevouts"
  using describes_default_sighashes by (auto simp: carries_def psbt_describes_def)

lemma carries_clear:
  assumes "carries p tx prevouts" and "clear_sigs q = clear_sigs p"
  shows "carries q tx prevouts"
  using assms clear_sigs_inputs(1) [OF assms(2)] clear_sigs_fields(1) [OF assms(2)]
    clear_sigs_unsigned_tx [OF assms(2)] clear_sigs_default_sighashes [OF assms(2)]
  by (simp add: carries_def)

lemma sign_vault_clear:
  "sign_vault_psbt_inputs L p policy path k is = Inr q \<Longrightarrow> clear_sigs q = clear_sigs p"
  by (auto simp: sign_vault_psbt_inputs_def dest: sign_leaf_inputs_clear)

lemma sign_controller_clear:
  "sign_controller_psbt_inputs L p policy path k is = Inr q \<Longrightarrow> clear_sigs q = clear_sigs p"
  by (auto simp: sign_controller_psbt_inputs_def dest: sign_leaf_inputs_clear)

lemma child_psbt:
  assumes "lib_psbt_laws L" and "create_policy_psbt L tx [pv, cv] [0] [1] policy controller = Inr p"
    and "sign_vault_psbt_inputs L p policy Cooperative k [0] = Inr q"
  shows "carries q tx [pv, cv] \<and> tap_script_sigs (psbt_inputs q ! 1) = []"
proof -
  have d: "psbt_describes p tx [pv, cv]" using create_policy_psbt_describes assms(1,2) by blast
  have "carries q tx [pv, cv]"
    using carries_clear [OF describes_carries [OF d] sign_vault_clear [OF assms(3)]] .
  moreover have "psbt_inputs q ! 1 = psbt_inputs p ! 1" using sign_vault_other [OF assms(3)] by simp
  ultimately show ?thesis using d by (auto simp: psbt_describes_def)
qed

text \<open>What \<^verbatim>\<open>validate_connector_child\<close> needs of a child transaction of a ceremony.\<close>

lemma validate_connector_child_ok:
  assumes "carries p tx [pv, pays CONNECTOR_VALUE_SATS cs]" and "tap_script_sigs (psbt_inputs p ! 1) = []"
    and "map previous_output (tx_input tx) = [vo, co]"
    and "unsigned_txid t = txid_to_string L (compute_txid L tx)"
    and "vault_input_indexes t = [0]" and "controller_input_indexes t = [1]"
    and "out_value tx + fee_sats t = txo_value pv + CONNECTOR_VALUE_SATS"
    and "txo_value pv + CONNECTOR_VALUE_SATS < u64_bound"
  shows "validate_connector_child L p pv vo co cs t = Inr ()"
proof -
  obtain x y where inp: "tx_input tx = [x, y]" "previous_output x = vo" "previous_output y = co"
    using assms(3) by (auto simp: map_eq_Cons_conv)
  have w: "witness_utxo (psbt_inputs p ! 0) = Some pv"
    "witness_utxo (psbt_inputs p ! 1) = Some (pays CONNECTOR_VALUE_SATS cs)"
    "length (psbt_inputs p) = 2" "unsigned_tx p = tx"
    using assms(1) by (auto simp: carries_def All_less_Suc)
  have s: "sum_list (map txo_value (tx_output tx)) + fee_sats t = txo_value pv + CONNECTOR_VALUE_SATS"
    using assms(7) by (simp add: out_value_def)
  then have "sum_list (map txo_value (tx_output tx)) < u64_bound" using assms(8) by simp
  then show ?thesis
    using w inp s assms(2,4-6,8)
    by (simp add: validate_connector_child_def Let_def output_sum_def checked_sum_by_eq checked_add_def
        checked_sub_def)
qed

section \<open>One allowance\<close>

lemma authorization_template_simps [simp]:
  "tx_version (authorization_template vo co l d h nx cs) = version_two"
  "tx_lock_time (authorization_template vo co l d h nx cs) = lock_time_zero"
  "tx_input (authorization_template vo co l d h nx cs) = [vault_input vo d, vault_input co sequence_rbf]"
  "tx_output (authorization_template vo co l d h None cs) = [pays l h]"
  "tx_output (authorization_template vo co l d h (Some (v, s)) cs) = [pays l h, pays v s, pays CONNECTOR_VALUE_SATS cs]"
  by (simp_all add: authorization_template_def)

lemma vault_input_simps [simp]:
  "previous_output (vault_input outp s) = outp" "tx_sequence (vault_input outp s) = s"
  "script_sig (vault_input outp s) = []" "tx_witness (vault_input outp s) = []"
  by (simp_all add: vault_input_def)

lemma authorization_fee_actual:
  assumes "lib_size_laws L" and "authorization_fee L policy controller vo limit delay hot has_next = Inr fee"
  shows "policy_fee L (authorization_template vo co limit delay hot
      (if has_next then Some (v, vault_script_of policy) else None) (controller_script_of controller))
      policy controller [0] [1] = Inr fee"
  by (rule policy_fee_shape [OF assms(1) _ _ assms(2) [unfolded authorization_fee_def]])
    (simp_all add: authorization_template_def)

lemma next_chain_value_Some:
  "next_chain_value source limit fee has_next = Some v \<Longrightarrow>
   source + CONNECTOR_VALUE_SATS < u64_bound
   \<and> source + CONNECTOR_VALUE_SATS = limit + fee + v + (if has_next then CONNECTOR_VALUE_SATS else 0)"
  by (auto simp: next_chain_value_def split: if_splits)

lemma build_allowance_step_Inr:
  assumes "build_allowance_step L C policy controller limit delay count dir phone i (Some vo, Some pv, Some conn) w
      = (Inr (a, st), w')"
  shows "\<exists>hot supply w1 fee next_value psbt signed tx.
    hot_supply w = Inr hot # supply \<and> w1 = w\<lparr>hot_supply := supply\<rparr>
    \<and> authorization_fee L policy controller vo limit delay (addr_script hot) (i + 1 < count) = Inr fee
    \<and> next_chain_value (txo_value pv) limit fee (i + 1 < count) = Some next_value
    \<and> (if i + 1 < count then minimal_non_dust L (vault_script_of policy) \<le> next_value else next_value = 0)
    \<and> tx = authorization_template vo (cs_outpoint conn) limit delay (addr_script hot)
        (if i + 1 < count then Some (next_value, vault_script_of policy) else None) (controller_script_of controller)
    \<and> create_policy_psbt L tx [pv, pays CONNECTOR_VALUE_SATS (controller_script_of controller)] [0] [1]
        policy controller = Inr psbt
    \<and> sign_vault_psbt_inputs L psbt policy Cooperative (vault_keypair phone) [0] = Inr signed
    \<and> write_psbt C (join_str dir (authorization_file (i + 1))) signed w1 = (Inr (), w')
    \<and> i + 1 < 256
    \<and> a = \<lparr>al_step = i + 1, al_delay_seconds = MONTHLY_ALLOWANCE_DELAY_SECONDS,
         al_delay_sequence = delay, chain_value_sats = txo_value pv,
         al_hot_address = addr_text hot, connector = conn,
         next_connector = (if i + 1 < count then Some \<lparr>cs_outpoint = OutPoint (compute_txid L tx) 2,
            cs_value_sats = CONNECTOR_VALUE_SATS\<rparr> else None),
         authorization = \<lparr>psbt_file = authorization_file (i + 1),
           unsigned_txid = txid_to_string L (compute_txid L tx), fee_sats = fee,
           vault_input_indexes = [0], controller_input_indexes = [1]\<rparr>\<rparr>
    \<and> st = (if i + 1 < count
         then (Some (OutPoint (compute_txid L tx) 1), Some (pays next_value (vault_script_of policy)),
               Some \<lparr>cs_outpoint = OutPoint (compute_txid L tx) 2, cs_value_sats = CONNECTOR_VALUE_SATS\<rparr>)
         else (None, None, None))"
  using assms
  by (cases "i + 1 < count")
    (auto simp: build_allowance_step_def Let_def next_receive_address_def split: if_splits list.splits)

text \<open>The assumptions on the surroundings of a build, and the manifest fields a step is checked against.\<close>

definition good_supply :: "lib \<Rightarrow> network \<Rightarrow> 'b world \<Rightarrow> bool" where
  \<comment> \<open>the hot wallet hands out addresses whose text parses back on the vault's network\<close>
  "good_supply L network w \<longleftrightarrow>
     (\<forall>a. Inr a \<in> set (hot_supply w) \<longrightarrow> address_from_str L (addr_text a) network = Some a)"

definition lib_laws :: "lib \<Rightarrow> bool" where
  "lib_laws L \<longleftrightarrow> lib_psbt_laws L \<and> lib_sign_laws L \<and> lib_size_laws L"

lemma lib_lawsD:
  assumes "lib_laws L"
  shows "lib_psbt_laws L" "lib_sign_laws L" "lib_size_laws L"
  using assms by (simp_all add: lib_laws_def)

lemma next_hop_ok:
  assumes "next_chain_value (txo_value pv) limit fee True = Some v" and "fee_sats (authorization a) = fee"
    and "minimal_non_dust L vs \<le> v" and "tx_output tx = [pays limit h, pays v vs, pays CONNECTOR_VALUE_SATS cs]"
    and "next_connector a = Some \<lparr>cs_outpoint = OutPoint (compute_txid L tx) 2, cs_value_sats = CONNECTOR_VALUE_SATS\<rparr>"
  shows "validate_next_hop L limit vs cs pv a tx =
    Inr (Some (OutPoint (compute_txid L tx) 1), Some (pays v vs),
         Some \<lparr>cs_outpoint = OutPoint (compute_txid L tx) 2, cs_value_sats = CONNECTOR_VALUE_SATS\<rparr>)"
  using next_chain_value_Some [OF assms(1)] assms(2-)
  by (auto simp: validate_next_hop_def validate_connector_output_def Let_def checked_sub_def)

lemma build_allowance_step_validates:
  assumes laws: "lib_laws L" and tok: "psbt_text_ok C"
    and build: "build_allowance_step L C policy controller limit delay count dir phone i
      (Some vo, Some pv, Some conn) w = (Inr (a, st), w')"
    and net: "config_network config = Inr network" and sup: "good_supply L network w"
    and m: "monthly_limit_sats m = limit" "allowance_count m = count" and i: "i < count"
    and reads: "read_psbt C (join_str dir (psbt_file (authorization a))) w''
      = read_psbt C (join_str dir (psbt_file (authorization a))) w'"
  shows "\<exists>st'. validate_allowance_step L C config m dir policy controller delay w'' i a (Some vo, Some pv, Some conn)
      = Inr st' \<and> (i + 1 < count \<longrightarrow> st' = st)"
proof -
  obtain hot fee v psbt signed tx w1 where hot: "Inr hot \<in> set (hot_supply w)"
    and fee: "authorization_fee L policy controller vo limit delay (addr_script hot) (i + 1 < count) = Inr fee"
    and nx: "next_chain_value (txo_value pv) limit fee (i + 1 < count) = Some v"
    and dust: "if i + 1 < count then minimal_non_dust L (vault_script_of policy) \<le> v else v = 0"
    and tx: "tx = authorization_template vo (cs_outpoint conn) limit delay (addr_script hot)
        (if i + 1 < count then Some (v, vault_script_of policy) else None) (controller_script_of controller)"
    and psbt: "create_policy_psbt L tx [pv, pays CONNECTOR_VALUE_SATS (controller_script_of controller)] [0] [1]
        policy controller = Inr psbt"
    and sign: "sign_vault_psbt_inputs L psbt policy Cooperative (vault_keypair phone) [0] = Inr signed"
    and wr: "write_psbt C (join_str dir (authorization_file (i + 1))) signed w1 = (Inr (), w')"
    and i256: "i + 1 < 256"
    and a: "a = \<lparr>al_step = i + 1, al_delay_seconds = MONTHLY_ALLOWANCE_DELAY_SECONDS,
         al_delay_sequence = delay, chain_value_sats = txo_value pv,
         al_hot_address = addr_text hot, connector = conn,
         next_connector = (if i + 1 < count then Some \<lparr>cs_outpoint = OutPoint (compute_txid L tx) 2,
            cs_value_sats = CONNECTOR_VALUE_SATS\<rparr> else None),
         authorization = \<lparr>psbt_file = authorization_file (i + 1),
           unsigned_txid = txid_to_string L (compute_txid L tx), fee_sats = fee,
           vault_input_indexes = [0], controller_input_indexes = [1]\<rparr>\<rparr>"
    and st: "st = (if i + 1 < count
         then (Some (OutPoint (compute_txid L tx) 1), Some (pays v (vault_script_of policy)),
               Some \<lparr>cs_outpoint = OutPoint (compute_txid L tx) 2, cs_value_sats = CONNECTOR_VALUE_SATS\<rparr>)
         else (None, None, None))"
    using build_allowance_step_Inr [OF build] by fastforce
  note laws' = lib_lawsD [OF laws]
  have child: "carries signed tx [pv, pays CONNECTOR_VALUE_SATS (controller_script_of controller)]"
    "tap_script_sigs (psbt_inputs signed ! 1) = []"
    using child_psbt [OF laws'(1) psbt sign] by auto
  have rd: "read_psbt C (join_str dir (psbt_file (authorization a))) w'' = Inr signed"
    using psbts.fetch_put [OF tok wr] reads a by simp
  have addr: "address_from_str L (addr_text hot) network = Some hot"
    using sup hot by (simp add: good_supply_def)
  have pfee: "policy_fee L tx policy controller [0] [1] = Inr fee"
    using authorization_fee_actual [OF laws'(3) fee] tx by simp
  note vals = next_chain_value_Some [OF nx]
  have sum: "out_value tx + fee = txo_value pv + CONNECTOR_VALUE_SATS"
    using vals dust tx by (auto simp: out_value_def split: if_splits)
  have vc: "validate_connector_child L signed pv vo (cs_outpoint conn) (controller_script_of controller)
      (authorization a) = Inr ()"
    by (rule validate_connector_child_ok [OF child]) (use a tx sum vals in auto)
  have utx: "unsigned_tx signed = tx" using child(1) by (simp add: carries_def)
  have meta: "allowance_metadata_ok a (i + 1) delay pv conn"
    by (simp add: allowance_metadata_ok_def a)
  show ?thesis
  proof (cases "i + 1 < count")
    case True
    have "validate_next_hop L limit (vault_script_of policy) (controller_script_of controller) pv a tx
        = Inr st"
      using next_hop_ok [of pv limit fee v a L "vault_script_of policy" tx "addr_script hot"
          "controller_script_of controller"] True nx dust tx a st by simp
    then show ?thesis
      using True rd addr net vc meta pfee i256 m a tx utx
      by (simp add: validate_allowance_step_def Let_def)
  next
    case False
    then have "checked_add (txo_value pv) CONNECTOR_VALUE_SATS = checked_add limit fee"
      using vals dust by (simp add: checked_add_def)
    then show ?thesis
      using False rd addr net vc meta pfee i256 m a tx utx
      by (simp add: validate_allowance_step_def Let_def)
  qed
qed

section \<open>File names\<close>

lemma authorization_components:
  assumes "s \<in> set [1..<13]"
  shows "components (authorization_file s) = [Normal ''allowances'', Normal (show_nat2 s), Normal ''authorization.psbt'']"
proof -
  have "\<forall>s \<in> set [1..<13]. components (authorization_file s)
      = [Normal ''allowances'', Normal (show_nat2 s), Normal ''authorization.psbt'']"
    by code_simp
  with assms show ?thesis by blast
qed

lemma show_nat2_inj: "s \<in> set [1..<13] \<Longrightarrow> t \<in> set [1..<13] \<Longrightarrow> show_nat2 s = show_nat2 t \<Longrightarrow> s = t"
proof -
  have "distinct (map show_nat2 [1..<13])" by code_simp
  then have "inj_on show_nat2 (set [1..<13])" by (simp add: distinct_map)
  then show "s \<in> set [1..<13] \<Longrightarrow> t \<in> set [1..<13] \<Longrightarrow> show_nat2 s = show_nat2 t \<Longrightarrow> s = t"
    by (meson inj_onD)
qed

lemma fixed_components:
  "components ''manifest.json'' = [Normal ''manifest.json'']"
  "components ''rollover.psbt'' = [Normal ''rollover.psbt'']"
  "components ''emergency/trigger.psbt'' = [Normal ''emergency'', Normal ''trigger.psbt'']"
  "components ''emergency/withdrawal.psbt'' = [Normal ''emergency'', Normal ''withdrawal.psbt'']"
  by code_simp+

lemma safe_files [simp]:
  "safe_relative ''manifest.json''" "safe_relative ''rollover.psbt''"
  "safe_relative ''emergency/trigger.psbt''" "safe_relative ''emergency/withdrawal.psbt''"
  by (simp_all add: safe_relative_def fixed_components is_absolute_def is_normal_def)

lemma safe_authorization_file [simp]: "s \<in> set [1..<13] \<Longrightarrow> safe_relative (authorization_file s)"
  by (simp add: safe_relative_def authorization_components is_absolute_def is_normal_def del: set_upt)

lemmas batch_paths = resolve_join_safe [OF safe_files(1)] resolve_join_safe [OF safe_files(2)]
  resolve_join_safe [OF safe_files(3)] resolve_join_safe [OF safe_files(4)] fixed_components

lemma authorization_path:
  "s \<in> set [1..<13] \<Longrightarrow> resolve (join_str dir (authorization_file s))
     = resolve dir @ [Normal ''allowances'', Normal (show_nat2 s), Normal ''authorization.psbt'']"
  by (simp add: resolve_join_safe authorization_components del: set_upt)

definition auth_keys :: "path \<Rightarrow> nat set \<Rightarrow> path set" where
  "auth_keys dir S = (\<lambda>s. resolve (join_str dir (authorization_file s))) ` S"

lemma auth_keys_disjoint:
  assumes "s \<in> set [1..<13]" and "S \<subseteq> set [1..<13]" and "s \<notin> S"
  shows "resolve (join_str dir (authorization_file s)) \<notin> auth_keys dir S"
proof
  assume "resolve (join_str dir (authorization_file s)) \<in> auth_keys dir S"
  then obtain t where t: "t \<in> S"
    and eq: "resolve (join_str dir (authorization_file s)) = resolve (join_str dir (authorization_file t))"
    by (auto simp: auth_keys_def)
  have "t \<in> set [1..<13]" using t assms(2) by blast
  then have "show_nat2 s = show_nat2 t"
    using eq assms(1) by (simp add: authorization_path del: set_upt)
  then have "s = t" using show_nat2_inj assms(1) \<open>t \<in> set [1..<13]\<close> by blast
  then show False using t assms(3) by simp
qed

section \<open>The whole chain\<close>

lemma build_allowance_step_frame:
  assumes "build_allowance_step L C policy controller limit delay count dir phone i (Some vo, Some pv, Some conn) w
      = (Inr (a, st), w')"
  shows "touches (auth_keys dir {i + 1}) w w' \<and> (\<exists>x. hot_supply w = x # hot_supply w')
    \<and> psbt_file (authorization a) = authorization_file (i + 1)"
proof -
  obtain x s signed where sup: "hot_supply w = x # s"
    and wr: "write_psbt C (join_str dir (authorization_file (i + 1))) signed (w\<lparr>hot_supply := s\<rparr>) = (Inr (), w')"
    and pf: "psbt_file (authorization a) = authorization_file (i + 1)"
    using build_allowance_step_Inr [OF assms] by fastforce
  have "touches (auth_keys dir {i + 1}) (w\<lparr>hot_supply := s\<rparr>) w'"
    using touches_write_private [of "join_str dir (authorization_file (i + 1))" "auth_keys dir {i + 1}"] wr
    unfolding write_psbt_def by (metis auth_keys_def image_insert insertI1 snd_conv)
  then have "touches (auth_keys dir {i + 1}) w w'" by (simp add: touches_def)
  moreover have "hot_supply w' = s" using write_private_supply wr by (fastforce simp: write_psbt_def)
  ultimately show ?thesis using sup pf by auto
qed

lemma good_supply_tl: "good_supply L network w \<Longrightarrow> hot_supply w = x # hot_supply w' \<Longrightarrow> good_supply L network w'"
  by (auto simp: good_supply_def)

lemma touches_read_psbt:
  "touches K w w' \<Longrightarrow> resolve p \<notin> K \<Longrightarrow> read_psbt C p w' = read_psbt C p w"
  using touches_file_at by (fastforce simp: read_psbt_def read_file_def)

lemma build_allowances_frame:
  assumes "build_allowances L C policy controller limit delay count dir phone is st w = (Inr as, w')"
    and "st = (Some vo, Some pv, Some conn)" and "is = [i..<count]"
  shows "touches (auth_keys dir {i + 1..count}) w w'
    \<and> map (\<lambda>a. psbt_file (authorization a)) as = map authorization_file [i + 1..<count + 1]"
  using assms
proof (induction L C policy controller limit delay count dir phone "is" st arbitrary: w as vo pv conn i
    rule: build_allowances.induct)
  case (1 L C policy controller limit delay count dir phone st)
  then have "\<not> i < count" using upt_eq_Nil_conv [of i count] by auto
  then show ?case using 1 by simp
next
  case (2 L C policy controller limit delay count dir phone j js st)
  have ij: "j = i" "js = [i + 1..<count]" "i < count"
    using 2(4) [symmetric] by (auto simp: upt_eq_Cons_conv)
  obtain a st1 w1 as1 where step: "build_allowance_step L C policy controller limit delay count dir phone i st w = (Inr (a, st1), w1)"
    and rest: "build_allowances L C policy controller limit delay count dir phone js st1 w1 = (Inr as1, w')"
    and as: "as = a # as1"
    using 2(2) ij by auto
  note frame = build_allowance_step_frame [OF step [unfolded 2(3)]]
  show ?case
  proof (cases "i + 1 < count")
    case True
    obtain vo1 pv1 conn1 where st1: "st1 = (Some vo1, Some pv1, Some conn1)"
      using build_allowance_step_Inr [OF step [unfolded 2(3)]] True by auto
    have ih: "touches (auth_keys dir {i + 1 + 1..count}) w1 w'
        \<and> map (\<lambda>a. psbt_file (authorization a)) as1 = map authorization_file [i + 1 + 1..<count + 1]"
      using 2(1) [OF rest st1 ij(2)] .
    have "touches (auth_keys dir {i + 1..count}) w w1"
      using frame ij by (auto intro: touches_mono simp: auth_keys_def)
    moreover have "touches (auth_keys dir {i + 1..count}) w1 w'"
      using ih by (auto intro: touches_mono simp: auth_keys_def)
    moreover have "[i + 1..<count + 1] = (i + 1) # [i + 1 + 1..<count + 1]"
      using True by (simp add: upt_conv_Cons)
    ultimately show ?thesis using ih frame as by (auto intro: touches_trans)
  next
    case False
    then have "js = []" "count = i + 1" using ij by auto
    then show ?thesis using rest as frame by auto
  qed
qed

lemma build_allowances_validates:
  assumes laws: "lib_laws L" and tok: "psbt_text_ok C"
    and net: "config_network config = Inr network"
    and m: "monthly_limit_sats m = limit" "allowance_count m = count" and le: "count < 13"
    and build: "build_allowances L C policy controller limit delay count dir phone is st w = (Inr as, w')"
    and st: "st = (Some vo, Some pv, Some conn)" and "is": "is = [i..<count]"
    and sup: "good_supply L network w"
    and reads: "\<And>a. a \<in> set as \<Longrightarrow> read_psbt C (join_str dir (psbt_file (authorization a))) w''
      = read_psbt C (join_str dir (psbt_file (authorization a))) w'"
  shows "validate_allowance_steps L C config m dir policy controller delay w'' i as st = Inr ()"
  using build st "is" sup reads
proof (induction "is" arbitrary: st w as vo pv conn i)
  case Nil
  then show ?case by simp
next
  case (Cons j js)
  have ij: "j = i" "js = [i + 1..<count]" "i < count"
    using Cons.prems(3) [symmetric] by (auto simp: upt_eq_Cons_conv)
  obtain a st1 w1 as1 where step: "build_allowance_step L C policy controller limit delay count dir phone i st w = (Inr (a, st1), w1)"
    and rest: "build_allowances L C policy controller limit delay count dir phone js st1 w1 = (Inr as1, w')"
    and as: "as = a # as1"
    using Cons.prems(1) ij by auto
  note frame = build_allowance_step_frame [OF step [unfolded Cons.prems(2)]]
  have sup1: "good_supply L network w1" using frame Cons.prems(4) good_supply_tl by blast
  have final: "read_psbt C (join_str dir (psbt_file (authorization a))) w''
      = read_psbt C (join_str dir (psbt_file (authorization a))) w1"
    if "touches (auth_keys dir {i + 2..count}) w1 w'"
  proof -
    have "resolve (join_str dir (authorization_file (i + 1))) \<notin> auth_keys dir {i + 2..count}"
      by (rule auth_keys_disjoint) (use ij le in auto)
    then have "read_psbt C (join_str dir (authorization_file (i + 1))) w'
        = read_psbt C (join_str dir (authorization_file (i + 1))) w1"
      using touches_read_psbt [OF that] by blast
    then show ?thesis using Cons.prems(5) [of a] as frame by simp
  qed
  show ?case
  proof (cases "i + 1 < count")
    case True
    obtain vo1 pv1 conn1 where st1: "st1 = (Some vo1, Some pv1, Some conn1)"
      using build_allowance_step_Inr [OF step [unfolded Cons.prems(2)]] True by auto
    have "touches (auth_keys dir {i + 2..count}) w1 w'"
      using build_allowances_frame [OF rest st1 ij(2)] by simp
    note rd = final [OF this]
    obtain st' where "validate_allowance_step L C config m dir policy controller delay w'' i a st = Inr st'"
      and "st' = st1"
      using build_allowance_step_validates [OF laws tok step [unfolded Cons.prems(2)] net Cons.prems(4) m ij(3) rd]
        True Cons.prems(2) by auto
    moreover have "validate_allowance_steps L C config m dir policy controller delay w'' (i + 1) as1 st1 = Inr ()"
      using Cons.IH [OF rest st1 ij(2) sup1] Cons.prems(5) as by simp
    ultimately show ?thesis using as by simp
  next
    case False
    then have "js = []" using ij by auto
    then have "as1 = []" "w' = w1" using rest by auto
    then have rd: "read_psbt C (join_str dir (psbt_file (authorization a))) w''
        = read_psbt C (join_str dir (psbt_file (authorization a))) w1"
      using Cons.prems(5) [of a] as by simp
    show ?thesis
      using build_allowance_step_validates [OF laws tok step [unfolded Cons.prems(2)] net Cons.prems(4) m ij(3) rd]
        as \<open>as1 = []\<close> Cons.prems(2) by auto
  qed
qed

section \<open>Emergency access\<close>

lemma emergency_fee_actual:
  assumes "lib_size_laws L"
  shows "emergency_trigger_fee L policy controller op s c (vault_script_of policy) = Inr fee \<Longrightarrow>
      policy_fee L (emergency_trigger_template vo co s' c' (vault_script_of policy) (controller_script_of controller))
        policy controller [0] [1] = Inr fee"
    and "emergency_withdrawal_fee L policy controller op amount delay hot = Inr fee \<Longrightarrow>
      policy_fee L (emergency_withdrawal_template vo co amount delay hot) policy controller [0] [1] = Inr fee"
proof -
  show "emergency_trigger_fee L policy controller op s c (vault_script_of policy) = Inr fee \<Longrightarrow>
      policy_fee L (emergency_trigger_template vo co s' c' (vault_script_of policy) (controller_script_of controller))
        policy controller [0] [1] = Inr fee"
    unfolding emergency_trigger_fee_def
    by (rule policy_fee_shape [OF assms]) (simp_all add: emergency_trigger_template_def)
  show "emergency_withdrawal_fee L policy controller op amount delay hot = Inr fee \<Longrightarrow>
      policy_fee L (emergency_withdrawal_template vo co amount delay hot) policy controller [0] [1] = Inr fee"
    unfolding emergency_withdrawal_fee_def
    by (rule policy_fee_shape [OF assms]) (simp_all add: emergency_withdrawal_template_def)
qed

lemma emergency_amounts_Inr:
  assumes "emergency_amounts L policy controller op source amount delay hot = Inr (wfee, staging, tfee, change)"
  shows "emergency_withdrawal_fee L policy controller outpoint_null amount delay hot = Inr wfee
    \<and> emergency_trigger_fee L policy controller op staging (minimal_non_dust L (vault_script_of policy))
        (vault_script_of policy) = Inr tfee
    \<and> staging + CONNECTOR_VALUE_SATS = amount + wfee \<and> amount + wfee < u64_bound
    \<and> source = staging + tfee + change \<and> minimal_non_dust L (vault_script_of policy) \<le> change"
  using assms by (auto simp: emergency_amounts_def Let_def split: if_splits)

lemma emergency_template_simps [simp]:
  "tx_version (emergency_trigger_template vo co s c vs cs) = version_two"
  "tx_lock_time (emergency_trigger_template vo co s c vs cs) = lock_time_zero"
  "tx_input (emergency_trigger_template vo co s c vs cs) = [vault_input vo sequence_max, vault_input co sequence_rbf]"
  "tx_output (emergency_trigger_template vo co s c vs cs) = [pays s vs, pays c vs, pays CONNECTOR_VALUE_SATS cs]"
  "tx_version (emergency_withdrawal_template vo co a d h) = version_two"
  "tx_lock_time (emergency_withdrawal_template vo co a d h) = lock_time_zero"
  "tx_input (emergency_withdrawal_template vo co a d h) = [vault_input vo d, vault_input co sequence_rbf]"
  "tx_output (emergency_withdrawal_template vo co a d h) = [pays a h]"
  by (simp_all add: emergency_trigger_template_def emergency_withdrawal_template_def)

definition emergency_keys :: "path \<Rightarrow> path set" where
  "emergency_keys dir = {resolve (join_str dir ''emergency/trigger.psbt''),
     resolve (join_str dir ''emergency/withdrawal.psbt'')}"

lemma build_emergency_access_Inr:
  assumes "build_emergency_access L C policy controller so sout conn amount delay hot dir phone w = (Inr e, w')"
  shows "\<exists>wfee staging tfee change ttx wtx tp ts wp ws w1.
    emergency_amounts L policy controller so (txo_value sout) amount delay (addr_script hot)
      = Inr (wfee, staging, tfee, change)
    \<and> ttx = emergency_trigger_template so (cs_outpoint conn) staging change (vault_script_of policy)
        (controller_script_of controller)
    \<and> create_policy_psbt L ttx [sout, pays CONNECTOR_VALUE_SATS (controller_script_of controller)] [0] [1]
        policy controller = Inr tp
    \<and> sign_vault_psbt_inputs L tp policy Cooperative (vault_keypair phone) [0] = Inr ts
    \<and> wtx = emergency_withdrawal_template (OutPoint (compute_txid L ttx) 0) (OutPoint (compute_txid L ttx) 2)
        amount delay (addr_script hot)
    \<and> create_policy_psbt L wtx [pays staging (vault_script_of policy),
          pays CONNECTOR_VALUE_SATS (controller_script_of controller)] [0] [1] policy controller = Inr wp
    \<and> sign_vault_psbt_inputs L wp policy Cooperative (vault_keypair phone) [0] = Inr ws
    \<and> write_psbt C (join_str dir ''emergency/trigger.psbt'') ts w = (Inr (), w1)
    \<and> write_psbt C (join_str dir ''emergency/withdrawal.psbt'') ws w1 = (Inr (), w')
    \<and> e = \<lparr>amount_sats = amount, em_delay_seconds = EMERGENCY_ACCESS_DELAY_SECONDS,
        em_delay_sequence = delay, em_hot_address = addr_text hot,
        staging_vout = 0, staging_value_sats = staging, vault_change_vout = 1,
        vault_change_value_sats = change, trigger_connector = conn,
        withdrawal_connector = \<lparr>cs_outpoint = OutPoint (compute_txid L ttx) 2, cs_value_sats = CONNECTOR_VALUE_SATS\<rparr>,
        trigger = \<lparr>psbt_file = ''emergency/trigger.psbt'', unsigned_txid = txid_to_string L (compute_txid L ttx),
          fee_sats = tfee, vault_input_indexes = [0], controller_input_indexes = [1]\<rparr>,
        withdrawal = \<lparr>psbt_file = ''emergency/withdrawal.psbt'',
          unsigned_txid = txid_to_string L (compute_txid L wtx),
          fee_sats = wfee, vault_input_indexes = [0], controller_input_indexes = [1]\<rparr>\<rparr>"
  using assms by (auto simp: build_emergency_access_def Let_def)

lemma build_emergency_frame:
  assumes "build_emergency_access L C policy controller so sout conn amount delay hot dir phone w = (Inr e, w')"
  shows "touches (emergency_keys dir) w w'"
proof -
  obtain ts ws w1 where t: "write_psbt C (join_str dir ''emergency/trigger.psbt'') ts w = (Inr (), w1)"
    and w: "write_psbt C (join_str dir ''emergency/withdrawal.psbt'') ws w1 = (Inr (), w')"
    using build_emergency_access_Inr [OF assms] by blast
  have "touches (emergency_keys dir) w w1"
    using touches_write_private [of "join_str dir ''emergency/trigger.psbt''" "emergency_keys dir" w] t
    unfolding write_psbt_def emergency_keys_def by (metis insertI1 snd_conv)
  also have "touches (emergency_keys dir) w1 w'"
    using touches_write_private [of "join_str dir ''emergency/withdrawal.psbt''" "emergency_keys dir" w1] w
    unfolding write_psbt_def emergency_keys_def by (metis insertI1 insertI2 snd_conv)
  finally show ?thesis .
qed

lemma build_emergency_validates:
  assumes laws: "lib_laws L" and tok: "psbt_text_ok C"
    and build: "build_emergency_access L C policy controller (OutPoint (compute_txid L rtx) (remainder_vout m)) sout
      \<lparr>cs_outpoint = OutPoint (compute_txid L rtx) vout, cs_value_sats = CONNECTOR_VALUE_SATS\<rparr>
      limit delay hot dir phone w = (Inr e, w')"
    and net: "config_network config = Inr network"
    and addr: "address_from_str L (addr_text hot) network = Some hot"
    and del: "emergency_delay_sequence L = Inr delay"
    and m: "emergency_access_limit_sats m = limit" "0 < limit" "emergency_access m = Some e"
      "emergency_connector_vout m = Some vout"
    and rtx: "unsigned_tx rpsbt = rtx" "remainder_vout m < length (tx_output rtx)"
      "tx_output rtx ! remainder_vout m = sout" "txo_value sout + CONNECTOR_VALUE_SATS < u64_bound"
    and reads: "\<And>p. resolve p \<in> emergency_keys dir \<Longrightarrow> read_psbt C p w'' = read_psbt C p w'"
  shows "validate_connector_emergency L C config m dir policy controller rpsbt w'' = Inr ()"
proof -
  obtain wfee staging tfee change ttx wtx tp ts wp ws w1 where
    am: "emergency_amounts L policy controller (OutPoint (compute_txid L rtx) (remainder_vout m))
      (txo_value sout) limit delay (addr_script hot) = Inr (wfee, staging, tfee, change)"
    and ttx: "ttx = emergency_trigger_template (OutPoint (compute_txid L rtx) (remainder_vout m))
      (OutPoint (compute_txid L rtx) vout) staging change (vault_script_of policy) (controller_script_of controller)"
    and tp: "create_policy_psbt L ttx [sout, pays CONNECTOR_VALUE_SATS (controller_script_of controller)] [0] [1]
        policy controller = Inr tp"
      "sign_vault_psbt_inputs L tp policy Cooperative (vault_keypair phone) [0] = Inr ts"
    and wtx: "wtx = emergency_withdrawal_template (OutPoint (compute_txid L ttx) 0) (OutPoint (compute_txid L ttx) 2)
        limit delay (addr_script hot)"
    and wp: "create_policy_psbt L wtx [pays staging (vault_script_of policy),
          pays CONNECTOR_VALUE_SATS (controller_script_of controller)] [0] [1] policy controller = Inr wp"
      "sign_vault_psbt_inputs L wp policy Cooperative (vault_keypair phone) [0] = Inr ws"
    and w1: "write_psbt C (join_str dir ''emergency/trigger.psbt'') ts w = (Inr (), w1)"
    and w2: "write_psbt C (join_str dir ''emergency/withdrawal.psbt'') ws w1 = (Inr (), w')"
    and e: "e = \<lparr>amount_sats = limit, em_delay_seconds = EMERGENCY_ACCESS_DELAY_SECONDS,
        em_delay_sequence = delay, em_hot_address = addr_text hot,
        staging_vout = 0, staging_value_sats = staging, vault_change_vout = 1,
        vault_change_value_sats = change,
        trigger_connector = \<lparr>cs_outpoint = OutPoint (compute_txid L rtx) vout, cs_value_sats = CONNECTOR_VALUE_SATS\<rparr>,
        withdrawal_connector = \<lparr>cs_outpoint = OutPoint (compute_txid L ttx) 2, cs_value_sats = CONNECTOR_VALUE_SATS\<rparr>,
        trigger = \<lparr>psbt_file = ''emergency/trigger.psbt'', unsigned_txid = txid_to_string L (compute_txid L ttx),
          fee_sats = tfee, vault_input_indexes = [0], controller_input_indexes = [1]\<rparr>,
        withdrawal = \<lparr>psbt_file = ''emergency/withdrawal.psbt'',
          unsigned_txid = txid_to_string L (compute_txid L wtx),
          fee_sats = wfee, vault_input_indexes = [0], controller_input_indexes = [1]\<rparr>\<rparr>"
    using build_emergency_access_Inr [OF build] by auto
  note laws' = lib_lawsD [OF laws]
  note amounts = emergency_amounts_Inr [OF am]
  have t: "carries ts ttx [sout, pays CONNECTOR_VALUE_SATS (controller_script_of controller)]"
    "tap_script_sigs (psbt_inputs ts ! 1) = []"
    using child_psbt [OF laws'(1) tp] by auto
  have w: "carries ws wtx [pays staging (vault_script_of policy), pays CONNECTOR_VALUE_SATS (controller_script_of controller)]"
    "tap_script_sigs (psbt_inputs ws ! 1) = []"
    using child_psbt [OF laws'(1) wp] by auto
  have neq: "resolve (join_str dir ''emergency/trigger.psbt'') \<noteq> resolve (join_str dir ''emergency/withdrawal.psbt'')"
    by (simp add: batch_paths)
  have rd: "read_psbt C (join_str dir ''emergency/trigger.psbt'') w'' = Inr ts"
    "read_psbt C (join_str dir ''emergency/withdrawal.psbt'') w'' = Inr ws"
    using reads psbts.fetch_put [OF tok w1] psbts.fetch_put [OF tok w2] psbts.fetch_other [OF w2 neq]
    by (simp_all add: emergency_keys_def)
  have tfee: "policy_fee L ttx policy controller [0] [1] = Inr tfee"
    and wfee: "policy_fee L wtx policy controller [0] [1] = Inr wfee"
    using emergency_fee_actual [OF laws'(3)] amounts ttx wtx by auto
  have tc: "validate_connector_child L ts sout (OutPoint (compute_txid L rtx) (remainder_vout m))
      (OutPoint (compute_txid L rtx) vout) (controller_script_of controller) (trigger e) = Inr ()"
    by (rule validate_connector_child_ok [OF t]) (use e ttx amounts rtx in \<open>auto simp: out_value_def\<close>)
  have wc: "validate_connector_child L ws (pays staging (vault_script_of policy)) (OutPoint (compute_txid L ttx) 0)
      (OutPoint (compute_txid L ttx) 2) (controller_script_of controller) (withdrawal e) = Inr ()"
    by (rule validate_connector_child_ok [OF w]) (use e wtx amounts in \<open>auto simp: out_value_def\<close>)
  have utx: "unsigned_tx ts = ttx" "unsigned_tx ws = wtx" using t(1) w(1) by (auto simp: carries_def)
  have vt: "validate_trigger L C m e dir policy controller rtx w'' = Inr ttx"
    using rtx m rd tc tfee utx e ttx amounts
    by (simp add: validate_trigger_def Let_def trigger_tx_ok_def validate_connector_output_def index_def)
  have vw: "validate_withdrawal L C m e dir policy controller delay (addr_script hot) ttx w'' = Inr ()"
    using m rd wc wfee utx e ttx wtx amounts
    by (simp add: validate_withdrawal_def Let_def withdrawal_tx_ok_def index_def checked_add_def)
  have "emergency_metadata_ok e limit delay" by (simp add: emergency_metadata_ok_def e)
  then show ?thesis
    using m del net addr vt vw rtx(1) e by (simp add: validate_connector_emergency_def)
qed

section \<open>Readable files\<close>

definition holds_default :: "('b, 'z) ceremony_codecs_scheme \<Rightarrow> path \<Rightarrow> 'b world \<Rightarrow> bool" where
  "holds_default C p w \<longleftrightarrow> (\<exists>x. read_psbt C p w = Inr x \<and> validate_default_sighashes x = Inr ())"

lemma holds_default_write:
  "psbt_text_ok C \<Longrightarrow> write_psbt C p x w = (Inr (), w') \<Longrightarrow> carries x tx prevouts \<Longrightarrow> holds_default C p w'"
  using psbts.fetch_put by (fastforce simp: holds_default_def carries_def)

lemma holds_default_touches:
  "holds_default C p w \<Longrightarrow> touches K w w' \<Longrightarrow> resolve p \<notin> K \<Longrightarrow> holds_default C p w'"
  by (simp add: holds_default_def touches_read_psbt)

lemma build_step_default:
  assumes "lib_laws L" and "psbt_text_ok C"
    and "build_allowance_step L C policy controller limit delay count dir phone i (Some vo, Some pv, Some conn) w
      = (Inr (a, st), w')"
  shows "holds_default C (join_str dir (psbt_file (authorization a))) w'"
proof -
  obtain tx psbt signed w1 where c: "create_policy_psbt L tx
        [pv, pays CONNECTOR_VALUE_SATS (controller_script_of controller)] [0] [1] policy controller = Inr psbt"
    and s: "sign_vault_psbt_inputs L psbt policy Cooperative (vault_keypair phone) [0] = Inr signed"
    and wr: "write_psbt C (join_str dir (authorization_file (i + 1))) signed w1 = (Inr (), w')"
    and pf: "psbt_file (authorization a) = authorization_file (i + 1)"
    using build_allowance_step_Inr [OF assms(3)] by fastforce
  show ?thesis
    using holds_default_write [OF assms(2) wr] child_psbt [OF lib_lawsD(1) [OF assms(1)] c s] pf by auto
qed

lemma build_allowances_default:
  assumes "lib_laws L" and "psbt_text_ok C" and "count < 13"
    and "build_allowances L C policy controller limit delay count dir phone is st w = (Inr as, w')"
    and "st = (Some vo, Some pv, Some conn)" and "is = [i..<count]"
  shows "\<forall>a \<in> set as. holds_default C (join_str dir (psbt_file (authorization a))) w'"
  using assms(4-)
proof (induction "is" arbitrary: st w as vo pv conn i)
  case Nil
  then show ?case by simp
next
  case (Cons j js)
  have ij: "j = i" "js = [i + 1..<count]" "i < count"
    using Cons.prems(3) [symmetric] by (auto simp: upt_eq_Cons_conv)
  obtain a st1 w1 as1 where step: "build_allowance_step L C policy controller limit delay count dir phone i st w = (Inr (a, st1), w1)"
    and rest: "build_allowances L C policy controller limit delay count dir phone js st1 w1 = (Inr as1, w')"
    and as: "as = a # as1"
    using Cons.prems(1) ij by auto
  note frame = build_allowance_step_frame [OF step [unfolded Cons.prems(2)]]
  note here = build_step_default [OF assms(1,2) step [unfolded Cons.prems(2)]]
  show ?case
  proof (cases "i + 1 < count")
    case True
    obtain vo1 pv1 conn1 where st1: "st1 = (Some vo1, Some pv1, Some conn1)"
      using build_allowance_step_Inr [OF step [unfolded Cons.prems(2)]] True by auto
    have "touches (auth_keys dir {i + 2..count}) w1 w'"
      using build_allowances_frame [OF rest st1 ij(2)] by simp
    moreover have "resolve (join_str dir (authorization_file (i + 1))) \<notin> auth_keys dir {i + 2..count}"
      by (rule auth_keys_disjoint) (use ij assms(3) in auto)
    ultimately have "holds_default C (join_str dir (psbt_file (authorization a))) w'"
      using holds_default_touches [OF here] frame by simp
    then show ?thesis using Cons.IH [OF rest st1 ij(2)] as by simp
  next
    case False
    then have "js = []" using ij by auto
    then show ?thesis using rest as here by auto
  qed
qed

lemma build_emergency_default:
  assumes "lib_laws L" and "psbt_text_ok C"
    and "build_emergency_access L C policy controller so sout conn amount delay hot dir phone w = (Inr e, w')"
  shows "holds_default C (join_str dir (psbt_file (trigger e))) w'
    \<and> holds_default C (join_str dir (psbt_file (withdrawal e))) w'"
proof -
  obtain ttx wtx tp ts staging wp ws w1 where
    tp: "create_policy_psbt L ttx [sout, pays CONNECTOR_VALUE_SATS (controller_script_of controller)] [0] [1]
        policy controller = Inr tp"
      "sign_vault_psbt_inputs L tp policy Cooperative (vault_keypair phone) [0] = Inr ts"
    and wp: "create_policy_psbt L wtx [pays staging (vault_script_of policy),
          pays CONNECTOR_VALUE_SATS (controller_script_of controller)] [0] [1] policy controller = Inr wp"
      "sign_vault_psbt_inputs L wp policy Cooperative (vault_keypair phone) [0] = Inr ws"
    and w1: "write_psbt C (join_str dir ''emergency/trigger.psbt'') ts w = (Inr (), w1)"
    and w2: "write_psbt C (join_str dir ''emergency/withdrawal.psbt'') ws w1 = (Inr (), w')"
    and files: "psbt_file (trigger e) = ''emergency/trigger.psbt''" "psbt_file (withdrawal e) = ''emergency/withdrawal.psbt''"
    using build_emergency_access_Inr [OF assms(3)] by fastforce
  note psbt = lib_lawsD(1) [OF assms(1)]
  have neq: "resolve (join_str dir ''emergency/trigger.psbt'') \<notin> {resolve (join_str dir ''emergency/withdrawal.psbt'')}"
    by (simp add: batch_paths)
  have "touches {resolve (join_str dir ''emergency/withdrawal.psbt'')} w1 w'"
    using touches_write_private [of "join_str dir ''emergency/withdrawal.psbt''"] w2
    unfolding write_psbt_def by (metis insertI1 snd_conv)
  then have "holds_default C (join_str dir ''emergency/trigger.psbt'') w'"
    using holds_default_touches [OF holds_default_write [OF assms(2) w1 ] _ neq] child_psbt [OF psbt tp] by blast
  moreover have "holds_default C (join_str dir ''emergency/withdrawal.psbt'') w'"
    using holds_default_write [OF assms(2) w2] child_psbt [OF psbt wp] by blast
  ultimately show ?thesis using files by simp
qed

section \<open>The rollover\<close>

lemma select_rollover_Inr:
  "select_rollover L policy controller ri limit em cf ff mr counts = Inr (Some (count, A, fee, R)) \<Longrightarrow>
   count \<in> set counts
   \<and> policy_fee L (rollover_template (ri_template ri) (Some A) 1 (vault_script_of policy)
       (controller_script_of controller) True (0 < em)) policy controller (ri_vault_indexes ri)
       (ri_controller_indexes ri) = Inr fee
   \<and> ri_total ri = fee + A + R + CONNECTOR_VALUE_SATS * (1 + of_bool (0 < em)) \<and> mr \<le> R"
proof (induction counts)
  case Nil
  then show ?case by simp
next
  case (Cons n counts)
  obtain A' fee' req where "allowance_chain_value n limit cf ff = Inr A'"
    and fee: "policy_fee L (rollover_template (ri_template ri) (Some A') 1 (vault_script_of policy)
       (controller_script_of controller) True (0 < em)) policy controller (ri_vault_indexes ri)
       (ri_controller_indexes ri) = Inr fee'"
    and req: "req = fee' + A' + mr + CONNECTOR_VALUE_SATS * (1 + of_bool (0 < em))"
    and choice: "(if req \<le> ri_total ri
       then Inr (Some (n, A', fee', ri_total ri - fee' - A'
         - (CONNECTOR_VALUE_SATS + CONNECTOR_VALUE_SATS * of_bool (0 < em))))
       else select_rollover L policy controller ri limit em cf ff mr counts) = Inr (Some (count, A, fee, R))"
    using Cons.prems by (auto simp: Let_def)
  show ?case
  proof (cases "req \<le> ri_total ri")
    case True
    then have "count = n" "A' = A" "fee' = fee"
      "R = ri_total ri - fee' - A' - CONNECTOR_VALUE_SATS * (1 + of_bool (0 < em))"
      using choice by auto
    with True req fee show ?thesis by simp
  next
    case False
    then show ?thesis using Cons.IH choice by simp
  qed
qed

lemma choose_rollover_Inr:
  assumes "choose_rollover L policy controller ri limit em fees mr = Inr (count, A, fee, R)"
  shows "count < 13 \<and> (limit = 0 \<longrightarrow> count = 0) \<and> (count = 0 \<longrightarrow> A = 0) \<and> mr \<le> R
    \<and> ri_total ri = fee + A + R + CONNECTOR_VALUE_SATS * (of_bool (0 < count) + of_bool (0 < em))
    \<and> policy_fee L (rollover_template (ri_template ri) (if 0 < count then Some A else None) 1 (vault_script_of policy)
       (controller_script_of controller) (0 < count) (0 < em)) policy controller (ri_vault_indexes ri)
       (ri_controller_indexes ri) = Inr fee"
proof -
  obtain selected where sel: "(if 0 < limit
        then select_rollover L policy controller ri limit em (fst fees) (snd fees) mr (rev [1..<Suc MONTHS_PER_ROLLOVER])
        else Inr None) = Inr selected"
    and rest: "bind_result (case selected of Some choice \<Rightarrow> Inr choice
       | None \<Rightarrow>
          bind_result (policy_fee L (rollover_template (ri_template ri) None 1 (vault_script_of policy)
              (controller_script_of controller) False (0 < em))
              policy controller (ri_vault_indexes ri) (ri_controller_indexes ri)) (\<lambda>fee.
          bind_result (ok_or (Option.bind (checked_sub (ri_total ri) fee) (\<lambda>v.
              checked_sub v (CONNECTOR_VALUE_SATS * of_bool (0 < em))))
              (Propose CannotPayRollover)) (\<lambda>remainder.
          Inr (0, 0, fee, remainder)))) (\<lambda>(count, allowance_value, fee, remainder).
     if remainder < mr
     then Inl (Propose (if 0 < em then CannotFundEmergency else DustRemainder))
     else Inr (count, allowance_value, fee, remainder)) = Inr (count, A, fee, R)"
    using assms unfolding choose_rollover_def by (auto split: if_splits)
  show ?thesis
  proof (cases selected)
    case None
    then show ?thesis using rest by (auto split: if_splits)
  next
    case (Some c)
    then have "c = (count, A, fee, R)" "mr \<le> R" using rest by (auto split: if_splits prod.splits)
    moreover have "0 < limit" using sel Some by (auto split: if_splits)
    ultimately show ?thesis
      using select_rollover_Inr [of L policy controller ri limit em "fst fees" "snd fees" mr] sel Some
      by (fastforce simp: MONTHS_PER_ROLLOVER_def)
  qed
qed

lemma minimum_remainder_dust:
  "minimum_remainder_value L policy controller em staging = Inr mr \<Longrightarrow>
   minimal_non_dust L (vault_script_of policy) \<le> mr"
  by (auto simp: minimum_remainder_value_def Let_def split: if_splits)

lemma rollover_fee_actual:
  assumes "lib_size_laws L"
    and "policy_fee L (rollover_template inputs A 1 vs cs a e) policy controller vi ci = Inr fee"
  shows "policy_fee L (rollover_template inputs A R vs cs a e) policy controller vi ci = Inr fee"
  by (rule policy_fee_shape [OF assms(1) _ _ assms(2)]) (simp_all add: rollover_template_def split: option.splits)

lemma role_sum_ok:
  assumes "carries p tx prevouts" and "\<forall>i \<in> set is. i < length prevouts \<and> script_pubkey (prevouts ! i) = s"
    and "acc + sum_list (map (\<lambda>i. txo_value (prevouts ! i)) is) < u64_bound"
  shows "try_fold (role_sum_step p s) acc is = Inr (acc + sum_list (map (\<lambda>i. txo_value (prevouts ! i)) is))"
  using assms(2,3)
proof (induction "is" arbitrary: acc)
  case Nil
  then show ?case by simp
next
  case (Cons i js)
  have i: "i < length (psbt_inputs p)" "witness_utxo (psbt_inputs p ! i) = Some (prevouts ! i)"
    using assms(1) Cons.prems(1) by (auto simp: carries_def)
  then have "role_sum_step p s acc i = Inr (acc + txo_value (prevouts ! i))"
    using Cons.prems by (simp add: role_sum_step_def role_prevout_def index_def checked_add_def)
  then show ?case using Cons.IH [of "acc + txo_value (prevouts ! i)"] Cons.prems by (simp add: add.assoc)
qed

lemma sum_nth_prefix: "sum_list (map (\<lambda>i. f ((xs @ ys) ! i)) [0..<length xs]) = sum_list (map f xs)"
proof -
  have "map (\<lambda>i. f ((xs @ ys) ! i)) [0..<length xs] = map f xs"
    by (rule nth_equalityI) (simp_all add: nth_append)
  then show ?thesis by simp
qed

lemma sum_nth_suffix:
  "sum_list (map (\<lambda>i. f ((xs @ ys) ! i)) [length xs..<length xs + length ys]) = sum_list (map f ys)"
proof -
  have "map (\<lambda>i. f ((xs @ ys) ! i)) [length xs..<length xs + length ys] = map f ys"
    by (rule nth_equalityI) (simp_all add: nth_append)
  then show ?thesis by simp
qed

lemma as_u32_upt: "n \<le> 2 ^ 32 \<Longrightarrow> map as_u32 [k..<n] = [k..<n]"
  by (rule nth_equalityI) (auto simp: as_u32_def)

lemma transaction_indexes_upt: "n \<le> 2 ^ 32 \<Longrightarrow> transaction_indexes [k..<n] = Inr [k..<n]"
  unfolding transaction_indexes_def by (subst try_map_Inr_iff) (auto simp del: power_numeral)

lemma proposal_inputs_Inr:
  assumes "proposal_inputs vu cu = Inr (vs, cs, ri)"
  shows "vs = sum_list (map utxo_value vu) \<and> cs = sum_list (map utxo_value cu) \<and> vs + cs < u64_bound
    \<and> ri = \<lparr>ri_template = map (\<lambda>u. vault_input (utxo_outpoint u) sequence_max) vu
          @ map (\<lambda>u. vault_input (utxo_outpoint u) sequence_rbf) cu,
        ri_vault_indexes = [0..<length vu],
        ri_controller_indexes = [length vu..<length vu + length cu], ri_total = vs + cs\<rparr>"
  using assms by (auto simp: proposal_inputs_def checked_input_sum_def)

lemma rollover_template_simps [simp]:
  "tx_version (rollover_template ins A R vs cs a e) = version_two"
  "tx_lock_time (rollover_template ins A R vs cs a e) = lock_time_zero"
  "tx_input (rollover_template ins A R vs cs a e) = ins"
  by (simp_all add: rollover_template_def)

lemma rollover_template_output:
  "tx_output (rollover_template ins (if c then Some A else None) R vs cs c e) =
     (if c then [pays A vs] else []) @ [pays R vs]
     @ (if c then [pays CONNECTOR_VALUE_SATS cs] else []) @ (if e then [pays CONNECTOR_VALUE_SATS cs] else [])"
  by (auto simp: rollover_template_def)

lemma build_rollover_psbt_carries:
  assumes "lib_laws L" and "build_rollover_psbt L policy controller ri tx prevouts phone = Inr p"
  shows "carries p tx prevouts"
proof -
  obtain p0 p1 where c: "create_policy_psbt L tx prevouts (ri_vault_indexes ri) (ri_controller_indexes ri)
      policy controller = Inr p0"
    and s1: "sign_vault_psbt_inputs L p0 policy Cooperative (vault_keypair phone) (ri_vault_indexes ri) = Inr p1"
    and s2: "sign_controller_psbt_inputs L p1 controller ControllerPhone (vault_keypair phone)
      (ri_controller_indexes ri) = Inr p"
    using assms(2) by (auto simp: build_rollover_psbt_def)
  have "carries p0 tx prevouts"
    using create_policy_psbt_describes [OF lib_lawsD(1) [OF assms(1)] c] describes_carries by blast
  then show ?thesis using carries_clear sign_vault_clear [OF s1] sign_controller_clear [OF s2] by metis
qed

lemma rollover_sums:
  assumes "carries p tx (map utxo_txout vu @ map utxo_txout cu)"
    and "\<forall>u \<in> set vu. utxo_script u = vs" and "\<forall>u \<in> set cu. utxo_script u = cs"
    and "sum_list (map utxo_value vu) + sum_list (map utxo_value cu) < u64_bound"
  shows "psbt_role_input_sum p [0..<length vu] vs = Inr (sum_list (map utxo_value vu))"
    and "psbt_role_input_sum p [length vu..<length vu + length cu] cs = Inr (sum_list (map utxo_value cu))"
proof -
  let ?all = "map utxo_txout vu @ map utxo_txout cu"
  have v: "sum_list (map (\<lambda>i. txo_value (?all ! i)) [0..<length vu]) = sum_list (map utxo_value vu)"
    using sum_nth_prefix [of txo_value "map utxo_txout vu" "map utxo_txout cu"] by (simp add: comp_def)
  have c: "sum_list (map (\<lambda>i. txo_value (?all ! i)) [length vu..<length vu + length cu]) = sum_list (map utxo_value cu)"
    using sum_nth_suffix [of txo_value "map utxo_txout vu" "map utxo_txout cu"] by (simp add: comp_def)
  show "psbt_role_input_sum p [0..<length vu] vs = Inr (sum_list (map utxo_value vu))"
    using role_sum_ok [OF assms(1), of "[0..<length vu]" vs 0] v assms(2,4)
    by (simp add: psbt_role_input_sum_def nth_append)
  show "psbt_role_input_sum p [length vu..<length vu + length cu] cs = Inr (sum_list (map utxo_value cu))"
  proof -
    have "\<forall>i \<in> set [length vu..<length vu + length cu]. i < length ?all \<and> script_pubkey (?all ! i) = cs"
      using assms(3) by (auto simp: nth_append)
    from role_sum_ok [OF assms(1) this, of 0] show ?thesis
      using c assms(4) by (simp add: psbt_role_input_sum_def)
  qed
qed

lemma rollover_mismatch_ok:
  assumes "carries p tx prevouts" and "length prevouts = length (tx_input tx)"
    and "tx_input tx = map (\<lambda>u. vault_input (utxo_outpoint u) sequence_max) vu
          @ map (\<lambda>u. vault_input (utxo_outpoint u) sequence_rbf) cu" and "vu \<noteq> []"
    and "tx_version tx = version_two" and "tx_lock_time tx = lock_time_zero"
    and "unsigned_txid (rollover m) = txid_to_string L (compute_txid L tx)"
    and "length (tx_output tx) = expected_output_count m"
  shows "rollover_mismatch L m p [0..<length vu] [length vu..<length vu + length cu] = Inr False"
proof -
  have utx: "unsigned_tx p = tx" "length (psbt_inputs p) = length (tx_input tx)"
    using assms(1,2) by (auto simp: carries_def)
  have "try_any (\<lambda>i. bind_result (index (tx_input tx) i) (\<lambda>inp. Inr (tx_sequence inp \<noteq> sequence_max)))
      [0..<length vu] = Inr False"
    unfolding try_any_False_iff using assms(3) by (auto simp: index_def nth_append)
  moreover have "try_any (\<lambda>i. bind_result (index (tx_input tx) i) (\<lambda>inp. Inr (tx_sequence inp \<noteq> sequence_rbf)))
      [length vu..<length vu + length cu] = Inr False"
    unfolding try_any_False_iff using assms(3) by (auto simp: index_def nth_append)
  ultimately show ?thesis
    using utx assms(3-) by (simp add: rollover_mismatch_def Let_def)
qed

lemma validate_input_partition_ok:
  "validate_input_partition (n + k) [0..<n] [n..<n + k] = Inr ()"
  by (auto simp: validate_input_partition_def Let_def)

lemma validate_rollover_outputs_ok:
  assumes "rollover_indexes_ok m"
    and "tx_output tx = (if 0 < allowance_count m then [pays (allowance_value_sats m) vs] else [])
      @ [pays (remainder_value_sats m) vs]
      @ (if 0 < allowance_count m then [pays CONNECTOR_VALUE_SATS cs] else [])
      @ (if 0 < emergency_access_limit_sats m then [pays CONNECTOR_VALUE_SATS cs] else [])"
    and "minimal_non_dust L vs \<le> remainder_value_sats m"
  shows "validate_rollover_outputs L m tx vs cs = Inr ()"
  using assms
  by (auto simp: validate_rollover_outputs_def rollover_indexes_ok_def Let_def index_def get_def
      validate_connector_vout_def validate_connector_output_def)

section \<open>The batch\<close>

lemma proposal_policies_Inr:
  assumes "proposal_policies L config vu cu phone = Inr (policy, controller)"
  shows "\<exists>network. config_network config = Inr network
    \<and> vault_from_descriptor L (vc_vault_descriptor config) network = Inr policy
    \<and> ceremony_controller_policy L config = Inr controller
    \<and> (\<forall>u \<in> set vu. utxo_script u = vault_script_of policy)
    \<and> (\<forall>u \<in> set cu. utxo_script u = controller_script_of controller)"
  using assms by (auto simp: proposal_policies_def split: if_splits)

lemma choose_amounts_Inr:
  assumes "choose_amounts L policy controller ri limits hot = Inr (ed, md, count, A, fee, R)"
  shows "emergency_delay_sequence L = Inr ed \<and> monthly_delay_sequence L = Inr md
    \<and> minimal_non_dust L (vault_script_of policy) \<le> R
    \<and> count < 13 \<and> (pl_monthly_limit_sats limits = 0 \<longrightarrow> count = 0) \<and> (count = 0 \<longrightarrow> A = 0)
    \<and> ri_total ri = fee + A + R + CONNECTOR_VALUE_SATS
        * (of_bool (0 < count) + of_bool (0 < pl_emergency_access_limit_sats limits))
    \<and> policy_fee L (rollover_template (ri_template ri) (if 0 < count then Some A else None) 1 (vault_script_of policy)
       (controller_script_of controller) (0 < count) (0 < pl_emergency_access_limit_sats limits))
       policy controller (ri_vault_indexes ri) (ri_controller_indexes ri) = Inr fee"
proof -
  obtain staging mr fees where "emergency_delay_sequence L = Inr ed" "monthly_delay_sequence L = Inr md"
    and mr: "minimum_remainder_value L policy controller (pl_emergency_access_limit_sats limits) staging = Inr mr"
    and ch: "choose_rollover L policy controller ri (pl_monthly_limit_sats limits)
      (pl_emergency_access_limit_sats limits) fees mr = Inr (count, A, fee, R)"
    using assms by (auto simp: choose_amounts_def Let_def)
  with choose_rollover_Inr [OF ch] minimum_remainder_dust [OF mr] show ?thesis by auto
qed

lemma proposal_manifest_ok:
  fixes m :: batch_manifest
  assumes "m = proposal_manifest L config now limits controller vs cs ri (count, A, fee, R) txid as em"
    and "count = 0 \<longrightarrow> A = 0" and "count < 13" and "pl_monthly_limit_sats limits = 0 \<longrightarrow> count = 0"
    and "length as = count"
  shows "rollover_indexes_ok m" and "validate_manifest_header config m = Inr ()"
    and "bm_version m = 5" and "bm_network m = vc_network config"
  using assms
  by (auto simp: proposal_manifest_def rollover_indexes_ok_def validate_manifest_header_def Let_def
      MONTHS_PER_ROLLOVER_def)

text \<open>The files a build leaves, and what is written where.\<close>

lemma build_Inr:
  assumes "build_policy_proposal_with_connectors L C config vu cu now limits dir phone w = (Inr m, w')"
  shows "\<exists>w0 policy controller vs cs ri hot w1 ed md count A fee R tx p w2 as w3 em w4.
    vu \<noteq> [] \<and> create_dir_all dir w = (Inr (), w0)
    \<and> proposal_policies L config vu cu phone = Inr (policy, controller)
    \<and> proposal_inputs vu cu = Inr (vs, cs, ri)
    \<and> (if 0 < pl_emergency_access_limit_sats limits then bindM next_receive_address (\<lambda>a. returnM (Some a))
       else returnM None) w0 = (Inr hot, w1)
    \<and> choose_amounts L policy controller ri limits hot = Inr (ed, md, count, A, fee, R)
    \<and> tx = rollover_template (ri_template ri) (if 0 < count then Some A else None) R (vault_script_of policy)
        (controller_script_of controller) (0 < count) (0 < pl_emergency_access_limit_sats limits)
    \<and> build_rollover_psbt L policy controller ri tx (map utxo_txout vu @ map utxo_txout cu) phone = Inr p
    \<and> write_psbt C (join_str dir ''rollover.psbt'') p w1 = (Inr (), w2)
    \<and> build_allowances L C policy controller (pl_monthly_limit_sats limits) md count dir phone [0..<count]
        (if 0 < count
         then (Some (OutPoint (compute_txid L tx) 0), Some (tx_output tx ! 0),
               Some \<lparr>cs_outpoint = OutPoint (compute_txid L tx) 2, cs_value_sats = CONNECTOR_VALUE_SATS\<rparr>)
         else (None, None, None)) w2 = (Inr as, w3)
    \<and> (case hot of None \<Rightarrow> returnM None
       | Some a \<Rightarrow> bindM (build_emergency_access L C policy controller
           (OutPoint (compute_txid L tx) (of_bool (0 < count))) (tx_output tx ! of_bool (0 < count))
           \<lparr>cs_outpoint = OutPoint (compute_txid L tx) (of_bool (0 < count) + 1 + of_bool (0 < count)),
            cs_value_sats = CONNECTOR_VALUE_SATS\<rparr>
           (pl_emergency_access_limit_sats limits) ed a dir phone) (\<lambda>e. returnM (Some e))) w3 = (Inr em, w4)
    \<and> m = proposal_manifest L config now limits controller vs cs ri (count, A, fee, R) (compute_txid L tx) as em
    \<and> write_json (manifest_codec C) (join_str dir ''manifest.json'') m w4 = (Inr (), w')"
  using assms unfolding build_policy_proposal_with_connectors_def Let_def
  by (elim if_failM_E bindM_readE bindM_liftE bindM_E case_prod_runE) (intro exI conjI, (assumption | erule conjunct1 | simp)+)

end
