(* ===== verification/Activation.thy ===== *)
theory Activation
  imports Hot_Wallet Ceremony_Complete
begin

text \<open>
  Activation of an approved policy (\<^verbatim>\<open>activate_policy\<close>) under interruption. Every artifact of the
  new epoch is written below its own directory before the rollover is broadcast; the pointer to the
  active schedule moves only afterwards. The lemmas say which files each part can change, what the
  staged artifacts are when the broadcast happens, and that they can be opened again.
\<close>

section \<open>File names\<close>

definition plain_name :: "string \<Rightarrow> bool" where
  "plain_name s \<longleftrightarrow> s \<noteq> [] \<and> CHR ''/'' \<notin> set s \<and> s \<noteq> ''.'' \<and> s \<noteq> ''..''"

definition lib_txid_text :: "lib \<Rightarrow> bool" where
  \<comment> \<open>a transaction id is shown in hexadecimal and read back\<close>
  "lib_txid_text L \<longleftrightarrow> (\<forall>t. set (txid_to_string L t) \<subseteq> set ''0123456789abcdef'' \<and> txid_to_string L t \<noteq> []
     \<and> txid_from_str L (txid_to_string L t) = Some t)"

lemma lib_txid_text_inj: "lib_txid_text L \<Longrightarrow> txid_to_string L t = txid_to_string L u \<Longrightarrow> t = u"
  unfolding lib_txid_text_def by (metis option.inject)

lemma plain_txid: "lib_txid_text L \<Longrightarrow> plain_name (txid_to_string L t)"
  unfolding plain_name_def lib_txid_text_def by (auto dest: spec [of _ t])

lemma split_slash_plain: "CHR ''/'' \<notin> set s \<Longrightarrow> split_slash s = [s]"
  by (induction s) auto

lemma split_slash_append: "CHR ''/'' \<notin> set s \<Longrightarrow> split_slash (s @ CHR ''/'' # t) = s # split_slash t"
  by (induction s) auto

lemma components_plain: "plain_name s \<Longrightarrow> components s = [Normal s]"
  by (cases s) (auto simp: plain_name_def components_def split_slash_plain part_component_def)

lemma plain_safe: "plain_name s \<Longrightarrow> safe_relative s"
  by (simp add: safe_relative_def components_plain is_absolute_def is_normal_def)

lemma path_string_plain:
  "ns \<noteq> [] \<Longrightarrow> \<forall>n \<in> set ns. plain_name n \<Longrightarrow> split_slash (path_string (map Normal ns)) = ns
     \<and> path_string (map Normal ns) \<noteq> [] \<and> hd (path_string (map Normal ns)) \<noteq> CHR ''/''"
proof (induction ns)
  case (Cons n ns)
  then have n: "CHR ''/'' \<notin> set n" "n \<noteq> []" by (auto simp: plain_name_def)
  have "hd n \<noteq> CHR ''/''" using n hd_in_set by metis
  show ?case
  proof (cases ns)
    case Nil
    then show ?thesis using n \<open>hd n \<noteq> _\<close> by (simp add: split_slash_plain)
  next
    case (Cons k ks)
    then show ?thesis using n \<open>hd n \<noteq> _\<close> Cons.IH Cons.prems
      by (simp add: split_slash_append hd_append)
  qed
qed simp

lemma components_path_string:
  assumes "ns \<noteq> []" and "\<forall>n \<in> set ns. plain_name n"
  shows "components (path_string (map Normal ns)) = map Normal ns"
proof -
  have f: "filter (\<lambda>w. w \<noteq> []) ns = ns" using assms(2) by (auto simp: plain_name_def intro!: filter_True)
  have m: "map part_component ns = map Normal ns"
    using assms(2) by (auto simp: part_component_def plain_name_def)
  have c: "filter (\<lambda>c. c \<noteq> CurDir) (map Normal ks) = map Normal ks" for ks by (induction ks) auto
  show ?thesis
    using path_string_plain [OF assms] assms(1) f m c [of "tl ns"]
    by (cases ns) (auto simp: components_def Let_def)
qed

lemma relative_to_join:
  assumes "ns \<noteq> []" and "\<forall>n \<in> set ns. plain_name n" and "relative_to base (base @ map Normal ns) = Inr rel"
  shows "resolve (join_str base rel) = resolve base @ map Normal ns"
proof -
  have "rel = path_string (map Normal ns)" using assms(3) by (simp add: relative_to_def)
  moreover have "safe_relative (path_string (map Normal ns))"
    unfolding safe_relative_def components_path_string [OF assms(1,2)]
    using assms(1) by (cases ns) (auto simp: is_absolute_def is_normal_def)
  ultimately show ?thesis
    using resolve_join_safe [of rel base] components_path_string [OF assms(1,2)] by simp
qed

lemma show_nat_digits: "set (show_nat n) \<subseteq> set ''0123456789'' \<and> show_nat n \<noteq> []"
proof (induction n rule: show_nat.induct)
  case (1 n)
  have d: "digit_char k \<in> set ''0123456789''" if "k < 10" for k
  proof -
    have "list_all (\<lambda>k. digit_char k \<in> set ''0123456789'') [0..<10]" by code_simp
    then show ?thesis using that unfolding list_all_iff by (metis atLeastLessThan_iff set_upt zero_le)
  qed
  show ?case
  proof (cases "n < 10")
    case True
    then have "show_nat n = [digit_char n]" by (subst show_nat.simps) simp
    then show ?thesis using d [OF True] by simp
  next
    case False
    then have "show_nat n = show_nat (n div 10) @ [digit_char (n mod 10)]" by (subst show_nat.simps) simp
    then show ?thesis using 1 False d [of "n mod 10"] by simp
  qed
qed

lemma show_nat2_digits: "set (show_nat2 n) \<subseteq> set ''0123456789'' \<and> show_nat2 n \<noteq> []"
  using show_nat_digits [of n] by (simp add: show_nat2_def)

lemma plain_artifacts:
  shows "plain_name ''approved-policy.json''" "plain_name ''rollover.json''" "plain_name ''schedule.json''"
    "plain_name ''activated.json''"
    "plain_name (''allowance-'' @ show_nat2 step @ ''-'' @ transaction_kind_name kind @ ''.json'')"
    "lib_txid_text L \<Longrightarrow>
      plain_name (''emergency-'' @ emergency_transaction_kind_name ekind @ ''-'' @ txid_to_string L txid @ ''.json'')"
  using show_nat2_digits [of step]
  by (auto simp: plain_name_def transaction_kind_name_def emergency_transaction_kind_name_def lib_txid_text_def
      split: transaction_kind.splits emergency_transaction_kind.splits dest: spec [of _ txid])

definition epoch_root :: "lib \<Rightarrow> path \<Rightarrow> txid \<Rightarrow> path" where
  "epoch_root L data_dir txid =
     resolve data_dir @ [Normal ''phone'', Normal ''transactions'', Normal (txid_to_string L txid)]"

definition epoch_keys :: "lib \<Rightarrow> path \<Rightarrow> txid \<Rightarrow> path set" where
  "epoch_keys L data_dir txid = range (\<lambda>n. epoch_root L data_dir txid @ [Normal n])"

definition schedule_key :: "path \<Rightarrow> path" where
  "schedule_key data_dir = resolve (join_str data_dir SCHEDULE_FILE)"

definition config_keys :: "path \<Rightarrow> path set" where
  "config_keys data_dir = {resolve (join_str data_dir CONFIG_FILE), resolve (join_str data_dir LEGACY_CONFIG_FILE)}"

lemma fixed_state_components:
  "components ''phone/transactions'' = [Normal ''phone'', Normal ''transactions'']"
  "components SCHEDULE_FILE = [Normal ''phone'', Normal ''schedule.json'']"
  "components PHONE_DEVICE_FILE = [Normal ''phone'', Normal ''device.json'']"
  by (simp_all add: components_def part_component_def SCHEDULE_FILE_def PHONE_DEVICE_FILE_def)

lemma epoch_path_resolve: "lib_txid_text L \<Longrightarrow> resolve (epoch_path L data_dir txid) = epoch_root L data_dir txid"
  using resolve_join_safe [of "''phone/transactions''" data_dir]
  by (simp add: epoch_path_def epoch_root_def resolve_join_safe plain_safe plain_txid components_plain
      safe_relative_def fixed_state_components is_absolute_def is_normal_def)

lemma epoch_file:
  "lib_txid_text L \<Longrightarrow> plain_name n \<Longrightarrow>
   resolve (join_str (epoch_path L data_dir txid) n) = epoch_root L data_dir txid @ [Normal n]"
  by (simp add: resolve_join_safe plain_safe components_plain epoch_path_resolve)

lemma epoch_file_key [intro]:
  "lib_txid_text L \<Longrightarrow> plain_name n \<Longrightarrow> resolve (join_str (epoch_path L data_dir txid) n) \<in> epoch_keys L data_dir txid"
  by (simp add: epoch_file epoch_keys_def)

lemma encrypted_transaction_path_key:
  "lib_txid_text L \<Longrightarrow>
   resolve (encrypted_transaction_path (epoch_path L data_dir txid) step kind) \<in> epoch_keys L data_dir txid"
  unfolding encrypted_transaction_path_def by (rule epoch_file_key) (assumption, rule plain_artifacts)

lemma emergency_transaction_path_key:
  "lib_txid_text L \<Longrightarrow>
   resolve (emergency_transaction_path L (epoch_path L data_dir txid) kind t) \<in> epoch_keys L data_dir txid"
  unfolding emergency_transaction_path_def by (rule epoch_file_key) (assumption, rule plain_artifacts)

lemma schedule_key_eq: "schedule_key data_dir = resolve data_dir @ [Normal ''phone'', Normal ''schedule.json'']"
  unfolding schedule_key_def
  by (subst resolve_join_safe) (simp_all add: safe_relative_def fixed_state_components is_absolute_def is_normal_def)

lemma config_key_eq:
  "config_keys data_dir = {resolve data_dir @ [Normal ''anzen.json''], resolve data_dir @ [Normal ''vault.json'']}"
  by (simp add: config_keys_def resolve_join_safe plain_safe components_plain plain_name_def CONFIG_FILE_def
      LEGACY_CONFIG_FILE_def)

lemma epoch_key_other:
  "schedule_key data_dir \<notin> epoch_keys L data_dir txid" "config_keys data_dir \<inter> epoch_keys L data_dir txid = {}"
  "schedule_key data_dir \<notin> config_keys data_dir"
  by (auto simp: schedule_key_eq config_key_eq epoch_keys_def epoch_root_def)

lemma epoch_keys_disjoint:
  "lib_txid_text L \<Longrightarrow> t \<noteq> u \<Longrightarrow> epoch_keys L data_dir t \<inter> epoch_keys L data_dir u = {}"
  by (auto simp: epoch_keys_def epoch_root_def dest: lib_txid_text_inj)

section \<open>What an activation changes\<close>

lemma touches_write_encrypted_transaction:
  "resolve p \<in> S \<Longrightarrow> touches S w (snd (write_encrypted_transaction L Y C nonce p seed step kind psbt w))"
  by (auto simp: write_encrypted_transaction_def Let_def intro!: touches_bindM touches_write_json)

lemma touches_write_encrypted_emergency:
  "resolve p \<in> S \<Longrightarrow> touches S w (snd (write_encrypted_emergency_transaction L Y C nonce p seed kind psbt w))"
  by (auto simp: write_encrypted_emergency_transaction_def Let_def intro!: touches_bindM touches_write_json)

definition allowance_keys :: "path \<Rightarrow> nat set \<Rightarrow> path set" where
  "allowance_keys epoch_dir steps = (\<lambda>step. resolve (encrypted_transaction_path epoch_dir step Authorization)) ` steps"

definition emergency_artifact_keys :: "lib \<Rightarrow> path \<Rightarrow> path set" where
  "emergency_artifact_keys L epoch_dir = {resolve (emergency_transaction_path L epoch_dir kind t) | kind t. True}"

lemma touches_stage_allowances:
  "touches (allowance_keys epoch_dir (al_step ` set as)) w
    (snd (stage_allowances L Y C nonces data_dir batch_dir epoch_dir seed as w))"
proof (induction "as" arbitrary: w)
  case (Cons a as)
  have "touches (allowance_keys epoch_dir (al_step ` set (a # as))) w
      (snd (stage_allowance L Y C (nonces (al_step a)) data_dir batch_dir epoch_dir seed a w))" for w
    by (auto simp: stage_allowance_def Let_def allowance_keys_def
        intro!: touches_bindM touches_write_encrypted_transaction)
  moreover have "touches (allowance_keys epoch_dir (al_step ` set (a # as))) w
      (snd (stage_allowances L Y C nonces data_dir batch_dir epoch_dir seed as w))" for w
    by (rule touches_mono [OF Cons.IH]) (auto simp: allowance_keys_def)
  ultimately show ?case by (auto intro!: touches_bindM)
qed simp

lemma touches_stage_emergency:
  "touches (emergency_artifact_keys L epoch_dir) w
    (snd (stage_emergency L Y C nonces data_dir batch_dir epoch_dir seed e w))"
  by (auto simp: stage_emergency_def Let_def emergency_artifact_keys_def
      intro!: touches_bindM touches_write_encrypted_emergency)

lemma artifact_keys_epoch:
  assumes "lib_txid_text L"
  shows "allowance_keys (epoch_path L data_dir txid) steps \<subseteq> epoch_keys L data_dir txid"
    and "emergency_artifact_keys L (epoch_path L data_dir txid) \<subseteq> epoch_keys L data_dir txid"
  using encrypted_transaction_path_key [OF assms] emergency_transaction_path_key [OF assms]
  by (auto simp: allowance_keys_def emergency_artifact_keys_def)

lemma touches_stage_epoch:
  assumes "lib_txid_text L"
  shows "touches (epoch_keys L data_dir (compute_txid L tx)) w
    (snd (stage_epoch L Y C nonces data_dir batch_dir seed m tx w))"
  by (auto simp: stage_epoch_def Let_def split: option.split simp del: split_paired_All
      intro!: touches_bindM touches_write_json epoch_file_key [OF assms] plain_artifacts
        touches_mono [OF touches_stage_allowances artifact_keys_epoch(1) [OF assms]]
        touches_mono [OF touches_stage_emergency artifact_keys_epoch(2) [OF assms]])

lemma touches_set_policy_limits: "touches (config_keys data_dir) w (snd (set_policy_limits C data_dir a b w))"
  by (auto simp: set_policy_limits_def Let_def config_path_def config_keys_def
      intro!: touches_bindM touches_write_json split: if_splits)

definition marker_key :: "lib \<Rightarrow> path \<Rightarrow> txid \<Rightarrow> path" where
  "marker_key L data_dir txid = resolve (join_str (epoch_path L data_dir txid) ''activated.json'')"

lemma touches_switch_epoch:
  "touches ({schedule_key data_dir} \<union> config_keys data_dir \<union> range (marker_key L data_dir)) w
    (snd (switch_epoch L C data_dir m previous txid s w))"
proof -
  have "touches ({schedule_key data_dir} \<union> config_keys data_dir \<union> range (marker_key L data_dir)) w
      (snd (set_policy_limits C data_dir a b w))" for a b w
    by (rule touches_mono [OF touches_set_policy_limits]) auto
  then show ?thesis
    by (auto simp: switch_epoch_def schedule_key_def marker_key_def split: option.split
        intro!: touches_bindM touches_write_json)
qed

lemma accepted_broadcast: "accepted (snd (broadcast B tx w)) \<in> {accepted w, accepted w @ [tx]}"
  by (auto simp: broadcast_def split: prod.splits)

lemma files_broadcast [simp]: "files (snd (broadcast B tx w)) = files w"
  by (auto simp: broadcast_def split: prod.splits)

section \<open>The course of an activation\<close>

definition activation_ready ::
  "lib \<Rightarrow> key_lib \<Rightarrow> ('b, 'z) hot_codecs_scheme \<Rightarrow> blockchain \<Rightarrow> path \<Rightarrow> path \<Rightarrow> 'b world \<Rightarrow> batch_manifest \<Rightarrow>
   device_keys \<Rightarrow> transaction \<Rightarrow> txid option \<Rightarrow> bool" where
  \<comment> \<open>everything checked before the first write\<close>
  "activation_ready L K C B data_dir batch_dir w m phone tx previous \<longleftrightarrow>
     (\<exists>config policy psbt. load_config C data_dir w = Inr config \<and> ensure_backend_network B config = Inr ()
        \<and> validate_approved_batch L C config m batch_dir w = Inr policy
        \<and> read_psbt C (join_str batch_dir (psbt_file (rollover m))) w = Inr psbt
        \<and> finalize_vault_psbt L psbt = Inr tx)
   \<and> load_manifest C batch_dir w = Inr m
   \<and> load_device_keys L K C data_dir PHONE_DEVICE_FILE w = Inr phone
   \<and> previous_epoch L C data_dir w = Inr previous
   \<and> \<not> (path_exists w (join_str (epoch_path L data_dir (compute_txid L tx)) ''activated.json'')
        \<and> previous \<noteq> None \<and> previous \<noteq> Some (compute_txid L tx))"

lemma bindM_readM_cases:
  assumes "bindM (readM g) f w = (r, w')"
  obtains e where "r = Inl e" and "w' = w" | x where "g w = Inr x" and "f x w = (r, w')"
  using assms by (cases "g w") (auto simp: bindM_def)

lemma bindM_liftM_cases:
  assumes "bindM (liftM q) f w = (r, w')"
  obtains e where "r = Inl e" and "w' = w" | x where "q = Inr x" and "f x w = (r, w')"
  using assms by (cases q) (auto simp: bindM_def)

lemma activate_policy_cases:
  assumes "activate_policy L K Y C nonces B data_dir batch_dir w = (r, w')"
  obtains (refused) e where "r = Inl e" and "w' = w"
  | (ready) m phone tx previous where "activation_ready L K C B data_dir batch_dir w m phone tx previous"
      and "bindM (stage_epoch L Y C nonces data_dir batch_dir (seed_bytes Y (dk_seed phone)) m tx) (\<lambda>schedule.
        bindM (contextM (Wal (Hot (BroadcastFailed RolloverSent))) (broadcast B tx)) (\<lambda>broadcast_txid.
        if broadcast_txid \<noteq> compute_txid L tx then failM (Wal (Hot (UnexpectedTxid RolloverSent)))
        else switch_epoch L C data_dir m previous (compute_txid L tx) schedule)) w = (r, w')"
  using assms unfolding activate_policy_def Let_def
  apply -
  apply (erule bindM_readM_cases bindM_liftM_cases, blast)+
  subgoal for config u m policy phone psbt tx previous v
    using ready [of m phone tx previous] unfolding activation_ready_def
    by (auto split: if_splits)
  done

section \<open>Staged artifacts open again\<close>

lemma read_json_resolve: "resolve p = resolve q \<Longrightarrow> read_json c p w = read_json c q w"
  by (simp add: read_json_def read_file_def file_at_def)

lemma read_json_touches: "touches S w w' \<Longrightarrow> resolve p \<notin> S \<Longrightarrow> read_json c p w' = read_json c p w"
  by (simp add: read_json_def read_file_def touches_file_at)

lemma join_safe:
  assumes "safe_relative s"
  shows "join_str base s = base @ components s"
proof -
  have "filter (\<lambda>c. c \<noteq> CurDir) (components s) = components s"
    using assms by (auto simp: safe_relative_def is_normal_def intro!: filter_True)
  then show ?thesis using assms by (simp add: join_str_def join_def safe_relative_def)
qed

lemma epoch_path_eq:
  "lib_txid_text L \<Longrightarrow>
   epoch_path L data_dir txid = data_dir @ map Normal [''phone'', ''transactions'', txid_to_string L txid]"
  by (simp add: epoch_path_def join_safe plain_safe plain_txid components_plain safe_relative_def
      fixed_state_components is_absolute_def is_normal_def)

lemma relative_artifact:
  assumes "lib_txid_text L" and "plain_name n" and "p = join_str (epoch_path L data_dir txid) n"
    and "relative_to data_dir p = Inr rel"
  shows "resolve (join_str data_dir rel) = resolve p"
proof -
  have p: "p = data_dir @ map Normal [''phone'', ''transactions'', txid_to_string L txid, n]"
    using assms(1,2,3) by (simp add: epoch_path_eq join_safe plain_safe components_plain)
  have plain: "\<forall>k \<in> set [''phone'', ''transactions'', txid_to_string L txid, n]. plain_name k"
    using assms(2) plain_txid [OF assms(1)] by (simp add: plain_name_def)
  have "\<forall>c \<in> set (map Normal [''phone'', ''transactions'', txid_to_string L txid, n]). is_normal c"
    by (simp add: is_normal_def)
  then show ?thesis
    using relative_to_join [OF _ plain assms(4) [unfolded p]] resolve_append_normal unfolding p by simp
qed

definition opens_authorization ::
  "lib \<Rightarrow> ('b, 'y) crypto_lib_scheme \<Rightarrow> ('b, 'z) hot_codecs_scheme \<Rightarrow> path \<Rightarrow> 'b \<Rightarrow> 'b world \<Rightarrow> schedule_entry \<Rightarrow>
   psbt \<Rightarrow> bool" where
  \<comment> \<open>what \<^verbatim>\<open>broadcast_monthly\<close> checks of a stored authorization before it signs \<open>psbt\<close>\<close>
  "opens_authorization L Y C data_dir seed w e psbt \<longleftrightarrow>
     (\<exists>artifact. read_json (enc_tx_codec C) (join_str data_dir (se_authorization_file e)) w = Inr artifact
        \<and> et_version artifact = 3 \<and> et_step artifact = se_step e \<and> et_kind artifact = Authorization
        \<and> et_txid artifact = se_authorization_txid e
        \<and> open_scheduled_psbt L Y C seed (transaction_purpose (se_step e) Authorization (et_txid artifact))
            (et_txid artifact) (et_psbt artifact) = Inr psbt)"

definition opens_emergency ::
  "lib \<Rightarrow> ('b, 'y) crypto_lib_scheme \<Rightarrow> ('b, 'z) hot_codecs_scheme \<Rightarrow> path \<Rightarrow> 'b \<Rightarrow> 'b world \<Rightarrow>
   emergency_transaction_kind \<Rightarrow> string \<Rightarrow> string \<Rightarrow> psbt \<Rightarrow> bool" where
  \<comment> \<open>what \<^verbatim>\<open>broadcast_emergency_transaction\<close> checks of a stored artifact before it signs \<open>psbt\<close>\<close>
  "opens_emergency L Y C data_dir seed w kind file txid psbt \<longleftrightarrow>
     (\<exists>artifact. read_json (enc_emergency_codec C) (join_str data_dir file) w = Inr artifact
        \<and> ee_version artifact = 2 \<and> ee_kind artifact = kind \<and> ee_txid artifact = txid
        \<and> open_scheduled_psbt L Y C seed (emergency_transaction_purpose kind (ee_txid artifact))
            (ee_txid artifact) (ee_psbt artifact) = Inr psbt)"

definition authorization_staged ::
  "lib \<Rightarrow> ('b, 'y) crypto_lib_scheme \<Rightarrow> ('b, 'z) hot_codecs_scheme \<Rightarrow> path \<Rightarrow> path \<Rightarrow> path \<Rightarrow> 'b \<Rightarrow> 'b world \<Rightarrow> 'b world \<Rightarrow>
   allowance_step \<Rightarrow> schedule_entry \<Rightarrow> bool" where
  \<comment> \<open>the entry of a step holds its address and connectors and opens, in \<open>w\<close>, to the PSBT the batch has for that step in \<open>v\<close>\<close>
  "authorization_staged L Y C data_dir batch_dir epoch_dir seed v w a e \<longleftrightarrow>
     se_step e = al_step a \<and> se_hot_address e = al_hot_address a \<and> se_connector e = connector a
   \<and> se_next_connector e = next_connector a
   \<and> resolve (join_str data_dir (se_authorization_file e))
       = resolve (encrypted_transaction_path epoch_dir (al_step a) Authorization)
   \<and> (\<exists>psbt. read_psbt C (join_str batch_dir (psbt_file (authorization a))) v = Inr psbt
        \<and> se_authorization_txid e = txid_to_string L (compute_txid L (unsigned_tx psbt))
        \<and> opens_authorization L Y C data_dir seed w e psbt)"

definition emergency_staged ::
  "lib \<Rightarrow> ('b, 'y) crypto_lib_scheme \<Rightarrow> ('b, 'z) hot_codecs_scheme \<Rightarrow> path \<Rightarrow> path \<Rightarrow> path \<Rightarrow> 'b \<Rightarrow> 'b world \<Rightarrow> 'b world \<Rightarrow>
   emergency_access_policy \<Rightarrow> emergency_access_schedule \<Rightarrow> bool" where
  \<comment> \<open>likewise the trigger and the withdrawal of the emergency access\<close>
  "emergency_staged L Y C data_dir batch_dir epoch_dir seed v w e x \<longleftrightarrow>
     es_amount_sats x = amount_sats e \<and> es_delay_seconds x = em_delay_seconds e \<and> es_hot_address x = em_hot_address e
   \<and> es_trigger_connector x = trigger_connector e \<and> es_withdrawal_connector x = withdrawal_connector e
   \<and> (\<exists>tp wp. read_psbt C (join_str batch_dir (psbt_file (trigger e))) v = Inr tp
        \<and> read_psbt C (join_str batch_dir (psbt_file (withdrawal e))) v = Inr wp
        \<and> es_trigger_txid x = txid_to_string L (compute_txid L (unsigned_tx tp))
        \<and> es_withdrawal_txid x = txid_to_string L (compute_txid L (unsigned_tx wp))
        \<and> resolve (join_str data_dir (es_trigger_file x))
            = resolve (emergency_transaction_path L epoch_dir Trigger (compute_txid L (unsigned_tx tp)))
        \<and> resolve (join_str data_dir (es_withdrawal_file x))
            = resolve (emergency_transaction_path L epoch_dir Withdrawal (compute_txid L (unsigned_tx wp)))
        \<and> opens_emergency L Y C data_dir seed w Trigger (es_trigger_file x) (es_trigger_txid x) tp
        \<and> opens_emergency L Y C data_dir seed w Withdrawal (es_withdrawal_file x) (es_withdrawal_txid x) wp)"

definition hot_laws :: "('b, 'y) crypto_lib_scheme \<Rightarrow> ('b, 'z) hot_codecs_scheme \<Rightarrow> bool" where
  \<comment> \<open>opening what was sealed, parsing what was printed\<close>
  "hot_laws Y C \<longleftrightarrow> aead_correct Y \<and> codec_ok (enc_tx_codec C) \<and> codec_ok (schedule_codec C) \<and> codec_ok (tx_codec C)
     \<and> codec_ok (blob_codec C) \<and> codec_ok (package_codec C) \<and> codec_ok (enc_emergency_codec C)
     \<and> (\<forall>p. psbt_from_text C (psbt_to_text C p) = Some p) \<and> (\<forall>p. \<exists>t. utf8_string C (psbt_to_text C p) = Some t)"

lemma open_scheduled_sealed:
  assumes "hot_laws Y C"
    and "encrypt Y nonce seed purpose (psbt_to_text C psbt) = Inr blob"
  shows "open_scheduled_psbt L Y C seed purpose (txid_to_string L (compute_txid L (unsigned_tx psbt))) blob = Inr psbt"
proof -
  obtain t where "utf8_string C (psbt_to_text C psbt) = Some t" using assms(1) by (auto simp: hot_laws_def)
  then show ?thesis
    using assms decrypt_encrypt [OF _ assms(2)] by (simp add: open_scheduled_psbt_def hot_laws_def)
qed

lemma stage_allowance_staged:
  assumes "lib_txid_text L" and "hot_laws Y C"
    and "stage_allowance L Y C nonce data_dir batch_dir (epoch_path L data_dir txid) seed a w = (Inr e, w')"
  shows "authorization_staged L Y C data_dir batch_dir (epoch_path L data_dir txid) seed w w' a e"
proof -
  let ?p = "encrypted_transaction_path (epoch_path L data_dir txid) (al_step a) Authorization"
  obtain psbt blob rel where rd: "read_psbt C (join_str batch_dir (psbt_file (authorization a))) w = Inr psbt"
    and p: "encrypt Y nonce seed (transaction_purpose (al_step a) Authorization
        (txid_to_string L (compute_txid L (unsigned_tx psbt)))) (psbt_to_text C psbt) = Inr blob"
    and wr: "write_json (enc_tx_codec C) ?p \<lparr>et_version = 3, et_step = al_step a, et_kind = Authorization,
        et_txid = txid_to_string L (compute_txid L (unsigned_tx psbt)), et_psbt = blob\<rparr> w = (Inr (), w')"
    and rel: "relative_to data_dir ?p = Inr rel"
    and e: "e = \<lparr>se_step = al_step a, se_hot_address = al_hot_address a, se_authorization_file = rel,
       se_authorization_txid = txid_to_string L (compute_txid L (unsigned_tx psbt)),
       se_connector = connector a, se_next_connector = next_connector a\<rparr>"
    using assms(3) by (auto simp: stage_allowance_def write_encrypted_transaction_def Let_def)
  have r: "resolve (join_str data_dir rel) = resolve ?p"
    by (rule relative_artifact [OF assms(1) plain_artifacts(5) _ rel]) (simp add: encrypted_transaction_path_def)
  have "opens_authorization L Y C data_dir seed w' e psbt"
    unfolding opens_authorization_def read_json_resolve [OF r] e
    using json.fetch_put [OF _ wr] assms(2) open_scheduled_sealed [OF assms(2) p]
    by (simp add: hot_laws_def read_json_resolve [OF r])
  then show ?thesis using rd r by (simp add: authorization_staged_def e)
qed

lemma write_encrypted_emergency_opens:
  assumes "hot_laws Y C" and "resolve (join_str data_dir file) = resolve p"
    and "write_encrypted_emergency_transaction L Y C nonce p seed kind psbt w = (Inr (), w')"
  shows "opens_emergency L Y C data_dir seed w' kind file (txid_to_string L (compute_txid L (unsigned_tx psbt))) psbt"
proof -
  let ?t = "txid_to_string L (compute_txid L (unsigned_tx psbt))"
  obtain blob where b: "encrypt Y nonce seed (emergency_transaction_purpose kind ?t) (psbt_to_text C psbt) = Inr blob"
    and wr: "write_json (enc_emergency_codec C) p \<lparr>ee_version = 2, ee_kind = kind, ee_txid = ?t, ee_psbt = blob\<rparr> w = (Inr (), w')"
    using assms(3) by (auto simp: write_encrypted_emergency_transaction_def Let_def)
  show ?thesis
    using json.fetch_put [OF _ wr] assms(1) open_scheduled_sealed [OF assms(1) b]
    by (simp add: opens_emergency_def hot_laws_def read_json_resolve [OF assms(2)])
qed

lemma opens_authorization_touches:
  "touches S w w' \<Longrightarrow> resolve (join_str data_dir (se_authorization_file e)) \<notin> S \<Longrightarrow>
   opens_authorization L Y C data_dir seed w e psbt \<Longrightarrow> opens_authorization L Y C data_dir seed w' e psbt"
  unfolding opens_authorization_def by (metis read_json_touches)

lemma opens_emergency_touches:
  "touches S w w' \<Longrightarrow> resolve (join_str data_dir file) \<notin> S \<Longrightarrow>
   opens_emergency L Y C data_dir seed w kind file txid psbt \<Longrightarrow> opens_emergency L Y C data_dir seed w' kind file txid psbt"
  unfolding opens_emergency_def by (metis read_json_touches)

lemma authorization_staged_touches:
  "touches S w w' \<Longrightarrow> allowance_keys epoch_dir {al_step a} \<inter> S = {} \<Longrightarrow>
   authorization_staged L Y C data_dir batch_dir epoch_dir seed v w a e \<Longrightarrow>
   authorization_staged L Y C data_dir batch_dir epoch_dir seed v w' a e"
  unfolding authorization_staged_def allowance_keys_def by (metis opens_authorization_touches disjoint_iff imageI singletonI)

lemma emergency_staged_touches:
  "touches S w w' \<Longrightarrow> emergency_artifact_keys L epoch_dir \<inter> S = {} \<Longrightarrow>
   emergency_staged L Y C data_dir batch_dir epoch_dir seed v w e x \<Longrightarrow>
   emergency_staged L Y C data_dir batch_dir epoch_dir seed v w' e x"
proof -
  assume t: "touches S w w'" and d: "emergency_artifact_keys L epoch_dir \<inter> S = {}"
    and s: "emergency_staged L Y C data_dir batch_dir epoch_dir seed v w e x"
  have "resolve (emergency_transaction_path L epoch_dir kind u) \<notin> S" for kind u
    using d by (auto simp: emergency_artifact_keys_def)
  then show ?thesis using s opens_emergency_touches [OF t] unfolding emergency_staged_def by metis
qed

definition batch_outside :: "lib \<Rightarrow> path \<Rightarrow> txid \<Rightarrow> path \<Rightarrow> batch_manifest \<Rightarrow> bool" where
  \<comment> \<open>no PSBT of the batch is a file of the epoch\<close>
  "batch_outside L data_dir txid batch_dir m \<longleftrightarrow>
     (\<forall>t \<in> set (manifest_transactions m). resolve (join_str batch_dir (psbt_file t)) \<notin> epoch_keys L data_dir txid)"

lemma read_psbt_touches: "touches S w w' \<Longrightarrow> resolve p \<notin> S \<Longrightarrow> read_psbt C p w' = read_psbt C p w"
  by (simp add: read_psbt_def read_file_def touches_file_at)

lemma authorization_staged_from:
  assumes "touches (epoch_keys L data_dir txid) v u"
    and "resolve (join_str batch_dir (psbt_file (authorization a))) \<notin> epoch_keys L data_dir txid"
  shows "authorization_staged L Y C data_dir batch_dir ep seed u w a e
    = authorization_staged L Y C data_dir batch_dir ep seed v w a e"
  by (simp add: authorization_staged_def read_psbt_touches [OF assms])

lemma emergency_staged_from:
  assumes "touches (epoch_keys L data_dir txid) v u"
    and "resolve (join_str batch_dir (psbt_file (trigger e))) \<notin> epoch_keys L data_dir txid"
    and "resolve (join_str batch_dir (psbt_file (withdrawal e))) \<notin> epoch_keys L data_dir txid"
  shows "emergency_staged L Y C data_dir batch_dir ep seed u w e x
    = emergency_staged L Y C data_dir batch_dir ep seed v w e x"
  by (simp add: emergency_staged_def read_psbt_touches [OF assms(1,2)] read_psbt_touches [OF assms(1,3)])

lemma allowance_path_inj:
  assumes "lib_txid_text L" and "i \<in> set [1..<13]" and "j \<in> set [1..<13]"
    and "resolve (encrypted_transaction_path (epoch_path L data_dir txid) i kind)
      = resolve (encrypted_transaction_path (epoch_path L data_dir txid) j kind)"
  shows "i = j"
proof -
  have "''allowance-'' @ show_nat2 i @ ''-'' @ transaction_kind_name kind @ ''.json''
      = ''allowance-'' @ show_nat2 j @ ''-'' @ transaction_kind_name kind @ ''.json''"
    using assms(4) unfolding encrypted_transaction_path_def epoch_file [OF assms(1) plain_artifacts(5)]
    by (metis last_snoc path_component.inject)
  then show ?thesis using show_nat2_inj [OF assms(2,3)] by simp
qed

lemma stage_allowances_staged:
  assumes "lib_txid_text L" and "hot_laws Y C"
    and "stage_allowances L Y C nonces data_dir batch_dir (epoch_path L data_dir txid) seed as w = (Inr es, w')"
    and "distinct (map al_step as)" and "al_step ` set as \<subseteq> set [1..<13]"
    and "touches (epoch_keys L data_dir txid) v w"
    and "\<forall>a \<in> set as. resolve (join_str batch_dir (psbt_file (authorization a))) \<notin> epoch_keys L data_dir txid"
  shows "list_all2 (authorization_staged L Y C data_dir batch_dir (epoch_path L data_dir txid) seed v w') as es"
  using assms(3-7)
proof (induction "as" arbitrary: es w)
  case Nil
  then show ?case by simp
next
  case (Cons a as)
  let ?ep = "epoch_path L data_dir txid"
  let ?K = "allowance_keys ?ep (al_step ` set as)"
  obtain e w1 fs where st: "stage_allowance L Y C (nonces (al_step a)) data_dir batch_dir ?ep seed a w = (Inr e, w1)"
    and rest: "stage_allowances L Y C nonces data_dir batch_dir ?ep seed as w1 = (Inr fs, w')" and es: "es = e # fs"
    using Cons.prems(1) by auto
  have "touches (epoch_keys L data_dir txid) w (snd (stage_allowance L Y C (nonces (al_step a)) data_dir batch_dir ?ep seed a w))"
    by (auto simp: stage_allowance_def Let_def
        intro!: touches_bindM touches_write_encrypted_transaction encrypted_transaction_path_key [OF assms(1)])
  then have vw1: "touches (epoch_keys L data_dir txid) v w1" using Cons.prems(4) st touches_trans by (metis snd_conv)
  have IH: "list_all2 (authorization_staged L Y C data_dir batch_dir ?ep seed v w') as fs"
    using Cons.IH [OF rest _ _ vw1] Cons.prems by simp
  have t: "touches ?K w1 w'" using touches_stage_allowances [of ?ep "as" w1 L Y C nonces data_dir batch_dir seed] rest by simp
  have "allowance_keys ?ep {al_step a} \<inter> ?K = {}"
  proof (rule ccontr)
    assume "\<not> ?thesis"
    then obtain b where b: "b \<in> set as" "resolve (encrypted_transaction_path ?ep (al_step a) Authorization)
        = resolve (encrypted_transaction_path ?ep (al_step b) Authorization)"
      unfolding allowance_keys_def by auto
    have "al_step a \<in> set [1..<13]" "al_step b \<in> set [1..<13]"
      using Cons.prems(3) b(1) by (auto simp del: set_upt)
    from allowance_path_inj [OF assms(1) this b(2)] have "al_step a = al_step b" .
    then show False using b(1) Cons.prems(2) by simp
  qed
  moreover have "authorization_staged L Y C data_dir batch_dir ?ep seed v w1 a e"
    using stage_allowance_staged [OF assms(1,2) st] Cons.prems(5) by (simp add: authorization_staged_from [OF Cons.prems(4)])
  ultimately have "authorization_staged L Y C data_dir batch_dir ?ep seed v w' a e"
    using authorization_staged_touches [OF t] by blast
  then show ?case using IH es by simp
qed

lemma stage_emergency_staged:
  assumes "lib_txid_text L" and "hot_laws Y C"
    and "stage_emergency L Y C nonces data_dir batch_dir (epoch_path L data_dir txid) seed e w = (Inr x, w')"
  shows "emergency_staged L Y C data_dir batch_dir (epoch_path L data_dir txid) seed w w' e x"
proof -
  let ?ep = "epoch_path L data_dir txid"
  obtain tp wp w1 tfile wfile where rd: "read_psbt C (join_str batch_dir (psbt_file (trigger e))) w = Inr tp"
      "read_psbt C (join_str batch_dir (psbt_file (withdrawal e))) w = Inr wp"
    and t: "write_encrypted_emergency_transaction L Y C (fst nonces)
        (emergency_transaction_path L ?ep Trigger (compute_txid L (unsigned_tx tp))) seed Trigger tp w = (Inr (), w1)"
    and wd: "write_encrypted_emergency_transaction L Y C (snd nonces)
        (emergency_transaction_path L ?ep Withdrawal (compute_txid L (unsigned_tx wp))) seed Withdrawal wp w1 = (Inr (), w')"
    and rel: "relative_to data_dir (emergency_transaction_path L ?ep Trigger (compute_txid L (unsigned_tx tp))) = Inr tfile"
      "relative_to data_dir (emergency_transaction_path L ?ep Withdrawal (compute_txid L (unsigned_tx wp))) = Inr wfile"
    and x: "x = \<lparr>es_amount_sats = amount_sats e, es_delay_seconds = em_delay_seconds e,
       es_hot_address = em_hot_address e,
       es_trigger_file = tfile, es_trigger_txid = txid_to_string L (compute_txid L (unsigned_tx tp)),
       es_withdrawal_file = wfile, es_withdrawal_txid = txid_to_string L (compute_txid L (unsigned_tx wp)),
       es_trigger_connector = trigger_connector e, es_withdrawal_connector = withdrawal_connector e\<rparr>"
    using assms(3) by (auto simp: stage_emergency_def Let_def)
  have r: "resolve (join_str data_dir f) = resolve (emergency_transaction_path L ?ep kind t)"
    if "relative_to data_dir (emergency_transaction_path L ?ep kind t) = Inr f" for f kind t
    by (rule relative_artifact [OF assms(1) plain_artifacts(6) [OF assms(1)] _ that]) (simp add: emergency_transaction_path_def)
  note ot = write_encrypted_emergency_opens [OF assms(2) r [OF rel(1)] t]
  note ow = write_encrypted_emergency_opens [OF assms(2) r [OF rel(2)] wd]
  let ?W = "resolve (emergency_transaction_path L ?ep Withdrawal (compute_txid L (unsigned_tx wp)))"
  have "touches {?W} w1 w'"
    using touches_write_encrypted_emergency [of _ "{?W}" w1] wd by (metis insertI1 snd_conv)
  moreover have "resolve (emergency_transaction_path L ?ep Trigger u) \<noteq> ?W" for u
    unfolding emergency_transaction_path_def epoch_file [OF assms(1) plain_artifacts(6) [OF assms(1)]]
    by (simp add: emergency_transaction_kind_name_def)
  ultimately have "opens_emergency L Y C data_dir seed w' Trigger tfile (txid_to_string L (compute_txid L (unsigned_tx tp))) tp"
    using opens_emergency_touches [OF _ _ ot] by (simp add: r [OF rel(1)])
  then show ?thesis using rd ow r [OF rel(1)] r [OF rel(2)] by (simp add: emergency_staged_def x)
qed

definition epoch_staged ::
  "lib \<Rightarrow> ('b, 'y) crypto_lib_scheme \<Rightarrow> ('b, 'z) hot_codecs_scheme \<Rightarrow> path \<Rightarrow> path \<Rightarrow> 'b \<Rightarrow> batch_manifest \<Rightarrow> transaction \<Rightarrow>
   schedule \<Rightarrow> 'b world \<Rightarrow> 'b world \<Rightarrow> bool" where
  \<comment> \<open>every artifact of the epoch is on the disk of \<open>w\<close>, made from the batch as it stood in \<open>v\<close>\<close>
  "epoch_staged L Y C data_dir batch_dir seed m tx s v w \<longleftrightarrow>
     (let ep = epoch_path L data_dir (compute_txid L tx); txid = txid_to_string L (compute_txid L tx) in
        read_json (tx_codec C) (join_str ep ''rollover.json'') w = Inr tx
      \<and> read_json (schedule_codec C) (join_str ep ''schedule.json'') w = Inr s
      \<and> (\<exists>blob bytes package. read_json (blob_codec C) (join_str ep ''approved-policy.json'') w = Inr blob
           \<and> blob_purpose blob = activation_purpose txid
           \<and> decrypt Y seed (activation_purpose txid) blob = Inr bytes
           \<and> from_json (package_codec C) bytes = Some package \<and> package_from_batch C batch_dir v = Inr package
           \<and> pp_manifest package = m)
      \<and> s = manifest_schedule L m (compute_txid L tx) (sc_entries s) (sc_emergency_access s)
      \<and> list_all2 (authorization_staged L Y C data_dir batch_dir ep seed v w) (allowances m) (sc_entries s)
      \<and> rel_option (emergency_staged L Y C data_dir batch_dir ep seed v w) (emergency_access m) (sc_emergency_access s))"

lemma artifact_keys_distinct:
  assumes "lib_txid_text L"
  shows "resolve (join_str (epoch_path L d t) ''rollover.json'') \<noteq> resolve (join_str (epoch_path L d t) ''approved-policy.json'')"
    and "resolve (join_str (epoch_path L d t) ''schedule.json'') \<noteq> resolve (join_str (epoch_path L d t) ''approved-policy.json'')"
    and "resolve (join_str (epoch_path L d t) ''schedule.json'') \<noteq> resolve (join_str (epoch_path L d t) ''rollover.json'')"
    and "n \<in> {''rollover.json'', ''schedule.json'', ''approved-policy.json''} \<Longrightarrow>
      resolve (join_str (epoch_path L d t) n) \<notin> allowance_keys (epoch_path L d t) steps \<union> emergency_artifact_keys L (epoch_path L d t)"
    and "allowance_keys (epoch_path L d t) steps \<inter> emergency_artifact_keys L (epoch_path L d t) = {}"
proof -
  note f = epoch_file [OF assms]
  have e: "resolve (emergency_transaction_path L (epoch_path L d t) kind u) = epoch_root L d t @
      [Normal (''emergency-'' @ emergency_transaction_kind_name kind @ ''-'' @ txid_to_string L u @ ''.json'')]" for kind u
    unfolding emergency_transaction_path_def by (rule f) (rule plain_artifacts(6) [OF assms])
  have a: "resolve (encrypted_transaction_path (epoch_path L d t) step Authorization) = epoch_root L d t @
      [Normal (''allowance-'' @ show_nat2 step @ ''-'' @ transaction_kind_name Authorization @ ''.json'')]" for step
    unfolding encrypted_transaction_path_def by (rule f) (rule plain_artifacts(5))
  show "resolve (join_str (epoch_path L d t) ''rollover.json'') \<noteq> resolve (join_str (epoch_path L d t) ''approved-policy.json'')"
    "resolve (join_str (epoch_path L d t) ''schedule.json'') \<noteq> resolve (join_str (epoch_path L d t) ''approved-policy.json'')"
    "resolve (join_str (epoch_path L d t) ''schedule.json'') \<noteq> resolve (join_str (epoch_path L d t) ''rollover.json'')"
    by (simp_all add: f plain_artifacts)
  show "resolve (join_str (epoch_path L d t) n) \<notin> allowance_keys (epoch_path L d t) steps \<union> emergency_artifact_keys L (epoch_path L d t)"
    if "n \<in> {''rollover.json'', ''schedule.json'', ''approved-policy.json''}"
    using that unfolding allowance_keys_def emergency_artifact_keys_def e a by (auto simp: f plain_artifacts)
  show "allowance_keys (epoch_path L d t) steps \<inter> emergency_artifact_keys L (epoch_path L d t) = {}"
    unfolding allowance_keys_def emergency_artifact_keys_def e a by auto
qed

lemma validated_steps:
  assumes "validate_batch L C config m dir w = Inr policy"
  shows "distinct (map al_step (allowances m))" and "al_step ` set (allowances m) \<subseteq> set [1..<13]"
proof -
  have steps: "validate_allowance_steps L C config m dir policy controller delay w i as st = Inr u \<Longrightarrow>
      map al_step as = [i + 1..<i + 1 + length as]" for controller delay i "as" st u
  proof (induction "as" arbitrary: i st)
    case (Cons a as)
    from Cons.prems obtain st' where "validate_allowance_step L C config m dir policy controller delay w i a st = Inr st'"
      and rest: "validate_allowance_steps L C config m dir policy controller delay w (Suc i) as st' = Inr u"
      by auto
    then have "al_step a = i + 1"
      by (auto simp: validate_allowance_step_def allowance_metadata_ok_def Let_def split: if_splits prod.splits)
    moreover have "[i + 1..<i + 1 + length (a # as)] = (i + 1) # [Suc i + 1..<Suc i + 1 + length as]"
      by (simp add: upt_conv_Cons del: upt_Suc)
    ultimately show ?case using Cons.IH [OF rest] by simp
  qed simp
  obtain controller psbt where h: "validate_manifest_header config m = Inr ()"
    and al: "validate_allowances L C config m dir policy controller psbt w = Inr ()"
    using assms by (auto simp: validate_batch_def split: if_splits)
  have len: "length (allowances m) \<le> 12"
    using h by (auto simp: validate_manifest_header_def MONTHS_PER_ROLLOVER_def split: if_splits)
  obtain delay st u where "validate_allowance_steps L C config m dir policy controller delay w 0 (allowances m) st = Inr u"
    using al by (auto simp: validate_allowances_def Let_def)
  from steps [OF this] have m: "map al_step (allowances m) = [1..<1 + length (allowances m)]" by simp
  show "distinct (map al_step (allowances m))" unfolding m by simp
  have "al_step ` set (allowances m) = set [1..<1 + length (allowances m)]" using arg_cong [OF m, of set] by simp
  then show "al_step ` set (allowances m) \<subseteq> set [1..<13]" using len by auto
qed

lemma approved_validates:
  "validate_approved_batch L C config m dir w = Inr policy \<Longrightarrow> validate_batch L C config m dir w = Inr policy"
  by (auto simp: validate_approved_batch_def split: if_splits)

lemma stage_epoch_staged:
  assumes laws: "lib_txid_text L" "hot_laws Y C" and m: "load_manifest C batch_dir w = Inr m"
    and steps: "distinct (map al_step (allowances m))" "al_step ` set (allowances m) \<subseteq> set [1..<13]"
    and outside: "batch_outside L data_dir (compute_txid L tx) batch_dir m"
    and run: "stage_epoch L Y C nonces data_dir batch_dir seed m tx w = (Inr s, w')"
  shows "epoch_staged L Y C data_dir batch_dir seed m tx s w w'"
proof -
  let ?t = "compute_txid L tx"
  let ?ep = "epoch_path L data_dir ?t" and ?EK = "epoch_keys L data_dir ?t"
  let ?A = "allowance_keys ?ep (al_step ` set (allowances m))" and ?E = "emergency_artifact_keys L ?ep"
  let ?k = "\<lambda>n. resolve (join_str ?ep n)"
  obtain package bytes blob w1 w2 w3 w4 entries emergency where
    pk: "package_from_batch C batch_dir w = Inr package" "to_json (package_codec C) package = Some bytes"
      "encrypt Y (an_policy nonces) seed (activation_purpose (txid_to_string L ?t)) bytes = Inr blob"
    and wp: "write_json (blob_codec C) (join_str ?ep ''approved-policy.json'') blob w = (Inr (), w1)"
    and wr: "write_json (tx_codec C) (join_str ?ep ''rollover.json'') tx w1 = (Inr (), w2)"
    and wa: "stage_allowances L Y C (an_steps nonces) data_dir batch_dir ?ep seed (allowances m) w2 = (Inr entries, w3)"
    and we: "(case emergency_access m of None \<Rightarrow> returnM None
             | Some e \<Rightarrow> bindM (stage_emergency L Y C (an_emergency nonces) data_dir batch_dir ?ep seed e)
                          (\<lambda>x. returnM (Some x))) w3 = (Inr emergency, w4)"
    and s: "s = manifest_schedule L m ?t entries emergency"
    and ws: "write_json (schedule_codec C) (join_str ?ep ''schedule.json'') s w4 = (Inr (), w')"
    using run unfolding stage_epoch_def Let_def by (auto simp del: split_paired_Ex)
  have manifest: "pp_manifest package = m" using pk(1) m by (auto simp: package_from_batch_def)
  note d = artifact_keys_distinct [OF laws(1), where d = data_dir and t = ?t]
  have t2: "touches {?k ''rollover.json''} w1 w2" and t5: "touches {?k ''schedule.json''} w4 w'"
    using touches_write_json [of _ "{_}"] wr ws by (metis insertI1 snd_conv)+
  have t3: "touches ?A w2 w3" using touches_stage_allowances wa by (metis snd_conv)
  have "touches ?E w (snd ((case emergency_access m of None \<Rightarrow> returnM None
             | Some e \<Rightarrow> bindM (stage_emergency L Y C (an_emergency nonces) data_dir batch_dir ?ep seed e)
                          (\<lambda>x. returnM (Some x))) w))" for w :: "'a world"
    by (auto split: option.split intro!: touches_bindM touches_stage_emergency simp del: split_paired_All)
  then have t4: "touches ?E w3 w4" using we by (metis snd_conv)
  have "touches ?EK w w1" "touches ?EK w1 w2"
    using touches_write_json [OF epoch_file_key [OF laws(1)]] plain_artifacts(1,2) wp wr by (metis snd_conv)+
  then have u2: "touches ?EK w w2" by (rule touches_trans)
  have u3: "touches ?EK w w3" by (rule touches_trans [OF u2 touches_mono [OF t3 artifact_keys_epoch(1) [OF laws(1)]]])
  have keep: "read_json c (join_str ?ep n) w4 = read_json c (join_str ?ep n) w2"
    if "n \<in> {''rollover.json'', ''approved-policy.json''}" for c :: "('a, 'json) codec" and n
  proof -
    have "n \<in> {''rollover.json'', ''schedule.json'', ''approved-policy.json''}" using that by (simp only: insert_iff) blast
    from d(4) [OF this, of "al_step ` set (allowances m)"] have "?k n \<notin> ?A" "?k n \<notin> ?E" by blast+
    then show ?thesis using read_json_touches [OF t3] read_json_touches [OF t4] by metis
  qed
  have off: "?A \<inter> {?k ''schedule.json''} = {}" "?E \<inter> {?k ''schedule.json''} = {}"
    using d(4) [where n = "''schedule.json''"] by blast+
  have "read_json (blob_codec C) (join_str ?ep ''approved-policy.json'') w' = Inr blob"
    using json.fetch_put [OF _ wp] laws(2) d(1,2)
    by (simp add: hot_laws_def keep read_json_touches [OF t2] read_json_touches [OF t5])
  moreover have "read_json (tx_codec C) (join_str ?ep ''rollover.json'') w' = Inr tx"
    using json.fetch_put [OF _ wr] laws(2) d(3)
    by (simp add: hot_laws_def keep read_json_touches [OF t5])
  moreover have "read_json (schedule_codec C) (join_str ?ep ''schedule.json'') w' = Inr s"
    using json.fetch_put [OF _ ws] laws(2) by (simp add: hot_laws_def)
  moreover have "decrypt Y seed (activation_purpose (txid_to_string L ?t)) blob = Inr bytes"
    "blob_purpose blob = activation_purpose (txid_to_string L ?t)" "from_json (package_codec C) bytes = Some package"
    using decrypt_encrypt [OF _ pk(3)] encrypt_purpose [OF pk(3)] pk(2) laws(2) by (simp_all add: hot_laws_def codec_ok_def)
  moreover have "list_all2 (authorization_staged L Y C data_dir batch_dir ?ep seed w w') (allowances m) entries"
  proof -
    have "\<forall>a \<in> set (allowances m). resolve (join_str batch_dir (psbt_file (authorization a))) \<notin> ?EK"
      using outside by (auto simp: batch_outside_def manifest_transactions_def)
    from stage_allowances_staged [OF laws wa steps u2 this]
    have "list_all2 (authorization_staged L Y C data_dir batch_dir ?ep seed w w3) (allowances m) entries" .
    then show ?thesis
    proof (rule list.rel_mono_strong)
      fix a e assume a: "a \<in> set (allowances m)" and st: "authorization_staged L Y C data_dir batch_dir ?ep seed w w3 a e"
      have "allowance_keys ?ep {al_step a} \<subseteq> ?A" using a by (auto simp: allowance_keys_def)
      then have "allowance_keys ?ep {al_step a} \<inter> ?E = {}" "allowance_keys ?ep {al_step a} \<inter> {?k ''schedule.json''} = {}"
        using d(5) off(1) by blast+
      then show "authorization_staged L Y C data_dir batch_dir ?ep seed w w' a e"
        using authorization_staged_touches [OF t5 _ authorization_staged_touches [OF t4 _ st]] by blast
    qed
  qed
  moreover have "rel_option (emergency_staged L Y C data_dir batch_dir ?ep seed w w') (emergency_access m) emergency"
  proof (cases "emergency_access m")
    case None
    then show ?thesis using we by simp
  next
    case (Some e)
    then obtain x where x: "stage_emergency L Y C (an_emergency nonces) data_dir batch_dir ?ep seed e w3 = (Inr x, w4)"
      and em: "emergency = Some x" using we by auto
    have "resolve (join_str batch_dir (psbt_file (trigger e))) \<notin> ?EK" "resolve (join_str batch_dir (psbt_file (withdrawal e))) \<notin> ?EK"
      using outside Some by (auto simp: batch_outside_def manifest_transactions_def)
    then have "emergency_staged L Y C data_dir batch_dir ?ep seed w w4 e x"
      using stage_emergency_staged [OF laws x] by (simp add: emergency_staged_from [OF u3])
    from emergency_staged_touches [OF t5 off(2) this] show ?thesis using Some em by simp
  qed
  ultimately show ?thesis
    using manifest pk(1) by (auto simp: epoch_staged_def Let_def s manifest_schedule_def)
qed

lemma stage_epoch_schedule:
  "stage_epoch L Y C nonces data_dir batch_dir seed m tx w = (Inr s, w') \<Longrightarrow>
   sc_version s = 5 \<and> sc_rollover_txid s = txid_to_string L (compute_txid L tx)"
  by (auto simp: stage_epoch_def Let_def manifest_schedule_def)

definition switch_keys :: "lib \<Rightarrow> path \<Rightarrow> path set" where
  "switch_keys L data_dir = {schedule_key data_dir} \<union> config_keys data_dir \<union> range (marker_key L data_dir)"

lemma switch_keys_artifacts:
  assumes "lib_txid_text L"
  shows "plain_name n \<Longrightarrow> n \<noteq> ''activated.json'' \<Longrightarrow> resolve (join_str (epoch_path L d t) n) \<notin> switch_keys L d"
    and "allowance_keys (epoch_path L d t) steps \<inter> switch_keys L d = {}"
    and "emergency_artifact_keys L (epoch_path L d t) \<inter> switch_keys L d = {}"
proof -
  have k: "marker_key L d u = epoch_root L d u @ [Normal ''activated.json'']" for u
    unfolding marker_key_def by (rule epoch_file [OF assms plain_artifacts(4)])
  have plain: "resolve (join_str (epoch_path L d t) n) \<notin> switch_keys L d"
    if "plain_name n" "n \<noteq> ''activated.json''" for n
    using that unfolding switch_keys_def epoch_file [OF assms that(1)] k
    by (auto simp: schedule_key_eq config_key_eq epoch_root_def)
  then show "plain_name n \<Longrightarrow> n \<noteq> ''activated.json'' \<Longrightarrow> resolve (join_str (epoch_path L d t) n) \<notin> switch_keys L d" .
  have "''allowance-'' @ show_nat2 i @ ''-'' @ transaction_kind_name Authorization @ ''.json'' \<noteq> ''activated.json''" for i
    by simp
  from plain [OF plain_artifacts(5) this] show "allowance_keys (epoch_path L d t) steps \<inter> switch_keys L d = {}"
    by (auto simp: allowance_keys_def encrypted_transaction_path_def simp del: append_Cons)
  have "''emergency-'' @ emergency_transaction_kind_name kind @ ''-'' @ txid_to_string L u @ ''.json'' \<noteq> ''activated.json''" for kind u
    by simp
  from plain [OF plain_artifacts(6) [OF assms] this] show "emergency_artifact_keys L (epoch_path L d t) \<inter> switch_keys L d = {}"
    by (auto simp: emergency_artifact_keys_def emergency_transaction_path_def simp del: append_Cons)
qed

lemma epoch_staged_switch:
  assumes "lib_txid_text L" and "epoch_staged L Y C data_dir batch_dir seed m tx s v w" and "touches (switch_keys L data_dir) w w'"
  shows "epoch_staged L Y C data_dir batch_dir seed m tx s v w'"
proof -
  let ?ep = "epoch_path L data_dir (compute_txid L tx)"
  have "list_all2 (authorization_staged L Y C data_dir batch_dir ?ep seed v w) (allowances m) (sc_entries s)"
    and "rel_option (emergency_staged L Y C data_dir batch_dir ?ep seed v w) (emergency_access m) (sc_emergency_access s)"
    using assms(2) by (simp_all add: epoch_staged_def Let_def)
  then have "list_all2 (authorization_staged L Y C data_dir batch_dir ?ep seed v w') (allowances m) (sc_entries s)"
    and "rel_option (emergency_staged L Y C data_dir batch_dir ?ep seed v w') (emergency_access m) (sc_emergency_access s)"
    using authorization_staged_touches [OF assms(3) switch_keys_artifacts(2) [OF assms(1)]]
      emergency_staged_touches [OF assms(3) switch_keys_artifacts(3) [OF assms(1)]]
    by (auto elim!: list.rel_mono_strong option.rel_mono_strong)
  moreover have keep: "read_json c (join_str ?ep n) w' = read_json c (join_str ?ep n) w"
    if "plain_name n" "n \<noteq> ''activated.json''" for c :: "('a, 'json) codec" and n
    using read_json_touches [OF assms(3) switch_keys_artifacts(1) [OF assms(1) that]] .
  ultimately show ?thesis
    using assms(2) by (simp add: epoch_staged_def Let_def plain_artifacts keep)
qed

lemma epoch_staged_same_files:
  "files w' = files w \<Longrightarrow> epoch_staged L Y C data_dir batch_dir seed m tx s v w' = epoch_staged L Y C data_dir batch_dir seed m tx s v w"
  by (simp add: epoch_staged_def Let_def authorization_staged_def emergency_staged_def opens_authorization_def opens_emergency_def
      read_json_def read_file_def file_at_def cong: list.rel_cong option.rel_cong)

section \<open>Outcomes\<close>

lemma marker_key_other:
  assumes "lib_txid_text L"
  shows "schedule_key data_dir \<notin> range (marker_key L data_dir)"
    and "config_keys data_dir \<inter> range (marker_key L data_dir) = {}"
proof -
  have k: "marker_key L data_dir u = epoch_root L data_dir u @ [Normal ''activated.json'']" for u
    unfolding marker_key_def by (rule epoch_file [OF assms plain_artifacts(4)])
  show "schedule_key data_dir \<notin> range (marker_key L data_dir)"
    "config_keys data_dir \<inter> range (marker_key L data_dir) = {}"
    unfolding k by (auto simp: schedule_key_eq config_key_eq epoch_root_def)
qed

lemma switch_epoch_schedule:
  assumes "lib_txid_text L" and "codec_ok (schedule_codec C)" and "switch_epoch L C data_dir m previous txid s w = (r, w')"
  shows "read_json (schedule_codec C) (join_str data_dir SCHEDULE_FILE) w'
      = read_json (schedule_codec C) (join_str data_dir SCHEDULE_FILE) w
    \<or> read_json (schedule_codec C) (join_str data_dir SCHEDULE_FILE) w' = Inr s"
proof -
  let ?R = "\<lambda>w. read_json (schedule_codec C) (join_str data_dir SCHEDULE_FILE) w"
  let ?M = "range (marker_key L data_dir)"
  have k: "schedule_key data_dir \<notin> ?M" "schedule_key data_dir \<notin> config_keys data_dir"
    using marker_key_other [OF assms(1)] epoch_key_other(3) by auto
  have mark: "?R (snd (contextM e (write_json (bool_codec C) (join_str (epoch_path L data_dir t) ''activated.json'') b) w))
      = ?R w"
    "?R (snd (write_json (bool_codec C) (join_str (epoch_path L data_dir t) ''activated.json'') b w)) = ?R w" for e t b w
  proof -
    have "touches ?M w (snd (write_json (bool_codec C) (join_str (epoch_path L data_dir t) ''activated.json'') b w))"
      by (rule touches_write_json) (simp add: marker_key_def)
    from read_json_touches [OF this, of "join_str data_dir SCHEDULE_FILE"] k(1) [unfolded schedule_key_def]
    show "?R (snd (contextM e (write_json (bool_codec C) (join_str (epoch_path L data_dir t) ''activated.json'') b) w))
      = ?R w"
      "?R (snd (write_json (bool_codec C) (join_str (epoch_path L data_dir t) ''activated.json'') b w)) = ?R w"
      by simp_all
  qed
  have lim: "?R (snd (contextM e (set_policy_limits C data_dir a b) w)) = ?R w" for e a b w
    using read_json_touches [OF touches_set_policy_limits, of "join_str data_dir SCHEDULE_FILE"] k
    by (auto simp: schedule_key_def)
  have wr: "?R (snd (contextM e (write_json (schedule_codec C) (join_str data_dir SCHEDULE_FILE) s) w)) \<in> {?R w, Inr s}"
    for e w using json.put_atomic [OF assms(2)] by (metis contextM_snd insert_iff prod.collapse)
  define Q where "Q v \<longleftrightarrow> ?R v \<in> {?R w, Inr s}" for v
  have fr: "Q (snd (bindM n f v))" if "Q (snd (n v))" "\<And>x u. Q u \<Longrightarrow> Q (snd (f x u))"
    for n v and f :: "'g \<Rightarrow> ('a, schedule) io"
    using that by (cases "n v"; cases "fst (n v)") (auto simp: bindM_def)
  have Q: "Q w" "Q u \<Longrightarrow> Q (snd (contextM e (write_json (schedule_codec C) (join_str data_dir SCHEDULE_FILE) s) u))"
    "Q u \<Longrightarrow> Q (snd (contextM e (write_json (bool_codec C) (join_str (epoch_path L data_dir t) ''activated.json'') b) u))"
    "Q u \<Longrightarrow> Q (snd (write_json (bool_codec C) (join_str (epoch_path L data_dir t) ''activated.json'') b u))"
    "Q u \<Longrightarrow> Q (snd (contextM e (set_policy_limits C data_dir c d) u))" for u e t b c d
    unfolding Q_def mark lim using wr [of e u] by auto
  have "Q (snd (switch_epoch L C data_dir m previous txid s w))"
    unfolding switch_epoch_def using Q by (intro fr) (auto split: option.split)
  then have "?R (snd (switch_epoch L C data_dir m previous txid s w)) \<in> {?R w, Inr s}" unfolding Q_def .
  then show ?thesis using assms(3) by simp
qed

lemma switch_epoch_Inr:
  assumes "lib_txid_text L" and "codec_ok (schedule_codec C)" and "codec_ok (config_codec C)"
    and "switch_epoch L C data_dir m previous txid s w = (Inr s', w')"
  shows "s' = s" and "read_json (schedule_codec C) (join_str data_dir SCHEDULE_FILE) w' = Inr s"
    and "\<exists>p config. resolve p \<in> config_keys data_dir \<and> read_json (config_codec C) p w' = Inr config
      \<and> vc_monthly_limit_sats config = monthly_limit_sats m
      \<and> vc_emergency_access_limit_sats config = emergency_access_limit_sats m"
proof -
  let ?M = "range (marker_key L data_dir)"
  let ?S = "join_str data_dir SCHEDULE_FILE"
  have k: "schedule_key data_dir \<notin> ?M" "schedule_key data_dir \<notin> config_keys data_dir"
    "config_keys data_dir \<inter> ?M = {}"
    using marker_key_other [OF assms(1)] epoch_key_other(3) by auto
  obtain w1 w2 w3 config where s: "s' = s"
    and ws: "write_json (schedule_codec C) ?S s w1 = (Inr (), w2)"
    and wc: "write_json (config_codec C) (config_path data_dir w2) (config\<lparr>vc_monthly_limit_sats := monthly_limit_sats m,
        vc_emergency_access_limit_sats := emergency_access_limit_sats m\<rparr>) w2 = (Inr (), w3)"
    and wm: "write_json (bool_codec C) (join_str (epoch_path L data_dir txid) ''activated.json'') True w3 = (Inr (), w')"
    using assms(4) by (auto simp: switch_epoch_def set_policy_limits_def Let_def)
  have p: "resolve (config_path data_dir w2) \<in> config_keys data_dir"
    by (simp add: config_path_def config_keys_def Let_def)
  have tm: "touches ?M w3 w'" using touches_write_json [of _ ?M] wm by (metis marker_key_def rangeI snd_conv)
  have tc: "touches (config_keys data_dir) w2 w3" using touches_write_json [OF p] wc by (metis snd_conv)
  show "s' = s" by (fact s)
  show "read_json (schedule_codec C) ?S w' = Inr s"
    using json.fetch_put [OF assms(2) ws] k(1,2)
    by (simp add: read_json_touches [OF tm] read_json_touches [OF tc] schedule_key_def)
  have "resolve (config_path data_dir w2) \<notin> ?M" using p k(3) by blast
  then show "\<exists>p config. resolve p \<in> config_keys data_dir \<and> read_json (config_codec C) p w' = Inr config
      \<and> vc_monthly_limit_sats config = monthly_limit_sats m
      \<and> vc_emergency_access_limit_sats config = emergency_access_limit_sats m"
    using json.fetch_put [OF assms(3) wc] p
    by (intro exI [of _ "config_path data_dir w2"]) (simp add: read_json_touches [OF tm])
qed

lemma bindM_cases:
  assumes "bindM n f w = (r, w')"
  obtains (failed) e where "n w = (Inl e, w')" and "r = Inl e"
  | (continued) x w1 where "n w = (Inr x, w1)" and "f x w1 = (r, w')"
  using assms by (auto simp: bindM_def split: prod.splits sum.splits)

lemma ready_validated:
  assumes "activation_ready L K C B data_dir batch_dir w m phone tx previous"
  shows "load_manifest C batch_dir w = Inr m" and "distinct (map al_step (allowances m))"
    and "al_step ` set (allowances m) \<subseteq> set [1..<13]"
proof -
  obtain config policy where "validate_approved_batch L C config m batch_dir w = Inr policy"
    using assms by (auto simp: activation_ready_def)
  from validated_steps [OF approved_validates [OF this]]
  show "distinct (map al_step (allowances m))" "al_step ` set (allowances m) \<subseteq> set [1..<13]" .
qed (use assms in \<open>simp add: activation_ready_def\<close>)

lemma activation_outcome:
  assumes laws: "lib_txid_text L" "hot_laws Y C"
    and run: "activate_policy L K Y C nonces B data_dir batch_dir w = (r, w')"
  obtains (refused) e where "r = Inl e" and "w' = w"
  | (interrupted) m phone tx previous e where "activation_ready L K C B data_dir batch_dir w m phone tx previous"
      and "touches (epoch_keys L data_dir (compute_txid L tx)) w w'" and "r = Inl e"
  | (broadcasted) m phone tx previous s w1 q w2 where "activation_ready L K C B data_dir batch_dir w m phone tx previous"
      and "touches (epoch_keys L data_dir (compute_txid L tx)) w w1"
      and "stage_epoch L Y C nonces data_dir batch_dir (seed_bytes Y (dk_seed phone)) m tx w = (Inr s, w1)"
      and "batch_outside L data_dir (compute_txid L tx) batch_dir m \<Longrightarrow>
        epoch_staged L Y C data_dir batch_dir (seed_bytes Y (dk_seed phone)) m tx s w w1"
      and "broadcast B tx w1 = (q, w2)"
      and "q \<noteq> Inr (compute_txid L tx) \<and> w' = w2 \<and> (\<exists>e. r = Inl e)
        \<or> q = Inr (compute_txid L tx) \<and> switch_epoch L C data_dir m previous (compute_txid L tx) s w2 = (r, w')"
  using run
proof (cases rule: activate_policy_cases)
  case (refused e)
  then show thesis by (rule that(1))
next
  case (ready m phone tx previous)
  note v = ready_validated [OF ready(1)]
  from ready(2) show thesis
  proof (cases rule: bindM_cases)
    case (failed e)
    then show thesis using that(2) [OF ready(1)] touches_stage_epoch [OF laws(1)] by (metis snd_conv)
  next
    case (continued s w1)
    have t: "touches (epoch_keys L data_dir (compute_txid L tx)) w w1"
      using touches_stage_epoch [OF laws(1)] continued(1) by (metis snd_conv)
    obtain q w2 where b: "broadcast B tx w1 = (q, w2)" by (cases "broadcast B tx w1")
    have "q \<noteq> Inr (compute_txid L tx) \<and> w' = w2 \<and> (\<exists>e. r = Inl e)
        \<or> q = Inr (compute_txid L tx) \<and> switch_epoch L C data_dir m previous (compute_txid L tx) s w2 = (r, w')"
      using continued(2) b by (cases q) (auto simp: bindM_def contextM_def split: if_splits)
    then show thesis
      using that(3) [OF ready(1) t continued(1) stage_epoch_staged [OF laws v _ continued(1)] b] by blast
  qed
qed

text \<open>The schedule pointer moves only to the schedule of an approved batch whose rollover was accepted.\<close>

lemma activation_schedule_safe:
  assumes laws: "lib_txid_text L" "hot_laws Y C"
    and outside: "\<forall>m t. load_manifest C batch_dir w = Inr m \<longrightarrow> batch_outside L data_dir t batch_dir m"
    and run: "activate_policy L K Y C nonces B data_dir batch_dir w = (r, w')"
    and moved: "read_json (schedule_codec C) (join_str data_dir SCHEDULE_FILE) w'
      \<noteq> read_json (schedule_codec C) (join_str data_dir SCHEDULE_FILE) w"
  obtains m phone tx previous s w1 taken where "activation_ready L K C B data_dir batch_dir w m phone tx previous"
    and "bc_broadcast B (accepted w) tx = (taken, Inr (compute_txid L tx))"
    and "read_json (schedule_codec C) (join_str data_dir SCHEDULE_FILE) w' = Inr s"
    and "epoch_staged L Y C data_dir batch_dir (seed_bytes Y (dk_seed phone)) m tx s w w'"
proof -
  let ?S = "join_str data_dir SCHEDULE_FILE"
  have same: "read_json (schedule_codec C) ?S v = read_json (schedule_codec C) ?S w"
    if "touches (epoch_keys L data_dir t) w v" for v t
    using read_json_touches [OF that, of ?S] epoch_key_other(1) by (simp add: schedule_key_def)
  have bro: "read_json (schedule_codec C) ?S w2 = read_json (schedule_codec C) ?S w1" if "broadcast B tx w1 = (q, w2)"
    for tx w1 q w2 using that files_broadcast [of B tx w1] by (simp add: read_json_def read_file_def file_at_def)
  from laws run show thesis
  proof (cases rule: activation_outcome)
    case (refused e)
    then show thesis using moved by simp
  next
    case (interrupted m phone tx previous e)
    then show thesis using moved same by blast
  next
    case (broadcasted m phone tx previous s w1 q w2)
    then have q: "q = Inr (compute_txid L tx)" and sw: "switch_epoch L C data_dir m previous (compute_txid L tx) s w2 = (r, w')"
      using moved same [OF broadcasted(2)] bro [OF broadcasted(5)] by auto
    have s: "read_json (schedule_codec C) ?S w' = Inr s"
      using switch_epoch_schedule [OF laws(1) _ sw] laws(2) moved same [OF broadcasted(2)] bro [OF broadcasted(5)]
      by (auto simp: hot_laws_def)
    have f: "files w2 = files w1" using files_broadcast [of B tx w1] broadcasted(5) by simp
    have "load_manifest C batch_dir w = Inr m" using broadcasted(1) by (simp add: activation_ready_def)
    then have st: "epoch_staged L Y C data_dir batch_dir (seed_bytes Y (dk_seed phone)) m tx s w w2"
      using broadcasted(4) outside epoch_staged_same_files [OF f] by blast
    have "touches (switch_keys L data_dir) w2 w'"
      using touches_switch_epoch [where w = w2] sw unfolding switch_keys_def by (metis snd_conv)
    from epoch_staged_switch [OF laws(1) st this]
    have st': "epoch_staged L Y C data_dir batch_dir (seed_bytes Y (dk_seed phone)) m tx s w w'" .
    have "accepted w1 = accepted w" using broadcasted(2) by (simp add: touches_def)
    then obtain taken where "bc_broadcast B (accepted w) tx = (taken, Inr (compute_txid L tx))"
      using broadcasted(5) q by (auto simp: broadcast_def split: prod.splits)
    then show thesis using that broadcasted(1) s st' by blast
  qed
qed

text \<open>The network is handed one transaction, and only once everything needed to retry is on disk.\<close>

lemma activation_broadcast_staged:
  assumes laws: "lib_txid_text L" "hot_laws Y C"
    and outside: "\<forall>m t. load_manifest C batch_dir w = Inr m \<longrightarrow> batch_outside L data_dir t batch_dir m"
    and run: "activate_policy L K Y C nonces B data_dir batch_dir w = (r, w')"
    and sent: "accepted w' \<noteq> accepted w"
  obtains m phone tx previous s where "activation_ready L K C B data_dir batch_dir w m phone tx previous"
    and "accepted w' = accepted w @ [tx]"
    and "epoch_staged L Y C data_dir batch_dir (seed_bytes Y (dk_seed phone)) m tx s w w'"
  using laws run
proof (cases rule: activation_outcome)
  case (refused e)
  then show thesis using sent by simp
next
  case (interrupted m phone tx previous e)
  then show thesis using sent by (simp add: touches_def)
next
  case (broadcasted m phone tx previous s w1 q w2)
  have a: "accepted w2 = accepted w \<or> accepted w2 = accepted w @ [tx]"
    using accepted_broadcast [of B tx w1] broadcasted(2,5) by (simp add: touches_def)
  have f: "files w2 = files w1" using files_broadcast [of B tx w1] broadcasted(5) by simp
  have "load_manifest C batch_dir w = Inr m" using broadcasted(1) by (simp add: activation_ready_def)
  then have st: "epoch_staged L Y C data_dir batch_dir (seed_bytes Y (dk_seed phone)) m tx s w w2"
    using broadcasted(4) outside epoch_staged_same_files [OF f] by blast
  show thesis
  proof (cases "q = Inr (compute_txid L tx)")
    case False
    then show thesis using broadcasted(6) a sent st that broadcasted(1) by blast
  next
    case True
    have t: "touches (switch_keys L data_dir) w2 w'"
      using touches_switch_epoch [where w = w2] broadcasted(6) True unfolding switch_keys_def by (metis snd_conv)
    then have "accepted w' = accepted w2" by (simp add: touches_def)
    then show thesis
      using a sent that broadcasted(1) epoch_staged_switch [OF laws(1) st t] by metis
  qed
qed

lemma activation_completes:
  assumes laws: "lib_txid_text L" "hot_laws Y C" "codec_ok (config_codec C)"
    and run: "activate_policy L K Y C nonces B data_dir batch_dir w = (Inr s, w')"
  obtains m phone tx previous where "activation_ready L K C B data_dir batch_dir w m phone tx previous"
    and "load_schedule C data_dir w' = Inr s" and "sc_rollover_txid s = txid_to_string L (compute_txid L tx)"
    and "\<exists>p config. resolve p \<in> config_keys data_dir \<and> read_json (config_codec C) p w' = Inr config
      \<and> vc_monthly_limit_sats config = monthly_limit_sats m
      \<and> vc_emergency_access_limit_sats config = emergency_access_limit_sats m"
  using laws(1,2) run
proof (cases rule: activation_outcome)
  case (broadcasted m phone tx previous s' w1 q w2)
  then have sw: "switch_epoch L C data_dir m previous (compute_txid L tx) s' w2 = (Inr s, w')" by auto
  have sc: "codec_ok (schedule_codec C)" using laws(2) by (simp add: hot_laws_def)
  note o = switch_epoch_Inr [OF laws(1) sc laws(3) sw]
  have "sc_version s' = 5" "sc_rollover_txid s' = txid_to_string L (compute_txid L tx)"
    using stage_epoch_schedule [OF broadcasted(3)] by simp_all
  then show thesis using that [OF broadcasted(1) _ _ o(3)] o(1,2) by (simp add: load_schedule_def)
qed auto

text \<open>A superseded epoch is refused with nothing changed.\<close>

lemma superseded_refused:
  assumes "previous_epoch L C data_dir w = Inr (Some prev)" and "prev \<noteq> compute_txid L tx"
    and "path_exists w (join_str (epoch_path L data_dir (compute_txid L tx)) ''activated.json'')"
    and "load_manifest C batch_dir w = Inr m" and "read_psbt C (join_str batch_dir (psbt_file (rollover m))) w = Inr psbt"
    and "finalize_vault_psbt L psbt = Inr tx"
  shows "\<exists>e. activate_policy L K Y C nonces B data_dir batch_dir w = (Inl e, w)"
proof -
  obtain r w' where run: "activate_policy L K Y C nonces B data_dir batch_dir w = (r, w')"
    by (cases "activate_policy L K Y C nonces B data_dir batch_dir w")
  then show ?thesis
    by (cases rule: activate_policy_cases) (use assms in \<open>auto simp: activation_ready_def run\<close>)
qed

end
