(* ===== verification/Demo_Laws.thy ===== *)
theory Demo_Laws
  imports Demo_Lib Activation
begin

text \<open>
  The libraries of \<open>Demo_Lib\<close> keep every law the development asks of them: the Bitcoin library, the
  text form of transaction ids (decimal digits, read back), the authenticated cipher and the codecs.
\<close>

lemma demo_laws: "lib_laws demo_lib"
  by (simp add: lib_laws_def demo_psbt_laws demo_sign_laws demo_size_laws)

lemma digit_of_char: "d < 10 \<Longrightarrow> of_char (digit_char d) = 48 + d"
  by (simp add: digit_char_def)

lemma demo_digits_append:
  "demo_digits acc (s @ [digit_char d]) = map_option (\<lambda>n. 10 * n + d) (demo_digits acc s)" if "d < 10"
  using that by (induction s arbitrary: acc) (simp_all add: digit_of_char Let_def)

lemma demo_digits_show: "demo_digits 0 (show_nat n) = Some n"
proof (induction n rule: less_induct)
  case (less n)
  show ?case
  proof (cases "n < 10")
    case True
    then show ?thesis using demo_digits_append [of n 0 "[]"] by (subst show_nat.simps) simp
  next
    case False
    then have "demo_digits 0 (show_nat (n div 10)) = Some (n div 10)" by (intro less.IH) simp
    then show ?thesis using False demo_digits_append [of "n mod 10" 0 "show_nat (n div 10)"]
      by (subst show_nat.simps) simp
  qed
qed

lemma digit_char_hex: "d < 10 \<Longrightarrow> digit_char d \<in> set ''0123456789abcdef''"
proof -
  have "\<forall>d < 10. digit_char d \<in> set ''0123456789abcdef''" unfolding digit_char_def by code_simp
  then show "d < 10 \<Longrightarrow> digit_char d \<in> set ''0123456789abcdef''" by blast
qed

lemma show_nat_hex: "set (show_nat n) \<subseteq> set ''0123456789abcdef'' \<and> show_nat n \<noteq> []"
proof (induction n rule: less_induct)
  case (less n)
  show ?case
  proof (cases "n < 10")
    case True
    then show ?thesis using digit_char_hex [of n] by (subst (1 2) show_nat.simps) simp
  next
    case False
    then have "set (show_nat (n div 10)) \<subseteq> set ''0123456789abcdef''" using less.IH [of "n div 10"] by simp
    moreover have "digit_char (n mod 10) \<in> set ''0123456789abcdef''" by (rule digit_char_hex) simp
    ultimately show ?thesis using False by (subst (1 2) show_nat.simps) simp
  qed
qed

lemma demo_txid_text: "lib_txid_text demo_lib"
  using show_nat_hex by (simp only: lib_txid_text_def demo_lib_def lib.simps demo_digits_show) blast

lemma demo_hot_laws: "hot_laws demo_crypto demo_codecs"
  by (auto simp: hot_laws_def demo_aead codec_ok_def demo_codecs_def)

end
