(* ===== verification/Vanity.thy ===== *)
theory Vanity
  imports Hot_Wallet
begin

unbundle bit_operations_syntax

text \<open>
  The vanity search of \<^verbatim>\<open>src/hot_wallet/mod.rs\<close>: the prefix test on the output key, the worker
  threads that share the index space as a step relation on their shared atomics and program
  counters, and the operations that start a search. Each atomic access is one step; the scheduler is
  any sequence of worker numbers.
\<close>

section \<open>The target\<close>

definition VANITY_SUFFIX :: string where "VANITY_SUFFIX = ''vault''"

definition CHARSET :: string where "CHARSET = ''qpzry9x8gf2tvdw0s3jn54khce6mua7l''"

record vanity_target =
  vt_value :: "32 word"
  vt_bit_count :: nat

fun char_index :: "string \<Rightarrow> char \<Rightarrow> nat option" where
  \<comment> \<open>\<^verbatim>\<open>str::find\<close> on ASCII text\<close>
  "char_index [] c = None"
| "char_index (x # xs) c = (if x = c then Some 0 else map_option Suc (char_index xs c))"

fun vanity_value :: "string \<Rightarrow> 32 word \<Rightarrow> 32 word result" where
  "vanity_value [] v = Inr v"
| "vanity_value (c # cs) v =
     bind_result (ok_or (char_index CHARSET c) (Wal (Vanity NotBech32))) (\<lambda>digit.
     vanity_value cs (push_bit 5 v OR of_nat digit))"

definition vanity_target_new :: "string \<Rightarrow> vanity_target result" where
  "vanity_target_new suffix =
     (if suffix = [] \<or> 6 < length suffix then Inl (Wal (Vanity SuffixLength)) else
      bind_result (vanity_value suffix 0) (\<lambda>v.
      Inr \<lparr>vt_value = v, vt_bit_count = length suffix * 5\<rparr>))"

definition from_be_bytes :: "bytes \<Rightarrow> 32 word" where
  "from_be_bytes b = push_bit 24 (ucast (b ! 0)) OR push_bit 16 (ucast (b ! 1)) OR push_bit 8 (ucast (b ! 2)) OR ucast (b ! 3)"

definition vanity_matches :: "vanity_target \<Rightarrow> bytes \<Rightarrow> bool" where
  "vanity_matches t output_key = (drop_bit (32 - vt_bit_count t) (from_be_bytes output_key) = vt_value t)"

definition vanity_address_prefix :: "network \<Rightarrow> string result" where
  "vanity_address_prefix network = (case network of
       Bitcoin \<Rightarrow> Inr ''bc1pvault'' | Regtest \<Rightarrow> Inr ''bcrt1pvault'' | _ \<Rightarrow> Inl (Wal (Vanity VanityNetwork)))"

section \<open>The test is the Bech32 prefix\<close>

text \<open>
  Bech32m writes a witness program as the characters of its five-bit groups, most significant bit
  first. The test on the first 32 bits of the key is the comparison of those characters.
\<close>

definition key_bit :: "bytes \<Rightarrow> nat \<Rightarrow> bool" where
  "key_bit key j = bit (key ! (j div 8)) (7 - j mod 8)"

definition bech32_group :: "bytes \<Rightarrow> nat \<Rightarrow> nat" where
  "bech32_group key i = horner_sum of_bool 2 (map (\<lambda>k. key_bit key (5 * i + (4 - k))) [0..<5])"

definition bech32_prefix :: "nat \<Rightarrow> bytes \<Rightarrow> string" where
  "bech32_prefix n key = map (\<lambda>i. CHARSET ! bech32_group key i) [0..<n]"

lemma char_index_Some: "char_index xs c = Some i \<longleftrightarrow> i < length xs \<and> xs ! i = c \<and> (\<forall>j < i. xs ! j \<noteq> c)"
proof (induction xs arbitrary: i)
  case (Cons x xs)
  then show ?case
    by (cases i) (auto simp: less_Suc_eq_0_disj)
qed simp

lemma CHARSET_distinct: "distinct CHARSET" "length CHARSET = 32"
  by (code_simp, simp add: CHARSET_def)

lemma char_index_CHARSET: "char_index CHARSET c = Some i \<longleftrightarrow> i < 32 \<and> CHARSET ! i = c"
  using CHARSET_distinct by (auto simp: char_index_Some nth_eq_iff_index_eq)

lemma bit_placed_byte:
  fixes b :: "8 word"
  shows "bit (push_bit n (ucast b) :: 32 word) m \<longleftrightarrow> n \<le> m \<and> m < n + 8 \<and> m < 32 \<and> bit b (m - n)"
  using bit_imp_le_length [of b "m - n"] by (auto simp: bit_push_bit_iff bit_ucast_iff)

lemma bit_low_byte:
  fixes b :: "8 word"
  shows "bit (ucast b :: 32 word) m \<longleftrightarrow> m < 8 \<and> bit b m"
  using bit_placed_byte [of 0 b m] by auto

lemma bit_from_be_bytes:
  assumes "j < 32"
  shows "bit (from_be_bytes key) (31 - j) = key_bit key j"
proof -
  have s: "bit (from_be_bytes key) m \<longleftrightarrow>
      24 \<le> m \<and> m < 32 \<and> bit (key ! 0) (m - 24) \<or> 16 \<le> m \<and> m < 24 \<and> bit (key ! 1) (m - 16)
    \<or> 8 \<le> m \<and> m < 16 \<and> bit (key ! 2) (m - 8) \<or> m < 8 \<and> bit (key ! 3) m" for m
    unfolding from_be_bytes_def bit_or_iff bit_placed_byte bit_low_byte by auto
  have m: "j mod 8 = j - 8 * (j div 8)" by (simp add: minus_mult_div_eq_mod)
  have le: "(24 \<le> 31 - j) = (j < 8)" "(31 - j < 24) = (8 \<le> j)" "(16 \<le> 31 - j) = (j < 16)"
    "(31 - j < 16) = (16 \<le> j)" "(8 \<le> 31 - j) = (j < 24)" "(31 - j < 8) = (24 \<le> j)" "31 - j < 32"
    using assms by linarith+
  consider "j < 8" | "8 \<le> j" "j < 16" | "16 \<le> j" "j < 24" | "24 \<le> j" using assms by linarith
  then show ?thesis
  proof cases
    case 1
    then have "j div 8 = 0" by simp
    then show ?thesis using 1 m by (simp add: s key_bit_def le)
  next
    case 2
    then have "j div 8 = 1" by (intro div_nat_eqI) simp_all
    then show ?thesis using 2 m by (simp add: s key_bit_def le)
  next
    case 3
    then have "j div 8 = 2" by (intro div_nat_eqI) simp_all
    then show ?thesis using 3 m by (simp add: s key_bit_def le)
  next
    case 4
    then have "j div 8 = 3" using assms by (intro div_nat_eqI) simp_all
    then show ?thesis using 4 m assms by (simp add: s key_bit_def le)
  qed
qed

lemma bit_digit: "d < 32 \<Longrightarrow> bit (d :: nat) k \<Longrightarrow> k < 5"
proof (rule ccontr)
  assume d: "d < 32" "bit d k" "\<not> k < 5"
  then have "2 ^ 5 \<le> (2 :: nat) ^ k" by (intro power_increasing) auto
  then have "d < 2 ^ k" using d(1) by simp
  then show False using d(2) by (simp add: bit_iff_odd)
qed

lemma bech32_group_bit: "bit (bech32_group key i) k \<longleftrightarrow> k < 5 \<and> key_bit key (5 * i + (4 - k))"
  by (auto simp: bech32_group_def bit_horner_sum_bit_iff)

lemma bech32_group_bound: "bech32_group key i < 32"
  using horner_sum_of_bool_2_less [of "map (\<lambda>k. key_bit key (5 * i + (4 - k))) [0..<5]"]
  by (simp add: bech32_group_def)

text \<open>The value accumulates the digits of the suffix, five bits each, and never loses one.\<close>

lemma vanity_value_bits:
  assumes "vanity_value s v = Inr u" and "\<forall>m. bit v m \<longrightarrow> m < 5 * k" and "k + length s \<le> 6"
  shows "(\<forall>c \<in> set s. \<exists>d < 32. CHARSET ! d = c)
    \<and> (\<forall>m. bit u m \<longleftrightarrow> (if m < 5 * length s
        then bit (the (char_index CHARSET (s ! (length s - 1 - m div 5)))) (m mod 5) else bit v (m - 5 * length s)))"
  using assms
proof (induction s arbitrary: v k)
  case (Cons c cs)
  obtain d where d: "char_index CHARSET c = Some d" and rest: "vanity_value cs (push_bit 5 v OR of_nat d) = Inr u"
    using Cons.prems(1) by (auto simp: ok_or_def split: option.splits)
  have d32: "d < 32" "CHARSET ! d = c" using d by (simp_all add: char_index_CHARSET)
  have w: "bit (push_bit 5 v OR of_nat d) m \<longleftrightarrow> (if m < 5 then bit d m else bit v (m - 5))" for m
  proof -
    have "bit v (m - 5) \<Longrightarrow> 5 \<le> m \<Longrightarrow> m < 32" using Cons.prems(2,3) by force
    then show ?thesis using bit_digit [OF d32(1), of m] by (auto simp: bit_or_iff bit_push_bit_iff bit_of_nat_iff)
  qed
  have bound: "\<forall>m. bit (push_bit 5 v OR of_nat d) m \<longrightarrow> m < 5 * Suc k"
    using Cons.prems(2) unfolding w by (force split: if_splits)
  have IH: "\<forall>c \<in> set cs. \<exists>d < 32. CHARSET ! d = c"
    "bit u m \<longleftrightarrow> (if m < 5 * length cs
        then bit (the (char_index CHARSET (cs ! (length cs - 1 - m div 5)))) (m mod 5)
        else bit (push_bit 5 v OR of_nat d) (m - 5 * length cs))" for m
    using Cons.IH [OF rest bound] Cons.prems(3) by auto
  have "bit u m \<longleftrightarrow> (if m < 5 * length (c # cs)
        then bit (the (char_index CHARSET ((c # cs) ! (length (c # cs) - 1 - m div 5)))) (m mod 5)
        else bit v (m - 5 * length (c # cs)))" for m
  proof -
    consider "m < 5 * length cs" | "5 * length cs \<le> m" "m < 5 * length cs + 5" | "5 * length cs + 5 \<le> m" by linarith
    then show ?thesis
    proof cases
      case 1
      then have "length (c # cs) - 1 - m div 5 = Suc (length cs - 1 - m div 5)" by (simp add: less_mult_imp_div_less)
      then show ?thesis using 1 IH(2) [of m] by simp
    next
      case 2
      then have "m div 5 = length cs" "m mod 5 = m - 5 * length cs" by presburger+
      then show ?thesis using 2 IH(2) [of m] w d by (simp add: less_diff_conv2)
    next
      case 3
      then have "\<not> m < 5 * length cs" "\<not> m < 5 * length (c # cs)" "\<not> m - 5 * length cs < 5"
        "m - 5 * length cs - 5 = m - 5 * length (c # cs)" by simp_all
      then show ?thesis using IH(2) [of m] w [of "m - 5 * length cs"] by (simp only: if_False)
    qed
  qed
  then show ?case using IH(1) d32 by auto
qed simp

lemma vanity_value_total:
  "(\<exists>u. vanity_value s v = Inr u) \<longleftrightarrow> set s \<subseteq> set CHARSET"
proof (induction s arbitrary: v)
  case (Cons c cs)
  show ?case
  proof (cases "char_index CHARSET c")
    case None
    have "c \<notin> set CHARSET"
    proof
      assume "c \<in> set CHARSET"
      then obtain d where "d < 32" "CHARSET ! d = c" by (auto simp: in_set_conv_nth CHARSET_distinct)
      then show False using None char_index_CHARSET [of c d] by simp
    qed
    then show ?thesis using None by simp
  next
    case (Some d)
    then have "c \<in> set CHARSET" using CHARSET_distinct(2) char_index_CHARSET nth_mem by metis
    then show ?thesis using Some Cons.IH by simp
  qed
qed simp

lemma vanity_matches_bits:
  assumes "vt_bit_count t = 5 * n" and "n \<le> 6"
  shows "vanity_matches t key \<longleftrightarrow> (\<forall>m < 32. bit (vt_value t) m \<longleftrightarrow> m < 5 * n \<and> key_bit key (5 * n - 1 - m))"
proof -
  have "bit (drop_bit (32 - 5 * n) (from_be_bytes key)) m \<longleftrightarrow> m < 5 * n \<and> key_bit key (5 * n - 1 - m)"
    if "m < 32" for m
  proof (cases "m < 5 * n")
    case True
    then have "32 - 5 * n + m = 31 - (5 * n - 1 - m)" "5 * n - 1 - m < 32" using assms(2) by auto
    then show ?thesis using True bit_from_be_bytes [of "5 * n - 1 - m" key]
      unfolding bit_drop_bit_eq comp_def by metis
  next
    case False
    then have "32 \<le> 32 - 5 * n + m" by simp
    then show ?thesis using False bit_imp_le_length [of "from_be_bytes key" "32 - 5 * n + m"]
      by (auto simp: bit_drop_bit_eq comp_def)
  qed
  then show ?thesis
    unfolding vanity_matches_def assms(1) using bit_imp_le_length by (fastforce intro!: bit_eqI)
qed

lemma map_upt_length: "map f [0..<length s] = s \<longleftrightarrow> (\<forall>i < length s. f i = s ! i)"
proof
  assume eq: "map f [0..<length s] = s"
  have "map f [0..<length s] ! i = f i" if "i < length s" for i using that by simp
  then show "\<forall>i < length s. f i = s ! i" unfolding eq by auto
qed (auto intro: nth_equalityI)

lemma vanity_target_matches:
  assumes "vanity_target_new s = Inr t"
  shows "vanity_matches t key \<longleftrightarrow> bech32_prefix (length s) key = s"
proof -
  let ?n = "length s" and ?d = "\<lambda>i. the (char_index CHARSET (s ! i))"
  have n: "s \<noteq> []" "?n \<le> 6" "vt_bit_count t = 5 * ?n" and v: "vanity_value s 0 = Inr (vt_value t)"
    using assms by (auto simp: vanity_target_new_def split: if_splits)
  have bits: "\<forall>c \<in> set s. \<exists>d < 32. CHARSET ! d = c"
    "bit (vt_value t) m \<longleftrightarrow> m < 5 * ?n \<and> bit (?d (?n - 1 - m div 5)) (m mod 5)" for m
  proof -
    have *: "(\<forall>c \<in> set s. \<exists>d < 32. CHARSET ! d = c) \<and> (\<forall>m. bit (vt_value t) m \<longleftrightarrow> (if m < 5 * ?n
        then bit (?d (?n - 1 - m div 5)) (m mod 5) else bit (0 :: 32 word) (m - 5 * ?n)))"
      by (rule vanity_value_bits [OF v, of 0]) (use n(2) in simp_all)
    show "\<forall>c \<in> set s. \<exists>d < 32. CHARSET ! d = c" using * by blast
    show "bit (vt_value t) m \<longleftrightarrow> m < 5 * ?n \<and> bit (?d (?n - 1 - m div 5)) (m mod 5)"
      by (subst conjunct2 [OF *, rule_format]) simp
  qed
  have digit: "?d i < 32 \<and> CHARSET ! ?d i = s ! i" if i: "i < ?n" for i
  proof -
    obtain d where "d < 32" "CHARSET ! d = s ! i" using bits(1) nth_mem [OF i] by blast
    then show ?thesis using char_index_CHARSET [of "s ! i" d] by simp
  qed
  have split: "(\<forall>m < 32. bit (vt_value t) m \<longleftrightarrow> m < 5 * ?n \<and> key_bit key (5 * ?n - 1 - m))
      \<longleftrightarrow> (\<forall>i < ?n. \<forall>k < 5. bit (?d i) k \<longleftrightarrow> key_bit key (5 * i + (4 - k)))" (is "?L \<longleftrightarrow> ?R")
  proof
    assume L: ?L
    show ?R
    proof (intro allI impI)
      fix i k :: nat assume ik: "i < ?n" "k < 5"
      define m where "m = 5 * (?n - 1 - i) + k"
      have "m < 5 * ?n" "m div 5 = ?n - 1 - i" "m mod 5 = k" "5 * ?n - 1 - m = 5 * i + (4 - k)" "?n - 1 - (?n - 1 - i) = i"
        unfolding m_def using ik by auto
      then show "bit (?d i) k \<longleftrightarrow> key_bit key (5 * i + (4 - k))" using L bits(2) [of m] n(2) by auto
    qed
  next
    assume R: ?R
    show ?L
    proof (intro allI impI)
      fix m :: nat assume "m < 32"
      show "bit (vt_value t) m \<longleftrightarrow> m < 5 * ?n \<and> key_bit key (5 * ?n - 1 - m)"
      proof (cases "m < 5 * ?n")
        case True
        then have "m div 5 < ?n" "m mod 5 < 5" by auto
        moreover have "m = 5 * (m div 5) + m mod 5" by simp
        with calculation have "5 * (?n - 1 - m div 5) + (4 - m mod 5) = 5 * ?n - 1 - m" by linarith
        ultimately show ?thesis using True R [rule_format, of "?n - 1 - m div 5" "m mod 5"] bits(2) [of m] by auto
      qed (simp add: bits(2))
    qed
  qed
  have group: "(\<forall>k < 5. bit (?d i) k \<longleftrightarrow> key_bit key (5 * i + (4 - k))) \<longleftrightarrow> CHARSET ! bech32_group key i = s ! i"
    if "i < ?n" for i
  proof -
    have "(\<forall>k < 5. bit (?d i) k \<longleftrightarrow> key_bit key (5 * i + (4 - k))) \<longleftrightarrow> ?d i = bech32_group key i"
      unfolding bit_eq_iff bech32_group_bit using bit_digit digit [OF that] by (simp only: possible_bit_nat simp_thms) blast
    also have "\<dots> \<longleftrightarrow> CHARSET ! bech32_group key i = s ! i"
      using digit [OF that] bech32_group_bound [of key i] CHARSET_distinct by (metis nth_eq_iff_index_eq)
    finally show ?thesis .
  qed
  have "vanity_matches t key \<longleftrightarrow> (\<forall>i < ?n. CHARSET ! bech32_group key i = s ! i)"
    unfolding vanity_matches_bits [OF n(3,2)] split by (intro all_cong group)
  also have "\<dots> \<longleftrightarrow> bech32_prefix ?n key = s" by (simp add: bech32_prefix_def map_upt_length)
  finally show ?thesis .
qed

section \<open>The search\<close>

datatype vanity_pc =
    LoopHead \<comment> \<open>before the loop condition\<close>
  | Trial \<comment> \<open>before the derivation of the key at \<open>vw_index\<close>\<close>
  | Claim "nat result" \<comment> \<open>before \<^verbatim>\<open>stopped.swap(true)\<close>\<close>
  | Reporting nat \<comment> \<open>in \<^verbatim>\<open>maybe_report_progress(total)\<close>, before the load\<close>
  | Publishing nat nat \<comment> \<open>before the compare-and-exchange of \<open>previous\<close> with \<open>total\<close>\<close>
  | Finished

record vanity_worker =
  vw_index :: nat
  vw_pending :: nat
  vw_pc :: vanity_pc

record vanity_search =
  vs_stopped :: bool
  vs_attempts :: nat
  vs_last_report :: nat
  vs_reports :: "nat list" \<comment> \<open>the calls of \<^verbatim>\<open>report_progress\<close>\<close>
  vs_channel :: "nat result list"
  vs_workers :: "vanity_worker list"

definition vanity_start :: "nat \<Rightarrow> vanity_search" where
  "vanity_start count =
     \<lparr>vs_stopped = False, vs_attempts = 0, vs_last_report = 0, vs_reports = [], vs_channel = [],
      vs_workers = map (\<lambda>k. \<lparr>vw_index = k, vw_pending = 0, vw_pc = LoopHead\<rparr>) [0..<count]\<rparr>"

definition set_worker :: "nat \<Rightarrow> vanity_worker \<Rightarrow> vanity_search \<Rightarrow> vanity_search" where
  "set_worker k wk s = s\<lparr>vs_workers := (vs_workers s)[k := wk]\<rparr>"

definition advance :: "nat \<Rightarrow> vanity_worker \<Rightarrow> vanity_worker" where
  "advance stride wk = wk\<lparr>vw_index := vw_index wk + stride, vw_pc := LoopHead\<rparr>"

definition worker_step :: "(nat \<Rightarrow> bool result) \<Rightarrow> nat \<Rightarrow> nat \<Rightarrow> vanity_search \<Rightarrow> vanity_search" where
  \<comment> \<open>\<open>trial i\<close> derives key \<open>i\<close> and compares its output key with the target\<close>
  "worker_step trial count k s =
     (let wk = vs_workers s ! k in case vw_pc wk of
        LoopHead \<Rightarrow>
          if vw_index wk < 2 ^ 31 \<and> \<not> vs_stopped s then set_worker k (wk\<lparr>vw_pc := Trial\<rparr>) s
          else set_worker k (wk\<lparr>vw_pc := Finished\<rparr>) (s\<lparr>vs_attempts := vs_attempts s + vw_pending wk\<rparr>)
      | Trial \<Rightarrow> (case trial (vw_index wk) of
            Inl e \<Rightarrow> set_worker k (wk\<lparr>vw_pc := Claim (Inl e)\<rparr>) s
          | Inr matched \<Rightarrow>
              let pending = vw_pending wk + 1; reached = vs_attempts s + pending in
              if matched
              then set_worker k (wk\<lparr>vw_pending := pending, vw_pc := Claim (Inr (vw_index wk))\<rparr>) (s\<lparr>vs_attempts := reached\<rparr>)
              else if pending = 4096
              then set_worker k (wk\<lparr>vw_pending := 0, vw_pc := Reporting reached\<rparr>) (s\<lparr>vs_attempts := reached\<rparr>)
              else set_worker k (advance count (wk\<lparr>vw_pending := pending\<rparr>)) s)
      | Reporting reached \<Rightarrow>
          if 1000000 \<le> reached - vs_last_report s
          then set_worker k (wk\<lparr>vw_pc := Publishing (vs_last_report s) reached\<rparr>) s
          else set_worker k (advance count wk) s
      | Publishing previous reached \<Rightarrow>
          set_worker k (advance count wk)
            (if vs_last_report s = previous
             then s\<lparr>vs_last_report := reached, vs_reports := vs_reports s @ [reached]\<rparr> else s)
      | Claim r \<Rightarrow>
          set_worker k (wk\<lparr>vw_pc := Finished\<rparr>)
            (if vs_stopped s then s else s\<lparr>vs_stopped := True, vs_channel := vs_channel s @ [r]\<rparr>)
      | Finished \<Rightarrow> s)"

definition running :: "vanity_search \<Rightarrow> nat \<Rightarrow> bool" where
  "running s k \<longleftrightarrow> k < length (vs_workers s) \<and> vw_pc (vs_workers s ! k) \<noteq> Finished"

inductive search_step :: "(nat \<Rightarrow> bool result) \<Rightarrow> nat \<Rightarrow> vanity_search \<Rightarrow> vanity_search \<Rightarrow> bool"
  for trial count where
  "running s k \<Longrightarrow> search_step trial count s (worker_step trial count k s)"

inductive_cases search_stepE: "search_step trial count s s'"

definition joined :: "vanity_search \<Rightarrow> bool" where
  \<comment> \<open>\<^verbatim>\<open>thread::scope\<close> returns when every worker has\<close>
  "joined s \<longleftrightarrow> (\<forall>wk \<in> set (vs_workers s). vw_pc wk = Finished)"

section \<open>Safety of the search\<close>

definition behind :: "vanity_worker \<Rightarrow> nat set" where
  \<comment> \<open>the indexes a worker has derived and found not to match\<close>
  "behind wk = (case vw_pc wk of Reporting _ \<Rightarrow> {..vw_index wk} | Publishing _ _ \<Rightarrow> {..vw_index wk} | _ \<Rightarrow> {..<vw_index wk})"

definition worker_ok :: "(nat \<Rightarrow> bool result) \<Rightarrow> nat \<Rightarrow> nat \<Rightarrow> bool \<Rightarrow> vanity_worker \<Rightarrow> bool" where
  "worker_ok trial count k stopped wk \<longleftrightarrow>
     vw_index wk mod count = k \<and> vw_index wk < 2 ^ 31 + count
   \<and> (\<forall>i \<in> behind wk. i mod count = k \<longrightarrow> trial i = Inr False)
   \<and> (vw_pc wk \<noteq> LoopHead \<and> vw_pc wk \<noteq> Finished \<longrightarrow> vw_index wk < 2 ^ 31)
   \<and> (vw_pc wk = Finished \<and> \<not> stopped \<longrightarrow> 2 ^ 31 \<le> vw_index wk)
   \<and> (\<forall>r. vw_pc wk = Claim r \<longrightarrow> (case r of Inl e \<Rightarrow> trial (vw_index wk) = Inl e
        | Inr i \<Rightarrow> i = vw_index wk \<and> trial i = Inr True))
   \<and> (\<forall>previous reached. vw_pc wk = Publishing previous reached \<longrightarrow> previous + 1000000 \<le> reached)"

fun spaced :: "nat \<Rightarrow> nat list \<Rightarrow> bool" where
  "spaced p [] = True"
| "spaced p (t # ts) = (p + 1000000 \<le> t \<and> spaced t ts)"

lemma spaced_append: "spaced p (ts @ [t]) \<longleftrightarrow> spaced p ts \<and> last (p # ts) + 1000000 \<le> t"
  by (induction ts arbitrary: p) auto

definition message_ok :: "(nat \<Rightarrow> bool result) \<Rightarrow> nat result \<Rightarrow> bool" where
  "message_ok trial r \<longleftrightarrow> (case r of Inl e \<Rightarrow> \<exists>i < 2 ^ 31. trial i = Inl e
     | Inr i \<Rightarrow> i < 2 ^ 31 \<and> trial i = Inr True)"

definition search_ok :: "(nat \<Rightarrow> bool result) \<Rightarrow> nat \<Rightarrow> vanity_search \<Rightarrow> bool" where
  "search_ok trial count s \<longleftrightarrow>
     length (vs_workers s) = count
   \<and> (\<forall>k < count. worker_ok trial count k (vs_stopped s) (vs_workers s ! k))
   \<and> (vs_stopped s \<longleftrightarrow> vs_channel s \<noteq> []) \<and> length (vs_channel s) \<le> 1
   \<and> (\<forall>r \<in> set (vs_channel s). message_ok trial r)
   \<and> spaced 0 (vs_reports s) \<and> vs_last_report s = last (0 # vs_reports s)"

lemma vanity_start_ok: "search_ok trial count (vanity_start count)"
proof -
  have "i < k \<Longrightarrow> k < count \<Longrightarrow> i mod count = k \<Longrightarrow> False" for i k by simp
  then show ?thesis
    by (auto simp: search_ok_def vanity_start_def worker_ok_def behind_def)
qed

lemma worker_ok_stopped: "worker_ok trial count k b wk \<Longrightarrow> (b \<Longrightarrow> b') \<Longrightarrow> worker_ok trial count k b' wk"
  by (auto simp: worker_ok_def)

lemma search_ok_update:
  assumes "search_ok trial count s" and "k < count" and "worker_ok trial count k (vs_stopped s') wk"
    and "vs_stopped s \<longrightarrow> vs_stopped s'" and "vs_workers s' = (vs_workers s)[k := wk]"
    and "vs_stopped s' \<longleftrightarrow> vs_channel s' \<noteq> []" and "length (vs_channel s') \<le> 1"
    and "\<forall>r \<in> set (vs_channel s'). message_ok trial r" and "spaced 0 (vs_reports s')"
    and "vs_last_report s' = last (0 # vs_reports s')"
  shows "search_ok trial count s'"
  using assms worker_ok_stopped [of trial count _ "vs_stopped s" _ "vs_stopped s'"]
  by (auto simp: search_ok_def nth_list_update)

lemma worker_ok_advance:
  assumes "worker_ok trial count k b wk" and "vw_index wk < 2 ^ 31" and "trial (vw_index wk) = Inr False" and "0 < count"
    and "vw_pc wk \<noteq> Finished"
  shows "worker_ok trial count k b' (advance count (wk\<lparr>vw_pending := n\<rparr>))"
proof -
  have "trial i = Inr False" if "i < vw_index wk + count" "i mod count = k" for i
  proof -
    have m: "vw_index wk mod count = k" "\<forall>i \<in> behind wk. i mod count = k \<longrightarrow> trial i = Inr False"
      using assms(1) by (auto simp: worker_ok_def)
    consider "i < vw_index wk" | "i = vw_index wk" | "vw_index wk < i" by linarith
    then show ?thesis
    proof cases
      case 1
      then have "i \<in> behind wk" by (auto simp: behind_def split: vanity_pc.splits)
      then show ?thesis using m that by blast
    next
      case 3
      then have "count dvd i - vw_index wk" using that(2) m(1) mod_eq_dvd_iff_nat [of "vw_index wk" i count] by simp
      then show ?thesis using 3 that(1) nat_dvd_not_less [of "i - vw_index wk" count] by simp
    qed (use assms(3) in simp)
  qed
  then show ?thesis using assms(1,2) by (auto simp: worker_ok_def advance_def behind_def)
qed

lemma worker_step_ok:
  assumes ok: "search_ok trial count s" and k: "k < count"
  shows "search_ok trial count (worker_step trial count k s)"
proof -
  define wk where "wk = vs_workers s ! k"
  have w: "worker_ok trial count k (vs_stopped s) wk" and pos: "0 < count" and spc: "spaced 0 (vs_reports s)"
    and lr: "vs_last_report s = last (0 # vs_reports s)" and ch: "vs_stopped s \<longleftrightarrow> vs_channel s \<noteq> []"
      "length (vs_channel s) \<le> 1" "\<forall>r \<in> set (vs_channel s). message_ok trial r"
    using ok k by (auto simp: search_ok_def wk_def)
  note upd = search_ok_update [OF ok k]
  have keep: "search_ok trial count (set_worker k wk' (s\<lparr>vs_attempts := a\<rparr>))"
    if "worker_ok trial count k (vs_stopped s) wk'" for wk' a
    using that ch spc lr by (intro upd [where wk = wk']) (simp_all add: set_worker_def)
  have keep': "search_ok trial count (set_worker k wk' s)" if "worker_ok trial count k (vs_stopped s) wk'" for wk'
    using keep [OF that, of "vs_attempts s"] by simp
  show ?thesis
  proof (cases "vw_pc wk")
    case LoopHead
    have "worker_ok trial count k (vs_stopped s) (wk\<lparr>vw_pc := Trial\<rparr>)" if "vw_index wk < 2 ^ 31"
      using w that LoopHead by (auto simp: worker_ok_def behind_def)
    moreover have "worker_ok trial count k (vs_stopped s) (wk\<lparr>vw_pc := Finished\<rparr>)" if "\<not> (vw_index wk < 2 ^ 31 \<and> \<not> vs_stopped s)"
      using w that LoopHead by (auto simp: worker_ok_def behind_def)
    ultimately show ?thesis using LoopHead keep keep'
      by (cases "vw_index wk < 2 ^ 31 \<and> \<not> vs_stopped s") (auto simp: worker_step_def wk_def [symmetric] Let_def)
  next
    case Trial
    then have i: "vw_index wk < 2 ^ 31" using w by (simp add: worker_ok_def)
    show ?thesis
    proof (cases "trial (vw_index wk)")
      case (Inl e)
      then have "worker_ok trial count k (vs_stopped s) (wk\<lparr>vw_pc := Claim (Inl e)\<rparr>)"
        using w Trial by (auto simp: worker_ok_def behind_def)
      then show ?thesis using Trial Inl keep' by (simp add: worker_step_def wk_def [symmetric] Let_def)
    next
      case (Inr matched)
      have "worker_ok trial count k (vs_stopped s) (wk\<lparr>vw_pending := n, vw_pc := Claim (Inr (vw_index wk))\<rparr>)" if matched for n
        using w Trial Inr that by (auto simp: worker_ok_def behind_def)
      moreover have "worker_ok trial count k (vs_stopped s) (wk\<lparr>vw_pending := n, vw_pc := Reporting t\<rparr>)" if "\<not> matched" for n t
        using w Trial Inr that by (auto simp: worker_ok_def behind_def order_le_less)
      moreover have "worker_ok trial count k (vs_stopped s) (advance count (wk\<lparr>vw_pending := n\<rparr>))" if "\<not> matched" for n
        using worker_ok_advance [OF w i _ pos] Trial Inr that by simp
      ultimately show ?thesis
        using Trial Inr keep keep' by (simp add: worker_step_def wk_def [symmetric] Let_def)
    qed
  next
    case (Claim r)
    have m: "message_ok trial r" using w Claim by (auto simp: worker_ok_def message_ok_def split: sum.splits)
    have f: "worker_ok trial count k True (wk\<lparr>vw_pc := Finished\<rparr>)" using w Claim by (auto simp: worker_ok_def behind_def)
    show ?thesis
    proof (cases "vs_stopped s")
      case True
      then show ?thesis using keep' f Claim by (simp add: worker_step_def wk_def [symmetric] Let_def)
    next
      case False
      then have "vs_channel s = []" using ch by simp
      then show ?thesis using False Claim f m spc lr
        by (intro upd [where wk = "wk\<lparr>vw_pc := Finished\<rparr>"])
          (simp_all add: worker_step_def wk_def [symmetric] Let_def set_worker_def)
    qed
  next
    case (Reporting n)
    have i: "vw_index wk < 2 ^ 31" and t: "trial (vw_index wk) = Inr False"
      using w Reporting by (auto simp: worker_ok_def behind_def)
    have "worker_ok trial count k (vs_stopped s) (wk\<lparr>vw_pc := Publishing (vs_last_report s) n\<rparr>)"
      if "1000000 \<le> n - vs_last_report s"
      using w Reporting that by (auto simp: worker_ok_def behind_def)
    then show ?thesis
      using Reporting keep' worker_ok_advance [OF w i t pos, of "vs_stopped s" "vw_pending wk"]
      by (simp add: worker_step_def wk_def [symmetric] Let_def)
  next
    case (Publishing previous n)
    have i: "vw_index wk < 2 ^ 31" and t: "trial (vw_index wk) = Inr False" and n: "previous + 1000000 \<le> n"
      using w Publishing by (auto simp: worker_ok_def behind_def)
    have a: "worker_ok trial count k (vs_stopped s) (advance count wk)"
      using worker_ok_advance [OF w i t pos, of "vs_stopped s" "vw_pending wk"] Publishing by simp
    show ?thesis
    proof (cases "vs_last_report s = previous")
      case True
      then show ?thesis using Publishing a n spc lr ch
        by (intro upd [where wk = "advance count wk"])
          (simp_all add: worker_step_def wk_def [symmetric] Let_def set_worker_def spaced_append)
    next
      case False
      then show ?thesis using keep' [OF a] Publishing by (simp add: worker_step_def wk_def [symmetric] Let_def)
    qed
  next
    case Finished
    then show ?thesis using ok by (simp add: worker_step_def wk_def [symmetric] Let_def)
  qed
qed

lemma reachable_ok:
  assumes "(search_step trial count)\<^sup>*\<^sup>* (vanity_start count) s"
  shows "search_ok trial count s"
  using assms
proof (induction rule: rtranclp_induct)
  case (step s s')
  from step(2) obtain k where k: "running s k" "s' = worker_step trial count k s" by (rule search_stepE)
  moreover have "k < count" using k(1) step.IH by (simp add: running_def search_ok_def)
  ultimately show ?case using worker_step_ok step.IH by simp
qed (rule vanity_start_ok)

text \<open>A finished search that sent nothing has looked at every index.\<close>

lemma search_exhaustive:
  assumes "search_ok trial count s" and "joined s" and "vs_channel s = []" and "i < 2 ^ 31" and "0 < count"
  shows "trial i = Inr False"
proof -
  let ?k = "i mod count" and ?wk = "vs_workers s ! (i mod count)"
  have k: "?k < count" using assms(5) by simp
  then have w: "worker_ok trial count ?k (vs_stopped s) ?wk" "\<not> vs_stopped s" "vw_pc ?wk = Finished"
    using assms(1,2,3) by (auto simp: search_ok_def joined_def)
  then have "2 ^ 31 \<le> vw_index ?wk" by (simp add: worker_ok_def)
  then have "i \<in> behind ?wk" using assms(4) w(3) by (simp add: behind_def)
  then show ?thesis using w(1) by (simp add: worker_ok_def)
qed

section \<open>Termination of the search\<close>

definition pc_rank :: "vanity_pc \<Rightarrow> nat" where
  "pc_rank pc = (case pc of LoopHead \<Rightarrow> 4 | Trial \<Rightarrow> 3 | Reporting _ \<Rightarrow> 2 | Claim _ \<Rightarrow> 1 | Publishing _ _ \<Rightarrow> 1 | Finished \<Rightarrow> 0)"

definition worker_measure :: "nat \<Rightarrow> vanity_worker \<Rightarrow> nat" where
  "worker_measure count wk = 5 * (2 ^ 31 + count - vw_index wk) + pc_rank (vw_pc wk)"

definition search_measure :: "nat \<Rightarrow> vanity_search \<Rightarrow> nat" where
  "search_measure count s = sum_list (map (worker_measure count) (vs_workers s))"

lemma sum_list_update_less:
  fixes f :: "'x \<Rightarrow> nat"
  shows "k < length xs \<Longrightarrow> f y < f (xs ! k) \<Longrightarrow> sum_list (map f (xs[k := y])) < sum_list (map f xs)"
  by (induction xs arbitrary: k) (auto split: nat.splits)

lemma advance_measure:
  "vw_index wk < 2 ^ 31 \<Longrightarrow> 0 < count \<Longrightarrow> 0 < pc_rank (vw_pc wk) \<Longrightarrow>
   worker_measure count (advance count (wk\<lparr>vw_pending := n\<rparr>)) < worker_measure count wk"
  by (simp add: worker_measure_def advance_def pc_rank_def)

lemma worker_step_measure:
  assumes "search_ok trial count s" and "running s k"
  shows "search_measure count (worker_step trial count k s) < search_measure count s"
proof -
  define wk where "wk = vs_workers s ! k"
  have k: "k < count" "k < length (vs_workers s)" and w: "worker_ok trial count k (vs_stopped s) wk" and pc: "vw_pc wk \<noteq> Finished"
    using assms by (auto simp: search_ok_def running_def wk_def)
  have "\<exists>wk' t. vs_workers (worker_step trial count k s) = (vs_workers s)[k := wk'] \<and> worker_measure count wk' < worker_measure count wk"
  proof -
    have adv: "vw_pc wk \<noteq> LoopHead \<Longrightarrow> worker_measure count (advance count (wk\<lparr>vw_pending := n\<rparr>)) < worker_measure count wk" for n
      using advance_measure [of wk count n] k(1) w pc by (auto simp: worker_ok_def pc_rank_def split: vanity_pc.splits)
    from adv [of "vw_pending wk"] have adv': "vw_pc wk \<noteq> LoopHead \<Longrightarrow> worker_measure count (advance count wk) < worker_measure count wk" by simp
    show ?thesis
      using pc adv adv'
      by (cases "vw_pc wk")
        (auto simp: worker_step_def wk_def [symmetric] Let_def set_worker_def worker_measure_def pc_rank_def split: sum.split)
  qed
  then show ?thesis using sum_list_update_less [of k "vs_workers s"] k(2) by (auto simp: search_measure_def wk_def)
qed

lemma search_bounded:
  assumes "(search_step trial count ^^ n) (vanity_start count) s"
  shows "n + search_measure count s \<le> search_measure count (vanity_start count)"
  using assms
proof (induction n arbitrary: s)
  case (Suc n)
  then obtain s0 where s0: "(search_step trial count ^^ n) (vanity_start count) s0" "search_step trial count s0 s" by auto
  then have "search_ok trial count s0" using reachable_ok relpowp_imp_rtranclp by metis
  then have "search_measure count s < search_measure count s0"
    using s0(2) worker_step_measure by (auto elim!: search_stepE)
  then show ?case using Suc.IH [OF s0(1)] by simp
qed simp

lemma search_progress: "\<not> joined s \<Longrightarrow> \<exists>s'. search_step trial count s s'"
  unfolding joined_def using search_step.intros [of s _ trial count] by (fastforce simp: running_def in_set_conv_nth)

lemma search_joins: "\<exists>s. (search_step trial count)\<^sup>*\<^sup>* (vanity_start count) s \<and> joined s"
proof -
  have "\<exists>s'. (search_step trial count)\<^sup>*\<^sup>* s s' \<and> joined s'" if "(search_step trial count)\<^sup>*\<^sup>* (vanity_start count) s" for s
    using that
  proof (induction "search_measure count s" arbitrary: s rule: less_induct)
    case less
    show ?case
    proof (cases "joined s")
      case False
      then obtain s' where st: "search_step trial count s s'" using search_progress by blast
      then have "search_measure count s' < search_measure count s"
        using worker_step_measure [OF reachable_ok [OF less.prems]] by (auto elim!: search_stepE)
      then show ?thesis using less.hyps [of s'] st less.prems by (meson converse_rtranclp_into_rtranclp rtranclp.rtrancl_into_rtrancl)
    qed blast
  qed
  then show ?thesis by blast
qed

section \<open>Starting a search\<close>

record vanity_phone_key =
  vp_phone :: device_keys
  vp_vault_address :: string
  vp_attempts :: nat
  vp_worker_count :: nat

record vanity_initialization =
  vi_device :: initialized_device
  vi_vault_address :: string
  vi_attempts :: nat
  vi_worker_count :: nat

type_synonym thread_scope = "(nat \<Rightarrow> bool result) \<Rightarrow> nat \<Rightarrow> vanity_search"
  \<comment> \<open>what the operating system makes of the worker threads: the state in which they are joined\<close>

definition vanity_trial :: "lib \<Rightarrow> key_lib \<Rightarrow> (xonly \<Rightarrow> bytes) \<Rightarrow> nat \<Rightarrow> vault_address_template \<Rightarrow> vanity_target \<Rightarrow> nat \<Rightarrow> bool result" where
  "vanity_trial L K serialize parent template target i =
     bind_result (derive_vault_key_from_parent L K parent i) (\<lambda>(_, _, phone_pubkey).
     Inr (vanity_matches target (serialize (vat_output_key L template phone_pubkey))))"

definition receive_index :: "vanity_search \<Rightarrow> nat result" where
  "receive_index s = (case vs_channel s of [] \<Rightarrow> Inl (Wal (Vanity NoVanityMatch)) | r # _ \<Rightarrow> r)"

definition expected_vanity_prefix :: "network \<Rightarrow> string \<Rightarrow> string result" where
  "expected_vanity_prefix network suffix = (case network of
       Bitcoin \<Rightarrow> Inr (''bc1p'' @ suffix) | Regtest \<Rightarrow> Inr (''bcrt1p'' @ suffix) | _ \<Rightarrow> Inl (Wal (Vanity VanityNetwork)))"

definition vanity_setup ::
  "lib \<Rightarrow> key_lib \<Rightarrow> (xonly \<Rightarrow> bytes) \<Rightarrow> nat \<Rightarrow> network \<Rightarrow> xonly \<Rightarrow> string \<Rightarrow>
   (device_keys \<times> vault_address_template \<times> (nat \<Rightarrow> bool result)) result" where
  "vanity_setup L K serialize entropy network hww_pubkey suffix =
     bind_result (vanity_target_new suffix) (\<lambda>target.
     bind_result (generate_for_network L K entropy network) (\<lambda>base_phone.
     bind_result (vault_parent_xpriv K base_phone) (\<lambda>parent.
     bind_result (vat_new L hww_pubkey) (\<lambda>template.
     Inr (base_phone, template, vanity_trial L K serialize parent template target)))))"

definition grind_vanity_phone_key ::
  "lib \<Rightarrow> key_lib \<Rightarrow> (xonly \<Rightarrow> bytes) \<Rightarrow> nat \<Rightarrow> thread_scope \<Rightarrow> network \<Rightarrow> xonly \<Rightarrow> string \<Rightarrow> nat \<Rightarrow> vanity_phone_key result" where
  "grind_vanity_phone_key L K serialize entropy threads network hww_pubkey suffix count =
     bind_result (validate_supported_network network) (\<lambda>_.
     if count = 0 then Inl (Wal (Vanity NoWorkers)) else
     bind_result (vanity_setup L K serialize entropy network hww_pubkey suffix) (\<lambda>(base_phone, template, trial).
     let s = threads trial count in
     bind_result (receive_index s) (\<lambda>winning_index.
     bind_result (with_vault_key_index L K base_phone winning_index) (\<lambda>phone.
     let address = vat_address L template (vault_pubkey phone) network in
     bind_result (expected_vanity_prefix network suffix) (\<lambda>prefix.
     if \<not> starts_with (addr_text address) prefix then Inl (Wal (Vanity VanityNotReproduced))
     else Inr \<lparr>vp_phone = phone, vp_vault_address = addr_text address, vp_attempts = vs_attempts s,
       vp_worker_count = count\<rparr>)))))"

definition initialize_vanity_with_suffix ::
  "lib \<Rightarrow> key_lib \<Rightarrow> ('b, 'z) storage_codecs_scheme \<Rightarrow> ('b, 'y) bdk_lib_scheme \<Rightarrow> (xonly \<Rightarrow> bytes) \<Rightarrow> nat \<Rightarrow> thread_scope \<Rightarrow> path \<Rightarrow>
   network \<Rightarrow> string \<Rightarrow> nat \<Rightarrow> ('b, vanity_initialization) io" where
  "initialize_vanity_with_suffix L K C W serialize entropy threads data_dir network suffix count =
     bindM (liftM (validate_supported_network network)) (\<lambda>_.
     bindM (readM (ensure_phone_is_uninitialized data_dir)) (\<lambda>_.
     if count = 0 then failM (Wal (Vanity NoWorkers)) else
     bindM (readM (\<lambda>w. if path_exists w (join_str data_dir HWW_DEVICE_FILE) then Inr () else Inl (Wal (Vanity HwwFirst)))) (\<lambda>_.
     bindM (readM (\<lambda>w. map_err (load_public_device C data_dir HWW_PUBLIC_FILE w) (Wal (Vanity HwwFirst)))) (\<lambda>public_hww.
     if pdf_version public_hww \<noteq> 1 \<or> pdf_kind public_hww \<noteq> ''hww-public-key'' then failM (Wal (Vanity HwwMetadata)) else
     bindM (liftM (public_device_network public_hww)) (\<lambda>hww_network.
     if hww_network \<noteq> network then failM (Wal (Vanity SameNetwork)) else
     bindM (liftM (parsed_vault_pubkey L public_hww)) (\<lambda>hww_pubkey.
     bindM (liftM (grind_vanity_phone_key L K serialize entropy threads network hww_pubkey suffix count)) (\<lambda>vanity.
     bindM (persist_phone L K C W data_dir network (vp_phone vanity)) (\<lambda>device.
     returnM \<lparr>vi_device = device, vi_vault_address = vp_vault_address vanity, vi_attempts = vp_attempts vanity,
       vi_worker_count = vp_worker_count vanity\<rparr>))))))))"

definition initialize_vanity ::
  "lib \<Rightarrow> key_lib \<Rightarrow> ('b, 'z) storage_codecs_scheme \<Rightarrow> ('b, 'y) bdk_lib_scheme \<Rightarrow> (xonly \<Rightarrow> bytes) \<Rightarrow> nat \<Rightarrow> thread_scope \<Rightarrow> nat option \<Rightarrow>
   path \<Rightarrow> network \<Rightarrow> ('b, vanity_initialization) io" where
  \<comment> \<open>the \<open>nat option\<close> is \<^verbatim>\<open>thread::available_parallelism\<close>\<close>
  "initialize_vanity L K C W serialize entropy threads parallelism data_dir network =
     initialize_vanity_with_suffix L K C W serialize entropy threads data_dir network VANITY_SUFFIX
       (case parallelism of Some n \<Rightarrow> n | None \<Rightarrow> 1)"

section \<open>What a search returns\<close>

definition complete_scope :: "thread_scope \<Rightarrow> (nat \<Rightarrow> bool result) \<Rightarrow> nat \<Rightarrow> bool" where
  "complete_scope threads trial count \<longleftrightarrow>
     (search_step trial count)\<^sup>*\<^sup>* (vanity_start count) (threads trial count) \<and> joined (threads trial count)"

definition bech32_addresses :: "lib \<Rightarrow> (xonly \<Rightarrow> bytes) \<Rightarrow> bool" where
  \<comment> \<open>BIP 341 and BIP 350: a Taproot address is the Bech32m text of its output key\<close>
  "bech32_addresses L serialize \<longleftrightarrow> (\<forall>key.
     starts_with (addr_text (p2tr_tweaked L key Bitcoin)) (''bc1p'' @ bech32_prefix 6 (serialize key))
   \<and> starts_with (addr_text (p2tr_tweaked L key Regtest)) (''bcrt1p'' @ bech32_prefix 6 (serialize key)))"

lemma starts_with_append: "starts_with s (p @ q) \<Longrightarrow> starts_with s p"
  by (metis append.assoc append_eq_conv_conj append_take_drop_id starts_with_def)

lemma bech32_prefix_le: "n \<le> m \<Longrightarrow> \<exists>q. bech32_prefix m key = bech32_prefix n key @ q"
  unfolding bech32_prefix_def using upt_add_eq_append [of 0 n "m - n"] by auto

lemma received_ok:
  assumes "complete_scope threads trial count" and "0 < count"
  shows "receive_index (threads trial count) = Inr i \<Longrightarrow> i < 2 ^ 31 \<and> trial i = Inr True"
    and "receive_index (threads trial count) = Inl e \<Longrightarrow>
      (\<exists>i < 2 ^ 31. trial i = Inl e) \<or> e = Wal (Vanity NoVanityMatch) \<and> (\<forall>i < 2 ^ 31. trial i = Inr False)"
proof -
  have ok: "search_ok trial count (threads trial count)"
    using assms(1) reachable_ok by (simp add: complete_scope_def)
  show "receive_index (threads trial count) = Inr i \<Longrightarrow> i < 2 ^ 31 \<and> trial i = Inr True"
    using ok by (auto simp: receive_index_def search_ok_def message_ok_def split: list.splits)
  show "receive_index (threads trial count) = Inl e \<Longrightarrow>
      (\<exists>i < 2 ^ 31. trial i = Inl e) \<or> e = Wal (Vanity NoVanityMatch) \<and> (\<forall>i < 2 ^ 31. trial i = Inr False)"
    using ok search_exhaustive [OF ok _ _ _ assms(2)] assms(1)
    by (auto simp: receive_index_def search_ok_def message_ok_def complete_scope_def split: list.splits)
qed

lemma vanity_setup_device: "vanity_setup L K serialize entropy network hww suffix = Inr (base, template, trial) \<Longrightarrow>
    device_ok L K base \<and> dk_network base = network \<and> length suffix \<le> 6
    \<and> (\<exists>parent target. vault_parent_xpriv K base = Inr parent \<and> vanity_target_new suffix = Inr target
      \<and> trial = vanity_trial L K serialize parent template target)"
  by (auto simp: vanity_setup_def generate_for_network_def generate_for_network_at_index_def vanity_target_new_def
      dest: from_mnemonic_ok from_mnemonic_fields split: if_splits)

lemma winning_phone:
  assumes "vanity_setup L K serialize entropy network hww suffix = Inr (base, template, trial)" and "trial i = Inr True"
  obtains phone where "with_vault_key_index L K base i = Inr phone" and "device_ok L K phone" and "vault_key_index phone = i"
    and "bech32_prefix (length suffix) (serialize (vat_output_key L template (vault_pubkey phone))) = suffix"
proof -
  from vanity_setup_device [OF assms(1)] obtain parent target where base: "device_ok L K base" "dk_network base = network"
    and p: "vault_parent_xpriv K base = Inr parent" "vanity_target_new suffix = Inr target"
    "trial = vanity_trial L K serialize parent template target" by blast
  then obtain xpriv keypair pubkey where d: "derive_vault_key_from_parent L K parent i = Inr (xpriv, keypair, pubkey)"
    and m: "vanity_matches target (serialize (vat_output_key L template pubkey))"
    using assms(2) by (auto simp: vanity_trial_def)
  have run: "with_vault_key_index L K base i = Inr (base\<lparr>vault_key_index := i, vault_xpriv := xpriv,
      vault_keypair := keypair, vault_pubkey := pubkey\<rparr>)" (is "_ = Inr ?phone")
    using d p(1) by (simp add: with_vault_key_index_def)
  show thesis
  proof (rule that [OF run])
    show "device_ok L K ?phone"
      using run with_vault_key_index_eq [OF base(1)] by (auto intro: from_mnemonic_ok)
    show "bech32_prefix (length suffix) (serialize (vat_output_key L template (vault_pubkey ?phone))) = suffix"
      using m vanity_target_matches [OF p(2)] by simp
  qed simp
qed

text \<open>A search that ends with a key has found one, and only running out of indexes makes it fail.\<close>

lemma grind_result:
  assumes init: "vanity_setup L K serialize entropy network hww suffix = Inr (base, template, trial)"
    and scope: "complete_scope threads trial count" and count: "0 < count"
    and network: "network = Bitcoin \<or> network = Regtest" and bech: "bech32_addresses L serialize"
  shows "(\<exists>v prefix. grind_vanity_phone_key L K serialize entropy threads network hww suffix count = Inr v
      \<and> device_ok L K (vp_phone v) \<and> vault_key_index (vp_phone v) < 2 ^ 31
      \<and> vp_vault_address v = addr_text (vat_address L template (vault_pubkey (vp_phone v)) network)
      \<and> expected_vanity_prefix network suffix = Inr prefix \<and> starts_with (vp_vault_address v) prefix)
    \<or> (\<exists>i < 2 ^ 31. \<exists>e. trial i = Inl e \<and> grind_vanity_phone_key L K serialize entropy threads network hww suffix count = Inl e)
    \<or> grind_vanity_phone_key L K serialize entropy threads network hww suffix count = Inl (Wal (Vanity NoVanityMatch))
      \<and> (\<forall>i < 2 ^ 31. trial i = Inr False)"
proof -
  have net: "validate_supported_network network = Inr ()" using network by (auto simp: validate_supported_network_def)
  show ?thesis
  proof (cases "receive_index (threads trial count)")
    case (Inl e)
    then have "grind_vanity_phone_key L K serialize entropy threads network hww suffix count = Inl e"
      using init count net by (simp add: grind_vanity_phone_key_def Let_def)
    then show ?thesis using received_ok(2) [OF scope count Inl] by blast
  next
    case (Inr i)
    note r = received_ok(1) [OF scope count Inr]
    obtain phone where p: "with_vault_key_index L K base i = Inr phone" "device_ok L K phone" "vault_key_index phone = i"
      and b: "bech32_prefix (length suffix) (serialize (vat_output_key L template (vault_pubkey phone))) = suffix"
      using winning_phone [OF init conjunct2 [OF r]] by blast
    let ?address = "addr_text (vat_address L template (vault_pubkey phone) network)"
    have "length suffix \<le> 6" using vanity_setup_device [OF init] by blast
    then obtain q where q: "bech32_prefix 6 (serialize (vat_output_key L template (vault_pubkey phone))) = suffix @ q"
      using bech32_prefix_le b by metis
    obtain prefix where prefix: "expected_vanity_prefix network suffix = Inr prefix" and "starts_with ?address (prefix @ q)"
      using network bech q [symmetric]
      by (auto simp: expected_vanity_prefix_def bech32_addresses_def vat_address_def)
    then have "starts_with ?address prefix" by (blast intro: starts_with_append)
    then show ?thesis
      using init count net Inr p prefix r by (simp add: grind_vanity_phone_key_def Let_def)
  qed
qed

end
