(* ===== verification/Rotation.thy ===== *)
theory Rotation
  imports Vanity
begin

text \<open>
  \<^verbatim>\<open>src/hot_wallet/rotation.rs\<close>: replacing the phone key. The phone proposes a sweep of the old
  vault to a new one together with a renewed policy; once the hardware wallet has approved both it
  archives the keys of both generations, sweeps its hot wallet, revokes the old connectors, sweeps
  the vault, and switches its files over. The order matters: nothing is broadcast before both
  generations of keys are on disk.
\<close>

section \<open>Proposals\<close>

record 'b vanity_phone_rotation =
  vr_package :: "'b phone_rotation_package"
  vr_attempts :: nat
  vr_worker_count :: nat
  vr_resumed :: bool

record rotation_context =
  rc_old_config :: vault_config
  rc_utxos :: "vault_utxo list"
  rc_old_phone :: device_keys

record rotation_result =
  rr_sweep :: sweep_result
  rr_controller_revocation_txid :: "txid option"
  rr_hot_wallet_sweep_txid :: "txid option"
  rr_old_address :: string
  rr_new_address :: string
  rr_new_phone_mnemonic :: string
  rr_renewed_schedule :: "schedule option"

definition load_rotation_context ::
  "lib \<Rightarrow> key_lib \<Rightarrow> ('b, 'z) storage_codecs_scheme \<Rightarrow> blockchain \<Rightarrow> path \<Rightarrow> 'b world \<Rightarrow> rotation_context result" where
  "load_rotation_context L K C B data_dir w =
     bind_result (load_config C data_dir w) (\<lambda>old_config.
     bind_result (ensure_backend_network B old_config) (\<lambda>_.
     bind_result (bc_scan_vault B old_config) (\<lambda>utxos.
     bind_result (load_device_keys L K C data_dir PHONE_DEVICE_FILE w) (\<lambda>old_phone.
     Inr \<lparr>rc_old_config = old_config, rc_utxos = utxos, rc_old_phone = old_phone\<rparr>))))"

definition load_pending_vanity_phone ::
  "lib \<Rightarrow> key_lib \<Rightarrow> ('b, 'z) storage_codecs_scheme \<Rightarrow> path \<Rightarrow> vault_config \<Rightarrow> xonly \<Rightarrow> string \<Rightarrow> 'b world \<Rightarrow>
   (device_keys \<times> string) option result" where
  "load_pending_vanity_phone L K C data_dir old_config hww_pubkey suffix w =
     (let pending_path = join_str data_dir PENDING_PHONE_ROTATION_FILE in
      if \<not> path_exists w pending_path then Inr None else
      bind_result (config_network old_config) (\<lambda>network.
      bind_result (read_json (device_codec C) pending_path w) (\<lambda>pending.
      bind_result (if df_kind pending \<noteq> ''pending-phone-rotation'' then Inl (Wal (Rotate PendingInvalid))
                   else bind_result (device_network pending) (\<lambda>n.
                        if n \<noteq> network then Inl (Wal (Rotate PendingInvalid)) else Inr ())) (\<lambda>_.
      bind_result (parse_for_network_at_index L K (df_mnemonic pending) network (df_vault_key_index pending)) (\<lambda>phone.
      bind_result (vault_new L (vault_pubkey phone) hww_pubkey network) (\<lambda>policy.
      bind_result (map_err (expected_vanity_prefix network suffix) (Wal (Rotate VanityRotationNetwork))) (\<lambda>expected_prefix.
      let address = addr_text (vp_address policy) in
      if \<not> starts_with address expected_prefix then Inl (Wal (Rotate PendingNotVanity))
      else Inr (Some (phone, address)))))))))"

definition build_renewed_policy ::
  "lib \<Rightarrow> key_lib \<Rightarrow> ('b, 'z) ceremony_codecs_scheme \<Rightarrow> ('b, 'y) bdk_lib_scheme \<Rightarrow> path \<Rightarrow> vault_config \<Rightarrow> vault_config \<Rightarrow>
   device_keys \<Rightarrow> 'b cooperative_sweep_package \<Rightarrow> int \<Rightarrow> ('b, 'b policy_package) io" where
  "build_renewed_policy L K C W data_dir old_config new_config new_phone sweep now =
     bindM (liftM (ok_or (psbt_from_text C (sw_psbt sweep)) (Lib PsbtParseError))) (\<lambda>sweep_psbt.
     bindM (liftM (ok_or (get (tx_output (unsigned_tx sweep_psbt)) 0) (Wal (Rotate RotationNoOutput)))) (\<lambda>sweep_output.
     let virtual_utxo = \<lparr>utxo_outpoint = OutPoint (compute_txid L (unsigned_tx sweep_psbt)) 0,
           utxo_txout = sweep_output, confirmation_height = 0\<rparr>;
         workspace = join_str data_dir ''phone/rotation-policy-proposal'' in
     bindM (reset_workspace workspace) (\<lambda>_.
     bindM (liftM (ephemeral K W new_phone)) (\<lambda>addresses.
     bindM (with_addresses addresses (build_policy_proposal L C new_config [virtual_utxo] now
              \<lparr>pl_monthly_limit_sats = vc_monthly_limit_sats old_config,
               pl_emergency_access_limit_sats = vc_emergency_access_limit_sats old_config\<rparr> workspace new_phone)) (\<lambda>_.
     bindM (readM (package_from_batch C workspace)) (\<lambda>package.
     bindM (reset_workspace workspace) (\<lambda>_.
     returnM package)))))))"

definition build_phone_rotation ::
  "lib \<Rightarrow> key_lib \<Rightarrow> ('b, 'z) ceremony_codecs_scheme \<Rightarrow> ('b, 'y) bdk_lib_scheme \<Rightarrow> path \<Rightarrow> rotation_context \<Rightarrow>
   device_keys \<Rightarrow> int \<Rightarrow> ('b, 'b phone_rotation_package) io" where
  "build_phone_rotation L K C W data_dir context new_phone now =
     (let old_config = rc_old_config context in
      bindM (liftM (config_network old_config)) (\<lambda>network.
      bindM (liftM (ok_or (xonly_from_str L (hww_vault_pubkey old_config)) (Lib KeyParseError))) (\<lambda>hww_pubkey.
      bindM (liftM (vault_new L (vault_pubkey new_phone) hww_pubkey network)) (\<lambda>new_policy.
      bindM (liftM (rotated_config L K old_config new_phone new_policy)) (\<lambda>new_config.
      bindM (write_json (device_codec C) (join_str data_dir PENDING_PHONE_ROTATION_FILE)
        \<lparr>df_kind = ''pending-phone-rotation'', df_network = vc_network old_config,
         df_mnemonic = dk_mnemonic new_phone, df_vault_key_index = vault_key_index new_phone\<rparr>) (\<lambda>_.
      bindM (liftM (create_cooperative_sweep L C old_config (rc_utxos context) (vp_address new_policy)
                      (rc_old_phone context))) (\<lambda>sweep.
      bindM (if vc_monthly_limit_sats old_config = 0 \<and> vc_emergency_access_limit_sats old_config = 0 then returnM None
             else bindM (build_renewed_policy L K C W data_dir old_config new_config new_phone sweep now)
                    (\<lambda>p. returnM (Some p))) (\<lambda>renewed.
      returnM \<lparr>rot_version = 1, rot_kind = ''phone-key-rotation'', old_vault_descriptor = vc_vault_descriptor old_config,
        new_phone_vault_pubkey = xonly_to_string L (vault_pubkey new_phone),
        new_vault_descriptor = vault_descriptor_string L new_policy,
        new_vault_address = addr_text (vp_address new_policy),
        rot_monthly_limit_sats = vc_monthly_limit_sats old_config,
        rot_emergency_access_limit_sats = vc_emergency_access_limit_sats old_config,
        rot_sweep = sweep, renewed_policy = renewed, cloud_recovery_backup = None\<rparr>))))))))"

definition create_phone_rotation ::
  "lib \<Rightarrow> key_lib \<Rightarrow> ('b, 'z) ceremony_codecs_scheme \<Rightarrow> ('b, 'y) bdk_lib_scheme \<Rightarrow> blockchain \<Rightarrow> path \<Rightarrow> nat \<Rightarrow> int \<Rightarrow>
   ('b, 'b phone_rotation_package) io" where
  "create_phone_rotation L K C W B data_dir entropy now =
     bindM (readM (load_rotation_context L K C B data_dir)) (\<lambda>context.
     bindM (liftM (config_network (rc_old_config context))) (\<lambda>network.
     bindM (liftM (generate_for_network L K entropy network)) (\<lambda>new_phone.
     build_phone_rotation L K C W data_dir context new_phone now)))"

definition create_vanity_phone_rotation_with_suffix ::
  "lib \<Rightarrow> key_lib \<Rightarrow> ('b, 'z) ceremony_codecs_scheme \<Rightarrow> ('b, 'y) bdk_lib_scheme \<Rightarrow> (xonly \<Rightarrow> bytes) \<Rightarrow> nat \<Rightarrow> thread_scope \<Rightarrow>
   blockchain \<Rightarrow> path \<Rightarrow> string \<Rightarrow> nat \<Rightarrow> int \<Rightarrow> ('b, 'b vanity_phone_rotation) io" where
  "create_vanity_phone_rotation_with_suffix L K C W serialize entropy threads B data_dir suffix count now =
     bindM (readM (load_rotation_context L K C B data_dir)) (\<lambda>context.
     let old_config = rc_old_config context in
     bindM (liftM (config_network old_config)) (\<lambda>network.
     bindM (liftM (ok_or (xonly_from_str L (hww_vault_pubkey old_config)) (Lib KeyParseError))) (\<lambda>hww_pubkey.
     bindM (readM (load_pending_vanity_phone L K C data_dir old_config hww_pubkey suffix)) (\<lambda>pending.
     bindM (liftM (case pending of
              Some (phone, address) \<Rightarrow> Inr (phone, address, 0, 0, True)
            | None \<Rightarrow> bind_result (grind_vanity_phone_key L K serialize entropy threads network hww_pubkey suffix count) (\<lambda>v.
                Inr (vp_phone v, vp_vault_address v, vp_attempts v, vp_worker_count v, False))))
       (\<lambda>(new_phone, expected_address, attempts, actual_worker_count, resumed).
     bindM (build_phone_rotation L K C W data_dir context new_phone now) (\<lambda>package.
     if new_vault_address package \<noteq> expected_address then failM (Wal (Rotate VanityAddressChanged))
     else returnM \<lparr>vr_package = package, vr_attempts = attempts, vr_worker_count = actual_worker_count,
       vr_resumed = resumed\<rparr>))))))"

definition create_vanity_phone_rotation ::
  "lib \<Rightarrow> key_lib \<Rightarrow> ('b, 'z) ceremony_codecs_scheme \<Rightarrow> ('b, 'y) bdk_lib_scheme \<Rightarrow> (xonly \<Rightarrow> bytes) \<Rightarrow> nat \<Rightarrow> thread_scope \<Rightarrow>
   nat option \<Rightarrow> blockchain \<Rightarrow> path \<Rightarrow> int \<Rightarrow> ('b, 'b vanity_phone_rotation) io" where
  "create_vanity_phone_rotation L K C W serialize entropy threads parallelism B data_dir now =
     create_vanity_phone_rotation_with_suffix L K C W serialize entropy threads B data_dir VANITY_SUFFIX
       (case parallelism of Some n \<Rightarrow> n | None \<Rightarrow> 1) now"

section \<open>Archives\<close>

definition rotation_archive :: "lib \<Rightarrow> path \<Rightarrow> txid \<Rightarrow> path" where
  "rotation_archive L data_dir txid =
     join_str (join_str data_dir ''history'') (''rotation-'' @ txid_to_string L txid)"

definition copy_private :: "path \<Rightarrow> path \<Rightarrow> string \<Rightarrow> ('b, unit) io" where
  "copy_private data_dir archive relative =
     bindM (readM (\<lambda>w. Inr (path_exists w (join_str data_dir relative)))) (\<lambda>exists.
     if exists
     then bindM (readM (read_file (join_str data_dir relative))) (\<lambda>content. write_private (join_str archive relative) content)
     else returnM ())"

definition preserve_rotation_keys ::
  "('b, 'z) wallet_codecs_scheme \<Rightarrow> path \<Rightarrow> path \<Rightarrow> vault_config \<Rightarrow> vault_config \<Rightarrow> device_file \<Rightarrow> 'b cloud_recovery_backup \<Rightarrow>
   ('b, unit) io" where
  "preserve_rotation_keys C data_dir archive old_config new_config pending backup =
     bindM (write_json (config_codec C) (join_str archive CONFIG_FILE) old_config) (\<lambda>_.
     bindM (forM [PHONE_DEVICE_FILE, PHONE_BACKUP_FILE] (copy_private data_dir archive)) (\<lambda>_.
     let replacement = join_str archive ''replacement'' in
     bindM (write_json (config_codec C) (join_str replacement CONFIG_FILE) new_config) (\<lambda>_.
     bindM (write_json (device_codec C) (join_str replacement PHONE_DEVICE_FILE) pending) (\<lambda>_.
     write_json (backup_codec C) (join_str replacement PHONE_BACKUP_FILE) backup))))"

definition archive_entry :: "path \<Rightarrow> path \<Rightarrow> string \<Rightarrow> ('b, unit) io" where
  "archive_entry data_dir archive relative =
     bindM (readM (\<lambda>w. Inr (path_exists w (join_str data_dir relative)))) (\<lambda>exists.
     if \<not> exists then returnM () else
     bindM (create_dir_all (butlast (join_str archive relative))) (\<lambda>_.
     rename (join_str data_dir relative) (join_str archive relative)))"

definition archive_old_epoch ::
  "lib \<Rightarrow> ('b, 'z) storage_codecs_scheme \<Rightarrow> path \<Rightarrow> vault_config \<Rightarrow> txid \<Rightarrow> ('b, unit) io" where
  "archive_old_epoch L C data_dir old_config txid =
     (let archive = rotation_archive L data_dir txid in
      bindM (create_dir_all archive) (\<lambda>_.
      bindM (write_json (config_codec C) (join_str archive CONFIG_FILE) old_config) (\<lambda>_.
      forM [SCHEDULE_FILE, ''phone/transactions'', DEFAULT_BATCH_DIR, ''phone/hot-wallet.sqlite-wal'',
            ''phone/hot-wallet.sqlite-shm'', ''phone/hot-wallet.sqlite'']
        (archive_entry data_dir archive))))"

section \<open>Activation\<close>

definition expect_address :: "error \<Rightarrow> string \<Rightarrow> ('b, unit) io" where
  "expect_address e expected =
     bindM next_receive_address (\<lambda>a. if addr_text a \<noteq> expected then failM e else returnM ())"

definition check_policy_addresses :: "error \<Rightarrow> batch_manifest \<Rightarrow> ('b, unit) io" where
  \<comment> \<open>the receive addresses in the order the proposal drew them\<close>
  "check_policy_addresses e m =
     bindM (case emergency_access m of None \<Rightarrow> returnM () | Some ea \<Rightarrow> expect_address e (em_hot_address ea)) (\<lambda>_.
     forM (allowances m) (\<lambda>a. expect_address e (al_hot_address a)))"

definition validate_rotation_hot_addresses ::
  "key_lib \<Rightarrow> ('b, 'y) bdk_lib_scheme \<Rightarrow> device_keys \<Rightarrow> 'b policy_package \<Rightarrow> ('b, unit) io" where
  "validate_rotation_hot_addresses K W new_phone renewed =
     bindM (liftM (ephemeral K W new_phone)) (\<lambda>addresses.
     bindM (with_addresses addresses (check_policy_addresses (Wal (Rotate RotationAddresses)) (pp_manifest renewed))) (\<lambda>_.
     returnM ()))"

definition review_renewed_policy ::
  "lib \<Rightarrow> key_lib \<Rightarrow> ('b, 'z) ceremony_codecs_scheme \<Rightarrow> ('b, 'y) bdk_lib_scheme \<Rightarrow> path \<Rightarrow> vault_config \<Rightarrow> vault_config \<Rightarrow>
   device_keys \<Rightarrow> 'b cooperative_sweep_package \<Rightarrow> 'b policy_package option \<Rightarrow> ('b, unit) io" where
  "review_renewed_policy L K C W workspace old_config new_config new_phone sweep renewed = (case renewed of
       None \<Rightarrow> returnM ()
     | Some policy \<Rightarrow>
         if \<not> hww_approved (pp_manifest policy) then failM (Wal (Rotate RotationApprovalMissing)) else
         bindM (reset_workspace workspace) (\<lambda>_.
         bindM (materialize_policy_package C policy workspace) (\<lambda>_.
         bindM (readM (validate_approved_batch L C new_config (pp_manifest policy) workspace)) (\<lambda>_.
         bindM (liftM (validate_rotation_policy_binding L C old_config new_config sweep policy)) (\<lambda>_.
         validate_rotation_hot_addresses K W new_phone policy)))))"

definition sweep_old_hot_wallet ::
  "lib \<Rightarrow> key_lib \<Rightarrow> ('b, 'z) hot_codecs_scheme \<Rightarrow> ('b, 'y) bdk_lib_scheme \<Rightarrow> ('b, unit) io \<Rightarrow> blockchain \<Rightarrow> path \<Rightarrow> path \<Rightarrow>
   script \<Rightarrow> ('b, txid option) io" where
  "sweep_old_hot_wallet L K C W sync B data_dir archive destination =
     bindM (open_or_create L K C W data_dir) (\<lambda>_.
     bindM sync (\<lambda>_.
     bindM (build_sweep W destination) (\<lambda>hot_sweep. case hot_sweep of
       None \<Rightarrow> returnM None
     | Some tx \<Rightarrow>
         bindM (write_json (tx_codec C) (join_str archive ''hot-wallet-sweep.json'') tx) (\<lambda>_.
         bindM (contextM (Wal (Hot (BroadcastFailed HotSweepSent))) (broadcast B tx)) (\<lambda>actual.
         if actual \<noteq> compute_txid L tx then failM (Wal (Hot (UnexpectedTxid HotSweepSent)))
         else returnM (Some (compute_txid L tx)))))))"

definition revoke_old_controllers ::
  "lib \<Rightarrow> blockchain \<Rightarrow> vault_config \<Rightarrow> device_keys \<Rightarrow> address result list \<times> address result list \<Rightarrow>
   ('b, (address \<times> txid) option) io" where
  "revoke_old_controllers L B old_config old_phone addresses =
     bindM (liftM (bc_scan_connectors B old_config)) (\<lambda>old_connectors.
     if old_connectors = [] then returnM None else
     bindM (with_addresses addresses next_change_address) (\<lambda>(destination, _).
     bindM (liftM (ok_or (xonly_from_str L (phone_vault_pubkey old_config)) (Lib KeyParseError))) (\<lambda>phone_pubkey.
     bindM (liftM (ok_or (xonly_from_str L (hww_vault_pubkey old_config)) (Lib KeyParseError))) (\<lambda>hww_pubkey.
     bindM (liftM (config_network old_config)) (\<lambda>network.
     bindM (liftM (controller_new L phone_pubkey hww_pubkey network)) (\<lambda>controller.
     bindM (liftM (build_controller_revocation_psbt L old_connectors (addr_script destination)
                     DEFAULT_FEE_RATE_SAT_VB controller)) (\<lambda>(psbt, _).
     bindM (liftM (sign_controller_psbt_inputs L psbt controller ControllerPhone (vault_keypair old_phone)
                     [0..<length (psbt_inputs psbt)])) (\<lambda>signed.
     bindM (liftM (finalize_vault_psbt L signed)) (\<lambda>tx.
     bindM (contextM (Wal (Hot (BroadcastFailed ControllerRevocationSent))) (broadcast B tx)) (\<lambda>actual.
     if actual \<noteq> compute_txid L tx then failM (Wal (Hot (UnexpectedTxid ControllerRevocationSent)))
     else returnM (Some (destination, compute_txid L tx))))))))))))"

definition install_new_phone ::
  "('b, 'z) wallet_codecs_scheme \<Rightarrow> path \<Rightarrow> vault_config \<Rightarrow> device_file \<Rightarrow> 'b cloud_recovery_backup \<Rightarrow> ('b, unit) io" where
  "install_new_phone C data_dir new_config pending backup =
     bindM (write_json (config_codec C) (join_str data_dir CONFIG_FILE) new_config) (\<lambda>_.
     bindM (write_json (device_codec C) (join_str data_dir PHONE_DEVICE_FILE)
       \<lparr>df_kind = ''phone'', df_network = vc_network new_config, df_mnemonic = df_mnemonic pending,
        df_vault_key_index = df_vault_key_index pending\<rparr>) (\<lambda>_.
     write_json (backup_codec C) (join_str data_dir PHONE_BACKUP_FILE) backup))"

definition check_new_wallet ::
  "lib \<Rightarrow> key_lib \<Rightarrow> ('b, 'z) storage_codecs_scheme \<Rightarrow> ('b, 'y) bdk_lib_scheme \<Rightarrow> path \<Rightarrow> address \<Rightarrow> (address \<times> txid) option \<Rightarrow>
   'b policy_package option \<Rightarrow> ('b, unit) io" where
  "check_new_wallet L K C W data_dir hot_destination revoked renewed =
     bindM (open_or_create L K C W data_dir) (\<lambda>_.
     bindM next_change_address (\<lambda>first.
     if first \<noteq> hot_destination then failM (Wal (Rotate HotSweepDestination)) else
     bindM (case revoked of None \<Rightarrow> returnM ()
            | Some (expected, _) \<Rightarrow> bindM next_change_address (\<lambda>a.
                if a \<noteq> expected then failM (Wal (Rotate ControllerChangeAddress)) else returnM ())) (\<lambda>_.
     case renewed of None \<Rightarrow> returnM ()
     | Some policy \<Rightarrow> check_policy_addresses (Wal (Rotate RotationAddresses)) (pp_manifest policy))))"

record 'b prepared_rotation =
  pr_old_config :: vault_config
  pr_new_config :: vault_config
  pr_new_phone :: device_keys
  pr_old_phone :: device_keys
  pr_backup :: "'b cloud_recovery_backup"
  pr_pending :: device_file
  pr_archive :: path

definition rotation_workspace :: "path \<Rightarrow> path" where
  "rotation_workspace data_dir = join_str data_dir ''phone/rotation-policy-activation''"

definition prepare_rotation ::
  "lib \<Rightarrow> key_lib \<Rightarrow> ('b, 'z) hot_codecs_scheme \<Rightarrow> ('b, 'x) bdk_lib_scheme \<Rightarrow> blockchain \<Rightarrow> path \<Rightarrow>
   'b phone_rotation_package \<Rightarrow> ('b, 'b prepared_rotation) io" where
  \<comment> \<open>up to ``Keep both generations recoverable before sending any funds''\<close>
  "prepare_rotation L K C W B data_dir package =
     bindM (readM (validate_phone_rotation L K C data_dir package)) (\<lambda>(old_config, new_config, new_phone).
     bindM (liftM (ensure_backend_network B old_config)) (\<lambda>_.
     bindM (readM (load_device_keys L K C data_dir PHONE_DEVICE_FILE)) (\<lambda>old_phone.
     bindM (liftM (ok_or (cloud_recovery_backup package) (Wal (Rotate RotationBackupMissing)))) (\<lambda>backup.
     if \<not> sw_hww_approved (rot_sweep package) then failM (Wal (Rotate RotationApprovalMissing)) else
     bindM (readM (read_json (device_codec C) (join_str data_dir PENDING_PHONE_ROTATION_FILE))) (\<lambda>pending.
     bindM (review_renewed_policy L K C W (rotation_workspace data_dir) old_config new_config new_phone
              (rot_sweep package) (renewed_policy package)) (\<lambda>_.
     bindM (liftM (ok_or (psbt_from_text C (sw_psbt (rot_sweep package))) (Lib PsbtParseError))) (\<lambda>sweep_psbt.
     let archive = rotation_archive L data_dir (compute_txid L (unsigned_tx sweep_psbt)) in
     bindM (preserve_rotation_keys C data_dir archive old_config new_config pending backup) (\<lambda>_.
     returnM \<lparr>pr_old_config = old_config, pr_new_config = new_config, pr_new_phone = new_phone,
       pr_old_phone = old_phone, pr_backup = backup, pr_pending = pending, pr_archive = archive\<rparr>))))))))"

definition perform_rotation ::
  "lib \<Rightarrow> key_lib \<Rightarrow> ('b, 'y) crypto_lib_scheme \<Rightarrow> ('b, 'z) hot_codecs_scheme \<Rightarrow> ('b, 'x) bdk_lib_scheme \<Rightarrow> ('b, unit) io \<Rightarrow>
   activation_nonces \<Rightarrow> blockchain \<Rightarrow> path \<Rightarrow> 'b phone_rotation_package \<Rightarrow> 'b prepared_rotation \<Rightarrow> ('b, rotation_result) io" where
  "perform_rotation L K Y C W sync nonces B data_dir package p =
     bindM (liftM (ephemeral K W (pr_new_phone p))) (\<lambda>addresses.
     bindM (with_addresses addresses next_change_address) (\<lambda>(hot_destination, addresses').
     bindM (sweep_old_hot_wallet L K C W sync B data_dir (pr_archive p) (addr_script hot_destination)) (\<lambda>hot_txid.
     bindM (revoke_old_controllers L B (pr_old_config p) (pr_old_phone p) addresses') (\<lambda>revoked.
     bindM (broadcast_cooperative_sweep_for_config L C B (pr_old_config p) (rot_sweep package)) (\<lambda>sweep.
     bindM (archive_old_epoch L C data_dir (pr_old_config p) (sr_txid sweep)) (\<lambda>_.
     bindM (install_new_phone C data_dir (pr_new_config p) (pr_pending p) (pr_backup p)) (\<lambda>_.
     bindM (check_new_wallet L K C W data_dir hot_destination revoked (renewed_policy package)) (\<lambda>_.
     bindM (case renewed_policy package of None \<Rightarrow> returnM None
            | Some _ \<Rightarrow> bindM (activate_policy L K Y C nonces B data_dir (rotation_workspace data_dir))
                         (\<lambda>s. returnM (Some s))) (\<lambda>renewed_schedule.
     bindM (reset_workspace (rotation_workspace data_dir)) (\<lambda>_.
     bindM (readM (\<lambda>w. Inr (path_exists w (join_str data_dir PENDING_PHONE_ROTATION_FILE)))) (\<lambda>exists.
     bindM (if exists then remove_file (join_str data_dir PENDING_PHONE_ROTATION_FILE) else returnM ()) (\<lambda>_.
     returnM \<lparr>rr_sweep = sweep, rr_controller_revocation_txid = map_option snd revoked,
       rr_hot_wallet_sweep_txid = hot_txid, rr_old_address = vc_vault_address (pr_old_config p),
       rr_new_address = vc_vault_address (pr_new_config p), rr_new_phone_mnemonic = df_mnemonic (pr_pending p),
       rr_renewed_schedule = renewed_schedule\<rparr>))))))))))))"

definition activate_phone_rotation ::
  "lib \<Rightarrow> key_lib \<Rightarrow> ('b, 'y) crypto_lib_scheme \<Rightarrow> ('b, 'z) hot_codecs_scheme \<Rightarrow> ('b, 'x) bdk_lib_scheme \<Rightarrow> ('b, unit) io \<Rightarrow>
   activation_nonces \<Rightarrow> blockchain \<Rightarrow> path \<Rightarrow> 'b phone_rotation_package \<Rightarrow> ('b, rotation_result) io" where
  \<comment> \<open>the sixth argument is the backend's \<^verbatim>\<open>sync_hot_wallet\<close>\<close>
  "activate_phone_rotation L K Y C W sync nonces B data_dir package =
     bindM (prepare_rotation L K C W B data_dir package)
       (perform_rotation L K Y C W sync nonces B data_dir package)"

end
