(* ===== verification/Rotation_Safety.thy ===== *)
theory Rotation_Safety
  imports Rotation Activation
begin

text \<open>
  The order of a phone rotation: whatever goes wrong after the first transaction was handed to the
  network, the keys of both generations are on disk. The file system operations of a rotation are
  framed by the subtrees they can change.
\<close>

section \<open>Subtrees\<close>

definition below :: "path \<Rightarrow> path set" where
  "below p = {k. take (length (resolve p)) k = resolve p}"

lemma below_iff: "k \<in> below p \<longleftrightarrow> (\<exists>s. k = resolve p @ s)"
  unfolding below_def by (metis (mono_tags) append_eq_conv_conj append_take_drop_id mem_Collect_eq)

lemma below_cases: "k \<in> below p \<longleftrightarrow> k = resolve p \<or> is_under p k"
proof
  assume "k \<in> below p"
  then obtain s where "k = resolve p @ s" by (auto simp: below_iff)
  then show "k = resolve p \<or> is_under p k" by (cases s) (auto simp: is_under_def)
next
  assume "k = resolve p \<or> is_under p k"
  then show "k \<in> below p" by (auto simp: below_def is_under_def)
qed

lemma touches_remove_file: "touches {resolve p} w (snd (remove_file p w))"
  by (auto simp: remove_file_def intro!: touches_faulty) (auto simp: touches_def delete_conv)

lemma map_of_filter_other: "P k \<Longrightarrow> map_of (filter (\<lambda>(q, _). P q) xs) k = map_of xs k"
  by (induction xs) auto

lemma touches_remove_dir_all: "touches (below p) w (snd (remove_dir_all p w))"
proof -
  have "touches (below p) v (v\<lparr>files := filter (\<lambda>(q, _). \<not> is_under p q) (files v), dirs := ds\<rparr>)" for v :: "'a world" and ds
    unfolding touches_def using map_of_filter_other [of "\<lambda>q. \<not> is_under p q"] by (auto simp: below_cases)
  then show ?thesis by (auto simp: remove_dir_all_def intro!: touches_faulty)
qed

lemma touches_reset_workspace: "touches (below p) w (snd (reset_workspace p w))"
  by (auto simp: reset_workspace_def intro!: touches_bindM touches_remove_dir_all)

lemma map_of_rename:
  assumes "k \<notin> below p" and "k \<notin> below q"
  shows "map_of (map (\<lambda>(j, b). (rename_key p q j, b)) (filter (\<lambda>(j, _). j \<noteq> resolve q) xs)) k = map_of xs k"
proof (induction xs)
  case (Cons x xs)
  obtain j b where x: "x = (j, b)" by (cases x)
  have "rename_key p q j = k \<longleftrightarrow> j = k" if "j \<noteq> resolve q"
  proof (cases "j \<in> below p")
    case True
    then have "rename_key p q j \<in> below q" by (auto simp: rename_key_def below_cases [symmetric] below_iff)
    then show ?thesis using assms True by auto
  next
    case False
    then show ?thesis by (simp add: rename_key_def below_cases)
  qed
  moreover have "resolve q \<noteq> k" using assms(2) by (auto simp: below_cases)
  ultimately show ?case using Cons x by auto
qed simp

lemma touches_rename: "touches (below p \<union> below q) w (snd (rename p q w))"
proof -
  have "touches (below p \<union> below q) v (v\<lparr>files := map (\<lambda>(k, b). (rename_key p q k, b)) (filter (\<lambda>(k, _). k \<noteq> resolve q) (files v)),
      dirs := ds\<rparr>)" for v :: "'a world" and ds
    unfolding touches_def using map_of_rename by auto
  then show ?thesis by (auto simp: rename_def intro!: touches_faulty)
qed

lemma touches_with_addresses: "(\<And>w. touches S w (snd (m w))) \<Longrightarrow> touches S w (snd (with_addresses s m w))"
proof -
  assume m: "\<And>w. touches S w (snd (m w))"
  have "touches S (w\<lparr>hot_supply := fst s, change_supply := snd s\<rparr>) (snd (m (w\<lparr>hot_supply := fst s, change_supply := snd s\<rparr>)))"
    by (rule m)
  then show ?thesis by (auto simp: with_addresses_def touches_def split: prod.splits)
qed

lemma touches_next_change_address [simp]: "touches S w (snd (next_change_address w))"
  by (auto simp: next_change_address_def touches_def split: list.splits)

lemma touches_materialize: "touches (below dir) w (snd (materialize_policy_package C package dir w))"
proof -
  have e: "touches (below dir) w (snd (materialize_psbt C dir e w))" for e and w :: "'a world"
  proof (cases "safe_relative (fst e)")
    case True
    then have "resolve (join_str dir (fst e)) \<in> below dir" by (auto simp: below_iff resolve_join_safe)
    then show ?thesis using True by (simp add: materialize_psbt_def touches_write_private)
  qed (simp add: materialize_psbt_def)
  have "resolve (join_str dir ''manifest.json'') \<in> below dir"
    by (simp add: below_iff resolve_join_safe)
  then show ?thesis
    by (auto simp: materialize_policy_package_def intro!: touches_bindM touches_forM touches_write_json e)
qed

lemma touches_expect_address: "touches S w (snd (expect_address e a w))"
  by (auto simp: expect_address_def intro!: touches_bindM)

lemma touches_check_policy_addresses: "touches S w (snd (check_policy_addresses e m w))"
  by (auto simp: check_policy_addresses_def intro!: touches_bindM touches_forM touches_expect_address split: option.split)

lemma touches_review:
  "touches (below workspace) w (snd (review_renewed_policy L K C W workspace old_config new_config new_phone sweep renewed w))"
  by (auto simp: review_renewed_policy_def validate_rotation_hot_addresses_def split: option.split
      intro!: touches_bindM touches_reset_workspace touches_materialize touches_with_addresses touches_check_policy_addresses)

definition db_key :: "path \<Rightarrow> path" where
  "db_key data_dir = resolve (hot_db_path data_dir)"

lemma touches_open_or_create: "touches {db_key data_dir} w (snd (open_or_create L K C W data_dir w))"
proof -
  have p: "touches {resolve p} w (snd (open_or_create_with_keys K W p keys w))" for p keys and w :: "'a world"
    by (auto simp: open_or_create_with_keys_def touches_def bindM_def put_file_def update_conv
        split: prod.splits sum.splits option.splits if_splits dest!: faulty_cases next_fault_frame)
  show ?thesis by (auto simp: open_or_create_def db_key_def intro!: touches_bindM p)
qed

lemma touches_syncs: "touches S w (snd (sync_core W w))" "touches S w (snd (sync_electrum W w))"
  by (auto simp: sync_core_def sync_electrum_def persist_def intro!: touches_bindM touches_faulty)
    (auto simp: touches_def)

lemma touches_build_sweep: "touches S w (snd (build_sweep W destination w))"
  by (auto simp: build_sweep_def finish_and_sign_def persist_def intro!: touches_bindM split: prod.split)

section \<open>What survives\<close>

definition keeps :: "path set \<Rightarrow> 'b world \<Rightarrow> 'b world \<Rightarrow> bool" where
  "keeps K w w' \<longleftrightarrow> (\<forall>k \<in> K. map_of (files w') k = map_of (files w) k)"

interpretation keeps_frame: effect_frame "keeps K" for K
  by unfold_locales (auto simp: keeps_def)

lemma touches_keeps: "touches S w w' \<Longrightarrow> S \<inter> K = {} \<Longrightarrow> keeps K w w'"
  by (auto simp: touches_def keeps_def)

lemma keeps_refl [simp]: "keeps K w w"
  by (simp add: keeps_def)

lemma keeps_broadcast [simp]: "keeps K w (snd (broadcast B tx w))"
  by (simp add: keeps_def)

lemma keeps_create_dir_all [simp]: "keeps K w (snd (create_dir_all p w))"
  by (rule touches_keeps [OF touches_create_dir_all, of "{}"]) simp

definition archive_root :: "lib \<Rightarrow> path \<Rightarrow> txid \<Rightarrow> path" where
  "archive_root L data_dir txid =
     resolve data_dir @ [Normal ''history'', Normal (''rotation-'' @ txid_to_string L txid)]"

definition key_archive :: "lib \<Rightarrow> path \<Rightarrow> txid \<Rightarrow> path set" where
  \<comment> \<open>the device files of the replaced and of the replacing phone\<close>
  "key_archive L data_dir txid =
     {archive_root L data_dir txid @ [Normal ''phone'', Normal ''device.json''],
      archive_root L data_dir txid @ [Normal ''replacement'', Normal ''phone'', Normal ''device.json'']}"

lemma plain_history:
  "plain_name ''history''" "plain_name ''replacement''" "plain_name ''hot-wallet-sweep.json''"
  "lib_txid_text L \<Longrightarrow> plain_name (''rotation-'' @ txid_to_string L txid)"
  by (auto simp: plain_name_def lib_txid_text_def dest: spec [of _ txid])

lemma plain_join: "plain_name s \<Longrightarrow> resolve (join_str base s) = resolve base @ [Normal s]"
  by (simp add: resolve_join_safe plain_safe components_plain)

lemma append_two: "(xs @ [a]) @ [b] = xs @ [a, b]"
  by simp

lemma archive_resolve: "lib_txid_text L \<Longrightarrow> resolve (rotation_archive L data_dir txid) = archive_root L data_dir txid"
  unfolding rotation_archive_def archive_root_def
  by (simp only: plain_join plain_history append_two)

lemma relative_components:
  "components ''phone/rotation-policy-activation'' = [Normal ''phone'', Normal ''rotation-policy-activation'']"
  "components PENDING_PHONE_ROTATION_FILE = [Normal ''phone'', Normal ''pending-rotation.json'']"
  "components PHONE_BACKUP_FILE = [Normal ''cloud'', Normal ''phone-seed-backup.json'']"
  "components ''phone/hot-wallet.sqlite'' = [Normal ''phone'', Normal ''hot-wallet.sqlite'']"
  "components ''phone/hot-wallet.sqlite-wal'' = [Normal ''phone'', Normal ''hot-wallet.sqlite-wal'']"
  "components ''phone/hot-wallet.sqlite-shm'' = [Normal ''phone'', Normal ''hot-wallet.sqlite-shm'']"
  "components DEFAULT_BATCH_DIR = [Normal ''ceremony'', Normal ''active'']"
  "components CONFIG_FILE = [Normal ''anzen.json'']"
  by (simp_all add: components_def part_component_def PENDING_PHONE_ROTATION_FILE_def PHONE_BACKUP_FILE_def
      DEFAULT_BATCH_DIR_def CONFIG_FILE_def)

lemma join_components:
  assumes "components s = map Normal ns" and "ns \<noteq> []"
  shows "resolve (join_str base s) = resolve base @ map Normal ns"
proof -
  have "safe_relative s" using assms by (cases ns) (auto simp: safe_relative_def is_absolute_def is_normal_def)
  then show ?thesis using assms(1) by (simp add: resolve_join_safe)
qed

lemmas relative_resolve =
  join_components [of _ "[a, b]" for a b, simplified, OF relative_components(1)]
  join_components [of _ "[a, b]" for a b, simplified, OF relative_components(2)]
  join_components [of _ "[a, b]" for a b, simplified, OF relative_components(3)]
  join_components [of _ "[a, b]" for a b, simplified, OF relative_components(4)]
  join_components [of _ "[a, b]" for a b, simplified, OF relative_components(5)]
  join_components [of _ "[a, b]" for a b, simplified, OF relative_components(6)]
  join_components [of _ "[a, b]" for a b, simplified, OF relative_components(7)]
  join_components [of _ "[a]" for a, simplified, OF relative_components(8)]
  join_components [of _ "[a, b]" for a b, simplified, OF fixed_state_components(1)]
  join_components [of _ "[a, b]" for a b, simplified, OF fixed_state_components(2)]
  join_components [of _ "[a, b]" for a b, simplified, OF fixed_state_components(3)]

lemma keeps_activate_policy:
  assumes "lib_txid_text L" and "\<And>t. epoch_keys L data_dir t \<inter> K = {}" and "switch_keys L data_dir \<inter> K = {}"
  shows "keeps K w (snd (activate_policy L KL Y C nonces B data_dir batch_dir w))"
proof -
  have st: "keeps K v (snd (stage_epoch L Y C nonces data_dir batch_dir seed m tx v))" for seed m tx v
    by (rule touches_keeps [OF touches_stage_epoch [OF assms(1)] assms(2)])
  have sw: "keeps K v (snd (switch_epoch L C data_dir m previous t s v))" for m previous t s v
    by (rule touches_keeps [OF touches_switch_epoch]) (use assms(3) in \<open>simp add: switch_keys_def\<close>)
  show ?thesis
    by (auto simp: activate_policy_def Let_def intro!: keeps_frame.frame_bindM st sw)
qed

lemma region_free:
  assumes "lib_txid_text L"
  shows "epoch_keys L data_dir u \<inter> key_archive L data_dir t = {}" "switch_keys L data_dir \<inter> key_archive L data_dir t = {}"
    and "{db_key data_dir} \<inter> key_archive L data_dir t = {}"
    and "below (join_str data_dir ''phone/rotation-policy-activation'') \<inter> key_archive L data_dir t = {}"
    and "resolve (join_str data_dir CONFIG_FILE) \<notin> key_archive L data_dir t"
    and "resolve (join_str data_dir PHONE_DEVICE_FILE) \<notin> key_archive L data_dir t"
    and "resolve (join_str data_dir PHONE_BACKUP_FILE) \<notin> key_archive L data_dir t"
    and "resolve (join_str data_dir PENDING_PHONE_ROTATION_FILE) \<notin> key_archive L data_dir t"
proof -
  have k: "marker_key L data_dir u = epoch_root L data_dir u @ [Normal ''activated.json'']" for u
    unfolding marker_key_def by (rule epoch_file [OF assms plain_artifacts(4)])
  show "epoch_keys L data_dir u \<inter> key_archive L data_dir t = {}" "switch_keys L data_dir \<inter> key_archive L data_dir t = {}"
    "{db_key data_dir} \<inter> key_archive L data_dir t = {}"
    "below (join_str data_dir ''phone/rotation-policy-activation'') \<inter> key_archive L data_dir t = {}"
    "resolve (join_str data_dir CONFIG_FILE) \<notin> key_archive L data_dir t"
    "resolve (join_str data_dir PHONE_DEVICE_FILE) \<notin> key_archive L data_dir t"
    "resolve (join_str data_dir PHONE_BACKUP_FILE) \<notin> key_archive L data_dir t"
    "resolve (join_str data_dir PENDING_PHONE_ROTATION_FILE) \<notin> key_archive L data_dir t"
    by (auto simp: epoch_keys_def epoch_root_def switch_keys_def k schedule_key_eq config_key_eq key_archive_def archive_root_def
        db_key_def hot_db_path_def relative_resolve below_iff)
qed

lemma archive_write_free:
  assumes "lib_txid_text L" and "plain_name n"
  shows "resolve (join_str (rotation_archive L data_dir u) n) \<notin> key_archive L data_dir t"
  unfolding plain_join [OF assms(2)] archive_resolve [OF assms(1)] by (auto simp: key_archive_def archive_root_def)

lemma keeps_archive_old_epoch:
  assumes "lib_txid_text L"
  shows "keeps (key_archive L data_dir t) w (snd (archive_old_epoch L C data_dir old_config u w))"
proof -
  have cfg: "plain_name CONFIG_FILE" by (simp add: CONFIG_FILE_def plain_name_def)
  have e: "keeps (key_archive L data_dir t) w (snd (archive_entry data_dir (rotation_archive L data_dir u) s w))"
    if "s \<in> {SCHEDULE_FILE, ''phone/transactions'', DEFAULT_BATCH_DIR, ''phone/hot-wallet.sqlite-wal'',
            ''phone/hot-wallet.sqlite-shm'', ''phone/hot-wallet.sqlite''}" for s and w :: "'a world"
  proof -
    have "(below (join_str data_dir s) \<union> below (join_str (rotation_archive L data_dir u) s)) \<inter> key_archive L data_dir t = {}"
      using that by (auto simp: below_iff relative_resolve archive_resolve [OF assms] key_archive_def archive_root_def)
    then show ?thesis
      by (auto simp: archive_entry_def intro!: keeps_frame.frame_bindM touches_keeps [OF touches_rename])
  qed
  have "keeps (key_archive L data_dir t) w (snd (write_json c (join_str (rotation_archive L data_dir u) CONFIG_FILE) x w))"
    for c :: "('a, vault_config) codec" and x and w :: "'a world"
    by (rule touches_keeps [OF touches_write_json [OF insertI1]])
      (use archive_write_free [OF assms cfg, of data_dir u t] in auto)
  then show ?thesis
    unfolding archive_old_epoch_def Let_def
    by (intro keeps_frame.frame_bindM keeps_frame.frame_forM e) auto
qed

lemma write_json_file_at:
  "write_json c p x w = (r, w') \<Longrightarrow> resolve q \<noteq> resolve p \<Longrightarrow> file_at w' q = file_at w q"
  using touches_write_json [of p "{resolve p}" w c x] touches_file_at [of "{resolve p}" w w' q] by simp

lemma copy_private_Inr:
  assumes "copy_private data_dir archive s w = (Inr (), w')"
  shows "file_at w (join_str data_dir s) = Some b \<Longrightarrow> file_at w' (join_str archive s) = Some b"
    and "resolve q \<noteq> resolve (join_str archive s) \<Longrightarrow> file_at w' q = file_at w q"
proof -
  show "file_at w' (join_str archive s) = Some b" if "file_at w (join_str data_dir s) = Some b"
  proof -
    have "write_private (join_str archive s) b w = (Inr (), w')"
      using assms that by (auto simp: copy_private_def path_exists_def read_file_def split: if_splits)
    from write_private_Inr [OF this, of "join_str archive s"] show ?thesis by simp
  qed
  show "file_at w' q = file_at w q" if "resolve q \<noteq> resolve (join_str archive s)"
    using assms that by (auto simp: copy_private_def split: if_splits dest!: write_private_Inr [where q = q])
qed

lemma archive_paths:
  assumes "lib_txid_text L"
  shows "resolve (join_str (rotation_archive L data_dir t) PHONE_DEVICE_FILE) = archive_root L data_dir t @ [Normal ''phone'', Normal ''device.json'']"
    and "resolve (join_str (rotation_archive L data_dir t) CONFIG_FILE) = archive_root L data_dir t @ [Normal ''anzen.json'']"
    and "resolve (join_str (rotation_archive L data_dir t) PHONE_BACKUP_FILE) = archive_root L data_dir t @ [Normal ''cloud'', Normal ''phone-seed-backup.json'']"
    and "resolve (join_str (join_str (rotation_archive L data_dir t) ''replacement'') PHONE_DEVICE_FILE)
      = archive_root L data_dir t @ [Normal ''replacement'', Normal ''phone'', Normal ''device.json'']"
    and "resolve (join_str (join_str (rotation_archive L data_dir t) ''replacement'') CONFIG_FILE)
      = archive_root L data_dir t @ [Normal ''replacement'', Normal ''anzen.json'']"
    and "resolve (join_str (join_str (rotation_archive L data_dir t) ''replacement'') PHONE_BACKUP_FILE)
      = archive_root L data_dir t @ [Normal ''replacement'', Normal ''cloud'', Normal ''phone-seed-backup.json'']"
  by (simp_all add: relative_resolve plain_join plain_history archive_resolve [OF assms(1)])

lemma preserve_rotation_keys_Inr:
  assumes L: "lib_txid_text L" and C: "codec_ok (device_codec C)"
    and run: "preserve_rotation_keys C data_dir (rotation_archive L data_dir t) old_config new_config pending backup w = (Inr (), w')"
    and b: "file_at w (join_str data_dir PHONE_DEVICE_FILE) = Some b"
  shows "file_at w' (join_str (rotation_archive L data_dir t) PHONE_DEVICE_FILE) = Some b"
    and "read_json (device_codec C) (join_str (join_str (rotation_archive L data_dir t) ''replacement'') PHONE_DEVICE_FILE) w' = Inr pending"
proof -
  let ?a = "rotation_archive L data_dir t"
  let ?r = "join_str ?a ''replacement''"
  note paths = archive_paths [OF L, of data_dir t]
  obtain w1 w2 w3 w4 w5 where s1: "write_json (config_codec C) (join_str ?a CONFIG_FILE) old_config w = (Inr (), w1)"
    and s2: "copy_private data_dir ?a PHONE_DEVICE_FILE w1 = (Inr (), w2)"
    and s3: "copy_private data_dir ?a PHONE_BACKUP_FILE w2 = (Inr (), w3)"
    and s4: "write_json (config_codec C) (join_str ?r CONFIG_FILE) new_config w3 = (Inr (), w4)"
    and s5: "write_json (device_codec C) (join_str ?r PHONE_DEVICE_FILE) pending w4 = (Inr (), w5)"
    and s6: "write_json (backup_codec C) (join_str ?r PHONE_BACKUP_FILE) backup w5 = (Inr (), w')"
    using run by (auto simp: preserve_rotation_keys_def Let_def)
  have "file_at w1 (join_str data_dir PHONE_DEVICE_FILE) = Some b"
    using write_json_file_at [OF s1] b by (simp add: paths relative_resolve archive_root_def)
  then have "file_at w2 (join_str ?a PHONE_DEVICE_FILE) = Some b" using copy_private_Inr(1) [OF s2] by blast
  then show "file_at w' (join_str ?a PHONE_DEVICE_FILE) = Some b"
    using copy_private_Inr(2) [OF s3] write_json_file_at [OF s4] write_json_file_at [OF s5] write_json_file_at [OF s6]
    by (simp add: paths)
  show "read_json (device_codec C) (join_str ?r PHONE_DEVICE_FILE) w' = Inr pending"
    using json.fetch_put [OF C s5]
      write_json_file_at [OF s6, of "join_str ?r PHONE_DEVICE_FILE"]
    by (simp add: paths read_json_def read_file_def)
qed

section \<open>Keys before broadcasts\<close>

lemma touches_preserve: "touches UNIV w (snd (preserve_rotation_keys C data_dir a old_config new_config pending backup w))"
  by (auto simp: preserve_rotation_keys_def copy_private_def Let_def
      intro!: touches_bindM touches_forM touches_write_json touches_write_private)

lemma keeps_sweep_old_hot_wallet:
  assumes "lib_txid_text L" and "\<And>w. touches {} w (snd (sync w))"
  shows "keeps (key_archive L data_dir t) w
    (snd (sweep_old_hot_wallet L K C W sync B data_dir (rotation_archive L data_dir u) destination w))"
proof -
  let ?K = "key_archive L data_dir t"
  have o: "keeps ?K v (snd (open_or_create L K C W data_dir v))" for v
    by (rule touches_keeps [OF touches_open_or_create region_free(3) [OF assms(1)]])
  have s: "keeps ?K v (snd (sync v))" for v by (rule touches_keeps [OF assms(2)]) simp
  have b: "keeps ?K v (snd (build_sweep W destination v))" for v by (rule touches_keeps [OF touches_build_sweep, of "{}"]) simp
  have a: "keeps ?K v (snd (write_json (tx_codec C) (join_str (rotation_archive L data_dir u) ''hot-wallet-sweep.json'') tx v))"
    for tx v by (rule touches_keeps [OF touches_write_json [OF insertI1]])
      (use archive_write_free [OF assms(1) plain_history(3), of data_dir u t] in auto)
  show ?thesis
    by (auto simp: sweep_old_hot_wallet_def intro!: keeps_frame.frame_bindM o s b a split: option.split)
qed

lemma keeps_with_change: "keeps K w (snd (with_addresses s next_change_address w))"
  by (rule touches_keeps [OF touches_with_addresses [OF touches_next_change_address], of "{}"]) simp

lemma keeps_rest:
  assumes "lib_txid_text L"
  shows "keeps K w (snd (revoke_old_controllers L B old_config old_phone addresses w))"
    and "keeps K w (snd (broadcast_cooperative_sweep_for_config L C B old_config sweep w))"
    and "keeps (key_archive L data_dir t) w (snd (install_new_phone C data_dir new_config pending backup w))"
    and "keeps (key_archive L data_dir t) w (snd (check_new_wallet L KL C W data_dir dest revoked renewed w))"
proof -
  show "keeps K w (snd (revoke_old_controllers L B old_config old_phone addresses w))"
    by (auto simp: revoke_old_controllers_def intro!: keeps_frame.frame_bindM keeps_with_change split: prod.split)
  show "keeps K w (snd (broadcast_cooperative_sweep_for_config L C B old_config sweep w))"
    by (auto simp: broadcast_cooperative_sweep_for_config_def intro!: keeps_frame.frame_bindM split: prod.split)
  note free = region_free [OF assms, of data_dir t]
  have wj: "keeps (key_archive L data_dir t) v (snd (write_json c p x v))" if "resolve p \<notin> key_archive L data_dir t"
    for c :: "('a, 'x) codec" and p x and v :: "'a world"
    by (rule touches_keeps [OF touches_write_json [OF insertI1]]) (use that in auto)
  show "keeps (key_archive L data_dir t) w (snd (install_new_phone C data_dir new_config pending backup w))"
    unfolding install_new_phone_def
    by (intro keeps_frame.frame_bindM touches_keeps [OF touches_write_json [OF insertI1]]) (use free(5-7) in auto)
  have n: "keeps (key_archive L data_dir t) v (snd (next_change_address v))" for v :: "'a world"
    by (rule touches_keeps [OF touches_next_change_address, of "{}"]) simp
  have c: "keeps (key_archive L data_dir t) v (snd (check_policy_addresses e m v))" for e m and v :: "'a world"
    by (rule touches_keeps [OF touches_check_policy_addresses, of "{}"]) simp
  have o: "keeps (key_archive L data_dir t) v (snd (open_or_create L KL C W data_dir v))" for v
    by (rule touches_keeps [OF touches_open_or_create free(3)])
  show "keeps (key_archive L data_dir t) w (snd (check_new_wallet L KL C W data_dir dest revoked renewed w))"
    by (auto simp: check_new_wallet_def intro!: keeps_frame.frame_bindM n c o split: option.split)
qed

lemma prepare_rotation_quiet: "accepted (snd (prepare_rotation L KL C W B data_dir package w)) = accepted w"
proof -
  have "touches UNIV w (snd (prepare_rotation L KL C W B data_dir package w))"
    by (auto simp: prepare_rotation_def Let_def split: prod.split
        intro!: touches_bindM touches_preserve touches_mono [OF touches_review])
  then show ?thesis by (simp add: touches_def)
qed

lemma prepare_rotation_Inr:
  assumes laws: "lib_txid_text L" "codec_ok (device_codec C)"
    and run: "prepare_rotation L KL C W B data_dir package w = (Inr p, w')"
  obtains t old_config new_config new_phone where
    "validate_phone_rotation L KL C data_dir package w = Inr (old_config, new_config, new_phone)"
    and "pr_archive p = rotation_archive L data_dir t" and "pr_new_phone p = new_phone"
    and "file_at w (join_str data_dir PHONE_DEVICE_FILE) \<noteq> None"
    and "file_at w' (join_str (pr_archive p) PHONE_DEVICE_FILE) = file_at w (join_str data_dir PHONE_DEVICE_FILE)"
    and "read_json (device_codec C) (join_str data_dir PENDING_PHONE_ROTATION_FILE) w = Inr (pr_pending p)"
    and "read_json (device_codec C) (join_str (join_str (pr_archive p) ''replacement'') PHONE_DEVICE_FILE) w' = Inr (pr_pending p)"
proof -
  obtain old_config new_config new_phone old_phone backup pending and sweep_psbt :: psbt and w1 where
    v: "validate_phone_rotation L KL C data_dir package w = Inr (old_config, new_config, new_phone)"
    and o: "load_device_keys L KL C data_dir PHONE_DEVICE_FILE w = Inr old_phone"
    and pe: "read_json (device_codec C) (join_str data_dir PENDING_PHONE_ROTATION_FILE) w = Inr pending"
    and rv: "review_renewed_policy L KL C W (rotation_workspace data_dir) old_config new_config new_phone
        (rot_sweep package) (renewed_policy package) w = (Inr (), w1)"
    and pk: "preserve_rotation_keys C data_dir (rotation_archive L data_dir (compute_txid L (unsigned_tx sweep_psbt)))
        old_config new_config pending backup w1 = (Inr (), w')"
    and p: "p = \<lparr>pr_old_config = old_config, pr_new_config = new_config, pr_new_phone = new_phone,
       pr_old_phone = old_phone, pr_backup = backup, pr_pending = pending,
       pr_archive = rotation_archive L data_dir (compute_txid L (unsigned_tx sweep_psbt))\<rparr>"
    using run by (auto simp: prepare_rotation_def Let_def split: prod.splits if_splits)
  have ws: "resolve (join_str data_dir PHONE_DEVICE_FILE) \<notin> below (rotation_workspace data_dir)"
    by (auto simp: rotation_workspace_def below_iff relative_resolve)
  have "touches (below (rotation_workspace data_dir)) w w1" using touches_review rv by (metis snd_conv)
  then have f: "file_at w1 (join_str data_dir PHONE_DEVICE_FILE) = file_at w (join_str data_dir PHONE_DEVICE_FILE)"
    using ws by (rule touches_file_at)
  obtain b where b: "file_at w (join_str data_dir PHONE_DEVICE_FILE) = Some b"
    using o by (auto simp: load_device_keys_def load_device_def read_json_def read_file_def ok_or_def split: option.splits)
  note k = preserve_rotation_keys_Inr [OF laws pk, unfolded f, OF b]
  show thesis by (rule that [OF v]) (use k b pe p in simp_all)
qed

lemma perform_rotation_keeps:
  assumes "lib_txid_text L" and "\<And>w. touches {} w (snd (sync w))" and "pr_archive p = rotation_archive L data_dir u"
  shows "keeps (key_archive L data_dir t) w (snd (perform_rotation L KL Y C W sync nonces B data_dir package p w))"
proof -
  note free = region_free [OF assms(1), of data_dir]
  have a: "keeps (key_archive L data_dir t) v (snd (activate_policy L KL Y C nonces B data_dir (rotation_workspace data_dir) v))" for v
    by (rule keeps_activate_policy [OF assms(1) free(1,2)])
  have r: "keeps (key_archive L data_dir t) v (snd (reset_workspace (rotation_workspace data_dir) v))" for v :: "'a world"
    unfolding rotation_workspace_def by (rule touches_keeps [OF touches_reset_workspace free(4)])
  have m: "keeps (key_archive L data_dir t) v (snd (remove_file (join_str data_dir PENDING_PHONE_ROTATION_FILE) v))" for v :: "'a world"
    by (rule touches_keeps [OF touches_remove_file]) (use free(8) [of t] in auto)
  show ?thesis
    unfolding perform_rotation_def assms(3)
    by (auto intro!: keeps_frame.frame_bindM keeps_with_change keeps_sweep_old_hot_wallet [OF assms(1,2)]
        keeps_rest [OF assms(1)] keeps_archive_old_epoch [OF assms(1)] a r m split: prod.split option.split)
qed

theorem rotation_keys_archived:
  assumes laws: "lib_txid_text L" "codec_ok (device_codec C)" and sync: "\<And>w. touches {} w (snd (sync w))"
    and run: "activate_phone_rotation L KL Y C W sync nonces B data_dir package w = (r, w')"
    and sent: "accepted w' \<noteq> accepted w"
  obtains t old_config new_config new_phone pending where
    "validate_phone_rotation L KL C data_dir package w = Inr (old_config, new_config, new_phone)"
    and "file_at w (join_str data_dir PHONE_DEVICE_FILE) \<noteq> None"
    and "file_at w' (join_str (rotation_archive L data_dir t) PHONE_DEVICE_FILE) = file_at w (join_str data_dir PHONE_DEVICE_FILE)"
    and "read_json (device_codec C) (join_str data_dir PENDING_PHONE_ROTATION_FILE) w = Inr pending"
    and "read_json (device_codec C) (join_str (join_str (rotation_archive L data_dir t) ''replacement'') PHONE_DEVICE_FILE) w' = Inr pending"
  using run unfolding activate_phone_rotation_def
proof (cases rule: bindM_cases)
  case (failed e)
  then show thesis using sent prepare_rotation_quiet by (metis snd_conv)
next
  case (continued p w1)
  obtain t old_config new_config new_phone where
    v: "validate_phone_rotation L KL C data_dir package w = Inr (old_config, new_config, new_phone)"
    and p: "pr_archive p = rotation_archive L data_dir t"
    and d: "file_at w (join_str data_dir PHONE_DEVICE_FILE) \<noteq> None"
      "file_at w1 (join_str (pr_archive p) PHONE_DEVICE_FILE) = file_at w (join_str data_dir PHONE_DEVICE_FILE)"
    and q: "read_json (device_codec C) (join_str data_dir PENDING_PHONE_ROTATION_FILE) w = Inr (pr_pending p)"
      "read_json (device_codec C) (join_str (join_str (pr_archive p) ''replacement'') PHONE_DEVICE_FILE) w1 = Inr (pr_pending p)"
    using prepare_rotation_Inr [OF laws continued(1)] by metis
  have "keeps (key_archive L data_dir t) w1 w'"
    using perform_rotation_keeps [OF laws(1) sync p] continued(2) by (metis snd_conv)
  then have "file_at w' x = file_at w1 x" if "resolve x \<in> key_archive L data_dir t" for x
    using that by (simp add: keeps_def file_at_def)
  then have "file_at w' (join_str (rotation_archive L data_dir t) PHONE_DEVICE_FILE)
        = file_at w1 (join_str (rotation_archive L data_dir t) PHONE_DEVICE_FILE)"
      "file_at w' (join_str (join_str (rotation_archive L data_dir t) ''replacement'') PHONE_DEVICE_FILE)
        = file_at w1 (join_str (join_str (rotation_archive L data_dir t) ''replacement'') PHONE_DEVICE_FILE)"
    by (simp_all add: key_archive_def archive_paths [OF laws(1)])
  then show thesis using that [OF v d(1), of t] d(2) q p by (simp add: read_json_def read_file_def)
qed

end
