(* ===== verification/Friends.thy ===== *)
theory Friends
  imports Social
begin

text \<open>
  Recovery by a friend (\<^verbatim>\<open>decrypt_with_friend\<close> of \<^verbatim>\<open>src/core/social.rs\<close>). A fingerprint is that of a
  primary key only: two certificates of one friend may have different encryption subkeys, and a secret key
  may be locked with a password or lack a subkey. So whether a secret key opens what is wrapped for a
  public key is a question about the two (\<open>unlocks\<close>); for the pairs \<^verbatim>\<open>generate_friend_key\<close> makes,
  with an encryption subkey and without a password, it always does (\<open>pgp_generates\<close>).
\<close>

definition unlocks :: "('b, 'z) pgp_lib_scheme \<Rightarrow> nat \<Rightarrow> 'b \<Rightarrow> bool" where
  \<comment> \<open>the secret key decrypts, without a password, what is encrypted to the first encryption subkey of the public key\<close>
  "unlocks P secret public_key \<longleftrightarrow> (\<forall>public subkey enc rand x c. pgp_public_from P public_key = Some public \<longrightarrow>
     List.find snd (pgp_subkeys P public) = Some (subkey, enc) \<longrightarrow> pgp_encrypt P rand subkey x = Some c \<longrightarrow>
     pgp_decrypt P secret c = Some x)"

definition pgp_generates :: "('b, 'z) pgp_lib_scheme \<Rightarrow> bool" where
  \<comment> \<open>a generated key is well signed, has an encryption subkey and no password, and its texts parse back\<close>
  "pgp_generates P \<longleftrightarrow> (\<forall>rand name secret. pgp_generate P rand name = Some secret \<longrightarrow>
     pgp_secret_verify P secret \<and> pgp_public_verify P (pgp_secret_public P secret)
   \<and> pgp_fingerprint P (pgp_secret_public P secret) = pgp_secret_fingerprint P secret
   \<and> (\<exists>subkey. (subkey, True) \<in> set (pgp_subkeys P (pgp_secret_public P secret)))
   \<and> (\<forall>text. pgp_secret_armor P secret = Some text \<longrightarrow> pgp_secret_from P text = Some secret)
   \<and> (\<forall>text. pgp_public_armor P (pgp_secret_public P secret) = Some text \<longrightarrow>
        pgp_public_from P text = Some (pgp_secret_public P secret) \<and> unlocks P secret text))"

definition opens :: "('b, 'z) pgp_lib_scheme \<Rightarrow> nat \<Rightarrow> 'b \<Rightarrow> 'b friend_key_wrapper \<Rightarrow> bool" where
  "opens P secret key f \<longleftrightarrow> (\<exists>c. base64_decode P (encrypted_symmetric_key f) = Some c \<and> pgp_decrypt P secret c = Some key)"

lemma wrap_for_friend_Inr:
  assumes "pgp_correct P" and "wrap_for_friend P rand k key = Inr f"
  shows "friend_fingerprint P k = Inr (fk_fingerprint f)"
    and "unlocks P secret k \<Longrightarrow> opens P secret key f"
proof -
  obtain public subkey enc c armored where p: "checked_public_key P k = Inr public"
      and s: "List.find snd (pgp_subkeys P public) = Some (subkey, enc)" and c: "pgp_encrypt P rand subkey key = Some c"
      and f: "f = \<lparr>fk_fingerprint = pgp_fingerprint P public, public_key_armored = armored,
          encrypted_symmetric_key = base64_encode P c\<rparr>"
    using assms(2) unfolding wrap_for_friend_def by (auto split: prod.splits)
  have "(subkey, enc) \<in> set (pgp_subkeys P public)" "enc"
    using s unfolding find_Some_iff by (metis nth_mem, metis snd_conv)
  then show "friend_fingerprint P k = Inr (fk_fingerprint f)"
    using p f by (auto simp: friend_fingerprint_def)
  show "opens P secret key f" if "unlocks P secret k"
  proof -
    have "pgp_public_from P k = Some public" using p by (auto simp: checked_public_key_def split: if_splits)
    then have "pgp_decrypt P secret c = Some key" using that s c unfolding unlocks_def by blast
    moreover have "base64_decode P (base64_encode P c) = Some c" using assms(1) by (simp add: pgp_correct_def)
    ultimately show ?thesis by (simp add: opens_def f)
  qed
qed

lemma wrap_all_Inr:
  assumes "pgp_correct P" and "wrap_all P rand key ks = Inr fs"
  shows "\<forall>k \<in> set ks. friend_fingerprint P k = Inr fp \<longrightarrow> unlocks P secret k \<Longrightarrow>
      \<forall>f \<in> set fs. fk_fingerprint f = fp \<longrightarrow> opens P secret key f"
    and "k \<in> set ks \<Longrightarrow> friend_fingerprint P k = Inr fp \<Longrightarrow> fp \<in> fk_fingerprint ` set fs"
  using assms(2)
proof (induction ks arbitrary: rand fs)
  case Nil
  {
    case 1
    then show ?case by simp
  next
    case 2
    then show ?case by simp
  }
next
  case (Cons k' ks)
  {
    case 1
    then show ?case
      using Cons.IH(1) wrap_for_friend_Inr [OF assms(1)] by fastforce
  next
    case 2
    then show ?case
      using Cons.IH(2) wrap_for_friend_Inr(1) [OF assms(1)] by fastforce
  }
qed

lemma decrypt_with_friend_create:
  assumes laws: "pgp_correct P" and made: "create_backup P en payload seed ks = Inr b"
    and len: "byte_length P (en_key en) = 32" and k: "k \<in> set ks" "friend_fingerprint P k = Inr fp"
    and secret: "pgp_secret_from P private_key = Some secret" "pgp_secret_verify P secret"
      "pgp_secret_fingerprint P secret = fp"
    and fits: "\<forall>k \<in> set ks. friend_fingerprint P k = Inr fp \<longrightarrow> unlocks P secret k"
  shows "decrypt_with_friend P b private_key = Inr payload"
proof -
  note parts = create_backup_parts [OF made laws]
  obtain fs where fs: "wrap_all P (en_wrap en) (en_key en) ks = Inr fs"
      and b: "friends b = dedup_by_fingerprint (sort_key fk_fingerprint fs)"
    using made by (auto simp: create_backup_def Let_def)
  have "fp \<in> fk_fingerprint ` set (friends b)"
    using wrap_all_Inr(2) [OF laws fs k] set_dedup_fingerprints [of "sort_key fk_fingerprint fs"] by (simp add: b)
  then obtain f where find: "List.find (\<lambda>f. fk_fingerprint f = fp) (friends b) = Some f"
    by (cases "List.find (\<lambda>f. fk_fingerprint f = fp) (friends b)") (auto simp: find_None_iff)
  then have "f \<in> set fs" "fk_fingerprint f = fp"
    using set_dedup_subset [of "sort_key fk_fingerprint fs"] by (auto simp: find_Some_iff b dest: nth_mem)
  then have "opens P secret (en_key en) f" using wrap_all_Inr(1) [OF laws fs fits] by blast
  then show ?thesis
    using parts find secret len by (auto simp: decrypt_with_friend_def opens_def)
qed

lemma generate_friend_key_Inr:
  assumes "pgp_generates P" and "generate_friend_key P rand name = Inr g"
  obtains secret where "friend_fingerprint P (gf_public_key_armored g) = Inr (gf_fingerprint g)"
    and "pgp_secret_from P (gf_private_key_armored g) = Some secret" and "pgp_secret_verify P secret"
    and "pgp_secret_fingerprint P secret = gf_fingerprint g" and "unlocks P secret (gf_public_key_armored g)"
proof -
  obtain secret where gen: "pgp_generate P rand (str_trim P name) = Some secret"
    and armor: "pgp_public_armor P (pgp_secret_public P secret) = Some (gf_public_key_armored g)"
      "pgp_secret_armor P secret = Some (gf_private_key_armored g)"
    and fp: "gf_fingerprint g = pgp_secret_fingerprint P secret"
    using assms(2) by (auto simp: generate_friend_key_def split: if_splits)
  from assms(1) gen armor have p: "pgp_secret_from P (gf_private_key_armored g) = Some secret" "pgp_secret_verify P secret"
      "pgp_public_from P (gf_public_key_armored g) = Some (pgp_secret_public P secret)"
      "pgp_public_verify P (pgp_secret_public P secret)" "unlocks P secret (gf_public_key_armored g)"
      "pgp_fingerprint P (pgp_secret_public P secret) = pgp_secret_fingerprint P secret"
      "\<exists>subkey. (subkey, True) \<in> set (pgp_subkeys P (pgp_secret_public P secret))"
    unfolding pgp_generates_def by blast+
  then have "friend_fingerprint P (gf_public_key_armored g) = Inr (gf_fingerprint g)"
    by (auto simp: friend_fingerprint_def checked_public_key_def fp)
  with p fp show thesis using that by simp
qed

end
