(* ===== verification/Private_Write.thy ===== *)
theory Private_Write
  imports Storage
begin

text \<open>
  \<^verbatim>\<open>write_private\<close> of \<^verbatim>\<open>src/core/storage.rs\<close>, system call by system call, on a disk that can fail and
  lose power in the middle of any of them. The rest of the development writes files with the one-step
  \<open>write_private\<close> of \<open>Storage\<close>; the last section shows that it is an abstraction of the code.
\<close>

section \<open>The disk\<close>

text \<open>
  Directory entries and file contents are written back separately. \<open>fs_pending\<close> holds, for every path, the
  entries a power loss may leave there: an operation on an entry adds to them, flushing its directory leaves
  only the current one. The content of a file that was not flushed after its last write may be anything
  after a power loss. Paths are resolved; \<open>[]\<close> is the current directory.
\<close>

datatype disk_entry = FileAt nat | DirAt

record 'c disk =
  fs_entries :: "path \<Rightarrow> disk_entry option"
  fs_pending :: "path \<Rightarrow> disk_entry option set"
  fs_content :: "nat \<Rightarrow> 'c list"
  fs_synced :: "nat \<Rightarrow> bool"
  fs_next :: nat

definition disk_ok :: "'c disk \<Rightarrow> bool" where
  "disk_ok d \<longleftrightarrow> (\<forall>q. fs_entries d q \<in> fs_pending d q)
     \<and> (\<forall>q i. Some (FileAt i) \<in> fs_pending d q \<longrightarrow> i < fs_next d)
     \<and> fs_entries d [] = Some DirAt \<and> fs_entries d [RootDir] = Some DirAt
     \<and> (\<forall>q. q \<noteq> [] \<longrightarrow> fs_entries d q \<noteq> None \<longrightarrow> fs_entries d (butlast q) = Some DirAt)"

definition read_now :: "'c disk \<Rightarrow> path \<Rightarrow> 'c list option" where
  "read_now d q = (case fs_entries d q of Some (FileAt i) \<Rightarrow> Some (fs_content d i) | _ \<Rightarrow> None)"

definition may_survive :: "'c disk \<Rightarrow> path \<Rightarrow> 'c list option \<Rightarrow> bool" where
  \<comment> \<open>what reading \<open>q\<close> after a power loss may give\<close>
  "may_survive d q c \<longleftrightarrow>
     (\<exists>e \<in> fs_pending d q. case e of
        Some (FileAt i) \<Rightarrow> (case c of None \<Rightarrow> False | Some x \<Rightarrow> fs_synced d i \<longrightarrow> x = fs_content d i)
      | _ \<Rightarrow> c = None)
   \<or> c = None \<and> \<not> list_all (\<lambda>a. fs_pending d a = {Some DirAt}) (ancestors (butlast q))"

section \<open>System calls\<close>

datatype write_error = CreateFailed | SyncFailed | TempFailed | WriteAllFailed | ReplaceFailed

datatype call_outcome =
    Works
  | Fails nat \<comment> \<open>with an error, having had no effect (0), or its effect; a write, having stored that many items\<close>
  | PowerOff nat \<comment> \<open>likewise, and nothing runs after it\<close>

datatype 'a ended = Done 'a | Failed write_error | Off

record 'c host =
  host_disk :: "'c disk"
  host_outcomes :: "call_outcome list"

type_synonym ('c, 'a) calls = "'c host \<Rightarrow> 'a ended \<times> 'c host"

definition return_call :: "'a \<Rightarrow> ('c, 'a) calls" where
  "return_call x = (\<lambda>h. (Done x, h))"

definition fail_call :: "write_error \<Rightarrow> ('c, 'a) calls" where
  "fail_call e = (\<lambda>h. (Failed e, h))"

definition then_call :: "('c, 'a) calls \<Rightarrow> ('a \<Rightarrow> ('c, 'b) calls) \<Rightarrow> ('c, 'b) calls" where
  "then_call m f = (\<lambda>h. case m h of (Done x, h') \<Rightarrow> f x h' | (Failed e, h') \<Rightarrow> (Failed e, h') | (Off, h') \<Rightarrow> (Off, h'))"

definition system_call :: "write_error \<Rightarrow> (nat \<Rightarrow> 'c disk \<Rightarrow> 'c disk) \<Rightarrow> ('c disk \<Rightarrow> 'c disk) \<Rightarrow> ('c, unit) calls" where
  "system_call e part full h = (case host_outcomes h of
       [] \<Rightarrow> (Done (), h\<lparr>host_disk := full (host_disk h)\<rparr>)
     | Works # os \<Rightarrow> (Done (), \<lparr>host_disk = full (host_disk h), host_outcomes = os\<rparr>)
     | Fails n # os \<Rightarrow> (Failed e, \<lparr>host_disk = part n (host_disk h), host_outcomes = os\<rparr>)
     | PowerOff n # os \<Rightarrow> (Off, \<lparr>host_disk = part n (host_disk h), host_outcomes = os\<rparr>))"

definition whole_call :: "write_error \<Rightarrow> ('c disk \<Rightarrow> 'c disk) \<Rightarrow> ('c, unit) calls" where
  "whole_call e f = system_call e (\<lambda>n. if n = 0 then id else f) f"

definition add_entry :: "path \<Rightarrow> disk_entry option \<Rightarrow> 'c disk \<Rightarrow> 'c disk" where
  "add_entry q e d = d\<lparr>fs_entries := (fs_entries d)(q := e), fs_pending := (fs_pending d)(q := insert e (fs_pending d q))\<rparr>"

definition flush_dir :: "path \<Rightarrow> 'c disk \<Rightarrow> 'c disk" where
  "flush_dir dir d = d\<lparr>fs_pending := (\<lambda>q. if q \<noteq> [] \<and> butlast q = dir then {fs_entries d q} else fs_pending d q)\<rparr>"

definition sync_dir :: "path \<Rightarrow> ('c, unit) calls" where
  \<comment> \<open>\<^verbatim>\<open>fs::File::open(directory)?.sync_all()?\<close>\<close>
  "sync_dir dir = whole_call SyncFailed (flush_dir dir)"

definition append_data :: "nat \<Rightarrow> 'c list \<Rightarrow> 'c disk \<Rightarrow> 'c disk" where
  "append_data i bs d = d\<lparr>fs_content := (fs_content d)(i := fs_content d i @ bs), fs_synced := (fs_synced d)(i := False)\<rparr>"

definition write_all :: "nat \<Rightarrow> 'c list \<Rightarrow> ('c, unit) calls" where
  "write_all i bs = system_call WriteAllFailed (\<lambda>n. append_data i (take n bs)) (append_data i bs)"

definition sync_file :: "nat \<Rightarrow> ('c, unit) calls" where
  "sync_file i = whole_call SyncFailed (\<lambda>d. d\<lparr>fs_synced := (fs_synced d)(i := True)\<rparr>)"

definition create_file :: "path \<Rightarrow> 'c disk \<Rightarrow> 'c disk" where
  "create_file t d = (add_entry t (Some (FileAt (fs_next d))) d)
     \<lparr>fs_content := (fs_content d)(fs_next d := []), fs_synced := (fs_synced d)(fs_next d := False), fs_next := Suc (fs_next d)\<rparr>"

definition new_temp :: "path \<Rightarrow> ('c, nat) calls" where
  \<comment> \<open>\<^verbatim>\<open>NamedTempFile::new_in\<close> at the random name \<open>t\<close>: the file must not exist\<close>
  "new_temp t h =
     (if fs_entries (host_disk h) t \<noteq> None then (Failed TempFailed, h)
      else then_call (whole_call TempFailed (create_file t)) (\<lambda>_. return_call (fs_next (host_disk h))) h)"

definition persist :: "path \<Rightarrow> nat \<Rightarrow> path \<Rightarrow> ('c, unit) calls" where
  \<comment> \<open>renames the temporary file over the target, which must not be a directory\<close>
  "persist t i q h =
     (if fs_entries (host_disk h) q = Some DirAt then (Failed ReplaceFailed, h)
      else whole_call ReplaceFailed (\<lambda>d. add_entry q (Some (FileAt i)) (add_entry t None d)) h)"

definition drop_temp :: "path \<Rightarrow> ('c, unit) calls \<Rightarrow> ('c, unit) calls" where
  \<comment> \<open>an error drops the \<^verbatim>\<open>NamedTempFile\<close>, which removes the file and ignores how that ends\<close>
  "drop_temp t m = (\<lambda>h. case m h of
       (Failed e, h') \<Rightarrow> (case whole_call e (add_entry t None) h' of (Off, h'') \<Rightarrow> (Off, h'') | (_, h'') \<Rightarrow> (Failed e, h''))
     | r \<Rightarrow> r)"

section \<open>\<open>write_private\<close>\<close>

fun created_parents :: "'c disk \<Rightarrow> path list \<Rightarrow> path list" where
  \<comment> \<open>from the parent upwards, until an ancestor exists: the directories that hold the missing ones\<close>
  "created_parents d [] = []"
| "created_parents d (a # as) = (if fs_entries d a \<noteq> None then [] else butlast a # created_parents d as)"

fun make_dirs :: "path list \<Rightarrow> ('c, unit) calls" where
  \<comment> \<open>\<^verbatim>\<open>fs::create_dir_all\<close> on the ancestors, the highest first\<close>
  "make_dirs [] = return_call ()"
| "make_dirs (a # as) = (\<lambda>h. case fs_entries (host_disk h) a of
       Some DirAt \<Rightarrow> make_dirs as h
     | Some (FileAt _) \<Rightarrow> fail_call CreateFailed h
     | None \<Rightarrow> then_call (whole_call CreateFailed (add_entry a (Some DirAt))) (\<lambda>_. make_dirs as) h)"

fun sync_dirs :: "path list \<Rightarrow> ('c, unit) calls" where
  "sync_dirs [] = return_call ()"
| "sync_dirs (dir # ds) = then_call (sync_dir dir) (\<lambda>_. sync_dirs ds)"

definition temp_path :: "path \<Rightarrow> string \<Rightarrow> path" where
  "temp_path q name = butlast q @ [Normal name]"

definition replace_file :: "string \<Rightarrow> path \<Rightarrow> 'c list \<Rightarrow> ('c, unit) calls" where
  "replace_file name q bytes =
     then_call (new_temp (temp_path q name)) (\<lambda>i.
     drop_temp (temp_path q name)
       (then_call (write_all i bytes) (\<lambda>_.
        then_call (sync_file i) (\<lambda>_.
        persist (temp_path q name) i q))))"

definition write_private_calls :: "string \<Rightarrow> path \<Rightarrow> 'c list \<Rightarrow> ('c, unit) calls" where
  \<comment> \<open>\<open>name\<close> is the random name of the temporary file\<close>
  "write_private_calls name p bytes h =
     (let q = resolve p; parent = butlast q;
          created = created_parents (host_disk h) (rev (ancestors parent)) in
      then_call (make_dirs (ancestors parent)) (\<lambda>_.
      then_call (sync_dirs (rev created)) (\<lambda>_.
      then_call (replace_file name q bytes) (\<lambda>_.
      sync_dir parent))) h)"

section \<open>Reasoning about calls\<close>

definition keeps :: "('c disk \<Rightarrow> bool) \<Rightarrow> ('c, 'a) calls \<Rightarrow> bool" where
  \<comment> \<open>however the calls end\<close>
  "keeps P m \<longleftrightarrow> (\<forall>h. P (host_disk h) \<longrightarrow> P (host_disk (snd (m h))))"

lemma keeps_end: "keeps P m \<Longrightarrow> P (host_disk h) \<Longrightarrow> P (host_disk (snd (m h)))"
  by (simp add: keeps_def)

lemma keepsD: "keeps P m \<Longrightarrow> P (host_disk h) \<Longrightarrow> m h = (r, h') \<Longrightarrow> P (host_disk h')"
  unfolding keeps_def by (metis snd_conv)

lemma keeps_trivial [simp]: "keeps P (return_call x)" "keeps P (fail_call e)"
  by (simp_all add: keeps_def return_call_def fail_call_def)

lemma keeps_then: "keeps P m \<Longrightarrow> (\<And>x. keeps P (f x)) \<Longrightarrow> keeps P (then_call m f)"
  unfolding keeps_def then_call_def by (fastforce split: prod.splits ended.splits)

lemma keeps_system_call: "(\<And>d. P d \<Longrightarrow> P (full d)) \<Longrightarrow> (\<And>n d. P d \<Longrightarrow> P (part n d)) \<Longrightarrow> keeps P (system_call e part full)"
  by (auto simp: keeps_def system_call_def split: list.split call_outcome.split)

lemma keeps_whole_call: "(\<And>d. P d \<Longrightarrow> P (f d)) \<Longrightarrow> keeps P (whole_call e f)"
  unfolding whole_call_def by (rule keeps_system_call) auto

lemma system_call_Done: "system_call e part full h = (Done u, h') \<Longrightarrow> host_disk h' = full (host_disk h)"
  by (auto simp: system_call_def split: list.splits call_outcome.splits)

lemma whole_call_Done: "whole_call e f h = (Done u, h') \<Longrightarrow> host_disk h' = f (host_disk h)"
  unfolding whole_call_def by (rule system_call_Done)

lemma whole_call_ends: "whole_call e f h = (r, h') \<Longrightarrow> host_disk h' = host_disk h \<or> host_disk h' = f (host_disk h)"
  by (auto simp: whole_call_def system_call_def split: list.splits call_outcome.splits if_splits)

lemma then_call_Done:
  assumes "then_call m f h = (Done y, h')"
  obtains x h1 where "m h = (Done x, h1)" and "f x h1 = (Done y, h')"
  using assms by (auto simp: then_call_def split: prod.splits ended.splits)

lemma then_call_cases:
  assumes "then_call m f h = (r, h')"
  obtains (stopped) "\<forall>x. fst (m h) \<noteq> Done x" and "h' = snd (m h)" and "\<forall>y. r \<noteq> Done y"
  | (continued) x h1 where "m h = (Done x, h1)" and "f x h1 = (r, h')"
  using assms by (auto simp: then_call_def split: prod.splits ended.splits)

section \<open>What a write leaves behind\<close>

text \<open>
  The states of a run that began on \<open>d0\<close>, writing to \<open>q\<close> with the temporary file \<open>t\<close>: old files keep their
  contents, other entries are as before except for directories that were made, and the entry of \<open>q\<close> is
  either the old one (\<open>before\<close>) or, once it may have been replaced, a new file that holds all of the bytes
  and was flushed (\<open>after\<close>).
\<close>

definition others_kept :: "'c disk \<Rightarrow> path \<Rightarrow> path \<Rightarrow> 'c disk \<Rightarrow> bool" where
  "others_kept d0 q t d \<longleftrightarrow> (\<forall>k. fs_entries d k \<in> fs_pending d k) \<and> fs_next d0 \<le> fs_next d
     \<and> (\<forall>i < fs_next d0. fs_content d i = fs_content d0 i \<and> (fs_synced d0 i \<longrightarrow> fs_synced d i))
     \<and> (\<forall>k. k \<noteq> q \<longrightarrow> k \<noteq> t \<longrightarrow>
          (fs_entries d k = fs_entries d0 k \<or> fs_entries d0 k = None \<and> fs_entries d k = Some DirAt)
        \<and> (\<forall>e \<in> fs_pending d k. e \<in> fs_pending d0 k \<or> fs_entries d0 k = None \<and> e = Some DirAt))"

definition holds_all :: "nat \<Rightarrow> 'c list \<Rightarrow> 'c disk \<Rightarrow> disk_entry option \<Rightarrow> bool" where
  "holds_all n bytes d e \<longleftrightarrow> (\<exists>i \<ge> n. e = Some (FileAt i) \<and> fs_synced d i \<and> fs_content d i = bytes)"

definition before :: "'c disk \<Rightarrow> path \<Rightarrow> path \<Rightarrow> 'c disk \<Rightarrow> bool" where
  "before d0 q t d \<longleftrightarrow> others_kept d0 q t d \<and> fs_entries d q = fs_entries d0 q \<and> fs_pending d q \<subseteq> fs_pending d0 q"

definition after :: "'c disk \<Rightarrow> path \<Rightarrow> path \<Rightarrow> 'c list \<Rightarrow> 'c disk \<Rightarrow> bool" where
  "after d0 q t bytes d \<longleftrightarrow> others_kept d0 q t d
     \<and> (fs_entries d q = fs_entries d0 q
         \<or> fs_entries d0 q \<noteq> Some DirAt \<and> holds_all (fs_next d0) bytes d (fs_entries d q))
     \<and> (\<forall>e \<in> fs_pending d q. e \<in> fs_pending d0 q \<or> holds_all (fs_next d0) bytes d e)"

lemma before_after: "before d0 q t d \<Longrightarrow> after d0 q t bytes d"
  by (auto simp: before_def after_def)

lemma before_refl: "disk_ok d \<Longrightarrow> before d q t d"
  by (simp add: before_def others_kept_def disk_ok_def)

lemma flushed:
  assumes "\<And>k. P k \<subseteq> fs_pending d k" and "\<And>k. fs_entries d k \<in> P k"
  shows "before d0 q t d \<Longrightarrow> before d0 q t (d\<lparr>fs_pending := P\<rparr>)"
    and "after d0 q t bytes d \<Longrightarrow> after d0 q t bytes (d\<lparr>fs_pending := P\<rparr>)"
proof -
  have kept: "others_kept d0 q t (d\<lparr>fs_pending := P\<rparr>)" if "others_kept d0 q t d"
    using that assms(2) subsetD [OF assms(1)] unfolding others_kept_def by simp
  show "before d0 q t (d\<lparr>fs_pending := P\<rparr>)" if "before d0 q t d"
    using kept that assms(1) [of q] unfolding before_def by auto
  show "after d0 q t bytes (d\<lparr>fs_pending := P\<rparr>)" if "after d0 q t bytes d"
    using kept that assms(1) [of q] unfolding after_def by (auto simp: holds_all_def)
qed

lemma flush_dir_kept:
  "before d0 q t d \<Longrightarrow> before d0 q t (flush_dir dir d)"
  "after d0 q t bytes d \<Longrightarrow> after d0 q t bytes (flush_dir dir d)"
  unfolding flush_dir_def
  by (rule flushed; auto simp: before_def after_def others_kept_def split: if_splits)+

lemma keeps_sync_dir: "keeps (before d0 q t) (sync_dir dir)" "keeps (after d0 q t bytes) (sync_dir dir)"
  unfolding sync_dir_def by (intro keeps_whole_call flush_dir_kept; assumption)+

lemma keeps_sync_dirs: "keeps (before d0 q t) (sync_dirs ds)"
  by (induction ds) (auto intro: keeps_then keeps_sync_dir)

lemma before_make_dir:
  "before d0 q t d \<Longrightarrow> fs_entries d a = None \<Longrightarrow> a \<noteq> q \<Longrightarrow> a \<noteq> t \<Longrightarrow> before d0 q t (add_entry a (Some DirAt) d)"
  by (auto simp: before_def others_kept_def add_entry_def)

lemma keeps_make_dirs:
  fixes d0 :: "'c disk"
  shows "q \<notin> set as \<Longrightarrow> t \<notin> set as \<Longrightarrow> keeps (before d0 q t) (make_dirs as)"
proof (induction "as")
  case (Cons a as)
  show ?case
    unfolding keeps_def
  proof (intro allI impI)
    fix h :: "'c host" assume b: "before d0 q t (host_disk h)"
    have IH: "before d0 q t (host_disk g) \<Longrightarrow> before d0 q t (host_disk (snd (make_dirs as g)))" for g
      using Cons by (simp add: keeps_def)
    show "before d0 q t (host_disk (snd (make_dirs (a # as) h)))"
    proof (cases "fs_entries (host_disk h) a")
      case None
      obtain r h1 where w: "whole_call CreateFailed (add_entry a (Some DirAt)) h = (r, h1)"
        by (cases "whole_call CreateFailed (add_entry a (Some DirAt)) h")
      have "before d0 q t (host_disk h1)"
        using whole_call_ends [OF w] before_make_dir [OF b None] b Cons.prems by auto
      then show ?thesis using None w IH by (cases r) (auto simp: then_call_def)
    next
      case (Some x)
      then show ?thesis using b IH by (cases x) (auto simp: fail_call_def)
    qed
  qed
qed simp

lemma before_create_file:
  "before d0 q t d \<Longrightarrow> q \<noteq> t \<Longrightarrow> before d0 q t (create_file t d)"
  by (auto simp: before_def others_kept_def create_file_def add_entry_def)

lemma before_append: "before d0 q t d \<Longrightarrow> fs_next d0 \<le> i \<Longrightarrow> before d0 q t (append_data i bs d)"
  by (auto simp: before_def others_kept_def append_data_def)

lemma before_synced: "before d0 q t d \<Longrightarrow> before d0 q t (d\<lparr>fs_synced := (fs_synced d)(i := True)\<rparr>)"
  by (auto simp: before_def others_kept_def)

lemma after_unlink: "after d0 q t bytes d \<Longrightarrow> q \<noteq> t \<Longrightarrow> after d0 q t bytes (add_entry t None d)"
  by (auto simp: after_def others_kept_def add_entry_def holds_all_def)

lemma after_persist:
  assumes "before d0 q t d" and "fs_next d0 \<le> i" and "fs_synced d i" and "fs_content d i = bytes" and "q \<noteq> t"
    and "fs_entries d q \<noteq> Some DirAt"
  shows "after d0 q t bytes (add_entry q (Some (FileAt i)) (add_entry t None d))"
  using assms by (auto simp: before_def after_def others_kept_def add_entry_def holds_all_def)

lemma drop_temp_after:
  assumes "drop_temp t m h = (r, h')" and "after d0 q t bytes (host_disk (snd (m h)))" and "q \<noteq> t"
  shows "after d0 q t bytes (host_disk h')" and "r = Done u \<Longrightarrow> m h = (Done u, h')"
proof -
  obtain r1 h1 where m: "m h = (r1, h1)" by (cases "m h")
  show "after d0 q t bytes (host_disk h')"
  proof (cases r1)
    case (Failed e)
    obtain r2 h2 where w: "whole_call e (add_entry t None) h1 = (r2, h2)" by (cases "whole_call e (add_entry t None) h1")
    have "after d0 q t bytes (host_disk h2)"
      using whole_call_ends [OF w] after_unlink [OF _ assms(3)] assms(2) m by auto
    moreover have "h' = h2" using assms(1) m Failed w by (cases r2) (auto simp: drop_temp_def)
    ultimately show ?thesis by simp
  qed (use assms m in \<open>auto simp: drop_temp_def\<close>)
  show "m h = (Done u, h')" if "r = Done u"
    using assms(1) m that by (cases r1) (auto simp: drop_temp_def split: prod.splits ended.splits)
qed

lemma replace_file_after:
  assumes "before d0 q (temp_path q name) (host_disk h)" and "q \<noteq> temp_path q name"
    and "replace_file name q bytes h = (r, h')"
  shows "after d0 q (temp_path q name) bytes (host_disk h')"
    and "r = Done () \<Longrightarrow> holds_all (fs_next d0) bytes (host_disk h') (fs_entries (host_disk h') q)
      \<and> fs_entries (host_disk h') (temp_path q name) = None \<and> fs_entries (host_disk h) q \<noteq> Some DirAt"
proof -
  let ?t = "temp_path q name"
  let ?body = "\<lambda>i. then_call (write_all i bytes) (\<lambda>_. then_call (sync_file i) (\<lambda>_. persist ?t i q))"
  have "after d0 q ?t bytes (host_disk h') \<and> (r = Done () \<longrightarrow>
      holds_all (fs_next d0) bytes (host_disk h') (fs_entries (host_disk h') q)
      \<and> fs_entries (host_disk h') ?t = None \<and> fs_entries (host_disk h) q \<noteq> Some DirAt)"
    using assms(3) unfolding replace_file_def
  proof (cases rule: then_call_cases)
    case stopped
    have "before d0 q ?t (host_disk (snd (new_temp ?t h)))"
      using assms(1,2) whole_call_ends [of TempFailed "create_file ?t" h] before_create_file [OF assms(1,2)]
      by (cases "whole_call TempFailed (create_file ?t) h")
        (auto simp: new_temp_def then_call_def return_call_def split: ended.splits prod.splits)
    from before_after [OF this] show ?thesis using stopped by simp
  next
    case (continued i h1)
    then have i: "i = fs_next (host_disk h)" and d1: "host_disk h1 = create_file ?t (host_disk h)"
      by (auto simp: new_temp_def return_call_def split: if_splits elim!: then_call_Done dest: whole_call_Done)
    have b1: "before d0 q ?t (host_disk h1)" using before_create_file [OF assms(1,2)] d1 by simp
    have n: "fs_next d0 \<le> i" using assms(1) i by (simp add: before_def others_kept_def)
    have empty: "fs_content (host_disk h1) i = []" using d1 i by (simp add: create_file_def)
    have same: "fs_entries (host_disk h1) q = fs_entries (host_disk h) q"
      using d1 assms(2) by (simp add: create_file_def add_entry_def)
    have body: "after d0 q ?t bytes (host_disk g) \<and> (s = Done () \<longrightarrow>
        holds_all (fs_next d0) bytes (host_disk g) (fs_entries (host_disk g) q) \<and> fs_entries (host_disk g) ?t = None
        \<and> fs_entries (host_disk h) q \<noteq> Some DirAt)" if g: "?body i h1 = (s, g)" for s g
      using g
    proof (cases rule: then_call_cases)
      case stopped
      have "keeps (before d0 q ?t) (write_all i bytes)"
        unfolding write_all_def by (intro keeps_system_call before_append n)
      from before_after [OF keeps_end [OF this b1]] show ?thesis using stopped by simp
    next
      case (continued u h2)
      then have d2: "host_disk h2 = append_data i bytes (host_disk h1)"
        by (auto simp: write_all_def dest: system_call_Done)
      have b2: "before d0 q ?t (host_disk h2)" using before_append [OF b1 n] d2 by simp
      from continued(2) show ?thesis
      proof (cases rule: then_call_cases)
        case stopped
        have "keeps (before d0 q ?t) (sync_file i)"
          unfolding sync_file_def by (intro keeps_whole_call before_synced)
        from before_after [OF keeps_end [OF this b2]] show ?thesis using stopped by simp
      next
        case (continued u h3)
        then have d3: "host_disk h3 = (host_disk h2)\<lparr>fs_synced := (fs_synced (host_disk h2))(i := True)\<rparr>"
          by (auto simp: sync_file_def dest: whole_call_Done)
        have b3: "before d0 q ?t (host_disk h3)" using before_synced [OF b2] d3 by simp
        have all: "fs_synced (host_disk h3) i" "fs_content (host_disk h3) i = bytes"
          using d3 d2 empty by (simp_all add: append_data_def)
        have same3: "fs_entries (host_disk h3) q = fs_entries (host_disk h) q"
          using d3 d2 same by (simp add: append_data_def)
        show ?thesis
        proof (cases "fs_entries (host_disk h3) q = Some DirAt")
          case True
          then show ?thesis using continued(2) b3 before_after by (auto simp: persist_def)
        next
          case False
          then have w: "whole_call ReplaceFailed (\<lambda>d. add_entry q (Some (FileAt i)) (add_entry ?t None d)) h3 = (s, g)"
            using continued(2) by (simp add: persist_def)
          have "after d0 q ?t bytes (host_disk g)"
            using whole_call_ends [OF w] after_persist [OF b3 n all assms(2) False] before_after [OF b3] by auto
          moreover have "holds_all (fs_next d0) bytes (host_disk g) (fs_entries (host_disk g) q) \<and> fs_entries (host_disk g) ?t = None"
            if "s = Done ()"
            using whole_call_Done [OF w [unfolded that]] all n assms(2) by (auto simp: add_entry_def holds_all_def)
          ultimately show ?thesis using False same3 by auto
        qed
      qed
    qed
    obtain s g where g: "?body i h1 = (s, g)" by (cases "?body i h1")
    have dt: "drop_temp ?t (?body i) h1 = (r, h')" using continued(2) .
    have "after d0 q ?t bytes (host_disk (snd (?body i h1)))" using body [OF g] g by simp
    from drop_temp_after [OF dt this assms(2)] body show ?thesis by blast
  qed
  then show "after d0 q ?t bytes (host_disk h')"
    and "r = Done () \<Longrightarrow> holds_all (fs_next d0) bytes (host_disk h') (fs_entries (host_disk h') q)
      \<and> fs_entries (host_disk h') ?t = None \<and> fs_entries (host_disk h) q \<noteq> Some DirAt"
    by blast+
qed

section \<open>The whole write\<close>

definition at_or_below :: "path \<Rightarrow> path \<Rightarrow> bool" where
  "at_or_below q k \<longleftrightarrow> take (length q) k = q"

definition durable_dirs :: "'c disk \<Rightarrow> path \<Rightarrow> bool" where
  \<comment> \<open>the directories on the way to \<open>p\<close> that exist also exist after a power loss\<close>
  "durable_dirs d p \<longleftrightarrow> (\<forall>a \<in> set (ancestors p). fs_entries d a \<noteq> None \<longrightarrow> fs_pending d a = {Some DirAt})"

lemma ancestors_prefix: "a \<in> set (ancestors p) \<Longrightarrow> \<exists>n. a = take n p \<and> length a = n \<and> 0 < n \<and> n \<le> length p"
  by (auto simp: ancestors_def)

lemma not_ancestor: "length p < length q \<Longrightarrow> q \<notin> set (ancestors p)"
  using ancestors_prefix by fastforce

lemma ancestors_below: "a \<in> set (ancestors k) \<Longrightarrow> at_or_below q a \<Longrightarrow> at_or_below q k"
  unfolding at_or_below_def by (metis ancestors_prefix take_take length_take)

lemma ancestors_butlast: "a \<in> set (ancestors (butlast k)) \<Longrightarrow> a \<in> set (ancestors k)"
  by (auto simp: ancestors_def butlast_conv_take)

lemma ancestors_snoc: "ancestors (p @ [x]) = ancestors p @ [p @ [x]]"
  by (auto simp: ancestors_def)

lemma ancestors_exist:
  "disk_ok d \<Longrightarrow> fs_entries d p \<noteq> None \<Longrightarrow> a \<in> set (ancestors (butlast p)) \<Longrightarrow> fs_entries d a = Some DirAt"
proof (induction p arbitrary: a rule: rev_induct)
  case (snoc x p)
  have p: "fs_entries d p = Some DirAt" using snoc.prems(1,2) by (auto simp: disk_ok_def)
  show ?case
  proof (cases p rule: rev_cases)
    case (snoc p' y)
    then show ?thesis using snoc.prems(3) p snoc.IH [OF snoc.prems(1)] by (auto simp: ancestors_snoc butlast_append)
  qed (use snoc.prems(3) in \<open>simp add: ancestors_def\<close>)
qed (simp add: ancestors_def)

lemma created_parents_cover:
  "disk_ok d \<Longrightarrow> a \<in> set (ancestors p) \<Longrightarrow> fs_entries d a = None \<Longrightarrow> butlast a \<in> set (created_parents d (rev (ancestors p)))"
proof (induction p rule: rev_induct)
  case (snoc x p)
  have "fs_entries d (p @ [x]) = None" using ancestors_exist [OF snoc.prems(1), of "p @ [x]" a] snoc.prems(2,3)
    by (cases "a = p @ [x]"; cases "fs_entries d (p @ [x])"; auto simp: ancestors_snoc)
  then show ?case using snoc by (auto simp: ancestors_snoc)
qed (simp add: ancestors_def)

lemma make_dirs_Done:
  "make_dirs as h = (Done u, h') \<Longrightarrow> (\<forall>a \<in> set as. fs_entries (host_disk h') a = Some DirAt)
    \<and> (\<forall>k. fs_entries (host_disk h) k \<noteq> None \<longrightarrow> fs_entries (host_disk h') k = fs_entries (host_disk h) k
        \<and> fs_pending (host_disk h') k = fs_pending (host_disk h) k)"
proof (induction "as" arbitrary: h)
  case (Cons a as)
  show ?case
  proof (cases "fs_entries (host_disk h) a")
    case None
    then have "then_call (whole_call CreateFailed (add_entry a (Some DirAt))) (\<lambda>_. make_dirs as) h = (Done u, h')"
      using Cons.prems by simp
    then obtain h1 where "host_disk h1 = add_entry a (Some DirAt) (host_disk h)" "make_dirs as h1 = (Done u, h')"
      by (auto elim!: then_call_Done dest: whole_call_Done)
    with Cons.IH [OF this(2)] None show ?thesis by (auto simp: add_entry_def)
  next
    case (Some e)
    then have "e = DirAt" and m: "make_dirs as h = (Done u, h')"
      using Cons.prems by (cases e; simp add: fail_call_def)+
    then show ?thesis using Cons.IH [OF m] Some by auto
  qed
qed (simp add: return_call_def)

lemma sync_dirs_Done:
  "sync_dirs ds h = (Done u, h') \<Longrightarrow> fs_entries (host_disk h') = fs_entries (host_disk h)
    \<and> (\<forall>k. k \<noteq> [] \<longrightarrow> fs_pending (host_disk h') k =
        (if butlast k \<in> set ds then {fs_entries (host_disk h) k} else fs_pending (host_disk h) k))"
proof (induction ds arbitrary: h)
  case (Cons dir ds)
  from Cons.prems obtain h1 where "host_disk h1 = flush_dir dir (host_disk h)" "sync_dirs ds h1 = (Done u, h')"
    by (auto simp: sync_dir_def elim!: then_call_Done dest: whole_call_Done)
  with Cons.IH [OF this(2)] show ?case by (auto simp: flush_dir_def)
qed (simp add: return_call_def)

lemma keeps_drop_temp: "keeps P m \<Longrightarrow> (\<And>d. P d \<Longrightarrow> P (add_entry t None d)) \<Longrightarrow> keeps P (drop_temp t m)"
  unfolding keeps_def drop_temp_def
proof (intro allI impI)
  fix h :: "'a host"
  assume m: "\<forall>h. P (host_disk h) \<longrightarrow> P (host_disk (snd (m h)))" and e: "\<And>d. P d \<Longrightarrow> P (add_entry t None d)"
    and p: "P (host_disk h)"
  obtain r h1 where h1: "m h = (r, h1)" by (cases "m h")
  then have p1: "P (host_disk h1)" using m p by (metis snd_conv)
  have "P (host_disk (snd (whole_call err (add_entry t None) h1)))" for err
    using keeps_end [OF keeps_whole_call, of P "add_entry t None", OF e p1] by simp
  then show "P (host_disk (snd (case m h of (Failed e, h') \<Rightarrow> (case whole_call e (add_entry t None) h' of
      (Off, h'') \<Rightarrow> (Off, h'') | (_, h'') \<Rightarrow> (Failed e, h'')) | r \<Rightarrow> r)))"
    using h1 p1 by (auto split: ended.splits prod.splits) (metis snd_conv)+
qed

lemma keeps_new_temp: "(\<And>d. P d \<Longrightarrow> P (create_file t d)) \<Longrightarrow> keeps P (new_temp t)"
proof -
  assume "\<And>d. P d \<Longrightarrow> P (create_file t d)"
  then have w: "keeps P (whole_call TempFailed (create_file t))" by (rule keeps_whole_call)
  show ?thesis
    unfolding keeps_def new_temp_def
  proof (intro allI impI)
    fix h :: "'a host" assume p: "P (host_disk h)"
    have k: "keeps P (then_call (whole_call TempFailed (create_file t)) (\<lambda>_. return_call (fs_next (host_disk h))))"
      using w by (auto intro: keeps_then)
    from keeps_end [OF k p] p show "P (host_disk (snd (if fs_entries (host_disk h) t \<noteq> None then (Failed TempFailed, h)
        else then_call (whole_call TempFailed (create_file t)) (\<lambda>_. return_call (fs_next (host_disk h))) h)))" by simp
  qed
qed

lemma keeps_persist:
  "(\<And>d. P d \<Longrightarrow> P (add_entry q (Some (FileAt i)) (add_entry t None d))) \<Longrightarrow> keeps P (persist t i q)"
  using keeps_end [OF keeps_whole_call, of P "\<lambda>d. add_entry q (Some (FileAt i)) (add_entry t None d)"]
  unfolding keeps_def persist_def by auto

lemma keeps_replace_file:
  assumes "k \<noteq> q" and "k \<noteq> temp_path q name"
  shows "keeps (\<lambda>d. fs_entries d k = e \<and> fs_pending d k = es) (replace_file name q bytes)"
  unfolding replace_file_def write_all_def sync_file_def
  by (intro keeps_then keeps_new_temp keeps_drop_temp keeps_system_call keeps_whole_call keeps_persist;
      use assms in \<open>simp add: create_file_def add_entry_def append_data_def\<close>)

text \<open>What such a run leaves, read now or after a power loss.\<close>

lemma after_nondurable:
  assumes "after d0 q t bytes d" and "a \<noteq> q" and "a \<noteq> t" and "fs_pending d0 a = {Some DirAt}"
  shows "fs_pending d a = {Some DirAt}"
proof -
  have "\<forall>e \<in> fs_pending d a. e \<in> fs_pending d0 a \<or> fs_entries d0 a = None \<and> e = Some DirAt" "fs_entries d a \<in> fs_pending d a"
    using assms(1-3) by (auto simp: after_def others_kept_def)
  then show ?thesis using assms(4) by auto
qed

lemma after_survives:
  assumes ok: "disk_ok d0" and af: "after d0 q t bytes d" and s: "may_survive d k c"
    and above: "\<forall>a \<in> set (ancestors (butlast k)). a \<noteq> q \<and> a \<noteq> t" and t: "k \<noteq> t"
  shows "may_survive d0 k c \<or> k = q \<and> c = Some bytes"
proof (cases "c = None \<and> \<not> list_all (\<lambda>a. fs_pending d a = {Some DirAt}) (ancestors (butlast k))")
  case True
  then have "\<not> list_all (\<lambda>a. fs_pending d0 a = {Some DirAt}) (ancestors (butlast k))"
    using after_nondurable [OF af] above by (auto simp: list_all_iff)
  then show ?thesis using True by (simp add: may_survive_def)
next
  case False
  with s obtain e where e: "e \<in> fs_pending d k" and c: "case e of
        Some (FileAt i) \<Rightarrow> (case c of None \<Rightarrow> False | Some x \<Rightarrow> fs_synced d i \<longrightarrow> x = fs_content d i) | _ \<Rightarrow> c = None"
    unfolding may_survive_def by blast
  consider (old) "e \<in> fs_pending d0 k" | (new) "k = q" "holds_all (fs_next d0) bytes d e"
    | (dir) "fs_entries d0 k = None" "e = Some DirAt"
  proof (cases "k = q")
    case True
    have "\<forall>e \<in> fs_pending d q. e \<in> fs_pending d0 q \<or> holds_all (fs_next d0) bytes d e"
      using af by (simp add: after_def)
    then show thesis using that(1,2) True e by blast
  next
    case False
    then have "\<forall>e \<in> fs_pending d k. e \<in> fs_pending d0 k \<or> fs_entries d0 k = None \<and> e = Some DirAt"
      using af t by (simp add: after_def others_kept_def)
    with e have "e \<in> fs_pending d0 k \<or> fs_entries d0 k = None \<and> e = Some DirAt" by simp
    then show thesis using that(1,3) by (elim disjE conjE)
  qed
  then show ?thesis
  proof cases
    case old
    have "i < fs_next d0" if "e = Some (FileAt i)" for i using ok old that by (auto simp: disk_ok_def)
    then have "case e of Some (FileAt i) \<Rightarrow> (case c of None \<Rightarrow> False | Some x \<Rightarrow> fs_synced d0 i \<longrightarrow> x = fs_content d0 i) | _ \<Rightarrow> c = None"
      using c af by (auto simp: after_def others_kept_def split: option.splits disk_entry.splits)
    with old show ?thesis unfolding may_survive_def by blast
  next
    case new
    then show ?thesis using c by (auto simp: holds_all_def split: option.splits)
  next
    case dir
    then have "None \<in> fs_pending d0 k" using ok by (auto simp: disk_ok_def) metis
    then show ?thesis using c dir(2) unfolding may_survive_def by (auto intro!: bexI [of _ None])
  qed
qed

lemma others_kept_read:
  assumes ok: "disk_ok d0" and others: "others_kept d0 q t d" and same: "fs_entries d k = fs_entries d0 k"
  shows "read_now d k = read_now d0 k"
proof -
  have "fs_content d i = fs_content d0 i" if "fs_entries d0 k = Some (FileAt i)" for i
  proof -
    have "Some (FileAt i) \<in> fs_pending d0 k" using ok that unfolding disk_ok_def by metis
    then have "i < fs_next d0" using ok by (simp add: disk_ok_def)
    then show ?thesis using others by (simp add: others_kept_def)
  qed
  then show ?thesis using same by (auto simp: read_now_def split: option.split disk_entry.split)
qed

lemma after_reads:
  assumes ok: "disk_ok d0" and af: "after d0 q t bytes d"
  shows "read_now d q = read_now d0 q \<or> read_now d q = Some bytes" and "k \<noteq> q \<Longrightarrow> k \<noteq> t \<Longrightarrow> read_now d k = read_now d0 k"
proof -
  have same: "read_now d k = read_now d0 k" if "fs_entries d k = fs_entries d0 k" for k
    by (rule others_kept_read [OF ok _ that, of q t]) (use af in \<open>simp add: after_def\<close>)
  show "read_now d q = read_now d0 q \<or> read_now d q = Some bytes"
    using af same by (auto simp: after_def holds_all_def read_now_def)
  show "read_now d k = read_now d0 k" if "k \<noteq> q" "k \<noteq> t"
  proof -
    have "fs_entries d k = fs_entries d0 k \<or> fs_entries d0 k = None \<and> fs_entries d k = Some DirAt"
      using af that by (auto simp: after_def others_kept_def)
    then show ?thesis using same by (auto simp: read_now_def)
  qed
qed

text \<open>The steps of the write put together.\<close>

lemma temp_not_above: "a \<in> set (ancestors (butlast q)) \<Longrightarrow> a \<noteq> q \<and> a \<noteq> temp_path q name"
proof (cases q rule: rev_cases)
  case (snoc ys y)
  assume "a \<in> set (ancestors (butlast q))"
  from ancestors_prefix [OF this] have "length a \<le> length ys" using snoc by auto
  then show ?thesis using snoc by (auto simp: temp_path_def)
qed (simp add: ancestors_def)

lemma write_private_calls_after:
  assumes ok: "disk_ok (host_disk h)" and t: "resolve p \<noteq> temp_path (resolve p) name"
    and run: "write_private_calls name p bytes h = (r, h')"
  obtains (early) "before (host_disk h) (resolve p) (temp_path (resolve p) name) (host_disk h')" and "r \<noteq> Done ()"
  | (late) "after (host_disk h) (resolve p) (temp_path (resolve p) name) bytes (host_disk h')"
    and "\<forall>a \<in> set (ancestors (butlast (resolve p))). read_now (host_disk h) a = None"
    and "r = Done () \<Longrightarrow> holds_all (fs_next (host_disk h)) bytes (host_disk h') (fs_entries (host_disk h') (resolve p))
      \<and> fs_entries (host_disk h') (temp_path (resolve p) name) = None
      \<and> fs_pending (host_disk h') (resolve p) = {fs_entries (host_disk h') (resolve p)}
      \<and> fs_entries (host_disk h) (resolve p) \<noteq> Some DirAt
      \<and> (durable_dirs (host_disk h) (butlast (resolve p)) \<longrightarrow>
          (\<forall>a \<in> set (ancestors (butlast (resolve p))). fs_pending (host_disk h') a = {Some DirAt}))"
proof -
  let ?q = "resolve p" and ?d = "host_disk h"
  let ?t = "temp_path ?q name"
  let ?as = "ancestors (butlast ?q)"
  let ?ds = "rev (created_parents ?d (rev ?as))"
  have above: "?q \<notin> set ?as" "?t \<notin> set ?as" using temp_not_above by blast+
  have b: "before ?d ?q ?t ?d" by (rule before_refl [OF ok])
  from run have "then_call (make_dirs ?as) (\<lambda>_. then_call (sync_dirs ?ds) (\<lambda>_.
      then_call (replace_file name ?q bytes) (\<lambda>_. sync_dir (butlast ?q)))) h = (r, h')"
    by (simp add: write_private_calls_def Let_def)
  then show thesis
  proof (cases rule: then_call_cases)
    case stopped
    then show thesis using early keeps_end [OF keeps_make_dirs [OF above] b] by simp
  next
    case (continued u h1)
    note dirs = make_dirs_Done [OF continued(1)]
    have b1: "before ?d ?q ?t (host_disk h1)" by (rule keepsD [OF keeps_make_dirs [OF above] b continued(1)])
    from continued(2) show thesis
    proof (cases rule: then_call_cases)
      case stopped
      then show thesis using early keeps_end [OF keeps_sync_dirs b1] by simp
    next
      case (continued u h2)
      note synced = sync_dirs_Done [OF continued(1)]
      have b2: "before ?d ?q ?t (host_disk h2)" by (rule keepsD [OF keeps_sync_dirs b1 continued(1)])
      have clear: "\<forall>a \<in> set ?as. read_now ?d a = None"
      proof
        fix a assume "a \<in> set ?as"
        then show "read_now ?d a = None"
          using dirs by (cases "fs_entries ?d a") (auto simp: read_now_def split: disk_entry.split)
      qed
      have durable: "fs_entries (host_disk h2) a = Some DirAt \<and> fs_pending (host_disk h2) a = {Some DirAt}"
        if a: "a \<in> set ?as" and d: "durable_dirs ?d (butlast ?q)" for a
      proof -
        have e: "fs_entries (host_disk h1) a = Some DirAt" using dirs a by blast
        have "a \<noteq> []" using ancestors_prefix [OF a] by auto
        moreover have "fs_pending (host_disk h1) a = {Some DirAt}" if "butlast a \<notin> set ?ds"
        proof -
          have "fs_entries ?d a \<noteq> None" using created_parents_cover [OF ok a] that by auto
          then show ?thesis using dirs d a by (simp add: durable_dirs_def)
        qed
        ultimately show ?thesis using synced e by auto
      qed
      from continued(2) show thesis
      proof (cases rule: then_call_cases)
        case stopped
        then show thesis
          using late [OF _ clear] replace_file_after(1) [OF b2 t, of bytes "fst (replace_file name ?q bytes h2)"] by simp
      next
        case (continued u h3)
        note replaced = replace_file_after [OF b2 t continued(1)]
        note ends = whole_call_Done [of SyncFailed "flush_dir (butlast ?q)" h3 "()" h', folded sync_dir_def]
        have a3: "after ?d ?q ?t bytes (host_disk h')"
          by (rule keepsD [OF keeps_sync_dir(2) replaced(1) continued(2)])
        show thesis
        proof (rule late [OF a3 clear])
          assume "r = Done ()"
          then have d': "host_disk h' = flush_dir (butlast ?q) (host_disk h3)" using ends continued(2) by simp
          have dir: "fs_entries ?d ?q \<noteq> Some DirAt" using replaced(2) b2 by (simp add: before_def)
          then have "?q \<noteq> []" using ok by (auto simp: disk_ok_def)
          moreover have "fs_pending (host_disk h') a = {Some DirAt}"
            if a: "a \<in> set ?as" and d: "durable_dirs ?d (butlast ?q)" for a
          proof -
            have "fs_entries (host_disk h3) a = Some DirAt \<and> fs_pending (host_disk h3) a = {Some DirAt}"
              using keepsD [OF keeps_replace_file _ continued(1), of a "Some DirAt" "{Some DirAt}"] above a durable [OF a d]
              by blast
            then show ?thesis using d' by (simp add: flush_dir_def)
          qed
          ultimately show "holds_all (fs_next ?d) bytes (host_disk h') (fs_entries (host_disk h') ?q)
            \<and> fs_entries (host_disk h') ?t = None \<and> fs_pending (host_disk h') ?q = {fs_entries (host_disk h') ?q}
            \<and> fs_entries ?d ?q \<noteq> Some DirAt
            \<and> (durable_dirs ?d (butlast ?q) \<longrightarrow> (\<forall>a \<in> set ?as. fs_pending (host_disk h') a = {Some DirAt}))"
            using replaced(2) d' dir by (auto simp: flush_dir_def holds_all_def)
        qed
      qed
    qed
  qed
qed

text \<open>The same, for the reader of any path.\<close>

lemma write_private_calls_reads:
  assumes ok: "disk_ok (host_disk h)" and t: "resolve p \<noteq> temp_path (resolve p) name"
    and run: "write_private_calls name p bytes h = (r, h')"
  shows "read_now (host_disk h') (resolve p) = read_now (host_disk h) (resolve p)
      \<or> read_now (host_disk h') (resolve p) = Some bytes"
    and "may_survive (host_disk h') (resolve p) c \<Longrightarrow> may_survive (host_disk h) (resolve p) c \<or> c = Some bytes"
    and "k \<noteq> resolve p \<Longrightarrow> k \<noteq> temp_path (resolve p) name \<Longrightarrow> read_now (host_disk h') k = read_now (host_disk h) k"
    and "\<not> at_or_below (resolve p) k \<Longrightarrow> \<not> at_or_below (temp_path (resolve p) name) k \<Longrightarrow> may_survive (host_disk h') k c
      \<Longrightarrow> may_survive (host_disk h) k c"
proof -
  let ?q = "resolve p"
  let ?t = "temp_path ?q name"
  have af: "after (host_disk h) ?q ?t bytes (host_disk h')"
    using ok t run by (cases rule: write_private_calls_after) (simp_all add: before_after)
  show "read_now (host_disk h') ?q = read_now (host_disk h) ?q \<or> read_now (host_disk h') ?q = Some bytes"
    by (rule after_reads(1) [OF ok af])
  show "read_now (host_disk h') k = read_now (host_disk h) k" if "k \<noteq> ?q" "k \<noteq> ?t"
    by (rule after_reads(2) [OF ok af that])
  show "may_survive (host_disk h) ?q c \<or> c = Some bytes" if "may_survive (host_disk h') ?q c"
    using after_survives [OF ok af that] temp_not_above t by blast
  show "may_survive (host_disk h) k c"
    if k: "\<not> at_or_below ?q k" "\<not> at_or_below ?t k" and s: "may_survive (host_disk h') k c"
  proof -
    have self: "at_or_below a a" for a by (simp add: at_or_below_def)
    have "\<forall>a \<in> set (ancestors (butlast k)). a \<noteq> ?q \<and> a \<noteq> ?t"
      using ancestors_below ancestors_butlast k self by metis
    then show ?thesis using after_survives [OF ok af s] k self by blast
  qed
qed

lemma write_private_calls_Done:
  assumes ok: "disk_ok (host_disk h)" and t: "resolve p \<noteq> temp_path (resolve p) name"
    and run: "write_private_calls name p bytes h = (Done (), h')"
  shows "read_now (host_disk h') (resolve p) = Some bytes"
    and "durable_dirs (host_disk h) (butlast (resolve p)) \<Longrightarrow> may_survive (host_disk h') (resolve p) c \<longleftrightarrow> c = Some bytes"
proof -
  let ?q = "resolve p"
  have all: "holds_all (fs_next (host_disk h)) bytes (host_disk h') (fs_entries (host_disk h') ?q)"
    and one: "fs_pending (host_disk h') ?q = {fs_entries (host_disk h') ?q}"
    and above: "durable_dirs (host_disk h) (butlast ?q) \<longrightarrow> (\<forall>a \<in> set (ancestors (butlast ?q)). fs_pending (host_disk h') a = {Some DirAt})"
    using ok t run by (cases rule: write_private_calls_after; simp)+
  show "read_now (host_disk h') ?q = Some bytes" using all by (auto simp: read_now_def holds_all_def)
  show "may_survive (host_disk h') ?q c \<longleftrightarrow> c = Some bytes" if "durable_dirs (host_disk h) (butlast ?q)"
    using all one above that by (auto simp: may_survive_def holds_all_def list_all_iff split: option.splits)
qed

section \<open>The one-step write\<close>

text \<open>
  The world of the other components keeps the files only. While the power stays on, whatever the system
  calls do, \<open>write_private\<close> can end in the same way and with the same files, for some outcomes of its
  two steps.
\<close>

definition shows_files :: "'c disk \<Rightarrow> 'c list world \<Rightarrow> bool" where
  "shows_files d w \<longleftrightarrow> (\<forall>k. map_of (files w) k = read_now d k) \<and> (\<forall>k \<in> set (dirs w). fs_entries d k = Some DirAt)"

lemma write_private_allows:
  assumes ok: "disk_ok (host_disk h)" and t: "resolve p \<noteq> temp_path (resolve p) name"
    and run: "write_private_calls name p bytes h = (r, h')" and on: "r \<noteq> Off" and w: "shows_files (host_disk h) w"
  shows "\<exists>fs r' w'. write_private p bytes (w\<lparr>faults := fs\<rparr>) = (r', w') \<and> (r' = Inr () \<longleftrightarrow> r = Done ())
    \<and> (\<forall>k. k \<noteq> temp_path (resolve p) name \<longrightarrow> map_of (files w') k = read_now (host_disk h') k)"
proof -
  let ?q = "resolve p"
  let ?t = "temp_path ?q name"
  have others: "read_now (host_disk h') k = read_now (host_disk h) k" if "k \<noteq> ?q" "k \<noteq> ?t" for k
    by (rule write_private_calls_reads(3) [OF ok t run that])
  have files: "map_of (files w) k = read_now (host_disk h) k" for k using w by (simp add: shows_files_def)
  show ?thesis
  proof (cases "r \<noteq> Done () \<and> read_now (host_disk h') ?q = read_now (host_disk h) ?q")
    case True
    have "\<exists>e w1. create_dir_all (butlast ?q) (w\<lparr>faults := [FailsBefore]\<rparr>) = (Inl e, w1) \<and> files w1 = files w"
      by (auto simp: create_dir_all_def faulty_def next_fault_def)
    then obtain e w1 where "write_private p bytes (w\<lparr>faults := [FailsBefore]\<rparr>) = (Inl e, w1)" "files w1 = files w"
      by (auto simp: write_private_def bindM_def)
    moreover have "read_now (host_disk h') k = read_now (host_disk h) k" if "k \<noteq> ?t" for k
      using True others that by (cases "k = ?q") auto
    ultimately show ?thesis using True files by (intro exI [of _ "[FailsBefore]"] exI [of _ "Inl e"] exI [of _ w1]) auto
  next
    case False
    have read: "read_now (host_disk h') ?q = Some bytes"
      using False write_private_calls_reads(1) [OF ok t run] write_private_calls_Done(1) [OF ok t] run by blast
    have late: "(\<forall>a \<in> set (ancestors (butlast ?q)). read_now (host_disk h) a = None) \<and> fs_entries (host_disk h) ?q \<noteq> Some DirAt"
      using ok t run
    proof (cases rule: write_private_calls_after)
      case early
      then have "read_now (host_disk h') ?q = read_now (host_disk h) ?q" by (auto simp: before_def intro: others_kept_read [OF ok])
      then show ?thesis using False early by simp
    next
      case late
      have "fs_entries (host_disk h') ?q = fs_entries (host_disk h) ?q \<Longrightarrow> fs_entries (host_disk h) ?q \<noteq> Some DirAt"
        using read by (auto simp: read_now_def)
      then show ?thesis using late(1,2) by (auto simp: after_def)
    qed
    define f where "f = (if r = Done () then Succeeds else FailsAfter)"
    have "?q \<notin> set (dirs w)" "\<not> (\<exists>a \<in> set (ancestors (butlast ?q)). map_of (files w) a \<noteq> None)"
      using late w files by (auto simp: shows_files_def)
    moreover have "?q \<notin> set (ancestors (butlast ?q))" using temp_not_above by blast
    ultimately obtain r1 w1 where w1: "write_private p bytes (w\<lparr>faults := [Succeeds, f]\<rparr>) = (r1, w1)"
      "r1 = Inr () \<longleftrightarrow> r = Done ()" "files w1 = AList.update ?q bytes (files w)"
      by (cases "r = Done ()")
        (auto simp: write_private_def bindM_def create_dir_all_def put_file_def faulty_def next_fault_def f_def)
    then show ?thesis using read others files
      by (intro exI [of _ "[Succeeds, f]"] exI [of _ r1] exI [of _ w1]) (auto simp: update_conv)
  qed
qed

end
