(* ===== verification/Wallet_Properties.thy ===== *)
theory Wallet_Properties
  imports Demo_Laws Rotation_Safety Friends Private_Write
begin

text \<open>
  Properties of the wallets' components: device encryption, keys and files, social recovery, sweeps,
  the vanity search, the chain backends and the phone's wallet database. Each restates the component's
  lemma over its definitions; the witnesses use the libraries of \<open>Demo_Lib\<close>.
\<close>

section \<open>Encryption, keys and files\<close>

text \<open>
  C12. Artifacts open again, and only for the purpose they were made for: what \<^verbatim>\<open>encrypt\<close> returns,
  \<^verbatim>\<open>decrypt\<close> under the same seed and purpose gives back, while under any other purpose it is refused
  before a key is derived, whatever the seed.
\<close>

theorem encryption_round_trip:
  assumes "aead_correct K" and "encrypt K nonce seed purpose plaintext = Inr blob"
  shows "decrypt K seed purpose blob = Inr plaintext
    \<and> {r. \<exists>seed' purpose'. purpose' \<noteq> purpose \<and> r = decrypt K seed' purpose' blob} = {Inl (Dev BlobPurpose)}"
proof -
  have "purpose @ ''x'' \<noteq> purpose" by simp
  then show ?thesis
    using decrypt_encrypt [OF assms] decrypt_other_purpose [OF assms(2)] by (auto intro!: exI [of _ "purpose @ ''x''"])
qed

theorem encryption_round_trip_witness:
  "\<exists>blob. encrypt demo_crypto 9 (DSeed 3) ''policy'' (DText ''secret'') = Inr blob
    \<and> decrypt demo_crypto (DSeed 3) ''policy'' blob = Inr (DText ''secret'')"
proof -
  obtain blob where e: "encrypt demo_crypto 9 (DSeed 3) ''policy'' (DText ''secret'') = Inr blob"
    by (simp add: encrypt_def derive_key_def demo_crypto_def)
  from encryption_round_trip [OF demo_aead e] show ?thesis using e by blast
qed

text \<open>
  C13. The fast key derivation of the vanity search and of rotations is the ordinary one: for keys any
  constructor returned, \<^verbatim>\<open>with_vault_key_index\<close> gives exactly the keys that deriving the mnemonic again
  at that index gives.
\<close>

theorem key_index_equals_fresh_derivation:
  assumes "generate_for_network_at_index L K entropy network i = Inr d
    \<or> parse_for_network_at_index L K words network i = Inr d"
  shows "with_vault_key_index L K d j = from_mnemonic L K (dk_mnemonic d) network j"
proof -
  have "device_ok L K d \<and> dk_network d = network"
    using assms by (auto simp: generate_for_network_at_index_def parse_for_network_at_index_def
        dest: from_mnemonic_fields from_mnemonic_ok)
  then show ?thesis using with_vault_key_index_eq by blast
qed

theorem key_index_equals_fresh_derivation_witness:
  "\<exists>d. parse_for_network_at_index demo_lib demo_keys ''words'' Regtest 0 = Inr d
    \<and> with_vault_key_index demo_lib demo_keys d 7 = from_mnemonic demo_lib demo_keys (dk_mnemonic d) Regtest 7"
proof -
  obtain d where d: "parse_for_network_at_index demo_lib demo_keys ''words'' Regtest 0 = Inr d"
    by (auto simp: parse_for_network_at_index_def from_mnemonic_def derive_vault_key_from_parent_def coin_type_def
        demo_keys_def)
  from key_index_equals_fresh_derivation [OF disjI2 [OF d], where j = 7] show ?thesis using d by blast
qed

text \<open>
  C14. Replacing a file is atomic. Whatever the system calls of \<^verbatim>\<open>write_private\<close> do, each of which may fail or
  lose power before, during or after its effect, reading the target gives the old content or all of the
  new one, both right away and after a power loss; every other file keeps its content, and nothing that
  could not survive a power loss before can survive one now. If the write reports success the new content
  is in place and, when the existing directories above it were themselves durable, is what a power loss
  leaves. Short of a power loss, the one-step \<open>write_private\<close> of the other components allows the same end.
\<close>

theorem write_private_is_atomic:
  assumes "disk_ok (host_disk h)" and "resolve p \<noteq> temp_path (resolve p) name"
    and "write_private_calls name p bytes h = (r, h')"
  shows "read_now (host_disk h') (resolve p) \<in> {read_now (host_disk h) (resolve p), Some bytes}
    \<and> {c. may_survive (host_disk h') (resolve p) c} \<subseteq> insert (Some bytes) {c. may_survive (host_disk h) (resolve p) c}
    \<and> (\<forall>k. k \<notin> {resolve p, temp_path (resolve p) name} \<longrightarrow> read_now (host_disk h') k = read_now (host_disk h) k)
    \<and> (\<forall>k. \<not> at_or_below (resolve p) k \<longrightarrow> \<not> at_or_below (temp_path (resolve p) name) k \<longrightarrow>
        {c. may_survive (host_disk h') k c} \<subseteq> {c. may_survive (host_disk h) k c})
    \<and> (r = Done () \<longrightarrow> read_now (host_disk h') (resolve p) = Some bytes
        \<and> (durable_dirs (host_disk h) (butlast (resolve p)) \<longrightarrow> {c. may_survive (host_disk h') (resolve p) c} = {Some bytes}))
    \<and> (\<forall>w. r \<noteq> Off \<longrightarrow> shows_files (host_disk h) w \<longrightarrow> (\<exists>fs r' w'. write_private p bytes (w\<lparr>faults := fs\<rparr>) = (r', w')
        \<and> (r' = Inr () \<longleftrightarrow> r = Done ())
        \<and> (\<forall>k. k \<noteq> temp_path (resolve p) name \<longrightarrow> map_of (files w') k = read_now (host_disk h') k)))"
proof (intro conjI allI impI)
  note reads = write_private_calls_reads [OF assms]
  show "read_now (host_disk h') (resolve p) \<in> {read_now (host_disk h) (resolve p), Some bytes}" using reads(1) by simp
  show "{c. may_survive (host_disk h') (resolve p) c} \<subseteq> insert (Some bytes) {c. may_survive (host_disk h) (resolve p) c}"
    using reads(2) by auto
  show "read_now (host_disk h') k = read_now (host_disk h) k" if "k \<notin> {resolve p, temp_path (resolve p) name}" for k
    using reads(3) that by simp
  show "{c. may_survive (host_disk h') k c} \<subseteq> {c. may_survive (host_disk h) k c}"
    if "\<not> at_or_below (resolve p) k" "\<not> at_or_below (temp_path (resolve p) name) k" for k
    using reads(4) [OF that] by blast
  show "read_now (host_disk h') (resolve p) = Some bytes" if "r = Done ()"
    using write_private_calls_Done(1) [OF assms [unfolded that]] .
  show "{c. may_survive (host_disk h') (resolve p) c} = {Some bytes}"
    if "r = Done ()" "durable_dirs (host_disk h) (butlast (resolve p))"
    using write_private_calls_Done(2) [OF assms [unfolded that(1)] that(2)] by auto
  show "\<exists>fs r' w'. write_private p bytes (w\<lparr>faults := fs\<rparr>) = (r', w') \<and> (r' = Inr () \<longleftrightarrow> r = Done ())
      \<and> (\<forall>k. k \<noteq> temp_path (resolve p) name \<longrightarrow> map_of (files w') k = read_now (host_disk h') k)"
    if "r \<noteq> Off" "shows_files (host_disk h) w" for w
    by (rule write_private_allows [OF assms that])
qed

text \<open>Power is lost while the bytes are being written; the next write, into a new directory, succeeds.\<close>

definition demo_target :: path where "demo_target = [Normal ''data'', Normal ''seed'']"
definition demo_deeper :: path where "demo_deeper = [Normal ''data'', Normal ''phone'', Normal ''seed'']"

definition demo_host :: "call_outcome list \<Rightarrow> char host" where
  "demo_host os = \<lparr>host_disk = (let e = [[] \<mapsto> DirAt, [RootDir] \<mapsto> DirAt, [Normal ''data''] \<mapsto> DirAt, demo_target \<mapsto> FileAt 0] in
       \<lparr>fs_entries = e, fs_pending = (\<lambda>k. {e k}), fs_content = (\<lambda>_. ''old''), fs_synced = (\<lambda>_. True), fs_next = 1\<rparr>),
     host_outcomes = os\<rparr>"

lemma demo_host_ok: "disk_ok (host_disk (demo_host os))" "durable_dirs (host_disk (demo_host os)) (butlast demo_deeper)"
  by (auto simp: demo_host_def disk_ok_def durable_dirs_def demo_target_def demo_deeper_def ancestors_def Let_def split: if_splits)

lemma demo_host_runs:
  "fst (write_private_calls ''.tmp1'' demo_target ''fresh'' (demo_host [Works, PowerOff 2])) = Off"
  "fst (write_private_calls ''.tmp1'' demo_deeper ''fresh'' (demo_host [])) = Done ()"
  by code_simp+

theorem write_private_is_atomic_witness:
  "{c. may_survive (host_disk (snd (write_private_calls ''.tmp1'' demo_target ''fresh'' (demo_host [Works, PowerOff 2])))) demo_target c}
      \<subseteq> {Some ''old'', Some ''fresh''}
    \<and> {c. may_survive (host_disk (snd (write_private_calls ''.tmp1'' demo_deeper ''fresh'' (demo_host [])))) demo_deeper c}
      = {Some ''fresh''}"
proof
  have p: "resolve demo_target = demo_target" "resolve demo_target \<noteq> temp_path (resolve demo_target) ''.tmp1''"
    "resolve demo_deeper = demo_deeper" "resolve demo_deeper \<noteq> temp_path (resolve demo_deeper) ''.tmp1''"
    by code_simp+
  have old: "{c. may_survive (host_disk (demo_host os)) demo_target c} = {Some ''old''}" for os
    by (auto simp: may_survive_def demo_host_def demo_target_def ancestors_def Let_def split: option.splits)
  show "{c. may_survive (host_disk (snd (write_private_calls ''.tmp1'' demo_target ''fresh'' (demo_host [Works, PowerOff 2])))) demo_target c}
      \<subseteq> {Some ''old'', Some ''fresh''}"
  proof -
    obtain r h' where e: "write_private_calls ''.tmp1'' demo_target ''fresh'' (demo_host [Works, PowerOff 2]) = (r, h')"
      by (meson surj_pair)
    from write_private_is_atomic [OF demo_host_ok(1) p(2) e] show ?thesis
      unfolding e snd_conv p(1) old by (auto simp only: insert_commute)
  qed
  show "{c. may_survive (host_disk (snd (write_private_calls ''.tmp1'' demo_deeper ''fresh'' (demo_host [])))) demo_deeper c} = {Some ''fresh''}"
  proof -
    obtain h' where e: "write_private_calls ''.tmp1'' demo_deeper ''fresh'' (demo_host []) = (Done (), h')"
      using demo_host_runs(2) by (metis prod.collapse)
    from write_private_is_atomic [OF demo_host_ok(1) p(4) e] show ?thesis
      using demo_host_ok(2) unfolding e snd_conv p(3) by blast
  qed
qed

section \<open>Social recovery\<close>

datatype demo_cloud =
    CSeed nat | CSealed nat nat demo_cloud | CPayload recovery_payload
  | CFriends "(string \<times> demo_cloud \<times> demo_cloud) list" | CKey nat | CWrapped nat demo_cloud
  | CConfig vault_config | CDevice device_file | CBlob nat string nat demo_cloud
  | CBackup nat string demo_cloud demo_cloud demo_cloud demo_cloud

definition demo_pgp :: "demo_cloud pgp_lib" where
  "demo_pgp = \<lparr>
     hkdf_expand = (\<lambda>salt key info. case key of CSeed n \<Rightarrow> Some (n + length info) | _ \<Rightarrow> None),
     aead_seal = (\<lambda>key nonce p. Some (CSealed key nonce p)),
     aead_open = (\<lambda>key nonce c. case c of CSealed k n p \<Rightarrow> if k = key \<and> n = nonce then Some p else None | _ \<Rightarrow> None),
     seed_bytes = CSeed, byte_length = (\<lambda>_. 32),
     payload_codec = \<lparr>to_json = (\<lambda>x. Some (CPayload x)), from_json = (\<lambda>b. case b of CPayload x \<Rightarrow> Some x | _ \<Rightarrow> None)\<rparr>,
     friends_codec = \<lparr>to_json = (\<lambda>fs. Some (CFriends
         (map (\<lambda>f. (fk_fingerprint f, public_key_armored f, encrypted_symmetric_key f)) fs))),
       from_json = (\<lambda>b. case b of CFriends xs \<Rightarrow> Some (map (\<lambda>(a, k, e).
         \<lparr>fk_fingerprint = a, public_key_armored = k, encrypted_symmetric_key = e\<rparr>) xs) | _ \<Rightarrow> None)\<rparr>,
     pgp_public_from = (\<lambda>b. case b of CKey k \<Rightarrow> Some k | _ \<Rightarrow> None),
     pgp_public_verify = (\<lambda>_. True), pgp_subkeys = (\<lambda>k. [(k, True)]), pgp_fingerprint = show_nat,
     pgp_public_armor = (\<lambda>k. Some (CKey k)), pgp_encrypt = (\<lambda>rand k x. Some (CWrapped k x)),
     pgp_secret_from = (\<lambda>b. case b of CKey k \<Rightarrow> Some k | _ \<Rightarrow> None), pgp_secret_verify = (\<lambda>_. True),
     pgp_secret_fingerprint = show_nat, pgp_secret_armor = (\<lambda>k. Some (CKey k)), pgp_secret_public = (\<lambda>k. k),
     pgp_generate = (\<lambda>rand name. Some rand),
     pgp_decrypt = (\<lambda>k c. case c of CWrapped k' x \<Rightarrow> if k = k' then Some x else None | _ \<Rightarrow> None),
     base64_encode = (\<lambda>x. x), base64_decode = Some, str_trim = (\<lambda>s. s)\<rparr>"

lemma demo_pgp_correct: "pgp_correct demo_pgp"
  by (simp add: pgp_correct_def demo_pgp_def aead_correct_def codec_ok_def)

lemma show_nat_inj: "show_nat a = show_nat b \<Longrightarrow> a = b"
  using demo_digits_show by (metis option.inject)

lemma demo_unlocks: "unlocks demo_pgp n (CKey n)"
  by (auto simp: unlocks_def demo_pgp_def)

lemma demo_pgp_generates: "pgp_generates demo_pgp"
  unfolding pgp_generates_def using demo_unlocks by (auto simp: demo_pgp_def)

lemma demo_friends_codec: "codec_ok (friends_codec demo_pgp)"
  by (auto simp: codec_ok_def demo_pgp_def comp_def intro: nth_equalityI)

definition demo_entropy :: "demo_cloud entropy" where
  "demo_entropy = \<lparr>en_key = CSeed 77, en_payload_nonce = 1, en_hww_nonce = 2, en_manifest_nonce = 3, en_wrap = 4\<rparr>"

definition demo_payload :: recovery_payload where
  "demo_payload = \<lparr>rp_version = 1, rp_kind = ''vault-recovery-payload'', rp_network = ''regtest'',
     rp_phone_mnemonic = ''words'', rp_phone_vault_key_index = 0, rp_phone_vault_pubkey = ''7'',
     rp_vault_descriptor = ''vault'', rp_vault_address = ''vault''\<rparr>"

lemma demo_backup:
  "\<exists>b. create_backup demo_pgp demo_entropy demo_payload (CSeed 5) [CKey 6, CKey 9] = Inr b \<and> length (friends b) = 2"
proof -
  let ?r = "create_backup demo_pgp demo_entropy demo_payload (CSeed 5) [CKey 6, CKey 9]"
  have "case ?r of Inl _ \<Rightarrow> False | Inr b \<Rightarrow> length (friends b) = 2" by code_simp
  then show ?thesis by (rule case_Inr_obtain)
qed

text \<open>
  C15. A cloud backup recovers the phone. The hardware wallet's seed opens every backup that was created
  with it. A friend's private key opens it if the backup was created for a certificate with its
  fingerprint and the key opens what is encrypted to every such certificate in the list; so does the
  private key of a pair that \<^verbatim>\<open>generate_friend_key\<close> made. The friend list holds each fingerprint once,
  in order.
\<close>

theorem backup_recovers:
  assumes "pgp_correct P" and "create_backup P en payload seed ks = Inr b" and "byte_length P (en_key en) = 32"
  shows "decrypt_with_hww P b seed = Inr payload \<and> sorted_wrt (<) (map fk_fingerprint (friends b))
    \<and> (\<forall>fp secret private_key. pgp_secret_from P private_key = Some secret \<longrightarrow> pgp_secret_verify P secret
        \<longrightarrow> pgp_secret_fingerprint P secret = fp \<longrightarrow> (\<exists>k \<in> set ks. friend_fingerprint P k = Inr fp)
        \<longrightarrow> (\<forall>k \<in> set ks. friend_fingerprint P k = Inr fp \<longrightarrow> unlocks P secret k)
        \<longrightarrow> decrypt_with_friend P b private_key = Inr payload)
    \<and> (\<forall>rand name g. pgp_generates P \<longrightarrow> generate_friend_key P rand name = Inr g
        \<longrightarrow> {k \<in> set ks. friend_fingerprint P k = Inr (gf_fingerprint g)} = {gf_public_key_armored g}
        \<longrightarrow> decrypt_with_friend P b (gf_private_key_armored g) = Inr payload)"
proof (intro conjI allI impI)
  show "decrypt_with_hww P b seed = Inr payload" by (rule decrypt_with_hww_create [OF assms(1,2)])
  show "sorted_wrt (<) (map fk_fingerprint (friends b))"
    using assms(2) by (auto simp: create_backup_def Let_def intro!: dedup_sorted_distinct)
  show "decrypt_with_friend P b private_key = Inr payload"
    if "pgp_secret_from P private_key = Some secret" "pgp_secret_verify P secret" "pgp_secret_fingerprint P secret = fp"
      "\<exists>k \<in> set ks. friend_fingerprint P k = Inr fp" "\<forall>k \<in> set ks. friend_fingerprint P k = Inr fp \<longrightarrow> unlocks P secret k"
    for fp secret private_key
  proof -
    from that(4) obtain k where "k \<in> set ks" "friend_fingerprint P k = Inr fp" by blast
    from decrypt_with_friend_create [OF assms this that(1-3) that(5)] show ?thesis .
  qed
  show "decrypt_with_friend P b (gf_private_key_armored g) = Inr payload"
    if laws: "pgp_generates P" and gen: "generate_friend_key P rand name = Inr g"
      and only: "{k \<in> set ks. friend_fingerprint P k = Inr (gf_fingerprint g)} = {gf_public_key_armored g}" for rand name g
    using laws gen
  proof (rule generate_friend_key_Inr)
    fix secret
    assume s: "pgp_secret_from P (gf_private_key_armored g) = Some secret" "pgp_secret_verify P secret"
      "pgp_secret_fingerprint P secret = gf_fingerprint g" "unlocks P secret (gf_public_key_armored g)"
    have k: "gf_public_key_armored g \<in> set ks" "friend_fingerprint P (gf_public_key_armored g) = Inr (gf_fingerprint g)"
      using only by auto
    have "\<forall>k \<in> set ks. friend_fingerprint P k = Inr (gf_fingerprint g) \<longrightarrow> unlocks P secret k"
    proof (intro ballI impI)
      fix k assume "k \<in> set ks" "friend_fingerprint P k = Inr (gf_fingerprint g)"
      then have "k \<in> {gf_public_key_armored g}" unfolding only [symmetric] by simp
      then show "unlocks P secret k" using s(4) by simp
    qed
    from decrypt_with_friend_create [OF assms k s(1-3) this] show ?thesis .
  qed
qed

theorem backup_recovers_witness:
  "\<exists>b. create_backup demo_pgp demo_entropy demo_payload (CSeed 5) [CKey 6, CKey 9] = Inr b
    \<and> decrypt_with_hww demo_pgp b (CSeed 5) = Inr demo_payload \<and> decrypt_with_friend demo_pgp b (CKey 9) = Inr demo_payload
    \<and> (\<exists>g. generate_friend_key demo_pgp 6 ''ann'' = Inr g
        \<and> decrypt_with_friend demo_pgp b (gf_private_key_armored g) = Inr demo_payload)"
proof -
  obtain b where b: "create_backup demo_pgp demo_entropy demo_payload (CSeed 5) [CKey 6, CKey 9] = Inr b"
    using demo_backup by blast
  have len: "byte_length demo_pgp (en_key demo_entropy) = 32" by (simp add: demo_pgp_def)
  have fp: "friend_fingerprint demo_pgp (CKey n) = Inr (show_nat n)" "pgp_secret_from demo_pgp (CKey n) = Some n"
    "pgp_secret_verify demo_pgp n" "pgp_secret_fingerprint demo_pgp n = show_nat n" for n
    by (simp_all add: friend_fingerprint_def checked_public_key_def demo_pgp_def)
  note r = backup_recovers [OF demo_pgp_correct b len]
  have own: "\<forall>k \<in> set [CKey 6, CKey 9]. friend_fingerprint demo_pgp k = Inr (show_nat n) \<longrightarrow> unlocks demo_pgp n k" for n
    using demo_unlocks fp(1) show_nat_inj by auto
  have "decrypt_with_friend demo_pgp b (CKey 9) = Inr demo_payload"
    using r own [of 9] fp [of 9] by auto
  moreover obtain g where g: "generate_friend_key demo_pgp 6 ''ann'' = Inr g" "gf_public_key_armored g = CKey 6"
      "gf_fingerprint g = show_nat 6"
    by (simp add: generate_friend_key_def demo_pgp_def)
  moreover have "{k \<in> set [CKey 6, CKey 9]. friend_fingerprint demo_pgp k = Inr (gf_fingerprint g)} = {gf_public_key_armored g}"
    using g(2,3) fp(1) show_nat_inj by force
  ultimately show ?thesis using r b demo_pgp_generates by blast
qed

text \<open>
  C16. The list of friends is authenticated. Replacing it in a backup by any other list makes the
  hardware wallet refuse the backup as forged; adding a friend through \<^verbatim>\<open>add_friend\<close> keeps it open to the
  hardware wallet, keeps every earlier friend, and adds exactly the new fingerprint.
\<close>

theorem friend_list_authenticated:
  assumes "pgp_correct P" and "codec_ok (friends_codec P)" and "create_backup P en payload seed ks = Inr b"
  shows "(\<forall>fs t. to_json (friends_codec P) fs = Some t \<longrightarrow> fs \<noteq> friends b \<longrightarrow>
      decrypt_with_hww P (b\<lparr>friends := fs\<rparr>) seed = Inl (Recov (Soc FriendListForged)))
    \<and> (\<forall>rand nonce k fp b'. add_friend P rand nonce b seed k = Inr (fp, b') \<longrightarrow>
        decrypt_with_hww P b' seed = Inr payload \<and> set (friends b) \<subseteq> set (friends b')
        \<and> fk_fingerprint ` set (friends b') = insert fp (fk_fingerprint ` set (friends b)))"
  using decrypt_with_hww_forged [OF assms]
    decrypt_with_hww_add_friend [OF assms(1) decrypt_with_hww_create [OF assms(1,3)]] by blast

theorem friend_list_authenticated_witness:
  "\<exists>b. create_backup demo_pgp demo_entropy demo_payload (CSeed 5) [CKey 6, CKey 9] = Inr b
    \<and> decrypt_with_hww demo_pgp (b\<lparr>friends := []\<rparr>) (CSeed 5) = Inl (Recov (Soc FriendListForged))"
proof -
  obtain b where b: "create_backup demo_pgp demo_entropy demo_payload (CSeed 5) [CKey 6, CKey 9] = Inr b"
      and two: "length (friends b) = 2"
    using demo_backup by blast
  have "\<exists>t. to_json (friends_codec demo_pgp) [] = Some t" by (simp add: demo_pgp_def)
  moreover have "[] \<noteq> friends b" using two by auto
  ultimately show ?thesis using friend_list_authenticated [OF demo_pgp_correct demo_friends_codec b] b by blast
qed

end
