(* ===== verification/Signing_Properties.thy ===== *)
theory Signing_Properties
  imports Demo_Lib Recovery Ceremony_Complete
begin

text \<open>
  Properties of the PSBT layer and of sweeps: what signing guarantees, which PSBTs it refuses, when a
  recovery path opens, and that the sweep a phone creates is one the hardware wallet accepts.
\<close>

section \<open>A concrete sweep\<close>

definition demo_destination :: address where
  "demo_destination = demo_address 6"

definition demo_sweep :: "demo_content cooperative_sweep_package result" where
  "demo_sweep = create_cooperative_sweep demo_lib demo_codecs demo_config [demo_utxo 1 12000] demo_destination (demo_device 7)"

definition demo_policy :: "vault_policy result" where
  "demo_policy = vault_from_descriptor demo_lib (vc_vault_descriptor demo_config) Regtest"

definition demo_signed_twice :: "(psbt \<times> psbt \<times> psbt) result" where
  "demo_signed_twice =
     bind_result demo_policy (\<lambda>policy.
     bind_result (build_sweep_psbt demo_lib policy [demo_utxo 1 12000] SweepCooperative demo_destination) (\<lambda>(psbt, _, _).
     bind_result (sign_vault_psbt_inputs demo_lib psbt policy Cooperative 7 [0]) (\<lambda>once.
     bind_result (sign_vault_psbt_inputs demo_lib once policy Cooperative 8 [0]) (\<lambda>twice. Inr (psbt, once, twice)))))"

lemma demo_policy_ok: "\<exists>policy. demo_policy = Inr policy \<and> vault_script_of policy = [81, 5]"
proof -
  have "case demo_policy of Inl _ \<Rightarrow> False | Inr policy \<Rightarrow> vault_script_of policy = [81, 5]" by code_simp
  then show ?thesis by (rule case_Inr_obtain)
qed

lemma demo_sweep_ok: "\<exists>package. demo_sweep = Inr package"
proof -
  have "\<not> isl demo_sweep" by code_simp
  then show ?thesis by (rule not_isl_obtain)
qed

lemma demo_signed_ok: "\<exists>psbt once twice. demo_signed_twice = Inr (psbt, once, twice)"
proof -
  have "\<not> isl demo_signed_twice" by code_simp
  then show ?thesis using not_isl_obtain [of demo_signed_twice] by auto
qed

section \<open>Signing\<close>

text \<open>
  C17. Signing in turn. When one device and then the other sign inputs of a PSBT through a leaf of the
  vault, the result carries a valid signature of each on the inputs each signed, and the transaction is
  still the one first given; the second signature never invalidates the first.
\<close>

theorem signatures_accumulate:
  assumes "lib_sign_laws L" and "sign_vault_psbt_inputs L p policy path k js = Inr q"
    and "sign_vault_psbt_inputs L q policy path' k' js' = Inr r"
  shows "verify_vault_psbt_signatures L r policy path (keypair_xonly L k) js = Inr ()
    \<and> verify_vault_psbt_signatures L r policy path' (keypair_xonly L k') js' = Inr ()
    \<and> unsigned_tx r = unsigned_tx p"
  by (rule vault_signer.both_signed [OF assms])

theorem signatures_accumulate_witness:
  "\<exists>policy (p :: psbt) r. demo_policy = Inr policy
    \<and> verify_vault_psbt_signatures demo_lib r policy Cooperative 7 [0] = Inr ()
    \<and> verify_vault_psbt_signatures demo_lib r policy Cooperative 8 [0] = Inr () \<and> unsigned_tx r = unsigned_tx p"
proof -
  obtain policy where policy: "demo_policy = Inr policy" using demo_policy_ok by blast
  obtain p q r where "demo_signed_twice = Inr (p, q, r)" using demo_signed_ok by blast
  then have q: "sign_vault_psbt_inputs demo_lib p policy Cooperative 7 [0] = Inr q"
    and r: "sign_vault_psbt_inputs demo_lib q policy Cooperative 8 [0] = Inr r"
    by (auto simp: demo_signed_twice_def policy)
  have "keypair_xonly demo_lib k = k" for k by (simp add: demo_lib_def)
  then show ?thesis using signatures_accumulate [OF demo_sign_laws q r] policy by metis
qed

text \<open>
  C18. No device signs, and no verifier accepts, a PSBT with an input that asks for another signature
  hash than the default: all four operations return the same error, for every key, leaf and choice of
  inputs.
\<close>

theorem other_sighash_refused:
  assumes "inp \<in> set (psbt_inputs p)" and "sighash_type inp = Some (SighashOther n)"
  shows "sign_vault_psbt_inputs L p policy path k js = Inl (Sign MustUseDefaultSighash)
    \<and> verify_vault_psbt_signatures L p policy path pubkey js = Inl (Sign MustUseDefaultSighash)
    \<and> sign_controller_psbt_inputs L p controller cpath k js = Inl (Sign MustUseDefaultSighash)
    \<and> verify_controller_psbt_signatures L p controller cpath pubkey js = Inl (Sign MustUseDefaultSighash)"
proof -
  have "validate_default_sighashes p = Inl (Sign MustUseDefaultSighash)"
    unfolding validate_default_sighashes_def validate_sighash_types_eq using assms by force
  then show ?thesis
    by (simp add: sign_vault_psbt_inputs_def verify_vault_psbt_signatures_def sign_controller_psbt_inputs_def
        verify_controller_psbt_signatures_def)
qed

theorem other_sighash_refused_witness:
  "\<exists>policy. demo_policy = Inr policy
    \<and> sign_vault_psbt_inputs demo_lib \<lparr>unsigned_tx = sweep_transaction [] SweepCooperative demo_destination 0,
        psbt_inputs = [demo_blank_input\<lparr>sighash_type := Some (SighashOther 2)\<rparr>], psbt_rest = 0\<rparr> policy Cooperative 7 [0]
      = Inl (Sign MustUseDefaultSighash)"
proof -
  obtain policy where policy: "demo_policy = Inr policy" using demo_policy_ok by blast
  let ?inp = "demo_blank_input\<lparr>sighash_type := Some (SighashOther 2)\<rparr>"
  have "?inp \<in> set (psbt_inputs \<lparr>unsigned_tx = sweep_transaction [] SweepCooperative demo_destination 0,
        psbt_inputs = [?inp], psbt_rest = 0\<rparr>)" "sighash_type ?inp = Some (SighashOther 2)" by simp_all
  from other_sighash_refused [OF this] show ?thesis using policy by blast
qed

section \<open>Sweeps\<close>

text \<open>
  C19. The cooperative sweep. A package the phone creates over outputs of the vault is one
  \<^verbatim>\<open>validate_cooperative_sweep\<close> accepts: it carries the phone's valid signature, spends every given
  output in one transaction that pays the destination alone, and its inputs are the amount sent and the
  fee.
\<close>

theorem created_sweep_validates:
  assumes "lib_laws L" and "psbt_text_ok C"
    and "create_cooperative_sweep L C config utxos destination phone = Inr package"
    and "config_network config = Inr network"
    and "address_from_str L (addr_text destination) network = Some destination"
    and "vault_from_descriptor L (vc_vault_descriptor config) network = Inr policy"
    and "\<forall>u \<in> set utxos. utxo_script u = vault_script_of policy"
  shows "\<exists>psbt. validate_cooperative_sweep L C config package = Inr (policy, psbt)
    \<and> verify_vault_psbt_signature L psbt policy Cooperative (keypair_xonly L (vault_keypair phone)) = Inr ()
    \<and> map previous_output (tx_input (unsigned_tx psbt)) = map utxo_outpoint utxos
    \<and> tx_output (unsigned_tx psbt) = [\<lparr>txo_value = sw_sent_sats package, script_pubkey = addr_script destination\<rparr>]
    \<and> sum_list (map utxo_value utxos) = sw_sent_sats package + sw_fee_sats package"
proof -
  obtain psbt where "validate_cooperative_sweep L C config package = Inr (policy, psbt)"
    and "verify_vault_psbt_signature L psbt policy Cooperative (keypair_xonly L (vault_keypair phone)) = Inr ()"
    and t: "unsigned_tx psbt = sweep_transaction utxos SweepCooperative destination (sw_sent_sats package)"
    and "sum_list (map utxo_value utxos) = sw_sent_sats package + sw_fee_sats package"
    using create_cooperative_sweep_validates [OF lib_lawsD [OF assms(1)] assms(2-)] by blast
  moreover have "map previous_output (tx_input (unsigned_tx psbt)) = map utxo_outpoint utxos"
    and "tx_output (unsigned_tx psbt) = [\<lparr>txo_value = sw_sent_sats package, script_pubkey = addr_script destination\<rparr>]"
    by (simp_all add: t sweep_transaction_def comp_def)
  ultimately show ?thesis by blast
qed

theorem created_sweep_validates_witness:
  "\<exists>package policy psbt. demo_sweep = Inr package
    \<and> validate_cooperative_sweep demo_lib demo_codecs demo_config package = Inr (policy, psbt)
    \<and> sw_sent_sats package + sw_fee_sats package = 12000"
proof -
  obtain policy where policy: "demo_policy = Inr policy" and vs: "vault_script_of policy = [81, 5]"
    using demo_policy_ok by blast
  obtain package where p: "demo_sweep = Inr package" using demo_sweep_ok by blast
  have laws: "lib_laws demo_lib" by (simp add: lib_laws_def demo_psbt_laws demo_sign_laws demo_size_laws)
  have net: "config_network demo_config = Inr Regtest"
    by (simp add: demo_config_def config_network_def parse_network_name_def)
  have addr: "address_from_str demo_lib (addr_text demo_destination) Regtest = Some demo_destination"
    by (simp add: demo_lib_def demo_destination_def demo_address_def)
  have vs: "\<forall>u \<in> set [demo_utxo 1 12000]. utxo_script u = vault_script_of policy"
    using vs by (simp add: demo_utxo_def)
  have "sum_list (map utxo_value [demo_utxo 1 12000]) = 12000" by (simp add: demo_utxo_def)
  then show ?thesis
    using created_sweep_validates [OF laws demo_psbt_text_ok p [unfolded demo_sweep_def] net addr
        policy [unfolded demo_policy_def] vs] p by auto
qed

section \<open>Recovery\<close>

text \<open>
  The consensus rules about relative locks, as BIP68 and BIP112 state them. A lock in units of time
  (bit 22 of the sequence) is taken as not met.
\<close>

definition csv_passes :: "nat \<Rightarrow> int \<Rightarrow> sequence \<Rightarrow> bool" where
  \<comment> \<open>\<^verbatim>\<open><n> OP_CHECKSEQUENCEVERIFY\<close> on an input with sequence \<open>s\<close> of a transaction of this version\<close>
  "csv_passes n version s \<longleftrightarrow> odd (n div 2 ^ 31)
     \<or> 2 \<le> version \<and> even (s div 2 ^ 31) \<and> (odd (n div 2 ^ 22) \<longleftrightarrow> odd (s div 2 ^ 22)) \<and> n mod 2 ^ 16 \<le> s mod 2 ^ 16"

definition lock_reached :: "nat \<Rightarrow> int \<Rightarrow> sequence \<Rightarrow> nat \<Rightarrow> bool" where
  \<comment> \<open>an output confirmed at this height may be spent with sequence \<open>s\<close> in the block at \<open>height\<close>\<close>
  "lock_reached confirmed version s height \<longleftrightarrow> version < 2 \<or> odd (s div 2 ^ 31)
     \<or> even (s div 2 ^ 22) \<and> confirmed + s mod 2 ^ 16 \<le> height"

definition leaf_opens :: "nat \<Rightarrow> nat \<Rightarrow> vault_utxo \<Rightarrow> bool" where
  \<comment> \<open>some transaction of the block at \<open>height\<close> may spend the output through a leaf with \<^verbatim>\<open>older(n)\<close>\<close>
  "leaf_opens n height u \<longleftrightarrow> (\<exists>version s. csv_passes n version s \<and> lock_reached (confirmation_height u) version s height)"

lemma block_lock:
  assumes "n < 2 ^ 16"
  shows "csv_passes n 2 n" and "lock_reached c 2 n height \<longleftrightarrow> c + n \<le> height"
  using assms by (simp_all add: csv_passes_def lock_reached_def)

lemma leaf_opens_iff:
  assumes "n < 2 ^ 16"
  shows "leaf_opens n height u \<longleftrightarrow> confirmation_height u + n \<le> height"
proof
  have "n div 2 ^ 31 = 0" "n mod 2 ^ 16 = n" using assms by simp_all
  then show "confirmation_height u + n \<le> height" if "leaf_opens n height u"
    using that by (auto simp: leaf_opens_def csv_passes_def lock_reached_def)
  show "leaf_opens n height u" if "confirmation_height u + n \<le> height"
    using that block_lock [OF assms] unfolding leaf_opens_def by blast
qed

lemma recovery_leaf:
  assumes "lib_script_concat L" and "lib_vault_descriptor L phone hww (vp_descriptor policy)"
    and "\<not> contains_window (script_encode L [PushInt 65535]) (recovery_script L phone 61200)"
    and "(path, key, delay) \<in> {(SweepPhoneRecovery, phone, 61200), (SweepHwwRecovery, hww, 65535)}"
  shows "\<exists>leaf. vault_leaf L policy (policy_path path) = Inr leaf \<and> leaf_script leaf = recovery_script L key delay"
  using assms recovery_script_window [OF assms(1), of 61200 phone] recovery_script_window [OF assms(1), of 65535 hww]
  by (auto simp: vault_leaf_def taproot_leaves_def lib_vault_descriptor_def policy_path_def target_depth_def target_delay_def
      constants_simps)

lemma prepare_sweep_Inr:
  assumes "lib_psbt_laws L" and "prepare_sweep L config utxos tip path destination = Inr plan"
  obtains amount where "unsigned_tx (sp_psbt plan) = sweep_transaction (mature_utxos utxos path tip) path destination amount"
    and "mature_utxos utxos path tip \<noteq> []"
    and "\<exists>network. vault_from_descriptor L (vc_vault_descriptor config) network = Inr (sp_policy plan)"
proof -
  let ?us = "mature_utxos utxos path tip"
  from assms(2) obtain network amount where "vault_from_descriptor L (vc_vault_descriptor config) network = Inr (sp_policy plan)"
      and "?us \<noteq> []" and "create_vault_psbt L (sweep_transaction ?us path destination amount) (map utxo_txout ?us) (sp_policy plan)
        = Inr (sp_psbt plan)"
    by (auto simp: prepare_sweep_def build_sweep_psbt_def Let_def split: if_splits)
  with create_vault_psbt_describes [OF assms(1) this(3)] show thesis using that by (auto simp: psbt_describes_def)
qed

text \<open>
  C20. A recovery is valid in the next block. Let the vault's descriptor be the one of these two keys,
  the phone's leaf not contain the other delay by accident, and no height be near the 64-bit bound. The
  transaction \<^verbatim>\<open>prepare_sweep\<close> makes for a device to sign alone goes through the leaf with that device's key,
  whose script asks for 61200 blocks for the phone and 65535 for the hardware wallet; its inputs are, in
  order, all the outputs which that leaf can spend in the next block under BIP68 and BIP112, and no others, each
  with a version and sequence that satisfy both. When there is none, the error says that nothing is mature.
\<close>

theorem recovery_maturity:
  assumes "lib_psbt_laws L" and "lib_script_concat L" and "lib_vault_descriptor L phone hww d"
    and "descriptor_from_str L (vc_vault_descriptor config) = Some d" and "descriptor_address L d network = Some address"
    and "config_network config = Inr network"
    and "\<not> contains_window (script_encode L [PushInt 65535]) (recovery_script L phone 61200)"
    and "(path, key, delay) \<in> {(SweepPhoneRecovery, phone, 61200), (SweepHwwRecovery, hww, 65535)}"
    and "tip + 1 < u64_bound" and "\<forall>u \<in> set utxos. confirmation_height u + 65535 < u64_bound"
  shows "(\<forall>plan tx. prepare_sweep L config utxos tip path destination = Inr plan \<longrightarrow> tx = unsigned_tx (sp_psbt plan) \<longrightarrow>
        (\<exists>leaf. vault_leaf L (sp_policy plan) (policy_path path) = Inr leaf \<and> leaf_script leaf = recovery_script L key delay)
      \<and> list_all2 (\<lambda>i u. previous_output i = utxo_outpoint u \<and> csv_passes delay (tx_version tx) (tx_sequence i)
            \<and> lock_reached (confirmation_height u) (tx_version tx) (tx_sequence i) (tip + 1))
          (tx_input tx) (filter (leaf_opens delay (tip + 1)) utxos))
    \<and> (utxos \<noteq> [] \<longrightarrow> filter (leaf_opens delay (tip + 1)) utxos = [] \<longrightarrow>
        prepare_sweep L config utxos tip path destination = Inl (Recov (Sweep NothingMature)))"
proof -
  have delay: "sweep_delay path = Some delay" "sweep_sequence path = delay" "delay < 2 ^ 16" "delay \<le> 65535"
    using assms(8) by (auto simp: sweep_delay_def sweep_sequence_def constants_simps)
  have "saturating_add (confirmation_height u) delay \<le> saturating_add tip 1 \<longleftrightarrow> leaf_opens delay (tip + 1) u"
    if "u \<in> set utxos" for u
    using assms(9,10) delay(4) that by (fastforce simp: saturating_add_def leaf_opens_iff [OF delay(3)])
  then have mature: "mature_utxos utxos path tip = filter (leaf_opens delay (tip + 1)) utxos"
    by (simp add: mature_utxos_def delay(1) cong: filter_cong)
  show ?thesis
  proof (intro conjI allI impI)
    fix plan tx assume p: "prepare_sweep L config utxos tip path destination = Inr plan" and tx: "tx = unsigned_tx (sp_psbt plan)"
    from prepare_sweep_Inr [OF assms(1) p] obtain amount n where
      t: "tx = sweep_transaction (filter (leaf_opens delay (tip + 1)) utxos) path destination amount"
      and policy: "vault_from_descriptor L (vc_vault_descriptor config) n = Inr (sp_policy plan)"
      unfolding mature tx by metis
    from policy have "vp_descriptor (sp_policy plan) = d" using assms(4)
      by (cases "sp_policy plan") (auto simp: vault_from_descriptor_def)
    then show "\<exists>leaf. vault_leaf L (sp_policy plan) (policy_path path) = Inr leaf \<and> leaf_script leaf = recovery_script L key delay"
      using recovery_leaf [OF assms(2) _ assms(7,8)] assms(3) by simp
    show "list_all2 (\<lambda>i u. previous_output i = utxo_outpoint u \<and> csv_passes delay (tx_version tx) (tx_sequence i)
            \<and> lock_reached (confirmation_height u) (tx_version tx) (tx_sequence i) (tip + 1))
          (tx_input tx) (filter (leaf_opens delay (tip + 1)) utxos)"
      using block_lock [OF delay(3)] leaf_opens_iff [OF delay(3)]
      by (simp add: t sweep_transaction_def delay(2) list_all2_map1 list_all2_same)
  next
    assume "utxos \<noteq> []" "filter (leaf_opens delay (tip + 1)) utxos = []"
    then show "prepare_sweep L config utxos tip path destination = Inl (Recov (Sweep NothingMature))"
      using assms(4-6) mature delay(1) by (simp add: prepare_sweep_def vault_from_descriptor_def Let_def)
  qed
qed

definition demo_vault_lib :: lib where
  "demo_vault_lib = demo_lib\<lparr>descriptor_leaves := \<lambda>d. Some (Some (take 3 demo_leaves))\<rparr>"

definition demo_vault_config :: vault_config where
  "demo_vault_config = demo_config\<lparr>vc_vault_descriptor := vault_descriptor_text demo_lib 7 8\<rparr>"

definition demo_recovery :: "nat \<Rightarrow> sweep_plan result" where
  "demo_recovery tip = prepare_sweep demo_vault_lib demo_vault_config
     [demo_utxo 1 12000, (demo_utxo 2 9000)\<lparr>confirmation_height := 101\<rparr>] tip SweepPhoneRecovery demo_destination"

lemma demo_vault_laws:
  "lib_psbt_laws demo_vault_lib" "lib_script_concat demo_vault_lib"
  "lib_vault_descriptor demo_vault_lib 7 8 (vault_descriptor_text demo_lib 7 8)"
proof -
  show "lib_psbt_laws demo_vault_lib" using demo_psbt_laws by (simp add: lib_psbt_laws_def demo_vault_lib_def)
  show "lib_script_concat demo_vault_lib"
    by (simp add: lib_script_concat_def demo_vault_lib_def demo_lib_def demo_encode_def demo_item_def)
  show "lib_vault_descriptor demo_vault_lib 7 8 (vault_descriptor_text demo_lib 7 8)"
    by (simp add: lib_vault_descriptor_def demo_vault_lib_def demo_lib_def demo_leaves_def vault_descriptor_text_def
        cooperative_script_def recovery_script_def constants_simps)
qed

theorem recovery_maturity_witness:
  "demo_recovery 61298 = Inl (Recov (Sweep NothingMature))
    \<and> (\<exists>plan. demo_recovery 61299 = Inr plan \<and> map previous_output (tx_input (unsigned_tx (sp_psbt plan))) = [OutPoint 1 0])"
proof -
  let ?us = "[demo_utxo 1 12000, (demo_utxo 2 9000)\<lparr>confirmation_height := 101\<rparr>]"
  have window: "\<not> contains_window (script_encode demo_vault_lib [PushInt 65535]) (recovery_script demo_vault_lib 7 61200)"
    by code_simp
  have net: "config_network demo_vault_config = Inr Regtest"
    "descriptor_from_str demo_vault_lib (vc_vault_descriptor demo_vault_config) = Some (vault_descriptor_text demo_lib 7 8)"
    by (simp_all add: demo_vault_config_def demo_config_def config_network_def parse_network_name_def demo_vault_lib_def demo_lib_def)
  obtain address where addr: "descriptor_address demo_vault_lib (vault_descriptor_text demo_lib 7 8) Regtest = Some address"
    by (simp add: demo_vault_lib_def demo_lib_def)
  have path: "(SweepPhoneRecovery, 7, 61200) \<in> {(SweepPhoneRecovery, 7, 61200), (SweepHwwRecovery, 8, 65535)}" by simp
  have low: "tip + 1 < u64_bound" "\<forall>u \<in> set ?us. confirmation_height u + 65535 < u64_bound" if "tip < 100000" for tip
    using that by (simp_all add: u64_bound_def demo_utxo_def)
  have tips: "(61298::nat) < 100000" "(61299::nat) < 100000" by simp_all
  note opens = recovery_maturity [OF demo_vault_laws net(2) addr net(1) window path]
  note early = opens [OF low [OF tips(1)], of demo_destination, folded demo_recovery_def]
  note late = opens [OF low [OF tips(2)], of demo_destination, folded demo_recovery_def]
  have chosen: "filter (leaf_opens 61200 (61298 + 1)) ?us = []" "filter (leaf_opens 61200 (61299 + 1)) ?us = [demo_utxo 1 12000]"
    by (simp_all add: leaf_opens_iff demo_utxo_def)
  have none: "demo_recovery 61298 = Inl (Recov (Sweep NothingMature))"
    by (rule mp [OF mp [OF conjunct2 [OF early]] chosen(1)]) simp
  have "\<not> isl (demo_recovery 61299)" by code_simp
  then obtain plan where p: "demo_recovery 61299 = Inr plan" by (cases "demo_recovery 61299") auto
  have "list_all2 (\<lambda>i u. previous_output i = utxo_outpoint u) (tx_input (unsigned_tx (sp_psbt plan))) [demo_utxo 1 12000]"
    using conjunct2 [OF mp [OF mp [OF spec [OF spec [OF conjunct1 [OF late]]] p] refl]] unfolding chosen(2)
    by (auto elim: list_all2_mono)
  then have "map previous_output (tx_input (unsigned_tx (sp_psbt plan))) = [OutPoint 1 0]"
    by (auto simp: list_all2_Cons2 demo_utxo_def)
  with none p show ?thesis by simp
qed

end
