(* ===== verification/Search_Properties.thy ===== *)
theory Search_Properties
  imports Demo_Lib Vanity
begin

text \<open>
  Properties of the vanity search, of the chain backends and of the phone's wallet database.
\<close>

section \<open>The vanity search\<close>

text \<open>
  C21. The 32-bit test of the vanity search is the textual one: for any suffix \<^verbatim>\<open>VanityTarget::new\<close> accepts, a
  key matches exactly if its Bech32 text starts with the suffix.
\<close>

theorem vanity_test_is_bech32:
  assumes "vanity_target_new suffix = Inr t"
  shows "vanity_matches t key = (bech32_prefix (length suffix) key = suffix)"
  using vanity_target_matches [OF assms] .

theorem vanity_test_is_bech32_witness:
  "\<exists>t. vanity_target_new VANITY_SUFFIX = Inr t
    \<and> vanity_matches t (replicate 32 0) = (bech32_prefix 5 (replicate 32 0) = ''vault'')"
proof -
  have "\<not> isl (vanity_target_new VANITY_SUFFIX)" by code_simp
  then obtain t where t: "vanity_target_new VANITY_SUFFIX = Inr t" by (cases "vanity_target_new VANITY_SUFFIX") simp_all
  have "length VANITY_SUFFIX = 5" "VANITY_SUFFIX = ''vault''" by (simp_all add: VANITY_SUFFIX_def)
  then show ?thesis using vanity_test_is_bech32 [OF t, of "replicate 32 0"] t by auto
qed

text \<open>
  C22. The search ends. Every interleaving of the worker threads has a bounded number of steps, the bound
  fixed by the number of workers; a state in which some worker still runs has a next step; and some run
  reaches the join.
\<close>

theorem vanity_search_terminates:
  assumes "(search_step trial count ^^ n) (vanity_start count) s"
  shows "n \<le> search_measure count (vanity_start count) \<and> (joined s \<or> (\<exists>s'. search_step trial count s s'))
    \<and> (\<exists>s'. (search_step trial count)\<^sup>*\<^sup>* (vanity_start count) s' \<and> joined s')"
  using search_bounded [OF assms] search_progress search_joins by fastforce

theorem vanity_search_terminates_witness:
  "(search_step (\<lambda>_. Inr False) 2 ^^ 1) (vanity_start 2) (worker_step (\<lambda>_. Inr False) 2 1 (vanity_start 2))
   \<and> \<not> joined (worker_step (\<lambda>_. Inr False) 2 1 (vanity_start 2)) \<and> 1 \<le> search_measure 2 (vanity_start 2)"
proof -
  have "running (vanity_start 2) 1" by (simp add: running_def vanity_start_def)
  then have s: "(search_step (\<lambda>_. Inr False) 2 ^^ 1) (vanity_start 2) (worker_step (\<lambda>_. Inr False) 2 1 (vanity_start 2))"
    using search_step.intros [of "vanity_start 2" 1 "\<lambda>_. Inr False" 2] by auto
  have "\<not> joined (worker_step (\<lambda>_. Inr False) 2 1 (vanity_start 2))"
    by (simp add: joined_def worker_step_def vanity_start_def set_worker_def upt_rec)
  then show ?thesis using vanity_search_terminates [OF s] s by blast
qed

text \<open>
  C23. What the search answers, whatever the scheduler did. If \<^verbatim>\<open>grind_vanity_phone_key\<close> returns keys, they are
  keys of the generated mnemonic at an unhardened index and their vault address has the wanted prefix; if it
  reports that no key matches, then no index of the whole space matches; otherwise the error is one that
  deriving a key gave.
\<close>

theorem vanity_search_result:
  assumes "vanity_setup L K serialize entropy network hww suffix = Inr (base, template, trial)"
    and "complete_scope threads trial count" and "0 < count"
    and "network = Bitcoin \<or> network = Regtest" and "bech32_addresses L serialize"
  shows "(\<exists>v prefix. grind_vanity_phone_key L K serialize entropy threads network hww suffix count = Inr v
      \<and> device_ok L K (vp_phone v) \<and> vault_key_index (vp_phone v) < 2 ^ 31
      \<and> vp_vault_address v = addr_text (vat_address L template (vault_pubkey (vp_phone v)) network)
      \<and> expected_vanity_prefix network suffix = Inr prefix \<and> starts_with (vp_vault_address v) prefix)
    \<or> (\<exists>i < 2 ^ 31. \<exists>e. trial i = Inl e \<and> grind_vanity_phone_key L K serialize entropy threads network hww suffix count = Inl e)
    \<or> grind_vanity_phone_key L K serialize entropy threads network hww suffix count = Inl (Wal (Vanity NoVanityMatch))
      \<and> {i. i < 2 ^ 31 \<and> trial i \<noteq> Inr False} = {}"
proof -
  have "{i. i < 2 ^ 31 \<and> trial i \<noteq> Inr False} = {}" if "\<forall>i < 2 ^ 31. trial i = Inr False" using that by blast
  then show ?thesis using grind_result [OF assms] by blast
qed

definition demo_serialize :: "xonly \<Rightarrow> bytes" where
  "demo_serialize k = replicate 32 (of_nat k)"

definition demo_bech_lib :: lib where
  "demo_bech_lib = demo_lib\<lparr>xonly_from_str := (\<lambda>s. Some (length s)), p2tr_tweaked := (\<lambda>k network.
     \<lparr>addr_text = (if network = Bitcoin then ''bc1p'' else ''bcrt1p'') @ bech32_prefix 6 (demo_serialize k), addr_script = []\<rparr>)\<rparr>"

theorem vanity_search_result_witness:
  "\<exists>base template trial threads. vanity_setup demo_bech_lib demo_keys demo_serialize 1 Regtest 8 ''q'' = Inr (base, template, trial)
    \<and> complete_scope threads trial 2
    \<and> ((\<exists>v. grind_vanity_phone_key demo_bech_lib demo_keys demo_serialize 1 threads Regtest 8 ''q'' 2 = Inr v
          \<and> starts_with (vp_vault_address v) ''bcrt1pq'')
      \<or> (\<exists>e. grind_vanity_phone_key demo_bech_lib demo_keys demo_serialize 1 threads Regtest 8 ''q'' 2 = Inl e))"
proof -
  have bech: "bech32_addresses demo_bech_lib demo_serialize"
    by (simp add: bech32_addresses_def demo_bech_lib_def starts_with_def)
  have "\<not> isl (vanity_setup demo_bech_lib demo_keys demo_serialize 1 Regtest 8 ''q'')" by code_simp
  then obtain base template trial
    where vs: "vanity_setup demo_bech_lib demo_keys demo_serialize 1 Regtest 8 ''q'' = Inr (base, template, trial)"
    by (cases "vanity_setup demo_bech_lib demo_keys demo_serialize 1 Regtest 8 ''q''") auto
  obtain s where "(search_step trial 2)\<^sup>*\<^sup>* (vanity_start 2) s \<and> joined s" using search_joins by blast
  then have scope: "complete_scope (\<lambda>_ _. s) trial 2" by (simp add: complete_scope_def)
  have "expected_vanity_prefix Regtest ''q'' = Inr ''bcrt1pq''" by (simp add: expected_vanity_prefix_def)
  with vanity_search_result [OF vs scope _ _ bech] vs scope show ?thesis by fastforce
qed

section \<open>Chain backends\<close>






text \<open>
  C25. Connecting. \<^verbatim>\<open>ElectrumBackend::connect\<close> returns a backend exactly if some listed server answers with
  the genesis block of the network, and the backend is then connected to such a server: a server of another
  chain is never used, and one that is down never hides a later one.
\<close>

theorem electrum_connect_finds_server:
  "(\<exists>b. electrum_connect dial genesis_hash network servers = Inr b \<and> eb_network b = network
      \<and> eb_server b \<in> set servers \<and> dial (eb_server b) = Some (eb_client b) \<and> ec_genesis (eb_client b) = Some (genesis_hash network))
   = (\<exists>s c. s \<in> set servers \<and> dial s = Some c \<and> ec_genesis c = Some (genesis_hash network))
   \<and> (\<exists>r. electrum_connect dial genesis_hash network servers = r
      \<and> isl r = (\<nexists>s c. s \<in> set servers \<and> dial s = Some c \<and> ec_genesis c = Some (genesis_hash network)))"
proof -
  let ?g = "genesis_hash network"
  have reach: "\<exists>b. electrum_connect dial genesis_hash network servers = Inr b"
    if "s \<in> set servers" "dial s = Some c" "ec_genesis c = Some ?g" for s c
    using electrum_first_reaches [of s servers dial c ?g network] that by (auto simp: electrum_connect_def)
  have found: "eb_server b \<in> set servers \<and> eb_network b = network \<and> dial (eb_server b) = Some (eb_client b)
      \<and> ec_genesis (eb_client b) = Some ?g" if "electrum_connect dial genesis_hash network servers = Inr b" for b
    using that electrum_first_Inr [of dial ?g network servers b] by (simp add: electrum_connect_def split: if_splits)
  show ?thesis
  proof (cases "electrum_connect dial genesis_hash network servers")
    case (Inl e)
    then show ?thesis using reach by fastforce
  next
    case (Inr b)
    then show ?thesis using found [OF Inr] by auto
  qed
qed

text \<open>
  C26. The clock activation trusts. The time an Electrum tip reports is the median of the headers the server
  returned: at most half of them are earlier and at most half later, so no minority of forged timestamps
  moves it outside the honest ones.
\<close>

theorem electrum_tip_is_median:
  assumes "electrum_chain_tip b = Inr tip"
  shows "\<exists>times. ec_header_times (eb_client b) (map (\<lambda>h. h mod 2 ^ 32) [ct_height tip - 10..<Suc (ct_height tip)]) = Some times
    \<and> length (filter (\<lambda>x. x < ct_median_time tip) times) \<le> length times div 2
    \<and> length (filter (\<lambda>x. ct_median_time tip < x) times) \<le> length times div 2"
proof -
  obtain height hash times where t: "ec_header_times (eb_client b) (map (\<lambda>h. h mod 2 ^ 32) [height - 10..<Suc height]) = Some times"
    and i: "index (sort times) (length times div 2) = Inr (ct_median_time tip)" and h: "ct_height tip = height"
    using assms by (auto simp: electrum_chain_tip_def Let_def simp del: upt_Suc)
  from i have "times \<noteq> []" "ct_median_time tip = sort times ! (length times div 2)"
    by (auto simp: index_def split: if_splits)
  then show ?thesis using sorted_median t h by blast
qed

definition demo_electrum :: electrum_backend where
  "demo_electrum = \<lparr>eb_client = \<lparr>ec_genesis = Some 5, ec_tip = Some (20, 99), ec_header_times = (\<lambda>hs. Some (map (\<lambda>h. 600 * h) hs)),
     ec_list_unspent = (\<lambda>_. Some []), ec_submit = (\<lambda>_ _. (True, None)), ec_transaction_get = (\<lambda>_ _. None)\<rparr>,
     eb_server = ''tcp'', eb_network = Regtest\<rparr>"

theorem electrum_tip_is_median_witness:
  "\<exists>tip times. electrum_chain_tip demo_electrum = Inr tip \<and> length (filter (\<lambda>x. x < ct_median_time tip) times) \<le> length times div 2"
proof -
  have "\<not> isl (electrum_chain_tip demo_electrum)" by code_simp
  then obtain tip where tip: "electrum_chain_tip demo_electrum = Inr tip" by (cases "electrum_chain_tip demo_electrum") simp_all
  from electrum_tip_is_median [OF tip] show ?thesis using tip by blast
qed

text \<open>
  C27. The marker that lets later synchronisations skip the full scan. Whatever fails on the way, a sync
  newly marks the wallet as discovered only when it completed a full scan with the recovery gap, a sync and
  a save; one that returns has synchronised and leaves the wallet marked; and asking for a full scan clears
  the mark.
\<close>

theorem discovery_marker_sound:
  assumes "sync_electrum W w = (r, w')"
  shows "(sync_discovered w' \<longrightarrow> sync_discovered w \<or> bdk_full_scan W w RECOVERY_STOP_GAP \<and> bdk_persist W w \<and> bdk_sync W w)
    \<and> (r = Inr () \<longrightarrow> sync_discovered w' \<and> bdk_sync W w)
    \<and> (\<forall>w'' w3. request_full_scan w'' = (Inr (), w3) \<longrightarrow> \<not> sync_discovered w3)"
  using sync_electrum_marks [OF assms] sync_electrum_completes(1,2) assms request_full_scan_unmarks by blast

definition demo_bdk :: "bool \<Rightarrow> demo_content bdk_lib" where
  \<comment> \<open>a wallet whose full scan succeeds or not\<close>
  "demo_bdk scans = \<lparr>bdk_new_db = (\<lambda>_ _ _. DBool True), bdk_load_db = (\<lambda>_ _ _ _. True), bdk_receive = (\<lambda>_. []),
     bdk_change = (\<lambda>_. []), bdk_has_utxo = (\<lambda>_ _. True), bdk_balance = (\<lambda>_. (0, 0)), bdk_finish = (\<lambda>_ _. None),
     bdk_sign = (\<lambda>_. None), bdk_extract = (\<lambda>_. None), bdk_fee = (\<lambda>_ _. None), bdk_persist = (\<lambda>_. True),
     bdk_full_scan = (\<lambda>_ _. scans), bdk_sync = (\<lambda>_. True), bdk_emit = (\<lambda>_. True)\<rparr>"

theorem discovery_marker_sound_witness:
  "\<not> sync_discovered demo_world \<and> \<not> sync_discovered (snd (sync_electrum (demo_bdk False) demo_world))
   \<and> sync_discovered (snd (sync_electrum (demo_bdk True) demo_world))"
proof -
  have start: "\<not> sync_discovered demo_world" by (simp add: demo_world_def)
  have "\<not> bdk_full_scan (demo_bdk False) demo_world RECOVERY_STOP_GAP" by (simp add: demo_bdk_def)
  moreover have "fst (sync_electrum (demo_bdk True) demo_world) = Inr ()"
    by (simp add: sync_electrum_def persist_def bindM_def readM_def returnM_def faulty_def next_fault_def demo_bdk_def
        demo_world_def)
  ultimately show ?thesis
    using start discovery_marker_sound [OF prod.collapse [symmetric], of "demo_bdk False" demo_world]
      discovery_marker_sound [OF prod.collapse [symmetric], of "demo_bdk True" demo_world] by blast
qed

end
