(* ===== verification/Demo_Run.thy ===== *)
theory Demo_Run
  imports Demo_Lib
begin

text \<open>
  The one ceremony that is evaluated: with the library of \<open>Demo_Lib\<close>, the phone proposes a
  one-month policy on a 12000 sat vault output, the hardware wallet approves it, and the phone finds
  everything in order that an activation checks (\<open>demo_check\<close>).
\<close>

definition demo_tidy :: "demo_content world \<Rightarrow> bool" where
  "demo_tidy w \<longleftrightarrow> list_all (\<lambda>(k, _). k \<noteq> [] \<and> (hd k = Normal ''b'' \<or> k \<in> set (map fst (files demo_world)))) (files w)
     \<and> list_all (\<lambda>k. k \<noteq> [] \<and> hd k = Normal ''b'') (dirs w) \<and> faults w = []"

definition demo_check :: "demo_content world \<Rightarrow> unit result" where
  "demo_check w =
     bind_result (load_config demo_codecs demo_data w) (\<lambda>config.
     bind_result (ensure_backend_network demo_chain config) (\<lambda>_.
     bind_result (load_manifest demo_codecs demo_dir w) (\<lambda>m.
     bind_result (validate_approved_batch demo_lib demo_codecs config m demo_dir w) (\<lambda>_.
     bind_result (load_device_keys demo_lib demo_keys demo_codecs demo_data PHONE_DEVICE_FILE w) (\<lambda>phone.
     bind_result (read_psbt demo_codecs (join_str demo_dir (psbt_file (rollover m))) w) (\<lambda>psbt.
     bind_result (finalize_vault_psbt demo_lib psbt) (\<lambda>tx.
     bind_result (previous_epoch demo_lib demo_codecs demo_data w) (\<lambda>previous.
     if previous = None \<and> demo_tidy w
       \<and> list_all (\<lambda>t. hd (resolve (join_str demo_dir (psbt_file t))) = Normal ''b'') (manifest_transactions m)
     then Inr () else Inl Panic))))))))"

lemma demo_run_ok: "is_ok (fst (bindM demo_build (\<lambda>_. bindM demo_approve (\<lambda>_. readM demo_check)) demo_world))"
  by code_simp

end
