(* ===== verification/Ceremony_Roundtrip.thy ===== *)
theory Ceremony_Roundtrip
  imports Ceremony_Complete
begin

text \<open>
  The proposal the phone builds is one the hardware wallet's validator accepts: the world left by
  \<open>build_policy_proposal_with_connectors\<close> holds exactly the files \<open>validate_batch\<close> reads, and every
  check of the validator succeeds on them. The stages of the builder are taken one by one; each
  leaves the files of the earlier stages alone.
\<close>

section \<open>The files of a batch are distinct\<close>

lemma batch_files_distinct:
  shows "resolve (join_str dir ''rollover.psbt'') \<noteq> resolve (join_str dir ''manifest.json'')"
    and "resolve (join_str dir ''rollover.psbt'') \<notin> emergency_keys dir"
    and "resolve (join_str dir ''manifest.json'') \<notin> emergency_keys dir"
  by (auto simp: emergency_keys_def batch_paths fixed_components)

lemma auth_key_distinct:
  assumes "s \<in> set [1..<13]"
  shows "resolve (join_str dir (authorization_file s)) \<noteq> resolve (join_str dir ''manifest.json'')"
    and "resolve (join_str dir (authorization_file s)) \<noteq> resolve (join_str dir ''rollover.psbt'')"
    and "resolve (join_str dir (authorization_file s)) \<notin> emergency_keys dir"
  using assms by (auto simp: emergency_keys_def authorization_path batch_paths fixed_components)

lemma rollover_not_auth:
  "count < 13 \<Longrightarrow> resolve (join_str dir ''rollover.psbt'') \<notin> auth_keys dir {1..count}"
  using auth_key_distinct(2) [of _ dir] by (force simp: auth_keys_def)

section \<open>The stages\<close>

definition chain_start :: "lib \<Rightarrow> transaction \<Rightarrow> nat \<Rightarrow> chain_state" where
  "chain_start L tx count =
     (if 0 < count
      then (Some (OutPoint (compute_txid L tx) 0), Some (tx_output tx ! 0),
            Some \<lparr>cs_outpoint = OutPoint (compute_txid L tx) 2, cs_value_sats = CONNECTOR_VALUE_SATS\<rparr>)
      else (None, None, None))"

lemma allowance_stage_frame:
  assumes "build_allowances L C policy controller limit delay count dir phone [0..<count] (chain_start L tx count) w
      = (Inr as, w')"
  shows "touches (auth_keys dir {1..count}) w w'"
    and "map (\<lambda>a. psbt_file (authorization a)) as = map authorization_file [1..<count + 1]"
    and "length as = count"
proof -
  have *: "touches (auth_keys dir {1..count}) w w'
    \<and> map (\<lambda>a. psbt_file (authorization a)) as = map authorization_file [1..<count + 1]"
  proof (cases "count = 0")
    case False
    then show ?thesis
      using build_allowances_frame [OF assms _ refl] by (simp add: chain_start_def)
  qed (use assms in simp)
  then show "touches (auth_keys dir {1..count}) w w'"
    and m: "map (\<lambda>a. psbt_file (authorization a)) as = map authorization_file [1..<count + 1]" by auto
  show "length as = count" using arg_cong [OF m, of length] by simp
qed

lemma allowance_stage_files:
  assumes "build_allowances L C policy controller limit delay count dir phone [0..<count] (chain_start L tx count) w
      = (Inr as, w')" and "a \<in> set as"
  shows "psbt_file (authorization a) \<in> authorization_file ` {1..count}"
proof -
  have "psbt_file (authorization a) \<in> set (map (\<lambda>a. psbt_file (authorization a)) as)" using assms(2) by simp
  then show ?thesis unfolding allowance_stage_frame(2) [OF assms(1)] by auto
qed

lemma allowance_stage_default:
  assumes "lib_laws L" and "psbt_text_ok C" and "count < 13"
    and "build_allowances L C policy controller limit delay count dir phone [0..<count] (chain_start L tx count) w
      = (Inr as, w')"
  shows "\<forall>a \<in> set as. holds_default C (join_str dir (psbt_file (authorization a))) w'"
proof (cases "count = 0")
  case False
  then show ?thesis
    using build_allowances_default [OF assms _ refl] by (simp add: chain_start_def)
qed (use assms in simp)

lemma allowance_stage_validates:
  assumes "lib_laws L" and "psbt_text_ok C" and "config_network config = Inr network"
    and "monthly_limit_sats m = limit" "allowance_count m = count" "count < 13"
    and "build_allowances L C policy controller limit delay count dir phone [0..<count] (chain_start L tx count) w
      = (Inr as, w')" and "good_supply L network w"
    and "\<And>a. a \<in> set as \<Longrightarrow> read_psbt C (join_str dir (psbt_file (authorization a))) w''
      = read_psbt C (join_str dir (psbt_file (authorization a))) w'"
    and "rollover_indexes_ok m" and "allowances m = as" and "unsigned_tx p = tx" and "tx_output tx \<noteq> []"
    and "monthly_delay_sequence L = Inr delay"
  shows "validate_allowances L C config m dir policy controller p w'' = Inr ()"
proof (cases "count = 0")
  case False
  then have "validate_allowance_steps L C config m dir policy controller delay w'' 0 as (chain_start L tx count) = Inr ()"
    using build_allowances_validates [OF assms(1-7) _ refl assms(8,9)] by (simp add: chain_start_def)
  then show ?thesis
    using False assms
    by (simp add: validate_allowances_def rollover_indexes_ok_def chain_start_def Let_def index_def numeral_2_eq_2)
qed (use assms in \<open>simp add: validate_allowances_def rollover_indexes_ok_def Let_def\<close>)

definition emergency_stage ::
  "lib \<Rightarrow> ('b, 'z) ceremony_codecs_scheme \<Rightarrow> vault_policy \<Rightarrow> controller_policy \<Rightarrow> transaction \<Rightarrow> nat \<Rightarrow> nat \<Rightarrow>
   sequence \<Rightarrow> path \<Rightarrow> device_keys \<Rightarrow> address option \<Rightarrow> ('b, emergency_access_policy option) io" where
  "emergency_stage L C policy controller tx count limit delay dir phone hot =
     (case hot of None \<Rightarrow> returnM None
      | Some a \<Rightarrow> bindM (build_emergency_access L C policy controller
           (OutPoint (compute_txid L tx) (of_bool (0 < count))) (tx_output tx ! of_bool (0 < count))
           \<lparr>cs_outpoint = OutPoint (compute_txid L tx) (of_bool (0 < count) + 1 + of_bool (0 < count)),
            cs_value_sats = CONNECTOR_VALUE_SATS\<rparr> limit delay a dir phone) (\<lambda>e. returnM (Some e)))"

lemma emergency_stage_frame:
  assumes "emergency_stage L C policy controller tx count limit delay dir phone hot w = (Inr em, w')"
  shows "touches (emergency_keys dir) w w'"
    and "em = Some e \<Longrightarrow> psbt_file (trigger e) = ''emergency/trigger.psbt''
      \<and> psbt_file (withdrawal e) = ''emergency/withdrawal.psbt''"
proof -
  show "touches (emergency_keys dir) w w'"
    using assms build_emergency_frame by (auto simp: emergency_stage_def split: option.splits)
  show "psbt_file (trigger e) = ''emergency/trigger.psbt'' \<and> psbt_file (withdrawal e) = ''emergency/withdrawal.psbt''"
    if "em = Some e"
    using assms that by (auto simp: emergency_stage_def split: option.splits dest!: build_emergency_access_Inr)
qed

lemma emergency_stage_default:
  assumes "lib_laws L" and "psbt_text_ok C"
    and "emergency_stage L C policy controller tx count limit delay dir phone hot w = (Inr em, w')" and "em = Some e"
  shows "holds_default C (join_str dir (psbt_file (trigger e))) w'
    \<and> holds_default C (join_str dir (psbt_file (withdrawal e))) w'"
  using assms(3,4) build_emergency_default [OF assms(1,2)]
  by (auto simp: emergency_stage_def split: option.splits)

lemma emergency_stage_validates:
  assumes "lib_laws L" and "psbt_text_ok C" and "config_network config = Inr network"
    and stage: "emergency_stage L C policy controller tx count limit delay dir phone hot w = (Inr em, w')"
    and hot: "hot = None \<longleftrightarrow> limit = 0" "\<And>a. hot = Some a \<Longrightarrow> address_from_str L (addr_text a) network = Some a"
    and "emergency_delay_sequence L = Inr delay"
    and m: "emergency_access_limit_sats m = limit" "emergency_access m = em" "rollover_indexes_ok m"
      "allowance_count m = count"
    and tx: "unsigned_tx p = tx" "of_bool (0 < count) < length (tx_output tx)"
      "hot \<noteq> None \<Longrightarrow> txo_value (tx_output tx ! of_bool (0 < count)) + CONNECTOR_VALUE_SATS < u64_bound"
    and "\<And>q. resolve q \<in> emergency_keys dir \<Longrightarrow> read_psbt C q w'' = read_psbt C q w'"
  shows "validate_connector_emergency L C config m dir policy controller p w'' = Inr ()"
proof (cases hot)
  case None
  then show ?thesis using stage hot(1) m by (simp add: emergency_stage_def validate_connector_emergency_def)
next
  case (Some a)
  have ix: "remainder_vout m = of_bool (0 < count)"
    "emergency_connector_vout m = Some (of_bool (0 < count) + 1 + of_bool (0 < count))" "0 < limit"
    using m hot(1) Some by (auto simp: rollover_indexes_ok_def Let_def)
  obtain e where "em = Some e" and
    "build_emergency_access L C policy controller (OutPoint (compute_txid L tx) (remainder_vout m))
       (tx_output tx ! of_bool (0 < count))
       \<lparr>cs_outpoint = OutPoint (compute_txid L tx) (of_bool (0 < count) + 1 + of_bool (0 < count)),
        cs_value_sats = CONNECTOR_VALUE_SATS\<rparr> limit delay a dir phone w = (Inr e, w')"
    using stage Some ix(1) by (auto simp: emergency_stage_def)
  from build_emergency_validates [OF assms(1,2) this(2) assms(3) hot(2) [OF Some] assms(7)] show ?thesis
    using \<open>em = Some e\<close> m ix tx Some assms(15) by simp
qed

section \<open>The rollover\<close>

lemma rollover_amounts_ok:
  assumes "lib_laws L" and "carries p tx (map utxo_txout vu @ map utxo_txout cu)"
    and "\<forall>u \<in> set vu. utxo_script u = vault_script_of policy"
    and "\<forall>u \<in> set cu. utxo_script u = controller_script_of controller"
    and "vault_input_sats m = sum_list (map utxo_value vu)" "controller_input_sats m = sum_list (map utxo_value cu)"
      "total_input_sats m = vault_input_sats m + controller_input_sats m" "total_input_sats m < u64_bound"
    and "out_value tx + fee_sats (rollover m) = total_input_sats m"
    and "policy_fee L tx policy controller [0..<length vu] [length vu..<length vu + length cu]
      = Inr (fee_sats (rollover m))"
  shows "validate_rollover_amounts L m p [0..<length vu] [length vu..<length vu + length cu] policy controller = Inr ()"
proof -
  have "output_sum tx = Inr (out_value tx)"
    using assms(8,9) by (simp add: output_sum_def checked_sum_by_eq out_value_def)
  then show ?thesis
    using rollover_sums [OF assms(2-4)] assms
    by (simp add: validate_rollover_amounts_def carries_def checked_add_def checked_sub_def)
qed

lemma rollover_out_value:
  assumes "tx_output tx = (if c then [pays A vs] else []) @ [pays R vs]
      @ (if c then [pays CONNECTOR_VALUE_SATS cs] else []) @ (if e then [pays CONNECTOR_VALUE_SATS cs] else [])"
    and "\<not> c \<longrightarrow> A = 0"
  shows "out_value tx = A + R + CONNECTOR_VALUE_SATS * (of_bool c + of_bool e)"
  using assms by (auto simp: out_value_def)

lemma sighashes_ok:
  assumes "\<And>t. t \<in> set (manifest_transactions m) \<Longrightarrow> holds_default C (join_str dir (psbt_file t)) w"
  shows "validate_manifest_sighashes C m dir w = Inr ()"
proof -
  have "try_fold (\<lambda>_ t. bind_result (read_psbt C (join_str dir (psbt_file t)) w) validate_default_sighashes) () ts = Inr ()"
    if "\<forall>t \<in> set ts. holds_default C (join_str dir (psbt_file t)) w" for ts
    using that by (induction ts) (auto simp: holds_default_def)
  from this [of "manifest_transactions m"] show ?thesis
    using assms unfolding validate_manifest_sighashes_def by blast
qed

text \<open>Everything the builder wrote is still there when the manifest has been written.\<close>

lemma batch_files_kept:
  assumes "write_psbt C (join_str dir ''rollover.psbt'') p w1 = (Inr (), w2)"
    and "touches (auth_keys dir {1..count}) w2 w3" and "touches (emergency_keys dir) w3 w4"
    and "write_json c (join_str dir ''manifest.json'') m w4 = (Inr (), w')" and "count < 13"
  shows "read_psbt C (join_str dir ''rollover.psbt'') w' = read_psbt C (join_str dir ''rollover.psbt'') w2"
    and "s \<in> {1..count} \<Longrightarrow> read_psbt C (join_str dir (authorization_file s)) w'
      = read_psbt C (join_str dir (authorization_file s)) w3"
    and "resolve q \<in> emergency_keys dir \<Longrightarrow> read_psbt C q w' = read_psbt C q w4"
proof -
  have last: "touches {resolve (join_str dir ''manifest.json'')} w4 w'"
    using touches_write_json [of "join_str dir ''manifest.json''" "{resolve (join_str dir ''manifest.json'')}" w4 c m]
      assms(4) by simp
  have kept: "read_psbt C q w' = read_psbt C q w4" if "resolve q \<noteq> resolve (join_str dir ''manifest.json'')" for q
    using touches_read_psbt [OF last, of q] that by simp
  show "read_psbt C (join_str dir ''rollover.psbt'') w' = read_psbt C (join_str dir ''rollover.psbt'') w2"
    using kept batch_files_distinct touches_read_psbt [OF assms(3)] touches_read_psbt [OF assms(2)] rollover_not_auth [OF assms(5)]
    by metis
  show "read_psbt C (join_str dir (authorization_file s)) w' = read_psbt C (join_str dir (authorization_file s)) w3"
    if "s \<in> {1..count}"
    using kept touches_read_psbt [OF assms(3)] auth_key_distinct [of s dir] that assms(5) by simp
  show "read_psbt C q w' = read_psbt C q w4" if "resolve q \<in> emergency_keys dir"
  proof (rule kept)
    show "resolve q \<noteq> resolve (join_str dir ''manifest.json'')" using that batch_files_distinct(3) [of dir] by metis
  qed
qed

lemma hot_stage:
  assumes "(if 0 < limit then bindM next_receive_address (\<lambda>a. returnM (Some a)) else returnM None) w = (Inr hot, w')"
    and "good_supply L network w"
  shows "hot = None \<longleftrightarrow> limit = (0::nat)" and "good_supply L network w'"
    and "hot = Some a \<Longrightarrow> address_from_str L (addr_text a) network = Some a"
  using assms by (auto simp: next_receive_address_def good_supply_def split: if_splits list.splits)

section \<open>The whole proposal\<close>

lemma manifest_holds_default:
  assumes "lib_laws L" "psbt_text_ok C" "count < 13" and p: "carries p tx prevouts"
    and roll: "write_psbt C (join_str dir ''rollover.psbt'') p w1 = (Inr (), w2)"
    and as: "build_allowances L C policy controller limit md count dir phone [0..<count] (chain_start L tx count) w2
      = (Inr as, w3)"
    and em: "emergency_stage L C policy controller tx count elimit ed dir phone hot w3 = (Inr em, w4)"
    and man: "write_json c (join_str dir ''manifest.json'') m' w4 = (Inr (), w')"
    and m: "psbt_file (rollover m) = ''rollover.psbt''" "allowances m = as" "emergency_access m = em"
    and t: "t \<in> set (manifest_transactions m)"
  shows "holds_default C (join_str dir (psbt_file t)) w'"
proof -
  note kept = batch_files_kept [OF roll allowance_stage_frame(1) [OF as] emergency_stage_frame(1) [OF em] man assms(3)]
  consider (roll) "t = rollover m" | (as) a where "a \<in> set as" "t = authorization a"
    | (em) e where "em = Some e" "t = trigger e \<or> t = withdrawal e"
    using t m by (cases "emergency_access m") (auto simp: manifest_transactions_def)
  then show ?thesis
  proof cases
    case roll
    then show ?thesis using holds_default_write [OF assms(2) \<open>write_psbt C _ p w1 = _\<close> p] kept(1) m(1)
      by (simp add: holds_default_def)
  next
    case as
    then have "psbt_file t \<in> authorization_file ` {1..count}"
      using allowance_stage_files [OF \<open>build_allowances _ _ _ _ _ _ _ _ _ _ _ _ = _\<close>]
      by simp
    then show ?thesis
      using allowance_stage_default [OF assms(1-3) \<open>build_allowances _ _ _ _ _ _ _ _ _ _ _ _ = _\<close>] as kept(2)
      by (force simp: holds_default_def)
  next
    case em
    then show ?thesis
      using emergency_stage_default [OF assms(1,2) \<open>emergency_stage _ _ _ _ _ _ _ _ _ _ _ _ = _\<close> em(1)] kept(3)
        emergency_stage_frame(2) [OF \<open>emergency_stage _ _ _ _ _ _ _ _ _ _ _ _ = _\<close> em(1)]
      by (auto simp: holds_default_def emergency_keys_def)
  qed
qed

lemma manifest_key_distinct:
  assumes "count < 13"
    and as: "build_allowances L C policy controller limit md count dir phone [0..<count] (chain_start L tx count) w2
      = (Inr as, w3)"
    and em: "emergency_stage L C policy controller tx count elimit ed dir phone hot w3 = (Inr em, w4)"
    and m: "psbt_file (rollover m) = ''rollover.psbt''" "allowances m = as" "emergency_access m = em"
    and t: "t \<in> set (manifest_transactions m)"
  shows "resolve (join_str dir ''manifest.json'') \<noteq> resolve (join_str dir (psbt_file t))"
proof -
  consider (roll) "t = rollover m" | (as) a where "a \<in> set as" "t = authorization a"
    | (em) e where "em = Some e" "t = trigger e \<or> t = withdrawal e"
    using t m by (cases "emergency_access m") (auto simp: manifest_transactions_def)
  then show ?thesis
  proof cases
    case roll
    then show ?thesis using batch_files_distinct(1) [of dir] m(1) by simp
  next
    case as
    then obtain s where "s \<in> {1..count}" "psbt_file t = authorization_file s"
      using allowance_stage_files [OF \<open>build_allowances _ _ _ _ _ _ _ _ _ _ _ _ = _\<close>] by blast
    then show ?thesis using auth_key_distinct(1) [of s dir] assms(1) by auto
  next
    case em
    then show ?thesis
      using emergency_stage_frame(2) [OF \<open>emergency_stage _ _ _ _ _ _ _ _ _ _ _ _ = _\<close> em(1)]
        batch_files_distinct(3) [of dir] by (auto simp: emergency_keys_def)
  qed
qed

theorem build_validates:
  assumes laws: "lib_laws L" and tok: "psbt_text_ok C" and cok: "codec_ok (manifest_codec C)"
    and net: "config_network config = Inr network" and sup: "good_supply L network w"
    and len: "length vu + length cu \<le> 2 ^ 32"
    and build: "build_policy_proposal_with_connectors L C config vu cu now limits dir phone w = (Inr m, w')"
  shows "\<exists>policy. validate_batch L C config m dir w' = Inr policy" and "load_manifest C dir w' = Inr m"
    and "\<not> hww_approved m"
    and "resolve (join_str dir ''manifest.json'') \<notin>
      (\<lambda>t. resolve (join_str dir (psbt_file t))) ` set (manifest_transactions m)"
proof -
  obtain w0 policy controller vs cs ri hot w1 ed md count A fee R tx p w2 as w3 em w4 where
    vu: "vu \<noteq> []" and w0: "create_dir_all dir w = (Inr (), w0)"
    and pol: "proposal_policies L config vu cu phone = Inr (policy, controller)"
    and ins: "proposal_inputs vu cu = Inr (vs, cs, ri)"
    and hot: "(if 0 < pl_emergency_access_limit_sats limits then bindM next_receive_address (\<lambda>a. returnM (Some a))
       else returnM None) w0 = (Inr hot, w1)"
    and am: "choose_amounts L policy controller ri limits hot = Inr (ed, md, count, A, fee, R)"
    and tx: "tx = rollover_template (ri_template ri) (if 0 < count then Some A else None) R (vault_script_of policy)
        (controller_script_of controller) (0 < count) (0 < pl_emergency_access_limit_sats limits)"
    and p: "build_rollover_psbt L policy controller ri tx (map utxo_txout vu @ map utxo_txout cu) phone = Inr p"
    and w2: "write_psbt C (join_str dir ''rollover.psbt'') p w1 = (Inr (), w2)"
    and as: "build_allowances L C policy controller (pl_monthly_limit_sats limits) md count dir phone [0..<count]
        (chain_start L tx count) w2 = (Inr as, w3)"
    and em: "emergency_stage L C policy controller tx count (pl_emergency_access_limit_sats limits) ed dir phone hot w3
        = (Inr em, w4)"
    and m: "m = proposal_manifest L config now limits controller vs cs ri (count, A, fee, R) (compute_txid L tx) as em"
    and w': "write_json (manifest_codec C) (join_str dir ''manifest.json'') m w4 = (Inr (), w')"
    using build_Inr [OF build] unfolding chain_start_def [symmetric] emergency_stage_def [symmetric]
    by (elim exE conjE) (rule that)
  note ins' = proposal_inputs_Inr [OF ins] and am' = choose_amounts_Inr [OF am]
  have pol': "vault_from_descriptor L (vc_vault_descriptor config) network = Inr policy"
    "ceremony_controller_policy L config = Inr controller"
    "\<forall>u \<in> set vu. utxo_script u = vault_script_of policy"
    "\<forall>u \<in> set cu. utxo_script u = controller_script_of controller"
    using proposal_policies_Inr [OF pol] net by auto
  have flds: "psbt_file (rollover m) = ''rollover.psbt''" "allowances m = as" "emergency_access m = em"
    "monthly_limit_sats m = pl_monthly_limit_sats limits" "allowance_count m = count"
    "emergency_access_limit_sats m = pl_emergency_access_limit_sats limits"
    "unsigned_txid (rollover m) = txid_to_string L (compute_txid L tx)" "fee_sats (rollover m) = fee"
    "allowance_value_sats m = A" "remainder_value_sats m = R" "vault_input_sats m = vs"
    "controller_input_sats m = cs" "total_input_sats m = ri_total ri"
    "vault_input_indexes (rollover m) = [0..<length vu]"
    "controller_input_indexes (rollover m) = [length vu..<length vu + length cu]"
    "bm_controller_descriptor m = controller_descriptor_string L controller"
    "bm_controller_address m = addr_text (cp_address controller)" "bm_connector_value_sats m = CONNECTOR_VALUE_SATS"
    using ins' len by (simp_all add: m proposal_manifest_def Let_def as_u32_upt)
  have lt: "count < 13" using am' by simp
  note kept = batch_files_kept [OF w2 allowance_stage_frame(1) [OF as] emergency_stage_frame(1) [OF em] w' lt]
  note man = proposal_manifest_ok [OF m _ lt _ allowance_stage_frame(3) [OF as]]
  have ix: "rollover_indexes_ok m" "validate_manifest_header config m = Inr ()" "bm_version m = 5"
    "bm_network m = vc_network config" using man am' by auto
  have car: "carries p tx (map utxo_txout vu @ map utxo_txout cu)" by (rule build_rollover_psbt_carries [OF laws p])
  have utx: "unsigned_tx p = tx" using car by (simp add: carries_def)
  have outs: "tx_output tx = (if 0 < count then [pays A (vault_script_of policy)] else []) @ [pays R (vault_script_of policy)]
      @ (if 0 < count then [pays CONNECTOR_VALUE_SATS (controller_script_of controller)] else [])
      @ (if 0 < pl_emergency_access_limit_sats limits then [pays CONNECTOR_VALUE_SATS (controller_script_of controller)] else [])"
    unfolding tx by (rule rollover_template_output)
  have fee: "policy_fee L tx policy controller (ri_vault_indexes ri) (ri_controller_indexes ri) = Inr fee"
    unfolding tx by (rule rollover_fee_actual [OF lib_lawsD(3) [OF laws]]) (use am' in blast)
  have out: "out_value tx + fee = ri_total ri"
    using rollover_out_value [OF outs] am' by simp
  show "load_manifest C dir w' = Inr m"
    using json.fetch_put [OF cok w'] by (simp add: load_manifest_def)
  show "\<not> hww_approved m" by (simp add: m proposal_manifest_def Let_def)
  show "resolve (join_str dir ''manifest.json'') \<notin>
      (\<lambda>t. resolve (join_str dir (psbt_file t))) ` set (manifest_transactions m)"
    using manifest_key_distinct [OF lt as em flds(1-3)] by auto
  have sup0: "good_supply L network w0" using sup create_dir_all_files [OF w0] by (simp add: good_supply_def)
  note hot' = hot_stage [OF hot sup0]
  have rem: "R + CONNECTOR_VALUE_SATS < u64_bound" if "hot \<noteq> None"
  proof -
    have "ri_total ri = fee + A + R + CONNECTOR_VALUE_SATS
        * (of_bool (0 < count) + of_bool (0 < pl_emergency_access_limit_sats limits))" using am' by simp
    then have "R + CONNECTOR_VALUE_SATS \<le> ri_total ri" using that hot'(1) by (simp add: algebra_simps)
    then show ?thesis using ins' by simp
  qed
  have sup2: "good_supply L network w2"
    using hot'(2) w2 write_private_supply by (fastforce simp: write_psbt_def good_supply_def)
  have "validate_manifest_sighashes C m dir w' = Inr ()"
    using sighashes_ok manifest_holds_default [OF laws tok lt car w2 as em w' flds(1-3)] by blast
  moreover have "read_psbt C (join_str dir ''rollover.psbt'') w' = Inr p"
    using kept(1) psbts.fetch_put [OF tok w2] by simp
  moreover have "rollover_mismatch L m p [0..<length vu] [length vu..<length vu + length cu] = Inr False"
    by (rule rollover_mismatch_ok [OF car _ _ vu])
      (use ins' flds outs in \<open>auto simp: tx expected_output_count_def\<close>)
  moreover have "validate_rollover_amounts L m p [0..<length vu] [length vu..<length vu + length cu] policy controller = Inr ()"
  proof (rule rollover_amounts_ok [OF laws car])
    show "policy_fee L tx policy controller [0..<length vu] [length vu..<length vu + length cu] = Inr (fee_sats (rollover m))"
      using fee ins' flds(8) by simp
  qed (use pol' ins' flds(8-13) out in simp_all)
  moreover have "validate_rollover_outputs L m tx (vault_script_of policy) (controller_script_of controller) = Inr ()"
    by (rule validate_rollover_outputs_ok [OF ix(1)]) (use outs flds am' in simp_all)
  moreover have auth_reads: "read_psbt C (join_str dir (psbt_file (authorization a))) w'
      = read_psbt C (join_str dir (psbt_file (authorization a))) w3" if "a \<in> set as" for a
    using kept(2) allowance_stage_files [OF as that] by auto
  moreover have "validate_allowances L C config m dir policy controller p w' = Inr ()"
    by (rule allowance_stage_validates [OF laws tok net flds(4,5) lt as sup2])
      (use auth_reads ix(1) flds(2) utx outs am' in simp_all)
  moreover have "validate_connector_emergency L C config m dir policy controller p w' = Inr ()"
    by (rule emergency_stage_validates [OF laws tok net em hot'(1)])
      (use hot'(3) am' rem flds(3-6) ix(1) utx outs kept(3) in simp_all)
  ultimately show "\<exists>policy. validate_batch L C config m dir w' = Inr policy"
    using ix flds utx pol' net ins' vu len
    by (simp add: validate_batch_def transaction_indexes_upt validate_input_partition_ok tx)
qed

end
