(* ===== verification/Demo_Batch.thy ===== *)
theory Demo_Batch
  imports Demo_Run Demo_Laws Ceremony_Roundtrip
begin

text \<open>
  The concrete ceremony of \<open>Demo_Run\<close> for the witnesses: what it reads and writes is derived from
  the lemmas on the operations.
\<close>

lemma demo_supply: "good_supply demo_lib Regtest demo_world"
  by (auto simp: good_supply_def demo_world_def demo_lib_def demo_address_def)

lemma demo_network: "config_network demo_config = Inr Regtest"
  by (simp add: demo_config_def config_network_def parse_network_name_def)

lemma demo_run:
  obtains m w m' w' where "demo_build demo_world = (Inr m, w)" and "demo_approve w = (Inr m', w')"
    and "demo_check w' = Inr ()"
proof -
  obtain x w' where "bindM demo_build (\<lambda>_. bindM demo_approve (\<lambda>_. readM demo_check)) demo_world = (Inr x, w')"
    using demo_run_ok
    by (cases "bindM demo_build (\<lambda>_. bindM demo_approve (\<lambda>_. readM demo_check)) demo_world")
      (auto simp: is_ok_def split: sum.splits)
  then show thesis by (elim bindM_E) (rule that, auto)
qed

lemma demo_built:
  assumes "demo_build demo_world = (Inr m, w)"
  shows "\<exists>policy. validate_batch demo_lib demo_codecs demo_config m demo_dir w = Inr policy"
    and "load_manifest demo_codecs demo_dir w = Inr m" and "\<not> hww_approved m"
    and "resolve (join_str demo_dir ''manifest.json'') \<notin>
      (\<lambda>t. resolve (join_str demo_dir (psbt_file t))) ` set (manifest_transactions m)"
  using build_validates [OF demo_laws demo_psbt_text_ok demo_codecs_ok(4) demo_network demo_supply _
      assms [unfolded demo_build_def]] by simp_all

lemma demo_approval_changes:
  assumes "demo_build demo_world = (Inr m, w)" and "demo_approve w = (Inr m', w')"
  shows "w' \<noteq> w"
proof -
  have "load_manifest demo_codecs demo_dir w' = Inr (m\<lparr>hww_approved := True\<rparr>)"
    using approve_policy_for_config_Inr [OF demo_sign_laws demo_psbt_text_ok demo_codecs_ok(4)
        assms(2) [unfolded demo_approve_def] demo_built(2,4) [OF assms(1)]] by blast
  moreover have "load_manifest demo_codecs demo_dir w = Inr m" "\<not> hww_approved m"
    using demo_built [OF assms(1)] by auto
  ultimately show ?thesis by (cases m) auto
qed

end
