(* ===== verification/Command_Line.thy ===== *)
theory Command_Line
  imports Rotation
begin

text \<open>
  \<^verbatim>\<open>src/main.rs\<close>: the command-line program that plays the phone, the hardware wallet, the recovery
  friend and the regtest node. A command is a value of \<open>command\<close>; what the machine it runs on
  provides, the library functions, the servers, the random draws, the clock and the two things standard
  input can hold, is the record \<open>machine\<close>. A command runs in the world of \<open>World\<close> and returns the
  JSON document it wrote to standard output, if it wrote one. Text printed for the user and the progress
  reports are not represented.
\<close>

section \<open>Commands\<close>

datatype emergency_command = Initiate | Withdraw | Cancel

datatype phone_command =
    PhoneInit bool \<comment> \<open>vanity\<close>
  | ReceiveAddress
  | Send string nat
  | SetPolicy nat nat path "int option" \<comment> \<open>monthly limit, emergency limit, output, now\<close>
  | ActivatePolicy path
  | Authorize nat
  | ApplySoftLimit nat nat
  | Revoke nat
  | Emergency emergency_command
  | Restore path
  | RecoverPhone string
  | CreateSweep string path
  | BroadcastSweep path
  | RotateKey bool path
  | ActivateRotation path

datatype hww_command =
    HwwInit
  | ConfirmPolicy path path bool
  | DecryptPhoneBackup path path
  | AddRecoveryFriend path bool
  | RecoverHww string
  | RevokePolicy string bool
  | ConfirmSweep path path bool
  | ConfirmRotation path path bool

datatype social_command =
    GenerateFriendKey string path path
  | DecryptBackup path path path
  | EmergencyAccess path path string

datatype node_command = NodeInfo | SetTime nat | Mine nat string

datatype command =
    Init | PolicyInfo | Status
  | Phone phone_command | Hww hww_command | SocialAction social_command | Node node_command

datatype backend_kind = RpcBackend | ElectrumServer

record chain_args =
  chain_backend :: "backend_kind option"
  rpc_url :: "string option"
  rpc_user :: string
  rpc_password :: string
  electrum_url :: "string option"

section \<open>The machine\<close>

record 'b cli_codecs = "'b hot_codecs" +
  recovery_package_codec :: "('b, phone_recovery_package) codec"
  sweep_package_codec :: "('b, 'b cooperative_sweep_package) codec"
  rotation_package_codec :: "('b, 'b phone_rotation_package) codec"
  approved_input_codec :: "('b, 'b approved_policy_input) codec"

record 'b machine =
  m_lib :: lib
  m_keys :: key_lib
  m_pgp :: "'b pgp_lib"
  m_codecs :: "'b cli_codecs"
  m_bdk :: "'b bdk_lib"
  m_serialize :: "xonly \<Rightarrow> bytes"
  m_threads :: thread_scope
  m_parallelism :: "nat option"
  m_dial :: "string \<Rightarrow> electrum_client option"
  m_genesis :: "network \<Rightarrow> nat"
  m_rpc :: "string \<Rightarrow> string \<Rightarrow> string \<Rightarrow> core_client option" \<comment> \<open>URL, user, password\<close>
  m_set_mock_time :: "nat \<Rightarrow> bool"
  m_mine :: "nat \<Rightarrow> address \<Rightarrow> bool"
  m_clock :: int
  m_timestamp_ok :: "int \<Rightarrow> bool" \<comment> \<open>\<^verbatim>\<open>chrono::DateTime::from_timestamp\<close> succeeds\<close>
  m_random :: nat
  m_entropy :: "'b entropy"
  m_new_entropy :: "'b entropy"
  m_nonces :: activation_nonces
  m_stdin :: "'b option" \<comment> \<open>the document standard input holds\<close>
  m_response :: "string option" \<comment> \<open>the line typed at a prompt\<close>

section \<open>Artifacts and approval\<close>

definition dash :: path where "dash = components ''-''"

definition read_artifact :: "'b machine \<Rightarrow> ('b, 'a) codec \<Rightarrow> path \<Rightarrow> 'b world \<Rightarrow> 'a result" where
  "read_artifact M codec p w =
     (if p = dash then bind_result (ok_or (m_stdin M) (Ext JsonError)) (\<lambda>b. ok_or (from_json codec b) (Ext JsonError))
      else read_json codec p w)"

definition write_artifact :: "('b, 'a) codec \<Rightarrow> path \<Rightarrow> 'a \<Rightarrow> ('b, 'b option) io" where
  "write_artifact codec p x =
     (if p = dash then bindM (liftM (ok_or (to_json codec x) (Ext JsonError))) (\<lambda>b. returnM (Some b))
      else bindM (write_json codec p x) (\<lambda>_. returnM None))"

definition require_hww_approval :: "'b machine \<Rightarrow> bool \<Rightarrow> path \<Rightarrow> unit result" where
  "require_hww_approval M yes input =
     (if yes then Inr ()
      else if input = dash then Inl (Cmd YesRequired)
      else bind_result (ok_or (m_response M) (Sto ReadFailed)) (\<lambda>response.
           if str_trim (m_pgp M) response \<noteq> ''approve'' then Inl (Cmd ApprovalDeclined) else Inr ()))"

definition configured_address :: "'b machine \<Rightarrow> path \<Rightarrow> string \<Rightarrow> 'b world \<Rightarrow> address result" where
  "configured_address M data_dir s w =
     bind_result (load_config (m_codecs M) data_dir w) (\<lambda>config.
     bind_result (config_network config) (\<lambda>network.
     ok_or (address_from_str (m_lib M) s network) (Lib AddressError)))"

section \<open>Networks and backends\<close>

definition configured_network :: "('b, 'z) storage_codecs_scheme \<Rightarrow> path \<Rightarrow> 'b world \<Rightarrow> network option result" where
  "configured_network C data_dir w =
     (if config_exists data_dir w
      then bind_result (load_config C data_dir w) (\<lambda>config. map_sum id Some (config_network config))
      else if path_exists w (join_str data_dir PHONE_DEVICE_FILE)
      then bind_result (load_device C data_dir PHONE_DEVICE_FILE w) (\<lambda>d. map_sum id Some (device_network d))
      else if path_exists w (join_str data_dir HWW_DEVICE_FILE)
      then bind_result (load_device C data_dir HWW_DEVICE_FILE w) (\<lambda>d. map_sum id Some (device_network d))
      else Inr None)"

definition command_network :: "('b, 'z) storage_codecs_scheme \<Rightarrow> path \<Rightarrow> bool \<Rightarrow> 'b world \<Rightarrow> network result" where
  "command_network C data_dir dangerously_enable_mainnet w =
     bind_result (configured_network C data_dir w) (\<lambda>configured.
     case configured of
       Some Bitcoin \<Rightarrow> if dangerously_enable_mainnet then Inr Bitcoin else Inl (Cmd MainnetLocked)
     | Some Regtest \<Rightarrow> if dangerously_enable_mainnet then Inl (Cmd VaultIsRegtest) else Inr Regtest
     | Some _ \<Rightarrow> Inl (Cmd UnsupportedVaultNetwork)
     | None \<Rightarrow> Inr (if dangerously_enable_mainnet then Bitcoin else Regtest))"

definition selected_backend :: "chain_args \<Rightarrow> network \<Rightarrow> backend_kind result" where
  "selected_backend args network = (case chain_backend args of
       Some kind \<Rightarrow> Inr kind
     | None \<Rightarrow> (case network of Regtest \<Rightarrow> Inr RpcBackend | Bitcoin \<Rightarrow> Inr ElectrumServer
         | _ \<Rightarrow> Inl (Cmd UnsupportedVaultNetwork)))"

definition cli_connect_core :: "'b machine \<Rightarrow> chain_args \<Rightarrow> network \<Rightarrow> core_backend result" where
  "cli_connect_core M args network =
     bind_result (case network of Regtest \<Rightarrow> Inr ''http://127.0.0.1:18443'' | Bitcoin \<Rightarrow> Inr ''http://127.0.0.1:8332''
        | _ \<Rightarrow> Inl (Cmd UnsupportedCoreNetwork)) (\<lambda>default_url.
     bind_result (ok_or (m_rpc M (case rpc_url args of Some url \<Rightarrow> url | None \<Rightarrow> default_url) (rpc_user args) (rpc_password args))
        (Wal (Backend QueryFailed))) (\<lambda>client.
     core_connect client network))"

definition cli_connect_electrum :: "'b machine \<Rightarrow> chain_args \<Rightarrow> network \<Rightarrow> electrum_backend result" where
  "cli_connect_electrum M args network = (case electrum_url args of
       Some server \<Rightarrow> electrum_connect (m_dial M) (m_genesis M) network [server]
     | None \<Rightarrow> electrum_connect_default (m_dial M) (m_genesis M) network)"

definition connect_chain :: "'b machine \<Rightarrow> chain_args \<Rightarrow> path \<Rightarrow> 'b world \<Rightarrow> blockchain result" where
  "connect_chain M args data_dir w =
     bind_result (load_config (m_codecs M) data_dir w) (\<lambda>config.
     bind_result (config_network config) (\<lambda>network.
     bind_result (selected_backend args network) (\<lambda>kind.
     case kind of
       RpcBackend \<Rightarrow> bind_result (cli_connect_core M args network) (\<lambda>b. Inr (core_blockchain (m_lib M) b))
     | ElectrumServer \<Rightarrow> bind_result (cli_connect_electrum M args network) (\<lambda>b. Inr (electrum_blockchain (m_lib M) b)))))"

definition connect_hot :: "'b machine \<Rightarrow> chain_args \<Rightarrow> path \<Rightarrow> 'b world \<Rightarrow> (blockchain \<times> ('b, unit) io) result" where
  \<comment> \<open>with the backend's \<^verbatim>\<open>sync_hot_wallet\<close>\<close>
  "connect_hot M args data_dir w =
     bind_result (load_config (m_codecs M) data_dir w) (\<lambda>config.
     bind_result (config_network config) (\<lambda>network.
     bind_result (selected_backend args network) (\<lambda>kind.
     case kind of
       RpcBackend \<Rightarrow> bind_result (cli_connect_core M args network) (\<lambda>b. Inr (core_blockchain (m_lib M) b, sync_core (m_bdk M)))
     | ElectrumServer \<Rightarrow> bind_result (cli_connect_electrum M args network) (\<lambda>b.
         Inr (electrum_blockchain (m_lib M) b, sync_electrum (m_bdk M))))))"

definition broadcast_expecting :: "error \<Rightarrow> blockchain \<Rightarrow> transaction \<Rightarrow> txid \<Rightarrow> ('b, unit) io" where
  "broadcast_expecting e B tx expected =
     bindM (broadcast B tx) (\<lambda>txid. if txid \<noteq> expected then failM e else returnM ())"

section \<open>Reports\<close>

definition format_number :: "nat \<Rightarrow> string" where
  "format_number value =
     (let digits = show_nat value; n = length digits in
      concat (map (\<lambda>i. (if 0 < i \<and> (n - i) mod 3 = 0 then '','' else []) @ [digits ! i]) [0..<n]))"

datatype recovery_status =
    RecoveryActive nat
  | RecoveryPending nat nat "int option" \<comment> \<open>height, remaining blocks, estimated time\<close>

definition recovery_activation :: "'b machine \<Rightarrow> nat \<Rightarrow> nat \<Rightarrow> nat \<Rightarrow> recovery_status" where
  \<comment> \<open>\<^verbatim>\<open>print_recovery_activation\<close>\<close>
  "recovery_activation M valid_height next_height median_time =
     (if valid_height \<le> next_height then RecoveryActive valid_height
      else
       let remaining = valid_height - next_height;
           estimated = saturating_add median_time (min (remaining * 600) (u64_bound - 1))
       in RecoveryPending valid_height remaining
            (if estimated < 2 ^ 63 \<and> m_timestamp_ok M (int estimated) then Some (int estimated) else None))"

record vault_status =
  st_network :: string
  st_height :: nat
  st_median_time :: nat
  st_utxo_count :: nat
  st_balance :: nat
  st_connector_count :: nat
  st_activations :: "(recovery_status \<times> recovery_status) option"

definition status_report :: "'b machine \<Rightarrow> chain_args \<Rightarrow> path \<Rightarrow> 'b world \<Rightarrow> vault_status result" where
  "status_report M args data_dir w =
     bind_result (load_config (m_codecs M) data_dir w) (\<lambda>config.
     bind_result (connect_chain M args data_dir w) (\<lambda>backend.
     bind_result (bc_chain_tip backend) (\<lambda>tip.
     bind_result (bc_scan_vault backend config) (\<lambda>utxos.
     bind_result (bc_scan_connectors backend config) (\<lambda>connectors.
     let balance = sum_list (map utxo_value utxos) in
     if u64_bound \<le> balance \<or> utxos \<noteq> [] \<and> u64_bound \<le>
          max (ct_height tip + 1) (confirmation_height (hd utxos) + max (phone_recovery_blocks config) (hww_recovery_blocks config))
     then Inl Panic else
     let activation = (\<lambda>oldest blocks. recovery_activation M (confirmation_height oldest + blocks) (ct_height tip + 1) (ct_median_time tip)) in
     Inr \<lparr>st_network = vc_network config, st_height = ct_height tip, st_median_time = ct_median_time tip,
       st_utxo_count = length utxos, st_balance = balance, st_connector_count = length connectors,
       st_activations = (case utxos of [] \<Rightarrow> None
         | oldest # _ \<Rightarrow> Some (activation oldest (phone_recovery_blocks config), activation oldest (hww_recovery_blocks config)))\<rparr>)))))"

text \<open>What the user reads before confirming, line by line.\<close>

definition show_sats :: "string \<Rightarrow> nat \<Rightarrow> string" where "show_sats label n = label @ '': '' @ show_nat n @ '' sats''"

definition manifest_report :: "batch_manifest \<Rightarrow> string list" where
  \<comment> \<open>\<^verbatim>\<open>print_manifest\<close>\<close>
  "manifest_report m =
     [''PHONE POLICY PROPOSAL'', ''Cold storage descriptor: '' @ bm_vault_descriptor m,
      ''Vault address: '' @ bm_vault_address m, ''Policy controller address: '' @ bm_controller_address m,
      show_sats ''Policy controller reserve'' (bm_connector_value_sats m) @ '' per active chain'']
     @ (if monthly_limit_sats m = 0 then [''Monthly spending: disabled'']
        else [show_sats ''Monthly limit'' (monthly_limit_sats m)])
     @ (if emergency_access_limit_sats m = 0 then [''Emergency access: disabled'']
        else [show_sats ''Emergency access limit'' (emergency_access_limit_sats m),
          ''Emergency access delay: '' @ show_nat EMERGENCY_ACCESS_DELAY_SECONDS @ '' seconds (~1 week)''])
     @ [''Fee rate: '' @ show_nat (fee_rate_sat_vb m) @ '' sat/vB'', show_sats ''Total input'' (total_input_sats m),
        ''Allowance steps: '' @ show_nat (allowance_count m)]
     @ (if 0 < monthly_limit_sats m
        then [''Allowance hop delay: '' @ show_nat MONTHLY_ALLOWANCE_DELAY_SECONDS @ '' seconds (~30 days)''] else [])
     @ (if allowance_count m < MONTHS_PER_ROLLOVER \<and> 0 < monthly_limit_sats m
        then [''WARNING: balance funds only '' @ show_nat (allowance_count m) @ '' of '' @ show_nat MONTHS_PER_ROLLOVER
          @ '' monthly allowances''] else [])
     @ [''Rollover txid: '' @ unsigned_txid (rollover m), show_sats ''Rollover fee'' (fee_sats (rollover m))]
     @ (if 0 < allowance_count m
        then [show_sats ''Initial allowance-chain UTXO'' (allowance_value_sats m),
          show_sats ''Rollover remainder'' (remainder_value_sats m)] else [])
     @ (case emergency_access m of None \<Rightarrow> []
        | Some e \<Rightarrow> [''Emergency trigger txid: '' @ unsigned_txid (trigger e),
            ''Emergency withdrawal txid: '' @ unsigned_txid (withdrawal e), ''Emergency hot address: '' @ em_hot_address e])
     @ [''Phone signed PSBTs: '' @ show_nat (length (manifest_transactions m))]"

definition policy_report :: "vault_config \<Rightarrow> controller_policy \<Rightarrow> schedule option \<Rightarrow> string list" where
  "policy_report config controller schedule =
     [''Cold storage descriptor: '' @ vc_vault_descriptor config, ''Vault address: '' @ vc_vault_address config,
      ''Policy controller address: '' @ addr_text (cp_address controller),
      show_sats ''Policy controller reserve'' CONNECTOR_VALUE_SATS @ '' per active chain'',
      ''Phone recovery: '' @ format_number (phone_recovery_blocks config) @ '' blocks (~14 months)'',
      ''HWW recovery:   '' @ format_number (hww_recovery_blocks config) @ '' blocks (~15 months)'']
     @ (if vc_monthly_limit_sats config = 0 then [''Monthly spending: disabled'']
        else [show_sats ''Monthly limit'' (vc_monthly_limit_sats config)]
          @ (case schedule of None \<Rightarrow> []
             | Some s \<Rightarrow> [''Presigned allowance authorizations: '' @ show_nat (length (sc_entries s)),
                 ''Allowance hop delay: '' @ show_nat (sc_monthly_delay_seconds s) @ '' seconds (~30 days)'']))
     @ (if vc_emergency_access_limit_sats config = 0 then [''Emergency access: disabled'']
        else [show_sats ''Emergency access limit'' (vc_emergency_access_limit_sats config),
          ''Emergency access delay: '' @ show_nat EMERGENCY_ACCESS_DELAY_SECONDS @ '' seconds (~1 week)''])"

definition active_policy_report :: "'b machine \<Rightarrow> path \<Rightarrow> 'b world \<Rightarrow> string list result" where
  \<comment> \<open>\<^verbatim>\<open>print_active_policy\<close>\<close>
  "active_policy_report M data_dir w =
     bind_result (load_config (m_codecs M) data_dir w) (\<lambda>config.
     bind_result (ok_or (xonly_from_str (m_lib M) (phone_vault_pubkey config)) (Lib KeyParseError)) (\<lambda>phone.
     bind_result (ok_or (xonly_from_str (m_lib M) (hww_vault_pubkey config)) (Lib KeyParseError)) (\<lambda>hww.
     bind_result (config_network config) (\<lambda>network.
     bind_result (controller_new (m_lib M) phone hww network) (\<lambda>controller.
     Inr (policy_report config controller
       (case load_schedule (m_codecs M) data_dir w of Inr s \<Rightarrow> Some s | Inl _ \<Rightarrow> None)))))))"

definition show_bool :: "bool \<Rightarrow> string" where "show_bool b = (if b then ''true'' else ''false'')"

definition sweep_report :: "'b cooperative_sweep_package \<Rightarrow> string list" where
  \<comment> \<open>\<^verbatim>\<open>report_sweep\<close>\<close>
  "sweep_report package =
     [''COOPERATIVE VAULT SWEEP'', ''Destination: '' @ sw_destination package,
      ''Inputs: '' @ show_nat (sw_input_count package), show_sats ''Sent'' (sw_sent_sats package),
      show_sats ''Fee'' (sw_fee_sats package) @ '' (1 sat/vB)'', ''Phone signed: '' @ show_bool (sw_phone_approved package)]
     @ (if sw_hww_approved package then [''HWW signed: true''] else [])"

definition rotation_report :: "'b phone_rotation_package \<Rightarrow> string list" where
  \<comment> \<open>\<^verbatim>\<open>report_rotation\<close>\<close>
  "rotation_report package =
     [''PHONE-KEY ROTATION'', ''New phone vault key: '' @ new_phone_vault_pubkey package,
      ''New cold storage descriptor: '' @ new_vault_descriptor package, ''New vault address: '' @ new_vault_address package,
      ''Inputs: '' @ show_nat (sw_input_count (rot_sweep package)), show_sats ''Sent'' (sw_sent_sats (rot_sweep package)),
      show_sats ''Fee'' (sw_fee_sats (rot_sweep package)) @ '' (1 sat/vB)'']
     @ (case renewed_policy package of
          None \<Rightarrow> [''Programmable vault policy remains disabled'']
        | Some policy \<Rightarrow> let m = pp_manifest policy in
            [show_sats ''Monthly policy preserved'' (monthly_limit_sats m),
             ''Renewed allowance steps: '' @ show_nat (allowance_count m),
             ''Renewed policy PSBTs: '' @ show_nat (length (manifest_transactions m))]
            @ (if 0 < emergency_access_limit_sats m
               then [show_sats ''Emergency access preserved'' (emergency_access_limit_sats m)] else []))"

section \<open>The phone\<close>

definition cli_initialize_vault :: "'b machine \<Rightarrow> path \<Rightarrow> network \<Rightarrow> ('b, 'b option) io" where
  "cli_initialize_vault M data_dir network =
     bindM (initialize_vault_for_network (m_lib M) (m_keys M) (m_codecs M) data_dir network) (\<lambda>config.
     bindM (create_cloud_recovery_backup (m_lib M) (m_keys M) (m_pgp M) (m_codecs M) (m_entropy M) data_dir config) (\<lambda>_.
     returnM None))"

definition phone_init :: "'b machine \<Rightarrow> path \<Rightarrow> network \<Rightarrow> bool \<Rightarrow> ('b, 'b option) io" where
  "phone_init M data_dir network vanity =
     (if vanity
      then bindM (liftM (vanity_address_prefix network)) (\<lambda>_.
           bindM (initialize_vanity (m_lib M) (m_keys M) (m_codecs M) (m_bdk M) (m_serialize M) (m_random M) (m_threads M)
                    (m_parallelism M) data_dir network) (\<lambda>_. returnM None))
      else bindM (hot_initialize (m_lib M) (m_keys M) (m_codecs M) (m_bdk M) (m_random M) data_dir network) (\<lambda>_. returnM None))"

definition phone_receive_address :: "'b machine \<Rightarrow> chain_args \<Rightarrow> path \<Rightarrow> ('b, 'b option) io" where
  "phone_receive_address M args data_dir =
     bindM (open_or_create (m_lib M) (m_keys M) (m_codecs M) (m_bdk M) data_dir) (\<lambda>_.
     bindM (readM (connect_hot M args data_dir)) (\<lambda>(_, sync).
     bindM sync (\<lambda>_.
     bindM next_receive_address (\<lambda>_. returnM None))))"

definition phone_send :: "'b machine \<Rightarrow> chain_args \<Rightarrow> path \<Rightarrow> string \<Rightarrow> nat \<Rightarrow> ('b, 'b option) io" where
  "phone_send M args data_dir destination payment_sats =
     bindM (readM (configured_address M data_dir destination)) (\<lambda>address.
     bindM (readM (connect_hot M args data_dir)) (\<lambda>(backend, sync).
     bindM (open_or_create (m_lib M) (m_keys M) (m_codecs M) (m_bdk M) data_dir) (\<lambda>_.
     bindM sync (\<lambda>_.
     bindM (build_payment (m_bdk M) (addr_script address) payment_sats) (\<lambda>(tx, _).
     bindM (broadcast backend tx) (\<lambda>_. returnM None))))))"

definition phone_set_policy ::
  "'b machine \<Rightarrow> chain_args \<Rightarrow> path \<Rightarrow> nat \<Rightarrow> nat \<Rightarrow> int option \<Rightarrow> path \<Rightarrow> ('b, 'b option) io" where
  "phone_set_policy M args data_dir monthly emergency now output =
     bindM (readM (connect_hot M args data_dir)) (\<lambda>(backend, _).
     if now \<noteq> None \<and> bc_network backend \<noteq> Regtest then failM (Cmd NowOnMainnet) else
     let timestamp = (case now of Some t \<Rightarrow> t | None \<Rightarrow> m_clock M) in
     if \<not> m_timestamp_ok M timestamp then failM (Cmd TimestampInvalid) else
     let workspace = join_str data_dir ''phone/policy-proposal'' in
     bindM (reset_workspace workspace) (\<lambda>_.
     bindM (propose_policy (m_lib M) (m_keys M) (m_codecs M) (m_bdk M) backend data_dir timestamp monthly emergency workspace) (\<lambda>_.
     bindM (readM (package_from_batch (m_codecs M) workspace)) (\<lambda>package.
     write_artifact (package_codec (m_codecs M)) output package))))"

definition phone_activate_policy :: "'b machine \<Rightarrow> chain_args \<Rightarrow> path \<Rightarrow> path \<Rightarrow> ('b, 'b option) io" where
  "phone_activate_policy M args data_dir approved =
     bindM (readM (read_artifact M (approved_input_codec (m_codecs M)) approved)) (\<lambda>input.
     bindM (readM (open_approved_policy (m_lib M) (m_keys M) (m_pgp M) (m_codecs M) data_dir input)) (\<lambda>package.
     if \<not> phone_approved (pp_manifest package) \<or> \<not> hww_approved (pp_manifest package) then failM (Cmd ApprovalsMissing) else
     let workspace = join_str data_dir ''phone/policy-activation'' in
     bindM (reset_workspace workspace) (\<lambda>_.
     bindM (materialize_policy_package (m_codecs M) package workspace) (\<lambda>_.
     bindM (readM (connect_hot M args data_dir)) (\<lambda>(backend, _).
     bindM (activate_policy (m_lib M) (m_keys M) (m_pgp M) (m_codecs M) (m_nonces M) backend data_dir workspace) (\<lambda>_.
     returnM None))))))"

definition phone_broadcast_monthly ::
  "'b machine \<Rightarrow> chain_args \<Rightarrow> path \<Rightarrow> nat \<Rightarrow> transaction_kind \<Rightarrow> ('b, 'b option) io" where
  "phone_broadcast_monthly M args data_dir step kind =
     bindM (readM (connect_hot M args data_dir)) (\<lambda>(backend, _).
     bindM (broadcast_monthly (m_lib M) (m_keys M) (m_pgp M) (m_codecs M) (m_bdk M) backend data_dir step kind) (\<lambda>_.
     returnM None))"

definition phone_apply_soft_limit :: "'b machine \<Rightarrow> chain_args \<Rightarrow> path \<Rightarrow> nat \<Rightarrow> nat \<Rightarrow> ('b, 'b option) io" where
  "phone_apply_soft_limit M args data_dir step soft =
     bindM (readM (connect_hot M args data_dir)) (\<lambda>(backend, sync).
     bindM (apply_soft_limit (m_lib M) (m_keys M) (m_codecs M) (m_bdk M) sync backend data_dir step soft) (\<lambda>_.
     returnM None))"

definition phone_emergency :: "'b machine \<Rightarrow> chain_args \<Rightarrow> path \<Rightarrow> emergency_command \<Rightarrow> ('b, 'b option) io" where
  "phone_emergency M args data_dir command =
     bindM (readM (connect_hot M args data_dir)) (\<lambda>(backend, _).
     case command of
       Initiate \<Rightarrow>
         bindM (initiate_emergency_access (m_lib M) (m_keys M) (m_pgp M) (m_codecs M) backend data_dir) (\<lambda>_.
         bindM (readM (load_schedule (m_codecs M) data_dir)) (\<lambda>s.
         bindM (liftM (ok_or (sc_emergency_access s) (Cmd EmergencyMetadataMissing))) (\<lambda>_. returnM None)))
     | Withdraw \<Rightarrow>
         bindM (withdraw_emergency_access (m_lib M) (m_keys M) (m_pgp M) (m_codecs M) backend data_dir) (\<lambda>_. returnM None)
     | Cancel \<Rightarrow>
         bindM (cancel_emergency_access (m_lib M) (m_keys M) (m_codecs M) (m_bdk M) backend data_dir) (\<lambda>_. returnM None))"

definition phone_restore :: "'b machine \<Rightarrow> path \<Rightarrow> path \<Rightarrow> ('b, 'b option) io" where
  "phone_restore M data_dir recovery =
     bindM (readM (read_artifact M (recovery_package_codec (m_codecs M)) recovery)) (\<lambda>package.
     bindM (restore_phone (m_lib M) (m_keys M) (m_codecs M) (m_bdk M) data_dir package) (\<lambda>_. returnM None))"

definition recover_with ::
  "'b machine \<Rightarrow> chain_args \<Rightarrow> path \<Rightarrow> string \<Rightarrow>
   (vault_config \<Rightarrow> vault_utxo list \<Rightarrow> nat \<Rightarrow> address \<Rightarrow> 'b world \<Rightarrow> (transaction \<times> sweep_result) result) \<Rightarrow>
   command_error \<Rightarrow> ('b, 'b option) io" where
  \<comment> \<open>the shared course of \<^verbatim>\<open>phone recover\<close> and \<^verbatim>\<open>hww recover\<close>, which differ in the message about an unexpected id\<close>
  "recover_with M args data_dir destination recover unexpected =
     bindM (readM (configured_address M data_dir destination)) (\<lambda>address.
     bindM (readM (load_config (m_codecs M) data_dir)) (\<lambda>config.
     bindM (readM (connect_chain M args data_dir)) (\<lambda>backend.
     bindM (liftM (bc_chain_tip backend)) (\<lambda>tip.
     bindM (liftM (bc_scan_vault backend config)) (\<lambda>utxos.
     bindM (readM (recover config utxos (ct_height tip) address)) (\<lambda>(tx, result).
     bindM (broadcast_expecting (Cmd unexpected) backend tx (sr_txid result)) (\<lambda>_. returnM None)))))))"

definition phone_create_sweep :: "'b machine \<Rightarrow> chain_args \<Rightarrow> path \<Rightarrow> string \<Rightarrow> path \<Rightarrow> ('b, 'b option) io" where
  "phone_create_sweep M args data_dir destination output =
     bindM (readM (configured_address M data_dir destination)) (\<lambda>address.
     bindM (readM (connect_hot M args data_dir)) (\<lambda>(backend, _).
     bindM (readM (hot_create_cooperative_sweep (m_lib M) (m_keys M) (m_codecs M) backend data_dir address)) (\<lambda>package.
     write_artifact (sweep_package_codec (m_codecs M)) output package)))"

definition phone_broadcast_sweep :: "'b machine \<Rightarrow> chain_args \<Rightarrow> path \<Rightarrow> path \<Rightarrow> ('b, 'b option) io" where
  "phone_broadcast_sweep M args data_dir approved =
     bindM (readM (read_artifact M (sweep_package_codec (m_codecs M)) approved)) (\<lambda>package.
     bindM (readM (connect_hot M args data_dir)) (\<lambda>(backend, _).
     bindM (broadcast_cooperative_sweep (m_lib M) (m_codecs M) backend data_dir package) (\<lambda>_. returnM None)))"

definition phone_rotate_key :: "'b machine \<Rightarrow> chain_args \<Rightarrow> path \<Rightarrow> network \<Rightarrow> bool \<Rightarrow> path \<Rightarrow> ('b, 'b option) io" where
  "phone_rotate_key M args data_dir network vanity output =
     bindM (readM (connect_hot M args data_dir)) (\<lambda>(backend, _).
     bindM (if vanity
            then bindM (liftM (vanity_address_prefix network)) (\<lambda>_.
                 bindM (create_vanity_phone_rotation (m_lib M) (m_keys M) (m_codecs M) (m_bdk M) (m_serialize M) (m_random M)
                          (m_threads M) (m_parallelism M) backend data_dir (m_clock M)) (\<lambda>v. returnM (vr_package v)))
            else create_phone_rotation (m_lib M) (m_keys M) (m_codecs M) (m_bdk M) backend data_dir (m_random M) (m_clock M))
       (\<lambda>package.
     write_artifact (rotation_package_codec (m_codecs M)) output package))"

definition phone_activate_rotation :: "'b machine \<Rightarrow> chain_args \<Rightarrow> path \<Rightarrow> path \<Rightarrow> ('b, 'b option) io" where
  "phone_activate_rotation M args data_dir approved =
     bindM (readM (read_artifact M (rotation_package_codec (m_codecs M)) approved)) (\<lambda>package.
     bindM (readM (connect_hot M args data_dir)) (\<lambda>(backend, sync).
     bindM (activate_phone_rotation (m_lib M) (m_keys M) (m_pgp M) (m_codecs M) (m_bdk M) sync (m_nonces M) backend data_dir package)
       (\<lambda>_. returnM None)))"

definition run_phone :: "'b machine \<Rightarrow> chain_args \<Rightarrow> path \<Rightarrow> network \<Rightarrow> phone_command \<Rightarrow> ('b, 'b option) io" where
  "run_phone M args data_dir network command = (case command of
       PhoneInit vanity \<Rightarrow> phone_init M data_dir network vanity
     | ReceiveAddress \<Rightarrow> phone_receive_address M args data_dir
     | Send destination amount \<Rightarrow> phone_send M args data_dir destination amount
     | SetPolicy monthly emergency output now \<Rightarrow> phone_set_policy M args data_dir monthly emergency now output
     | ActivatePolicy approved \<Rightarrow> phone_activate_policy M args data_dir approved
     | Authorize step \<Rightarrow> phone_broadcast_monthly M args data_dir step Authorization
     | ApplySoftLimit step soft \<Rightarrow> phone_apply_soft_limit M args data_dir step soft
     | Revoke step \<Rightarrow> phone_broadcast_monthly M args data_dir step Revocation
     | Emergency e \<Rightarrow> phone_emergency M args data_dir e
     | Restore recovery \<Rightarrow> phone_restore M data_dir recovery
     | RecoverPhone destination \<Rightarrow> recover_with M args data_dir destination (hot_recover (m_lib M) (m_keys M) (m_codecs M) data_dir) PhoneRecoveryTxid
     | CreateSweep destination output \<Rightarrow> phone_create_sweep M args data_dir destination output
     | BroadcastSweep approved \<Rightarrow> phone_broadcast_sweep M args data_dir approved
     | RotateKey vanity output \<Rightarrow> phone_rotate_key M args data_dir network vanity output
     | ActivateRotation approved \<Rightarrow> phone_activate_rotation M args data_dir approved)"

section \<open>The hardware wallet\<close>

definition hww_confirm_policy :: "'b machine \<Rightarrow> path \<Rightarrow> path \<Rightarrow> path \<Rightarrow> bool \<Rightarrow> ('b, 'b option) io" where
  "hww_confirm_policy M data_dir proposal output yes =
     bindM (readM (read_artifact M (package_codec (m_codecs M)) proposal)) (\<lambda>package.
     bindM (liftM (require_hww_approval M yes proposal)) (\<lambda>_.
     let workspace = join_str data_dir ''hww/policy-review'' in
     bindM (reset_workspace workspace) (\<lambda>_.
     bindM (materialize_policy_package (m_codecs M) package workspace) (\<lambda>_.
     bindM (approve_policy (m_lib M) (m_keys M) (m_codecs M) data_dir workspace) (\<lambda>_.
     bindM (readM (package_from_batch (m_codecs M) workspace)) (\<lambda>approved.
     write_artifact (package_codec (m_codecs M)) output approved))))))"

definition hww_decrypt_phone_backup :: "'b machine \<Rightarrow> path \<Rightarrow> path \<Rightarrow> path \<Rightarrow> ('b, 'b option) io" where
  "hww_decrypt_phone_backup M data_dir backup output =
     bindM (decrypt_phone_backup_package (m_lib M) (m_keys M) (m_pgp M) (m_codecs M) (m_entropy M) data_dir backup) (\<lambda>package.
     write_artifact (recovery_package_codec (m_codecs M)) output package)"

definition hww_add_recovery_friend :: "'b machine \<Rightarrow> path \<Rightarrow> path \<Rightarrow> bool \<Rightarrow> ('b, 'b option) io" where
  "hww_add_recovery_friend M data_dir public_key yes =
     bindM (readM (read_file public_key)) (\<lambda>key.
     bindM (liftM (friend_fingerprint (m_pgp M) key)) (\<lambda>_.
     bindM (liftM (require_hww_approval M yes public_key)) (\<lambda>_.
     bindM (add_recovery_friend (m_lib M) (m_keys M) (m_pgp M) (m_codecs M) (m_entropy M) data_dir key) (\<lambda>_.
     returnM None))))"

definition hww_revoke_policy :: "'b machine \<Rightarrow> chain_args \<Rightarrow> path \<Rightarrow> string \<Rightarrow> bool \<Rightarrow> ('b, 'b option) io" where
  "hww_revoke_policy M args data_dir destination yes =
     bindM (readM (configured_address M data_dir destination)) (\<lambda>address.
     bindM (readM (load_config (m_codecs M) data_dir)) (\<lambda>config.
     bindM (readM (connect_chain M args data_dir)) (\<lambda>backend.
     bindM (liftM (bc_scan_connectors backend config)) (\<lambda>connectors.
     if connectors = [] then failM (Cmd NoConnectors) else
     bindM (liftM (require_hww_approval M yes (components ''controller-revocation''))) (\<lambda>_.
     bindM (readM (cold_revoke_policy (m_lib M) (m_keys M) (m_codecs M) data_dir config connectors address)) (\<lambda>tx.
     bindM (broadcast_expecting (Cmd RevocationTxid) backend tx (compute_txid (m_lib M) tx)) (\<lambda>_. returnM None)))))))"

definition hww_confirm_sweep :: "'b machine \<Rightarrow> path \<Rightarrow> path \<Rightarrow> path \<Rightarrow> bool \<Rightarrow> ('b, 'b option) io" where
  "hww_confirm_sweep M data_dir proposal output yes =
     bindM (readM (read_artifact M (sweep_package_codec (m_codecs M)) proposal)) (\<lambda>package.
     bindM (liftM (require_hww_approval M yes proposal)) (\<lambda>_.
     bindM (readM (approve_cooperative_sweep (m_lib M) (m_keys M) (m_codecs M) data_dir package)) (\<lambda>approved.
     write_artifact (sweep_package_codec (m_codecs M)) output approved)))"

definition hww_confirm_rotation :: "'b machine \<Rightarrow> path \<Rightarrow> path \<Rightarrow> path \<Rightarrow> bool \<Rightarrow> ('b, 'b option) io" where
  "hww_confirm_rotation M data_dir proposal output yes =
     bindM (readM (read_artifact M (rotation_package_codec (m_codecs M)) proposal)) (\<lambda>package.
     bindM (liftM (require_hww_approval M yes proposal)) (\<lambda>_.
     bindM (approve_phone_rotation (m_lib M) (m_keys M) (m_pgp M) (m_codecs M) (m_entropy M) (m_new_entropy M) data_dir package)
       (\<lambda>approved.
     write_artifact (rotation_package_codec (m_codecs M)) output approved)))"

definition run_hww :: "'b machine \<Rightarrow> chain_args \<Rightarrow> path \<Rightarrow> network \<Rightarrow> hww_command \<Rightarrow> ('b, 'b option) io" where
  "run_hww M args data_dir network command = (case command of
       HwwInit \<Rightarrow> bindM (cold_initialize (m_lib M) (m_keys M) (m_codecs M) (m_random M) data_dir network) (\<lambda>_. returnM None)
     | ConfirmPolicy proposal output yes \<Rightarrow> hww_confirm_policy M data_dir proposal output yes
     | DecryptPhoneBackup backup output \<Rightarrow> hww_decrypt_phone_backup M data_dir backup output
     | AddRecoveryFriend public_key yes \<Rightarrow> hww_add_recovery_friend M data_dir public_key yes
     | RecoverHww destination \<Rightarrow> recover_with M args data_dir destination (cold_recover (m_lib M) (m_keys M) (m_codecs M) data_dir) HwwRecoveryTxid
     | RevokePolicy destination yes \<Rightarrow> hww_revoke_policy M args data_dir destination yes
     | ConfirmSweep proposal output yes \<Rightarrow> hww_confirm_sweep M data_dir proposal output yes
     | ConfirmRotation proposal output yes \<Rightarrow> hww_confirm_rotation M data_dir proposal output yes)"

section \<open>Recovery friends and the regtest node\<close>

definition friend_recovery_package :: "'b machine \<Rightarrow> path \<Rightarrow> path \<Rightarrow> path \<Rightarrow> 'b world \<Rightarrow> phone_recovery_package result" where
  "friend_recovery_package M data_dir backup_path private_key_path w =
     bind_result (load_config (m_codecs M) data_dir w) (\<lambda>config.
     bind_result (read_json (backup_codec (m_codecs M)) backup_path w) (\<lambda>backup.
     bind_result (read_file private_key_path w) (\<lambda>private_key.
     bind_result (decrypt_with_friend (m_pgp M) backup private_key) (\<lambda>payload.
     bind_result (validate_against (m_lib M) (m_keys M) payload config) (\<lambda>_.
     Inr \<lparr>prp_version = 2, prp_kind = ''phone-recovery'', prp_phone_mnemonic = rp_phone_mnemonic payload,
       prp_phone_vault_key_index = rp_phone_vault_key_index payload,
       prp_phone_vault_pubkey = rp_phone_vault_pubkey payload, prp_vault_descriptor = rp_vault_descriptor payload,
       prp_vault_address = rp_vault_address payload\<rparr>)))))"

definition social_emergency_access :: "'b machine \<Rightarrow> chain_args \<Rightarrow> path \<Rightarrow> path \<Rightarrow> path \<Rightarrow> string \<Rightarrow> ('b, 'b option) io" where
  "social_emergency_access M args data_dir backup private_key destination =
     bindM (readM (friend_recovery_package M data_dir backup private_key)) (\<lambda>package.
     bindM (readM (load_config (m_codecs M) data_dir)) (\<lambda>config.
     bindM (readM (configured_address M data_dir destination)) (\<lambda>address.
     bindM (readM (connect_chain M args data_dir)) (\<lambda>backend.
     bindM (liftM (bc_chain_tip backend)) (\<lambda>tip.
     bindM (liftM (bc_scan_vault backend config)) (\<lambda>utxos.
     bindM (liftM (prepare_sweep (m_lib M) config utxos (ct_height tip) SweepPhoneRecovery address)) (\<lambda>plan.
     bindM (liftM (config_network config)) (\<lambda>network.
     bindM (liftM (parse_for_network_at_index (m_lib M) (m_keys M) (prp_phone_mnemonic package) network
                     (prp_phone_vault_key_index package))) (\<lambda>phone.
     bindM (liftM (sign_recovery_sweep (m_lib M) plan SweepPhoneRecovery phone)) (\<lambda>(tx, result).
     bindM (broadcast_expecting (Cmd EmergencyAccessTxid) backend tx (sr_txid result)) (\<lambda>_. returnM None)))))))))))"

definition run_social :: "'b machine \<Rightarrow> chain_args \<Rightarrow> path \<Rightarrow> social_command \<Rightarrow> ('b, 'b option) io" where
  "run_social M args data_dir command = (case command of
       GenerateFriendKey name public_key private_key \<Rightarrow>
         if public_key = private_key then failM (Cmd SameKeyPaths) else
         bindM (liftM (generate_friend_key (m_pgp M) (m_random M) name)) (\<lambda>generated.
         bindM (write_private public_key (gf_public_key_armored generated)) (\<lambda>_.
         bindM (write_private private_key (gf_private_key_armored generated)) (\<lambda>_. returnM None)))
     | DecryptBackup backup private_key output \<Rightarrow>
         bindM (readM (friend_recovery_package M data_dir backup private_key)) (\<lambda>package.
         write_artifact (recovery_package_codec (m_codecs M)) output package)
     | EmergencyAccess backup private_key destination \<Rightarrow>
         social_emergency_access M args data_dir backup private_key destination)"

definition run_node :: "'b machine \<Rightarrow> chain_args \<Rightarrow> network \<Rightarrow> node_command \<Rightarrow> unit result" where
  "run_node M args network command =
     (if network \<noteq> Regtest then Inl (Cmd NodeOnMainnet) else
      bind_result (cli_connect_core M args Regtest) (\<lambda>rpc.
      case command of
        NodeInfo \<Rightarrow> bind_result (core_chain_info rpc) (\<lambda>_. Inr ())
      | SetTime timestamp \<Rightarrow> if m_set_mock_time M timestamp then Inr () else Inl (Ext BackendError)
      | Mine blocks address \<Rightarrow>
          bind_result (ok_or (address_from_str (m_lib M) address Regtest) (Lib AddressError)) (\<lambda>a.
          if m_mine M blocks a then Inr () else Inl (Ext BackendError))))"

section \<open>The program\<close>

definition run_command :: "'b machine \<Rightarrow> chain_args \<Rightarrow> path \<Rightarrow> network \<Rightarrow> command \<Rightarrow> ('b, 'b option) io" where
  "run_command M args data_dir network command = (case command of
       Init \<Rightarrow> cli_initialize_vault M data_dir network
     | PolicyInfo \<Rightarrow> bindM (readM (active_policy_report M data_dir)) (\<lambda>_. returnM None)
     | Status \<Rightarrow> bindM (readM (status_report M args data_dir)) (\<lambda>_. returnM None)
     | Phone c \<Rightarrow> run_phone M args data_dir network c
     | Hww c \<Rightarrow> run_hww M args data_dir network c
     | SocialAction c \<Rightarrow> run_social M args data_dir c
     | Node c \<Rightarrow> bindM (liftM (run_node M args network c)) (\<lambda>_. returnM None))"

definition run_main :: "'b machine \<Rightarrow> chain_args \<Rightarrow> path \<Rightarrow> bool \<Rightarrow> command \<Rightarrow> ('b, 'b option) io" where
  "run_main M args data_dir dangerously_enable_mainnet command =
     bindM (readM (command_network (m_codecs M) data_dir dangerously_enable_mainnet)) (\<lambda>network.
     run_command M args data_dir network command)"

end
