(* ===== verification/Demo_Cli.thy ===== *)
theory Demo_Cli
  imports Demo_Lib Command_Line
begin

text \<open>
  The machine of \<open>Demo_Lib\<close> for the command line, and two runs of \<^verbatim>\<open>hww confirm-policy\<close> on it: the
  proposal of \<open>demo_build\<close> as the phone packs it, and the same proposal packed by a dishonest phone,
  which shows another manifest and files the one to be signed among the transactions.
\<close>

definition demo_wallet :: "demo_content bdk_lib" where
  "demo_wallet = \<lparr>bdk_new_db = (\<lambda>_ _ _. DBool True), bdk_load_db = (\<lambda>_ _ _ _. True), bdk_receive = (\<lambda>_. []),
     bdk_change = (\<lambda>_. []), bdk_has_utxo = (\<lambda>_ _. True), bdk_balance = (\<lambda>_. (0, 0)), bdk_finish = (\<lambda>_ _. None),
     bdk_sign = (\<lambda>_. None), bdk_extract = (\<lambda>_. None), bdk_fee = (\<lambda>_ _. None), bdk_persist = (\<lambda>_. True),
     bdk_full_scan = (\<lambda>_ _. True), bdk_sync = (\<lambda>_. True), bdk_emit = (\<lambda>_. True)\<rparr>"

definition no_codec :: "('b, 'a) codec" where
  "no_codec = \<lparr>to_json = (\<lambda>_. None), from_json = (\<lambda>_. None)\<rparr>"

definition demo_cli_codecs :: "demo_content cli_codecs" where
  \<comment> \<open>a JSON document may end in a newline\<close>
  "demo_cli_codecs = \<lparr>config_codec = config_codec demo_codecs, device_codec = device_codec demo_codecs,
     public_device_codec = public_device_codec demo_codecs,
     manifest_codec = \<lparr>to_json = (\<lambda>x. Some (DManifest x)),
       from_json = (\<lambda>b. case b of DManifest x \<Rightarrow> Some x | DLine (DManifest x) \<Rightarrow> Some x | _ \<Rightarrow> None)\<rparr>,
     psbt_to_text = psbt_to_text demo_codecs, psbt_from_text = psbt_from_text demo_codecs,
     with_newline = with_newline demo_codecs, utf8_trim = utf8_trim demo_codecs, backup_codec = no_codec,
     blob_codec = blob_codec demo_codecs, utf8_string = utf8_string demo_codecs, schedule_codec = schedule_codec demo_codecs,
     tx_codec = tx_codec demo_codecs, bool_codec = bool_codec demo_codecs, package_codec = package_codec demo_codecs,
     enc_tx_codec = enc_tx_codec demo_codecs, enc_emergency_codec = enc_emergency_codec demo_codecs,
     recovery_package_codec = no_codec, sweep_package_codec = no_codec, rotation_package_codec = no_codec,
     approved_input_codec = no_codec\<rparr>"

definition demo_no_pgp :: "demo_content pgp_lib" where
  "demo_no_pgp = \<lparr>hkdf_expand = hkdf_expand demo_crypto, aead_seal = aead_seal demo_crypto, aead_open = aead_open demo_crypto,
     seed_bytes = DSeed, byte_length = (\<lambda>_. 32), payload_codec = no_codec, friends_codec = no_codec,
     pgp_public_from = (\<lambda>_. None), pgp_public_verify = (\<lambda>_. True), pgp_subkeys = (\<lambda>k. []), pgp_fingerprint = show_nat,
     pgp_public_armor = (\<lambda>k. None), pgp_encrypt = (\<lambda>rand k x. None), pgp_secret_from = (\<lambda>b. None),
     pgp_secret_verify = (\<lambda>_. True), pgp_secret_fingerprint = show_nat, pgp_secret_armor = (\<lambda>k. None),
     pgp_secret_public = (\<lambda>k. k), pgp_generate = (\<lambda>rand name. None), pgp_decrypt = (\<lambda>k c. None),
     base64_encode = (\<lambda>x. x), base64_decode = Some, str_trim = (\<lambda>s. s)\<rparr>"

definition demo_draws :: "demo_content entropy" where
  "demo_draws = \<lparr>en_key = DSeed 77, en_payload_nonce = 1, en_hww_nonce = 2, en_manifest_nonce = 3, en_wrap = 4\<rparr>"

definition demo_machine :: "demo_content machine" where
  "demo_machine = \<lparr>m_lib = demo_lib, m_keys = demo_keys, m_pgp = demo_no_pgp, m_codecs = demo_cli_codecs,
     m_bdk = demo_wallet, m_serialize = (\<lambda>_. []), m_threads = (\<lambda>_ _. vanity_start 1), m_parallelism = None,
     m_dial = (\<lambda>_. None), m_genesis = (\<lambda>_. 0), m_rpc = (\<lambda>_ _ _. None), m_set_mock_time = (\<lambda>_. True),
     m_mine = (\<lambda>_ _. True), m_clock = 0, m_timestamp_ok = (\<lambda>_. True), m_random = 1,
     m_entropy = demo_draws, m_new_entropy = demo_draws, m_nonces = demo_nonces, m_stdin = None,
     m_response = Some ''approve''\<rparr>"

definition demo_proposal :: path where "demo_proposal = [Normal ''p'']"

definition dishonest :: "demo_content policy_package \<Rightarrow> demo_content policy_package" where
  \<comment> \<open>shows a monthly limit of 1 sat; the manifest to be signed is one more \<^verbatim>\<open>PSBT\<close>\<close>
  "dishonest package =
     (let m = pp_manifest package; a = hd (allowances m);
          decoy = a\<lparr>authorization := (authorization a)\<lparr>psbt_file := ''manifest.json''\<rparr>\<rparr>
      in package\<lparr>pp_manifest := m\<lparr>monthly_limit_sats := 1, allowances := allowances m @ [decoy]\<rparr>,
           pp_psbts := btree_insert ''manifest.json'' (DManifest m) (pp_psbts package)\<rparr>)"

definition demo_review :: path where "demo_review = join_str demo_data ''hww/policy-review''"

definition demo_offer :: "(demo_content policy_package \<Rightarrow> demo_content policy_package) \<Rightarrow> (demo_content, demo_content policy_package) io" where
  "demo_offer pack =
     bindM demo_build (\<lambda>_.
     bindM (readM (package_from_batch demo_cli_codecs demo_dir)) (\<lambda>package.
     if \<not> distinct (map (\<lambda>n. resolve (join_str demo_review n)) (''manifest.json'' # map fst (pp_psbts package)))
     then failM Panic else
     bindM (write_json (package_codec demo_cli_codecs) demo_proposal (pack package)) (\<lambda>_.
     returnM (pack package))))"

definition demo_signed :: "nat \<Rightarrow> demo_content option \<Rightarrow> unit result" where
  \<comment> \<open>an approved policy with this monthly limit was written to standard output\<close>
  "demo_signed limit out = (case out of
       Some (DPackage _ _ m _) \<Rightarrow> if hww_approved m \<and> monthly_limit_sats m = limit then Inr () else Inl Panic
     | _ \<Rightarrow> Inl Panic)"

end
