(* ===== verification/Activation_Live.thy ===== *)
theory Activation_Live
  imports Activation "HOL-Library.Sublist"
begin

text \<open>
  Activations complete. On a disk with room for the files of an epoch, with libraries that encode
  and seal and a backend that takes the rollover, an activation of an approved batch returns its
  schedule; and an activation that was cut short anywhere, by any failed write or lost answer, can be
  run again to completion.
\<close>

section \<open>Room on the disk\<close>

definition flat_keys :: "path set \<Rightarrow> bool" where
  \<comment> \<open>no key is a directory above another\<close>
  "flat_keys K \<longleftrightarrow> (\<forall>k \<in> K. \<forall>k' \<in> K. k \<notin> set (ancestors (resolve (butlast k'))))"

definition room :: "path set \<Rightarrow> 'b world \<Rightarrow> bool" where
  \<comment> \<open>no directory stands where a file goes, and no file where its directories go\<close>
  "room K w \<longleftrightarrow> (\<forall>k \<in> K. k \<notin> set (dirs w)
     \<and> (\<forall>q \<in> set (ancestors (resolve (butlast k))). map_of (files w) q = None))"

interpretation room_frame: effect_frame "\<lambda>w w'. room K w \<longrightarrow> room K w'" for K
  by unfold_locales auto

lemma room_faults [simp]: "room K (w\<lparr>faults := fs\<rparr>) = room K w"
  by (simp add: room_def)

lemma room_next_fault: "next_fault w = (f, w1) \<Longrightarrow> room K w1 = room K w"
  using next_fault_frame [of w f w1] by (simp add: room_def)

lemma room_faulty:
  assumes "\<And>w. room K w \<Longrightarrow> room K (change w)" and "room K w"
  shows "room K (snd (faulty e change w))"
proof -
  obtain f w1 where n: "next_fault w = (f, w1)" by (cases "next_fault w")
  then have "room K w1" using room_next_fault assms(2) by blast
  then show ?thesis using n assms(1) by (cases f) (simp_all add: faulty_def)
qed

lemma room_add_dirs:
  assumes "flat_keys K" and "k \<in> K" and "room K w"
  shows "room K (w\<lparr>dirs := List.union (dirs w) (ancestors (resolve (butlast k)))\<rparr>)"
  using assms by (auto simp: room_def flat_keys_def)

lemma room_add_file:
  assumes "flat_keys K" and "k \<in> K" and "room K w"
  shows "room K (w\<lparr>files := AList.update k b (files w)\<rparr>)"
  using assms by (auto simp: room_def flat_keys_def update_conv)

lemma room_write_private:
  assumes "flat_keys K" and "resolve p \<in> K"
  shows "room K w \<longrightarrow> room K (snd (write_private p b w))"
  unfolding write_private_def
proof (rule room_frame.frame_bindM)
  show "room K w \<longrightarrow> room K (snd (create_dir_all (butlast (resolve p)) w))"
    using room_add_dirs [OF assms] by (auto simp: create_dir_all_def intro!: room_faulty)
  show "room K w1 \<longrightarrow> room K (snd (put_file p b w1))" for w1
    using room_add_file [OF assms] by (auto simp: put_file_def intro!: room_faulty)
qed

lemma room_write_json: "flat_keys K \<Longrightarrow> resolve p \<in> K \<Longrightarrow> room K w \<longrightarrow> room K (snd (write_json c p x w))"
  unfolding write_json_def
  by (intro room_frame.frame_bindM room_write_private room_frame.frame_pure(3)) (auto simp: room_frame.frame_pure)

section \<open>Computations that complete\<close>

definition completes :: "('b world \<Rightarrow> bool) \<Rightarrow> ('b, 'a) io \<Rightarrow> ('b world \<Rightarrow> bool) \<Rightarrow> bool" where
  "completes P m Q \<longleftrightarrow> (\<forall>w. P w \<longrightarrow> (\<exists>x w'. m w = (Inr x, w') \<and> Q w'))"

named_theorems completing \<open>computations that complete\<close>

lemma completes_bindM:
  "completes P m Q \<Longrightarrow> (\<And>x. completes Q (f x) R) \<Longrightarrow> completes P (bindM m f) R"
  unfolding completes_def bindM_Inr_iff by blast

lemma completes_then [completing]:
  "completes P m P \<Longrightarrow> (\<And>x. completes P (f x) R) \<Longrightarrow> completes P (bindM m f) R"
  by (rule completes_bindM)

lemma completes_returnM [completing]: "completes P (returnM x) P"
  by (simp add: completes_def)

lemma completes_liftM [completing]: "\<exists>x. r = Inr x \<Longrightarrow> completes P (liftM r) P"
  by (auto simp: completes_def)

lemma completes_readM [completing]: "(\<And>w. P w \<Longrightarrow> \<exists>x. g w = Inr x) \<Longrightarrow> completes P (readM g) P"
  by (auto simp: completes_def)

lemma completes_contextM [completing]: "completes P m Q \<Longrightarrow> completes P (contextM e m) Q"
  by (auto simp: completes_def)

definition disk :: "path set \<Rightarrow> path set \<Rightarrow> 'b world \<Rightarrow> transaction list \<Rightarrow> 'b world \<Rightarrow> bool" where
  \<comment> \<open>a disk without faults that has room for \<open>K\<close> and agrees with \<open>v\<close> outside \<open>T\<close>\<close>
  "disk K T v ts w \<longleftrightarrow> room K w \<and> faults w = [] \<and> accepted w = ts
     \<and> (\<forall>k. k \<notin> T \<longrightarrow> map_of (files w) k = map_of (files v) k)"

lemma disk_file_at: "disk K T v ts w \<Longrightarrow> resolve p \<notin> T \<Longrightarrow> file_at w p = file_at v p"
  by (simp add: disk_def file_at_def)

lemma disk_json: "disk K T v ts w \<Longrightarrow> resolve p \<notin> T \<Longrightarrow> read_json c p w = read_json c p v"
  by (simp add: read_json_def read_file_def disk_file_at)

lemma disk_psbt: "disk K T v ts w \<Longrightarrow> resolve p \<notin> T \<Longrightarrow> read_psbt c p w = read_psbt c p v"
  by (simp add: read_psbt_def read_file_def disk_file_at)

lemma write_private_completes:
  assumes "flat_keys K" and "resolve p \<in> K" and "resolve p \<in> T"
  shows "completes (disk K T v ts) (write_private p b) (disk K T v ts)"
  unfolding completes_def
proof (intro allI impI)
  fix w assume d: "disk K T v ts w"
  define w1 where "w1 = w\<lparr>dirs := List.union (dirs w) (ancestors (resolve (butlast (resolve p))))\<rparr>"
  have r: "room K w" and f: "faults w = []" using d by (simp_all add: disk_def)
  have "create_dir_all (butlast (resolve p)) w = (Inr (), w1)"
    using r assms(2) f by (auto simp: create_dir_all_def faulty_def next_fault_def w1_def room_def)
  moreover have "room K w1" unfolding w1_def by (rule room_add_dirs [OF assms(1,2) r])
  moreover have "put_file p b w1 = (Inr (), w1\<lparr>files := AList.update (resolve p) b (files w1)\<rparr>)"
    using \<open>room K w1\<close> assms(2) f by (simp add: put_file_def faulty_def next_fault_def w1_def room_def)
  ultimately have "write_private p b w = (Inr (), w1\<lparr>files := AList.update (resolve p) b (files w1)\<rparr>)"
    by (simp add: write_private_def bindM_def)
  moreover have "disk K T v ts (w1\<lparr>files := AList.update (resolve p) b (files w1)\<rparr>)"
    using d assms room_add_file [OF assms(1,2) \<open>room K w1\<close>] by (auto simp: disk_def w1_def update_conv)
  ultimately show "\<exists>x w'. write_private p b w = (Inr x, w') \<and> disk K T v ts w'" by blast
qed

lemma write_json_completes [completing]:
  assumes "flat_keys K" and "resolve p \<in> K" and "resolve p \<in> T" and "to_json c x \<noteq> None"
  shows "completes (disk K T v ts) (write_json c p x) (disk K T v ts)"
  unfolding write_json_def using assms
  by (intro completes_then completes_liftM write_private_completes) (auto simp: ok_or_def)

section \<open>Staging\<close>

definition phone_keys :: "lib \<Rightarrow> path \<Rightarrow> path set" where
  \<comment> \<open>the files an activation writes, of whatever epoch\<close>
  "phone_keys L data_dir = (\<Union>t. epoch_keys L data_dir t) \<union> {schedule_key data_dir}"

definition activation_keys :: "lib \<Rightarrow> path \<Rightarrow> path set" where
  "activation_keys L data_dir = phone_keys L data_dir \<union> config_keys data_dir"

lemma flat_activation_keys: "flat_keys (activation_keys L data_dir)"
proof -
  let ?r = "resolve data_dir"
  have n: "resolve (?r @ ns) = ?r @ ns" if "\<forall>c \<in> set ns. is_normal c" for ns
    using resolve_append_normal [OF that, of ?r] by simp
  have k: "\<exists>ns c. k = ?r @ ns @ [c] \<and> (\<forall>c \<in> set ns. is_normal c) \<and> (ns = [] \<and> c \<noteq> Normal ''phone''
      \<or> ns = [Normal ''phone''] \<and> c \<noteq> Normal ''transactions''
      \<or> (\<exists>t. ns = [Normal ''phone'', Normal ''transactions'', Normal t]))"
    if "k \<in> activation_keys L data_dir" for k
    using that by (auto simp: activation_keys_def phone_keys_def epoch_keys_def epoch_root_def schedule_key_eq config_key_eq
        is_normal_def)
  have "k \<notin> set (ancestors (resolve (butlast k')))"
    if in1: "k \<in> activation_keys L data_dir" and in2: "k' \<in> activation_keys L data_dir" for k k'
  proof
    obtain ns c where 1: "k = ?r @ ns @ [c]" "ns = [] \<and> c \<noteq> Normal ''phone''
      \<or> ns = [Normal ''phone''] \<and> c \<noteq> Normal ''transactions'' \<or> (\<exists>t. ns = [Normal ''phone'', Normal ''transactions'', Normal t])"
      using k [OF in1] by blast
    obtain ms d where 2: "k' = ?r @ ms @ [d]" "\<forall>c \<in> set ms. is_normal c" "ms = [] \<and> d \<noteq> Normal ''phone''
      \<or> ms = [Normal ''phone''] \<and> d \<noteq> Normal ''transactions'' \<or> (\<exists>t. ms = [Normal ''phone'', Normal ''transactions'', Normal t])"
      using k [OF in2] by blast
    assume "k \<in> set (ancestors (resolve (butlast k')))"
    then obtain j where "k = take j (?r @ ms)" using n [OF 2(2)] by (auto simp: 2(1) ancestors_def butlast_append)
    then have "prefix k (?r @ ms)" by (simp only: take_is_prefix)
    then have "prefix (ns @ [c]) ms" unfolding 1(1) by simp
    then show False using 1(2) 2(3) by (auto simp: prefix_Cons)
  qed
  then show ?thesis unfolding flat_keys_def by blast
qed

definition encodes :: "('b, 'y) crypto_lib_scheme \<Rightarrow> ('b, 'z) hot_codecs_scheme \<Rightarrow> bool" where
  \<comment> \<open>serialising and sealing do not fail\<close>
  "encodes Y C \<longleftrightarrow> (\<forall>x. to_json (enc_tx_codec C) x \<noteq> None) \<and> (\<forall>x. to_json (enc_emergency_codec C) x \<noteq> None)
     \<and> (\<forall>x. to_json (schedule_codec C) x \<noteq> None) \<and> (\<forall>x. to_json (tx_codec C) x \<noteq> None)
     \<and> (\<forall>x. to_json (bool_codec C) x \<noteq> None) \<and> (\<forall>x. to_json (blob_codec C) x \<noteq> None)
     \<and> (\<forall>x. to_json (package_codec C) x \<noteq> None) \<and> (\<forall>x. to_json (config_codec C) x \<noteq> None)
     \<and> (\<forall>salt seed info. hkdf_expand Y salt seed info \<noteq> None) \<and> (\<forall>k n b. aead_seal Y k n b \<noteq> None)"

lemma encodesD:
  assumes "encodes Y C"
  shows "to_json (enc_tx_codec C) x1 \<noteq> None" "to_json (enc_emergency_codec C) x2 \<noteq> None"
    "to_json (schedule_codec C) x3 \<noteq> None" "to_json (tx_codec C) x4 \<noteq> None" "to_json (bool_codec C) x5 \<noteq> None"
    "to_json (blob_codec C) x6 \<noteq> None" "to_json (config_codec C) x7 \<noteq> None"
    "\<exists>b. ok_or (to_json (package_codec C) x8) e = Inr b" "\<exists>blob. encrypt Y nonce seed purpose plain = Inr blob"
proof -
  obtain k where k: "hkdf_expand Y ''renewable-bitcoin-vault/mvp/v1'' seed purpose = Some k"
    using assms unfolding encodes_def by (metis option.exhaust)
  moreover obtain c where "aead_seal Y k nonce plain = Some c" using assms unfolding encodes_def by (metis option.exhaust)
  ultimately show "\<exists>blob. encrypt Y nonce seed purpose plain = Inr blob" by (simp add: encrypt_def derive_key_def)
  have "to_json (package_codec C) x8 \<noteq> None" using assms unfolding encodes_def by blast
  then show "\<exists>b. ok_or (to_json (package_codec C) x8) e = Inr b" by auto
qed (use assms in \<open>unfold encodes_def, blast\<close>)+

lemma relative_to_epoch:
  assumes "lib_txid_text L"
  shows "\<exists>rel. relative_to data_dir (encrypted_transaction_path (epoch_path L data_dir t) step kind) = Inr rel"
    and "\<exists>rel. relative_to data_dir (emergency_transaction_path L (epoch_path L data_dir t) ekind u) = Inr rel"
proof -
  have "\<exists>rel. relative_to data_dir (join_str (epoch_path L data_dir t) n) = Inr rel" if "plain_name n" for n
    using assms that by (simp add: relative_to_def epoch_path_eq join_safe plain_safe components_plain)
  then show "\<exists>rel. relative_to data_dir (encrypted_transaction_path (epoch_path L data_dir t) step kind) = Inr rel"
    "\<exists>rel. relative_to data_dir (emergency_transaction_path L (epoch_path L data_dir t) ekind u) = Inr rel"
    unfolding encrypted_transaction_path_def emergency_transaction_path_def
    using plain_artifacts(5) plain_artifacts(6) [OF assms] by blast+
qed

lemma phone_keys_epoch: "k \<in> epoch_keys L data_dir t \<Longrightarrow> k \<in> phone_keys L data_dir"
  "k \<in> phone_keys L data_dir \<Longrightarrow> k \<in> activation_keys L data_dir" "schedule_key data_dir \<in> phone_keys L data_dir"
  by (auto simp: phone_keys_def activation_keys_def)

abbreviation phone_disk where
  "phone_disk L data_dir \<equiv> disk (activation_keys L data_dir) (phone_keys L data_dir)"

lemma write_epoch_completes:
  assumes "resolve p \<in> phone_keys L data_dir" and "to_json c x \<noteq> None"
  shows "completes (phone_disk L data_dir v ts) (write_json c p x) (phone_disk L data_dir v ts)"
  using assms by (intro write_json_completes flat_activation_keys) (auto intro: phone_keys_epoch)

lemma psbt_on_disk:
  assumes "read_psbt C p v = Inr psbt" and "resolve p \<notin> phone_keys L data_dir"
  shows "phone_disk L data_dir v ts w \<Longrightarrow> \<exists>x. read_psbt C p w = Inr x"
  using assms by (simp add: disk_psbt)

lemma write_encrypted_completes:
  assumes "lib_txid_text L" and "encodes Y C"
  shows "completes (phone_disk L data_dir v ts) (write_encrypted_transaction L Y C nonce
      (encrypted_transaction_path (epoch_path L data_dir t) step kind) seed step kind psbt) (phone_disk L data_dir v ts)"
    and "completes (phone_disk L data_dir v ts) (write_encrypted_emergency_transaction L Y C nonce
      (emergency_transaction_path L (epoch_path L data_dir t) ekind u) seed ekind psbt) (phone_disk L data_dir v ts)"
proof -
  note k = phone_keys_epoch(1) [OF encrypted_transaction_path_key [OF assms(1)]]
    phone_keys_epoch(1) [OF emergency_transaction_path_key [OF assms(1)]]
  show "completes (phone_disk L data_dir v ts) (write_encrypted_transaction L Y C nonce
      (encrypted_transaction_path (epoch_path L data_dir t) step kind) seed step kind psbt) (phone_disk L data_dir v ts)"
    unfolding write_encrypted_transaction_def Let_def
    by (intro completes_then completes_liftM encodesD [OF assms(2)] write_epoch_completes k)
  show "completes (phone_disk L data_dir v ts) (write_encrypted_emergency_transaction L Y C nonce
      (emergency_transaction_path L (epoch_path L data_dir t) ekind u) seed ekind psbt) (phone_disk L data_dir v ts)"
    unfolding write_encrypted_emergency_transaction_def Let_def
    by (intro completes_then completes_liftM encodesD [OF assms(2)] write_epoch_completes k)
qed

definition batch_reads ::
  "('b, 'z) hot_codecs_scheme \<Rightarrow> path \<Rightarrow> path set \<Rightarrow> batch_manifest \<Rightarrow> 'b world \<Rightarrow> bool" where
  \<comment> \<open>the batch is on the disk, and not among the files the activation writes\<close>
  "batch_reads C batch_dir T m w \<longleftrightarrow> load_manifest C batch_dir w = Inr m
     \<and> (\<forall>t \<in> set (manifest_transactions m). \<exists>psbt. read_psbt C (join_str batch_dir (psbt_file t)) w = Inr psbt)
     \<and> resolve (join_str batch_dir ''manifest.json'') \<notin> T
     \<and> (\<forall>t \<in> set (manifest_transactions m). resolve (join_str batch_dir (psbt_file t)) \<notin> T)"

lemma batch_read_on_disk:
  assumes "batch_reads C batch_dir (phone_keys L data_dir) m v" and "t \<in> set (manifest_transactions m)"
    and "phone_disk L data_dir v ts w"
  shows "\<exists>psbt. read_psbt C (join_str batch_dir (psbt_file t)) w = Inr psbt"
  using assms psbt_on_disk unfolding batch_reads_def by metis

lemma package_on_disk:
  assumes "batch_reads C batch_dir (phone_keys L data_dir) m v" and "phone_disk L data_dir v ts w"
  shows "\<exists>package. package_from_batch C batch_dir w = Inr package"
proof -
  have m: "load_manifest C batch_dir w = Inr m"
    using assms by (simp add: batch_reads_def load_manifest_def disk_json)
  have "\<exists>psbts. try_fold (\<lambda>psbts t. bind_result (read_file (join_str batch_dir (psbt_file t)) w) (\<lambda>b.
      bind_result (ok_or (utf8_trim C b) (Sto ReadFailed)) (\<lambda>text. Inr (btree_insert (psbt_file t) text psbts)))) acc us = Inr psbts"
    if "set us \<subseteq> set (manifest_transactions m)" for us acc
    using that
  proof (induction us arbitrary: acc)
    case (Cons t us)
    obtain psbt where "read_psbt C (join_str batch_dir (psbt_file t)) w = Inr psbt"
      using batch_read_on_disk [OF assms(1) _ assms(2), of t] Cons.prems by auto
    then show ?case using Cons by (auto simp: read_psbt_def)
  qed simp
  from this [OF order_refl] show ?thesis using m by (auto simp: package_from_batch_def collect_psbts_def)
qed

lemma stage_allowances_complete:
  assumes "lib_txid_text L" and "encodes Y C" and "batch_reads C batch_dir (phone_keys L data_dir) m v"
    and "authorization ` set as \<subseteq> set (manifest_transactions m)"
  shows "completes (phone_disk L data_dir v ts)
    (stage_allowances L Y C nonces data_dir batch_dir (epoch_path L data_dir t) seed as) (phone_disk L data_dir v ts)"
  using assms(4)
proof (induction "as")
  case (Cons a as)
  have "completes (phone_disk L data_dir v ts)
      (stage_allowance L Y C nonce data_dir batch_dir (epoch_path L data_dir t) seed a) (phone_disk L data_dir v ts)" for nonce
    unfolding stage_allowance_def Let_def
    by (intro completes_then completes_readM completes_liftM completes_returnM write_encrypted_completes [OF assms(1,2)]
        relative_to_epoch [OF assms(1)] batch_read_on_disk [OF assms(3)]) (use Cons.prems in auto)
  then show ?case using Cons by (simp add: completes_then completes_returnM)
qed (simp add: completes_returnM)

lemma stage_emergency_completes:
  assumes "lib_txid_text L" and "encodes Y C" and "batch_reads C batch_dir (phone_keys L data_dir) m v"
    and "emergency_access m = Some e"
  shows "completes (phone_disk L data_dir v ts)
    (stage_emergency L Y C nonces data_dir batch_dir (epoch_path L data_dir t) seed e) (phone_disk L data_dir v ts)"
  unfolding stage_emergency_def Let_def
  by (intro completes_then completes_readM completes_liftM completes_returnM write_encrypted_completes [OF assms(1,2)]
      relative_to_epoch [OF assms(1)] batch_read_on_disk [OF assms(3)]) (use assms(4) in \<open>auto simp: manifest_transactions_def\<close>)

lemma stage_epoch_completes:
  assumes "lib_txid_text L" and "encodes Y C" and "batch_reads C batch_dir (phone_keys L data_dir) m v"
  shows "completes (phone_disk L data_dir v ts) (stage_epoch L Y C nonces data_dir batch_dir seed m tx)
    (phone_disk L data_dir v ts)"
proof -
  note k = phone_keys_epoch(1) [OF epoch_file_key [OF assms(1)]] plain_artifacts
  have "completes (phone_disk L data_dir v ts) (case emergency_access m of None \<Rightarrow> returnM None
      | Some e \<Rightarrow> bindM (stage_emergency L Y C ns data_dir batch_dir (epoch_path L data_dir t) seed e) (\<lambda>x. returnM (Some x)))
      (phone_disk L data_dir v ts)" for ns t
    by (cases "emergency_access m")
      (simp_all add: completes_then completes_returnM stage_emergency_completes [OF assms])
  moreover have "authorization ` set (allowances m) \<subseteq> set (manifest_transactions m)" by (auto simp: manifest_transactions_def)
  ultimately show ?thesis
    unfolding stage_epoch_def Let_def
    by (intro completes_then completes_readM completes_liftM completes_returnM encodesD [OF assms(2)] write_epoch_completes k
        package_on_disk [OF assms(3)] stage_allowances_complete [OF assms])
qed

section \<open>Switching\<close>

abbreviation state_disk where
  "state_disk L data_dir \<equiv> disk (activation_keys L data_dir) (activation_keys L data_dir)"

lemma phone_state_disk: "phone_disk L data_dir v ts w \<Longrightarrow> state_disk L data_dir v ts w"
  using phone_keys_epoch(2) by (force simp: disk_def)

lemma write_state_completes:
  assumes "resolve p \<in> activation_keys L data_dir" and "to_json c x \<noteq> None"
  shows "completes (state_disk L data_dir v ts) (write_json c p x) (state_disk L data_dir v ts)"
  using assms by (intro write_json_completes flat_activation_keys)

lemma config_same:
  assumes "room (activation_keys L data_dir) v" and "room (activation_keys L data_dir) w"
    and "\<And>k. k \<notin> phone_keys L data_dir \<Longrightarrow> map_of (files w) k = map_of (files v) k"
  shows "config_path data_dir w = config_path data_dir v" and "load_config C data_dir w = load_config C data_dir v"
proof -
  have k: "resolve (join_str data_dir CONFIG_FILE) \<in> config_keys data_dir"
    "resolve (join_str data_dir LEGACY_CONFIG_FILE) \<in> config_keys data_dir" by (simp_all add: config_keys_def)
  have f: "resolve p \<notin> phone_keys L data_dir \<and> resolve p \<in> activation_keys L data_dir"
    if "resolve p \<in> config_keys data_dir" for p
    using that epoch_key_other(2,3) by (auto simp: phone_keys_def activation_keys_def)
  have e: "file_at w p = file_at v p \<and> path_exists w p = path_exists v p" if "resolve p \<in> config_keys data_dir" for p
    using f [OF that] assms by (auto simp: path_exists_def file_at_def room_def)
  show p: "config_path data_dir w = config_path data_dir v"
    using k by (simp add: config_path_def Let_def e)
  have "resolve (config_path data_dir v) \<in> config_keys data_dir" using k by (simp add: config_path_def Let_def)
  then show "load_config C data_dir w = load_config C data_dir v"
    using e by (simp add: load_config_def p read_json_def read_file_def)
qed

lemma config_on_disk:
  assumes "room (activation_keys L data_dir) v" and "phone_disk L data_dir v ts w"
  shows "config_path data_dir w = config_path data_dir v" and "load_config C data_dir w = load_config C data_dir v"
  using config_same [OF assms(1), of w] assms(2) by (simp_all add: disk_def)

lemma set_policy_limits_completes:
  assumes "encodes Y C" and "room (activation_keys L data_dir) v" and "load_config C data_dir v = Inr config"
  shows "completes (phone_disk L data_dir v ts) (set_policy_limits C data_dir a b) (state_disk L data_dir v ts)"
  unfolding completes_def
proof (intro allI impI)
  fix w assume d: "phone_disk L data_dir v ts w"
  have "resolve (config_path data_dir w) \<in> activation_keys L data_dir"
    by (simp add: config_path_def config_keys_def activation_keys_def Let_def)
  from write_state_completes [OF this encodesD(7) [OF assms(1)]] phone_state_disk [OF d]
  obtain w' where "write_json (config_codec C) (config_path data_dir w)
      (config\<lparr>vc_monthly_limit_sats := a, vc_emergency_access_limit_sats := b\<rparr>) w = (Inr (), w')"
    and "state_disk L data_dir v ts w'"
    unfolding completes_def by (metis old.unit.exhaust)
  then show "\<exists>x w'. set_policy_limits C data_dir a b w = (Inr x, w') \<and> state_disk L data_dir v ts w'"
    using assms(3) config_on_disk(2) [OF assms(2) d, of C] by (auto simp: set_policy_limits_def Let_def bindM_def)
qed

lemma switch_epoch_completes:
  assumes "lib_txid_text L" and "encodes Y C" and "room (activation_keys L data_dir) v"
    and "load_config C data_dir v = Inr config"
  shows "completes (phone_disk L data_dir v ts) (switch_epoch L C data_dir m previous txid s) (state_disk L data_dir v ts)"
proof -
  have marker: "resolve (join_str (epoch_path L data_dir t) ''activated.json'') \<in> phone_keys L data_dir" for t
    by (rule phone_keys_epoch(1) [OF epoch_file_key [OF assms(1) plain_artifacts(4)]])
  have "completes (phone_disk L data_dir v ts) (contextM e (write_json (schedule_codec C) (join_str data_dir SCHEDULE_FILE) s))
      (phone_disk L data_dir v ts)" for e
    using phone_keys_epoch(3) unfolding schedule_key_def
    by (intro completes_contextM write_epoch_completes encodesD [OF assms(2)]) blast
  moreover have "completes (state_disk L data_dir v ts)
      (write_json (bool_codec C) (join_str (epoch_path L data_dir txid) ''activated.json'') True) (state_disk L data_dir v ts)"
    by (intro write_state_completes encodesD [OF assms(2)] phone_keys_epoch(2) [OF marker])
  moreover have "completes (phone_disk L data_dir v ts) (case previous of
      Some prev \<Rightarrow> if prev \<noteq> txid
        then contextM (Wal (Hot ArchiveFailed))
               (write_json (bool_codec C) (join_str (epoch_path L data_dir prev) ''activated.json'') True)
        else returnM () | None \<Rightarrow> returnM ()) (phone_disk L data_dir v ts)"
    by (auto split: option.split intro!: completes_returnM completes_contextM write_epoch_completes
        encodesD(5) [OF assms(2)] marker simp del: not_None_eq)
  ultimately show ?thesis
    unfolding switch_epoch_def
    by (blast intro: completes_bindM completes_returnM completes_contextM set_policy_limits_completes [OF assms(2-4)])
qed

section \<open>The whole activation\<close>

lemma ready_run:
  assumes "activation_ready L K C B data_dir batch_dir w m phone tx previous"
  shows "activate_policy L K Y C nonces B data_dir batch_dir w =
    bindM (stage_epoch L Y C nonces data_dir batch_dir (seed_bytes Y (dk_seed phone)) m tx) (\<lambda>schedule.
      bindM (contextM (Wal (Hot (BroadcastFailed RolloverSent))) (broadcast B tx)) (\<lambda>broadcast_txid.
      if broadcast_txid \<noteq> compute_txid L tx then failM (Wal (Hot (UnexpectedTxid RolloverSent)))
      else switch_epoch L C data_dir m previous (compute_txid L tx) schedule)) w"
proof -
  have bind: "bindM (readM g) f w = f x w" if "g w = Inr x" for g x and f :: "'g \<Rightarrow> ('a, schedule) io"
    using that by (simp add: bindM_def)
  show ?thesis
    using assms unfolding activate_policy_def activation_ready_def Let_def
    by (auto simp: bind)
qed

lemma activation_succeeds:
  assumes laws: "lib_txid_text L" "encodes Y C"
    and ready: "activation_ready L K C B data_dir batch_dir w m phone tx previous"
    and disk: "room (activation_keys L data_dir) w" "faults w = []" "batch_reads C batch_dir (phone_keys L data_dir) m w"
    and taken: "snd (bc_broadcast B (accepted w) tx) = Inr (compute_txid L tx)"
  shows "\<exists>s w'. activate_policy L K Y C nonces B data_dir batch_dir w = (Inr s, w')"
proof -
  have "phone_disk L data_dir w (accepted w) w" using disk by (simp add: disk_def)
  then obtain s w1 where s: "stage_epoch L Y C nonces data_dir batch_dir (seed_bytes Y (dk_seed phone)) m tx w = (Inr s, w1)"
    and d1: "phone_disk L data_dir w (accepted w) w1"
    using stage_epoch_completes [OF laws disk(3)] unfolding completes_def by meson
  obtain took where "bc_broadcast B (accepted w) tx = (took, Inr (compute_txid L tx))"
    using taken by (metis prod.collapse)
  then have b: "broadcast B tx w1 = (Inr (compute_txid L tx), if took then w1\<lparr>accepted := accepted w1 @ [tx]\<rparr> else w1)"
    (is "_ = (_, ?w2)") using d1 by (simp add: broadcast_def disk_def)
  have d2: "phone_disk L data_dir w (accepted ?w2) ?w2" using d1 by (simp add: disk_def room_def)
  obtain config where "load_config C data_dir w = Inr config" using ready by (auto simp: activation_ready_def)
  from switch_epoch_completes [OF laws disk(1) this] d2
  obtain s' w' where "switch_epoch L C data_dir m previous (compute_txid L tx) s ?w2 = (Inr s', w')"
    unfolding completes_def by meson
  then show ?thesis using s b by (auto simp: ready_run [OF ready] bindM_def contextM_def)
qed

section \<open>Validation depends on the files of the batch alone\<close>

definition same_batch ::
  "('b, 'z) ceremony_codecs_scheme \<Rightarrow> path \<Rightarrow> path \<Rightarrow> batch_manifest \<Rightarrow> 'b world \<Rightarrow> 'b world \<Rightarrow> bool" where
  \<comment> \<open>the transactions found in one directory before and in another after\<close>
  "same_batch C dir dir' m w w' \<longleftrightarrow> (\<forall>t \<in> set (manifest_transactions m).
     read_psbt C (join_str dir' (psbt_file t)) w' = read_psbt C (join_str dir (psbt_file t)) w)"

lemma same_batchD:
  assumes "same_batch C dir dir' m w w'"
  shows "read_psbt C (join_str dir' (psbt_file (rollover m))) w' = read_psbt C (join_str dir (psbt_file (rollover m))) w"
    and "a \<in> set (allowances m) \<Longrightarrow>
      read_psbt C (join_str dir' (psbt_file (authorization a))) w' = read_psbt C (join_str dir (psbt_file (authorization a))) w"
    and "emergency_access m = Some e \<Longrightarrow>
      read_psbt C (join_str dir' (psbt_file (trigger e))) w' = read_psbt C (join_str dir (psbt_file (trigger e))) w
      \<and> read_psbt C (join_str dir' (psbt_file (withdrawal e))) w' = read_psbt C (join_str dir (psbt_file (withdrawal e))) w"
  using assms by (auto simp: same_batch_def manifest_transactions_def)

lemma try_fold_cong_set:
  "(\<And>acc x. x \<in> set xs \<Longrightarrow> f acc x = g acc x) \<Longrightarrow> try_fold f a xs = try_fold g a xs"
proof (induction xs arbitrary: a)
  case (Cons x xs)
  then show ?case by (cases "g a x") simp_all
qed simp

lemma limits_network:
  "config_network (config\<lparr>vc_monthly_limit_sats := x, vc_emergency_access_limit_sats := y\<rparr>) = config_network config"
  by (simp add: config_network_def)

lemma limits_fields:
  fixes config :: vault_config and x y :: nat
  defines "config' \<equiv> config\<lparr>vc_monthly_limit_sats := x, vc_emergency_access_limit_sats := y\<rparr>"
  shows "vc_network config' = vc_network config" "vc_vault_descriptor config' = vc_vault_descriptor config"
    "phone_vault_pubkey config' = phone_vault_pubkey config" "hww_vault_pubkey config' = hww_vault_pubkey config"
  by (simp_all add: config'_def)

lemma validate_allowance_steps_same:
  assumes "same_batch C dir dir' m w w'" and "set as \<subseteq> set (allowances m)"
  shows "validate_allowance_steps L C (config\<lparr>vc_monthly_limit_sats := x, vc_emergency_access_limit_sats := y\<rparr>) m dir' policy
      controller delay w' i as st = validate_allowance_steps L C config m dir policy controller delay w i as st"
  using assms(2)
proof (induction "as" arbitrary: i st)
  case (Cons a as)
  have "validate_allowance_step L C (config\<lparr>vc_monthly_limit_sats := x, vc_emergency_access_limit_sats := y\<rparr>) m dir' policy
      controller delay w' i a st = validate_allowance_step L C config m dir policy controller delay w i a st"
    using same_batchD(2) [OF assms(1), of a] Cons.prems
    by (simp only: validate_allowance_step_def limits_network list.set insert_subset)
  moreover have "validate_allowance_steps L C (config\<lparr>vc_monthly_limit_sats := x, vc_emergency_access_limit_sats := y\<rparr>) m dir'
      policy controller delay w' (Suc i) as = validate_allowance_steps L C config m dir policy controller delay w (Suc i) as"
    using Cons by (intro ext) simp
  ultimately show ?case by (simp only: validate_allowance_steps.simps)
qed simp

lemma validate_batch_same:
  assumes "same_batch C dir dir' m w w'"
  shows "validate_batch L C (config\<lparr>vc_monthly_limit_sats := x, vc_emergency_access_limit_sats := y\<rparr>) m dir' w'
    = validate_batch L C config m dir w"
proof -
  note d = same_batchD [OF assms]
  let ?c = "config\<lparr>vc_monthly_limit_sats := x, vc_emergency_access_limit_sats := y\<rparr>"
  have "validate_manifest_sighashes C m dir' w' = validate_manifest_sighashes C m dir w"
    unfolding validate_manifest_sighashes_def using assms by (intro try_fold_cong_set) (simp add: same_batch_def)
  moreover have "validate_allowances L C ?c m dir' policy controller psbt w' = validate_allowances L C config m dir policy controller psbt w"
    for policy controller psbt
    by (simp add: validate_allowances_def validate_allowance_steps_same [OF assms order_refl])
  moreover have "validate_connector_emergency L C ?c m dir' policy controller psbt w'
      = validate_connector_emergency L C config m dir policy controller psbt w" for policy controller psbt
  proof (cases "emergency_access m")
    case (Some e)
    have "validate_trigger L C m e dir' policy controller tx w' = validate_trigger L C m e dir policy controller tx w" for tx
      by (simp only: validate_trigger_def d(3) [OF Some])
    moreover have "validate_withdrawal L C m e dir' policy controller delay h tx w'
        = validate_withdrawal L C m e dir policy controller delay h tx w" for delay h tx
      by (simp only: validate_withdrawal_def d(3) [OF Some])
    ultimately show ?thesis by (simp only: validate_connector_emergency_def Some option.case limits_network)
  qed (simp add: validate_connector_emergency_def)
  moreover have "validate_manifest_header ?c m = validate_manifest_header config m"
    "ceremony_controller_policy L ?c = ceremony_controller_policy L config"
    by (simp_all add: validate_manifest_header_def ceremony_controller_policy_def config_network_def)
  ultimately show ?thesis by (simp only: validate_batch_def d(1) limits_network limits_fields)
qed

lemma validate_approved_same:
  assumes "same_batch C dir dir' m w w'"
  shows "validate_approved_batch L C (config\<lparr>vc_monthly_limit_sats := x, vc_emergency_access_limit_sats := y\<rparr>) m dir' w'
    = validate_approved_batch L C config m dir w"
proof -
  have "try_fold (\<lambda>_ t. check_approved_transaction L C m dir' policy p h w' t) () (manifest_transactions m)
      = try_fold (\<lambda>_ t. check_approved_transaction L C m dir policy p h w t) () (manifest_transactions m)" for policy p h
    using assms by (intro try_fold_cong_set) (simp add: same_batch_def check_approved_transaction_def)
  then show ?thesis by (simp only: validate_approved_batch_def limits_fields validate_batch_same [OF assms])
qed

section \<open>Every run leaves an activation that can be repeated\<close>

definition advances :: "lib \<Rightarrow> ('b, 'z) hot_codecs_scheme \<Rightarrow> path \<Rightarrow> 'b world \<Rightarrow> 'b world \<Rightarrow> bool" where
  "advances L C data_dir w w' \<longleftrightarrow> (room (activation_keys L data_dir) w \<longrightarrow> room (activation_keys L data_dir) w'
     \<and> (\<forall>k. k \<notin> activation_keys L data_dir \<longrightarrow> map_of (files w') k = map_of (files w) k)
     \<and> (\<forall>config. load_config C data_dir w = Inr config \<longrightarrow> (\<exists>x y. load_config C data_dir w'
          = Inr (config\<lparr>vc_monthly_limit_sats := x, vc_emergency_access_limit_sats := y\<rparr>))))"

lemma advances_trans:
  assumes "advances L C data_dir w w1" and "advances L C data_dir w1 w2"
  shows "advances L C data_dir w w2"
proof -
  have "\<exists>x y. load_config C data_dir w2 = Inr (config\<lparr>vc_monthly_limit_sats := x, vc_emergency_access_limit_sats := y\<rparr>)"
    if r: "room (activation_keys L data_dir) w" and c: "load_config C data_dir w = Inr config" for config
  proof -
    obtain x y where "load_config C data_dir w1 = Inr (config\<lparr>vc_monthly_limit_sats := x, vc_emergency_access_limit_sats := y\<rparr>)"
      and "room (activation_keys L data_dir) w1" using assms(1) r c unfolding advances_def by blast
    with assms(2) show ?thesis unfolding advances_def by force
  qed
  then show ?thesis using assms unfolding advances_def by auto
qed

lemma advances_same:
  assumes "room (activation_keys L data_dir) w \<Longrightarrow> room (activation_keys L data_dir) w'"
    and "\<And>k. k \<notin> phone_keys L data_dir \<Longrightarrow> map_of (files w') k = map_of (files w) k"
  shows "advances L C data_dir w w'"
proof -
  have "\<exists>x y. config = config\<lparr>vc_monthly_limit_sats := x, vc_emergency_access_limit_sats := y\<rparr>" for config :: vault_config
    by (cases config) auto
  moreover have "load_config C data_dir w' = load_config C data_dir w" if "room (activation_keys L data_dir) w"
    using config_same(2) [OF that assms(1) [OF that] assms(2)] .
  ultimately show ?thesis
    unfolding advances_def using assms phone_keys_epoch(2) by (intro impI conjI allI) (simp, blast, simp)
qed

interpretation advances_frame: effect_frame "advances L C data_dir" for L C data_dir
proof
  show "advances L C data_dir w w" for w :: "'a world" by (rule advances_same) simp_all
  show "advances L C data_dir w w1 \<Longrightarrow> advances L C data_dir w1 w2 \<Longrightarrow> advances L C data_dir w w2" for w w1 w2 :: "'a world"
    using advances_trans .
qed

lemma advances_write:
  assumes "resolve p \<in> phone_keys L data_dir"
  shows "advances L C data_dir w (snd (write_json c p x w))"
proof (rule advances_same)
  show "room (activation_keys L data_dir) w \<Longrightarrow> room (activation_keys L data_dir) (snd (write_json c p x w))"
    by (rule room_write_json [OF flat_activation_keys phone_keys_epoch(2) [OF assms], THEN mp])
  show "map_of (files (snd (write_json c p x w))) k = map_of (files w) k" if "k \<notin> phone_keys L data_dir" for k
  proof -
    have "k \<noteq> resolve p" using that assms by blast
    then show ?thesis using touches_write_json [of p "{resolve p}" w c x] by (simp add: touches_def)
  qed
qed

lemma advances_broadcast: "advances L C data_dir w (snd (broadcast B tx w))"
  by (rule advances_same) (auto simp: broadcast_def room_def split: prod.splits)

lemma advances_limits:
  assumes "codec_ok (config_codec C)"
  shows "advances L C data_dir w (snd (set_policy_limits C data_dir a b w))"
proof (cases "load_config C data_dir w")
  case (Inl e)
  then show ?thesis by (simp add: set_policy_limits_def bindM_def advances_frame.frame_refl)
next
  case (Inr config)
  let ?p = "config_path data_dir w" and ?c = "config\<lparr>vc_monthly_limit_sats := a, vc_emergency_access_limit_sats := b\<rparr>"
  obtain r w' where wr: "write_json (config_codec C) ?p ?c w = (r, w')" by (cases "write_json (config_codec C) ?p ?c w")
  then have run: "snd (set_policy_limits C data_dir a b w) = w'"
    using Inr by (simp add: set_policy_limits_def Let_def bindM_def split: sum.split)
  have p: "resolve ?p \<in> config_keys data_dir" "resolve ?p \<in> activation_keys L data_dir"
    by (simp_all add: config_path_def config_keys_def activation_keys_def Let_def)
  have t: "touches {resolve ?p} w w'" using touches_write_json [of ?p "{resolve ?p}" w] wr by (metis singletonI snd_conv)
  have "room (activation_keys L data_dir) w \<longrightarrow> room (activation_keys L data_dir) w'"
    using room_write_json [OF flat_activation_keys p(2)] wr by (metis snd_conv)
  moreover have "\<exists>x y. load_config C data_dir w' = Inr (config\<lparr>vc_monthly_limit_sats := x, vc_emergency_access_limit_sats := y\<rparr>)"
    if "room (activation_keys L data_dir) w" "room (activation_keys L data_dir) w'"
  proof -
    have at: "read_json (config_codec C) ?p w' = Inr config \<or> read_json (config_codec C) ?p w' = Inr ?c"
      using json.put_atomic [OF assms wr] Inr by (simp add: load_config_def)
    have ex: "path_exists v q = (file_at v q \<noteq> None)"
      if "room (activation_keys L data_dir) v" "resolve q \<in> config_keys data_dir" for q and v :: "'a world"
      using that by (auto simp: path_exists_def room_def activation_keys_def)
    have "file_at w' q \<noteq> None \<longleftrightarrow> file_at w q \<noteq> None" if "resolve q \<in> config_keys data_dir" for q
    proof (cases "resolve q = resolve ?p")
      case True
      then have "file_at w' q = file_at w' ?p" "file_at w q = file_at w ?p" by (simp_all add: file_at_def)
      then show ?thesis using at Inr by (auto simp: load_config_def read_json_def read_file_def)
    qed (use touches_file_at [OF t] in simp)
    then have "config_path data_dir w' = ?p"
      using ex that by (simp add: config_path_def config_keys_def Let_def)
    moreover have "\<exists>x y. config = config\<lparr>vc_monthly_limit_sats := x, vc_emergency_access_limit_sats := y\<rparr>"
      by (cases config) auto
    ultimately show ?thesis using at unfolding load_config_def by metis
  qed
  moreover have "map_of (files w') k = map_of (files w) k" if "k \<notin> activation_keys L data_dir" for k
    using t p(2) that unfolding touches_def by (metis singletonD)
  ultimately show ?thesis
    using Inr unfolding run advances_def by simp
qed

lemma advances_encrypted:
  assumes "lib_txid_text L"
  shows "advances L C data_dir w (snd (write_encrypted_transaction L Y C nonce
      (encrypted_transaction_path (epoch_path L data_dir t) step kind) seed step' kind' psbt w))"
    and "advances L C data_dir w (snd (write_encrypted_emergency_transaction L Y C nonce
      (emergency_transaction_path L (epoch_path L data_dir t) ekind u) seed ekind' psbt w))"
  unfolding write_encrypted_transaction_def write_encrypted_emergency_transaction_def Let_def
  by (intro advances_frame.frame_bindM advances_frame.frame_pure advances_write
      phone_keys_epoch(1) [OF encrypted_transaction_path_key [OF assms]]
      phone_keys_epoch(1) [OF emergency_transaction_path_key [OF assms]])+

lemma advances_stage_allowances:
  assumes "lib_txid_text L"
  shows "advances L C data_dir w
    (snd (stage_allowances L Y C nonces data_dir batch_dir (epoch_path L data_dir t) seed as w))"
proof (induction "as" arbitrary: w)
  case (Cons a as)
  show ?case
    unfolding stage_allowances.simps stage_allowance_def Let_def
    by (intro advances_frame.frame_bindM advances_frame.frame_pure advances_encrypted [OF assms] Cons.IH)
qed (simp add: advances_frame.frame_refl)

lemma advances_stage_epoch:
  assumes "lib_txid_text L"
  shows "advances L C data_dir w (snd (stage_epoch L Y C nonces data_dir batch_dir seed m tx w))"
proof -
  have e: "advances L C data_dir w (snd ((case emergency_access m of None \<Rightarrow> returnM None
      | Some e \<Rightarrow> bindM (stage_emergency L Y C ns data_dir batch_dir (epoch_path L data_dir t) seed e) (\<lambda>x. returnM (Some x))) w))"
    for ns t w
    unfolding stage_emergency_def Let_def
    by (cases "emergency_access m")
      (simp_all only: option.case, (intro advances_frame.frame_bindM advances_frame.frame_pure advances_encrypted [OF assms])+)
  show ?thesis
    unfolding stage_epoch_def Let_def
    by (intro advances_frame.frame_bindM advances_frame.frame_pure advances_write e advances_stage_allowances [OF assms]
        phone_keys_epoch(1) [OF epoch_file_key [OF assms]] plain_artifacts)
qed

lemma advances_switch_epoch:
  assumes "lib_txid_text L" and "codec_ok (config_codec C)"
  shows "advances L C data_dir w (snd (switch_epoch L C data_dir m previous txid s w))"
proof -
  note marker = phone_keys_epoch(1) [OF epoch_file_key [OF assms(1) plain_artifacts(4)]]
  have "advances L C data_dir w (snd ((case previous of
      Some prev \<Rightarrow> if prev \<noteq> txid
        then contextM (Wal (Hot ArchiveFailed))
               (write_json (bool_codec C) (join_str (epoch_path L data_dir prev) ''activated.json'') True)
        else returnM () | None \<Rightarrow> returnM ()) w))" for w
    using advances_write [OF marker] by (auto split: option.split simp: advances_frame.frame_refl)
  moreover have "resolve (join_str data_dir SCHEDULE_FILE) \<in> phone_keys L data_dir"
    using phone_keys_epoch(3) by (simp add: schedule_key_def)
  ultimately show ?thesis
    unfolding switch_epoch_def
    by (intro advances_frame.frame_bindM advances_frame.frame_pure advances_frame.frame_contextM advances_write
        advances_limits [OF assms(2)] marker)
qed

lemma advances_if: "advances L C data_dir w (snd (m w)) \<Longrightarrow> advances L C data_dir w (snd ((if c then failM e else m) w))"
  by (simp add: advances_frame.frame_refl)

lemma advances_activate_policy:
  assumes "lib_txid_text L" and "codec_ok (config_codec C)"
  shows "advances L C data_dir w (snd (activate_policy L K Y C nonces B data_dir batch_dir w))"
  unfolding activate_policy_def Let_def
  by (intro advances_frame.frame_bindM advances_frame.frame_pure advances_frame.frame_contextM advances_broadcast
      advances_stage_epoch [OF assms(1)] advances_if [OF advances_switch_epoch [OF assms]])

section \<open>The schedule pointer and the marker\<close>

abbreviation active_schedule where
  "active_schedule C data_dir \<equiv> read_json (schedule_codec C) (join_str data_dir SCHEDULE_FILE)"

definition unmarked :: "lib \<Rightarrow> ('b, 'z) hot_codecs_scheme \<Rightarrow> path \<Rightarrow> txid \<Rightarrow> 'b world \<Rightarrow> 'b world \<Rightarrow> bool" where
  \<comment> \<open>neither the pointer nor the epoch's own marker changed\<close>
  "unmarked L C data_dir t w w' \<longleftrightarrow> active_schedule C data_dir w' = active_schedule C data_dir w
     \<and> map_of (files w') (marker_key L data_dir t) = map_of (files w) (marker_key L data_dir t)"

lemma unmarked_touches:
  assumes "touches S w w'" and "schedule_key data_dir \<notin> S" and "marker_key L data_dir t \<notin> S"
  shows "unmarked L C data_dir t w w'"
  using assms read_json_touches [OF assms(1), of "join_str data_dir SCHEDULE_FILE"]
  by (simp add: unmarked_def schedule_key_def touches_def)

lemma marker_key_eq: "lib_txid_text L \<Longrightarrow> marker_key L data_dir t = epoch_root L data_dir t @ [Normal ''activated.json'']"
  unfolding marker_key_def by (rule epoch_file [OF _ plain_artifacts(4)])

lemma marker_key_inj: "lib_txid_text L \<Longrightarrow> marker_key L data_dir t = marker_key L data_dir u \<longleftrightarrow> t = u"
  using lib_txid_text_inj by (auto simp: marker_key_eq epoch_root_def)

lemma stage_epoch_unmarked:
  assumes "lib_txid_text L"
  shows "unmarked L C data_dir (compute_txid L tx) w (snd (stage_epoch L Y C nonces data_dir batch_dir seed m tx w))"
proof -
  let ?t = "compute_txid L tx"
  define M where "M = - {schedule_key data_dir, marker_key L data_dir ?t}"
  note f = epoch_file [OF assms]
  have s: "k \<noteq> schedule_key data_dir" if "k \<in> epoch_keys L data_dir ?t" for k
    using that epoch_key_other(1) by blast
  have a: "allowance_keys (epoch_path L data_dir ?t) steps \<subseteq> M" for steps
    using s artifact_keys_epoch(1) [OF assms] switch_keys_artifacts(2) [OF assms, of data_dir ?t steps]
    by (auto simp: switch_keys_def M_def)
  have e: "emergency_artifact_keys L (epoch_path L data_dir ?t) \<subseteq> M"
  proof -
    have "emergency_transaction_path L (epoch_path L data_dir ?t) kind u = join_str (epoch_path L data_dir ?t)
        (''emergency-'' @ emergency_transaction_kind_name kind @ ''-'' @ txid_to_string L u @ ''.json'')" for kind u
      by (simp add: emergency_transaction_path_def)
    then have "resolve (emergency_transaction_path L (epoch_path L data_dir ?t) kind u) \<noteq> marker_key L data_dir ?t" for kind u
      using f [OF plain_artifacts(6) [OF assms]] by (simp add: marker_key_eq [OF assms])
    moreover have "resolve (emergency_transaction_path L (epoch_path L data_dir ?t) kind u) \<noteq> schedule_key data_dir" for kind u
      by (rule s [OF emergency_transaction_path_key [OF assms]])
    ultimately show ?thesis by (auto simp: emergency_artifact_keys_def M_def)
  qed
  have n: "resolve (join_str (epoch_path L data_dir ?t) n) \<in> M" if "plain_name n" "n \<noteq> ''activated.json''" for n
    using s epoch_file_key [OF assms that(1)] that(2) by (auto simp: f [OF that(1)] marker_key_eq [OF assms] M_def)
  have "touches M w (snd (stage_epoch L Y C nonces data_dir batch_dir seed m tx w))"
    by (auto simp: stage_epoch_def Let_def split: option.split simp del: split_paired_All
        intro!: touches_bindM touches_write_json n plain_artifacts
          touches_mono [OF touches_stage_allowances a] touches_mono [OF touches_stage_emergency e])
  then show ?thesis by (rule unmarked_touches) (simp_all add: M_def)
qed

lemma switch_epoch_unmarked:
  assumes "lib_txid_text L" and "codec_ok (schedule_codec C)" and "switch_epoch L C data_dir m previous t s w = (r, w')"
  shows "active_schedule C data_dir w' = Inr s \<or> unmarked L C data_dir t w w'"
proof -
  let ?A = "case previous of
      Some prev \<Rightarrow> if prev \<noteq> t
        then contextM (Wal (Hot ArchiveFailed))
               (write_json (bool_codec C) (join_str (epoch_path L data_dir prev) ''activated.json'') True)
        else returnM () | None \<Rightarrow> returnM ()"
  have "touches (range (marker_key L data_dir) - {marker_key L data_dir t}) w (snd (?A w))"
    using marker_key_inj [OF assms(1)]
    by (auto split: option.split simp: marker_key_def intro!: touches_write_json)
  then have a: "unmarked L C data_dir t w (snd (?A w))"
    by (rule unmarked_touches) (use marker_key_other(1) [OF assms(1)] in auto)
  from assms(3) show ?thesis
    unfolding switch_epoch_def
  proof (cases rule: bindM_cases)
    case (failed e)
    then show ?thesis using a by simp
  next
    case (continued u w1)
    from continued(2) show ?thesis
    proof (cases rule: bindM_cases)
      case (failed e)
      then have wr: "write_json (schedule_codec C) (join_str data_dir SCHEDULE_FILE) s w1 = (fst (write_json (schedule_codec C)
          (join_str data_dir SCHEDULE_FILE) s w1), w')"
        by (metis contextM_snd prod.collapse snd_conv)
      have "touches {schedule_key data_dir} w1 w'"
        using touches_write_json [of "join_str data_dir SCHEDULE_FILE" "{schedule_key data_dir}" w1] wr
        by (metis schedule_key_def singletonI snd_conv)
      moreover have "marker_key L data_dir t \<noteq> schedule_key data_dir"
        using marker_key_other(1) [OF assms(1)] by (metis rangeI)
      ultimately have "map_of (files w') (marker_key L data_dir t) = map_of (files w1) (marker_key L data_dir t)"
        by (simp add: touches_def)
      then show ?thesis
        using json.put_atomic [OF assms(2) wr] a continued(1) by (auto simp: unmarked_def)
    next
      case (continued u2 w2)
      have "active_schedule C data_dir w2 = Inr s" using continued(1) json.fetch_put [OF assms(2)] by simp
      moreover have "touches (config_keys data_dir \<union> range (marker_key L data_dir)) w2 w'"
      proof -
        have "touches (config_keys data_dir \<union> range (marker_key L data_dir)) v (snd (set_policy_limits C data_dir x y v))" for x y v
          by (rule touches_mono [OF touches_set_policy_limits]) simp
        then have "touches (config_keys data_dir \<union> range (marker_key L data_dir)) w2
            (snd (bindM (contextM (Wal (Hot LimitsFailed)) (set_policy_limits C data_dir (monthly_limit_sats m)
              (emergency_access_limit_sats m))) (\<lambda>_. bindM (write_json (bool_codec C)
              (join_str (epoch_path L data_dir t) ''activated.json'') True) (\<lambda>_. returnM s)) w2))"
          by (auto intro!: touches_bindM touches_write_json simp: marker_key_def)
        then show ?thesis using continued(2) by simp
      qed
      moreover have "schedule_key data_dir \<notin> config_keys data_dir \<union> range (marker_key L data_dir)"
        using marker_key_other(1) [OF assms(1)] epoch_key_other(3) by blast
      ultimately show ?thesis using read_json_touches unfolding schedule_key_def by metis
    qed
  qed
qed

lemma previous_epoch_active:
  "previous_epoch L C data_dir w = (if active_schedule C data_dir w = Inl (Sto ReadFailed) then Inr None
     else bind_result (load_schedule C data_dir w) (\<lambda>s.
          bind_result (ok_or (txid_from_str L (sc_rollover_txid s)) (Lib TxidParseError)) (\<lambda>txid. Inr (Some txid))))"
  by (auto simp: previous_epoch_def read_json_def read_file_def ok_or_def split: option.splits)

lemma previous_epoch_unmarked: "unmarked L C data_dir t w w' \<Longrightarrow> previous_epoch L C data_dir w' = previous_epoch L C data_dir w"
  by (simp add: previous_epoch_active unmarked_def load_schedule_def)

lemma previous_epoch_schedule:
  "lib_txid_text L \<Longrightarrow> active_schedule C data_dir w = Inr s \<Longrightarrow> sc_version s = 5 \<Longrightarrow> sc_rollover_txid s = txid_to_string L t \<Longrightarrow>
   previous_epoch L C data_dir w = Inr (Some t)"
  by (simp add: previous_epoch_active load_schedule_def lib_txid_text_def)

lemma marker_exists_unmarked:
  assumes "lib_txid_text L" and "room (activation_keys L data_dir) w" and "room (activation_keys L data_dir) w'"
    and "unmarked L C data_dir t w w'"
  shows "path_exists w' (join_str (epoch_path L data_dir t) ''activated.json'')
    \<longleftrightarrow> path_exists w (join_str (epoch_path L data_dir t) ''activated.json'')"
proof -
  have "marker_key L data_dir t \<in> activation_keys L data_dir"
    unfolding marker_key_def
    by (rule phone_keys_epoch(2) [OF phone_keys_epoch(1) [OF epoch_file_key [OF assms(1) plain_artifacts(4)]]])
  then show ?thesis
    using assms(2-4) by (simp add: path_exists_def file_at_def room_def unmarked_def marker_key_def)
qed

lemma activation_moves:
  assumes laws: "lib_txid_text L" "codec_ok (schedule_codec C)"
    and ready: "activation_ready L K C B data_dir batch_dir w m phone tx previous"
    and run: "activate_policy L K Y C nonces B data_dir batch_dir w = (r, w')"
  shows "unmarked L C data_dir (compute_txid L tx) w w' \<or>
    (\<exists>s. active_schedule C data_dir w' = Inr s \<and> sc_version s = 5
       \<and> sc_rollover_txid s = txid_to_string L (compute_txid L tx))"
  using run unfolding ready_run [OF ready]
proof (cases rule: bindM_cases)
  case (failed e)
  then show ?thesis using stage_epoch_unmarked [OF laws(1)] by (metis snd_conv)
next
  case (continued s w1)
  have a: "unmarked L C data_dir (compute_txid L tx) w w1"
    using stage_epoch_unmarked [OF laws(1)] continued(1) by (metis snd_conv)
  obtain q w2 where b: "broadcast B tx w1 = (q, w2)" by (cases "broadcast B tx w1")
  have f: "files w2 = files w1" using files_broadcast [of B tx w1] b by simp
  then have u: "unmarked L C data_dir (compute_txid L tx) w w2"
    using a by (simp add: unmarked_def read_json_def read_file_def file_at_def)
  have "w' = w2 \<or> switch_epoch L C data_dir m previous (compute_txid L tx) s w2 = (r, w')"
    using continued(2) b by (cases q) (auto simp: bindM_def contextM_def split: if_splits)
  then show ?thesis
  proof
    assume "switch_epoch L C data_dir m previous (compute_txid L tx) s w2 = (r, w')"
    from switch_epoch_unmarked [OF laws this] show ?thesis
      using u stage_epoch_schedule [OF continued(1)] by (auto simp: unmarked_def)
  qed (use u in simp)
qed

definition batch_apart :: "lib \<Rightarrow> path \<Rightarrow> path \<Rightarrow> batch_manifest \<Rightarrow> bool" where
  \<comment> \<open>no file of the batch is one the activation writes\<close>
  "batch_apart L data_dir batch_dir m \<longleftrightarrow> resolve (join_str batch_dir ''manifest.json'') \<notin> activation_keys L data_dir
     \<and> (\<forall>t \<in> set (manifest_transactions m). resolve (join_str batch_dir (psbt_file t)) \<notin> activation_keys L data_dir)"

lemma approved_reads:
  assumes "validate_approved_batch L C config m dir w = Inr policy" and "t \<in> set (manifest_transactions m)"
  shows "\<exists>psbt. read_psbt C (join_str dir (psbt_file t)) w = Inr psbt"
proof -
  have "try_fold (\<lambda>_ t. check_approved_transaction L C m dir policy p h w t) () ts = Inr () \<Longrightarrow> t \<in> set ts \<Longrightarrow>
      \<exists>psbt. read_psbt C (join_str dir (psbt_file t)) w = Inr psbt" for p h ts
    by (induction ts) (auto simp: check_approved_transaction_def)
  then show ?thesis using assms by (auto simp: validate_approved_batch_def split: if_splits)
qed

lemma ready_batch_reads:
  assumes "activation_ready L K C B data_dir batch_dir w m phone tx previous" and "batch_apart L data_dir batch_dir m"
  shows "batch_reads C batch_dir (phone_keys L data_dir) m w"
proof -
  obtain config policy where "validate_approved_batch L C config m batch_dir w = Inr policy"
    using assms(1) by (auto simp: activation_ready_def)
  then show ?thesis
    using assms approved_reads phone_keys_epoch(2) unfolding batch_reads_def batch_apart_def activation_ready_def by metis
qed

lemma activation_repeatable:
  assumes laws: "lib_txid_text L" "codec_ok (schedule_codec C)" "codec_ok (config_codec C)"
    and ready: "activation_ready L K C B data_dir batch_dir w m phone tx previous"
    and disk: "room (activation_keys L data_dir) w" "batch_apart L data_dir batch_dir m"
    and run: "activate_policy L K Y C nonces B data_dir batch_dir w = (r, w')"
  shows "room (activation_keys L data_dir) w'
    \<and> (\<exists>previous'. activation_ready L K C B data_dir batch_dir w' m phone tx previous')"
proof -
  let ?t = "compute_txid L tx"
  have adv: "advances L C data_dir w w'" using advances_activate_policy [OF laws(1,3)] run by (metis snd_conv)
  have room: "room (activation_keys L data_dir) w'" using adv disk(1) by (simp add: advances_def)
  have same: "file_at w' p = file_at w p" if "resolve p \<notin> activation_keys L data_dir" for p
    using adv disk(1) that by (simp add: advances_def file_at_def)
  obtain config policy psbt where c: "load_config C data_dir w = Inr config" "ensure_backend_network B config = Inr ()"
    and v: "validate_approved_batch L C config m batch_dir w = Inr policy"
    and p: "read_psbt C (join_str batch_dir (psbt_file (rollover m))) w = Inr psbt" "finalize_vault_psbt L psbt = Inr tx"
    using ready by (auto simp: activation_ready_def)
  obtain x y where c': "load_config C data_dir w' = Inr (config\<lparr>vc_monthly_limit_sats := x, vc_emergency_access_limit_sats := y\<rparr>)"
    using adv disk(1) c(1) by (auto simp: advances_def)
  have sb: "same_batch C batch_dir batch_dir m w w'"
    using disk(2) same by (simp add: same_batch_def batch_apart_def read_psbt_def read_file_def)
  have m: "load_manifest C batch_dir w' = Inr m"
    using ready disk(2) same by (simp add: activation_ready_def batch_apart_def load_manifest_def read_json_def read_file_def)
  have "resolve (join_str data_dir PHONE_DEVICE_FILE) \<notin> activation_keys L data_dir"
    by (auto simp: activation_keys_def phone_keys_def epoch_keys_def epoch_root_def schedule_key_eq config_key_eq
        resolve_join_safe safe_relative_def fixed_state_components is_absolute_def is_normal_def)
  then have ph: "load_device_keys L K C data_dir PHONE_DEVICE_FILE w' = Inr phone"
    using ready same by (simp add: activation_ready_def load_device_keys_def load_device_def read_json_def read_file_def)
  have base: "activation_ready L K C B data_dir batch_dir w' m phone tx q \<longleftrightarrow> previous_epoch L C data_dir w' = Inr q
      \<and> \<not> (path_exists w' (join_str (epoch_path L data_dir ?t) ''activated.json'') \<and> q \<noteq> None \<and> q \<noteq> Some ?t)" for q
    using c' c(2) v p same_batchD(1) [OF sb] validate_approved_same [OF sb] m ph
    by (simp add: activation_ready_def ensure_backend_network_def limits_network)
  from activation_moves [OF laws(1,2) ready run] show ?thesis
  proof
    assume u: "unmarked L C data_dir ?t w w'"
    then show ?thesis
      using base [of previous] ready previous_epoch_unmarked [OF u] marker_exists_unmarked [OF laws(1) disk(1) room u] room
      by (auto simp: activation_ready_def)
  next
    assume "\<exists>s. active_schedule C data_dir w' = Inr s \<and> sc_version s = 5 \<and> sc_rollover_txid s = txid_to_string L ?t"
    then show ?thesis using base [of "Some ?t"] previous_epoch_schedule [OF laws(1)] room by blast
  qed
qed

end
