(* ===== verification/Activation_Properties.thy ===== *)
theory Activation_Properties
  imports Demo_Batch Demo_Cli Activation_Live Rotation_Safety
begin

text \<open>
  Properties of the activation of an approved policy: what a run that stops half way leaves behind,
  and that it can be run again to completion. The batch of \<open>Demo_Run\<close> is one they apply to.
\<close>

section \<open>The concrete batch is ready to be activated\<close>

lemma activation_keys_form:
  assumes "k \<in> activation_keys L data_dir"
  shows "\<exists>ns. k = resolve data_dir @ ns
    \<and> (ns = [Normal ''phone'', Normal ''schedule.json''] \<or> ns = [Normal ''anzen.json''] \<or> ns = [Normal ''vault.json'']
     \<or> (\<exists>t n. ns = [Normal ''phone'', Normal ''transactions'', Normal t, Normal n]))"
  using assms by (auto simp: activation_keys_def phone_keys_def epoch_keys_def epoch_root_def schedule_key_eq config_key_eq)

lemma ancestors_short:
  "ancestors [a] = [[a]]" "ancestors [a, b] = [[a], [a, b]]"
  "ancestors [a, b, c, e] = [[a], [a, b], [a, b, c], [a, b, c, e]]"
  by (simp_all add: ancestors_def upt_rec numeral_2_eq_2)

lemma demo_ancestors:
  assumes "k \<in> activation_keys demo_lib demo_data" and "q \<in> set (ancestors (resolve (butlast k)))"
  shows "q \<in> {[Normal ''d''], [Normal ''d'', Normal ''phone''], [Normal ''d'', Normal ''phone'', Normal ''transactions'']}
    \<or> length q = 4 \<and> hd q = Normal ''d''"
proof -
  have r: "resolve demo_data = [Normal ''d'']" by code_simp
  obtain ns where k: "k = Normal ''d'' # ns" and ns: "ns = [Normal ''phone'', Normal ''schedule.json'']
      \<or> ns = [Normal ''anzen.json''] \<or> ns = [Normal ''vault.json'']
      \<or> (\<exists>t n. ns = [Normal ''phone'', Normal ''transactions'', Normal t, Normal n])"
    using activation_keys_form [OF assms(1)] unfolding r by auto
  have res: "resolve (map Normal as) = map Normal as" for as
    using resolve_append_normal [of "map Normal as" "[]"] by (simp add: is_normal_def resolve_def)
  show ?thesis
    using ns
  proof (elim disjE exE)
    fix t n assume "ns = [Normal ''phone'', Normal ''transactions'', Normal t, Normal n]"
    then show ?thesis using assms(2) res [of "[''d'', ''phone'', ''transactions'', t]"] unfolding k
      by (auto simp: ancestors_short)
  qed (use assms(2) res [of "[''d'', ''phone'']"] res [of "[''d'']"] in \<open>auto simp: k ancestors_short\<close>)
qed

lemma demo_above:
  assumes "k \<in> activation_keys demo_lib demo_data" and "q \<in> set (ancestors (resolve (butlast k)))"
  shows "q \<noteq> [] \<and> hd q = Normal ''d'' \<and> q \<notin> set (map fst (files demo_world))"
proof -
  have f: "map fst (files demo_world) = [[Normal ''d'', Normal ''hww'', Normal ''device.json''],
      [Normal ''d'', Normal ''phone'', Normal ''device.json''], [Normal ''d'', Normal ''anzen.json'']]" by code_simp
  show ?thesis using demo_ancestors [OF assms] unfolding f by auto
qed

lemma demo_room:
  assumes "demo_tidy w"
  shows "room (activation_keys demo_lib demo_data) w"
  unfolding room_def
proof (intro ballI conjI)
  fix k assume k: "k \<in> activation_keys demo_lib demo_data"
  have "hd k = Normal ''d''" using activation_keys_form [OF k] by (auto simp: demo_data_def resolve_def resolve_step_def)
  then show "k \<notin> set (dirs w)" using assms by (auto simp: demo_tidy_def list_all_iff)
  fix q assume "q \<in> set (ancestors (resolve (butlast k)))"
  from demo_above [OF k this] have q: "hd q \<noteq> Normal ''b''" "q \<notin> set (map fst (files demo_world))" by auto
  have "q \<notin> fst ` set (files w)"
  proof
    assume "q \<in> fst ` set (files w)"
    then obtain b where "(q, b) \<in> set (files w)" by auto
    with assms have "hd q = Normal ''b'' \<or> q \<in> set (map fst (files demo_world))"
      unfolding demo_tidy_def list_all_iff by blast
    with q show False by blast
  qed
  then show "map_of (files w) q = None" by (simp add: map_of_eq_None_iff)
qed

lemma demo_apart:
  assumes "list_all (\<lambda>t. hd (resolve (join_str demo_dir (psbt_file t))) = Normal ''b'') (manifest_transactions m)"
  shows "batch_apart demo_lib demo_data demo_dir m"
proof -
  have "hd k = Normal ''d''" if "k \<in> activation_keys demo_lib demo_data" for k
    using activation_keys_form [OF that] by (auto simp: demo_data_def resolve_def resolve_step_def)
  moreover have "hd (resolve (join_str demo_dir ''manifest.json'')) = Normal ''b''" by code_simp
  ultimately show ?thesis using assms by (fastforce simp: batch_apart_def list_all_iff)
qed

lemma demo_encodes: "encodes demo_crypto demo_codecs"
  by (auto simp: encodes_def demo_crypto_def demo_codecs_def split: demo_content.split)

lemma demo_activation:
  obtains w m phone tx where "activation_ready demo_lib demo_keys demo_codecs demo_chain demo_data demo_dir w m phone tx None"
    and "room (activation_keys demo_lib demo_data) w" and "batch_apart demo_lib demo_data demo_dir m" and "faults w = []"
proof -
  obtain w where c: "demo_check w = Inr ()" by (rule demo_run)
  then obtain m phone tx where "activation_ready demo_lib demo_keys demo_codecs demo_chain demo_data demo_dir w m phone tx None"
    and t: "demo_tidy w" and b: "list_all (\<lambda>t. hd (resolve (join_str demo_dir (psbt_file t))) = Normal ''b'') (manifest_transactions m)"
    by (auto simp: demo_check_def activation_ready_def split: if_splits)
  then show thesis using that demo_room demo_apart by (auto simp: demo_tidy_def)
qed

lemma activation_sends:
  assumes "lib_txid_text L" and "hot_laws Y C" and "activate_policy L K Y C nonces B data_dir batch_dir w = (Inr s, w')"
    and "\<And>ts tx. fst (bc_broadcast B ts tx)"
  shows "accepted w' \<noteq> accepted w"
  using assms(1-3)
proof (cases rule: activation_outcome)
  case (broadcasted m phone tx previous s' w1 q w2)
  then have "accepted w2 = accepted w @ [tx]"
    using assms(4) [of "accepted w1" tx] by (auto simp: broadcast_def touches_def split: prod.splits)
  moreover have "switch_epoch L C data_dir m previous (compute_txid L tx) s' w2 = (Inr s, w')" using broadcasted(6) by auto
  then have "accepted w' = accepted w2" using touches_switch_epoch [where w = w2] by (metis snd_conv touches_def)
  ultimately show ?thesis by simp
qed auto

lemma demo_taken:
  "snd (bc_broadcast demo_chain ts tx) = Inr (compute_txid demo_lib tx)" "fst (bc_broadcast demo_chain ts tx)"
  by (simp_all add: demo_chain_def demo_lib_def)

lemma apart_outside: "batch_apart L data_dir batch_dir m \<Longrightarrow> batch_outside L data_dir t batch_dir m"
  by (auto simp: batch_apart_def batch_outside_def activation_keys_def phone_keys_def)

lemma demo_activates:
  obtains w s w' where "demo_activate w = (Inr s, w')" and "accepted w' \<noteq> accepted w"
    and "\<forall>m t. load_manifest demo_codecs demo_dir w = Inr m \<longrightarrow> batch_outside demo_lib demo_data t demo_dir m"
proof -
  obtain w m phone tx where d: "activation_ready demo_lib demo_keys demo_codecs demo_chain demo_data demo_dir w m phone tx None"
    "room (activation_keys demo_lib demo_data) w" "batch_apart demo_lib demo_data demo_dir m" "faults w = []"
    by (rule demo_activation)
  have "batch_reads demo_codecs demo_dir (phone_keys demo_lib demo_data) m w" by (rule ready_batch_reads [OF d(1,3)])
  then obtain s w' where run: "demo_activate w = (Inr s, w')"
    using activation_succeeds [OF demo_txid_text demo_encodes d(1,2,4) _ demo_taken(1)]
    unfolding demo_activate_def by blast
  then have "accepted w' \<noteq> accepted w"
    using activation_sends [OF demo_txid_text demo_hot_laws _ demo_taken(2)] unfolding demo_activate_def by blast
  moreover have "load_manifest demo_codecs demo_dir w = Inr m" using d(1) by (simp add: activation_ready_def)
  ultimately show thesis using that run apart_outside [OF d(3)] by simp
qed

section \<open>Attempts\<close>

inductive attempted ::
  "lib \<Rightarrow> key_lib \<Rightarrow> ('b, 'y) crypto_lib_scheme \<Rightarrow> ('b, 'z) hot_codecs_scheme \<Rightarrow> network \<Rightarrow> path \<Rightarrow> path \<Rightarrow>
   'b world \<Rightarrow> 'b world \<Rightarrow> bool"
  for L K Y C network data_dir batch_dir w where
  \<comment> \<open>the disk after any number of runs of the command, each with failures and answers of its own\<close>
  attempted_none: "files w' = files w \<Longrightarrow> dirs w' = dirs w \<Longrightarrow> attempted L K Y C network data_dir batch_dir w w'"
| attempted_run: "attempted L K Y C network data_dir batch_dir w w1 \<Longrightarrow> bc_network B = network \<Longrightarrow>
    activate_policy L K Y C nonces B data_dir batch_dir w1 = (r, w2) \<Longrightarrow> files w' = files w2 \<Longrightarrow> dirs w' = dirs w2 \<Longrightarrow>
    attempted L K Y C network data_dir batch_dir w w'"

lemma same_disk_file_at: "files w' = files w \<Longrightarrow> file_at w' = file_at w"
  by (simp add: file_at_def fun_eq_iff)

lemma ready_same_disk:
  assumes "activation_ready L K C B data_dir batch_dir w m phone tx previous"
    and "files w' = files w" and "dirs w' = dirs w" and "bc_network B' = bc_network B"
  shows "activation_ready L K C B' data_dir batch_dir w' m phone tx previous"
proof -
  have f: "read_file p w' = read_file p w" for p using same_disk_file_at [OF assms(2)] by (simp add: read_file_def)
  then have j: "read_json c p w' = read_json c p w" for c :: "('a, 'k) codec" and p by (simp add: read_json_def)
  have e: "path_exists w' p = path_exists w p" for p using assms(2,3) by (simp add: path_exists_def file_at_def)
  have s: "same_batch C batch_dir batch_dir m w w'" using f by (simp add: same_batch_def read_psbt_def)
  have l: "load_schedule C data_dir w' = load_schedule C data_dir w"
    using f same_disk_file_at [OF assms(2)] by (simp add: load_schedule_def read_json_def)
  have q: "previous_epoch L C data_dir w' = previous_epoch L C data_dir w"
    using l same_disk_file_at [OF assms(2)] by (simp add: previous_epoch_def)
  have c: "load_config C data_dir w' = load_config C data_dir w"
    by (simp only: load_config_def config_path_def Let_def read_json_def f e)
  have v: "validate_approved_batch L C config m batch_dir w' = validate_approved_batch L C config m batch_dir w" for config
    using validate_approved_same [OF s, where config = config and x = "vc_monthly_limit_sats config" and y = "vc_emergency_access_limit_sats config"]
    by simp
  show ?thesis
    using assms(1) unfolding activation_ready_def v q c e
    by (simp add: load_manifest_def load_device_keys_def load_device_def read_json_def read_psbt_def f
        ensure_backend_network_def assms(4))
qed

lemma attempted_ready:
  assumes laws: "lib_txid_text L" "codec_ok (schedule_codec C)" "codec_ok (config_codec C)"
    and "attempted L K Y C (bc_network B) data_dir batch_dir w w'"
    and "activation_ready L K C B data_dir batch_dir w m phone tx previous"
    and "room (activation_keys L data_dir) w" and "batch_apart L data_dir batch_dir m"
  shows "room (activation_keys L data_dir) w'
    \<and> (\<exists>previous'. activation_ready L K C B data_dir batch_dir w' m phone tx previous')"
  using assms(4)
proof induction
  case (attempted_none w')
  from ready_same_disk [OF assms(5) this] assms(6) this show ?case by (simp add: room_def) blast
next
  case (attempted_run w1 B' nonces r w2 w')
  then obtain p where "activation_ready L K C B' data_dir batch_dir w1 m phone tx p" and "room (activation_keys L data_dir) w1"
    using ready_same_disk [OF _ refl refl attempted_run(2)] by blast
  from activation_repeatable [OF laws this assms(7) attempted_run(3)]
  obtain q where "room (activation_keys L data_dir) w2" "activation_ready L K C B' data_dir batch_dir w2 m phone tx q" by blast
  with ready_same_disk [OF this(2) attempted_run(4,5)] attempted_run(2,4,5)
  show ?case by (simp add: room_def) blast
qed

section \<open>Activation\<close>

text \<open>
  C28. An interrupted activation can always be finished. Start from a world in which the approved
  batch passes every check of \<^verbatim>\<open>activate_policy\<close>, and run the command any number of times,
  each run with whatever failed writes, nonces and backend answers it meets. Then one more run, on a
  disk without failures and with a backend that takes the rollover, returns a schedule, and
  \<^verbatim>\<open>load_schedule\<close> reads that schedule back.
\<close>

theorem interrupted_activation_resumes:
  assumes "lib_txid_text L" and "hot_laws Y C" and "codec_ok (config_codec C)" and "encodes Y C"
    and "activation_ready L K C B data_dir batch_dir w m phone tx previous"
    and "room (activation_keys L data_dir) w" and "batch_apart L data_dir batch_dir m"
    and "attempted L K Y C (bc_network B) data_dir batch_dir w w'"
    and "faults w' = []" and "snd (bc_broadcast B (accepted w') tx) = Inr (compute_txid L tx)"
  shows "\<exists>s w''. activate_policy L K Y C nonces B data_dir batch_dir w' = (Inr s, w'')
    \<and> load_schedule C data_dir w'' = Inr s"
proof -
  have sc: "codec_ok (schedule_codec C)" using assms(2) by (simp add: hot_laws_def)
  obtain q where room: "room (activation_keys L data_dir) w'"
    and ready: "activation_ready L K C B data_dir batch_dir w' m phone tx q"
    using attempted_ready [OF assms(1) sc assms(3,8,5-7)] by blast
  have "batch_reads C batch_dir (phone_keys L data_dir) m w'" by (rule ready_batch_reads [OF ready assms(7)])
  from activation_succeeds [OF assms(1,4) ready room assms(9) this assms(10)]
  obtain s w'' where run: "activate_policy L K Y C nonces B data_dir batch_dir w' = (Inr s, w'')" by blast
  then have "load_schedule C data_dir w'' = Inr s" by (rule activation_completes [OF assms(1-3)])
  then show ?thesis using run by blast
qed

theorem interrupted_activation_resumes_witness:
  "\<exists>w r w1 s w2. demo_activate w = (r, w1) \<and> faults w = [FailsBefore]
    \<and> demo_activate (w1\<lparr>faults := []\<rparr>) = (Inr s, w2) \<and> load_schedule demo_codecs demo_data w2 = Inr s"
proof -
  obtain w m phone tx where d: "activation_ready demo_lib demo_keys demo_codecs demo_chain demo_data demo_dir w m phone tx None"
    "room (activation_keys demo_lib demo_data) w" "batch_apart demo_lib demo_data demo_dir m"
    by (rule demo_activation)
  obtain r w1 where run: "demo_activate (w\<lparr>faults := [FailsBefore]\<rparr>) = (r, w1)" by (metis surj_pair)
  have "attempted demo_lib demo_keys demo_crypto demo_codecs (bc_network demo_chain) demo_data demo_dir w (w1\<lparr>faults := []\<rparr>)"
    by (rule attempted_run [OF attempted_none _ run [unfolded demo_activate_def]]) simp_all
  from interrupted_activation_resumes [OF demo_txid_text demo_hot_laws demo_codecs_ok(1) demo_encodes d this _ demo_taken(1)]
  have "\<exists>s w2. demo_activate (w1\<lparr>faults := []\<rparr>) = (Inr s, w2) \<and> load_schedule demo_codecs demo_data w2 = Inr s"
    unfolding demo_activate_def by simp
  moreover have "faults (w\<lparr>faults := [FailsBefore]\<rparr>) = [FailsBefore]" by simp
  ultimately show ?thesis using run by blast
qed

text \<open>
  C29. Nothing runs ahead of the disk. However a run of \<^verbatim>\<open>activate_policy\<close> ends, on a batch kept outside
  the phone's epoch directories, a rollover handed to the network is that of a batch that passed every
  check, with everything needed to use it or to repeat the activation already staged (\<open>epoch_staged\<close>):
  the rollover, the schedule, the sealed package with the manifest and all its PSBTs, for every step the
  PSBT of its authorization and, if there is an emergency access, those of its trigger and withdrawal,
  each in a file that the schedule names and that opens to it again. At most one transaction is sent, and
  the active schedule is replaced only after the backend returned the expected id of that rollover.
\<close>

theorem activation_never_runs_ahead:
  assumes "lib_txid_text L" and "hot_laws Y C"
    and "\<forall>m t. load_manifest C batch_dir w = Inr m \<longrightarrow> batch_outside L data_dir t batch_dir m"
    and "activate_policy L K Y C nonces B data_dir batch_dir w = (r, w')"
  shows "(accepted w' = accepted w \<or> (\<exists>m phone tx previous s.
        activation_ready L K C B data_dir batch_dir w m phone tx previous \<and> accepted w' = accepted w @ [tx]
        \<and> epoch_staged L Y C data_dir batch_dir (seed_bytes Y (dk_seed phone)) m tx s w w'))
    \<and> (read_json (schedule_codec C) (join_str data_dir SCHEDULE_FILE) w'
        = read_json (schedule_codec C) (join_str data_dir SCHEDULE_FILE) w
      \<or> (\<exists>m phone tx previous s. activation_ready L K C B data_dir batch_dir w m phone tx previous
        \<and> snd (bc_broadcast B (accepted w) tx) = Inr (compute_txid L tx)
        \<and> read_json (schedule_codec C) (join_str data_dir SCHEDULE_FILE) w' = Inr s
        \<and> epoch_staged L Y C data_dir batch_dir (seed_bytes Y (dk_seed phone)) m tx s w w'))"
proof (intro conjI)
  show "accepted w' = accepted w \<or> (\<exists>m phone tx previous s.
        activation_ready L K C B data_dir batch_dir w m phone tx previous \<and> accepted w' = accepted w @ [tx]
        \<and> epoch_staged L Y C data_dir batch_dir (seed_bytes Y (dk_seed phone)) m tx s w w')"
    using activation_broadcast_staged [OF assms] by metis
  show "read_json (schedule_codec C) (join_str data_dir SCHEDULE_FILE) w'
        = read_json (schedule_codec C) (join_str data_dir SCHEDULE_FILE) w
      \<or> (\<exists>m phone tx previous s. activation_ready L K C B data_dir batch_dir w m phone tx previous
        \<and> snd (bc_broadcast B (accepted w) tx) = Inr (compute_txid L tx)
        \<and> read_json (schedule_codec C) (join_str data_dir SCHEDULE_FILE) w' = Inr s
        \<and> epoch_staged L Y C data_dir batch_dir (seed_bytes Y (dk_seed phone)) m tx s w w')"
    using activation_schedule_safe [OF assms] by (metis snd_conv)
qed

theorem activation_never_runs_ahead_witness:
  "\<exists>w s w' seed m tx s'. demo_activate w = (Inr s, w') \<and> accepted w' = accepted w @ [tx]
    \<and> epoch_staged demo_lib demo_crypto demo_codecs demo_data demo_dir seed m tx s' w w'"
proof -
  obtain w s w' where run: "demo_activate w = (Inr s, w')" and sent: "accepted w' \<noteq> accepted w"
    and apart: "\<forall>m t. load_manifest demo_codecs demo_dir w = Inr m \<longrightarrow> batch_outside demo_lib demo_data t demo_dir m"
    by (rule demo_activates)
  from activation_never_runs_ahead [OF demo_txid_text demo_hot_laws apart run [unfolded demo_activate_def], THEN conjunct1] sent
  obtain m and phone :: device_keys and tx s' where "accepted w' = accepted w @ [tx]"
    "epoch_staged demo_lib demo_crypto demo_codecs demo_data demo_dir (seed_bytes demo_crypto (dk_seed phone)) m tx s' w w'"
    by blast
  then show ?thesis using run by blast
qed

section \<open>Approval and rotation\<close>

text \<open>
  C30. What an approval by the hardware wallet means. If \<^verbatim>\<open>approve_policy_for_config\<close> returns, then
  the batch it was given was valid, the manifest on disk is the one it returned and differs from the
  old one only in the approval flag, and at each vault input of each of its transactions the PSBT on disk
  now holds signatures that verify under the phone's key of the configuration and under the vault key of
  the device file the hardware wallet holds, which is the configuration's. Nothing but the files of that
  batch changed.
\<close>

theorem approval_signs_the_batch:
  assumes "lib_sign_laws L" and "psbt_text_ok C" and "codec_ok (manifest_codec C)"
    and "approve_policy_for_config L K C data_dir config dir w = (Inr m', w')"
    and "load_manifest C dir w = Inr m"
    and "resolve (join_str dir ''manifest.json'') \<notin>
      (\<lambda>t. resolve (join_str dir (psbt_file t))) ` set (manifest_transactions m)"
  shows "m' = m\<lparr>hww_approved := True\<rparr> \<and> load_manifest C dir w' = Inr m' \<and> touches (batch_keys dir m) w w'
    \<and> (\<exists>policy hww phone_pubkey. validate_batch L C config m dir w = Inr policy
      \<and> xonly_from_str L (phone_vault_pubkey config) = Some phone_pubkey
      \<and> load_device_keys L K C data_dir HWW_DEVICE_FILE w = Inr hww
      \<and> xonly_to_string L (vault_pubkey hww) = hww_vault_pubkey config
      \<and> list_all (both_approved L C dir policy phone_pubkey (vault_pubkey hww) w') (manifest_transactions m))"
proof -
  have "touches (batch_keys dir m) w w'" using approve_policy_for_config_touches [OF assms(5)] assms(4) by (metis snd_conv)
  then show ?thesis using approve_policy_for_config_Inr [OF assms] unfolding list_all_iff by blast
qed

theorem approval_signs_the_batch_witness:
  "\<exists>m w m' w' policy pk hww. demo_build demo_world = (Inr m, w) \<and> demo_approve w = (Inr m', w') \<and> hww_approved m'
    \<and> xonly_from_str demo_lib (phone_vault_pubkey demo_config) = Some pk
    \<and> load_device_keys demo_lib demo_keys demo_codecs demo_data HWW_DEVICE_FILE w = Inr hww
    \<and> list_all (both_approved demo_lib demo_codecs demo_dir policy pk (vault_pubkey hww) w') (manifest_transactions m)"
proof -
  obtain m w m' w' where run: "demo_build demo_world = (Inr m, w)" and ap: "demo_approve w = (Inr m', w')"
    by (rule demo_run)
  from approval_signs_the_batch [OF demo_sign_laws demo_psbt_text_ok demo_codecs_ok(4) ap [unfolded demo_approve_def]
      demo_built(2,4) [OF run]]
  obtain policy pk hww where "m' = m\<lparr>hww_approved := True\<rparr>"
    "xonly_from_str demo_lib (phone_vault_pubkey demo_config) = Some pk"
    "load_device_keys demo_lib demo_keys demo_codecs demo_data HWW_DEVICE_FILE w = Inr hww"
    "list_all (both_approved demo_lib demo_codecs demo_dir policy pk (vault_pubkey hww) w') (manifest_transactions m)"
    by blast
  moreover from this(1) have "hww_approved m'" by simp
  ultimately show ?thesis using run ap by blast
qed




text \<open>
  C32. An epoch that was active and has been replaced cannot come back. When another rollover is the
  active one and the epoch of this batch carries the marker of an activation, \<^verbatim>\<open>activate_policy\<close>
  fails and leaves the whole world, the files and the network, as it was.
\<close>

theorem superseded_epoch_refused:
  assumes "previous_epoch L C data_dir w = Inr (Some prev)" and "prev \<noteq> compute_txid L tx"
    and "path_exists w (join_str (epoch_path L data_dir (compute_txid L tx)) ''activated.json'')"
    and "load_manifest C batch_dir w = Inr m" and "read_psbt C (join_str batch_dir (psbt_file (rollover m))) w = Inr psbt"
    and "finalize_vault_psbt L psbt = Inr tx"
  shows "\<exists>e. activate_policy L K Y C nonces B data_dir batch_dir w = (Inl e, w)"
  using superseded_refused [OF assms] .

lemma demo_superseded:
  obtains w m psbt tx where "previous_epoch demo_lib demo_codecs demo_data w = Inr (Some (Suc (compute_txid demo_lib tx)))"
    and "path_exists w (join_str (epoch_path demo_lib demo_data (compute_txid demo_lib tx)) ''activated.json'')"
    and "load_manifest demo_codecs demo_dir w = Inr m"
    and "read_psbt demo_codecs (join_str demo_dir (psbt_file (rollover m))) w = Inr psbt"
    and "finalize_vault_psbt demo_lib psbt = Inr tx"
proof -
  obtain w m phone tx where d: "activation_ready demo_lib demo_keys demo_codecs demo_chain demo_data demo_dir w m phone tx None"
    "batch_apart demo_lib demo_data demo_dir m"
    by (rule demo_activation)
  then obtain psbt where m: "load_manifest demo_codecs demo_dir w = Inr m"
      "read_psbt demo_codecs (join_str demo_dir (psbt_file (rollover m))) w = Inr psbt" "finalize_vault_psbt demo_lib psbt = Inr tx"
    by (auto simp: activation_ready_def)
  define s where "s = \<lparr>sc_version = 5, sc_rollover_txid = show_nat (Suc (compute_txid demo_lib tx)),
      sc_controller_descriptor = [], sc_controller_address = [], sc_connector_value_sats = 0, sc_monthly_limit_sats = 0,
      sc_monthly_delay_seconds = 0, sc_emergency_access_limit_sats = 0, sc_entries = [], sc_emergency_access = None\<rparr>"
  define mk where "mk = join_str (epoch_path demo_lib demo_data (compute_txid demo_lib tx)) ''activated.json''"
  define v where "v = w\<lparr>files := (schedule_key demo_data, DSchedule s) # (resolve mk, DBool True) # files w\<rparr>"
  have sched: "file_at v (join_str demo_data SCHEDULE_FILE) = Some (DSchedule s)"
    by (simp add: v_def file_at_def schedule_key_def)
  have read: "from_json (schedule_codec demo_codecs) (DSchedule s) = Some s" "txid_from_str demo_lib = demo_digits 0"
    by (simp_all add: demo_codecs_def demo_lib_def)
  have "resolve mk \<in> phone_keys demo_lib demo_data"
    using phone_keys_epoch(1) [OF epoch_file_key [OF demo_txid_text plain_artifacts(4)]] by (simp add: mk_def)
  then have k: "resolve mk \<in> activation_keys demo_lib demo_data" "schedule_key demo_data \<in> activation_keys demo_lib demo_data"
    by (auto simp: activation_keys_def phone_keys_def)
  have same: "read_file p v = read_file p w" if "resolve p \<notin> activation_keys demo_lib demo_data" for p
    using that k by (auto simp: read_file_def file_at_def v_def)
  show thesis
  proof (rule that)
    show "previous_epoch demo_lib demo_codecs demo_data v = Inr (Some (Suc (compute_txid demo_lib tx)))"
      using demo_digits_show sched read
      by (simp add: previous_epoch_def load_schedule_def read_json_def read_file_def) (simp add: s_def)
    show "path_exists v (join_str (epoch_path demo_lib demo_data (compute_txid demo_lib tx)) ''activated.json'')"
      by (simp add: path_exists_def file_at_def v_def mk_def [symmetric])
    show "load_manifest demo_codecs demo_dir v = Inr m"
      using m(1) d(2) by (simp add: load_manifest_def read_json_def same batch_apart_def)
    show "read_psbt demo_codecs (join_str demo_dir (psbt_file (rollover m))) v = Inr psbt"
      using m(2) same [of "join_str demo_dir (psbt_file (rollover m))"] d(2)
      by (simp add: read_psbt_def batch_apart_def manifest_transactions_def)
  qed (rule m(3))
qed

theorem superseded_epoch_refused_witness:
  "\<exists>w e. previous_epoch demo_lib demo_codecs demo_data w \<noteq> Inr None \<and> demo_activate w = (Inl e, w)"
proof -
  obtain w m psbt tx where d: "previous_epoch demo_lib demo_codecs demo_data w = Inr (Some (Suc (compute_txid demo_lib tx)))"
    "path_exists w (join_str (epoch_path demo_lib demo_data (compute_txid demo_lib tx)) ''activated.json'')"
    "load_manifest demo_codecs demo_dir w = Inr m"
    "read_psbt demo_codecs (join_str demo_dir (psbt_file (rollover m))) w = Inr psbt"
    "finalize_vault_psbt demo_lib psbt = Inr tx"
    by (rule demo_superseded)
  have "Suc (compute_txid demo_lib tx) \<noteq> compute_txid demo_lib tx" by simp
  from superseded_epoch_refused [OF d(1) this d(2-5)] d(1) show ?thesis
    unfolding demo_activate_def by (metis Inr_inject option.distinct(1))
qed

end
