(* ===== verification/Demo_Confirm.thy ===== *)
theory Demo_Confirm
  imports Demo_Cli
begin

text \<open>
  The two evaluated runs of \<^verbatim>\<open>hww confirm-policy\<close>: the user types \<open>approve\<close>, and the hardware
  wallet writes a fully approved policy with a monthly limit of 10000 sat to standard output. In the
  second run the manifest shown to the user had a limit of 1 sat.
\<close>

lemma honest_run_ok: "is_ok (fst (bindM (demo_offer id) (\<lambda>_.
    bindM (hww_confirm_policy demo_machine demo_data demo_proposal dash False) (\<lambda>out.
    liftM (demo_signed 10000 out))) demo_world))"
  by code_simp

lemma dishonest_run_ok: "is_ok (fst (bindM (demo_offer dishonest) (\<lambda>_.
    bindM (hww_confirm_policy demo_machine demo_data demo_proposal dash False) (\<lambda>out.
    liftM (demo_signed 10000 out))) demo_world))"
  by code_simp

end
