(* ===== verification/Package_Transport.thy ===== *)
theory Package_Transport
  imports Activation_Live
begin

text \<open>
  A policy package carries a batch from one directory to another: the files \<^verbatim>\<open>materialize_policy_package\<close>
  writes read as the files \<^verbatim>\<open>package_from_batch\<close> read.
\<close>

definition read_text :: "('b, 'z) ceremony_codecs_scheme \<Rightarrow> path \<Rightarrow> 'b world \<Rightarrow> 'b result" where
  "read_text C p w = bind_result (read_file p w) (\<lambda>b. ok_or (utf8_trim C b) (Sto ReadFailed))"

lemma read_psbt_text: "read_psbt C p w = bind_result (read_text C p w) (\<lambda>text. ok_or (psbt_from_text C text) (Lib PsbtParseError))"
  by (cases "read_file p w") (simp_all add: read_psbt_def read_text_def)

lemma collect_psbts_text: "collect_psbts C dir w ts = try_fold (\<lambda>psbts t.
    bind_result (read_text C (join_str dir (psbt_file t)) w) (\<lambda>text. Inr (btree_insert (psbt_file t) text psbts))) [] ts"
  unfolding collect_psbts_def
proof (rule try_fold_cong_set)
  fix acc t
  show "bind_result (read_file (join_str dir (psbt_file t)) w) (\<lambda>b. bind_result (ok_or (utf8_trim C b) (Sto ReadFailed))
      (\<lambda>text. Inr (btree_insert (psbt_file t) text acc)))
    = bind_result (read_text C (join_str dir (psbt_file t)) w) (\<lambda>text. Inr (btree_insert (psbt_file t) text acc))"
    by (cases "read_file (join_str dir (psbt_file t)) w") (simp_all add: read_text_def)
qed

lemma set_btree_insert: "set (btree_insert k v m) \<subseteq> insert (k, v) (set m)"
  by (induction k v m rule: btree_insert.induct) auto

lemma collected:
  assumes "collect_psbts C dir w ts = Inr ps"
  shows "fst ` set ps = psbt_file ` set ts" and "distinct (map fst ps)"
    and "\<forall>(n, x) \<in> set ps. read_text C (join_str dir n) w = Inr x"
proof -
  have "fst ` set qs = fst ` set acc \<union> psbt_file ` set ts \<and> btree_ok qs
      \<and> (\<forall>(n, x) \<in> set qs. read_text C (join_str dir n) w = Inr x)"
    if "try_fold (\<lambda>psbts t. bind_result (read_text C (join_str dir (psbt_file t)) w) (\<lambda>text.
          Inr (btree_insert (psbt_file t) text psbts))) acc ts = Inr qs"
      "btree_ok acc" "\<forall>(n, x) \<in> set acc. read_text C (join_str dir n) w = Inr x" for acc qs
    using that
  proof (induction ts arbitrary: acc)
    case (Cons t ts)
    then obtain x where x: "read_text C (join_str dir (psbt_file t)) w = Inr x" by auto
    then have "\<forall>(n, y) \<in> set (btree_insert (psbt_file t) x acc). read_text C (join_str dir n) w = Inr y"
      using Cons.prems(3) set_btree_insert [of "psbt_file t" x acc] by auto
    then show ?case
      using Cons.IH [OF _ btree_ok_insert [OF Cons.prems(2)]] Cons.prems(1) x by (auto simp: set_fst_btree_insert)
  qed auto
  from this [of "[]" ps] assms
  show "fst ` set ps = psbt_file ` set ts" "distinct (map fst ps)" "\<forall>(n, x) \<in> set ps. read_text C (join_str dir n) w = Inr x"
    unfolding collect_psbts_text by (auto simp: btree_ok_def [where m = "[]"] intro: btree_ok_distinct)
qed

lemma materialize_psbt_Inr:
  assumes "materialize_psbt C dir e w = (Inr u, w')"
  shows "file_at w' p = (if resolve p = resolve (join_str dir (fst e)) then Some (with_newline C (snd e)) else file_at w p)"
  using assms by (auto simp: materialize_psbt_def dest!: write_private_Inr [where q = p] split: if_splits)

lemma materialized_others:
  assumes "forM ps (materialize_psbt C dir) w = (Inr u, w')" and "\<forall>q \<in> set ps. resolve (join_str dir (fst q)) \<noteq> resolve p"
  shows "file_at w' p = file_at w p"
  using assms by (induction ps arbitrary: w) (auto simp: materialize_psbt_Inr)

lemma materialized_psbts:
  assumes "forM ps (materialize_psbt C dir) w = (Inr u, w')" and "inj_on (\<lambda>n. resolve (join_str dir n)) (fst ` set ps)"
    and "distinct (map fst ps)" and "e \<in> set ps"
  shows "file_at w' (join_str dir (fst e)) = Some (with_newline C (snd e))"
proof -
  show ?thesis
    using assms
  proof (induction ps arbitrary: w)
    case (Cons q ps)
    then obtain w1 where q: "materialize_psbt C dir q w = (Inr (), w1)" and rest: "forM ps (materialize_psbt C dir) w1 = (Inr u, w')"
      by auto
    show ?case
    proof (cases "e \<in> set ps")
      case True
      then show ?thesis using Cons.IH [OF rest] Cons.prems(2,3) by (auto simp: inj_on_def)
    next
      case False
      then have "e = q" using Cons.prems(4) by simp
      moreover have "\<forall>x \<in> set ps. resolve (join_str dir (fst x)) \<noteq> resolve (join_str dir (fst q))"
        using Cons.prems(2,3) by (auto simp: inj_on_def image_iff)
      ultimately show ?thesis using materialized_others [OF rest] materialize_psbt_Inr [OF q] by simp
    qed
  qed simp
qed

definition names_apart :: "path \<Rightarrow> batch_manifest \<Rightarrow> bool" where
  \<comment> \<open>the files of a batch are different files, and none is the manifest\<close>
  "names_apart dir m \<longleftrightarrow> inj_on (\<lambda>n. resolve (join_str dir n)) (insert ''manifest.json'' (psbt_file ` set (manifest_transactions m)))
     \<and> ''manifest.json'' \<notin> psbt_file ` set (manifest_transactions m)"

lemma names_apartI:
  assumes "distinct (map (\<lambda>n. resolve (join_str dir n)) (''manifest.json'' # ns))"
    and "psbt_file ` set (manifest_transactions m) = set ns"
  shows "names_apart dir m"
  unfolding names_apart_def assms(2) list.set(2) [symmetric]
  using assms(1) unfolding distinct_map by (metis distinct.simps(2))

lemma package_travels:
  assumes "psbt_text_ok C" and "codec_ok (manifest_codec C)" and "package_from_batch C dir w = Inr package"
    and "materialize_policy_package C package dir' v = (Inr u, v')" and "names_apart dir' (pp_manifest package)"
  shows "load_manifest C dir' v' = Inr (pp_manifest package)"
    and "t \<in> set (manifest_transactions (pp_manifest package)) \<Longrightarrow>
      read_text C (join_str dir' (psbt_file t)) v' = read_text C (join_str dir (psbt_file t)) w"
proof -
  let ?m = "pp_manifest package"
  have ps: "collect_psbts C dir w (manifest_transactions ?m) = Inr (pp_psbts package)"
    using assms(3) by (auto simp: package_from_batch_def)
  note col = collected [OF ps]
  obtain v1 v2 where wr: "write_json (manifest_codec C) (join_str dir' ''manifest.json'') ?m v1 = (Inr (), v2)"
    and all: "forM (pp_psbts package) (materialize_psbt C dir') v2 = (Inr u, v')"
    using assms(4) by (auto simp: materialize_policy_package_def split: if_splits)
  have inj: "inj_on (\<lambda>n. resolve (join_str dir' n)) (fst ` set (pp_psbts package))"
    using assms(5) unfolding col(1) names_apart_def by (auto intro: inj_on_subset)
  have "resolve (join_str dir' n) \<noteq> resolve (join_str dir' ''manifest.json'')" if "n \<in> psbt_file ` set (manifest_transactions ?m)" for n
  proof
    assume "resolve (join_str dir' n) = resolve (join_str dir' ''manifest.json'')"
    from inj_onD [OF conjunct1 [OF assms(5) [unfolded names_apart_def]] this insertI2 [OF that] insertI1] that
    show False using conjunct2 [OF assms(5) [unfolded names_apart_def]] by simp
  qed
  then have "file_at v' (join_str dir' ''manifest.json'') = file_at v2 (join_str dir' ''manifest.json'')"
    by (intro materialized_others [OF all] ballI) (simp flip: col(1))
  then show "load_manifest C dir' v' = Inr ?m"
    using json.fetch_put [OF assms(2) wr] by (simp add: load_manifest_def read_json_def read_file_def)
  assume t: "t \<in> set (manifest_transactions ?m)"
  then have "psbt_file t \<in> fst ` set (pp_psbts package)" unfolding col(1) by (rule imageI)
  then obtain x where x: "(psbt_file t, x) \<in> set (pp_psbts package)" by auto
  then have "read_text C (join_str dir (psbt_file t)) w = Inr x" using col(3) by auto
  moreover have "file_at v' (join_str dir' (psbt_file t)) = Some (with_newline C x)"
    using materialized_psbts [OF all inj col(2) x] by simp
  ultimately show "read_text C (join_str dir' (psbt_file t)) v' = read_text C (join_str dir (psbt_file t)) w"
    using assms(1) by (auto simp: read_text_def read_file_def psbt_text_ok_def ok_or_def split: option.splits)
qed

end
