(* ===== verification/Command_Properties.thy ===== *)
theory Command_Properties
  imports Demo_Confirm Activation_Properties Package_Transport Wallet_Properties
begin

text \<open>
  Properties of the command-line program: what it refuses, what a confirmation on the hardware wallet
  covers, and that its commands agree with one another.
\<close>

section \<open>A machine for the witnesses\<close>

definition cloud_blob :: "demo_cloud encrypted_blob \<Rightarrow> demo_cloud" where
  "cloud_blob b = CBlob (blob_version b) (blob_purpose b) (blob_nonce b) (blob_ciphertext b)"

definition cloud_unblob :: "demo_cloud \<Rightarrow> demo_cloud encrypted_blob option" where
  "cloud_unblob c = (case c of CBlob v purpose n x \<Rightarrow>
       Some \<lparr>blob_version = v, blob_purpose = purpose, blob_nonce = n, blob_ciphertext = x\<rparr> | _ \<Rightarrow> None)"

definition cloud_backup_codec :: "(demo_cloud, demo_cloud cloud_recovery_backup) codec" where
  "cloud_backup_codec = \<lparr>
     to_json = (\<lambda>b. map_option (\<lambda>fs. CBackup (cb_version b) (cb_kind b) (cloud_blob (encrypted_payload b))
       (cloud_blob (hww_encrypted_symmetric_key b)) fs (cloud_blob (encrypted_friend_manifest b)))
       (to_json (friends_codec demo_pgp) (friends b))),
     from_json = (\<lambda>c. case c of CBackup v k p h fs m \<Rightarrow>
       (case (cloud_unblob p, cloud_unblob h, from_json (friends_codec demo_pgp) fs, cloud_unblob m) of
          (Some p', Some h', Some fs', Some m') \<Rightarrow> Some \<lparr>cb_version = v, cb_kind = k, encrypted_payload = p',
            hww_encrypted_symmetric_key = h', friends = fs', encrypted_friend_manifest = m'\<rparr> | _ \<Rightarrow> None) | _ \<Rightarrow> None)\<rparr>"

lemma cloud_backup_codec_ok: "codec_ok cloud_backup_codec"
proof -
  have [simp]: "cloud_unblob (cloud_blob b) = Some b" for b by (simp add: cloud_blob_def cloud_unblob_def)
  show ?thesis using demo_friends_codec by (auto simp: codec_ok_def cloud_backup_codec_def)
qed

definition cloud_codecs :: "demo_cloud cli_codecs" where
  "cloud_codecs = \<lparr>
     config_codec = \<lparr>to_json = (\<lambda>x. Some (CConfig x)), from_json = (\<lambda>b. case b of CConfig x \<Rightarrow> Some x | _ \<Rightarrow> None)\<rparr>,
     device_codec = \<lparr>to_json = (\<lambda>x. Some (CDevice x)), from_json = (\<lambda>b. case b of CDevice x \<Rightarrow> Some x | _ \<Rightarrow> None)\<rparr>,
     public_device_codec = no_codec, manifest_codec = no_codec, psbt_to_text = (\<lambda>_. CKey 0), psbt_from_text = (\<lambda>_. None),
     with_newline = (\<lambda>b. b), utf8_trim = Some, backup_codec = cloud_backup_codec, blob_codec = no_codec,
     utf8_string = (\<lambda>_. None), schedule_codec = no_codec, tx_codec = no_codec, bool_codec = no_codec, package_codec = no_codec,
     enc_tx_codec = no_codec, enc_emergency_codec = no_codec, recovery_package_codec = no_codec, sweep_package_codec = no_codec,
     rotation_package_codec = no_codec, approved_input_codec = no_codec\<rparr>"

definition cloud_wallet :: "demo_cloud bdk_lib" where
  "cloud_wallet = \<lparr>bdk_new_db = (\<lambda>_ _ _. CKey 0), bdk_load_db = (\<lambda>_ _ _ _. True), bdk_receive = (\<lambda>_. []),
     bdk_change = (\<lambda>_. []), bdk_has_utxo = (\<lambda>_ _. True), bdk_balance = (\<lambda>_. (0, 0)), bdk_finish = (\<lambda>_ _. None),
     bdk_sign = (\<lambda>_. None), bdk_extract = (\<lambda>_. None), bdk_fee = (\<lambda>_ _. None), bdk_persist = (\<lambda>_. True),
     bdk_full_scan = (\<lambda>_ _. True), bdk_sync = (\<lambda>_. True), bdk_emit = (\<lambda>_. True)\<rparr>"

definition cloud_machine :: "demo_cloud machine" where
  "cloud_machine = \<lparr>m_lib = demo_lib, m_keys = demo_keys, m_pgp = demo_pgp, m_codecs = cloud_codecs,
     m_bdk = cloud_wallet, m_serialize = (\<lambda>_. []), m_threads = (\<lambda>_ _. vanity_start 1), m_parallelism = None,
     m_dial = (\<lambda>_. None), m_genesis = (\<lambda>_. 0), m_rpc = (\<lambda>_ _ _. None), m_set_mock_time = (\<lambda>_. True),
     m_mine = (\<lambda>_ _. True), m_clock = 0, m_timestamp_ok = (\<lambda>_. True), m_random = 1,
     m_entropy = demo_entropy, m_new_entropy = demo_entropy, m_nonces = demo_nonces, m_stdin = None, m_response = None\<rparr>"

definition cloud_world :: "demo_cloud world" where
  \<comment> \<open>both devices initialized, and the key files of a recovery friend\<close>
  "cloud_world = \<lparr>files = [(resolve (join_str demo_data HWW_DEVICE_FILE),
       CDevice \<lparr>df_kind = ''hww'', df_network = ''regtest'', df_mnemonic = ''wwwwwwww'', df_vault_key_index = 0\<rparr>),
       (resolve (join_str demo_data PHONE_DEVICE_FILE),
        CDevice \<lparr>df_kind = ''phone'', df_network = ''regtest'', df_mnemonic = ''wwwwwww'', df_vault_key_index = 0\<rparr>),
       ([Normal ''friend''], CKey 9)],
     dirs = [], faults = [], hot_supply = [], change_supply = [], sync_discovered = False, accepted = []\<rparr>"

definition cloud_check :: "demo_cloud world \<Rightarrow> unit result" where
  \<comment> \<open>the friend's package holds the phone's secrets\<close>
  "cloud_check w =
     bind_result (friend_recovery_package cloud_machine demo_data (join_str demo_data PHONE_BACKUP_FILE) [Normal ''friend''] w) (\<lambda>package.
     bind_result (load_config cloud_codecs demo_data w) (\<lambda>config.
     bind_result (load_device cloud_codecs demo_data PHONE_DEVICE_FILE w) (\<lambda>stored.
     if df_network stored = vc_network config \<and> df_mnemonic stored = prp_phone_mnemonic package
       \<and> df_vault_key_index stored = prp_phone_vault_key_index package then Inr () else Inl Panic)))"

lemma cloud_run_ok: "is_ok (fst (bindM (cli_initialize_vault cloud_machine demo_data Regtest) (\<lambda>_.
    bindM (hww_add_recovery_friend cloud_machine demo_data [Normal ''friend''] True) (\<lambda>_. readM cloud_check)) cloud_world))"
  by code_simp

lemma cloud_run:
  obtains out w out' w' where "cli_initialize_vault cloud_machine demo_data Regtest cloud_world = (Inr out, w)"
    and "hww_add_recovery_friend cloud_machine demo_data [Normal ''friend''] True w = (Inr out', w')" and "cloud_check w' = Inr ()"
proof -
  obtain x w' where "bindM (cli_initialize_vault cloud_machine demo_data Regtest) (\<lambda>_.
      bindM (hww_add_recovery_friend cloud_machine demo_data [Normal ''friend''] True) (\<lambda>_. readM cloud_check)) cloud_world
      = (Inr x, w')"
    using cloud_run_ok
    by (cases "bindM (cli_initialize_vault cloud_machine demo_data Regtest) (\<lambda>_.
      bindM (hww_add_recovery_friend cloud_machine demo_data [Normal ''friend''] True) (\<lambda>_. readM cloud_check)) cloud_world")
      (auto simp: is_ok_def split: sum.splits)
  then show thesis by (elim bindM_E) (rule that, auto)
qed

definition demo_args :: chain_args where
  "demo_args = \<lparr>chain_backend = None, rpc_url = None, rpc_user = [], rpc_password = [], electrum_url = None\<rparr>"

section \<open>Refusals\<close>

definition consent_required :: "hww_command \<Rightarrow> bool" where
  \<comment> \<open>a confirmation without \<^verbatim>\<open>--yes\<close>\<close>
  "consent_required command = (case command of
       ConfirmPolicy _ _ yes \<Rightarrow> \<not> yes | AddRecoveryFriend _ yes \<Rightarrow> \<not> yes | RevokePolicy _ yes \<Rightarrow> \<not> yes
     | ConfirmSweep _ _ yes \<Rightarrow> \<not> yes | ConfirmRotation _ _ yes \<Rightarrow> \<not> yes | _ \<Rightarrow> False)"

lemma fails_readM: "(\<And>x. \<exists>e. f x w = (Inl e, w)) \<Longrightarrow> \<exists>e. bindM (readM g) f w = (Inl e, w)"
  by (cases "g w") (auto simp: bindM_def)

lemma fails_liftM: "(\<And>x. q = Inr x \<Longrightarrow> \<exists>e. f x w = (Inl e, w)) \<Longrightarrow> \<exists>e. bindM (liftM q) f w = (Inl e, w)"
  by (cases q) (auto simp: bindM_def)

text \<open>
  C33. The hardware wallet does nothing without consent. For every command that asks for a confirmation
  (a policy, a recovery friend, a revocation, a sweep, a rotation), unless \<^verbatim>\<open>--yes\<close> was given or
  the line typed at the prompt is \<open>approve\<close>, the command fails and the whole world is as before:
  nothing is signed, no file changes, no transaction is sent.
\<close>

theorem hardware_wallet_needs_consent:
  assumes "consent_required command"
    and "\<forall>line. m_response M = Some line \<longrightarrow> str_trim (m_pgp M) line \<noteq> ''approve''"
  shows "\<exists>e. run_hww M args data_dir network command w = (Inl e, w)"
proof -
  have no: "require_hww_approval M False p \<noteq> Inr x" for p x
    using assms(2) by (auto simp: require_hww_approval_def ok_or_def split: option.splits)
  show ?thesis
    using assms(1) unfolding run_hww_def consent_required_def
    by (cases command)
      (auto simp: hww_confirm_policy_def hww_add_recovery_friend_def hww_revoke_policy_def hww_confirm_sweep_def
        hww_confirm_rotation_def no intro!: fails_readM fails_liftM)
qed

theorem hardware_wallet_needs_consent_witness:
  "\<exists>e. run_hww (demo_machine\<lparr>m_response := Some ''no''\<rparr>) demo_args demo_data Regtest (ConfirmPolicy demo_proposal dash False) demo_world
    = (Inl e, demo_world)"
proof -
  have "consent_required (ConfirmPolicy demo_proposal dash False)" by (simp add: consent_required_def)
  moreover have "\<forall>line. m_response (demo_machine\<lparr>m_response := Some ''no''\<rparr>) = Some line \<longrightarrow>
      str_trim (m_pgp (demo_machine\<lparr>m_response := Some ''no''\<rparr>)) line \<noteq> ''approve''"
    by (simp add: demo_machine_def demo_no_pgp_def)
  ultimately show ?thesis by (rule hardware_wallet_needs_consent)
qed

definition on_network :: "'b machine \<Rightarrow> network \<Rightarrow> blockchain \<Rightarrow> bool" where
  \<comment> \<open>the backend of a server that reported the chain, or the genesis block, of this network\<close>
  "on_network M network backend \<longleftrightarrow>
     (\<exists>client info. cc_info client = Some info \<and> ci_chain info = network
        \<and> backend = core_blockchain (m_lib M) \<lparr>cb_client = client, cb_network = network\<rparr>)
   \<or> (\<exists>server client. m_dial M server = Some client \<and> ec_genesis client = Some (m_genesis M network)
        \<and> backend = electrum_blockchain (m_lib M) \<lparr>eb_client = client, eb_server = server, eb_network = network\<rparr>)"

definition connects_only_to :: "'b machine \<Rightarrow> chain_args \<Rightarrow> path \<Rightarrow> network \<Rightarrow> bool" where
  \<comment> \<open>every backend a command reaches while the data directory names this network, or by naming it itself\<close>
  "connects_only_to M args data_dir network \<longleftrightarrow>
     (\<forall>v. configured_network (m_codecs M) data_dir v = Inr (Some network) \<longrightarrow>
        (\<forall>backend. connect_chain M args data_dir v = Inr backend \<longrightarrow> on_network M network backend)
      \<and> (\<forall>backend sync. connect_hot M args data_dir v = Inr (backend, sync) \<longrightarrow> on_network M network backend))
   \<and> (\<forall>rpc. cli_connect_core M args network = Inr rpc \<longrightarrow> on_network M network (core_blockchain (m_lib M) rpc))"

lemma core_on_network: "cli_connect_core M args network = Inr rpc \<Longrightarrow> on_network M network (core_blockchain (m_lib M) rpc)"
  unfolding on_network_def by (auto simp: cli_connect_core_def core_connect_def core_chain_info_def split: if_splits)

lemma electrum_on_network:
  assumes "cli_connect_electrum M args network = Inr b"
  shows "on_network M network (electrum_blockchain (m_lib M) b)"
proof -
  obtain servers where "electrum_connect (m_dial M) (m_genesis M) network servers = Inr b"
    using assms by (auto simp: cli_connect_electrum_def electrum_connect_default_def split: option.splits network.splits)
  then have "eb_network b = network \<and> m_dial M (eb_server b) = Some (eb_client b) \<and> ec_genesis (eb_client b) = Some (m_genesis M network)"
    using electrum_first_Inr by (auto simp: electrum_connect_def split: if_splits)
  moreover from this have "b = \<lparr>eb_client = eb_client b, eb_server = eb_server b, eb_network = network\<rparr>" by (cases b) simp
  ultimately show ?thesis unfolding on_network_def by metis
qed

lemma load_config_exists: "load_config C data_dir w = Inr config \<Longrightarrow> config_exists data_dir w"
  by (auto simp: load_config_def config_path_def config_exists_def path_exists_def read_json_def read_file_def ok_or_def Let_def
      split: if_splits option.splits)

lemma connects_only_to: "connects_only_to M args data_dir network"
proof -
  have here: "n = network"
    if "configured_network (m_codecs M) data_dir v = Inr (Some network)" "load_config (m_codecs M) data_dir v = Inr config"
      "config_network config = Inr n" for v config n
    using that load_config_exists [OF that(2)] by (simp add: configured_network_def)
  have "on_network M network backend"
    if v: "configured_network (m_codecs M) data_dir v = Inr (Some network)" and c: "connect_chain M args data_dir v = Inr backend" for v backend
  proof -
    from c obtain config n kind where l: "load_config (m_codecs M) data_dir v = Inr config" "config_network config = Inr n"
        and "selected_backend args n = Inr kind"
      by (auto simp: connect_chain_def)
    moreover have "n = network" by (rule here [OF v l])
    ultimately show ?thesis using c by (cases kind) (auto simp: connect_chain_def intro: core_on_network electrum_on_network)
  qed
  moreover have "on_network M network backend"
    if v: "configured_network (m_codecs M) data_dir v = Inr (Some network)" and c: "connect_hot M args data_dir v = Inr (backend, sync)"
    for v backend sync
  proof -
    from c obtain config n kind where l: "load_config (m_codecs M) data_dir v = Inr config" "config_network config = Inr n"
        and "selected_backend args n = Inr kind"
      by (auto simp: connect_hot_def)
    moreover have "n = network" by (rule here [OF v l])
    ultimately show ?thesis using c by (cases kind) (auto simp: connect_hot_def intro: core_on_network electrum_on_network)
  qed
  ultimately show ?thesis unfolding connects_only_to_def using core_on_network by blast
qed

text \<open>
  C34. A command runs on the network the vault was made for or not at all. If a command succeeds or
  changes anything, it ran (\<open>run_command\<close>) with mainnet if \<^verbatim>\<open>--dangerously-enable-mainnet\<close> was given and
  with regtest otherwise; that is the network which the data directory names, if it names one; and the
  regtest node controls did not run on mainnet. A command that runs on a network connects to servers of that
  network only: to a Bitcoin Core node that reports its chain, or to an Electrum server with its genesis
  block.
\<close>

theorem commands_respect_the_network:
  assumes "configured_network (m_codecs M) data_dir w = Inr configured"
    and "run_main M args data_dir flag command w = (r, w')" and "w' \<noteq> w \<or> (\<exists>out. r = Inr out)"
  shows "\<exists>network. run_command M args data_dir network command w = (r, w') \<and> network = (if flag then Bitcoin else Regtest)
    \<and> configured \<in> {None, Some network} \<and> (network = Bitcoin \<longrightarrow> (\<nexists>c. command = Node c))
    \<and> connects_only_to M args data_dir network"
proof -
  obtain network where n: "command_network (m_codecs M) data_dir flag w = Inr network"
    and run: "run_command M args data_dir network command w = (r, w')"
    using assms(2,3) by (cases "command_network (m_codecs M) data_dir flag w") (auto simp: run_main_def bindM_def)
  have "network = (if flag then Bitcoin else Regtest) \<and> configured \<in> {None, Some network}"
    using n assms(1) by (auto simp: command_network_def split: option.splits network.splits if_splits)
  moreover have "\<nexists>c. command = Node c" if "network = Bitcoin"
    using run assms(3) that by (auto simp: run_command_def run_node_def bindM_def)
  ultimately show ?thesis using run connects_only_to by blast
qed

text \<open>A regtest node on the machine of the witnesses, and \<^verbatim>\<open>anzen status\<close> asking it.\<close>

definition demo_node :: core_client where
  "demo_node = \<lparr>cc_info = Some \<lparr>ci_chain = Regtest, ci_blocks = 7, ci_median_time = 1, ci_best_block_hash = 3\<rparr>,
     cc_scan = (\<lambda>_. Some (Some True, [])), cc_submit = (\<lambda>_ _. (False, CoreOtherError))\<rparr>"

definition demo_online :: "demo_content machine" where
  "demo_online = demo_machine\<lparr>m_rpc := \<lambda>_ _ _. Some demo_node\<rparr>"

theorem commands_respect_the_network_witness:
  "\<exists>out w'. run_main demo_online demo_args demo_data False Status demo_world = (Inr out, w')
    \<and> run_command demo_online demo_args demo_data Regtest Status demo_world = (Inr out, w')
    \<and> is_ok (connect_chain demo_online demo_args demo_data demo_world) \<and> connects_only_to demo_online demo_args demo_data Regtest"
proof -
  have c: "configured_network (m_codecs demo_online) demo_data demo_world = Inr (Some Regtest)"
    and k: "is_ok (connect_chain demo_online demo_args demo_data demo_world)" by code_simp+
  have "is_ok (fst (run_main demo_online demo_args demo_data False Status demo_world))" by code_simp
  then obtain out w' where run: "run_main demo_online demo_args demo_data False Status demo_world = (Inr out, w')"
    by (cases "run_main demo_online demo_args demo_data False Status demo_world") (auto simp: is_ok_def split: sum.splits)
  from commands_respect_the_network [OF c run] run k show ?thesis by auto
qed

section \<open>What a confirmation covers\<close>

definition json_not_psbt :: "('b, 'z) ceremony_codecs_scheme \<Rightarrow> bool" where
  \<comment> \<open>a JSON object is not the base64 text of a PSBT\<close>
  "json_not_psbt C \<longleftrightarrow> (\<forall>b m t. from_json (manifest_codec C) b = Some m \<longrightarrow> utf8_trim C b = Some t \<longrightarrow> psbt_from_text C t = None)"

lemma validated_reads:
  assumes "validate_batch L C config m dir w = Inr policy" and "t \<in> set (manifest_transactions m)"
  shows "\<exists>psbt. read_psbt C (join_str dir (psbt_file t)) w = Inr psbt"
proof -
  have "try_fold (\<lambda>_ t. bind_result (read_psbt C (join_str dir (psbt_file t)) w) validate_default_sighashes) u ts = Inr v
      \<Longrightarrow> t \<in> set ts \<Longrightarrow> \<exists>psbt. read_psbt C (join_str dir (psbt_file t)) w = Inr psbt" for u v ts
    by (induction ts arbitrary: u) auto
  then show ?thesis using assms by (auto simp: validate_batch_def validate_manifest_sighashes_def split: if_splits)
qed

lemma validated_manifest_apart:
  assumes "json_not_psbt C" and "load_manifest C dir w = Inr m" and "validate_batch L C config m dir w = Inr policy"
  shows "resolve (join_str dir ''manifest.json'') \<notin> (\<lambda>t. resolve (join_str dir (psbt_file t))) ` set (manifest_transactions m)"
proof
  assume "resolve (join_str dir ''manifest.json'') \<in> (\<lambda>t. resolve (join_str dir (psbt_file t))) ` set (manifest_transactions m)"
  then obtain t where t: "t \<in> set (manifest_transactions m)"
    and eq: "resolve (join_str dir ''manifest.json'') = resolve (join_str dir (psbt_file t))" by blast
  obtain psbt where "read_psbt C (join_str dir ''manifest.json'') w = Inr psbt"
    using validated_reads [OF assms(3) t] read_psbt_resolve [OF eq] by metis
  then show False using assms(1,2) by (auto simp: load_manifest_def read_json_def read_psbt_def json_not_psbt_def)
qed

lemma materialized_manifest:
  assumes "codec_ok (manifest_codec C)" and "materialize_policy_package C package dir w = (Inr u, w')"
  shows "load_manifest C dir w' = Inr (pp_manifest package)
    \<or> (\<exists>n \<in> fst ` set (pp_psbts package). resolve (join_str dir n) = resolve (join_str dir ''manifest.json''))"
proof (rule disjCI)
  let ?K = "(\<lambda>n. resolve (join_str dir n)) ` fst ` set (pp_psbts package)"
  assume apart: "\<not> (\<exists>n \<in> fst ` set (pp_psbts package). resolve (join_str dir n) = resolve (join_str dir ''manifest.json''))"
  obtain w1 w2 where wr: "write_json (manifest_codec C) (join_str dir ''manifest.json'') (pp_manifest package) w1 = (Inr (), w2)"
      and all: "forM (pp_psbts package) (materialize_psbt C dir) w2 = (Inr u, w')"
    using assms(2) by (auto simp: materialize_policy_package_def split: if_splits)
  have "touches ?K v (snd (materialize_psbt C dir e v))" if "e \<in> set (pp_psbts package)" for e and v :: "'a world"
    using that by (auto simp: materialize_psbt_def intro!: touches_write_private)
  then have "touches ?K w2 (snd (forM (pp_psbts package) (materialize_psbt C dir) w2))" by (rule touches_forM)
  then have "file_at w' (join_str dir ''manifest.json'') = file_at w2 (join_str dir ''manifest.json'')"
    using all apart touches_file_at [of ?K w2 w'] by force
  then show "load_manifest C dir w' = Inr (pp_manifest package)"
    using json.fetch_put [OF assms(1) wr] by (simp add: load_manifest_def read_json_def read_file_def)
qed

lemma review_keeps_device:
  assumes "reset_workspace (join_str data_dir ''hww/policy-review'') w = (r, v)"
    and "materialize_policy_package C package (join_str data_dir ''hww/policy-review'') v = (q, w1)"
  shows "load_device_keys L K C data_dir HWW_DEVICE_FILE w1 = load_device_keys L K C data_dir HWW_DEVICE_FILE w"
proof -
  let ?ws = "join_str data_dir ''hww/policy-review''"
  have "touches (below ?ws) w v" "touches (below ?ws) v w1"
    using touches_reset_workspace [of ?ws w] touches_materialize [of ?ws v C package] assms by simp_all
  then have t: "touches (below ?ws) w w1" by (rule touches_trans)
  have k: "safe_relative ''hww/policy-review''" "safe_relative HWW_DEVICE_FILE"
    "components ''hww/policy-review'' = [Normal ''hww'', Normal ''policy-review'']"
    "components HWW_DEVICE_FILE = [Normal ''hww'', Normal ''device.json'']" by code_simp+
  have out: "resolve (join_str data_dir HWW_DEVICE_FILE) \<notin> below ?ws"
    by (simp add: below_iff resolve_join_safe [OF k(1)] resolve_join_safe [OF k(2)] k(3,4))
  show ?thesis by (simp add: load_device_keys_def load_device_def read_json_touches [OF t out])
qed

text \<open>
  C35. What leaves the hardware wallet. If \<^verbatim>\<open>hww confirm-policy\<close> writes its output, the user
  consented, the manifest \<open>m\<close> in the review workspace passed \<^verbatim>\<open>validate_batch\<close> against the
  configuration, and the package written consists of that manifest with the approval flag set and of
  transactions with signatures at every vault input that verify under the phone's key of the
  configuration and under the vault key of the hardware wallet's own device file, as it was when the
  command started. That manifest is the one the user was shown, unless the package files something under
  the name \<open>manifest.json\<close> among its transactions.
\<close>

theorem confirmed_policy_is_validated_and_signed:
  assumes "lib_sign_laws (m_lib M)" and "psbt_text_ok (m_codecs M)" and "codec_ok (manifest_codec (m_codecs M))"
    and "json_not_psbt (m_codecs M)" and "workspace = join_str data_dir ''hww/policy-review''"
    and "hww_confirm_policy M data_dir proposal output yes w = (Inr out, w')"
  shows "\<exists>package m config policy pk hww w1 w2 approved.
      read_artifact M (package_codec (m_codecs M)) proposal w = Inr package
    \<and> require_hww_approval M yes proposal = Inr ()
    \<and> load_config (m_codecs M) data_dir w1 = Inr config \<and> load_manifest (m_codecs M) workspace w1 = Inr m
    \<and> validate_batch (m_lib M) (m_codecs M) config m workspace w1 = Inr policy
    \<and> (m = pp_manifest package \<or> (\<exists>n \<in> fst ` set (pp_psbts package).
          resolve (join_str workspace n) = resolve (join_str workspace ''manifest.json'')))
    \<and> package_from_batch (m_codecs M) workspace w2 = Inr approved \<and> pp_manifest approved = m\<lparr>hww_approved := True\<rparr>
    \<and> xonly_from_str (m_lib M) (phone_vault_pubkey config) = Some pk
    \<and> load_device_keys (m_lib M) (m_keys M) (m_codecs M) data_dir HWW_DEVICE_FILE w = Inr hww
    \<and> xonly_to_string (m_lib M) (vault_pubkey hww) = hww_vault_pubkey config
    \<and> list_all (both_approved (m_lib M) (m_codecs M) workspace policy pk (vault_pubkey hww) w2) (manifest_transactions m)
    \<and> write_artifact (package_codec (m_codecs M)) output approved w2 = (Inr out, w')"
proof -
  let ?L = "m_lib M" and ?C = "m_codecs M"
  obtain package v u0 u w1 m' w2 approved where
    pkg: "read_artifact M (package_codec ?C) proposal w = Inr package" "require_hww_approval M yes proposal = Inr ()"
    and reset: "reset_workspace workspace w = (Inr u0, v)"
    and mat: "materialize_policy_package ?C package workspace v = (Inr u, w1)"
    and ap: "approve_policy ?L (m_keys M) ?C data_dir workspace w1 = (Inr m', w2)"
    and out: "package_from_batch ?C workspace w2 = Inr approved" "write_artifact (package_codec ?C) output approved w2 = (Inr out, w')"
    using assms(6) unfolding hww_confirm_policy_def Let_def assms(5) [symmetric] by auto
  obtain config where c: "load_config ?C data_dir w1 = Inr config"
    and run: "approve_policy_for_config ?L (m_keys M) ?C data_dir config workspace w1 = (Inr m', w2)"
    using ap by (auto simp: approve_policy_def)
  obtain m policy0 where m: "load_manifest ?C workspace w1 = Inr m"
      and val: "validate_batch ?L ?C config m workspace w1 = Inr policy0"
    using run by (auto simp: approve_policy_for_config_def Let_def)
  note signed = approve_policy_for_config_Inr [OF assms(1-3) run m validated_manifest_apart [OF assms(4) m val]]
  then obtain policy hww pk where "validate_batch ?L ?C config m workspace w1 = Inr policy"
      and man: "load_manifest ?C workspace w2 = Inr (m\<lparr>hww_approved := True\<rparr>)"
      and hww: "load_device_keys ?L (m_keys M) ?C data_dir HWW_DEVICE_FILE w1 = Inr hww"
      and "xonly_to_string ?L (vault_pubkey hww) = hww_vault_pubkey config"
      and "xonly_from_str ?L (phone_vault_pubkey config) = Some pk"
      and "list_all (both_approved ?L ?C workspace policy pk (vault_pubkey hww) w2) (manifest_transactions m)"
    unfolding list_all_iff by blast
  moreover have "load_device_keys ?L (m_keys M) ?C data_dir HWW_DEVICE_FILE w = Inr hww"
    using review_keeps_device [OF reset [unfolded assms(5)] mat [unfolded assms(5)], of ?L "m_keys M"] hww by simp
  moreover have "pp_manifest approved = m\<lparr>hww_approved := True\<rparr>"
    using out(1) man by (auto simp: package_from_batch_def)
  moreover have "m = pp_manifest package \<or> (\<exists>n \<in> fst ` set (pp_psbts package).
          resolve (join_str workspace n) = resolve (join_str workspace ''manifest.json''))"
    using materialized_manifest [OF assms(3) mat] m by simp
  ultimately show ?thesis using pkg c m out by blast
qed

lemma demo_signed_iff: "demo_signed limit out = Inr u \<longleftrightarrow>
    (\<exists>v k m ps. out = Some (DPackage v k m ps) \<and> hww_approved m \<and> monthly_limit_sats m = limit)"
  by (auto simp: demo_signed_def split: option.splits demo_content.splits)

lemma demo_confirms:
  assumes "is_ok (fst (bindM (demo_offer pack) (\<lambda>_.
    bindM (hww_confirm_policy demo_machine demo_data demo_proposal dash False) (\<lambda>out.
    liftM (demo_signed limit out))) demo_world))"
  obtains package w v k m ps w' where "demo_offer pack demo_world = (Inr package, w)"
    and "read_artifact demo_machine (package_codec demo_cli_codecs) demo_proposal w = Inr package"
    and "hww_confirm_policy demo_machine demo_data demo_proposal dash False w = (Inr (Some (DPackage v k m ps)), w')"
    and "hww_approved m" and "monthly_limit_sats m = limit"
proof -
  obtain x w' where "bindM (demo_offer pack) (\<lambda>_.
      bindM (hww_confirm_policy demo_machine demo_data demo_proposal dash False) (\<lambda>out.
      liftM (demo_signed limit out))) demo_world = (Inr x, w')"
    using assms by (cases "bindM (demo_offer pack) (\<lambda>_.
      bindM (hww_confirm_policy demo_machine demo_data demo_proposal dash False) (\<lambda>out.
      liftM (demo_signed limit out))) demo_world") (auto simp: is_ok_def split: sum.splits)
  then obtain package w out w2 where offer: "demo_offer pack demo_world = (Inr package, w)"
    and run: "hww_confirm_policy demo_machine demo_data demo_proposal dash False w = (Inr out, w2)"
    and out: "demo_signed limit out = Inr x"
    by (elim bindM_E) auto
  have "codec_ok (package_codec demo_cli_codecs)" by (auto simp: codec_ok_def demo_cli_codecs_def demo_codecs_def)
  then have "read_json (package_codec demo_cli_codecs) demo_proposal w = Inr package"
    using offer json.fetch_put unfolding demo_offer_def by auto
  moreover have "demo_proposal \<noteq> dash" by code_simp
  ultimately have "read_artifact demo_machine (package_codec demo_cli_codecs) demo_proposal w = Inr package"
    by (simp add: read_artifact_def)
  then show thesis using that offer run out by (auto simp: demo_signed_iff)
qed

lemma demo_json_not_psbt: "json_not_psbt demo_cli_codecs"
  by (auto simp: json_not_psbt_def demo_cli_codecs_def demo_codecs_def split: demo_content.splits)

theorem confirmed_policy_is_validated_and_signed_witness:
  "\<exists>w package out w' approved. demo_offer id demo_world = (Inr package, w)
    \<and> hww_confirm_policy demo_machine demo_data demo_proposal dash False w = (Inr (Some out), w')
    \<and> from_json (package_codec demo_cli_codecs) out = Some approved \<and> hww_approved (pp_manifest approved)"
proof -
  obtain package w v k m ps w' where offer: "demo_offer id demo_world = (Inr package, w)"
    and run: "hww_confirm_policy demo_machine demo_data demo_proposal dash False w = (Inr (Some (DPackage v k m ps)), w')"
    by (rule demo_confirms [OF honest_run_ok])
  have laws: "lib_sign_laws (m_lib demo_machine)" "psbt_text_ok (m_codecs demo_machine)"
      "codec_ok (manifest_codec (m_codecs demo_machine))" "json_not_psbt (m_codecs demo_machine)"
    using demo_sign_laws demo_psbt_text_ok demo_json_not_psbt
    by (auto simp: demo_machine_def psbt_text_ok_def codec_ok_def demo_cli_codecs_def)
  from confirmed_policy_is_validated_and_signed [OF laws refl run]
  obtain m' w2 approved where a: "pp_manifest approved = m'\<lparr>hww_approved := True\<rparr>"
      and "write_artifact (package_codec (m_codecs demo_machine)) dash approved w2 = (Inr (Some (DPackage v k m ps)), w')"
    by blast
  then have "from_json (package_codec demo_cli_codecs) (DPackage v k m ps) = Some approved"
    by (auto simp: write_artifact_def demo_machine_def demo_cli_codecs_def demo_codecs_def)
  moreover have "hww_approved (pp_manifest approved)" using a by (cases m') simp
  ultimately show ?thesis using offer run by blast
qed

text \<open>
  C36. The exception in C35 is real. A dishonest phone can pack a proposal for which the text shown to
  the user says that the monthly limit is 1 sat, and the hardware wallet, after the user confirmed it,
  signs and writes out an approved policy with a monthly limit of 10000 sat.
\<close>

theorem displayed_limit_is_not_binding:
  "\<exists>w package out w' approved. read_artifact demo_machine (package_codec demo_cli_codecs) demo_proposal w = Inr package
    \<and> hww_confirm_policy demo_machine demo_data demo_proposal dash False w = (Inr (Some out), w')
    \<and> from_json (package_codec demo_cli_codecs) out = Some approved \<and> hww_approved (pp_manifest approved)
    \<and> ''Monthly limit: 1 sats'' \<in> set (manifest_report (pp_manifest package)) \<and> monthly_limit_sats (pp_manifest approved) = 10000"
proof -
  obtain package w v k m ps w' where offer: "demo_offer dishonest demo_world = (Inr package, w)"
    and r: "read_artifact demo_machine (package_codec demo_cli_codecs) demo_proposal w = Inr package"
    and run: "hww_confirm_policy demo_machine demo_data demo_proposal dash False w = (Inr (Some (DPackage v k m ps)), w')"
    and m: "hww_approved m" "monthly_limit_sats m = 10000"
    by (rule demo_confirms [OF dishonest_run_ok])
  have "monthly_limit_sats (pp_manifest package) = 1"
    using offer by (auto simp: demo_offer_def dishonest_def Let_def split: if_splits)
  moreover have "show_sats ''Monthly limit'' 1 = ''Monthly limit: 1 sats''" by code_simp
  ultimately have "''Monthly limit: 1 sats'' \<in> set (manifest_report (pp_manifest package))"
    by (simp add: manifest_report_def)
  moreover have "from_json (package_codec demo_cli_codecs) (DPackage v k m ps)
      = Some \<lparr>pp_version = v, pp_kind = k, pp_manifest = m, pp_psbts = ps\<rparr>"
    by (simp add: demo_cli_codecs_def demo_codecs_def)
  ultimately show ?thesis using r run m by fastforce
qed

section \<open>A well-formed vault\<close>

definition vault_ok :: "lib \<Rightarrow> vault_config \<Rightarrow> bool" where
  \<comment> \<open>both keys parse, and the descriptor and address are those of the vault of these keys on its network\<close>
  "vault_ok L config \<longleftrightarrow> vc_version config = 1
     \<and> phone_recovery_blocks config = PHONE_RECOVERY_BLOCKS \<and> hww_recovery_blocks config = HWW_RECOVERY_BLOCKS
     \<and> (\<exists>network phone hww policy. config_network config = Inr network
        \<and> xonly_from_str L (phone_vault_pubkey config) = Some phone \<and> xonly_from_str L (hww_vault_pubkey config) = Some hww
        \<and> vault_new L phone hww network = Inr policy \<and> vc_vault_descriptor config = vault_descriptor_string L policy
        \<and> vc_vault_address config = addr_text (vp_address policy))"

definition key_text_ok :: "lib \<Rightarrow> key_lib \<Rightarrow> bool" where
  \<comment> \<open>printed keys and mnemonics parse back\<close>
  "key_text_ok L K \<longleftrightarrow> (\<forall>k. xonly_from_str L (xonly_to_string L k) = Some k)
     \<and> (\<forall>s t. mnemonic_parse K s = Some t \<longrightarrow> mnemonic_parse K t = Some t)"

lemma data_file_key:
  assumes "f \<in> {CONFIG_FILE, PHONE_DEVICE_FILE, HWW_DEVICE_FILE, PHONE_BACKUP_FILE}"
  shows "resolve (join_str data_dir f) = resolve data_dir @ components f"
proof -
  have "list_all safe_relative [CONFIG_FILE, PHONE_DEVICE_FILE, HWW_DEVICE_FILE, PHONE_BACKUP_FILE]" by code_simp
  then show ?thesis using assms by (auto intro: resolve_join_safe)
qed

lemma data_files_apart:
  assumes "f \<in> {CONFIG_FILE, PHONE_DEVICE_FILE, HWW_DEVICE_FILE, PHONE_BACKUP_FILE}"
    and "g \<in> {CONFIG_FILE, PHONE_DEVICE_FILE, HWW_DEVICE_FILE, PHONE_BACKUP_FILE}" and "f \<noteq> g"
  shows "resolve (join_str data_dir f) \<noteq> resolve (join_str data_dir g)"
proof -
  have "distinct (map components [CONFIG_FILE, PHONE_DEVICE_FILE, HWW_DEVICE_FILE, PHONE_BACKUP_FILE])" by code_simp
  then show ?thesis using assms by (auto simp: data_file_key)
qed

lemma initial_config_ok:
  assumes "key_text_ok L K" and "initial_config L K network phone hww = Inr config" and "validate_supported_network network = Inr ()"
  shows "vault_ok L config \<and> config_network config = Inr network \<and> vc_monthly_limit_sats config = 0
    \<and> vc_emergency_access_limit_sats config = 0"
  using assms parse_network_name_of [OF assms(3)]
  by (auto simp: initial_config_def vault_ok_def key_text_ok_def config_network_def)

lemma payload_validates:
  assumes "key_text_ok L K" and "config_network config = Inr network" and "recovery_payload_new L config phone = Inr payload"
    and "parse_for_network_at_index L K words network i = Inr phone"
  shows "validate_against L K payload config = Inr ()"
proof -
  obtain mnemonic where m: "mnemonic_parse K words = Some mnemonic" "from_mnemonic L K mnemonic network i = Inr phone"
    using assms(4) by (auto simp: parse_for_network_at_index_def)
  have "dk_mnemonic phone = mnemonic" "vault_key_index phone = i" using from_mnemonic_fields [OF m(2)] by simp_all
  then show ?thesis
    using assms m by (auto simp: recovery_payload_new_def validate_against_def parse_for_network_at_index_def key_text_ok_def
        split: if_splits)
qed

lemma initialize_vault_Inr:
  assumes "key_text_ok (m_lib M) (m_keys M)" and "pgp_correct (m_pgp M)" and "codec_ok (config_codec (m_codecs M))"
    and "codec_ok (backup_codec (m_codecs M))" and "cli_initialize_vault M data_dir network w = (Inr out, w')"
  shows "\<exists>config hww backup payload. load_config (m_codecs M) data_dir w' = Inr config \<and> vault_ok (m_lib M) config
    \<and> config_network config = Inr network \<and> vc_monthly_limit_sats config = 0 \<and> vc_emergency_access_limit_sats config = 0
    \<and> load_device_keys (m_lib M) (m_keys M) (m_codecs M) data_dir HWW_DEVICE_FILE w' = Inr (hww :: device_keys)
    \<and> read_json (backup_codec (m_codecs M)) (join_str data_dir PHONE_BACKUP_FILE) w' = Inr backup
    \<and> decrypt_with_hww (m_pgp M) backup (seed_bytes (m_pgp M) (dk_seed hww)) = Inr payload
    \<and> validate_against (m_lib M) (m_keys M) payload config = Inr ()"
proof -
  let ?L = "m_lib M" and ?K = "m_keys M" and ?C = "m_codecs M" and ?P = "m_pgp M"
  obtain config w1 b where init: "initialize_vault_for_network ?L ?K ?C data_dir network w = (Inr config, w1)"
    and cloud: "create_cloud_recovery_backup ?L ?K ?P ?C (m_entropy M) data_dir config w1 = (Inr b, w')"
    using assms(5) by (auto simp: cli_initialize_vault_def)
  obtain phone_file words i phone hww where sup: "validate_supported_network network = Inr ()"
    and pf: "load_device ?C data_dir PHONE_DEVICE_FILE w = Inr phone_file" "device_network phone_file = Inr network"
    and ic: "initial_config ?L ?K network (phone :: device_keys) hww = Inr config"
    and wc: "write_json (config_codec ?C) (join_str data_dir CONFIG_FILE) config w = (Inr (), w1)"
    using init by (auto simp: initialize_vault_for_network_def split: if_splits)
  note ok = initial_config_ok [OF assms(1) ic sup]
  obtain phone2 hww2 payload where ld: "load_device_keys ?L ?K ?C data_dir PHONE_DEVICE_FILE w1 = Inr phone2"
      "load_device_keys ?L ?K ?C data_dir HWW_DEVICE_FILE w1 = Inr hww2"
    and pl: "recovery_payload_new ?L config phone2 = Inr payload"
    and cb: "create_backup ?P (m_entropy M) payload (seed_bytes ?P (dk_seed hww2)) [] = Inr b"
    and wb: "write_json (backup_codec ?C) (join_str data_dir PHONE_BACKUP_FILE) b w1 = (Inr (), w')"
    using cloud by (auto simp: create_cloud_recovery_backup_def)
  have names: "PHONE_DEVICE_FILE \<noteq> CONFIG_FILE" "CONFIG_FILE \<noteq> PHONE_BACKUP_FILE" "HWW_DEVICE_FILE \<noteq> PHONE_BACKUP_FILE"
    by code_simp+
  note apart = data_files_apart [OF _ _ names(1)] data_files_apart [OF _ _ names(2)] data_files_apart [OF _ _ names(3)]
  have "file_at w1 (join_str data_dir PHONE_DEVICE_FILE) = file_at w (join_str data_dir PHONE_DEVICE_FILE)"
    by (rule write_json_file_at [OF wc]) (simp add: apart)
  then have "load_device ?C data_dir PHONE_DEVICE_FILE w1 = Inr phone_file"
    using pf(1) by (simp add: load_device_def read_json_def read_file_def)
  then have "parse_for_network_at_index ?L ?K (df_mnemonic phone_file) network (df_vault_key_index phone_file) = Inr phone2"
    using ld(1) pf(2) by (simp add: load_device_keys_def)
  from payload_validates [OF assms(1) _ pl this] ok have val: "validate_against ?L ?K payload config = Inr ()" by blast
  have "read_json (config_codec ?C) (join_str data_dir CONFIG_FILE) w1 = Inr config" by (rule json.fetch_put [OF assms(3) wc])
  moreover have "file_at w' (join_str data_dir CONFIG_FILE) = file_at w1 (join_str data_dir CONFIG_FILE)"
    by (rule write_json_file_at [OF wb]) (simp add: apart)
  ultimately have rc: "read_json (config_codec ?C) (join_str data_dir CONFIG_FILE) w' = Inr config"
    and "file_at w' (join_str data_dir CONFIG_FILE) \<noteq> None"
    by (auto simp: read_json_def read_file_def ok_or_def split: option.splits)
  then have "load_config ?C data_dir w' = Inr config" by (simp add: load_config_def config_path_def path_exists_def Let_def)
  moreover have "file_at w' (join_str data_dir HWW_DEVICE_FILE) = file_at w1 (join_str data_dir HWW_DEVICE_FILE)"
    by (rule write_json_file_at [OF wb]) (simp add: apart)
  then have "load_device_keys ?L ?K ?C data_dir HWW_DEVICE_FILE w' = Inr hww2"
    using ld(2) by (simp add: load_device_keys_def load_device_def read_json_def read_file_def)
  ultimately show ?thesis
    using ok val json.fetch_put [OF assms(4) wb] decrypt_with_hww_create [OF assms(2) cb] by blast
qed

lemma cloud_laws:
  "key_text_ok (m_lib cloud_machine) (m_keys cloud_machine)" "pgp_correct (m_pgp cloud_machine)"
  "codec_ok (config_codec (m_codecs cloud_machine))" "codec_ok (backup_codec (m_codecs cloud_machine))"
  using demo_digits_show demo_pgp_correct cloud_backup_codec_ok
  by (auto simp: key_text_ok_def cloud_machine_def cloud_codecs_def demo_lib_def demo_keys_def codec_ok_def)

lemma cloud_fields: "m_lib cloud_machine = demo_lib" "m_codecs cloud_machine = cloud_codecs"
  by (simp_all add: cloud_machine_def)

lemma cloud_initialized:
  assumes "cli_initialize_vault cloud_machine demo_data Regtest cloud_world = (Inr out, w)"
  shows "\<exists>config. load_config cloud_codecs demo_data w = Inr config \<and> vault_ok demo_lib config"
  using initialize_vault_Inr [OF cloud_laws assms] unfolding cloud_fields by blast

definition demo_activate_cloud :: "(demo_cloud, schedule) io" where
  "demo_activate_cloud = activate_policy demo_lib demo_keys demo_pgp cloud_codecs demo_nonces demo_chain demo_data demo_dir"

text \<open>
  C37. \<^verbatim>\<open>anzen init\<close> leaves a well-formed vault. When it succeeds, the configuration on disk is
  well formed (\<open>vault_ok\<close>: the keys parse, the descriptor and address are the vault's on the requested
  network, the recovery delays are the fixed ones) with both limits off, and the cloud backup on disk
  opens with the hardware wallet's seed to a payload that validates against this configuration.
\<close>

theorem initialized_vault_is_well_formed:
  assumes "key_text_ok (m_lib M) (m_keys M)" and "pgp_correct (m_pgp M)" and "codec_ok (config_codec (m_codecs M))"
    and "codec_ok (backup_codec (m_codecs M))" and "cli_initialize_vault M data_dir network w = (Inr out, w')"
  shows "\<exists>config hww backup payload. load_config (m_codecs M) data_dir w' = Inr config \<and> vault_ok (m_lib M) config
    \<and> config_network config = Inr network \<and> vc_monthly_limit_sats config = 0 \<and> vc_emergency_access_limit_sats config = 0
    \<and> load_device_keys (m_lib M) (m_keys M) (m_codecs M) data_dir HWW_DEVICE_FILE w' = Inr (hww :: device_keys)
    \<and> read_json (backup_codec (m_codecs M)) (join_str data_dir PHONE_BACKUP_FILE) w' = Inr backup
    \<and> decrypt_with_hww (m_pgp M) backup (seed_bytes (m_pgp M) (dk_seed hww)) = Inr payload
    \<and> validate_against (m_lib M) (m_keys M) payload config = Inr ()"
  by (rule initialize_vault_Inr [OF assms])

theorem initialized_vault_is_well_formed_witness:
  "\<exists>out w config. cli_initialize_vault cloud_machine demo_data Regtest cloud_world = (Inr out, w)
    \<and> load_config cloud_codecs demo_data w = Inr config \<and> vault_ok demo_lib config \<and> config_network config = Inr Regtest"
proof -
  obtain out w where run: "cli_initialize_vault cloud_machine demo_data Regtest cloud_world = (Inr out, w)"
    by (rule cloud_run)
  from initialized_vault_is_well_formed [OF cloud_laws run] show ?thesis using run unfolding cloud_fields by blast
qed

section \<open>Friends and packages\<close>

lemma run_readM: "bindM (readM g) f w = (case g w of Inl e \<Rightarrow> (Inl e, w) | Inr x \<Rightarrow> f x w)"
  by (simp add: bindM_def split: sum.splits)

lemma run_liftM: "bindM (liftM q) f w = (case q of Inl e \<Rightarrow> (Inl e, w) | Inr x \<Rightarrow> f x w)"
  by (simp add: bindM_def split: sum.splits)

lemma friend_recovery_package_Inr:
  assumes "friend_recovery_package M data_dir backup key w = Inr package"
  obtains config network phone where "load_config (m_codecs M) data_dir w = Inr config"
    and "config_network config = Inr network"
    and "parse_for_network_at_index (m_lib M) (m_keys M) (prp_phone_mnemonic package) network (prp_phone_vault_key_index package)
      = Inr phone"
    and "xonly_to_string (m_lib M) (vault_pubkey phone) = phone_vault_pubkey config"
  using assms by (auto simp: friend_recovery_package_def validate_against_def split: if_splits)

text \<open>
  C38. A recovery friend can do exactly what the phone could. On a world where the friend's key opens
  the cloud backup to the secrets the phone's own file holds, \<^verbatim>\<open>social emergency-access\<close> and
  \<^verbatim>\<open>phone recover\<close> leave the same world, the transaction sent included, and give the same result
  on every path, errors included, but one: when the backend answers with the id of another transaction, each
  reports it in its own words.
\<close>

theorem social_access_equals_phone_recovery:
  assumes "friend_recovery_package M data_dir backup key w = Inr package"
    and "load_config (m_codecs M) data_dir w = Inr config" and "load_device (m_codecs M) data_dir PHONE_DEVICE_FILE w = Inr stored"
    and "df_network stored = vc_network config" and "df_mnemonic stored = prp_phone_mnemonic package"
    and "df_vault_key_index stored = prp_phone_vault_key_index package"
  shows "snd (run_social M args data_dir (EmergencyAccess backup key destination) w)
      = snd (run_phone M args data_dir network (RecoverPhone destination) w)
    \<and> (fst (run_social M args data_dir (EmergencyAccess backup key destination) w)
        = fst (run_phone M args data_dir network (RecoverPhone destination) w)
      \<or> fst (run_social M args data_dir (EmergencyAccess backup key destination) w) = Inl (Cmd EmergencyAccessTxid)
        \<and> fst (run_phone M args data_dir network (RecoverPhone destination) w) = Inl (Cmd PhoneRecoveryTxid))"
proof -
  obtain n phone where n: "config_network config = Inr n" and parse: "parse_for_network_at_index (m_lib M) (m_keys M)
      (prp_phone_mnemonic package) n (prp_phone_vault_key_index package) = Inr phone"
    using friend_recovery_package_Inr [OF assms(1)] assms(2) by (metis Inr_inject)
  have "device_network stored = Inr n" using n assms(4) by (simp add: device_network_def config_network_def)
  then have keys: "load_device_keys (m_lib M) (m_keys M) (m_codecs M) data_dir PHONE_DEVICE_FILE w = Inr phone"
    using assms(3,5,6) parse by (simp add: load_device_keys_def)
  have rec: "hot_recover (m_lib M) (m_keys M) (m_codecs M) data_dir config utxos height address w
    = bind_result (prepare_sweep (m_lib M) config utxos height SweepPhoneRecovery address)
        (\<lambda>plan. sign_recovery_sweep (m_lib M) plan SweepPhoneRecovery phone)" for utxos height address
    by (simp add: hot_recover_def keys)
  show ?thesis
    unfolding run_social_def run_phone_def social_command.case phone_command.case social_emergency_access_def recover_with_def
    by (simp add: run_readM run_liftM assms(1,2) n parse rec bind_result_def broadcast_expecting_def bindM_def
        split: sum.split prod.split)
qed

theorem social_access_equals_phone_recovery_witness:
  "\<exists>w package. friend_recovery_package cloud_machine demo_data (join_str demo_data PHONE_BACKUP_FILE) [Normal ''friend''] w = Inr package
    \<and> snd (run_social cloud_machine demo_args demo_data (EmergencyAccess (join_str demo_data PHONE_BACKUP_FILE) [Normal ''friend''] ''home'') w)
      = snd (run_phone cloud_machine demo_args demo_data Regtest (RecoverPhone ''home'') w)"
proof -
  obtain w where "cloud_check w = Inr ()" by (rule cloud_run)
  then obtain package config stored where
    p: "friend_recovery_package cloud_machine demo_data (join_str demo_data PHONE_BACKUP_FILE) [Normal ''friend''] w = Inr package"
    and c: "load_config (m_codecs cloud_machine) demo_data w = Inr config"
    and f: "load_device (m_codecs cloud_machine) demo_data PHONE_DEVICE_FILE w = Inr stored"
    and eqs: "df_network stored = vc_network config" "df_mnemonic stored = prp_phone_mnemonic package"
      "df_vault_key_index stored = prp_phone_vault_key_index package"
    by (auto simp: cloud_check_def cloud_machine_def split: if_splits)
  from social_access_equals_phone_recovery [OF p c f eqs] show ?thesis using p by blast
qed

lemma demo_cli_laws:
  "psbt_text_ok demo_cli_codecs" "codec_ok (manifest_codec demo_cli_codecs)"
  using demo_psbt_text_ok by (auto simp: psbt_text_ok_def codec_ok_def demo_cli_codecs_def)

text \<open>
  C39. A package carries a batch unchanged. Packing a batch directory with \<^verbatim>\<open>package_from_batch\<close>
  and unpacking it elsewhere with \<^verbatim>\<open>materialize_policy_package\<close> gives the same manifest and the same
  verdict of both validators, for every configuration, and packing again gives the same package;
  provided the names in the manifest are those of different files.
\<close>

theorem package_carries_the_batch:
  assumes "psbt_text_ok C" and "codec_ok (manifest_codec C)" and "package_from_batch C dir w = Inr package"
    and "materialize_policy_package C package dir' v = (Inr u, v')" and "names_apart dir' (pp_manifest package)"
  shows "load_manifest C dir' v' = Inr (pp_manifest package) \<and> package_from_batch C dir' v' = Inr package
    \<and> validate_batch L C config (pp_manifest package) dir' v' = validate_batch L C config (pp_manifest package) dir w
    \<and> validate_approved_batch L C config (pp_manifest package) dir' v' = validate_approved_batch L C config (pp_manifest package) dir w"
proof -
  let ?m = "pp_manifest package"
  note man = package_travels(1) [OF assms] and texts = package_travels(2) [OF assms]
  have same: "same_batch C dir dir' ?m w v'" by (simp add: same_batch_def read_psbt_text texts)
  have "config\<lparr>vc_monthly_limit_sats := vc_monthly_limit_sats config,
      vc_emergency_access_limit_sats := vc_emergency_access_limit_sats config\<rparr> = config" by simp
  moreover have "collect_psbts C dir' v' (manifest_transactions ?m) = collect_psbts C dir w (manifest_transactions ?m)"
    unfolding collect_psbts_text by (intro try_fold_cong_set) (simp add: texts)
  then have "package_from_batch C dir' v' = Inr package" using assms(3) man by (auto simp: package_from_batch_def)
  ultimately show ?thesis
    using man validate_batch_same [OF same, where config = config and x = "vc_monthly_limit_sats config" and y = "vc_emergency_access_limit_sats config"]
      validate_approved_same [OF same, where config = config and x = "vc_monthly_limit_sats config" and y = "vc_emergency_access_limit_sats config"]
    by simp
qed

theorem package_carries_the_batch_witness:
  "\<exists>w package v'. package_from_batch demo_cli_codecs demo_dir w = Inr package
    \<and> package_from_batch demo_cli_codecs demo_review v' = Inr package
    \<and> validate_batch demo_lib demo_cli_codecs demo_config (pp_manifest package) demo_review v'
      = validate_batch demo_lib demo_cli_codecs demo_config (pp_manifest package) demo_dir w"
proof -
  obtain package w v k m ps w' where offer: "demo_offer id demo_world = (Inr package, w)"
    and r: "read_artifact demo_machine (package_codec demo_cli_codecs) demo_proposal w = Inr package"
    and run: "hww_confirm_policy demo_machine demo_data demo_proposal dash False w = (Inr (Some (DPackage v k m ps)), w')"
    by (rule demo_confirms [OF honest_run_ok])
  obtain w0 where p: "package_from_batch demo_cli_codecs demo_dir w0 = Inr package"
    and d: "distinct (map (\<lambda>n. resolve (join_str demo_review n)) (''manifest.json'' # map fst (pp_psbts package)))"
    using offer by (auto simp: demo_offer_def split: if_splits)
  obtain u v1 v2 where mat: "materialize_policy_package demo_cli_codecs package demo_review v1 = (Inr u, v2)"
    using run r unfolding hww_confirm_policy_def Let_def demo_review_def by (auto simp: demo_machine_def)
  have "collect_psbts demo_cli_codecs demo_dir w0 (manifest_transactions (pp_manifest package)) = Inr (pp_psbts package)"
    using p by (auto simp: package_from_batch_def)
  from collected(1) [OF this] have "psbt_file ` set (manifest_transactions (pp_manifest package)) = set (map fst (pp_psbts package))"
    by simp
  from names_apartI [OF d this] have "names_apart demo_review (pp_manifest package)" .
  from package_carries_the_batch [OF demo_cli_laws p mat this] show ?thesis using p by blast
qed

lemma cloud_tidy: "list_all (\<lambda>k. length k < 4 \<and> k \<notin> {[], [Normal ''d''], [Normal ''d'', Normal ''phone''],
      [Normal ''d'', Normal ''phone'', Normal ''transactions'']})
      (map fst (files (snd (cli_initialize_vault cloud_machine demo_data Regtest cloud_world))))
    \<and> list_all (\<lambda>k. k \<in> {[Normal ''d''], [Normal ''d'', Normal ''cloud'']})
      (dirs (snd (cli_initialize_vault cloud_machine demo_data Regtest cloud_world)))"
  by code_simp

lemma cloud_room:
  assumes "w = snd (cli_initialize_vault cloud_machine demo_data Regtest cloud_world)"
  shows "room (activation_keys demo_lib demo_data) w"
  unfolding room_def
proof (intro ballI conjI)
  fix k assume k: "k \<in> activation_keys demo_lib demo_data"
  have "resolve demo_data = [Normal ''d'']" by code_simp
  then have "k \<notin> {[Normal ''d''], [Normal ''d'', Normal ''cloud'']}" using activation_keys_form [OF k] by auto
  moreover have "set (dirs w) \<subseteq> {[Normal ''d''], [Normal ''d'', Normal ''cloud'']}"
    using cloud_tidy unfolding assms list_all_iff by blast
  ultimately show "k \<notin> set (dirs w)" by blast
  fix q assume "q \<in> set (ancestors (resolve (butlast k)))"
  from demo_ancestors [OF k this] have "q \<notin> set (map fst (files w))"
    using cloud_tidy unfolding assms list_all_iff by fastforce
  then show "map_of (files w) q = None" by (simp add: map_of_eq_None_iff)
qed

text \<open>
  C40. An activation keeps the vault well formed: whatever the outcome of \<^verbatim>\<open>activate_policy\<close> and
  whatever writes fail, the configuration on disk still loads, is still well formed, and names the same
  network, keys and descriptor.
\<close>

theorem activation_preserves_well_formedness:
  assumes "lib_txid_text L" and "codec_ok (config_codec C)" and "room (activation_keys L data_dir) w"
    and "load_config C data_dir w = Inr config" and "vault_ok L config"
    and "activate_policy L K Y C nonces B data_dir batch_dir w = (r, w')"
  shows "\<exists>config'. load_config C data_dir w' = Inr config' \<and> vault_ok L config' \<and> vc_network config' = vc_network config
    \<and> vc_vault_descriptor config' = vc_vault_descriptor config \<and> phone_vault_pubkey config' = phone_vault_pubkey config
    \<and> hww_vault_pubkey config' = hww_vault_pubkey config"
proof -
  have "advances L C data_dir w w'" using advances_activate_policy [OF assms(1,2)] assms(6) by (metis snd_conv)
  then obtain x y where "load_config C data_dir w'
      = Inr (config\<lparr>vc_monthly_limit_sats := x, vc_emergency_access_limit_sats := y\<rparr>)"
    using assms(3,4) by (auto simp: advances_def)
  moreover have "vault_ok L (config\<lparr>vc_monthly_limit_sats := x, vc_emergency_access_limit_sats := y\<rparr>)"
    using assms(5) by (simp add: vault_ok_def limits_network)
  ultimately show ?thesis by auto
qed

theorem activation_preserves_well_formedness_witness:
  "\<exists>w r w' config'. demo_activate_cloud w = (r, w') \<and> load_config cloud_codecs demo_data w' = Inr config' \<and> vault_ok demo_lib config'"
proof -
  obtain out w where run: "cli_initialize_vault cloud_machine demo_data Regtest cloud_world = (Inr out, w)"
    by (rule cloud_run)
  have codec: "codec_ok (config_codec cloud_codecs)" by (simp add: cloud_codecs_def codec_ok_def)
  have "\<exists>config. load_config cloud_codecs demo_data w = Inr config \<and> vault_ok demo_lib config"
    using cloud_initialized [OF run] .
  then obtain config where c: "load_config cloud_codecs demo_data w = Inr config" "vault_ok demo_lib config" by blast
  obtain r w' where "demo_activate_cloud w = (r, w')" by (metis surj_pair)
  moreover from activation_preserves_well_formedness [OF demo_txid_text codec cloud_room c this [unfolded demo_activate_cloud_def]] run
  have "\<exists>config'. load_config cloud_codecs demo_data w' = Inr config' \<and> vault_ok demo_lib config'" by auto
  ultimately show ?thesis by blast
qed

end
