(* ===== verification/Spec2Isabelle.thy ===== *)
theory Spec2Isabelle
  imports Signer_Properties Wallet_Properties Signing_Properties Search_Properties Activation_Properties Command_Properties
begin

text \<open>
  \<^bold>\<open>Anzen\<close> is a Bitcoin vault held by two devices, a phone and a hardware wallet (HWW). The vault is a
  Taproot output with three leaves: both keys at once, the phone alone after 61,200 blocks, the HWW alone
  after 65,535 blocks. In a yearly ceremony the phone proposes a policy, a rollover transaction with up to
  twelve monthly allowances and an optional emergency access, all presigned, and the HWW approves it
  once; the phone then activates it and releases the allowances one by one. Small connector outputs, held
  by a controller policy either key can spend, make every step revocable. A cloud backup, sealed for the
  HWW and for recovery friends, holds the phone key. The repository also has a benchmark of the yearly
  signing work for hardware devices (\<^verbatim>\<open>cold-signer\<close>) and a Ledger application that runs it
  (\<^verbatim>\<open>ledger-app\<close>).

  \<^bold>\<open>Theories and sources\<close> (paths in the repository), in the order of their imports. A Rust function has a
  definition of its name; methods and names that clash carry a prefix of their type or module.

  \<^item> \<open>Prelude\<close>: the result type \<open>error + 'a\<close> with one constructor per failure site, checked and saturating
    machine arithmetic, ordered maps. \<open>Bitcoin_Lib\<close>: transactions, PSBTs and scripts as data, and the record
    \<open>lib\<close> of the library functions that are only called. \<open>Core_Types\<close>: \<^verbatim>\<open>src/core/mod.rs\<close>,
    \<^verbatim>\<open>src/core/types.rs\<close>. \<open>World\<close>: the file system, paths and the network as explicit state.
  \<^item> \<open>Policy\<close>, \<open>Transactions\<close>, \<open>Keys\<close>, \<open>Crypto\<close>, \<open>Storage\<close>, \<open>Social\<close>, \<open>Chain_Source\<close>: the files
    \<^verbatim>\<open>policy.rs\<close>, \<^verbatim>\<open>transactions.rs\<close>, \<^verbatim>\<open>keys.rs\<close>, \<^verbatim>\<open>crypto.rs\<close>,
    \<^verbatim>\<open>storage.rs\<close>, \<^verbatim>\<open>social.rs\<close> and \<^verbatim>\<open>chain.rs\<close> of \<^verbatim>\<open>src/core\<close>.
  \<^item> \<open>Ceremony_Templates\<close> (data, templates, fees), \<open>Ceremony_Validate\<close> (the validators) and
    \<open>Ceremony_Build\<close> (choosing amounts, building, packaging): \<^verbatim>\<open>src/core/ceremony.rs\<close>.
    \<open>Ceremony_Spec\<close>: plans, what a batch directory describes, and soundness of the validator.
    \<open>Ceremony_Complete\<close>, \<open>Ceremony_Roundtrip\<close>: what the builder writes is valid.
  \<^item> \<open>Recovery\<close>: \<^verbatim>\<open>src/core/recovery.rs\<close>. \<open>Cold_Wallet\<close>: \<^verbatim>\<open>src/cold_wallet/mod.rs\<close>.
    \<open>Hot_Db\<close>, \<open>Hot_Wallet\<close>, \<open>Vanity\<close>, \<open>Rotation\<close>: \<^verbatim>\<open>wallet.rs\<close>, \<^verbatim>\<open>mod.rs\<close> (wallet and
    vanity search) and \<^verbatim>\<open>rotation.rs\<close> of \<^verbatim>\<open>src/hot_wallet\<close>.
    \<open>Activation\<close>, \<open>Activation_Live\<close>, \<open>Package_Transport\<close>, \<open>Friends\<close> and \<open>Rotation_Safety\<close> hold the lemmas
    on activations, packages, friends and rotations.
  \<^item> \<open>Command_Line\<close>: \<^verbatim>\<open>src/main.rs\<close>, one definition per command, composed by \<open>run_phone\<close>, \<open>run_hww\<close>,
    \<open>run_social\<close>, \<open>run_node\<close> and \<open>run_main\<close>.
  \<^item> \<open>Cold_Signer\<close>: \<^verbatim>\<open>cold-signer/src/benchmark.rs\<close>; \<open>Signer_Graph\<close>, \<open>Signer_Keys\<close>: its lemmas.
    \<open>Ledger_App\<close>: \<^verbatim>\<open>ledger-app/src/main.rs\<close>, \<^verbatim>\<open>ledger-app/src/benchmark.rs\<close>; \<open>Ledger_Safety\<close>: its lemmas.
  \<^item> \<open>Demo_Lib\<close>, \<open>Demo_Laws\<close>, \<open>Demo_Run\<close>, \<open>Demo_Batch\<close>, \<open>Demo_Cli\<close>, \<open>Demo_Confirm\<close>: executable libraries that keep
    every law assumed below, and concrete ceremonies evaluated on them, for the witnesses.
  \<^item> The properties are in this theory and in \<open>Signer_Properties\<close>, \<open>Wallet_Properties\<close>, \<open>Signing_Properties\<close>,
    \<open>Search_Properties\<close>, \<open>Activation_Properties\<close> and \<open>Command_Properties\<close>.

  \<^bold>\<open>State and effects.\<close> A function with effects takes a \<open>world\<close> (files, directories, faults still to be
  injected, the addresses the hot wallet will reveal, its sync marker, the transactions the network took)
  and returns a result and the world it leaves; \<open>bindM\<close> is \<^verbatim>\<open>?\<close>, so a failure keeps what was done
  before it. Each write consumes one entry of \<open>faults\<close> and succeeds, fails before, or fails after the
  change: a property of every world is a property of every crash point. Documents on disk have an abstract
  type \<open>'b\<close> with codecs as parameters. Amounts are natural numbers with the bounds of \<^verbatim>\<open>u64\<close> written out
  where the code checks or can overflow them; bytes, keys and the masked comparison of the vanity search
  are words of their width.

  \<^bold>\<open>Libraries.\<close> \<^verbatim>\<open>rust-bitcoin\<close>, \<^verbatim>\<open>rust-miniscript\<close>, BIP39 and BIP32, the AEAD and HKDF,
  OpenPGP, SHA-256, BDK, the RPC and Electrum clients, \<^verbatim>\<open>serde_json\<close> and the Ledger SDK are parameters
  (\<open>lib\<close>, \<open>key_lib\<close>, \<open>crypto_lib\<close>, \<open>pgp_lib\<close>, \<open>bdk_lib\<close>, \<open>sha\<close>, \<open>bolos\<close>, the codecs). What the code relies on
  is stated as named predicates over them: \<open>lib_psbt_laws\<close>, \<open>lib_sign_laws\<close>, \<open>lib_size_laws\<close>,
  \<open>lib_txid_text\<close>, \<open>aead_correct\<close>, \<open>pgp_correct\<close>, \<open>codec_ok\<close>, \<open>psbt_text_ok\<close>, \<open>key_text_ok\<close>. The theories
  \<open>Demo_*\<close> show that they hold together.

  \<^bold>\<open>Interfaces.\<close> Where one part relies on another the contract is a locale, interpreted on the model: a keyed
  store and its read-back laws (\<open>store\<close>, on JSON documents and PSBT files), a frame that effects keep
  (\<open>effect_frame\<close>), the signer of script-path inputs (on the vault and the controller policy), a backend
  that answers a repeated broadcast (\<open>rebroadcaster\<close>, on both backends).

  \<^bold>\<open>What the lemmas show.\<close> The ceremony: an accepted batch is a plan that releases at most its limits (C1),
  every built batch is accepted (C2), approval follows validation and signs the whole batch (C3, C30), and a
  package carries a batch unchanged (C39). The signer and the Ledger application: graph, digests, sizes, and
  that a signature needs an approved review (C4 to C11). Encryption, keys, files and social recovery (C12 to
  C16, C38). Signing and sweeps (C17 to C20). Search, broadcast and synchronisation (C21 to C27). Activation:
  it can be repeated after any interruption and never runs ahead of the disk (C28, C29, C32, C40). Rotation
  never strands the funds (C31). The command line: consent, networks, and what a confirmation covers (C33 to
  C37). C36 is a defect: the manifest shown to the user need not be the one that is signed, because a package
  may hold a PSBT named \<^verbatim>\<open>manifest.json\<close>; the rotation of a key has the same one.

  \<^bold>\<open>Bounds.\<close> No definition uses fuel. Loops over data are structural; the choice of the monthly amount
  tries twelve allowances first and goes down to one; the vanity search is a step relation over its workers,
  which each stop at a match or at the end of their index range, and C22 bounds every interleaving. The host
  and the user of a Ledger session are functions of its history (record \<open>surroundings\<close>).

  \<^bold>\<open>Not modelled\<close>: the parsing of arguments by \<^verbatim>\<open>clap\<close>; progress reports and the text printed after a
  command; the screens and timers of the Ledger SDK beyond their events; permissions, symbolic links and
  the side files of SQLite; the transports to the servers; \<^verbatim>\<open>set_mock_time\<close> and \<^verbatim>\<open>mine\<close> of the regtest
  node, which are parameters; tests, the web site and the scripts of the end-to-end tests.
\<close>

section \<open>The ceremony\<close>

text \<open>
  C1. Soundness of \<^verbatim>\<open>validate_batch\<close>. A batch the validator accepts describes a plan of the
  abstract specification (\<open>plan_ok\<close>): at most twelve allowance transactions, each spending the previous
  one's vault output and connector at the monthly delay, the optional emergency pair, a non-dust
  remainder. Whatever subset of its transactions is ever confirmed, at most the approved number of
  monthly limits plus the emergency limit leaves the vault and controller scripts.
\<close>

theorem accepted_batch_is_a_plan:
  assumes "validate_batch L C config m dir w = Inr policy"
  shows "\<exists>controller p. batch_describes L C config m dir w policy controller p
    \<and> plan_ok L policy controller (monthly_limit_sats m) (emergency_access_limit_sats m) p
    \<and> length (plan_allowances p) \<le> 12
    \<and> sum_list (map (released policy controller) (plan_transactions p))
        \<le> length (plan_allowances p) * monthly_limit_sats m + emergency_access_limit_sats m"
proof -
  obtain controller p where "batch_describes L C config m dir w policy controller p"
    and ok: "plan_ok L policy controller (monthly_limit_sats m) (emergency_access_limit_sats m) p"
    using validate_batch_plan [OF assms] by blast
  moreover have "length (plan_allowances p) \<le> 12"
    using ok by (simp add: plan_ok_def Let_def MONTHS_PER_ROLLOVER_def)
  ultimately show ?thesis using plan_released [OF ok] by blast
qed

theorem accepted_batch_is_a_plan_witness:
  "\<exists>m w policy controller p. demo_build demo_world = (Inr m, w)
    \<and> plan_ok demo_lib policy controller (monthly_limit_sats m) (emergency_access_limit_sats m) p"
proof -
  obtain m w where run: "demo_build demo_world = (Inr m, w)" using demo_run by blast
  obtain policy where "validate_batch demo_lib demo_codecs demo_config m demo_dir w = Inr policy"
    using demo_built(1) [OF run] by blast
  from accepted_batch_is_a_plan [OF this] show ?thesis using run by blast
qed

text \<open>
  C2. Completeness. Every proposal \<^verbatim>\<open>build_policy_proposal_with_connectors\<close> returns is, in the
  world the build leaves behind, one that \<^verbatim>\<open>validate_batch\<close> accepts, and the manifest read back
  from the batch directory is the one returned.
\<close>

theorem built_batch_validates:
  assumes "lib_laws L" and "psbt_text_ok C" and "codec_ok (manifest_codec C)"
    and "config_network config = Inr network" and "good_supply L network w"
    and "length vault_utxos + length controller_utxos \<le> 2 ^ 32"
    and "build_policy_proposal_with_connectors L C config vault_utxos controller_utxos now limits dir phone w
      = (Inr m, w')"
  shows "(\<exists>policy. validate_batch L C config m dir w' = Inr policy) \<and> load_manifest C dir w' = Inr m"
  using build_validates [OF assms] by blast

theorem built_batch_validates_witness:
  "\<exists>m w. demo_build demo_world = (Inr m, w)
    \<and> (\<exists>policy. validate_batch demo_lib demo_codecs demo_config m demo_dir w = Inr policy)"
proof -
  obtain m w where run: "demo_build demo_world = (Inr m, w)" using demo_run by blast
  have "length [demo_utxo 1 12000] + length ([] :: vault_utxo list) \<le> 2 ^ 32" by simp
  from built_batch_validates [OF demo_laws demo_psbt_text_ok demo_codecs_ok(4) demo_network demo_supply this
      run [unfolded demo_build_def]] show ?thesis using run by blast
qed

text \<open>
  C3. \<^verbatim>\<open>approve_policy_for_config\<close> signs nothing and changes nothing before the batch has been
  validated: if the world differs afterwards in any way, whatever the outcome, then the manifest
  loaded and the batch passed \<^verbatim>\<open>validate_batch\<close> on the files as they were before.
\<close>

theorem approval_changes_only_validated:
  assumes "approve_policy_for_config L K C data_dir config dir w = (r, w')" and "w' \<noteq> w"
  shows "\<exists>m policy. load_manifest C dir w = Inr m \<and> validate_batch L C config m dir w = Inr policy"
  using approve_policy_for_config_validated [OF assms] .

theorem approval_changes_only_validated_witness:
  "\<exists>w r w'. approve_policy_for_config demo_lib demo_keys demo_codecs demo_data demo_config demo_dir w = (r, w')
    \<and> (\<exists>m policy. load_manifest demo_codecs demo_dir w = Inr m
      \<and> validate_batch demo_lib demo_codecs demo_config m demo_dir w = Inr policy)"
proof -
  obtain m w m' w' where run: "demo_build demo_world = (Inr m, w)" and ap: "demo_approve w = (Inr m', w')"
    by (rule demo_run)
  have "w' \<noteq> w" using demo_approval_changes [OF run ap] .
  from approval_changes_only_validated [OF ap [unfolded demo_approve_def] this] show ?thesis
    using ap [unfolded demo_approve_def] by blast
qed

end
